(* ===== verification/Prelude.thy ===== *)
theory Prelude
  imports Main
begin

text \<open>
  What every component of the development shares: the errors the services throw, the two effect
  types (a database transaction, which rolls back when it throws, and a service call, which keeps
  what its committed transactions wrote), the query combinators over tables kept as lists of rows,
  the string helpers of JavaScript the code uses, and the \<open>preserves\<close> calculus by which an
  invariant of the database is carried through a whole service method.
\<close>

named_theorems pres_intros
named_theorems run_simps
named_theorems table_simps

section \<open>Names\<close>

type_synonym uuid = string

text \<open>A point in time is a number of milliseconds since the epoch, as \<open>Date.getTime()\<close> gives it.\<close>

type_synonym time = int

section \<open>Errors\<close>

text \<open>
  The HTTP exceptions of \<^verbatim>\<open>@nestjs/common\<close> that the services throw, and the errors the database
  client raises: a violated unique index (code P2002), a violated foreign key (P2003), a row that
  \<open>findUniqueOrThrow\<close>, \<open>update\<close> or \<open>delete\<close> does not find (P2025), an argument of the wrong
  type, a required relation that row level security hides, a 32-bit column that would overflow, and the
  plain \<open>Error\<close> (or \<open>RangeError\<close>) of JavaScript.
\<close>

datatype error =
    BadRequest string
  | NotFound string
  | Forbidden string
  | Unauthorized string
  | Conflict string
  | PrismaP2002
  | PrismaP2003
  | PrismaP2025
  | PrismaValidation
  | InconsistentResult
  | IntegerOutOfRange
  | PlainError string

text \<open>\<open>err.message\<close>; the text the database client composes is left empty.\<close>

fun message_of :: "error \<Rightarrow> string" where
  "message_of (BadRequest m) = m"
| "message_of (NotFound m) = m"
| "message_of (Forbidden m) = m"
| "message_of (Unauthorized m) = m"
| "message_of (Conflict m) = m"
| "message_of (PlainError m) = m"
| "message_of _ = []"

section \<open>Transactions and service calls\<close>

type_synonym ('s, 'a) tx = "'s \<Rightarrow> error + ('a \<times> 's)"
type_synonym ('s, 'a) svc = "'s \<Rightarrow> (error + 'a) \<times> 's"

definition tx_return :: "'a \<Rightarrow> ('s, 'a) tx" where
  "tx_return a s = Inr (a, s)"

definition tx_throw :: "error \<Rightarrow> ('s, 'a) tx" where
  "tx_throw e s = Inl e"

definition tx_bind :: "('s, 'a) tx \<Rightarrow> ('a \<Rightarrow> ('s, 'b) tx) \<Rightarrow> ('s, 'b) tx" where
  "tx_bind m f s = (case m s of Inl e \<Rightarrow> Inl e | Inr (a, s') \<Rightarrow> f a s')"

definition tx_gets :: "('s \<Rightarrow> 'a) \<Rightarrow> ('s, 'a) tx" where
  "tx_gets f s = Inr (f s, s)"

definition tx_modify :: "('s \<Rightarrow> 's) \<Rightarrow> ('s, unit) tx" where
  "tx_modify f s = Inr ((), f s)"

text \<open>Reading the state a step starts from.\<close>

definition tx_read :: "('s \<Rightarrow> ('s, 'a) tx) \<Rightarrow> ('s, 'a) tx" where
  "tx_read f s = f s s"

definition svc_return :: "'a \<Rightarrow> ('s, 'a) svc" where
  "svc_return a s = (Inr a, s)"

definition svc_throw :: "error \<Rightarrow> ('s, 'a) svc" where
  "svc_throw e s = (Inl e, s)"

definition svc_bind :: "('s, 'a) svc \<Rightarrow> ('a \<Rightarrow> ('s, 'b) svc) \<Rightarrow> ('s, 'b) svc" where
  "svc_bind m f s = (case m s of (Inl e, s') \<Rightarrow> (Inl e, s') | (Inr a, s') \<Rightarrow> f a s')"

definition svc_modify :: "('s \<Rightarrow> 's) \<Rightarrow> ('s, unit) svc" where
  "svc_modify f s = (Inr (), f s)"

definition svc_read :: "('s \<Rightarrow> ('s, 'a) svc) \<Rightarrow> ('s, 'a) svc" where
  "svc_read f s = f s s"

text \<open>A \<open>try ... catch\<close>: the handler runs on the state the failed call left behind.\<close>

definition svc_catch :: "('s, 'a) svc \<Rightarrow> (error \<Rightarrow> ('s, 'a) svc) \<Rightarrow> ('s, 'a) svc" where
  "svc_catch m h s = (case m s of (Inl e, s') \<Rightarrow> h e s' | (Inr a, s') \<Rightarrow> (Inr a, s'))"

text \<open>
  \<open>PrismaService.withTenant\<close>: the callback runs in one transaction. When it throws, everything it
  wrote is rolled back and the exception goes on to the caller.
\<close>

definition with_tenant :: "('s, 'a) tx \<Rightarrow> ('s, 'a) svc" where
  "with_tenant t s = (case t s of Inl e \<Rightarrow> (Inl e, s) | Inr (a, s') \<Rightarrow> (Inr a, s'))"

text \<open>A \<open>for\<close> loop whose body is a service call; the first exception leaves the loop.\<close>

fun svc_foreach :: "'b list \<Rightarrow> ('b \<Rightarrow> ('s, unit) svc) \<Rightarrow> ('s, unit) svc" where
  "svc_foreach [] f = svc_return ()"
| "svc_foreach (x # xs) f = svc_bind (f x) (\<lambda>_. svc_foreach xs f)"

fun tx_foreach :: "'b list \<Rightarrow> ('b \<Rightarrow> ('s, unit) tx) \<Rightarrow> ('s, unit) tx" where
  "tx_foreach [] f = tx_return ()"
| "tx_foreach (x # xs) f = tx_bind (f x) (\<lambda>_. tx_foreach xs f)"

lemmas tx_defs = tx_return_def tx_throw_def tx_bind_def tx_gets_def tx_modify_def tx_read_def
lemmas svc_defs = svc_return_def svc_throw_def svc_bind_def svc_modify_def svc_catch_def
  svc_read_def with_tenant_def

declare tx_defs [run_simps] svc_defs [run_simps]

lemma tx_bind_Inr_iff:
  "tx_bind m f s = Inr (b, t) \<longleftrightarrow> (\<exists>a s'. m s = Inr (a, s') \<and> f a s' = Inr (b, t))"
  by (auto simp: tx_bind_def split: sum.splits)

lemma svc_bind_Inr_iff:
  "svc_bind m f s = (Inr b, t) \<longleftrightarrow> (\<exists>a s'. m s = (Inr a, s') \<and> f a s' = (Inr b, t))"
  by (auto simp: svc_bind_def split: prod.splits sum.splits)

lemma svc_bindE:
  assumes "svc_bind m f s = (Inr b, t)"
  obtains a s' where "m s = (Inr a, s')" and "f a s' = (Inr b, t)"
  using assms unfolding svc_bind_Inr_iff by blast

lemma with_tenant_Inr_iff: "with_tenant t s = (Inr a, s') \<longleftrightarrow> t s = Inr (a, s')"
  by (auto simp: with_tenant_def split: sum.splits)

lemma with_tenant_Inl_state: "with_tenant t s = (Inl e, s') \<Longrightarrow> s' = s"
  by (auto simp: with_tenant_def split: sum.splits)

lemma svc_bind_Inr [run_simps]: "m s = (Inr a, s') \<Longrightarrow> svc_bind m f s = f a s'"
  by (simp add: svc_bind_def)

lemma svc_bind_Inl [run_simps]: "m s = (Inl e, s') \<Longrightarrow> svc_bind m f s = (Inl e, s')"
  by (simp add: svc_bind_def)

text \<open>Did a call return? For closed examples.\<close>

definition returns :: "(error + 'a) \<times> 's \<Rightarrow> bool" where
  "returns p = (case fst p of Inl e \<Rightarrow> False | Inr a \<Rightarrow> True)"

lemma returnsE:
  assumes "returns p"
  obtains a where "p = (Inr a, snd p)"
  using assms by (cases p) (auto simp: returns_def split: sum.splits)

definition tx_result :: "error + ('a \<times> 's) \<Rightarrow> 'a option" where
  "tx_result r = (case r of Inl e \<Rightarrow> None | Inr p \<Rightarrow> Some (fst p))"

lemma tx_resultE:
  assumes "tx_result r = Some a"
  obtains s where "r = Inr (a, s)"
  using assms by (auto simp: tx_result_def split: sum.splits)

definition result_of :: "(error + 'a) \<times> 's \<Rightarrow> 'a option" where
  "result_of p = (case fst p of Inl e \<Rightarrow> None | Inr a \<Rightarrow> Some a)"

lemma result_ofD: "result_of p = Some a \<Longrightarrow> p = (Inr a, snd p)"
  by (cases p) (auto simp: result_of_def split: sum.splits)

lemma fails_with: "fst p = Inl err \<Longrightarrow> p = (Inl err, snd p)"
  by (cases p) simp

section \<open>Invariants carried through a call\<close>

definition preserves_tx :: "('s \<Rightarrow> bool) \<Rightarrow> ('s, 'a) tx \<Rightarrow> bool" where
  "preserves_tx I t \<longleftrightarrow> (\<forall>s a s'. I s \<longrightarrow> t s = Inr (a, s') \<longrightarrow> I s')"

definition preserves :: "('s \<Rightarrow> bool) \<Rightarrow> ('s, 'a) svc \<Rightarrow> bool" where
  "preserves I m \<longleftrightarrow> (\<forall>s. I s \<longrightarrow> I (snd (m s)))"

lemma preserves_txI:
  "(\<And>s a s'. I s \<Longrightarrow> t s = Inr (a, s') \<Longrightarrow> I s') \<Longrightarrow> preserves_tx I t"
  by (auto simp: preserves_tx_def)

lemma preserves_txD: "preserves_tx I t \<Longrightarrow> I s \<Longrightarrow> t s = Inr (a, s') \<Longrightarrow> I s'"
  by (auto simp: preserves_tx_def)

lemma preservesI: "(\<And>s. I s \<Longrightarrow> I (snd (m s))) \<Longrightarrow> preserves I m"
  by (auto simp: preserves_def)

lemma preservesD: "preserves I m \<Longrightarrow> I s \<Longrightarrow> I (snd (m s))"
  by (auto simp: preserves_def)

lemma preserves_tx_return [pres_intros]: "preserves_tx I (tx_return a)"
  by (simp add: preserves_tx_def tx_return_def)

lemma preserves_tx_throw [pres_intros]: "preserves_tx I (tx_throw e)"
  by (simp add: preserves_tx_def tx_throw_def)

lemma preserves_tx_gets [pres_intros]: "preserves_tx I (tx_gets f)"
  by (simp add: preserves_tx_def tx_gets_def)

lemma preserves_tx_read [pres_intros]:
  "(\<And>x. preserves_tx I (f x)) \<Longrightarrow> preserves_tx I (tx_read f)"
  by (simp add: preserves_tx_def tx_read_def)

lemma preserves_read [pres_intros]: "(\<And>x. preserves I (f x)) \<Longrightarrow> preserves I (svc_read f)"
  by (simp add: preserves_def svc_read_def)

lemma preserves_tx_modify: "(\<And>s. I s \<Longrightarrow> I (f s)) \<Longrightarrow> preserves_tx I (tx_modify f)"
  by (simp add: preserves_tx_def tx_modify_def)

lemma preserves_tx_bind [pres_intros]:
  "preserves_tx I m \<Longrightarrow> (\<And>a. preserves_tx I (f a)) \<Longrightarrow> preserves_tx I (tx_bind m f)"
  unfolding preserves_tx_def tx_bind_Inr_iff by blast

lemma preserves_return [pres_intros]: "preserves I (svc_return a)"
  by (simp add: preserves_def svc_return_def)

lemma preserves_throw [pres_intros]: "preserves I (svc_throw e)"
  by (simp add: preserves_def svc_throw_def)

lemma preserves_modify: "(\<And>s. I s \<Longrightarrow> I (f s)) \<Longrightarrow> preserves I (svc_modify f)"
  by (simp add: preserves_def svc_modify_def)

lemma preserves_bind [pres_intros]:
  assumes "preserves I m" and "\<And>a. preserves I (f a)"
  shows "preserves I (svc_bind m f)"
proof (rule preservesI)
  fix s assume "I s"
  then have "I (snd (m s))" using assms(1) by (rule preservesD [rotated])
  then show "I (snd (svc_bind m f s))"
    using assms(2) by (auto simp: svc_bind_def preserves_def split: prod.splits sum.splits)
qed

lemma preserves_catch [pres_intros]:
  assumes "preserves I m" and "\<And>e. preserves I (h e)"
  shows "preserves I (svc_catch m h)"
proof (rule preservesI)
  fix s assume "I s"
  then have "I (snd (m s))" using assms(1) by (rule preservesD [rotated])
  then show "I (snd (svc_catch m h s))"
    using assms(2) by (auto simp: svc_catch_def preserves_def split: prod.splits sum.splits)
qed

lemma preserves_with_tenant [pres_intros]:
  "preserves_tx I t \<Longrightarrow> preserves I (with_tenant t)"
  by (auto simp: preserves_def preserves_tx_def with_tenant_def split: sum.splits)

lemma preserves_foreach [pres_intros]:
  assumes "\<And>x. preserves I (f x)"
  shows "preserves I (svc_foreach xs f)"
  by (induction xs) (simp_all add: assms pres_intros)

lemma preserves_tx_foreach [pres_intros]:
  assumes "\<And>x. preserves_tx I (f x)"
  shows "preserves_tx I (tx_foreach xs f)"
  by (induction xs) (simp_all add: assms pres_intros)

lemma preserves_if [pres_intros]:
  "preserves I m \<Longrightarrow> preserves I n \<Longrightarrow> preserves I (if b then m else n)"
  by simp

lemma preserves_tx_if [pres_intros]:
  "preserves_tx I m \<Longrightarrow> preserves_tx I n \<Longrightarrow> preserves_tx I (if b then m else n)"
  by simp

lemma preserves_case_option [pres_intros]:
  "preserves I m \<Longrightarrow> (\<And>x. preserves I (n x)) \<Longrightarrow>
   preserves I (case v of None \<Rightarrow> m | Some x \<Rightarrow> n x)"
  by (cases v) simp_all

lemma preserves_tx_case_option [pres_intros]:
  "preserves_tx I m \<Longrightarrow> (\<And>x. preserves_tx I (n x)) \<Longrightarrow>
   preserves_tx I (case v of None \<Rightarrow> m | Some x \<Rightarrow> n x)"
  by (cases v) simp_all

lemma preserves_case_prod [pres_intros]:
  "(\<And>x y. preserves I (n x y)) \<Longrightarrow> preserves I (case v of (x, y) \<Rightarrow> n x y)"
  by (cases v) simp_all

lemma preserves_tx_case_prod [pres_intros]:
  "(\<And>x y. preserves_tx I (n x y)) \<Longrightarrow> preserves_tx I (case v of (x, y) \<Rightarrow> n x y)"
  by (cases v) simp_all

lemma preserves_tx_let [pres_intros]:
  "(\<And>x. preserves_tx I (f x)) \<Longrightarrow> preserves_tx I (let x = v in f x)"
  by simp

lemma preserves_let [pres_intros]:
  "(\<And>x. preserves I (f x)) \<Longrightarrow> preserves I (let x = v in f x)"
  by simp

text \<open>An invariant is blind to a field when writing that field cannot break it.\<close>

definition blind :: "('f \<Rightarrow> 's \<Rightarrow> 's) \<Rightarrow> ('s \<Rightarrow> bool) \<Rightarrow> bool" where
  "blind upd I \<longleftrightarrow> (\<forall>f s. I s \<longrightarrow> I (upd f s))"

lemma blindD: "blind upd I \<Longrightarrow> I s \<Longrightarrow> I (upd f s)"
  by (simp add: blind_def)

lemma preserves_tx_blind: "blind upd I \<Longrightarrow> preserves_tx I (tx_modify (upd f))"
  by (simp add: preserves_tx_def tx_modify_def blind_def)

section \<open>Tables\<close>

text \<open>
  A table is a list of rows in insertion order. \<open>findFirst\<close> is \<^const>\<open>List.find\<close>, \<open>count\<close> the
  length of the filtered list, and \<open>updateMany\<close> changes the rows that satisfy its condition and
  says how many there were.
\<close>

definition update_rows :: "('r \<Rightarrow> bool) \<Rightarrow> ('r \<Rightarrow> 'r) \<Rightarrow> 'r list \<Rightarrow> 'r list" where
  "update_rows P f rows = map (\<lambda>r. if P r then f r else r) rows"

definition count_rows :: "('r \<Rightarrow> bool) \<Rightarrow> 'r list \<Rightarrow> nat" where
  "count_rows P rows = length (filter P rows)"

definition tx_update_many ::
  "('s \<Rightarrow> 'r list) \<Rightarrow> (('r list \<Rightarrow> 'r list) \<Rightarrow> 's \<Rightarrow> 's) \<Rightarrow> ('r \<Rightarrow> bool) \<Rightarrow> ('r \<Rightarrow> 'r) \<Rightarrow> ('s, nat) tx" where
  "tx_update_many tab upd P f s = Inr (count_rows P (tab s), upd (update_rows P f) s)"

lemma preserves_tx_update_many [pres_intros]:
  "blind upd I \<Longrightarrow> preserves_tx I (tx_update_many tab upd P f)"
  by (simp add: preserves_tx_def tx_update_many_def blind_def)

text \<open>\<open>update\<close> of one row: an error when there is none, the changed row otherwise.\<close>

definition tx_update_one ::
  "('s \<Rightarrow> 'r list) \<Rightarrow> (('r list \<Rightarrow> 'r list) \<Rightarrow> 's \<Rightarrow> 's) \<Rightarrow> ('r \<Rightarrow> bool) \<Rightarrow> ('r \<Rightarrow> 'r) \<Rightarrow> ('s, 'r) tx" where
  "tx_update_one tab upd P f s = (case List.find P (tab s) of
     None \<Rightarrow> Inl PrismaP2025
   | Some r \<Rightarrow> Inr (f r, upd (update_rows P f) s))"

lemma preserves_tx_update_one [pres_intros]:
  "blind upd I \<Longrightarrow> preserves_tx I (tx_update_one tab upd P f)"
  by (auto simp: preserves_tx_def tx_update_one_def blind_def split: option.splits)

text \<open>\<open>findFirstOrThrow\<close>.\<close>

definition tx_find_or_throw :: "('s \<Rightarrow> 'r list) \<Rightarrow> ('r \<Rightarrow> bool) \<Rightarrow> ('s, 'r) tx" where
  "tx_find_or_throw tab P s = (case List.find P (tab s) of None \<Rightarrow> Inl PrismaP2025 | Some r \<Rightarrow> Inr (r, s))"

lemma preserves_tx_find_or_throw [pres_intros]: "preserves_tx I (tx_find_or_throw tab P)"
  by (auto simp: preserves_tx_def tx_find_or_throw_def split: option.splits)

lemma find_SomeD: "List.find P xs = Some x \<Longrightarrow> x \<in> set xs \<and> P x"
  by (induction xs) (auto split: if_splits)

lemma find_not_None: "x \<in> set xs \<Longrightarrow> P x \<Longrightarrow> List.find P xs \<noteq> None"
  by (auto simp: find_None_iff)

lemma find_ex: "x \<in> set xs \<Longrightarrow> P x \<Longrightarrow> \<exists>y. List.find P xs = Some y"
  using find_not_None [of x xs P] by simp

lemma distinct_map_eq: "distinct (map f xs) \<Longrightarrow> x \<in> set xs \<Longrightarrow> y \<in> set xs \<Longrightarrow> f x = f y \<Longrightarrow> x = y"
  by (auto simp: distinct_map inj_on_def)

lemma find_append: "List.find P (xs @ ys) = (case List.find P xs of Some x \<Rightarrow> Some x | None \<Rightarrow> List.find P ys)"
  by (induction xs) auto

lemma find_cong_set:
  "(\<And>x. x \<in> set xs \<Longrightarrow> P x \<longleftrightarrow> Q x) \<Longrightarrow> List.find P xs = List.find Q xs"
  by (induction xs) auto

lemma count_rows_zero_iff [table_simps]: "count_rows P xs = 0 \<longleftrightarrow> (\<forall>x\<in>set xs. \<not> P x)"
  by (auto simp: count_rows_def filter_empty_conv)

lemma set_update_rows [table_simps]:
  "set (update_rows P f xs) = {if P x then f x else x | x. x \<in> set xs}"
  by (auto simp: update_rows_def)

lemma length_update_rows [simp]: "length (update_rows P f xs) = length xs"
  by (simp add: update_rows_def)

lemma map_update_rows_same:
  "(\<And>x. g (f x) = g x) \<Longrightarrow> map g (update_rows P f xs) = map g xs"
  by (simp add: update_rows_def)

lemma update_rows_none: "(\<forall>x\<in>set xs. \<not> P x) \<Longrightarrow> update_rows P f xs = xs"
  by (induction xs) (auto simp: update_rows_def)

lemma find_update_rows:
  assumes "\<And>x. Q (f x) \<longleftrightarrow> Q x"
  shows "List.find Q (update_rows P f xs) =
    map_option (\<lambda>x. if P x then f x else x) (List.find Q xs)"
  using assms by (induction xs) (auto simp: update_rows_def)

section \<open>Columns\<close>

text \<open>An \<open>Int\<close> column is a 32-bit signed integer of the database.\<close>

definition int4_ok :: "int \<Rightarrow> bool" where
  "int4_ok n \<longleftrightarrow> -2147483648 \<le> n \<and> n \<le> 2147483647"

section \<open>JavaScript strings and values\<close>

text \<open>An optional string is truthy when it is present and not empty.\<close>

definition truthy_str :: "string option \<Rightarrow> bool" where
  "truthy_str v \<longleftrightarrow> (case v of None \<Rightarrow> False | Some x \<Rightarrow> x \<noteq> [])"

definition is_js_space :: "char \<Rightarrow> bool" where
  "is_js_space c \<longleftrightarrow> of_char c \<in> {9, 10, 11, 12, 13, 32, 160 :: nat}"

definition js_trim :: "string \<Rightarrow> string" where
  "js_trim x = rev (dropWhile is_js_space (rev (dropWhile is_js_space x)))"

definition to_upper_char :: "char \<Rightarrow> char" where
  "to_upper_char c =
     (let n = of_char c :: nat in if 97 \<le> n \<and> n \<le> 122 then char_of (n - 32) else c)"

definition to_upper :: "string \<Rightarrow> string" where
  "to_upper x = map to_upper_char x"

definition to_lower_char :: "char \<Rightarrow> char" where
  "to_lower_char c =
     (let n = of_char c :: nat in if 65 \<le> n \<and> n \<le> 90 then char_of (n + 32) else c)"

definition to_lower :: "string \<Rightarrow> string" where
  "to_lower x = map to_lower_char x"

text \<open>\<open>x || y\<close> on strings: the second when the first is empty.\<close>

definition or_str :: "string \<Rightarrow> string \<Rightarrow> string" where
  "or_str x y = (if x = [] then y else x)"

text \<open>\<open>x ?? y\<close>: the default when the value is missing.\<close>

definition patched :: "'a option \<Rightarrow> 'a \<Rightarrow> 'a" where
  "patched v old = (case v of None \<Rightarrow> old | Some x \<Rightarrow> x)"

lemma patched_simps [simp]: "patched None y = y" "patched (Some x) y = x"
  by (simp_all add: patched_def)

text \<open>\<open>x?.trim() || null\<close>.\<close>

definition trim_or_null :: "string option \<Rightarrow> string option" where
  "trim_or_null v = (case v of None \<Rightarrow> None
     | Some x \<Rightarrow> (let t = js_trim x in if t = [] then None else Some t))"

definition is_digit :: "char \<Rightarrow> bool" where
  "is_digit c \<longleftrightarrow> 48 \<le> (of_char c :: nat) \<and> (of_char c :: nat) \<le> 57"

definition digit_char :: "nat \<Rightarrow> char" where
  "digit_char d = char_of (48 + d)"

fun show_nat :: "nat \<Rightarrow> string" where
  "show_nat n = (if n < 10 then [digit_char n] else show_nat (n div 10) @ [digit_char (n mod 10)])"

declare show_nat.simps [simp del]

definition show_int :: "int \<Rightarrow> string" where
  "show_int i = (if i < 0 then CHR ''-'' # show_nat (nat (- i)) else show_nat (nat i))"

text \<open>\<open>String.prototype.includes\<close>: a contiguous substring.\<close>

fun starts_with :: "string \<Rightarrow> string \<Rightarrow> bool" where
  "starts_with [] _ = True"
| "starts_with (_ # _) [] = False"
| "starts_with (p # ps) (x # xs) = (p = x \<and> starts_with ps xs)"

fun str_contains :: "string \<Rightarrow> string \<Rightarrow> bool" where
  "str_contains p [] = (p = [])"
| "str_contains p (x # xs) = (starts_with p (x # xs) \<or> str_contains p xs)"

lemma js_trim_idem_empty [simp]: "js_trim [] = []"
  by (simp add: js_trim_def)

lemma truthy_str_simps [simp]: "\<not> truthy_str None" "truthy_str (Some x) \<longleftrightarrow> x \<noteq> []"
  by (simp_all add: truthy_str_def)

lemma dropWhile_rev_idem:
  "dropWhile P (rev (dropWhile P (rev xs))) = rev (dropWhile P (rev (dropWhile P xs)))"
proof (induction xs)
  case Nil
  then show ?case by simp
next
  case (Cons x xs)
  show ?case
  proof (cases "P x")
    case True
    then show ?thesis using Cons.IH by (cases "\<forall>y\<in>set xs. P y") (auto simp: dropWhile_append dest: set_dropWhileD)
  next
    case False
    then show ?thesis by (auto simp: dropWhile_append)
  qed
qed

lemma js_trim_idem: "js_trim (js_trim x) = js_trim x"
  by (simp add: js_trim_def dropWhile_rev_idem)

lemma js_trim_clean: "(\<And>c. c \<in> set x \<Longrightarrow> \<not> is_js_space c) \<Longrightarrow> js_trim x = x"
proof -
  assume "\<And>c. c \<in> set x \<Longrightarrow> \<not> is_js_space c"
  then have "dropWhile is_js_space x = x" "dropWhile is_js_space (rev x) = rev x"
    by (metis dropWhile_eq_self_iff list.set_sel(1))
      (metis \<open>\<And>c. c \<in> set x \<Longrightarrow> \<not> is_js_space c\<close> dropWhile_eq_self_iff list.set_sel(1) set_rev)
  then show ?thesis by (simp add: js_trim_def)
qed

text \<open>The digits of a number.\<close>

lemma digit_char_code [simp]: "d < 10 \<Longrightarrow> (of_char (digit_char d) :: nat) = 48 + d"
  by (simp add: digit_char_def)

lemma is_digit_digit_char [simp]: "d < 10 \<Longrightarrow> is_digit (digit_char d)"
  by (simp add: is_digit_def)

lemma digit_not_space [simp]: "is_digit c \<Longrightarrow> \<not> is_js_space c"
  by (auto simp: is_digit_def is_js_space_def)

lemma show_nat_digits: "list_all is_digit (show_nat n)"
  by (induction n rule: show_nat.induct) (subst show_nat.simps, simp)

lemma show_nat_not_Nil [simp]: "show_nat n \<noteq> []"
  by (subst show_nat.simps) simp

lemma js_trim_digits: "list_all is_digit x \<Longrightarrow> js_trim x = x"
  by (intro js_trim_clean) (auto simp: list_all_iff)

end
