(* ===== verification/Schema.thy ===== *)
theory Schema
  imports Prelude
begin

text \<open>
  The persistent state: one record per table of \<^verbatim>\<open>packages/database/prisma/models\<close> that the loyalty
  services read or write, with the columns they use, and the record \<open>db\<close> of all tables. The
  Redis store and the log of fire-and-forget side effects (events, webhooks,
  marketing syncs, notifications) are further fields. Row level security is written out: every
  query of a tenant transaction names the tenant in its condition.
\<close>

section \<open>JSON values\<close>

text \<open>A \<open>Json\<close> column. Numbers are integers here; an object keeps its keys in order.\<close>

datatype json =
    JNull
  | JBool bool
  | JNum int
  | JStr string
  | JArr "json list"
  | JObj "(string \<times> json) list"

type_synonym json_record = "(string \<times> json) list"

section \<open>Rows\<close>

record org_row =
  og_id :: uuid
  og_name :: string
  og_slug :: string
  og_logoUrl :: "string option"
  og_brandPrimaryColor :: "string option"
  og_brandAccentColor :: "string option"
  og_patronCrmEnabled :: bool
  og_productSku :: "string option"

text \<open>A birthday is a day number since the epoch, consent is \<open>GRANTED\<close> or not.\<close>

record customer_row =
  cu_id :: uuid
  cu_orgId :: uuid
  cu_name :: string
  cu_email :: "string option"
  cu_phone :: "string option"
  cu_externalId :: "string option"
  cu_smsConsent :: string
  cu_emailConsent :: string
  cu_birthday :: "int option"
  cu_gender :: "string option"
  cu_city :: "string option"
  cu_metadata :: json

record ticket_row =
  tk_orgId :: uuid
  tk_customerId :: "uuid option"
  tk_customerPhone :: "string option"
  tk_customerEmail :: "string option"
  tk_bookedAt :: time
  tk_status :: string
  tk_completedAt :: "time option"

record visit_row =
  vs_orgId :: uuid
  vs_customerPhone :: "string option"
  vs_customerEmail :: "string option"
  vs_startedAt :: time

record appointment_row =
  ap_orgId :: uuid
  ap_customerPhone :: "string option"
  ap_customerEmail :: "string option"
  ap_scheduledAt :: time
  ap_status :: string

record review_row =
  rv_id :: uuid
  rv_orgId :: uuid
  rv_customerName :: string
  rv_customerEmail :: "string option"
  rv_rating :: int
  rv_comment :: "string option"
  rv_status :: string

record program_row =
  pr_id :: uuid
  pr_orgId :: uuid
  pr_enabled :: bool
  pr_displayName :: "string option"
  pr_pointsCurrencyName :: string
  pr_defaultEarnPoints :: int
  pr_referralBonusPoints :: int
  pr_referredBonusPoints :: int
  pr_pointsExpiryDays :: "int option"
  pr_displayCurrencyCode :: string
  pr_defaultLocale :: string

record tier_row =
  ti_id :: uuid
  ti_orgId :: uuid
  ti_programId :: uuid
  ti_name :: string
  ti_slug :: string
  ti_minLifetimePoints :: int
  ti_sortOrder :: int
  ti_color :: "string option"

record rule_row =
  er_id :: uuid
  er_orgId :: uuid
  er_programId :: uuid
  er_name :: string
  er_eventType :: string
  er_points :: int
  er_active :: bool
  er_conditions :: json_record
  er_createdAt :: time

record account_row =
  ac_id :: uuid
  ac_orgId :: uuid
  ac_customerId :: uuid
  ac_tierId :: "uuid option"
  ac_pointsBalance :: int
  ac_lifetimePointsEarned :: int
  ac_lifetimePointsBurned :: int
  ac_lifetimeValueCents :: int
  ac_referralCode :: string
  ac_totalVisits :: int
  ac_healthScore :: int
  ac_churnRisk :: string

record ledger_row =
  le_orgId :: uuid
  le_accountId :: uuid
  le_type :: string
  le_points :: int
  le_balanceAfter :: int
  le_sourceType :: "string option"
  le_sourceId :: "string option"
  le_description :: "string option"
  le_createdAt :: time

record reward_row =
  rw_id :: uuid
  rw_orgId :: uuid
  rw_name :: string
  rw_type :: string
  rw_pointsCost :: int
  rw_stock :: "int option"
  rw_active :: bool
  rw_validFrom :: "time option"
  rw_validUntil :: "time option"

record redemption_row =
  rd_id :: uuid
  rd_orgId :: uuid
  rd_accountId :: uuid
  rd_rewardId :: uuid
  rd_pointsSpent :: int
  rd_status :: string
  rd_redeemedAt :: time
  rd_fulfilledAt :: "time option"

record coupon_row =
  co_id :: uuid
  co_orgId :: uuid
  co_code :: string
  co_name :: string
  co_type :: string
  co_value :: int
  co_minPurchaseCents :: "int option"
  co_maxUses :: "int option"
  co_usedCount :: int
  co_active :: bool
  co_validFrom :: "time option"
  co_validUntil :: "time option"
  co_tierSlugs :: "string list"

record coupon_redemption_row =
  cr_orgId :: uuid
  cr_couponId :: uuid
  cr_accountId :: uuid
  cr_redeemedAt :: time

record wallet_row =
  wa_id :: uuid
  wa_orgId :: uuid
  wa_accountId :: uuid
  wa_balanceCents :: int

record wallet_tx_row =
  wt_orgId :: uuid
  wt_walletId :: uuid
  wt_type :: string
  wt_amountCents :: int
  wt_balanceAfter :: int
  wt_description :: "string option"
  wt_sourceType :: "string option"
  wt_createdAt :: time

record referral_row =
  rf_id :: uuid
  rf_orgId :: uuid
  rf_referrerAccountId :: uuid
  rf_referredCustomerId :: uuid
  rf_referredAccountId :: "uuid option"
  rf_status :: string
  rf_referrerBonusPoints :: int
  rf_referredBonusPoints :: int
  rf_completedAt :: "time option"

record challenge_row =
  ch_id :: uuid
  ch_orgId :: uuid
  ch_name :: string
  ch_targetType :: string
  ch_targetValue :: int
  ch_rewardPoints :: int
  ch_active :: bool

record progress_row =
  cp_orgId :: uuid
  cp_accountId :: uuid
  cp_challengeId :: uuid
  cp_progress :: int
  cp_completedAt :: "time option"

record badge_row =
  bd_id :: uuid
  bd_orgId :: uuid
  bd_name :: string
  bd_minVisits :: "int option"
  bd_minPoints :: "int option"
  bd_active :: bool

record badge_award_row =
  ba_orgId :: uuid
  ba_accountId :: uuid
  ba_badgeId :: uuid

record gift_card_row =
  gc_id :: uuid
  gc_orgId :: uuid
  gc_code :: string
  gc_initialBalanceCents :: int
  gc_balanceCents :: int
  gc_purchaserAccountId :: "uuid option"
  gc_recipientEmail :: "string option"
  gc_expiresAt :: "time option"

record game_play_row =
  gp_orgId :: uuid
  gp_accountId :: uuid
  gp_gameType :: string
  gp_resultLabel :: string
  gp_pointsAwarded :: int
  gp_playedAt :: time

record campaign_row =
  ca_id :: uuid
  ca_orgId :: uuid
  ca_name :: string
  ca_channel :: string
  ca_trigger :: string
  ca_status :: string
  ca_subject :: "string option"
  ca_body :: "string option"
  ca_segmentPreset :: "string option"
  ca_scheduledAt :: "time option"
  ca_sentCount :: int

record send_row =
  sn_id :: uuid
  sn_orgId :: uuid
  sn_campaignId :: uuid
  sn_accountId :: uuid
  sn_status :: string
  sn_sentAt :: "time option"
  sn_error :: "string option"
  sn_createdAt :: time

record consent_row =
  cn_orgId :: uuid
  cn_customerId :: uuid
  cn_channel :: string
  cn_purpose :: string
  cn_action :: string
  cn_legalVersion :: string

record stored_key =
  sk_hash :: string
  sk_prefix :: string
  sk_createdAt :: time
  sk_lastUsedAt :: "time option"

text \<open>A setting whose value is a stored key, or anything else (\<open>None\<close>).\<close>

record setting_row =
  st_id :: uuid
  st_orgId :: uuid
  st_key :: string
  st_scope :: string
  st_scopeId :: "uuid option"
  st_value :: "stored_key option"

section \<open>Side effects\<close>

text \<open>
  What a service starts and does not wait for. The log keeps them in order; nothing the model
  describes reads it back.
\<close>

datatype effect =
    EvTierUpgraded uuid uuid string
  | WhPointsEarned uuid uuid uuid int int "string option" "string option"
  | WhPointsRedeemed uuid uuid uuid int int "string option" "string option"
  | WhRewardRedeemed uuid uuid uuid uuid uuid int
  | WhVisitNoShow uuid uuid uuid string string
  | WhCustomerCreated uuid uuid
  | WhTierUpgraded uuid uuid uuid string
  | EvCustomerCreated uuid uuid
  | SyncProfile uuid uuid
  | SendOtp uuid string nat uuid uuid
  | SendNotification uuid string string string string uuid uuid uuid

section \<open>The database\<close>

record db =
  orgs :: "org_row list"
  customers :: "customer_row list"
  tickets :: "ticket_row list"
  visitLog :: "visit_row list"
  appointments :: "appointment_row list"
  reviews :: "review_row list"
  programs :: "program_row list"
  tiers :: "tier_row list"
  earnRules :: "rule_row list"
  accounts :: "account_row list"
  ledger :: "ledger_row list"
  rewards :: "reward_row list"
  redemptions :: "redemption_row list"
  coupons :: "coupon_row list"
  couponRedemptions :: "coupon_redemption_row list"
  wallets :: "wallet_row list"
  walletTxs :: "wallet_tx_row list"
  referrals :: "referral_row list"
  challenges :: "challenge_row list"
  progresses :: "progress_row list"
  badges :: "badge_row list"
  badgeAwards :: "badge_award_row list"
  giftCards :: "gift_card_row list"
  gamePlays :: "game_play_row list"
  campaigns :: "campaign_row list"
  sends :: "send_row list"
  consents :: "consent_row list"
  settings :: "setting_row list"
  redisStore :: "string \<Rightarrow> (string \<times> time) option"
  effects :: "effect list"

type_synonym 'a dtx = "(db, 'a) tx"
type_synonym 'a dsvc = "(db, 'a) svc"

text \<open>
  What a call draws from outside: the clock, the identifiers that \<open>gen_random_uuid()\<close> gives to the
  rows the call creates (by table name), the bytes of the referral codes it draws (for a customer:
  draw number, byte number), \<open>Math.random()\<close> as a fraction \<open>numerator / denominator\<close> of the unit interval, whether
  \<open>LOYALTY_CONNECTOR_LEGACY_METADATA_EXTERNAL_ID_LOOKUP\<close> is other than \<open>false\<close>, and, for
  a notification about a campaign send, the message of the exception it ends in, if any.
\<close>

record env =
  en_now :: time
  en_uuid :: "string \<Rightarrow> uuid"
  en_bytes :: "uuid \<Rightarrow> nat \<Rightarrow> nat \<Rightarrow> nat"
  en_rand_num :: nat
  en_rand_den :: nat
  en_legacyLookup :: bool
  en_notify :: "uuid \<Rightarrow> string option"

definition log_effect :: "effect \<Rightarrow> unit dsvc" where
  "log_effect ev = svc_modify (\<lambda>s. s\<lparr>effects := effects s @ [ev]\<rparr>)"

text \<open>Writing one table.\<close>

lemmas table_writes [pres_intros] =
  preserves_tx_blind [where upd = customers_update]
  preserves_tx_blind [where upd = reviews_update]
  preserves_tx_blind [where upd = programs_update]
  preserves_tx_blind [where upd = tiers_update]
  preserves_tx_blind [where upd = earnRules_update]
  preserves_tx_blind [where upd = rewards_update]
  preserves_tx_blind [where upd = redemptions_update]
  preserves_tx_blind [where upd = coupons_update]
  preserves_tx_blind [where upd = couponRedemptions_update]
  preserves_tx_blind [where upd = wallets_update]
  preserves_tx_blind [where upd = walletTxs_update]
  preserves_tx_blind [where upd = referrals_update]
  preserves_tx_blind [where upd = challenges_update]
  preserves_tx_blind [where upd = progresses_update]
  preserves_tx_blind [where upd = badges_update]
  preserves_tx_blind [where upd = badgeAwards_update]
  preserves_tx_blind [where upd = giftCards_update]
  preserves_tx_blind [where upd = gamePlays_update]
  preserves_tx_blind [where upd = campaigns_update]
  preserves_tx_blind [where upd = sends_update]
  preserves_tx_blind [where upd = consents_update]
  preserves_tx_blind [where upd = settings_update]

text \<open>A database without rows, for closed examples.\<close>

definition empty_db :: db where
  "empty_db = \<lparr>orgs = [], customers = [], tickets = [], visitLog = [], appointments = [],
     reviews = [], programs = [], tiers = [],
     earnRules = [], accounts = [], ledger = [], rewards = [], redemptions = [], coupons = [],
     couponRedemptions = [], wallets = [], walletTxs = [], referrals = [], challenges = [],
     progresses = [], badges = [], badgeAwards = [], giftCards = [], gamePlays = [],
     campaigns = [], sends = [], consents = [], settings = [], redisStore = (\<lambda>_. None), effects = []\<rparr>"

end
