(* ===== verification/Features.thy ===== *)
theory Features
  imports Schema
begin

text \<open>
  The licence gate of the loyalty product: which product SKUs include it
  (\<^verbatim>\<open>packages/shared/src/constants/product.ts\<close>) and the cached per-organization flag of
  \<^verbatim>\<open>PatronCrmFeatureService\<close>, with its time to live and its invalidation.
\<close>

definition CACHE_TTL_SECONDS :: int where
  "CACHE_TTL_SECONDS = 300"

definition patronCrmFeatureCacheKey :: "uuid \<Rightarrow> string" where
  "patronCrmFeatureCacheKey org = ''feature:patronCrmEnabled:'' @ org"

definition hasQueueProduct :: "string option \<Rightarrow> bool" where
  "hasQueueProduct sku0 =
     (let sku = (case sku0 of None \<Rightarrow> ''qms'' | Some k \<Rightarrow> k)
      in sku = ''qms'' \<or> sku = ''bundle'')"

definition hasLoyaltyProduct :: "string option \<Rightarrow> bool option \<Rightarrow> bool" where
  "hasLoyaltyProduct sku0 crm =
     (let sku = (case sku0 of None \<Rightarrow> ''qms'' | Some k \<Rightarrow> k)
      in if sku = ''loyalty'' \<or> sku = ''bundle'' then True else crm = Some True)"

text \<open>Redis: a key is there until its expiry, and \<open>set\<close> with a time to live overwrites it.\<close>

definition cache_get :: "time \<Rightarrow> string \<Rightarrow> db \<Rightarrow> string option" where
  "cache_get now k s = (case redisStore s k of None \<Rightarrow> None
     | Some (v, until) \<Rightarrow> if now < until then Some v else None)"

definition cache_set :: "time \<Rightarrow> string \<Rightarrow> string \<Rightarrow> int \<Rightarrow> db \<Rightarrow> db" where
  "cache_set now k v ttl s =
     s\<lparr>redisStore := (redisStore s)(k \<mapsto> (v, now + ttl * 1000))\<rparr>"

definition cache_del :: "string \<Rightarrow> db \<Rightarrow> db" where
  "cache_del k s = s\<lparr>redisStore := (redisStore s)(k := None)\<rparr>"

text \<open>What the database says, without the cache.\<close>

definition org_licensed :: "uuid \<Rightarrow> db \<Rightarrow> bool" where
  "org_licensed org s = (case List.find (\<lambda>r. og_id r = org) (orgs s) of
       None \<Rightarrow> hasLoyaltyProduct None None
     | Some r \<Rightarrow> hasLoyaltyProduct (og_productSku r) (Some (og_patronCrmEnabled r)))"

definition is_enabled :: "env \<Rightarrow> uuid \<Rightarrow> bool dsvc" where
  "is_enabled e org s =
     (let key = patronCrmFeatureCacheKey org in
      case cache_get (en_now e) key s of
        Some v \<Rightarrow> (Inr (v = ''true''), s)
      | None \<Rightarrow>
          (let enabled = org_licensed org s
           in (Inr enabled,
               cache_set (en_now e) key (if enabled then ''true'' else ''false'')
                 CACHE_TTL_SECONDS s)))"

definition crm_disabled_message :: string where
  "crm_disabled_message =
     ''Patron CRM is not enabled for this organization. Contact your platform administrator to enable it.''"

definition require_enabled :: "env \<Rightarrow> uuid \<Rightarrow> unit dsvc" where
  "require_enabled e org =
     svc_bind (is_enabled e org)
       (\<lambda>b. if \<not> b then svc_throw (Forbidden crm_disabled_message) else svc_return ())"

definition invalidate_cache :: "uuid \<Rightarrow> unit dsvc" where
  "invalidate_cache org = svc_modify (cache_del (patronCrmFeatureCacheKey org))"

section \<open>Properties\<close>

text \<open>The flag a call sees: the cached value while it lives, what the database says otherwise.\<close>

definition enabled_now :: "env \<Rightarrow> uuid \<Rightarrow> db \<Rightarrow> bool" where
  "enabled_now e org s = (case cache_get (en_now e) (patronCrmFeatureCacheKey org) s of
     Some v \<Rightarrow> v = ''true'' | None \<Rightarrow> org_licensed org s)"

definition with_cache :: "(string \<Rightarrow> (string \<times> time) option) \<Rightarrow> db \<Rightarrow> db" where
  "with_cache c s = s\<lparr>redisStore := c\<rparr>"

lemma is_enabled_result: "fst (is_enabled e org s) = Inr (enabled_now e org s)"
  by (simp add: is_enabled_def enabled_now_def Let_def split: option.splits)

lemma is_enabled_state: "\<exists>c. snd (is_enabled e org s) = s\<lparr>redisStore := c\<rparr>"
  by (auto simp: is_enabled_def cache_set_def Let_def split: option.splits
        intro: exI [of _ "redisStore s"])

lemma is_enabledE:
  obtains c where "is_enabled e org s = (Inr (enabled_now e org s), s\<lparr>redisStore := c\<rparr>)"
proof -
  from is_enabled_state obtain c where "snd (is_enabled e org s) = s\<lparr>redisStore := c\<rparr>" by blast
  then have "is_enabled e org s = (Inr (enabled_now e org s), s\<lparr>redisStore := c\<rparr>)"
    by (metis is_enabled_result prod.collapse)
  then show thesis by (rule that)
qed

lemma enabled_now_stable: "enabled_now e org (snd (is_enabled e org s)) = enabled_now e org s"
  by (auto simp: is_enabled_def enabled_now_def cache_get_def cache_set_def CACHE_TTL_SECONDS_def
      Let_def split: option.splits)

lemma require_enabledE:
  obtains (on) c where "enabled_now e org s"
      and "require_enabled e org s = (Inr (), s\<lparr>redisStore := c\<rparr>)"
  | (off) c where "\<not> enabled_now e org s"
      and "require_enabled e org s = (Inl (Forbidden crm_disabled_message), s\<lparr>redisStore := c\<rparr>)"
proof -
  obtain c where "is_enabled e org s = (Inr (enabled_now e org s), s\<lparr>redisStore := c\<rparr>)"
    by (rule is_enabledE)
  then show thesis
    by (cases "enabled_now e org s")
      (auto simp: require_enabled_def run_simps intro: on off)
qed

text \<open>An invariant that does not mention the cache survives the gate.\<close>

abbreviation cache_blind :: "(db \<Rightarrow> bool) \<Rightarrow> bool" where
  "cache_blind I \<equiv> blind redisStore_update I"

abbreviation log_blind :: "(db \<Rightarrow> bool) \<Rightarrow> bool" where
  "log_blind I \<equiv> blind effects_update I"

lemma preserves_is_enabled [pres_intros]: "cache_blind I \<Longrightarrow> preserves I (is_enabled e org)"
  by (rule preservesI) (metis blindD is_enabled_state)

lemma preserves_require_enabled [pres_intros]:
  "cache_blind I \<Longrightarrow> preserves I (require_enabled e org)"
  unfolding require_enabled_def by (intro pres_intros)

lemma preserves_log_effect [pres_intros]: "log_blind I \<Longrightarrow> preserves I (log_effect ev)"
  by (auto simp: log_effect_def preserves_def svc_modify_def blind_def)

lemma hasLoyaltyProduct_iff:
  "hasLoyaltyProduct sku crm \<longleftrightarrow> sku = Some ''loyalty'' \<or> sku = Some ''bundle'' \<or> crm = Some True"
  by (auto simp: hasLoyaltyProduct_def split: option.splits)

lemma hasQueueProduct_iff:
  "hasQueueProduct sku \<longleftrightarrow> sku = None \<or> sku = Some ''qms'' \<or> sku = Some ''bundle''"
  by (auto simp: hasQueueProduct_def split: option.splits)

end
