(* ===== verification/Points.thy ===== *)
theory Points
  imports Features
begin

text \<open>
  The points ledger: \<^verbatim>\<open>LoyaltyPointsLedgerService\<close> (the transaction that posts points to an account),
  \<^verbatim>\<open>LoyaltyPointsMetricsService\<close> (tier and health score) and \<^verbatim>\<open>LoyaltyPointsService\<close> (side effects and
  the recovery from a duplicate earn).
\<close>

section \<open>Ledger types\<close>

definition isEarnSourceIdempotentType :: "string \<Rightarrow> bool" where
  "isEarnSourceIdempotentType t \<longleftrightarrow> t = ''EARN'' \<or> t = ''BONUS''"

definition isDebitLedgerType :: "string \<Rightarrow> bool" where
  "isDebitLedgerType t \<longleftrightarrow> t = ''BURN'' \<or> t = ''EXPIRE''"

definition isLifetimeEarnType :: "string \<Rightarrow> bool" where
  "isLifetimeEarnType t \<longleftrightarrow> t = ''EARN'' \<or> t = ''BONUS''"

record apply_opts =
  ao_sourceType :: "string option"
  ao_sourceId :: "string option"
  ao_description :: "string option"
  ao_incrementVisit :: bool

record apply_result =
  ar_account :: account_row
  ar_type :: string
  ar_points :: int
  ar_delta :: int
  ar_customerId :: uuid
  ar_idempotent :: bool
  ar_tierUpgradeSlug :: "string option"

section \<open>The account table\<close>

definition acc_key :: "uuid \<Rightarrow> uuid \<Rightarrow> account_row \<Rightarrow> bool" where
  "acc_key org acct a \<longleftrightarrow> ac_id a = acct \<and> ac_orgId a = org"

definition find_account :: "uuid \<Rightarrow> uuid \<Rightarrow> db \<Rightarrow> account_row option" where
  "find_account org acct s = List.find (acc_key org acct) (accounts s)"

definition set_accounts :: "uuid \<Rightarrow> uuid \<Rightarrow> (account_row \<Rightarrow> account_row) \<Rightarrow> db \<Rightarrow> db" where
  "set_accounts org acct f s = s\<lparr>accounts := update_rows (acc_key org acct) f (accounts s)\<rparr>"

text \<open>\<open>findUniqueOrThrow\<close> and \<open>update\<close> by id, under the tenant's row level security.\<close>

definition get_account :: "uuid \<Rightarrow> uuid \<Rightarrow> account_row dtx" where
  "get_account org acct s =
     (case find_account org acct s of None \<Rightarrow> Inl PrismaP2025 | Some a \<Rightarrow> Inr (a, s))"

definition update_account :: "uuid \<Rightarrow> uuid \<Rightarrow> (account_row \<Rightarrow> account_row) \<Rightarrow> unit dtx" where
  "update_account org acct f s =
     (case find_account org acct s of None \<Rightarrow> Inl PrismaP2025
      | Some a \<Rightarrow> Inr ((), set_accounts org acct f s))"

text \<open>The counters of an account are 32-bit columns.\<close>

definition account_ok :: "account_row \<Rightarrow> bool" where
  "account_ok a \<longleftrightarrow> int4_ok (ac_pointsBalance a) \<and> int4_ok (ac_lifetimePointsEarned a)
     \<and> int4_ok (ac_lifetimePointsBurned a) \<and> int4_ok (ac_totalVisits a)"

section \<open>Tier and health score\<close>

definition resolveTierForPoints :: "uuid \<Rightarrow> int \<Rightarrow> db \<Rightarrow> tier_row option" where
  "resolveTierForPoints org pts s =
     (case sort_key (\<lambda>t. - ti_minLifetimePoints t)
             (filter (\<lambda>t. ti_orgId t = org \<and> ti_minLifetimePoints t \<le> pts) (tiers s)) of
        [] \<Rightarrow> None | t # _ \<Rightarrow> Some t)"

definition day_ms :: int where
  "day_ms = 1000 * 60 * 60 * 24"

definition find_customer :: "uuid \<Rightarrow> uuid \<Rightarrow> db \<Rightarrow> customer_row option" where
  "find_customer org cust s = List.find (\<lambda>c. cu_id c = cust \<and> cu_orgId c = org) (customers s)"

text \<open>\<open>orderBy: { completedAt: 'desc' }\<close>: the database puts rows without a value first.\<close>

definition latest_completed :: "ticket_row list \<Rightarrow> ticket_row option" where
  "latest_completed ts =
     (case filter (\<lambda>t. tk_completedAt t = None) ts of
        t # _ \<Rightarrow> Some t
      | [] \<Rightarrow> (case sort_key (\<lambda>t. - the (tk_completedAt t)) ts of [] \<Rightarrow> None | t # _ \<Rightarrow> Some t))"

definition recent_visit :: "uuid \<Rightarrow> account_row \<Rightarrow> db \<Rightarrow> time option" where
  "recent_visit org a s =
     (let phone = Option.bind (find_customer org (ac_customerId a) s) cu_phone in
      Option.bind (latest_completed (filter (\<lambda>t. tk_orgId t = org \<and> tk_status t = ''completed'' \<and>
         (tk_customerId t = Some (ac_customerId a) \<or>
          (truthy_str phone \<and> tk_customerPhone t = phone))) (tickets s))) tk_completedAt)"

definition health_of :: "time \<Rightarrow> int \<Rightarrow> int \<Rightarrow> time option \<Rightarrow> int \<times> string" where
  "health_of now visits earned recent =
     (let h0 = 50;
          h1 = (if 10 \<le> visits then h0 + 20 else if 3 \<le> visits then h0 + 10 else h0);
          h2 = (if 500 \<le> earned then h1 + 15 else h1);
          (h3, risk) = (case recent of
             Some t \<Rightarrow> if now - t \<le> 30 * day_ms then (h2 + 15, ''low'')
                       else if now - t \<le> 90 * day_ms then (h2, ''medium'')
                       else (h2 - 20, ''high'')
           | None \<Rightarrow> (h2 - 10, ''high''))
      in (max 0 (min 100 h3), risk))"

definition refreshHealthScore :: "env \<Rightarrow> uuid \<Rightarrow> uuid \<Rightarrow> unit dtx" where
  "refreshHealthScore e org acct s =
     (case find_account org acct s of
        None \<Rightarrow> Inr ((), s)
      | Some a \<Rightarrow>
          (let (score, risk) = health_of (en_now e) (ac_totalVisits a)
                 (ac_lifetimePointsEarned a) (recent_visit org a s)
           in update_account org acct (\<lambda>x. x\<lparr>ac_healthScore := score, ac_churnRisk := risk\<rparr>) s))"

section \<open>The ledger table\<close>

definition findExistingEarnLedger ::
  "uuid \<Rightarrow> uuid \<Rightarrow> string \<Rightarrow> string \<Rightarrow> string \<Rightarrow> db \<Rightarrow> ledger_row option" where
  "findExistingEarnLedger org acct type st si s = List.find (\<lambda>l. le_orgId l = org \<and>
     le_accountId l = acct \<and> le_sourceType l = Some st \<and> le_sourceId l = Some si \<and>
     le_type l = type) (ledger s)"

text \<open>
  The partial unique index \<open>loyalty_point_ledger_earn_source_idempotent_idx\<close>: at most one EARN or
  BONUS row per tenant, account and source.
\<close>

definition earn_source_clash :: "ledger_row \<Rightarrow> ledger_row \<Rightarrow> bool" where
  "earn_source_clash l r \<longleftrightarrow> le_type l \<in> {''EARN'', ''BONUS''} \<and> le_type r \<in> {''EARN'', ''BONUS''} \<and>
     le_sourceType l \<noteq> None \<and> le_sourceId l \<noteq> None \<and> le_orgId l = le_orgId r \<and>
     le_accountId l = le_accountId r \<and> le_sourceType l = le_sourceType r \<and>
     le_sourceId l = le_sourceId r"

definition create_ledger :: "ledger_row \<Rightarrow> unit dtx" where
  "create_ledger l s =
     (if \<exists>r\<in>set (ledger s). earn_source_clash l r then Inl PrismaP2002
      else Inr ((), s\<lparr>ledger := ledger s @ [l]\<rparr>))"

section \<open>Posting points\<close>

definition debit_account :: "uuid \<Rightarrow> uuid \<Rightarrow> int \<Rightarrow> string \<Rightarrow> account_row dtx" where
  "debit_account org acct points type s =
     (case find_account org acct s of
        None \<Rightarrow> Inl (NotFound ''Loyalty account not found'')
      | Some a \<Rightarrow>
          if \<not> points \<le> ac_pointsBalance a then
            Inl (BadRequest (if type = ''EXPIRE'' then ''Insufficient points balance to expire''
                             else ''Insufficient points balance''))
          else
            (let f = (\<lambda>x. x\<lparr>ac_pointsBalance := ac_pointsBalance x - points,
                   ac_lifetimePointsBurned := ac_lifetimePointsBurned x +
                     (if type = ''BURN'' then points else 0)\<rparr>)
             in if \<not> account_ok (f a) then Inl IntegerOutOfRange
                else get_account org acct (set_accounts org acct f s)))"

definition credit_account ::
  "uuid \<Rightarrow> uuid \<Rightarrow> int \<Rightarrow> string \<Rightarrow> bool \<Rightarrow> account_row dtx" where
  "credit_account org acct points type incVisit s =
     (case find_account org acct s of
        None \<Rightarrow> Inl (NotFound ''Loyalty account not found'')
      | Some a \<Rightarrow>
          (let f = (\<lambda>x. x\<lparr>ac_pointsBalance := ac_pointsBalance x + points,
                 ac_lifetimePointsEarned := ac_lifetimePointsEarned x +
                   (if isLifetimeEarnType type then points else 0),
                 ac_totalVisits := ac_totalVisits x + (if incVisit then 1 else 0)\<rparr>)
           in if \<not> account_ok (f a) then Inl IntegerOutOfRange
              else get_account org acct (set_accounts org acct f s)))"

definition upgrade_tier :: "uuid \<Rightarrow> uuid \<Rightarrow> int \<Rightarrow> uuid option \<Rightarrow> string option dtx" where
  "upgrade_tier org acct lifetime tierId s =
     (case resolveTierForPoints org lifetime s of
        None \<Rightarrow> Inr (None, s)
      | Some t \<Rightarrow>
          if Some (ti_id t) \<noteq> tierId then
            tx_bind (update_account org acct (\<lambda>x. x\<lparr>ac_tierId := Some (ti_id t)\<rparr>))
              (\<lambda>_. tx_return (Some (ti_slug t))) s
          else Inr (None, s))"

definition signed_points :: "string \<Rightarrow> int \<Rightarrow> int" where
  "signed_points type points = (if isDebitLedgerType type then - points else points)"

definition post_points ::
  "env \<Rightarrow> uuid \<Rightarrow> uuid \<Rightarrow> int \<Rightarrow> string \<Rightarrow> apply_opts \<Rightarrow> apply_result dtx" where
  "post_points e org acct points type opts =
     tx_bind (if isDebitLedgerType type then debit_account org acct points type
              else credit_account org acct points type (ao_incrementVisit opts)) (\<lambda>after.
     tx_bind (create_ledger \<lparr>le_orgId = org, le_accountId = acct, le_type = type,
         le_points = signed_points type points, le_balanceAfter = ac_pointsBalance after,
         le_sourceType = ao_sourceType opts, le_sourceId = ao_sourceId opts,
         le_description = ao_description opts, le_createdAt = en_now e\<rparr>) (\<lambda>_.
     tx_bind (upgrade_tier org acct (ac_lifetimePointsEarned after) (ac_tierId after)) (\<lambda>slug.
     tx_bind (refreshHealthScore e org acct) (\<lambda>_.
     tx_bind (get_account org acct) (\<lambda>final.
     tx_return \<lparr>ar_account = final, ar_type = type, ar_points = points,
       ar_delta = signed_points type points, ar_customerId = ac_customerId after,
       ar_idempotent = False, ar_tierUpgradeSlug = slug\<rparr>)))))"

definition earn_source :: "string \<Rightarrow> apply_opts \<Rightarrow> (string \<times> string) option" where
  "earn_source type opts =
     (if isEarnSourceIdempotentType type \<and> truthy_str (ao_sourceType opts)
         \<and> truthy_str (ao_sourceId opts)
      then Some (the (ao_sourceType opts), the (ao_sourceId opts)) else None)"

definition applyPointsInTransaction ::
  "env \<Rightarrow> uuid \<Rightarrow> uuid \<Rightarrow> int \<Rightarrow> string \<Rightarrow> apply_opts \<Rightarrow> apply_result dtx" where
  "applyPointsInTransaction e org acct points type opts s =
     (if points \<le> 0 then Inl (BadRequest ''Points amount must be positive'')
      else case (case earn_source type opts of None \<Rightarrow> None
                 | Some (st, si) \<Rightarrow> findExistingEarnLedger org acct type st si s) of
        Some l \<Rightarrow> tx_bind (get_account org acct) (\<lambda>final.
           tx_return \<lparr>ar_account = final, ar_type = type, ar_points = \<bar>le_points l\<bar>, ar_delta = 0,
             ar_customerId = ac_customerId final, ar_idempotent = True,
             ar_tierUpgradeSlug = None\<rparr>) s
      | None \<Rightarrow> post_points e org acct points type opts s)"

section \<open>The points service\<close>

definition runApplyPoints ::
  "env \<Rightarrow> uuid \<Rightarrow> uuid \<Rightarrow> int \<Rightarrow> string \<Rightarrow> apply_opts \<Rightarrow> apply_result dsvc" where
  "runApplyPoints e org acct points type opts =
     with_tenant (applyPointsInTransaction e org acct points type opts)"

definition isDuplicateEarnError :: "error \<Rightarrow> string \<Rightarrow> apply_opts \<Rightarrow> bool" where
  "isDuplicateEarnError err type opts \<longleftrightarrow> err = PrismaP2002 \<and> isEarnSourceIdempotentType type
     \<and> truthy_str (ao_sourceType opts) \<and> truthy_str (ao_sourceId opts)"

text \<open>An account as it came out of \<open>applyPoints\<close>, and whether the call was a replay.\<close>

type_synonym points_result = "account_row \<times> bool"

definition loadIdempotentEarnResult ::
  "uuid \<Rightarrow> uuid \<Rightarrow> string \<Rightarrow> string \<Rightarrow> string \<Rightarrow> points_result dsvc" where
  "loadIdempotentEarnResult org acct type st si = with_tenant (\<lambda>s.
     case findExistingEarnLedger org acct type st si s of
       None \<Rightarrow> Inl (BadRequest ''Duplicate earn source could not be resolved'')
     | Some l \<Rightarrow> tx_bind (get_account org acct) (\<lambda>a. tx_return (a, True)) s)"

definition loadIdempotentEarnAfterConflict ::
  "uuid \<Rightarrow> uuid \<Rightarrow> string \<Rightarrow> string \<Rightarrow> string \<Rightarrow> points_result dsvc" where
  "loadIdempotentEarnAfterConflict = loadIdempotentEarnResult"

definition points_effects :: "uuid \<Rightarrow> uuid \<Rightarrow> apply_result \<Rightarrow> apply_opts \<Rightarrow> effect list" where
  "points_effects org acct r opts =
     (if ar_idempotent r then []
      else (case ar_tierUpgradeSlug r of
              Some slug \<Rightarrow> if slug \<noteq> [] then [EvTierUpgraded org acct slug] else []
            | None \<Rightarrow> []) @
        (if ar_type r = ''EARN'' \<or> ar_type r = ''BONUS'' \<or> (ar_type r = ''ADJUST'' \<and> 0 < ar_delta r)
         then [WhPointsEarned org (ar_customerId r) (ac_id (ar_account r)) (ar_points r)
                 (ac_pointsBalance (ar_account r)) (ao_sourceType opts) (ao_sourceId opts),
               SyncProfile org (ar_customerId r)]
         else []) @
        (if ar_type r = ''BURN''
         then [WhPointsRedeemed org (ar_customerId r) (ac_id (ar_account r)) (ar_points r)
                 (ac_pointsBalance (ar_account r)) (ao_sourceType opts) (ao_sourceId opts)]
         else []))"

definition dispatchApplyPointsSideEffects ::
  "uuid \<Rightarrow> uuid \<Rightarrow> apply_result \<Rightarrow> apply_opts \<Rightarrow> unit dsvc" where
  "dispatchApplyPointsSideEffects org acct r opts =
     svc_modify (\<lambda>s. s\<lparr>effects := effects s @ points_effects org acct r opts\<rparr>)"

definition applyPoints ::
  "env \<Rightarrow> uuid \<Rightarrow> uuid \<Rightarrow> int \<Rightarrow> string \<Rightarrow> apply_opts \<Rightarrow> points_result dsvc" where
  "applyPoints e org acct points type opts =
     svc_catch
       (svc_bind (runApplyPoints e org acct points type opts) (\<lambda>r.
          if ar_idempotent r then svc_return (ar_account r, True)
          else svc_bind (dispatchApplyPointsSideEffects org acct r opts)
                 (\<lambda>_. svc_return (ar_account r, False))))
       (\<lambda>err. if isDuplicateEarnError err type opts
              then loadIdempotentEarnAfterConflict org acct type (the (ao_sourceType opts))
                     (the (ao_sourceId opts))
              else svc_throw err)"

definition source_opts :: "string \<Rightarrow> string option \<Rightarrow> string option \<Rightarrow> bool \<Rightarrow> apply_opts" where
  "source_opts st si desc inc = \<lparr>ao_sourceType = Some st, ao_sourceId = si,
     ao_description = desc, ao_incrementVisit = inc\<rparr>"

definition burnPoints_tx ::
  "env \<Rightarrow> uuid \<Rightarrow> uuid \<Rightarrow> int \<Rightarrow> string \<Rightarrow> string \<Rightarrow> string option \<Rightarrow> apply_result dtx" where
  "burnPoints_tx e org acct points st si desc =
     applyPointsInTransaction e org acct points ''BURN'' (source_opts st (Some si) desc False)"

definition burnPoints ::
  "env \<Rightarrow> uuid \<Rightarrow> uuid \<Rightarrow> int \<Rightarrow> string \<Rightarrow> string \<Rightarrow> string option \<Rightarrow> account_row dsvc" where
  "burnPoints e org acct points st si desc =
     svc_bind (applyPoints e org acct points ''BURN'' (source_opts st (Some si) desc False))
       (\<lambda>(a, _). svc_return a)"

definition adjust_type :: "int \<Rightarrow> string" where
  "adjust_type points = (if 0 < points then ''ADJUST'' else ''BURN'')"

definition adjust_opts :: "string option \<Rightarrow> apply_opts" where
  "adjust_opts desc = source_opts ''manual'' None (Some (patched desc ''Manual adjustment'')) False"

definition adjustPointsInTransaction ::
  "env \<Rightarrow> uuid \<Rightarrow> uuid \<Rightarrow> int \<Rightarrow> string option \<Rightarrow> apply_result dtx" where
  "adjustPointsInTransaction e org acct points desc =
     applyPointsInTransaction e org acct \<bar>points\<bar> (adjust_type points) (adjust_opts desc)"

end
