(* ===== verification/Book.thy ===== *)
theory Book
  imports Prelude
begin

text \<open>
  The contract two components share, the points ledger and the patron wallet: a balance per key, an
  append-only list of signed entries per key, and operations that post entries and move the balance
  by the same amount, or fail and change nothing. Everything the rest of the development says of
  runs of such operations is proved once, in the locale.
\<close>

text \<open>A run of operations; one that fails is rolled back and the next one runs.\<close>

fun run_ops :: "('op \<Rightarrow> 's \<Rightarrow> error + 's) \<Rightarrow> 'op list \<Rightarrow> 's \<Rightarrow> 's" where
  "run_ops step [] s = s"
| "run_ops step (x # xs) s = run_ops step xs (case step x s of Inl e \<Rightarrow> s | Inr s' \<Rightarrow> s')"

definition tx_step :: "('op \<Rightarrow> ('s, 'a) tx) \<Rightarrow> 'op \<Rightarrow> 's \<Rightarrow> error + 's" where
  "tx_step t x s = (case t x s of Inl e \<Rightarrow> Inl e | Inr (a, s') \<Rightarrow> Inr s')"

lemma tx_step_Inr_iff: "tx_step t x s = Inr s' \<longleftrightarrow> (\<exists>a. t x s = Inr (a, s'))"
  by (auto simp: tx_step_def split: sum.splits)

lemma run_ops_invariant:
  assumes "\<And>x s s'. I s \<Longrightarrow> step x s = Inr s' \<Longrightarrow> I s'" and "I s"
  shows "I (run_ops step xs s)"
  using assms(2)
proof (induction xs arbitrary: s)
  case Nil
  then show ?case by simp
next
  case (Cons x xs)
  have "I (case step x s of Inl e \<Rightarrow> s | Inr s' \<Rightarrow> s')"
    using Cons.prems assms(1) by (auto split: sum.splits)
  then show ?case using Cons.IH by simp
qed

locale book =
  fixes step :: "'op \<Rightarrow> 's \<Rightarrow> error + 's"
    and bal :: "'k \<Rightarrow> 's \<Rightarrow> int option"
    and entries :: "'k \<Rightarrow> 's \<Rightarrow> int list"
  assumes step_posts: "step x s = Inr s' \<Longrightarrow> bal k s = Some b \<Longrightarrow>
      \<exists>ds. entries k s' = entries k s @ ds \<and> bal k s' = Some (b + sum_list ds)"
    and step_nonneg: "step x s = Inr s' \<Longrightarrow> bal k s = Some b \<Longrightarrow> 0 \<le> b \<Longrightarrow> bal k s' = Some b' \<Longrightarrow> 0 \<le> b'"
begin

lemma run_posts:
  "bal k s = Some b \<Longrightarrow>
   \<exists>ds. entries k (run_ops step xs s) = entries k s @ ds \<and>
        bal k (run_ops step xs s) = Some (b + sum_list ds)"
proof (induction xs arbitrary: s b)
  case Nil
  then show ?case by auto
next
  case (Cons x xs)
  show ?case
  proof (cases "step x s")
    case (Inl e)
    then show ?thesis using Cons by simp
  next
    case (Inr t)
    from step_posts [OF Inr Cons.prems] obtain ds where
      ds: "entries k t = entries k s @ ds" "bal k t = Some (b + sum_list ds)" by blast
    from Cons.IH [OF ds(2)] obtain es where
      "entries k (run_ops step xs t) = entries k t @ es"
      "bal k (run_ops step xs t) = Some (b + sum_list ds + sum_list es)" by blast
    then show ?thesis using Inr ds by (intro exI [of _ "ds @ es"]) simp
  qed
qed

lemma run_reconciled:
  "bal k s = Some (sum_list (entries k s)) \<Longrightarrow>
   bal k (run_ops step xs s) = Some (sum_list (entries k (run_ops step xs s)))"
  using run_posts [of k s "sum_list (entries k s)" xs] by auto

lemma run_nonneg:
  assumes "bal k s = Some b" and "0 \<le> b"
  shows "\<exists>b'. bal k (run_ops step xs s) = Some b' \<and> 0 \<le> b'"
  using assms
proof (induction xs arbitrary: s b)
  case Nil
  then show ?case by auto
next
  case (Cons x xs)
  show ?case
  proof (cases "step x s")
    case (Inl e)
    then show ?thesis using Cons by simp
  next
    case (Inr t)
    from step_posts [OF Inr Cons.prems(1)] obtain b' where b': "bal k t = Some b'" by blast
    from step_nonneg [OF Inr Cons.prems(1,2) b'] have "0 \<le> b'" .
    from Cons.IH [OF b' this] show ?thesis using Inr by simp
  qed
qed

lemma run_keeps_keys: "bal k s \<noteq> None \<Longrightarrow> bal k (run_ops step xs s) \<noteq> None"
  using run_posts by fastforce

end

text \<open>A book whose column has a largest value that no operation exceeds.\<close>

locale bounded_book = book +
  fixes lim :: int
  assumes step_bounded: "step x s = Inr s' \<Longrightarrow> bal k s = Some b \<Longrightarrow> b \<le> lim \<Longrightarrow> bal k s' = Some b' \<Longrightarrow> b' \<le> lim"
begin

lemma run_bounded:
  assumes "bal k s = Some b" and "b \<le> lim"
  shows "\<exists>b'. bal k (run_ops step xs s) = Some b' \<and> b' \<le> lim"
  using assms
proof (induction xs arbitrary: s b)
  case Nil
  then show ?case by auto
next
  case (Cons x xs)
  show ?case
  proof (cases "step x s")
    case (Inl e)
    then show ?thesis using Cons by simp
  next
    case (Inr t)
    from step_posts [OF Inr Cons.prems(1)] obtain b' where b': "bal k t = Some b'" by blast
    from step_bounded [OF Inr Cons.prems(1,2) b'] have "b' \<le> lim" .
    from Cons.IH [OF b' this] show ?thesis using Inr by simp
  qed
qed

end

end
