(* ===== verification/PointsFacts.thy ===== *)
theory PointsFacts
  imports Points Book
begin

text \<open>
  What the points ledger does: the exact effect of a posting on the account and the ledger, the
  exact list of its failures, replay of an earn, and the interpretation of the shared contract of
  balances and entries.
\<close>

section \<open>The account table\<close>

definition key_safe :: "(account_row \<Rightarrow> account_row) \<Rightarrow> bool" where
  "key_safe f \<longleftrightarrow> (\<forall>x. ac_id (f x) = ac_id x \<and> ac_orgId (f x) = ac_orgId x)"

definition core :: "account_row \<Rightarrow> uuid \<times> uuid \<times> uuid \<times> int \<times> int \<times> int \<times> int \<times> string" where
  "core a = (ac_id a, ac_orgId a, ac_customerId a, ac_pointsBalance a, ac_lifetimePointsEarned a,
     ac_lifetimePointsBurned a, ac_totalVisits a, ac_referralCode a)"

lemma core_eqD:
  assumes "core a = core b"
  shows "ac_id a = ac_id b" "ac_orgId a = ac_orgId b" "ac_customerId a = ac_customerId b"
    "ac_pointsBalance a = ac_pointsBalance b"
    "ac_lifetimePointsEarned a = ac_lifetimePointsEarned b"
    "ac_lifetimePointsBurned a = ac_lifetimePointsBurned b"
    "ac_totalVisits a = ac_totalVisits b" "ac_referralCode a = ac_referralCode b"
  using assms by (simp_all add: core_def)

lemma key_safe_core: "(\<And>x. core (f x) = core x) \<Longrightarrow> key_safe f"
  by (auto simp: key_safe_def dest: core_eqD)

lemma key_safe_comp [simp]: "key_safe f \<Longrightarrow> key_safe g \<Longrightarrow> key_safe (g \<circ> f)"
  by (simp add: key_safe_def)

lemma find_set_accounts:
  assumes "key_safe f"
  shows "find_account o2 k2 (set_accounts org acct f s) =
    (if o2 = org \<and> k2 = acct then map_option f (find_account org acct s)
     else find_account o2 k2 s)"
proof -
  have "find_account o2 k2 (set_accounts org acct f s) =
      map_option (\<lambda>x. if acc_key org acct x then f x else x) (find_account o2 k2 s)"
    using assms unfolding find_account_def set_accounts_def
    by (simp add: find_update_rows acc_key_def key_safe_def)
  moreover have "acc_key o2 k2 x" if "find_account o2 k2 s = Some x" for x
    using that by (auto simp: find_account_def dest: find_SomeD)
  ultimately show ?thesis
    by (cases "find_account o2 k2 s") (auto simp: acc_key_def)
qed

lemma set_accounts_compose:
  assumes "key_safe f"
  shows "set_accounts org acct g (set_accounts org acct f s) = set_accounts org acct (g \<circ> f) s"
  using assms by (auto simp: set_accounts_def update_rows_def acc_key_def key_safe_def)

lemma set_accounts_ledger [simp]:
  "ledger (set_accounts org acct f s) = ledger s"
  "tiers (set_accounts org acct f s) = tiers s"
  "set_accounts org acct f (s\<lparr>ledger := l\<rparr>) = (set_accounts org acct f s)\<lparr>ledger := l\<rparr>"
  by (simp_all add: set_accounts_def)

lemma find_account_ledger [simp]:
  "find_account org acct (s\<lparr>ledger := l\<rparr>) = find_account org acct s"
  by (simp add: find_account_def)

lemma set_accounts_id [simp]: "set_accounts org acct (\<lambda>x. x) s = s"
  by (simp add: set_accounts_def update_rows_def)

lemma set_accounts_ids [simp]:
  "key_safe f \<Longrightarrow> map ac_id (accounts (set_accounts org acct f s)) = map ac_id (accounts s)"
  by (simp add: set_accounts_def update_rows_def key_safe_def)

section \<open>One posting\<close>

text \<open>What a posting does to the row: the debit and the credit branch in one.\<close>

definition posting :: "string \<Rightarrow> int \<Rightarrow> bool \<Rightarrow> account_row \<Rightarrow> account_row" where
  "posting type points inc x = x\<lparr>
     ac_pointsBalance := ac_pointsBalance x + signed_points type points,
     ac_lifetimePointsEarned := ac_lifetimePointsEarned x +
       (if isLifetimeEarnType type then points else 0),
     ac_lifetimePointsBurned := ac_lifetimePointsBurned x + (if type = ''BURN'' then points else 0),
     ac_totalVisits := ac_totalVisits x + (if inc \<and> \<not> isDebitLedgerType type then 1 else 0)\<rparr>"

lemma posting_fields [simp]:
  "ac_id (posting type points inc x) = ac_id x"
  "ac_orgId (posting type points inc x) = ac_orgId x"
  "ac_customerId (posting type points inc x) = ac_customerId x"
  "ac_tierId (posting type points inc x) = ac_tierId x"
  "ac_referralCode (posting type points inc x) = ac_referralCode x"
  "ac_pointsBalance (posting type points inc x) = ac_pointsBalance x + signed_points type points"
  by (simp_all add: posting_def)

lemma key_safe_posting [simp]: "key_safe (posting type points inc)"
  by (simp add: key_safe_def)

lemma posting_debit:
  "isDebitLedgerType type \<Longrightarrow>
   posting type points inc = (\<lambda>x. x\<lparr>ac_pointsBalance := ac_pointsBalance x - points,
     ac_lifetimePointsBurned := ac_lifetimePointsBurned x + (if type = ''BURN'' then points else 0)\<rparr>)"
  by (auto simp: fun_eq_iff posting_def signed_points_def isDebitLedgerType_def isLifetimeEarnType_def)

lemma posting_credit:
  "\<not> isDebitLedgerType type \<Longrightarrow>
   posting type points inc = (\<lambda>x. x\<lparr>ac_pointsBalance := ac_pointsBalance x + points,
     ac_lifetimePointsEarned := ac_lifetimePointsEarned x +
       (if isLifetimeEarnType type then points else 0),
     ac_totalVisits := ac_totalVisits x + (if inc then 1 else 0)\<rparr>)"
  by (auto simp: fun_eq_iff posting_def signed_points_def isDebitLedgerType_def)

definition move_account ::
  "uuid \<Rightarrow> uuid \<Rightarrow> int \<Rightarrow> string \<Rightarrow> bool \<Rightarrow> account_row dtx" where
  "move_account org acct points type inc s =
     (case find_account org acct s of
        None \<Rightarrow> Inl (NotFound ''Loyalty account not found'')
      | Some a \<Rightarrow>
          if isDebitLedgerType type \<and> \<not> points \<le> ac_pointsBalance a then
            Inl (BadRequest (if type = ''EXPIRE'' then ''Insufficient points balance to expire''
                             else ''Insufficient points balance''))
          else if \<not> account_ok (posting type points inc a) then Inl IntegerOutOfRange
          else Inr (posting type points inc a, set_accounts org acct (posting type points inc) s))"

lemma get_account_set:
  assumes "key_safe f" and "find_account org acct s = Some a"
  shows "get_account org acct (set_accounts org acct f s) = Inr (f a, set_accounts org acct f s)"
  using assms by (simp add: get_account_def find_set_accounts)

lemma move_account_eq:
  "(if isDebitLedgerType type then debit_account org acct points type
    else credit_account org acct points type inc) = move_account org acct points type inc"
proof (rule ext)
  fix s
  have f: "get_account org acct (set_accounts org acct (posting type points inc) s)
      = Inr (posting type points inc a, set_accounts org acct (posting type points inc) s)"
    if "find_account org acct s = Some a" for a
    using that by (rule get_account_set [OF key_safe_posting])
  show "(if isDebitLedgerType type then debit_account org acct points type
    else credit_account org acct points type inc) s = move_account org acct points type inc s"
  proof (cases "find_account org acct s")
    case None
    then show ?thesis by (simp add: debit_account_def credit_account_def move_account_def)
  next
    case (Some a)
    note g = f [OF Some]
    show ?thesis
    proof (cases "isDebitLedgerType type")
      case True
      show ?thesis
        unfolding debit_account_def move_account_def posting_debit [OF True, of points inc, symmetric]
        using Some g True by (simp add: Let_def)
    next
      case False
      show ?thesis
        unfolding credit_account_def move_account_def posting_credit [OF False, of points inc, symmetric]
        using Some g False by (simp add: Let_def)
    qed
  qed
qed

lemma upgrade_tier_ok:
  assumes "find_account org acct s = Some a"
  obtains g slug where "upgrade_tier org acct n (ac_tierId a) s = Inr (slug, set_accounts org acct g s)"
    and "\<And>x. core (g x) = core x"
    and "\<And>x. ac_healthScore (g x) = ac_healthScore x \<and> ac_churnRisk (g x) = ac_churnRisk x"
    and "ac_tierId (g a) = (case resolveTierForPoints org n s of None \<Rightarrow> ac_tierId a | Some t \<Rightarrow> Some (ti_id t))"
    and "slug = (case resolveTierForPoints org n s of
      Some t \<Rightarrow> if Some (ti_id t) \<noteq> ac_tierId a then Some (ti_slug t) else None | None \<Rightarrow> None)"
proof (cases "resolveTierForPoints org n s")
  case None
  then show ?thesis
    using assms by (intro that [of None "\<lambda>x. x"]) (simp_all add: upgrade_tier_def)
next
  case (Some t)
  show ?thesis
  proof (cases "Some (ti_id t) = ac_tierId a")
    case True
    then show ?thesis
      using assms Some by (intro that [of None "\<lambda>x. x"]) (auto simp: upgrade_tier_def)
  next
    case False
    then show ?thesis
      using assms Some
      by (intro that [of "Some (ti_slug t)" "\<lambda>x. x\<lparr>ac_tierId := Some (ti_id t)\<rparr>"])
        (auto simp: upgrade_tier_def update_account_def tx_defs core_def)
  qed
qed

lemma refresh_ok:
  assumes "find_account org acct s = Some a"
  obtains g where "refreshHealthScore e org acct s = Inr ((), set_accounts org acct g s)"
    and "\<And>x. core (g x) = core x" and "\<And>x. ac_tierId (g x) = ac_tierId x"
    and "(ac_healthScore (g a), ac_churnRisk (g a)) = health_of (en_now e) (ac_totalVisits a)
           (ac_lifetimePointsEarned a) (recent_visit org a s)"
proof -
  obtain sc rk where h: "health_of (en_now e) (ac_totalVisits a) (ac_lifetimePointsEarned a)
      (recent_visit org a s) = (sc, rk)" by (rule prod.exhaust)
  show ?thesis
    by (rule that [of "\<lambda>x. x\<lparr>ac_healthScore := sc, ac_churnRisk := rk\<rparr>"])
      (simp_all add: refreshHealthScore_def update_account_def assms h core_def)
qed

definition posted_row ::
  "env \<Rightarrow> uuid \<Rightarrow> uuid \<Rightarrow> int \<Rightarrow> string \<Rightarrow> apply_opts \<Rightarrow> account_row \<Rightarrow> ledger_row" where
  "posted_row e org acct points type opts a =
     \<lparr>le_orgId = org, le_accountId = acct, le_type = type,
      le_points = signed_points type points,
      le_balanceAfter = ac_pointsBalance a + signed_points type points,
      le_sourceType = ao_sourceType opts, le_sourceId = ao_sourceId opts,
      le_description = ao_description opts, le_createdAt = en_now e\<rparr>"

lemma posted_row_sel [simp]:
  "le_orgId (posted_row e org acct points type opts a) = org"
  "le_accountId (posted_row e org acct points type opts a) = acct"
  "le_type (posted_row e org acct points type opts a) = type"
  "le_points (posted_row e org acct points type opts a) = signed_points type points"
  "le_sourceType (posted_row e org acct points type opts a) = ao_sourceType opts"
  "le_sourceId (posted_row e org acct points type opts a) = ao_sourceId opts"
  "le_createdAt (posted_row e org acct points type opts a) = en_now e"
  by (simp_all add: posted_row_def)

text \<open>Why a posting fails, in the order the transaction finds out.\<close>

definition posting_failure ::
  "env \<Rightarrow> uuid \<Rightarrow> uuid \<Rightarrow> int \<Rightarrow> string \<Rightarrow> apply_opts \<Rightarrow> db \<Rightarrow> error option" where
  "posting_failure e org acct points type opts s =
     (case find_account org acct s of
        None \<Rightarrow> Some (NotFound ''Loyalty account not found'')
      | Some a \<Rightarrow>
          if isDebitLedgerType type \<and> ac_pointsBalance a < points then
            Some (BadRequest (if type = ''EXPIRE'' then ''Insufficient points balance to expire''
                              else ''Insufficient points balance''))
          else if \<not> account_ok (posting type points (ao_incrementVisit opts) a)
          then Some IntegerOutOfRange
          else if \<exists>r\<in>set (ledger s). earn_source_clash (posted_row e org acct points type opts a) r
          then Some PrismaP2002 else None)"

lemma post_points_fails:
  "posting_failure e org acct points type opts s = Some err \<Longrightarrow>
   post_points e org acct points type opts s = Inl err"
  unfolding post_points_def move_account_eq tx_bind_def move_account_def posting_failure_def
    create_ledger_def posted_row_def
  by (auto split: option.splits if_splits)

lemma recent_visit_frame [simp]:
  "recent_visit org a (set_accounts o2 k2 f s) = recent_visit org a s"
  "recent_visit org a (s\<lparr>ledger := l\<rparr>) = recent_visit org a s"
  "recent_visit org (posting type points inc a) s = recent_visit org a s"
  "resolveTierForPoints org n (s\<lparr>ledger := l\<rparr>) = resolveTierForPoints org n s"
  "resolveTierForPoints org n (set_accounts o2 k2 f s) = resolveTierForPoints org n s"
  by (simp_all add: recent_visit_def find_customer_def set_accounts_def resolveTierForPoints_def)

lemma recent_visit_core: "core a = core b \<Longrightarrow> recent_visit org a s = recent_visit org b s"
  by (simp add: recent_visit_def core_def)

lemma post_points_succeeds:
  assumes ok: "posting_failure e org acct points type opts s = None"
  obtains a h r where "find_account org acct s = Some a"
    and "\<And>x. core (h x) = core (posting type points (ao_incrementVisit opts) x)"
    and "post_points e org acct points type opts s = Inr (r, (set_accounts org acct h s)
          \<lparr>ledger := ledger s @ [posted_row e org acct points type opts a]\<rparr>)"
    and "ar_account r = h a" and "ar_type r = type" and "ar_points r = points"
    and "ar_delta r = signed_points type points" and "ar_customerId r = ac_customerId a"
    and "\<not> ar_idempotent r"
    and "ac_tierId (h a) = (case resolveTierForPoints org (ac_lifetimePointsEarned (h a)) s of
          None \<Rightarrow> ac_tierId a | Some t \<Rightarrow> Some (ti_id t))"
    and "ar_tierUpgradeSlug r = (case resolveTierForPoints org (ac_lifetimePointsEarned (h a)) s of
          Some t \<Rightarrow> if Some (ti_id t) \<noteq> ac_tierId a then Some (ti_slug t) else None | None \<Rightarrow> None)"
    and "(ac_healthScore (h a), ac_churnRisk (h a)) = health_of (en_now e) (ac_totalVisits (h a))
          (ac_lifetimePointsEarned (h a)) (recent_visit org a s)"
proof -
  let ?p = "posting type points (ao_incrementVisit opts)"
  from ok obtain a where a: "find_account org acct s = Some a"
    by (auto simp: posting_failure_def split: option.splits)
  let ?row = "posted_row e org acct points type opts a"
  let ?s1 = "(set_accounts org acct ?p s)\<lparr>ledger := ledger s @ [?row]\<rparr>"
  from ok a have mv: "move_account org acct points type (ao_incrementVisit opts) s
      = Inr (?p a, set_accounts org acct ?p s)"
    and led: "create_ledger ?row (set_accounts org acct ?p s) = Inr ((), ?s1)"
    by (auto simp: posting_failure_def move_account_def create_ledger_def split: if_splits)
  have f1: "find_account org acct ?s1 = Some (?p a)"
    using a by (simp add: find_set_accounts)
  obtain g slug where g: "upgrade_tier org acct (ac_lifetimePointsEarned (?p a)) (ac_tierId (?p a)) ?s1
        = Inr (slug, set_accounts org acct g ?s1)"
      and gc: "\<And>x. core (g x) = core x"
      and gh: "\<And>x. ac_healthScore (g x) = ac_healthScore x \<and> ac_churnRisk (g x) = ac_churnRisk x"
      and gt: "ac_tierId (g (?p a)) = (case resolveTierForPoints org (ac_lifetimePointsEarned (?p a)) ?s1 of
          None \<Rightarrow> ac_tierId (?p a) | Some t \<Rightarrow> Some (ti_id t))"
      and gs: "slug = (case resolveTierForPoints org (ac_lifetimePointsEarned (?p a)) ?s1 of
          Some t \<Rightarrow> if Some (ti_id t) \<noteq> ac_tierId (?p a) then Some (ti_slug t) else None | None \<Rightarrow> None)"
    by (rule upgrade_tier_ok [OF f1, of "ac_lifetimePointsEarned (?p a)"]) (rule that)
  have f2: "find_account org acct (set_accounts org acct g ?s1) = Some (g (?p a))"
    using a key_safe_core [OF gc] by (simp add: find_set_accounts)
  obtain k where k: "refreshHealthScore e org acct (set_accounts org acct g ?s1)
        = Inr ((), set_accounts org acct k (set_accounts org acct g ?s1))"
      and kc: "\<And>x. core (k x) = core x" and kt: "\<And>x. ac_tierId (k x) = ac_tierId x"
      and kh: "(ac_healthScore (k (g (?p a))), ac_churnRisk (k (g (?p a)))) =
          health_of (en_now e) (ac_totalVisits (g (?p a))) (ac_lifetimePointsEarned (g (?p a)))
            (recent_visit org (g (?p a)) (set_accounts org acct g ?s1))"
    by (rule refresh_ok [OF f2, of e]) (rule that)
  define h where "h = k \<circ> g \<circ> ?p"
  have hc: "core (h x) = core (?p x)" for x by (simp add: h_def kc gc)
  have hs: "set_accounts org acct k (set_accounts org acct g ?s1) =
      (set_accounts org acct h s)\<lparr>ledger := ledger s @ [?row]\<rparr>"
    using key_safe_core [OF gc] by (simp add: set_accounts_compose h_def comp_assoc)
  have get: "get_account org acct ((set_accounts org acct h s)\<lparr>ledger := ledger s @ [?row]\<rparr>)
      = Inr (h a, (set_accounts org acct h s)\<lparr>ledger := ledger s @ [?row]\<rparr>)"
    using a hc by (simp add: get_account_def find_set_accounts key_safe_def core_eqD [OF hc])
  let ?r = "\<lparr>ar_account = h a, ar_type = type, ar_points = points,
      ar_delta = signed_points type points, ar_customerId = ac_customerId (?p a),
      ar_idempotent = False, ar_tierUpgradeSlug = slug\<rparr>"
  have run: "post_points e org acct points type opts s
      = Inr (?r, (set_accounts org acct h s)\<lparr>ledger := ledger s @ [?row]\<rparr>)"
    unfolding post_points_def move_account_eq
    using mv led g k hs get by (simp add: tx_bind_def tx_return_def posted_row_def)
  show thesis
    using run hc gt gs kh kt
    by (intro that [OF a hc run])
      (simp_all add: h_def core_eqD [OF kc] core_eqD [OF gc] recent_visit_core [OF gc]
        cong: option.case_cong)
qed

lemma post_points_total:
  assumes "posting_failure e org acct points type opts s = None"
  shows "\<exists>r t. post_points e org acct points type opts s = Inr (r, t)"
  by (rule post_points_succeeds [OF assms]) blast

section \<open>The whole transaction\<close>

text \<open>The row an earn of the same source has left, if it has.\<close>

definition earlier_earn :: "uuid \<Rightarrow> uuid \<Rightarrow> string \<Rightarrow> apply_opts \<Rightarrow> db \<Rightarrow> ledger_row option" where
  "earlier_earn org acct type opts s =
     (case earn_source type opts of None \<Rightarrow> None
      | Some (st, si) \<Rightarrow> findExistingEarnLedger org acct type st si s)"

definition apply_failure ::
  "env \<Rightarrow> uuid \<Rightarrow> uuid \<Rightarrow> int \<Rightarrow> string \<Rightarrow> apply_opts \<Rightarrow> db \<Rightarrow> error option" where
  "apply_failure e org acct points type opts s =
     (if points \<le> 0 then Some (BadRequest ''Points amount must be positive'')
      else if earlier_earn org acct type opts s \<noteq> None
      then (if find_account org acct s = None then Some PrismaP2025 else None)
      else posting_failure e org acct points type opts s)"

lemma apply_tx_fails:
  "apply_failure e org acct points type opts s = Some err \<Longrightarrow>
   applyPointsInTransaction e org acct points type opts s = Inl err"
  by (auto simp: apply_failure_def applyPointsInTransaction_def earlier_earn_def [symmetric]
      get_account_def tx_defs post_points_fails split: if_splits option.splits)

lemma apply_tx_replays:
  assumes "0 < points" and "earlier_earn org acct type opts s = Some l"
    and "find_account org acct s = Some a"
  shows "applyPointsInTransaction e org acct points type opts s =
    Inr (\<lparr>ar_account = a, ar_type = type, ar_points = \<bar>le_points l\<bar>, ar_delta = 0,
           ar_customerId = ac_customerId a, ar_idempotent = True, ar_tierUpgradeSlug = None\<rparr>, s)"
  using assms by (simp add: applyPointsInTransaction_def earlier_earn_def [symmetric]
      get_account_def tx_defs)

lemma apply_tx_posts:
  assumes "0 < points" and "earlier_earn org acct type opts s = None"
  shows "applyPointsInTransaction e org acct points type opts s =
    post_points e org acct points type opts s"
  using assms by (simp add: applyPointsInTransaction_def earlier_earn_def [symmetric])

lemma apply_failure_cases:
  assumes "apply_failure e org acct points type opts s = None"
  obtains (replay) l a where "0 < points" "earlier_earn org acct type opts s = Some l"
      "find_account org acct s = Some a"
  | (post) "0 < points" "earlier_earn org acct type opts s = None"
      "posting_failure e org acct points type opts s = None"
  using assms by (fastforce simp: apply_failure_def split: if_splits)

lemma apply_tx_Inr_cases:
  assumes "applyPointsInTransaction e org acct points type opts s = Inr (r, s')"
  obtains (replay) l a where "0 < points" "earlier_earn org acct type opts s = Some l"
      "find_account org acct s = Some a" "s' = s" "ar_account r = a" "ar_idempotent r"
  | (post) a h where "0 < points" "earlier_earn org acct type opts s = None"
      "posting_failure e org acct points type opts s = None"
      "find_account org acct s = Some a"
      "\<And>x. core (h x) = core (posting type points (ao_incrementVisit opts) x)"
      "s' = (set_accounts org acct h s)
          \<lparr>ledger := ledger s @ [posted_row e org acct points type opts a]\<rparr>"
      "ar_account r = h a" "\<not> ar_idempotent r"
proof -
  have ok: "apply_failure e org acct points type opts s = None"
    using assms apply_tx_fails [of e org acct points type opts s] by (metis not_None_eq sum.distinct(1))
  then show thesis
  proof (cases rule: apply_failure_cases)
    case (replay l a)
    show thesis
      using apply_tx_replays [OF replay, of e] assms by (intro that(1) [OF replay]) auto
  next
    case post
    obtain a h r0 where a: "find_account org acct s = Some a"
      and h: "\<And>x. core (h x) = core (posting type points (ao_incrementVisit opts) x)"
      and run: "post_points e org acct points type opts s = Inr (r0, (set_accounts org acct h s)
          \<lparr>ledger := ledger s @ [posted_row e org acct points type opts a]\<rparr>)"
      and r0: "ar_account r0 = h a" "\<not> ar_idempotent r0"
      by (rule post_points_succeeds [OF post(3)]) (rule that)
    have eq: "r = r0" "s' = (set_accounts org acct h s)
          \<lparr>ledger := ledger s @ [posted_row e org acct points type opts a]\<rparr>"
      using assms apply_tx_posts [OF post(1,2), of e] run by auto
    show thesis by (rule that(2) [OF post a h eq(2)]) (simp_all add: eq(1) r0)
  qed
qed

section \<open>The ledger invariant\<close>

definition entry_sum :: "(string \<Rightarrow> bool) \<Rightarrow> uuid \<Rightarrow> uuid \<Rightarrow> ledger_row list \<Rightarrow> int" where
  "entry_sum P org acct ls = sum_list (map le_points
     (filter (\<lambda>l. le_orgId l = org \<and> le_accountId l = acct \<and> P (le_type l)) ls))"

lemma entry_sum_append [simp]:
  "entry_sum P org acct (ls @ ms) = entry_sum P org acct ls + entry_sum P org acct ms"
  by (simp add: entry_sum_def)

lemma entry_sum_row [simp]:
  "entry_sum P o2 k2 [posted_row e org acct points type opts a] =
     (if o2 = org \<and> k2 = acct \<and> P type then signed_points type points else 0)"
  "entry_sum P o2 k2 [] = 0"
  by (auto simp: entry_sum_def posted_row_def)

definition account_reconciled :: "db \<Rightarrow> account_row \<Rightarrow> bool" where
  "account_reconciled s a \<longleftrightarrow>
     ac_pointsBalance a = entry_sum (\<lambda>_. True) (ac_orgId a) (ac_id a) (ledger s) \<and>
     0 \<le> ac_pointsBalance a \<and>
     ac_lifetimePointsEarned a = entry_sum isLifetimeEarnType (ac_orgId a) (ac_id a) (ledger s) \<and>
     ac_lifetimePointsBurned a = - entry_sum (\<lambda>t. t = ''BURN'') (ac_orgId a) (ac_id a) (ledger s)"

definition ledger_inv :: "db \<Rightarrow> bool" where
  "ledger_inv s \<longleftrightarrow>
     (\<forall>org acct a. find_account org acct s = Some a \<longrightarrow> account_reconciled s a) \<and>
     (\<forall>l\<in>set (ledger s). find_account (le_orgId l) (le_accountId l) s \<noteq> None) \<and>
     sorted_wrt (\<lambda>l r. \<not> earn_source_clash l r) (ledger s)"

lemma find_accountD: "find_account org acct s = Some a \<Longrightarrow> ac_id a = acct \<and> ac_orgId a = org"
  by (auto simp: find_account_def acc_key_def dest: find_SomeD)

lemma earn_source_clash_sym: "earn_source_clash l r = earn_source_clash r l"
  by (auto simp: earn_source_clash_def)

lemma posting_lifetime [simp]:
  "ac_lifetimePointsEarned (posting type points inc x) =
     ac_lifetimePointsEarned x + (if isLifetimeEarnType type then points else 0)"
  "ac_lifetimePointsBurned (posting type points inc x) =
     ac_lifetimePointsBurned x + (if type = ''BURN'' then points else 0)"
  by (simp_all add: posting_def)

lemma signed_points_lifetime:
  "isLifetimeEarnType type \<Longrightarrow> signed_points type points = points"
  "signed_points ''BURN'' points = - points"
  by (auto simp: signed_points_def isLifetimeEarnType_def isDebitLedgerType_def)

lemma ledger_types_disjoint [simp]:
  "isDebitLedgerType ''BURN''" "isDebitLedgerType ''EXPIRE''" "\<not> isLifetimeEarnType ''BURN''"
  "isLifetimeEarnType t \<Longrightarrow> \<not> isDebitLedgerType t" "\<not> isDebitLedgerType ''ADJUST''"
  "isDebitLedgerType t \<Longrightarrow> \<not> isLifetimeEarnType t"
  by (auto simp: isDebitLedgerType_def isLifetimeEarnType_def)

lemma ledger_inv_posts:
  assumes inv: "ledger_inv s" and pos: "0 < points"
    and ok: "posting_failure e org acct points type opts s = None"
    and a: "find_account org acct s = Some a"
    and h: "\<And>x. core (h x) = core (posting type points (ao_incrementVisit opts) x)"
  shows "ledger_inv ((set_accounts org acct h s)
    \<lparr>ledger := ledger s @ [posted_row e org acct points type opts a]\<rparr>)" (is "ledger_inv ?t")
proof -
  note hf = core_eqD [OF h, simplified]
  have ks: "key_safe h" by (simp add: key_safe_def hf)
  have fa: "find_account o2 k2 ?t =
      (if o2 = org \<and> k2 = acct then Some (h a) else find_account o2 k2 s)" for o2 k2
    using a ks by (simp add: find_set_accounts)
  have enough: "isDebitLedgerType type \<Longrightarrow> points \<le> ac_pointsBalance a"
    using ok a by (auto simp: posting_failure_def split: if_splits)
  have fresh: "\<not> earn_source_clash (posted_row e org acct points type opts a) r"
    if "r \<in> set (ledger s)" for r
    using ok a that by (auto simp: posting_failure_def split: if_splits)
  have ra: "account_reconciled s a" using inv a by (auto simp: ledger_inv_def)
  have "account_reconciled ?t (h a)"
    using ra pos enough find_accountD [OF a]
    by (auto simp: account_reconciled_def hf signed_points_lifetime signed_points_def)
  moreover have "account_reconciled ?t b"
    if "find_account o2 k2 s = Some b" "\<not> (o2 = org \<and> k2 = acct)" for o2 k2 b
  proof -
    have "account_reconciled s b" using inv that(1) by (auto simp: ledger_inv_def)
    then show ?thesis
      using that(2) find_accountD [OF that(1)] by (auto simp: account_reconciled_def)
  qed
  ultimately have "\<forall>o2 k2 b. find_account o2 k2 ?t = Some b \<longrightarrow> account_reconciled ?t b"
    using fa by (metis option.inject)
  moreover have "\<forall>l\<in>set (ledger ?t). find_account (le_orgId l) (le_accountId l) ?t \<noteq> None"
    using inv fa a by (auto simp: ledger_inv_def posted_row_def)
  moreover have "sorted_wrt (\<lambda>l r. \<not> earn_source_clash l r) (ledger ?t)"
    using inv fresh by (auto simp: ledger_inv_def sorted_wrt_append earn_source_clash_sym)
  ultimately show ?thesis by (simp add: ledger_inv_def)
qed

lemma preserves_apply_tx [pres_intros]:
  "preserves_tx ledger_inv (applyPointsInTransaction e org acct points type opts)"
proof (rule preserves_txI)
  fix s r s'
  assume inv: "ledger_inv s"
    and run: "applyPointsInTransaction e org acct points type opts s = Inr (r, s')"
  from run show "ledger_inv s'"
  proof (cases rule: apply_tx_Inr_cases)
    case (replay l a)
    then show ?thesis using inv by simp
  next
    case (post a h)
    then show ?thesis using ledger_inv_posts [OF inv] by blast
  qed
qed

text \<open>The invariant looks at two tables only.\<close>

lemma ledger_inv_cong:
  assumes "accounts t = accounts s" and "ledger t = ledger s"
  shows "ledger_inv t = ledger_inv s"
  using assms by (simp add: ledger_inv_def find_account_def account_reconciled_def)

lemma ledger_inv_blind [simp, intro]:
  "cache_blind ledger_inv" "log_blind ledger_inv" "blind programs_update ledger_inv"
  "blind tiers_update ledger_inv" "blind earnRules_update ledger_inv"
  "blind wallets_update ledger_inv" "blind walletTxs_update ledger_inv"
  "blind rewards_update ledger_inv" "blind redemptions_update ledger_inv"
  "blind coupons_update ledger_inv" "blind couponRedemptions_update ledger_inv"
  "blind referrals_update ledger_inv" "blind challenges_update ledger_inv"
  "blind progresses_update ledger_inv" "blind badges_update ledger_inv"
  "blind badgeAwards_update ledger_inv" "blind giftCards_update ledger_inv"
  "blind gamePlays_update ledger_inv" "blind campaigns_update ledger_inv"
  "blind sends_update ledger_inv" "blind customers_update ledger_inv"
  "blind reviews_update ledger_inv" "blind consents_update ledger_inv"
  "blind settings_update ledger_inv"
  unfolding blind_def by (auto intro: ledger_inv_cong [THEN iffD2])

lemma preserves_tx_other_tables:
  "(\<And>s a s'. t s = Inr (a, s') \<Longrightarrow> accounts s' = accounts s \<and> ledger s' = ledger s) \<Longrightarrow>
   preserves_tx ledger_inv t"
  unfolding preserves_tx_def by (metis ledger_inv_cong)

lemma preserves_dispatch [pres_intros]:
  "log_blind I \<Longrightarrow> preserves I (dispatchApplyPointsSideEffects org acct r opts)"
  by (auto simp: dispatchApplyPointsSideEffects_def preserves_def svc_modify_def blind_def)

lemma preserves_get_account [pres_intros]: "preserves_tx I (get_account org acct)"
  by (auto simp: preserves_tx_def get_account_def split: option.splits)

lemma preserves_loadIdempotent [pres_intros]:
  "preserves I (loadIdempotentEarnAfterConflict org acct type st si)"
  unfolding loadIdempotentEarnAfterConflict_def loadIdempotentEarnResult_def
  by (auto simp: preserves_def with_tenant_def get_account_def tx_defs split: option.splits sum.splits)

section \<open>Balances and entries as a book\<close>

record points_op =
  po_env :: env
  po_org :: uuid
  po_acct :: uuid
  po_points :: int
  po_type :: string
  po_opts :: apply_opts

definition points_step :: "points_op \<Rightarrow> db \<Rightarrow> error + db" where
  "points_step = tx_step (\<lambda>x. applyPointsInTransaction (po_env x) (po_org x) (po_acct x)
     (po_points x) (po_type x) (po_opts x))"

definition points_bal :: "uuid \<times> uuid \<Rightarrow> db \<Rightarrow> int option" where
  "points_bal k s = map_option ac_pointsBalance (find_account (fst k) (snd k) s)"

definition points_entries :: "uuid \<times> uuid \<Rightarrow> db \<Rightarrow> int list" where
  "points_entries k s = map le_points
     (filter (\<lambda>l. le_orgId l = fst k \<and> le_accountId l = snd k) (ledger s))"

lemma points_step_cases:
  assumes "points_step x s = Inr s'"
  obtains (replay) "s' = s"
  | (post) a h where "0 < po_points x"
      "posting_failure (po_env x) (po_org x) (po_acct x) (po_points x) (po_type x) (po_opts x) s = None"
      "find_account (po_org x) (po_acct x) s = Some a"
      "\<And>y. core (h y) = core (posting (po_type x) (po_points x) (ao_incrementVisit (po_opts x)) y)"
      "s' = (set_accounts (po_org x) (po_acct x) h s)\<lparr>ledger := ledger s @
         [posted_row (po_env x) (po_org x) (po_acct x) (po_points x) (po_type x) (po_opts x) a]\<rparr>"
proof -
  from assms obtain r where "applyPointsInTransaction (po_env x) (po_org x) (po_acct x)
     (po_points x) (po_type x) (po_opts x) s = Inr (r, s')"
    by (auto simp: points_step_def tx_step_Inr_iff)
  then show thesis
  proof (cases rule: apply_tx_Inr_cases)
    case (replay l a)
    then show ?thesis using that(1) by simp
  next
    case (post a h)
    then show ?thesis using that(2) [OF post(1,3,4) post(5,6)] by simp
  qed
qed

lemma points_step_effect:
  assumes "points_step x s = Inr s'" and "points_bal k s = Some b"
  obtains (same) "points_bal k s' = Some b" "points_entries k s' = points_entries k s"
  | (moved) a d where "find_account (fst k) (snd k) s = Some a" "ac_pointsBalance a = b"
      "points_bal k s' = Some (b + d)" "points_entries k s' = points_entries k s @ [d]"
      "0 \<le> b + d \<or> 0 < d" "int4_ok (b + d)"
  using assms(1)
proof (cases rule: points_step_cases)
  case replay
  then show thesis using assms(2) by (intro same) auto
next
  case (post a h)
  note hf = core_eqD [OF post(4), simplified]
  have ks: "key_safe h" by (simp add: key_safe_def hf)
  show thesis
  proof (cases "k = (po_org x, po_acct x)")
    case False
    then show thesis
      using assms(2) post(5) ks
      by (intro same) (auto simp: points_bal_def points_entries_def find_set_accounts posted_row_def
          prod_eq_iff)
  next
    case True
    then have b: "ac_pointsBalance a = b" using assms(2) post(3) by (simp add: points_bal_def)
    have "int4_ok (b + signed_points (po_type x) (po_points x))"
      "0 \<le> b + signed_points (po_type x) (po_points x) \<or> 0 < signed_points (po_type x) (po_points x)"
      using post(1-3) b by (auto simp: posting_failure_def account_ok_def signed_points_def
          split: if_splits)
    then show thesis
      using True post(3,5) b ks
      by (intro moved [of a "signed_points (po_type x) (po_points x)"])
        (auto simp: points_bal_def points_entries_def find_set_accounts posted_row_def hf)
  qed
qed

interpretation pb: bounded_book points_step points_bal points_entries 2147483647
proof unfold_locales
  fix x s s' k b
  assume step: "points_step x s = Inr s'" and bal: "points_bal k s = Some b"
  show "\<exists>ds. points_entries k s' = points_entries k s @ ds \<and> points_bal k s' = Some (b + sum_list ds)"
    using step bal by (cases rule: points_step_effect) (auto intro: exI [of _ "[]"])
  show "0 \<le> b'" if "0 \<le> b" "points_bal k s' = Some b'" for b'
    using step bal by (cases rule: points_step_effect) (use that in auto)
  show "b' \<le> 2147483647" if "b \<le> 2147483647" "points_bal k s' = Some b'" for b'
    using step bal by (cases rule: points_step_effect) (use that in \<open>auto simp: int4_ok_def\<close>)
qed

section \<open>Which tier\<close>

lemma sort_key_hd_least:
  "sort_key f xs = y # ys \<Longrightarrow> y \<in> set xs \<and> (\<forall>x\<in>set xs. f y \<le> f x)"
proof -
  assume sk: "sort_key f xs = y # ys"
  have "sorted (map f (sort_key f xs))" by simp
  with sk have "sorted (f y # map f ys)" by simp
  moreover have "set (y # ys) = set xs" using sk by (metis set_sort)
  ultimately show ?thesis by auto
qed

lemma resolveTier_None:
  "resolveTierForPoints org n s = None \<longleftrightarrow>
   (\<forall>t\<in>set (tiers s). ti_orgId t = org \<longrightarrow> n < ti_minLifetimePoints t)"
proof -
  have "resolveTierForPoints org n s = None \<longleftrightarrow>
      filter (\<lambda>t. ti_orgId t = org \<and> ti_minLifetimePoints t \<le> n) (tiers s) = []"
    by (auto simp: resolveTierForPoints_def split: list.splits dest: arg_cong [where f = length])
  then show ?thesis by (auto simp: filter_empty_conv not_le)
qed

lemma resolveTier_Some:
  assumes "resolveTierForPoints org n s = Some t"
  shows "t \<in> set (tiers s)" "ti_orgId t = org" "ti_minLifetimePoints t \<le> n"
    "\<And>u. u \<in> set (tiers s) \<Longrightarrow> ti_orgId u = org \<Longrightarrow> ti_minLifetimePoints u \<le> n \<Longrightarrow>
       ti_minLifetimePoints u \<le> ti_minLifetimePoints t"
proof -
  from assms obtain ys where "sort_key (\<lambda>t. - ti_minLifetimePoints t)
      (filter (\<lambda>t. ti_orgId t = org \<and> ti_minLifetimePoints t \<le> n) (tiers s)) = t # ys"
    by (auto simp: resolveTierForPoints_def split: list.splits)
  from sort_key_hd_least [OF this]
  show "t \<in> set (tiers s)" "ti_orgId t = org" "ti_minLifetimePoints t \<le> n"
    "\<And>u. u \<in> set (tiers s) \<Longrightarrow> ti_orgId u = org \<Longrightarrow> ti_minLifetimePoints u \<le> n \<Longrightarrow>
       ti_minLifetimePoints u \<le> ti_minLifetimePoints t"
    by auto
qed

end
