(* ===== verification/PointsProps.thy ===== *)
theory PointsProps
  imports PointsFacts
begin

text \<open>
  The properties of the points ledger, each with a witness on the small database defined first.
\<close>

section \<open>A small database\<close>

definition demo_env :: env where
  "demo_env = \<lparr>en_now = 1700000000000, en_uuid = (\<lambda>k. k), en_bytes = (\<lambda>c n i. n + i),
     en_rand_num = 0, en_rand_den = 1, en_legacyLookup = True,
     en_notify = (\<lambda>_. None)\<rparr>"

definition demo_tier :: "string \<Rightarrow> int \<Rightarrow> tier_row" where
  "demo_tier slug m = \<lparr>ti_id = ''t-'' @ slug, ti_orgId = ''o1'', ti_programId = ''p1'',
     ti_name = slug, ti_slug = slug, ti_minLifetimePoints = m, ti_sortOrder = 0, ti_color = None\<rparr>"

definition demo_account :: account_row where
  "demo_account = \<lparr>ac_id = ''a1'', ac_orgId = ''o1'', ac_customerId = ''c1'',
     ac_tierId = Some ''t-bronze'', ac_pointsBalance = 100, ac_lifetimePointsEarned = 490,
     ac_lifetimePointsBurned = 390, ac_lifetimeValueCents = 0, ac_referralCode = ''ABCD2345'', ac_totalVisits = 2,
     ac_healthScore = 50, ac_churnRisk = ''low''\<rparr>"

definition demo_entry :: "string \<Rightarrow> int \<Rightarrow> int \<Rightarrow> string \<Rightarrow> ledger_row" where
  "demo_entry type pts bal si = \<lparr>le_orgId = ''o1'', le_accountId = ''a1'', le_type = type,
     le_points = pts, le_balanceAfter = bal, le_sourceType = Some ''ticket'',
     le_sourceId = Some si, le_description = None, le_createdAt = 1600000000000\<rparr>"

definition demo_customer :: "string \<Rightarrow> string \<Rightarrow> customer_row" where
  "demo_customer i phone = \<lparr>cu_id = i, cu_orgId = ''o1'', cu_name = ''Ada'', cu_email = None,
     cu_phone = Some phone, cu_externalId = None, cu_smsConsent = ''GRANTED'',
     cu_emailConsent = ''REVOKED'', cu_birthday = None, cu_gender = None, cu_city = None,
     cu_metadata = JNull\<rparr>"

definition demo_program :: program_row where
  "demo_program = \<lparr>pr_id = ''p1'', pr_orgId = ''o1'', pr_enabled = True, pr_displayName = None,
     pr_pointsCurrencyName = ''Points'', pr_defaultEarnPoints = 10, pr_referralBonusPoints = 50,
     pr_referredBonusPoints = 25, pr_pointsExpiryDays = Some 30, pr_displayCurrencyCode = ''USD'',
     pr_defaultLocale = ''en''\<rparr>"

definition demo_db :: db where
  "demo_db = empty_db\<lparr>
     orgs := [\<lparr>og_id = ''o1'', og_name = ''Cafe'', og_slug = ''cafe'', og_logoUrl = None,
       og_brandPrimaryColor = None, og_brandAccentColor = None, og_patronCrmEnabled = False, og_productSku = Some ''loyalty''\<rparr>],
     customers := [demo_customer ''c1'' ''5550000001'', demo_customer ''c2'' ''5550000002''],
     programs := [demo_program],
     tiers := [demo_tier ''bronze'' 0, demo_tier ''silver'' 500, demo_tier ''gold'' 1500],
     accounts := [demo_account],
     ledger := [demo_entry ''EARN'' 490 490 ''v1'', demo_entry ''BURN'' (-390) 100 ''r1'']\<rparr>"

lemmas demo_defs = demo_env_def demo_tier_def demo_account_def demo_entry_def demo_customer_def
  demo_program_def demo_db_def empty_db_def

lemma demo_find [simp]:
  "find_account org acct demo_db = (if org = ''o1'' \<and> acct = ''a1'' then Some demo_account else None)"
  by (auto simp: find_account_def acc_key_def demo_db_def demo_account_def)

lemma demo_ledger_inv: "ledger_inv demo_db"
  by (simp add: ledger_inv_def account_reconciled_def)
    (simp add: demo_defs entry_sum_def isLifetimeEarnType_def earn_source_clash_def)

section \<open>A posted source is in the ledger\<close>

lemma applyPoints_books:
  assumes first: "applyPoints e org acct points type opts s = (Inr (a, b), s1)"
    and src: "earn_source type opts \<noteq> None"
  obtains l a' where "earlier_earn org acct type opts s1 = Some l" and "find_account org acct s1 = Some a'"
proof -
  from src obtain st si where so: "earn_source type opts = Some (st, si)" by auto
  then have opt: "ao_sourceType opts = Some st" "ao_sourceId opts = Some si"
      "isEarnSourceIdempotentType type"
    by (auto simp: earn_source_def truthy_str_def split: if_splits option.splits)
  have "\<exists>l a'. earlier_earn org acct type opts s1 = Some l \<and> find_account org acct s1 = Some a'"
  proof (cases "runApplyPoints e org acct points type opts s")
    case (Pair res t)
    show ?thesis
    proof (cases res)
      case (Inr r)
      with Pair have run: "applyPointsInTransaction e org acct points type opts s = Inr (r, t)"
        by (simp add: runApplyPoints_def with_tenant_Inr_iff)
      have s1: "accounts s1 = accounts t \<and> ledger s1 = ledger t"
        using first Pair Inr
        by (auto simp: applyPoints_def svc_defs dispatchApplyPointsSideEffects_def split: if_splits)
      from run show ?thesis
      proof (cases rule: apply_tx_Inr_cases)
        case (replay l a)
        then show ?thesis
          using s1 so by (auto simp: earlier_earn_def findExistingEarnLedger_def find_account_def)
      next
        case (post a h)
        have ks: "key_safe h" by (simp add: key_safe_def core_eqD [OF post(5), simplified])
        have "find_account org acct t = Some (h a)"
          using post(4,6) ks by (simp add: find_set_accounts)
        moreover have "earlier_earn org acct type opts t \<noteq> None"
          unfolding earlier_earn_def findExistingEarnLedger_def so
          using opt by (simp add: post(6)) (rule find_ex
            [of "posted_row e org acct points type opts a"], simp_all)
        ultimately show ?thesis
          using s1 so by (auto simp: earlier_earn_def findExistingEarnLedger_def find_account_def)
      qed
    next
      case (Inl err)
      with Pair have "t = s" by (auto simp: runApplyPoints_def dest: with_tenant_Inl_state)
      with first Pair Inl have "loadIdempotentEarnResult org acct type st si s = (Inr (a, b), s1)"
        by (auto simp: applyPoints_def svc_defs loadIdempotentEarnAfterConflict_def opt split: if_splits)
      then show ?thesis
        using so by (auto simp: loadIdempotentEarnResult_def with_tenant_Inr_iff earlier_earn_def
            get_account_def tx_defs split: option.splits sum.splits)
    qed
  qed
  then show thesis using that by blast
qed

section \<open>Properties\<close>

text \<open>
  C1. However many postings run, and whichever of them fail, an account whose balance is the sum of
  its ledger keeps a balance that is the sum of its ledger, never negative and within the 32-bit
  column.
\<close>

theorem points_runs_reconcile:
  assumes "ledger_inv s" and "find_account org acct s = Some a" and "ac_pointsBalance a \<le> 2147483647"
  shows "\<exists>b. find_account org acct (run_ops points_step ops s) = Some b \<and>
    ac_pointsBalance b = sum_list (points_entries (org, acct) (run_ops points_step ops s)) \<and>
    0 \<le> ac_pointsBalance b \<and> ac_pointsBalance b \<le> 2147483647"
proof -
  have r: "account_reconciled s a" using assms(1,2) by (auto simp: ledger_inv_def)
  have bal: "points_bal (org, acct) s = Some (ac_pointsBalance a)"
    using assms(2) by (simp add: points_bal_def)
  have sum: "ac_pointsBalance a = sum_list (points_entries (org, acct) s)"
    using r find_accountD [OF assms(2)]
    by (simp add: account_reconciled_def entry_sum_def points_entries_def)
  have nn: "0 \<le> ac_pointsBalance a" using r by (simp add: account_reconciled_def)
  show ?thesis
    using pb.run_reconciled [of "(org, acct)" s ops] pb.run_nonneg [OF bal nn, of ops]
      pb.run_bounded [OF bal assms(3), of ops] bal sum
    by (auto simp: points_bal_def)
qed

definition demo_op :: "string \<Rightarrow> int \<Rightarrow> points_op" where
  "demo_op type n = \<lparr>po_env = demo_env, po_org = ''o1'', po_acct = ''a1'', po_points = n,
     po_type = type, po_opts = source_opts ''manual'' None None False\<rparr>"

theorem points_runs_reconcile_witness:
  "\<exists>b. find_account ''o1'' ''a1'' (run_ops points_step [demo_op ''BURN'' 30, demo_op ''BURN'' 90] demo_db)
      = Some b \<and>
    ac_pointsBalance b = sum_list (points_entries (''o1'', ''a1'')
      (run_ops points_step [demo_op ''BURN'' 30, demo_op ''BURN'' 90] demo_db)) \<and>
    0 \<le> ac_pointsBalance b \<and> ac_pointsBalance b \<le> 2147483647"
  by (rule points_runs_reconcile [OF demo_ledger_inv, of _ _ demo_account])
    (simp_all add: demo_account_def)

text \<open>
  C2. Posting points fails in exactly these cases, in this order: the amount is not positive; a
  replayed earn finds no account; the account is unknown; a debit exceeds the balance; a counter
  would leave its 32-bit column; an earn of the other type already used the source.
\<close>

theorem apply_points_failures:
  "applyPointsInTransaction e org acct points type opts s = Inl err \<longleftrightarrow>
   apply_failure e org acct points type opts s = Some err"
proof (cases "apply_failure e org acct points type opts s")
  case None
  then have "\<exists>r t. applyPointsInTransaction e org acct points type opts s = Inr (r, t)"
  proof (cases rule: apply_failure_cases)
    case (replay l a)
    then show ?thesis using apply_tx_replays [OF replay] by blast
  next
    case post
    then show ?thesis
      using apply_tx_posts [OF post(1,2)] post_points_total [OF post(3)] by simp
  qed
  with None show ?thesis by auto
next
  case (Some x)
  then show ?thesis using apply_tx_fails [OF Some] by auto
qed

text \<open>
  C3. Earning is idempotent: once an EARN or BONUS with a source went through, posting the same
  type and source again, whatever the amount and the time, reports a replay, returns the account
  and changes nothing at all, neither the tables nor the log of side effects.
\<close>

theorem earn_is_idempotent:
  assumes first: "applyPoints e org acct points type opts s = (Inr (a, b), s1)"
    and src: "earn_source type opts \<noteq> None" and pos: "0 < points'"
  shows "\<exists>a'. applyPoints e' org acct points' type opts s1 = (Inr (a', True), s1) \<and>
    find_account org acct s1 = Some a'"
proof -
  obtain l a' where "earlier_earn org acct type opts s1 = Some l"
    and a': "find_account org acct s1 = Some a'" by (rule applyPoints_books [OF first src])
  from apply_tx_replays [OF pos this, of e'] a' show ?thesis
    by (simp add: applyPoints_def runApplyPoints_def svc_defs)
qed

theorem earn_is_idempotent_witness:
  "\<exists>a'. applyPoints demo_env ''o1'' ''a1'' 999 ''EARN'' (source_opts ''ticket'' (Some ''v9'') None True)
      (snd (applyPoints demo_env ''o1'' ''a1'' 20 ''EARN''
        (source_opts ''ticket'' (Some ''v9'') None True) demo_db)) =
    (Inr (a', True), snd (applyPoints demo_env ''o1'' ''a1'' 20 ''EARN''
        (source_opts ''ticket'' (Some ''v9'') None True) demo_db)) \<and>
    find_account ''o1'' ''a1'' (snd (applyPoints demo_env ''o1'' ''a1'' 20 ''EARN''
        (source_opts ''ticket'' (Some ''v9'') None True) demo_db)) = Some a'"
proof -
  let ?run = "applyPoints demo_env ''o1'' ''a1'' 20 ''EARN''
        (source_opts ''ticket'' (Some ''v9'') None True) demo_db"
  have "returns ?run" by code_simp
  then obtain r where "?run = (Inr r, snd ?run)" by (rule returnsE)
  then have "?run = (Inr (fst r, snd r), snd ?run)" by simp
  then show ?thesis
    by (rule earn_is_idempotent) (simp_all add: earn_source_def source_opts_def
        isEarnSourceIdempotentType_def)
qed

text \<open>
  A call of \<open>applyPoints\<close> that ends in an exception leaves the database and the log as they were.
\<close>

theorem apply_points_atomic:
  assumes "applyPoints e org acct points type opts s = (Inl err, s')"
  shows "s' = s"
  using assms
  by (auto simp: applyPoints_def runApplyPoints_def svc_defs dispatchApplyPointsSideEffects_def
      loadIdempotentEarnAfterConflict_def loadIdempotentEarnResult_def
      split: sum.splits prod.splits if_splits)

theorem apply_points_atomic_witness:
  "applyPoints demo_env ''o1'' ''a1'' 101 ''BURN'' (source_opts ''reward'' (Some ''r'') None False) demo_db
   = (Inl (BadRequest ''Insufficient points balance''), demo_db)"
proof -
  let ?run = "applyPoints demo_env ''o1'' ''a1'' 101 ''BURN''
    (source_opts ''reward'' (Some ''r'') None False) demo_db"
  have "fst ?run = Inl (BadRequest ''Insufficient points balance'')" by code_simp
  then have run: "?run = (Inl (BadRequest ''Insufficient points balance''), snd ?run)"
    by (rule fails_with)
  have "snd ?run = demo_db" by (rule apply_points_atomic [OF run])
  with run show ?thesis by simp
qed

text \<open>
  After points are posted, the account stands in the highest tier its lifetime points reach:
  the tier belongs to the tenant, its threshold is met, and no other tier of the tenant that is met
  has a higher one. With no tier met, the tier stays.
\<close>

theorem tier_is_highest_reached:
  assumes "applyPointsInTransaction e org acct points type opts s = Inr (r, s')"
    and "\<not> ar_idempotent r"
  shows "\<exists>a. find_account org acct s' = Some a \<and> ar_account r = a \<and>
    (\<exists>old. find_account org acct s = Some old \<and>
     (if \<exists>t\<in>set (tiers s). ti_orgId t = org \<and> ti_minLifetimePoints t \<le> ac_lifetimePointsEarned a
      then \<exists>t\<in>set (tiers s). ti_orgId t = org \<and> ac_tierId a = Some (ti_id t) \<and>
        ti_minLifetimePoints t \<le> ac_lifetimePointsEarned a \<and>
        (\<forall>u\<in>set (tiers s). ti_orgId u = org \<and> ti_minLifetimePoints u \<le> ac_lifetimePointsEarned a
           \<longrightarrow> ti_minLifetimePoints u \<le> ti_minLifetimePoints t)
      else ac_tierId a = ac_tierId old))"
  using assms(1)
proof (cases rule: apply_tx_Inr_cases)
  case (replay l a)
  then show ?thesis using assms(2) by simp
next
  case (post _ _)
  obtain a h r0 where a: "find_account org acct s = Some a"
    and hc: "\<And>x. core (h x) = core (posting type points (ao_incrementVisit opts) x)"
    and run: "post_points e org acct points type opts s = Inr (r0, (set_accounts org acct h s)
          \<lparr>ledger := ledger s @ [posted_row e org acct points type opts a]\<rparr>)"
    and r0: "ar_account r0 = h a"
    and tier: "ac_tierId (h a) = (case resolveTierForPoints org (ac_lifetimePointsEarned (h a)) s of
          None \<Rightarrow> ac_tierId a | Some t \<Rightarrow> Some (ti_id t))"
    by (rule post_points_succeeds [OF post(3)]) (rule that)
  have eq: "r = r0" "s' = (set_accounts org acct h s)
          \<lparr>ledger := ledger s @ [posted_row e org acct points type opts a]\<rparr>"
    using assms(1) apply_tx_posts [OF post(1,2), of e] run by auto
  have ks: "key_safe h" by (simp add: key_safe_def core_eqD [OF hc, simplified])
  have f: "find_account org acct s' = Some (h a)" using a ks by (simp add: eq find_set_accounts)
  show ?thesis
  proof (cases "resolveTierForPoints org (ac_lifetimePointsEarned (h a)) s")
    case None
    with tier have "ac_tierId (h a) = ac_tierId a" by simp
    with None show ?thesis
      using f a r0 eq(1) by (auto simp: resolveTier_None not_le)
  next
    case (Some t)
    with tier have "ac_tierId (h a) = Some (ti_id t)" by simp
    with resolveTier_Some [OF Some] show ?thesis
      using f a r0 eq(1) by auto
  qed
qed

text \<open>Twenty points lift the account of the example over the threshold of silver.\<close>

definition demo_earn :: "error + apply_result \<times> db" where
  "demo_earn = applyPointsInTransaction demo_env ''o1'' ''a1'' 20 ''EARN''
     (source_opts ''ticket'' (Some ''v9'') None True) demo_db"

theorem tier_is_highest_reached_witness:
  "\<exists>r s'. demo_earn = Inr (r, s') \<and> (\<exists>a. find_account ''o1'' ''a1'' s' = Some a \<and> ar_account r = a)"
proof -
  have ni: "map_option ar_idempotent (tx_result demo_earn) = Some False" by code_simp
  then obtain r where r: "tx_result demo_earn = Some r" by auto
  then obtain s' where run: "demo_earn = Inr (r, s')" by (rule tx_resultE)
  from ni r have "\<not> ar_idempotent r" by simp
  from tier_is_highest_reached [OF run [unfolded demo_earn_def] this] run show ?thesis by blast
qed

end
