(* ===== verification/Program.thy ===== *)
theory Program
  imports Features
begin

text \<open>
  \<^verbatim>\<open>LoyaltyProgramService\<close>: the loyalty program of a tenant with its default tiers and earn rules,
  the earn rules' conditions, the resolution of an event to points, and the referral codes.
\<close>

section \<open>Default program\<close>

record default_tier =
  dt_slug :: string
  dt_name :: string
  dt_min :: int
  dt_sort :: int
  dt_color :: string

definition LOYALTY_DEFAULT_TIERS :: "default_tier list" where
  "LOYALTY_DEFAULT_TIERS =
    [\<lparr>dt_slug = ''bronze'', dt_name = ''Bronze'', dt_min = 0, dt_sort = 0, dt_color = ''#CD7F32''\<rparr>,
     \<lparr>dt_slug = ''silver'', dt_name = ''Silver'', dt_min = 500, dt_sort = 1, dt_color = ''#C0C0C0''\<rparr>,
     \<lparr>dt_slug = ''gold'', dt_name = ''Gold'', dt_min = 1500, dt_sort = 2, dt_color = ''#FFD700''\<rparr>,
     \<lparr>dt_slug = ''platinum'', dt_name = ''Platinum'', dt_min = 5000, dt_sort = 3,
       dt_color = ''#E5E4E2''\<rparr>,
     \<lparr>dt_slug = ''diamond'', dt_name = ''Diamond'', dt_min = 10000, dt_sort = 4,
       dt_color = ''#B9F2FF''\<rparr>]"

definition LOYALTY_DEFAULT_EARN_RULES :: "(string \<times> string \<times> int) list" where
  "LOYALTY_DEFAULT_EARN_RULES =
    [(''TICKET_COMPLETED'', ''Visit completed'', 10),
     (''APPOINTMENT_COMPLETED'', ''Appointment completed'', 15),
     (''REVIEW_SUBMITTED'', ''Review submitted'', 5),
     (''PURCHASE'', ''Purchase (1 pt per dollar)'', 1),
     (''MANUAL'', ''Manual / POS'', 0)]"

section \<open>Rows of the program\<close>

definition new_program :: "uuid \<Rightarrow> uuid \<Rightarrow> program_row" where
  "new_program i org = \<lparr>pr_id = i, pr_orgId = org, pr_enabled = True, pr_displayName = None,
     pr_pointsCurrencyName = ''Points'', pr_defaultEarnPoints = 10, pr_referralBonusPoints = 50,
     pr_referredBonusPoints = 25, pr_pointsExpiryDays = None, pr_displayCurrencyCode = ''USD'',
     pr_defaultLocale = ''en''\<rparr>"

definition find_program :: "uuid \<Rightarrow> db \<Rightarrow> program_row option" where
  "find_program org s = List.find (\<lambda>p. pr_orgId p = org) (programs s)"

text \<open>Inserting a tier: \<open>@@unique([orgId, slug])\<close> and the 32-bit threshold column.\<close>

definition insert_tier :: "tier_row \<Rightarrow> unit dtx" where
  "insert_tier t s =
     (if List.find (\<lambda>r. ti_orgId r = ti_orgId t \<and> ti_slug r = ti_slug t) (tiers s) \<noteq> None
      then Inl PrismaP2002
      else if \<not> int4_ok (ti_minLifetimePoints t) then Inl IntegerOutOfRange
      else Inr ((), s\<lparr>tiers := tiers s @ [t]\<rparr>))"

definition insert_program :: "program_row \<Rightarrow> unit dtx" where
  "insert_program p = tx_modify (\<lambda>s. s\<lparr>programs := programs s @ [p]\<rparr>)"

definition insert_rule :: "rule_row \<Rightarrow> unit dtx" where
  "insert_rule r = tx_modify (\<lambda>s. s\<lparr>earnRules := earnRules s @ [r]\<rparr>)"

text \<open>The program with \<open>tiers\<close> by sort order and \<open>earnRules\<close> by creation time.\<close>

definition program_tiers :: "program_row \<Rightarrow> db \<Rightarrow> tier_row list" where
  "program_tiers p s = sort_key ti_sortOrder (filter (\<lambda>t. ti_programId t = pr_id p) (tiers s))"

definition program_rules :: "program_row \<Rightarrow> db \<Rightarrow> rule_row list" where
  "program_rules p s = sort_key er_createdAt (filter (\<lambda>r. er_programId r = pr_id p) (earnRules s))"

type_synonym full_program = "program_row \<times> tier_row list \<times> rule_row list"

definition get_or_create_program_tx :: "env \<Rightarrow> uuid \<Rightarrow> full_program dtx" where
  "get_or_create_program_tx e org = tx_read (\<lambda>s0.
     (case find_program org s0 of
        Some p \<Rightarrow> tx_return (p, program_tiers p s0, program_rules p s0)
      | None \<Rightarrow>
          (let p = new_program (en_uuid e ''loyalty_programs'') org in
           tx_bind (insert_program p) (\<lambda>_.
           tx_bind (tx_foreach LOYALTY_DEFAULT_TIERS (\<lambda>d. insert_tier
             \<lparr>ti_id = en_uuid e (''loyalty_tiers/'' @ dt_slug d), ti_orgId = org,
              ti_programId = pr_id p, ti_name = dt_name d, ti_slug = dt_slug d,
              ti_minLifetimePoints = dt_min d, ti_sortOrder = dt_sort d,
              ti_color = Some (dt_color d)\<rparr>)) (\<lambda>_.
           tx_bind (tx_foreach LOYALTY_DEFAULT_EARN_RULES (\<lambda>(ev, nm, pts). insert_rule
             \<lparr>er_id = en_uuid e (''loyalty_earn_rules/'' @ ev), er_orgId = org,
              er_programId = pr_id p, er_name = nm, er_eventType = ev, er_points = pts,
              er_active = True, er_conditions = [], er_createdAt = en_now e\<rparr>)) (\<lambda>_.
           tx_gets (\<lambda>s. (p, program_tiers p s, program_rules p s))))))))"

definition getOrCreateProgram :: "env \<Rightarrow> uuid \<Rightarrow> full_program dsvc" where
  "getOrCreateProgram e org =
     svc_bind (require_enabled e org) (\<lambda>_. with_tenant (get_or_create_program_tx e org))"

section \<open>Editing the program\<close>

text \<open>A field left out of the patch keeps its value; a nullable field can be set to null.\<close>

record program_patch =
  pp_enabled :: "bool option"
  pp_displayName :: "string option option"
  pp_pointsCurrencyName :: "string option"
  pp_defaultEarnPoints :: "int option"
  pp_referralBonusPoints :: "int option"
  pp_referredBonusPoints :: "int option"
  pp_pointsExpiryDays :: "int option option"
  pp_displayCurrencyCode :: "string option"
  pp_defaultLocale :: "string option"

definition apply_program_patch :: "program_patch \<Rightarrow> program_row \<Rightarrow> program_row" where
  "apply_program_patch d p = p\<lparr>
     pr_enabled := patched (pp_enabled d) (pr_enabled p),
     pr_displayName := patched (pp_displayName d) (pr_displayName p),
     pr_pointsCurrencyName := patched (pp_pointsCurrencyName d) (pr_pointsCurrencyName p),
     pr_defaultEarnPoints := patched (pp_defaultEarnPoints d) (pr_defaultEarnPoints p),
     pr_referralBonusPoints := patched (pp_referralBonusPoints d) (pr_referralBonusPoints p),
     pr_referredBonusPoints := patched (pp_referredBonusPoints d) (pr_referredBonusPoints p),
     pr_pointsExpiryDays := patched (pp_pointsExpiryDays d) (pr_pointsExpiryDays p),
     pr_displayCurrencyCode := patched (pp_displayCurrencyCode d) (pr_displayCurrencyCode p),
     pr_defaultLocale := patched (pp_defaultLocale d) (pr_defaultLocale p)\<rparr>"

definition updateProgram :: "env \<Rightarrow> uuid \<Rightarrow> program_patch \<Rightarrow> program_row dsvc" where
  "updateProgram e org d =
     svc_bind (getOrCreateProgram e org) (\<lambda>_.
     with_tenant (\<lambda>s. case find_program org s of
         None \<Rightarrow> Inl PrismaP2025
       | Some p \<Rightarrow> Inr (apply_program_patch d p,
           s\<lparr>programs := update_rows (\<lambda>q. pr_orgId q = org) (apply_program_patch d) (programs s)\<rparr>)))"

definition createTier ::
  "env \<Rightarrow> uuid \<Rightarrow> string \<Rightarrow> string \<Rightarrow> int \<Rightarrow> int option \<Rightarrow> string option \<Rightarrow> tier_row dsvc" where
  "createTier e org name slug minPts sortOrd color =
     svc_bind (getOrCreateProgram e org) (\<lambda>(p, _).
     with_tenant (let t = \<lparr>ti_id = en_uuid e ''loyalty_tiers'', ti_orgId = org,
         ti_programId = pr_id p, ti_name = name, ti_slug = slug, ti_minLifetimePoints = minPts,
         ti_sortOrder = patched sortOrd 0, ti_color = color\<rparr>
       in tx_bind (insert_tier t) (\<lambda>_. tx_return t)))"

definition createEarnRule ::
  "env \<Rightarrow> uuid \<Rightarrow> string \<Rightarrow> string \<Rightarrow> int \<Rightarrow> bool option \<Rightarrow> json_record option \<Rightarrow> rule_row dsvc" where
  "createEarnRule e org name ev pts act conds =
     svc_bind (getOrCreateProgram e org) (\<lambda>(p, _).
     with_tenant (let r = \<lparr>er_id = en_uuid e ''loyalty_earn_rules'', er_orgId = org,
         er_programId = pr_id p, er_name = name, er_eventType = ev, er_points = pts,
         er_active = patched act True, er_conditions = patched conds [],
         er_createdAt = en_now e\<rparr>
       in tx_bind (insert_rule r) (\<lambda>_. tx_return r)))"

record rule_patch =
  rp_name :: "string option"
  rp_points :: "int option"
  rp_active :: "bool option"
  rp_conditions :: "json_record option"

definition apply_rule_patch :: "rule_patch \<Rightarrow> rule_row \<Rightarrow> rule_row" where
  "apply_rule_patch d r = r\<lparr>
     er_name := patched (rp_name d) (er_name r),
     er_points := patched (rp_points d) (er_points r),
     er_active := patched (rp_active d) (er_active r),
     er_conditions := patched (rp_conditions d) (er_conditions r)\<rparr>"

text \<open>\<open>update\<close> sees the tenant's rows only, by row level security.\<close>

definition updateEarnRule :: "env \<Rightarrow> uuid \<Rightarrow> uuid \<Rightarrow> rule_patch \<Rightarrow> rule_row dsvc" where
  "updateEarnRule e org ruleId d =
     svc_bind (getOrCreateProgram e org) (\<lambda>_.
     with_tenant (\<lambda>s.
       let sel = (\<lambda>r. er_id r = ruleId \<and> er_orgId r = org) in
       case List.find sel (earnRules s) of
         None \<Rightarrow> Inl PrismaP2025
       | Some r \<Rightarrow> Inr (apply_rule_patch d r,
           s\<lparr>earnRules := update_rows sel (apply_rule_patch d) (earnRules s)\<rparr>)))"

section \<open>Conditions of an earn rule\<close>

record line_item =
  li_categoryId :: "string option"
  li_sku :: "string option"
  li_priceCents :: int
  li_quantity :: int

record earn_ctx =
  cx_purchaseAmountCents :: "int option"
  cx_branchId :: "uuid option"
  cx_tierSlug :: "string option"
  cx_lifetimePointsEarned :: "int option"
  cx_totalVisits :: "int option"
  cx_accountId :: "uuid option"
  cx_lineItems :: "line_item list option"

text \<open>Reading a key of the JSON object, and JavaScript's truth, length and \<open>includes\<close> of a value.\<close>

definition json_get :: "json_record \<Rightarrow> string \<Rightarrow> json option" where
  "json_get obj k = map_of obj k"

fun js_truthy :: "json option \<Rightarrow> bool" where
  "js_truthy None = False"
| "js_truthy (Some JNull) = False"
| "js_truthy (Some (JBool b)) = b"
| "js_truthy (Some (JNum n)) = (n \<noteq> 0)"
| "js_truthy (Some (JStr x)) = (x \<noteq> [])"
| "js_truthy (Some (JArr _)) = True"
| "js_truthy (Some (JObj _)) = True"

fun js_nonempty :: "json option \<Rightarrow> bool" where
  "js_nonempty (Some (JStr x)) = (x \<noteq> [])"
| "js_nonempty (Some (JArr xs)) = (xs \<noteq> [])"
| "js_nonempty _ = False"

fun js_includes :: "json option \<Rightarrow> string \<Rightarrow> bool" where
  "js_includes (Some (JArr xs)) v = (JStr v \<in> set xs)"
| "js_includes (Some (JStr x)) v = str_contains v x"
| "js_includes _ v = False"

definition thirty_days_ms :: int where
  "thirty_days_ms = 30 * 24 * 60 * 60 * 1000"

definition recent_visits :: "env \<Rightarrow> uuid \<Rightarrow> uuid \<Rightarrow> db \<Rightarrow> nat" where
  "recent_visits e org acct s = count_rows (\<lambda>l. le_orgId l = org \<and> le_accountId l = acct \<and>
     le_type l = ''EARN'' \<and> en_now e - thirty_days_ms \<le> le_createdAt l \<and>
     le_sourceType l \<in> {Some ''ticket'', Some ''appointment''}) (ledger s)"

definition ruleMatchesConditions ::
  "env \<Rightarrow> uuid \<Rightarrow> json_record \<Rightarrow> earn_ctx \<Rightarrow> db \<Rightarrow> bool" where
  "ruleMatchesConditions e org conditions ctx s =
    (if (case json_get conditions ''minPurchaseCents'' of
           Some (JNum m) \<Rightarrow> patched (cx_purchaseAmountCents ctx) 0 < m | _ \<Rightarrow> False)
     then False
     else if (case json_get conditions ''branchId'' of
           Some (JStr b) \<Rightarrow> b \<noteq> [] \<and> cx_branchId ctx \<noteq> Some b | _ \<Rightarrow> False)
     then False
     else if (case json_get conditions ''tierSlugs'' of
           Some (JArr xs) \<Rightarrow> xs \<noteq> [] \<and> (case cx_tierSlug ctx of
               None \<Rightarrow> True | Some t \<Rightarrow> t = [] \<or> JStr t \<notin> set xs) | _ \<Rightarrow> False)
     then False
     else if (case json_get conditions ''minLifetimePoints'' of
           Some (JNum m) \<Rightarrow> patched (cx_lifetimePointsEarned ctx) 0 < m | _ \<Rightarrow> False)
     then False
     else if json_get conditions ''isFirstVisit'' = Some (JBool True)
           \<and> cx_totalVisits ctx \<noteq> Some 0
     then False
     else (case json_get conditions ''minVisits30Days'' of
           Some (JNum m) \<Rightarrow> if 0 < m then
               (if \<not> truthy_str (cx_accountId ctx) \<or> org = [] then False
                else m \<le> int (recent_visits e org (the (cx_accountId ctx)) s))
             else True
         | _ \<Rightarrow> True))"

section \<open>From an event to points\<close>

definition item_eligible ::
  "json option \<Rightarrow> json option \<Rightarrow> json option \<Rightarrow> json option \<Rightarrow> line_item \<Rightarrow> bool" where
  "item_eligible incCats excCats incSkus excSkus item =
    (let cat = patched (li_categoryId item) []; sku = patched (li_sku item) [] in
     \<not> (js_nonempty incCats \<and> (cat = [] \<or> \<not> js_includes incCats cat)) \<and>
     \<not> (js_nonempty excCats \<and> cat \<noteq> [] \<and> js_includes excCats cat) \<and>
     \<not> (js_nonempty incSkus \<and> (sku = [] \<or> \<not> js_includes incSkus sku)) \<and>
     \<not> (js_nonempty excSkus \<and> sku \<noteq> [] \<and> js_includes excSkus sku))"

definition eligible_amount :: "json_record \<Rightarrow> earn_ctx \<Rightarrow> int" where
  "eligible_amount c ctx =
    (let incCats = json_get c ''includedCategories''; excCats = json_get c ''excludedCategories'';
         incSkus = json_get c ''includedSkus''; excSkus = json_get c ''excludedSkus'';
         items = patched (cx_lineItems ctx) []
     in if items \<noteq> [] \<and> (js_truthy incCats \<or> js_truthy excCats \<or> js_truthy incSkus \<or> js_truthy excSkus)
        then sum_list (map (\<lambda>i. if item_eligible incCats excCats incSkus excSkus i
                               then li_priceCents i * li_quantity i else 0) items)
        else patched (cx_purchaseAmountCents ctx) 0)"

text \<open>The loop over the rules of the event; \<open>None\<close> when no rule decides.\<close>

fun first_rule_points ::
  "env \<Rightarrow> uuid \<Rightarrow> string \<Rightarrow> earn_ctx \<Rightarrow> db \<Rightarrow> rule_row list \<Rightarrow> int option" where
  "first_rule_points e org ev ctx s [] = None"
| "first_rule_points e org ev ctx s (r # rs) =
    (if \<not> ruleMatchesConditions e org (er_conditions r) ctx s
     then first_rule_points e org ev ctx s rs
     else (let amt = eligible_amount (er_conditions r) ctx in
       if ev = ''PURCHASE'' \<and> er_points r = 1 \<and> 0 < amt then Some (amt div 100)
       else if ev = ''PURCHASE'' \<and> amt = 0 \<and> 0 < patched (cx_purchaseAmountCents ctx) 0
       then first_rule_points e org ev ctx s rs
       else Some (er_points r)))"

definition active_rules :: "program_row \<Rightarrow> string \<Rightarrow> db \<Rightarrow> rule_row list" where
  "active_rules p ev s = sort_key er_createdAt
     (filter (\<lambda>r. er_programId r = pr_id p \<and> er_eventType r = ev \<and> er_active r) (earnRules s))"

definition earn_points_of :: "env \<Rightarrow> uuid \<Rightarrow> string \<Rightarrow> earn_ctx \<Rightarrow> db \<Rightarrow> int" where
  "earn_points_of e org ev ctx s =
    (case find_program org s of
       None \<Rightarrow> 0
     | Some p \<Rightarrow>
         if \<not> pr_enabled p then 0
         else (case first_rule_points e org ev ctx s (active_rules p ev s) of
             Some n \<Rightarrow> n
           | None \<Rightarrow>
               (let amt = patched (cx_purchaseAmountCents ctx) 0 in
                if ev = ''PURCHASE'' \<and> 0 < amt then amt div 100 else pr_defaultEarnPoints p)))"

definition resolveEarnPoints :: "env \<Rightarrow> uuid \<Rightarrow> string \<Rightarrow> earn_ctx \<Rightarrow> int dsvc" where
  "resolveEarnPoints e org ev ctx =
     svc_bind (is_enabled e org) (\<lambda>b.
       if \<not> b then svc_return 0
       else svc_read (\<lambda>s. svc_return (earn_points_of e org ev ctx s)))"

section \<open>Referral codes\<close>

definition ALPHABET :: string where
  "ALPHABET = ''ABCDEFGHJKLMNPQRSTUVWXYZ23456789''"

definition generateReferralCode :: "nat \<Rightarrow> (nat \<Rightarrow> nat) \<Rightarrow> string" where
  "generateReferralCode len bytes = map (\<lambda>i. ALPHABET ! (bytes i mod length ALPHABET)) [0..<len]"

definition code_exists :: "uuid \<Rightarrow> string \<Rightarrow> db \<Rightarrow> bool" where
  "code_exists org code s =
     (List.find (\<lambda>a. ac_orgId a = org \<and> ac_referralCode a = code) (accounts s) \<noteq> None)"

fun try_codes :: "(nat \<Rightarrow> nat \<Rightarrow> nat) \<Rightarrow> uuid \<Rightarrow> db \<Rightarrow> nat list \<Rightarrow> string option" where
  "try_codes bytes org s [] = None"
| "try_codes bytes org s (i # is) =
     (let code = generateReferralCode 8 (bytes i)
      in if \<not> code_exists org code s then Some code else try_codes bytes org s is)"

definition generateUniqueReferralCode :: "(nat \<Rightarrow> nat \<Rightarrow> nat) \<Rightarrow> uuid \<Rightarrow> db \<Rightarrow> string" where
  "generateUniqueReferralCode bytes org s =
     (case try_codes bytes org s [0..<8] of
        Some code \<Rightarrow> code
      | None \<Rightarrow> generateReferralCode 12 (bytes 8))"

end
