(* ===== verification/Accounts.thy ===== *)
theory Accounts
  imports Program Points
begin

text \<open>
  \<^verbatim>\<open>LoyaltyAccountLifecycleService\<close>: a patron's account is created on first use, with a wallet and a
  referral code; look-ups by customer and by telephone number.
\<close>

text \<open>An account with the relations the queries include.\<close>

record loaded_account =
  la_row :: account_row
  la_tier :: "tier_row option"
  la_wallet :: "wallet_row option"

definition find_account_of :: "uuid \<Rightarrow> uuid \<Rightarrow> db \<Rightarrow> account_row option" where
  "find_account_of org cust s =
     List.find (\<lambda>a. ac_customerId a = cust \<and> ac_orgId a = org) (accounts s)"

definition tier_of :: "account_row \<Rightarrow> db \<Rightarrow> tier_row option" where
  "tier_of a s = Option.bind (ac_tierId a)
     (\<lambda>t. List.find (\<lambda>r. ti_id r = t \<and> ti_orgId r = ac_orgId a) (tiers s))"

definition wallet_of :: "account_row \<Rightarrow> db \<Rightarrow> wallet_row option" where
  "wallet_of a s = List.find (\<lambda>w. wa_accountId w = ac_id a \<and> wa_orgId w = ac_orgId a) (wallets s)"

text \<open>
  \<open>include: { tier, wallet, customer }\<close>: the customer is a required relation, and one that row level
  security hides makes the query fail.
\<close>

definition load_account :: "uuid \<Rightarrow> account_row \<Rightarrow> loaded_account dtx" where
  "load_account org a s =
     (if find_customer org (ac_customerId a) s = None then Inl InconsistentResult
      else Inr (\<lparr>la_row = a, la_tier = tier_of a s, la_wallet = wallet_of a s\<rparr>, s))"

definition new_account :: "uuid \<Rightarrow> uuid \<Rightarrow> uuid \<Rightarrow> uuid option \<Rightarrow> string \<Rightarrow> account_row" where
  "new_account i org cust tier code = \<lparr>ac_id = i, ac_orgId = org, ac_customerId = cust,
     ac_tierId = tier, ac_pointsBalance = 0, ac_lifetimePointsEarned = 0,
     ac_lifetimePointsBurned = 0, ac_lifetimeValueCents = 0, ac_referralCode = code, ac_totalVisits = 0,
     ac_healthScore = 50, ac_churnRisk = ''low''\<rparr>"

text \<open>
  Inserting an account: the primary key, \<open>customerId @unique\<close>, \<open>@@unique([orgId, referralCode])\<close> and the
  foreign key to the customer, which the database checks across tenants.
\<close>

definition insert_account :: "account_row \<Rightarrow> unit dtx" where
  "insert_account a s =
     (if \<exists>b\<in>set (accounts s). ac_id b = ac_id a \<or> ac_customerId b = ac_customerId a \<or>
           (ac_orgId b = ac_orgId a \<and> ac_referralCode b = ac_referralCode a)
      then Inl PrismaP2002
      else if \<not> (\<exists>c\<in>set (customers s). cu_id c = ac_customerId a) then Inl PrismaP2003
      else Inr ((), s\<lparr>accounts := accounts s @ [a]\<rparr>))"

definition insert_wallet :: "wallet_row \<Rightarrow> unit dtx" where
  "insert_wallet w s =
     (if \<exists>v\<in>set (wallets s). wa_id v = wa_id w \<or> wa_accountId v = wa_accountId w
      then Inl PrismaP2002
      else Inr ((), s\<lparr>wallets := wallets s @ [w]\<rparr>))"

definition new_wallet :: "env \<Rightarrow> uuid \<Rightarrow> uuid \<Rightarrow> wallet_row" where
  "new_wallet e org acct = \<lparr>wa_id = en_uuid e (''loyalty_wallets/'' @ acct), wa_orgId = org,
     wa_accountId = acct, wa_balanceCents = 0\<rparr>"

definition bronze_tier :: "uuid \<Rightarrow> db \<Rightarrow> uuid option" where
  "bronze_tier org s =
     map_option ti_id (List.find (\<lambda>t. ti_orgId t = org \<and> ti_slug t = ''bronze'') (tiers s))"

definition upsert_account :: "env \<Rightarrow> uuid \<Rightarrow> uuid \<Rightarrow> string \<Rightarrow> loaded_account dtx" where
  "upsert_account e org cust code = tx_read (\<lambda>s.
     (case find_account_of org cust s of
        Some a \<Rightarrow> load_account org a
      | None \<Rightarrow>
          (let a = new_account (en_uuid e (''loyalty_accounts/'' @ cust)) org cust (bronze_tier org s) code
           in tx_bind (insert_account a) (\<lambda>_.
              tx_bind (insert_wallet (new_wallet e org (ac_id a))) (\<lambda>_.
              load_account org a)))))"

definition refetch_account :: "uuid \<Rightarrow> uuid \<Rightarrow> loaded_account dtx" where
  "refetch_account org cust = tx_read (\<lambda>s.
     case find_account_of org cust s of
        None \<Rightarrow> tx_throw PrismaP2025 | Some a \<Rightarrow> load_account org a)"

definition ensureAccount :: "env \<Rightarrow> uuid \<Rightarrow> uuid \<Rightarrow> loaded_account option dsvc" where
  "ensureAccount e org cust =
     svc_bind (is_enabled e org) (\<lambda>enabled.
       if \<not> enabled then svc_return None
       else svc_bind (getOrCreateProgram e org) (\<lambda>_.
         svc_catch
           (svc_read (\<lambda>s. svc_bind
              (with_tenant (upsert_account e org cust (generateUniqueReferralCode (en_bytes e cust) org s)))
              (\<lambda>a. svc_return (Some a))))
           (\<lambda>err. if err = PrismaP2002
              then svc_bind (with_tenant (refetch_account org cust)) (\<lambda>a. svc_return (Some a))
              else svc_throw err)))"

definition getAccountByCustomerId :: "env \<Rightarrow> uuid \<Rightarrow> uuid \<Rightarrow> loaded_account dsvc" where
  "getAccountByCustomerId e org cust =
     svc_bind (require_enabled e org) (\<lambda>_.
     svc_bind (ensureAccount e org cust) (\<lambda>a.
       case a of None \<Rightarrow> svc_throw (NotFound ''Loyalty account not found'')
       | Some a \<Rightarrow> svc_return a))"

definition recent_ledger :: "uuid \<Rightarrow> uuid \<Rightarrow> nat \<Rightarrow> db \<Rightarrow> ledger_row list" where
  "recent_ledger org acct limit s = take limit (sort_key (\<lambda>l. - le_createdAt l)
     (filter (\<lambda>l. le_orgId l = org \<and> le_accountId l = acct) (ledger s)))"

definition getAccountWithLedger ::
  "env \<Rightarrow> uuid \<Rightarrow> uuid \<Rightarrow> nat \<Rightarrow> (loaded_account \<times> ledger_row list) dsvc" where
  "getAccountWithLedger e org cust limit =
     svc_bind (getAccountByCustomerId e org cust) (\<lambda>a.
     with_tenant (tx_gets (\<lambda>s. (a, recent_ledger org (ac_id (la_row a)) limit s))))"

section \<open>Look-up by telephone number\<close>

definition digits_of :: "string \<Rightarrow> string" where
  "digits_of phone = filter is_digit phone"

definition last_n :: "nat \<Rightarrow> 'a list \<Rightarrow> 'a list" where
  "last_n n xs = drop (length xs - n) xs"

definition visit_count :: "uuid \<Rightarrow> uuid \<Rightarrow> db \<Rightarrow> nat" where
  "visit_count org cust s =
     count_rows (\<lambda>t. tk_orgId t = org \<and> tk_customerId t = Some cust) (tickets s)"

definition find_by_phone :: "uuid \<Rightarrow> string \<Rightarrow> db \<Rightarrow> customer_row option" where
  "find_by_phone org phone s = List.find (\<lambda>c. cu_orgId c = org \<and>
     (cu_phone c = Some phone \<or>
      (case cu_phone c of None \<Rightarrow> False
       | Some p \<Rightarrow> str_contains (last_n 10 (digits_of phone)) p))) (customers s)"

definition lookupPatronByPhone ::
  "env \<Rightarrow> uuid \<Rightarrow> string \<Rightarrow> (customer_row \<times> nat \<times> loaded_account option) option dsvc" where
  "lookupPatronByPhone e org phone =
     svc_bind (require_enabled e org) (\<lambda>_.
       if length (digits_of phone) < 10 then svc_throw (BadRequest ''Enter a valid phone number'')
       else svc_bind (with_tenant (tx_gets (find_by_phone org phone))) (\<lambda>c.
         case c of None \<Rightarrow> svc_return None
         | Some cu \<Rightarrow>
             svc_bind (with_tenant (tx_gets (visit_count org (cu_id cu)))) (\<lambda>n.
             svc_bind (ensureAccount e org (cu_id cu)) (\<lambda>a.
             svc_return (Some (cu, n, a))))))"

end
