(* ===== verification/AccountFacts.thy ===== *)
theory AccountFacts
  imports Accounts PointsFacts
begin

text \<open>
  What the account life cycle keeps: the ledger invariant, the unique keys of the account table, and
  the separation of tenants.
\<close>

section \<open>The program never touches the rest\<close>

lemma preserves_insert_tier [pres_intros]:
  "blind tiers_update I \<Longrightarrow> preserves_tx I (insert_tier t)"
  by (auto simp: preserves_tx_def insert_tier_def blind_def split: if_splits)

lemma preserves_insert_program [pres_intros]:
  "blind programs_update I \<Longrightarrow> preserves_tx I (insert_program p)"
  by (auto simp: preserves_tx_def insert_program_def tx_modify_def blind_def)

lemma preserves_insert_rule [pres_intros]:
  "blind earnRules_update I \<Longrightarrow> preserves_tx I (insert_rule r)"
  by (auto simp: preserves_tx_def insert_rule_def tx_modify_def blind_def)

lemma preserves_get_or_create_program_tx [pres_intros]:
  assumes "blind programs_update I" and "blind tiers_update I" and "blind earnRules_update I"
  shows "preserves_tx I (get_or_create_program_tx e org)"
  unfolding get_or_create_program_tx_def by (intro pres_intros assms)

lemma preserves_getOrCreateProgram [pres_intros]:
  assumes "cache_blind I" and "blind programs_update I" and "blind tiers_update I"
    and "blind earnRules_update I"
  shows "preserves I (getOrCreateProgram e org)"
  unfolding getOrCreateProgram_def by (intro pres_intros assms)

section \<open>Creating an account\<close>

lemma load_account_state: "load_account org a s = Inr (b, t) \<Longrightarrow> t = s \<and> la_row b = a"
  by (auto simp: load_account_def split: if_splits)

lemma preserves_load_account [pres_intros]: "preserves_tx I (load_account org a)"
  by (auto simp: preserves_tx_def dest: load_account_state)

lemma preserves_insert_wallet [pres_intros]:
  "blind wallets_update I \<Longrightarrow> preserves_tx I (insert_wallet w)"
  by (auto simp: preserves_tx_def insert_wallet_def blind_def split: if_splits)

lemma find_account_append:
  "find_account org acct (s\<lparr>accounts := accounts s @ [a]\<rparr>) =
    (case find_account org acct s of Some b \<Rightarrow> Some b
     | None \<Rightarrow> if ac_id a = acct \<and> ac_orgId a = org then Some a else None)"
proof -
  have "List.find P (xs @ [x]) = (case List.find P xs of Some b \<Rightarrow> Some b
      | None \<Rightarrow> if P x then Some x else None)" for P and xs :: "account_row list" and x
    by (induction xs) auto
  from this [of "acc_key org acct" "accounts s" a] show ?thesis
    by (cases "List.find (acc_key org acct) (accounts s)") (simp_all add: find_account_def acc_key_def)
qed

lemma ledger_inv_new_account:
  assumes inv: "ledger_inv s" and fresh: "\<forall>b\<in>set (accounts s). ac_id b \<noteq> i"
  shows "ledger_inv (s\<lparr>accounts := accounts s @ [new_account i org cust tier code]\<rparr>)" (is "ledger_inv ?t")
proof -
  have none: "find_account o2 i s = None" for o2
    using fresh by (auto simp: find_account_def find_None_iff acc_key_def)
  have nolines: "le_accountId l \<noteq> i" if "l \<in> set (ledger s)" for l
    using that inv none by (auto simp: ledger_inv_def)
  have zero: "entry_sum P o2 i (ledger s) = 0" for P o2
  proof -
    have "filter (\<lambda>l. le_orgId l = o2 \<and> le_accountId l = i \<and> P (le_type l)) (ledger s) = []"
      using nolines by (auto simp: filter_empty_conv)
    then show ?thesis by (simp add: entry_sum_def)
  qed
  have "account_reconciled ?t a" if "find_account o2 k ?t = Some a" for o2 k a
  proof (cases "find_account o2 k s")
    case None
    then have "a = new_account i org cust tier code"
      using that by (auto simp: find_account_append split: if_splits)
    then show ?thesis using zero by (simp add: account_reconciled_def new_account_def)
  next
    case (Some b)
    then have "a = b" using that by (simp add: find_account_append)
    moreover have "account_reconciled s b" using inv Some by (auto simp: ledger_inv_def)
    ultimately show ?thesis by (simp add: account_reconciled_def)
  qed
  moreover have "\<forall>l\<in>set (ledger ?t). find_account (le_orgId l) (le_accountId l) ?t \<noteq> None"
    using inv by (auto simp: ledger_inv_def find_account_append split: option.splits)
  moreover have "sorted_wrt (\<lambda>l r. \<not> earn_source_clash l r) (ledger ?t)"
    using inv by (simp add: ledger_inv_def)
  ultimately show ?thesis unfolding ledger_inv_def by blast
qed

lemma preserves_insert_new_account [pres_intros]:
  "preserves_tx ledger_inv (insert_account (new_account i org cust tier code))"
  by (auto simp: preserves_tx_def insert_account_def new_account_def [of i] split: if_splits
      intro!: ledger_inv_new_account [unfolded new_account_def])

text \<open>The keys of the account table.\<close>

definition accounts_inv :: "db \<Rightarrow> bool" where
  "accounts_inv s \<longleftrightarrow> distinct (map ac_id (accounts s)) \<and> distinct (map ac_customerId (accounts s))
     \<and> distinct (map (\<lambda>a. (ac_orgId a, ac_referralCode a)) (accounts s))"

lemma preserves_insert_account_keys [pres_intros]:
  "preserves_tx accounts_inv (insert_account a)"
  by (auto simp: preserves_tx_def insert_account_def accounts_inv_def split: if_splits)

lemma accounts_inv_cong: "accounts t = accounts s \<Longrightarrow> accounts_inv t = accounts_inv s"
  by (simp add: accounts_inv_def)

lemma accounts_inv_blind [simp, intro]:
  "cache_blind accounts_inv" "log_blind accounts_inv" "blind programs_update accounts_inv"
  "blind tiers_update accounts_inv" "blind earnRules_update accounts_inv"
  "blind wallets_update accounts_inv"
  unfolding blind_def by (auto intro: accounts_inv_cong [THEN iffD2])

lemma preserves_upsert_account:
  assumes "blind wallets_update I"
    and "\<And>i tier. preserves_tx I (insert_account (new_account i org cust tier code))"
  shows "preserves_tx I (upsert_account e org cust code)"
  unfolding upsert_account_def Let_def by (intro pres_intros assms)

lemma preserves_refetch [pres_intros]: "preserves_tx I (refetch_account org cust)"
  unfolding refetch_account_def by (intro pres_intros)

lemma preserves_ensureAccount:
  assumes "cache_blind I" and "blind programs_update I" and "blind tiers_update I"
    and "blind earnRules_update I" and "blind wallets_update I"
    and ins: "\<And>i tier code. preserves_tx I (insert_account (new_account i org cust tier code))"
  shows "preserves I (ensureAccount e org cust)"
  unfolding ensureAccount_def by (intro pres_intros preserves_upsert_account assms)

end
