(* ===== verification/Gamification.thy ===== *)
theory Gamification
  imports Accounts
begin

text \<open>
  Manual adjustments of a patron's points (\<open>adjustPoints\<close> of \<^verbatim>\<open>LoyaltyAccountEarnService\<close>) and
  \<^verbatim>\<open>LoyaltyGamificationService\<close>: badges, challenges, the leaderboard and the patron games.
\<close>

section \<open>Adjusting points\<close>

text \<open>Inside a transaction of the caller: no gate, and the account must exist.\<close>

definition adjustPoints_tx ::
  "env \<Rightarrow> uuid \<Rightarrow> uuid \<Rightarrow> int \<Rightarrow> string option \<Rightarrow> apply_result dtx" where
  "adjustPoints_tx e org cust points desc = tx_read (\<lambda>s.
     case find_account_of org cust s of
       None \<Rightarrow> tx_throw (NotFound ''Loyalty account not found'')
     | Some a \<Rightarrow> adjustPointsInTransaction e org (ac_id a) points desc)"

definition adjustPoints ::
  "env \<Rightarrow> uuid \<Rightarrow> uuid \<Rightarrow> int \<Rightarrow> string option \<Rightarrow> account_row dsvc" where
  "adjustPoints e org cust points desc =
     svc_bind (require_enabled e org) (\<lambda>_.
     svc_bind (ensureAccount e org cust) (\<lambda>a.
       case a of None \<Rightarrow> svc_throw (NotFound ''Loyalty account not found'')
       | Some a \<Rightarrow>
           svc_bind (applyPoints e org (ac_id (la_row a)) \<bar>points\<bar> (adjust_type points) (adjust_opts desc))
             (\<lambda>(row, _). svc_return row)))"

text \<open>The side effects of a result, unless it is absent or a replay.\<close>

definition dispatch_unless_replay ::
  "uuid \<Rightarrow> uuid \<Rightarrow> apply_result option \<Rightarrow> apply_opts \<Rightarrow> unit dsvc" where
  "dispatch_unless_replay org acct r opts = (case r of None \<Rightarrow> svc_return ()
     | Some r \<Rightarrow> if ar_idempotent r then svc_return ()
                 else dispatchApplyPointsSideEffects org acct r opts)"

definition manual_opts :: apply_opts where
  "manual_opts = source_opts ''manual'' None None False"

section \<open>Badges\<close>

definition listBadges :: "env \<Rightarrow> uuid \<Rightarrow> badge_row list dsvc" where
  "listBadges e org = svc_bind (require_enabled e org) (\<lambda>_.
     with_tenant (tx_gets (\<lambda>s. filter (\<lambda>b. bd_orgId b = org \<and> bd_active b) (badges s))))"

definition createBadge ::
  "env \<Rightarrow> uuid \<Rightarrow> string \<Rightarrow> int option \<Rightarrow> int option \<Rightarrow> badge_row dsvc" where
  "createBadge e org name minVisits minPoints = svc_bind (require_enabled e org) (\<lambda>_.
     let b = \<lparr>bd_id = en_uuid e ''loyalty_badges'', bd_orgId = org, bd_name = name,
              bd_minVisits = minVisits, bd_minPoints = minPoints, bd_active = True\<rparr>
     in with_tenant (tx_bind (tx_modify (badges_update (\<lambda>bs. bs @ [b]))) (\<lambda>_. tx_return b)))"

definition badge_eligible :: "account_row \<Rightarrow> badge_row \<Rightarrow> bool" where
  "badge_eligible a b \<longleftrightarrow>
     (case bd_minVisits b of None \<Rightarrow> True | Some n \<Rightarrow> n \<le> ac_totalVisits a) \<and>
     (case bd_minPoints b of None \<Rightarrow> True | Some n \<Rightarrow> n \<le> ac_lifetimePointsEarned a)"

definition has_badge :: "uuid \<Rightarrow> uuid \<Rightarrow> db \<Rightarrow> bool" where
  "has_badge acct bid s \<longleftrightarrow> (\<exists>w\<in>set (badgeAwards s). ba_accountId w = acct \<and> ba_badgeId w = bid)"

definition insert_award :: "uuid \<Rightarrow> uuid \<Rightarrow> uuid \<Rightarrow> unit dtx" where
  "insert_award org acct bid = tx_read (\<lambda>s.
     if has_badge acct bid s then tx_throw PrismaP2002
     else tx_modify (badgeAwards_update
       (\<lambda>ws. ws @ [\<lparr>ba_orgId = org, ba_accountId = acct, ba_badgeId = bid\<rparr>])))"

fun award_badges :: "uuid \<Rightarrow> account_row \<Rightarrow> badge_row list \<Rightarrow> string list \<Rightarrow> string list dsvc" where
  "award_badges org a [] awarded = svc_return awarded"
| "award_badges org a (b # bs) awarded =
     (if \<not> badge_eligible a b then award_badges org a bs awarded
      else svc_bind (with_tenant (tx_gets (has_badge (ac_id a) (bd_id b)))) (\<lambda>existing.
        if existing then award_badges org a bs awarded
        else svc_bind (with_tenant (insert_award org (ac_id a) (bd_id b))) (\<lambda>_.
          award_badges org a bs (awarded @ [bd_name b]))))"

definition evaluateBadgesForAccount :: "env \<Rightarrow> uuid \<Rightarrow> uuid \<Rightarrow> string list dsvc" where
  "evaluateBadgesForAccount e org cust =
     svc_bind (ensureAccount e org cust) (\<lambda>a.
       case a of None \<Rightarrow> svc_return []
       | Some a \<Rightarrow> svc_bind (listBadges e org) (\<lambda>bs. award_badges org (la_row a) bs []))"

section \<open>Challenges\<close>

definition listChallenges :: "env \<Rightarrow> uuid \<Rightarrow> challenge_row list dsvc" where
  "listChallenges e org = svc_bind (require_enabled e org) (\<lambda>_.
     with_tenant (tx_gets (\<lambda>s. rev (filter (\<lambda>c. ch_orgId c = org \<and> ch_active c) (challenges s)))))"

definition createChallenge ::
  "env \<Rightarrow> uuid \<Rightarrow> string \<Rightarrow> string \<Rightarrow> int \<Rightarrow> int option \<Rightarrow> challenge_row dsvc" where
  "createChallenge e org name target val reward = svc_bind (require_enabled e org) (\<lambda>_.
     let c = \<lparr>ch_id = en_uuid e ''loyalty_challenges'', ch_orgId = org, ch_name = name,
              ch_targetType = target, ch_targetValue = val, ch_rewardPoints = patched reward 0,
              ch_active = True\<rparr>
     in with_tenant (tx_bind (tx_modify (challenges_update (\<lambda>cs. cs @ [c]))) (\<lambda>_. tx_return c)))"

definition progress_key :: "uuid \<Rightarrow> uuid \<Rightarrow> progress_row \<Rightarrow> bool" where
  "progress_key acct cid p \<longleftrightarrow> cp_accountId p = acct \<and> cp_challengeId p = cid"

definition find_progress :: "uuid \<Rightarrow> uuid \<Rightarrow> db \<Rightarrow> progress_row option" where
  "find_progress acct cid s = List.find (progress_key acct cid) (progresses s)"

definition upsert_progress :: "uuid \<Rightarrow> uuid \<Rightarrow> uuid \<Rightarrow> int \<Rightarrow> progress_row dtx" where
  "upsert_progress org acct cid amount = tx_read (\<lambda>s.
     case find_progress acct cid s of
       None \<Rightarrow>
         (let p = \<lparr>cp_orgId = org, cp_accountId = acct, cp_challengeId = cid,
                   cp_progress = amount, cp_completedAt = None\<rparr>
          in if \<not> int4_ok amount then tx_throw IntegerOutOfRange
             else tx_bind (tx_modify (progresses_update (\<lambda>ps. ps @ [p]))) (\<lambda>_. tx_return p))
     | Some p \<Rightarrow>
         if \<not> int4_ok (cp_progress p + amount) then tx_throw IntegerOutOfRange
         else tx_bind (tx_modify (progresses_update (update_rows (progress_key acct cid)
                (\<lambda>q. q\<lparr>cp_progress := cp_progress q + amount\<rparr>)))) (\<lambda>_.
              tx_return (p\<lparr>cp_progress := cp_progress p + amount\<rparr>)))"

definition complete_progress :: "env \<Rightarrow> uuid \<Rightarrow> uuid \<Rightarrow> int \<Rightarrow> unit dtx" where
  "complete_progress e acct cid target = tx_modify (progresses_update
     (update_rows (progress_key acct cid)
       (\<lambda>q. q\<lparr>cp_completedAt := Some (en_now e), cp_progress := target\<rparr>)))"

definition advance_challenge ::
  "env \<Rightarrow> uuid \<Rightarrow> uuid \<Rightarrow> uuid \<Rightarrow> int \<Rightarrow> challenge_row \<Rightarrow> apply_result option dtx" where
  "advance_challenge e org cust acct amount c =
     tx_bind (upsert_progress org acct (ch_id c) amount) (\<lambda>p.
       if cp_completedAt p = None \<and> ch_targetValue c \<le> cp_progress p then
         tx_bind (complete_progress e acct (ch_id c) (ch_targetValue c)) (\<lambda>_.
           if 0 < ch_rewardPoints c then
             tx_bind (adjustPoints_tx e org cust (ch_rewardPoints c)
                (Some (''Challenge completed: '' @ ch_name c))) (\<lambda>r. tx_return (Some r))
           else tx_return None)
       else tx_return None)"

definition incrementChallengeProgress :: "env \<Rightarrow> uuid \<Rightarrow> uuid \<Rightarrow> string \<Rightarrow> int \<Rightarrow> unit dsvc" where
  "incrementChallengeProgress e org cust targetType amount =
     svc_bind (ensureAccount e org cust) (\<lambda>a.
       case a of None \<Rightarrow> svc_return ()
       | Some a \<Rightarrow>
           svc_bind (with_tenant (tx_gets (\<lambda>s. filter (\<lambda>c. ch_orgId c = org \<and> ch_active c \<and>
               ch_targetType c = targetType) (challenges s)))) (\<lambda>cs.
           svc_foreach cs (\<lambda>c.
             svc_bind (with_tenant (advance_challenge e org cust (ac_id (la_row a)) amount c)) (\<lambda>r.
             dispatch_unless_replay org (ac_id (la_row a)) r manual_opts))))"

section \<open>Leaderboard\<close>

record leader =
  lb_rank :: nat
  lb_patronName :: string
  lb_lifetimePointsEarned :: int
  lb_totalVisits :: int

definition leaderboard_cap :: "int \<Rightarrow> int" where
  "leaderboard_cap limit = min (max limit 1) 50"

definition leaderboard_rows :: "uuid \<Rightarrow> int \<Rightarrow> db \<Rightarrow> account_row list" where
  "leaderboard_rows org limit s = take (nat (leaderboard_cap limit))
     (sort_key (\<lambda>a. - ac_lifetimePointsEarned a) (filter (\<lambda>a. ac_orgId a = org) (accounts s)))"

definition leader_of :: "uuid \<Rightarrow> db \<Rightarrow> nat \<times> account_row \<Rightarrow> leader" where
  "leader_of org s = (\<lambda>(i, a). \<lparr>lb_rank = i + 1,
     lb_patronName = (case find_customer org (ac_customerId a) s of None \<Rightarrow> [] | Some c \<Rightarrow> cu_name c),
     lb_lifetimePointsEarned = ac_lifetimePointsEarned a, lb_totalVisits = ac_totalVisits a\<rparr>)"

definition getLeaderboard :: "env \<Rightarrow> uuid \<Rightarrow> int \<Rightarrow> leader list dsvc" where
  "getLeaderboard e org limit = svc_bind (require_enabled e org) (\<lambda>_.
     with_tenant (tx_read (\<lambda>s. let rows = leaderboard_rows org limit s in
       if \<exists>a\<in>set rows. find_customer org (ac_customerId a) s = None then tx_throw InconsistentResult
       else tx_return (map (leader_of org s) (enumerate 0 rows)))))"

section \<open>Patron games\<close>

record outcome =
  oc_label :: string
  oc_points :: int
  oc_weight :: nat

definition spinOutcomes :: "outcome list" where
  "spinOutcomes =
    [\<lparr>oc_label = ''10 bonus points'', oc_points = 10, oc_weight = 40\<rparr>,
     \<lparr>oc_label = ''25 bonus points'', oc_points = 25, oc_weight = 30\<rparr>,
     \<lparr>oc_label = ''50 bonus points'', oc_points = 50, oc_weight = 20\<rparr>,
     \<lparr>oc_label = ''Try again soon'', oc_points = 0, oc_weight = 10\<rparr>]"

text \<open>A scratch card draws uniformly; its outcomes have no weight (1 here).\<close>

definition scratchOutcomes :: "outcome list" where
  "scratchOutcomes =
    [\<lparr>oc_label = ''5 points'', oc_points = 5, oc_weight = 1\<rparr>,
     \<lparr>oc_label = ''10 points'', oc_points = 10, oc_weight = 1\<rparr>,
     \<lparr>oc_label = ''15 points'', oc_points = 15, oc_weight = 1\<rparr>,
     \<lparr>oc_label = ''25 points'', oc_points = 25, oc_weight = 1\<rparr>,
     \<lparr>oc_label = ''50 points'', oc_points = 50, oc_weight = 1\<rparr>]"

text \<open>
  The roll is \<open>Math.random() * total\<close>; with \<open>Math.random() = num / den\<close> the loop is written over
  the numerator of the roll, scaled by \<open>den\<close>.
\<close>

fun pick_loop :: "int \<Rightarrow> int \<Rightarrow> outcome list \<Rightarrow> outcome option" where
  "pick_loop den roll [] = None"
| "pick_loop den roll (i # is) =
     (let roll' = roll - int (oc_weight i) * den
      in if roll' \<le> 0 then Some i else pick_loop den roll' is)"

definition pickWeighted :: "nat \<Rightarrow> nat \<Rightarrow> outcome list \<Rightarrow> outcome" where
  "pickWeighted num den items =
     (let total = sum_list (map (int \<circ> oc_weight) items) in
      case pick_loop (int den) (int num * total) items of
        Some i \<Rightarrow> i
      | None \<Rightarrow> items ! (length items - 1))"

definition game_outcome :: "env \<Rightarrow> string \<Rightarrow> outcome" where
  "game_outcome e gameType =
     (if gameType = ''spin_wheel'' then pickWeighted (en_rand_num e) (en_rand_den e) spinOutcomes
      else scratchOutcomes ! ((en_rand_num e * length scratchOutcomes) div en_rand_den e))"

definition cooldown_days :: "string \<Rightarrow> int" where
  "cooldown_days gameType = (if gameType = ''spin_wheel'' then 7 else 3)"

definition plays_of :: "uuid \<Rightarrow> uuid \<Rightarrow> string \<Rightarrow> db \<Rightarrow> game_play_row list" where
  "plays_of org acct gameType s = filter (\<lambda>p. gp_orgId p = org \<and> gp_accountId p = acct \<and>
     gp_gameType p = gameType) (gamePlays s)"

definition last_play :: "uuid \<Rightarrow> uuid \<Rightarrow> string \<Rightarrow> db \<Rightarrow> game_play_row option" where
  "last_play org acct gameType s =
     (case sort_key (\<lambda>p. - gp_playedAt p) (plays_of org acct gameType s) of
        [] \<Rightarrow> None | p # _ \<Rightarrow> Some p)"

definition next_eligible :: "uuid \<Rightarrow> uuid \<Rightarrow> string \<Rightarrow> db \<Rightarrow> time option" where
  "next_eligible org acct gameType s =
     map_option (\<lambda>p. gp_playedAt p + cooldown_days gameType * 86400000) (last_play org acct gameType s)"

text \<open>For each game: may it be played, and if not, from when on.\<close>

definition getPatronGameStatus ::
  "env \<Rightarrow> uuid \<Rightarrow> uuid \<Rightarrow> (string \<times> bool \<times> time option) list dsvc" where
  "getPatronGameStatus e org acct = with_tenant (tx_gets (\<lambda>s.
     map (\<lambda>g. let next = next_eligible org acct g s in
            (g, (case next of None \<Rightarrow> True | Some t \<Rightarrow> t \<le> en_now e),
                (case next of None \<Rightarrow> None | Some t \<Rightarrow> if en_now e < t then Some t else None)))
       [''spin_wheel'', ''scratch_card'']))"

text \<open>\<open>replace('_', ' ')\<close> replaces the first underscore.\<close>

fun replace_underscore :: "string \<Rightarrow> string" where
  "replace_underscore [] = []"
| "replace_underscore (c # cs) = (if c = CHR ''_'' then CHR '' '' # cs else c # replace_underscore cs)"

definition play_game_tx ::
  "env \<Rightarrow> uuid \<Rightarrow> uuid \<Rightarrow> uuid \<Rightarrow> string \<Rightarrow> outcome \<Rightarrow> apply_result option dtx" where
  "play_game_tx e org acct cust gameType oc = tx_read (\<lambda>s.
     if (case next_eligible org acct gameType s of None \<Rightarrow> False | Some t \<Rightarrow> en_now e < t)
     then tx_throw (BadRequest ''Game not available yet'')
     else tx_bind (tx_modify (gamePlays_update (\<lambda>ps. ps @ [\<lparr>gp_orgId = org, gp_accountId = acct,
            gp_gameType = gameType, gp_resultLabel = oc_label oc, gp_pointsAwarded = oc_points oc,
            gp_playedAt = en_now e\<rparr>]))) (\<lambda>_.
       if 0 < oc_points oc then
         tx_bind (adjustPoints_tx e org cust (oc_points oc)
            (Some (''Patron '' @ replace_underscore gameType @ '': '' @ oc_label oc)))
           (\<lambda>r. tx_return (Some r))
       else tx_return None))"

definition playPatronGame :: "env \<Rightarrow> uuid \<Rightarrow> uuid \<Rightarrow> string \<Rightarrow> (string \<times> int) dsvc" where
  "playPatronGame e org acct gameType =
     svc_bind (require_enabled e org) (\<lambda>_.
     svc_bind (with_tenant (tx_gets (find_account org acct))) (\<lambda>a.
       case a of None \<Rightarrow> svc_throw (BadRequest ''Account not found'')
       | Some a \<Rightarrow>
           (let oc = game_outcome e gameType in
            svc_bind (with_tenant (play_game_tx e org acct (ac_customerId a) gameType oc)) (\<lambda>r.
            svc_bind (dispatch_unless_replay org acct r manual_opts) (\<lambda>_.
            svc_return (oc_label oc, oc_points oc))))))"

end
