(* ===== verification/Referral.thy ===== *)
theory Referral
  imports Gamification
begin

text \<open>
  \<^verbatim>\<open>LoyaltyReferralService\<close>: a referral waits as \<open>pending\<close> until the first purchase of the referred
  patron completes it and pays both bonuses.
\<close>

section \<open>Attaching a referral\<close>

text \<open>The account that owns a code, with its customer, which the tenant must see.\<close>

definition find_referrer :: "uuid \<Rightarrow> string \<Rightarrow> account_row option dtx" where
  "find_referrer org code = tx_read (\<lambda>s.
     case List.find (\<lambda>a. ac_orgId a = org \<and> ac_referralCode a = to_upper code) (accounts s) of
       None \<Rightarrow> tx_return None
     | Some a \<Rightarrow> if find_customer org (ac_customerId a) s = None then tx_throw InconsistentResult
                 else tx_return (Some a))"

definition find_referral_of :: "uuid \<Rightarrow> uuid \<Rightarrow> db \<Rightarrow> referral_row option" where
  "find_referral_of org cust s =
     List.find (\<lambda>r. rf_orgId r = org \<and> rf_referredCustomerId r = cust) (referrals s)"

text \<open>\<open>referredAccountId @unique\<close>.\<close>

definition insert_referral :: "referral_row \<Rightarrow> unit dtx" where
  "insert_referral r = tx_read (\<lambda>s.
     if \<exists>q\<in>set (referrals s). rf_id q = rf_id r \<or>
          (rf_referredAccountId r \<noteq> None \<and> rf_referredAccountId q = rf_referredAccountId r)
     then tx_throw PrismaP2002
     else tx_modify (referrals_update (\<lambda>rs. rs @ [r])))"

definition pending_referral :: "env \<Rightarrow> uuid \<Rightarrow> uuid \<Rightarrow> uuid \<Rightarrow> uuid \<Rightarrow> program_row \<Rightarrow> referral_row" where
  "pending_referral e org referrer cust acct p = \<lparr>rf_id = en_uuid e ''loyalty_referrals'',
     rf_orgId = org, rf_referrerAccountId = referrer, rf_referredCustomerId = cust,
     rf_referredAccountId = Some acct, rf_status = ''pending'',
     rf_referrerBonusPoints = pr_referralBonusPoints p,
     rf_referredBonusPoints = pr_referredBonusPoints p, rf_completedAt = None\<rparr>"

definition applyReferral :: "env \<Rightarrow> uuid \<Rightarrow> string \<Rightarrow> uuid \<Rightarrow> referral_row dsvc" where
  "applyReferral e org code cust =
     svc_bind (require_enabled e org) (\<lambda>_.
     svc_bind (getOrCreateProgram e org) (\<lambda>(p, _).
     svc_bind (with_tenant (find_referrer org code)) (\<lambda>ref. case ref of
       None \<Rightarrow> svc_throw (NotFound ''Referral code not found'')
     | Some ref \<Rightarrow>
         if ac_customerId ref = cust then svc_throw (BadRequest ''Cannot refer yourself'')
         else svc_bind (ensureAccount e org cust) (\<lambda>acct. case acct of
           None \<Rightarrow> svc_throw (BadRequest ''Could not create loyalty account'')
         | Some acct \<Rightarrow>
             svc_bind (with_tenant (tx_gets (find_referral_of org cust))) (\<lambda>existing.
             case existing of
               Some r \<Rightarrow>
                 if rf_status r = ''completed''
                 then svc_throw (BadRequest ''Customer already has a completed referral'')
                 else svc_throw (BadRequest ''Customer already has a pending referral'')
             | None \<Rightarrow>
                 (let r = pending_referral e org (ac_id ref) cust (ac_id (la_row acct)) p in
                  with_tenant (tx_bind (insert_referral r) (\<lambda>_. tx_return r))))))))"

section \<open>Completing a referral\<close>

definition find_pending :: "uuid \<Rightarrow> uuid \<Rightarrow> db \<Rightarrow> referral_row option" where
  "find_pending org cust s = List.find (\<lambda>r. rf_orgId r = org \<and> rf_referredCustomerId r = cust \<and>
     rf_status r = ''pending'') (referrals s)"

definition load_pending :: "uuid \<Rightarrow> uuid \<Rightarrow> (referral_row \<times> account_row) option dtx" where
  "load_pending org cust = tx_read (\<lambda>s. case find_pending org cust s of
       None \<Rightarrow> tx_return None
     | Some r \<Rightarrow> (case find_account org (rf_referrerAccountId r) s of
           None \<Rightarrow> tx_throw InconsistentResult
         | Some a \<Rightarrow> tx_return (Some (r, a))))"

definition referral_opts :: "referral_row \<Rightarrow> string \<Rightarrow> string \<Rightarrow> apply_opts" where
  "referral_opts r suffix desc = source_opts ''referral'' (Some (rf_id r @ suffix)) (Some desc) False"

definition pay_bonus ::
  "env \<Rightarrow> uuid \<Rightarrow> uuid \<Rightarrow> int \<Rightarrow> apply_opts \<Rightarrow> unit dsvc" where
  "pay_bonus e org acct pts opts =
     (if 0 < pts then svc_bind (applyPoints e org acct pts ''BONUS'' opts) (\<lambda>_. svc_return ())
      else svc_return ())"

definition referral_key :: "uuid \<Rightarrow> uuid \<Rightarrow> referral_row \<Rightarrow> bool" where
  "referral_key org i r \<longleftrightarrow> rf_id r = i \<and> rf_orgId r = org"

definition complete_referral :: "env \<Rightarrow> uuid \<Rightarrow> uuid \<Rightarrow> uuid \<Rightarrow> referral_row dtx" where
  "complete_referral e org rid acct = tx_read (\<lambda>s.
     let f = (\<lambda>r. r\<lparr>rf_status := ''completed'', rf_completedAt := Some (en_now e),
                    rf_referredAccountId := Some acct\<rparr>) in
     case List.find (referral_key org rid) (referrals s) of
       None \<Rightarrow> tx_throw PrismaP2025
     | Some r \<Rightarrow>
         if \<exists>q\<in>set (referrals s). rf_id q \<noteq> rid \<and> rf_referredAccountId q = Some acct
         then tx_throw PrismaP2002
         else tx_bind (tx_modify (referrals_update (update_rows (referral_key org rid) f)))
                (\<lambda>_. tx_return (f r)))"

text \<open>What follows once a pending referral and its advocate are loaded.\<close>

definition complete_loaded ::
  "env \<Rightarrow> uuid \<Rightarrow> uuid \<Rightarrow> referral_row \<Rightarrow> account_row \<Rightarrow> referral_row option dsvc" where
  "complete_loaded e org cust r referrer =
     svc_bind (case rf_referredAccountId r of
         Some i \<Rightarrow> svc_return (Some i)
       | None \<Rightarrow> svc_bind (ensureAccount e org cust)
                   (\<lambda>a. svc_return (map_option (\<lambda>x. ac_id (la_row x)) a))) (\<lambda>acct.
     case acct of None \<Rightarrow> svc_return None
     | Some acct \<Rightarrow>
         svc_bind (pay_bonus e org (rf_referrerAccountId r) (rf_referrerBonusPoints r)
           (referral_opts r '':advocate'' ''Referral bonus (advocate)'')) (\<lambda>_.
         svc_bind (pay_bonus e org acct (rf_referredBonusPoints r)
           (referral_opts r '':welcome'' ''Welcome referral bonus'')) (\<lambda>_.
         svc_bind (if ac_customerId referrer = [] then svc_return ()
           else svc_catch
             (incrementChallengeProgress e org (ac_customerId referrer) ''REFERRALS'' 1)
             (\<lambda>_. svc_return ())) (\<lambda>_.
         svc_bind (with_tenant (complete_referral e org (rf_id r) acct)) (\<lambda>done.
         svc_return (Some done))))))"

definition completePendingForCustomer :: "env \<Rightarrow> uuid \<Rightarrow> uuid \<Rightarrow> referral_row option dsvc" where
  "completePendingForCustomer e org cust =
     svc_bind (is_enabled e org) (\<lambda>enabled.
       if \<not> enabled then svc_return None
       else svc_bind (with_tenant (load_pending org cust)) (\<lambda>pending. case pending of
         None \<Rightarrow> svc_return None
       | Some (r, referrer) \<Rightarrow> complete_loaded e org cust r referrer))"

section \<open>Lists and statistics\<close>

text \<open>The newest hundred referrals; the referrer's account and customer must be visible.\<close>

definition listReferrals :: "env \<Rightarrow> uuid \<Rightarrow> referral_row list dsvc" where
  "listReferrals e org = svc_bind (require_enabled e org) (\<lambda>_. with_tenant (tx_read (\<lambda>s.
     let rows = take 100 (rev (filter (\<lambda>r. rf_orgId r = org) (referrals s)));
         hidden = (\<lambda>i. case find_account org i s of None \<Rightarrow> True
                   | Some a \<Rightarrow> find_customer org (ac_customerId a) s = None)
     in if \<exists>r\<in>set rows. hidden (rf_referrerAccountId r) then tx_throw InconsistentResult
        else tx_return rows)))"

record referral_stats =
  rs_total :: nat
  rs_completed :: nat
  rs_pending :: nat
  rs_bonusPointsAwarded :: int

definition referral_stats_of :: "uuid \<Rightarrow> db \<Rightarrow> referral_stats" where
  "referral_stats_of org s =
     (let mine = filter (\<lambda>r. rf_orgId r = org) (referrals s);
          done = filter (\<lambda>r. rf_status r = ''completed'') mine
      in \<lparr>rs_total = length mine, rs_completed = length done,
          rs_pending = length (filter (\<lambda>r. rf_status r = ''pending'') mine),
          rs_bonusPointsAwarded = sum_list (map rf_referrerBonusPoints done)
            + sum_list (map rf_referredBonusPoints done)\<rparr>)"

definition getReferralStats :: "env \<Rightarrow> uuid \<Rightarrow> referral_stats dsvc" where
  "getReferralStats e org = svc_bind (require_enabled e org) (\<lambda>_.
     with_tenant (tx_gets (referral_stats_of org)))"

section \<open>The public landing page\<close>

record branding =
  br_orgName :: string
  br_logoUrl :: "string option"
  br_primaryColor :: "string option"
  br_accentColor :: "string option"
  br_programName :: string
  br_pointsCurrencyName :: string

definition buildLoyaltyPublicBranding :: "org_row \<Rightarrow> program_row option \<Rightarrow> branding" where
  "buildLoyaltyPublicBranding og p =
     (let orgName = or_str (js_trim (og_name og)) ''Loyalty'' in
      \<lparr>br_orgName = orgName, br_logoUrl = trim_or_null (og_logoUrl og),
       br_primaryColor = trim_or_null (og_brandPrimaryColor og),
       br_accentColor = trim_or_null (og_brandAccentColor og),
       br_programName = patched (trim_or_null (Option.bind p pr_displayName)) orgName,
       br_pointsCurrencyName =
         patched (trim_or_null (map_option pr_pointsCurrencyName p)) ''Points''\<rparr>)"

text \<open>The first word of a trimmed name.\<close>

definition first_word :: "string \<Rightarrow> string" where
  "first_word name = takeWhile (\<lambda>c. \<not> is_js_space c) (js_trim name)"

record landing =
  ln_orgName :: string
  ln_orgSlug :: string
  ln_branding :: branding
  ln_referrerFirstName :: string
  ln_referralCode :: string
  ln_referredBonusPoints :: int
  ln_referrerBonusPoints :: int

text \<open>With row level security off, a code is looked up across all tenants.\<close>

definition find_code :: "string \<Rightarrow> db \<Rightarrow> account_row option" where
  "find_code code s = List.find (\<lambda>a. ac_referralCode a = to_upper code) (accounts s)"

definition getPublicReferralLanding :: "env \<Rightarrow> string \<Rightarrow> landing option dsvc" where
  "getPublicReferralLanding e code = svc_read (\<lambda>s. case find_code code s of
       None \<Rightarrow> svc_return None
     | Some a \<Rightarrow>
         (case (List.find (\<lambda>c. cu_id c = ac_customerId a) (customers s),
                List.find (\<lambda>g. og_id g = ac_orgId a) (orgs s)) of
            (Some c, Some og) \<Rightarrow>
              svc_bind (is_enabled e (ac_orgId a)) (\<lambda>enabled.
                if \<not> enabled then svc_return None
                else (let p = find_program (ac_orgId a) s;
                          b = buildLoyaltyPublicBranding og p
                      in svc_return (Some \<lparr>ln_orgName = br_orgName b, ln_orgSlug = og_slug og,
                        ln_branding = b, ln_referrerFirstName = first_word (cu_name c),
                        ln_referralCode = ac_referralCode a,
                        ln_referredBonusPoints = patched (map_option pr_referredBonusPoints p) 25,
                        ln_referrerBonusPoints = patched (map_option pr_referralBonusPoints p) 50\<rparr>)))
          | _ \<Rightarrow> svc_throw InconsistentResult))"

end
