(* ===== verification/Earn.thy ===== *)
theory Earn
  imports Referral
begin

text \<open>
  \<^verbatim>\<open>LoyaltyAccountEarnService\<close>: earning from purchases, events and the integration, with the
  activity that follows an earn; expiry of inactive points; no-shows. And
  \<^verbatim>\<open>LoyaltyPointsExpiryService\<close>, which runs the expiry for a tenant.
\<close>

section \<open>After an earn\<close>

text \<open>Challenges and badges; a failure is logged and swallowed, the points stay.\<close>

definition afterEarnActivity :: "env \<Rightarrow> uuid \<Rightarrow> uuid \<Rightarrow> int \<Rightarrow> bool \<Rightarrow> unit dsvc" where
  "afterEarnActivity e org cust awarded incVisit =
     svc_catch
       (svc_bind (if incVisit then incrementChallengeProgress e org cust ''VISITS'' 1
                  else svc_return ()) (\<lambda>_.
        svc_bind (if 0 < awarded then incrementChallengeProgress e org cust ''POINTS_EARNED'' awarded
                  else svc_return ()) (\<lambda>_.
        svc_bind (evaluateBadgesForAccount e org cust) (\<lambda>_. svc_return ()))))
       (\<lambda>_. svc_return ())"

section \<open>Purchases at the counter\<close>

definition two_digits :: "nat \<Rightarrow> string" where
  "two_digits n = [digit_char (n div 10 mod 10), digit_char (n mod 10)]"

text \<open>\<open>(cents / 100).toFixed(2)\<close>.\<close>

definition show_dollars :: "int \<Rightarrow> string" where
  "show_dollars cents = (let c = nat \<bar>cents\<bar> in
     (if cents < 0 then ''-'' else []) @ show_nat (c div 100) @ ''.'' @ two_digits (c mod 100))"

definition account_ctx :: "loaded_account \<Rightarrow> earn_ctx" where
  "account_ctx a = \<lparr>cx_purchaseAmountCents = None, cx_branchId = None,
     cx_tierSlug = map_option ti_slug (la_tier a),
     cx_lifetimePointsEarned = Some (ac_lifetimePointsEarned (la_row a)),
     cx_totalVisits = Some (ac_totalVisits (la_row a)), cx_accountId = Some (ac_id (la_row a)),
     cx_lineItems = None\<rparr>"

definition no_points_message :: string where
  "no_points_message = ''No points awarded for this purchase. '' @
     ''Check Program '' @ [CHR 0xE2, CHR 0x86, CHR 0x92] @ '' earn rules (PURCHASE) or default earn amount.''"

text \<open>The points awarded by \<open>earnFromPurchase\<close>, with the account and the replay flag.\<close>

definition earnFromPurchase ::
  "env \<Rightarrow> uuid \<Rightarrow> uuid \<Rightarrow> int \<Rightarrow> string option \<Rightarrow> (points_result \<times> int) dsvc" where
  "earnFromPurchase e org cust cents desc =
     svc_bind (require_enabled e org) (\<lambda>_.
     svc_bind (ensureAccount e org cust) (\<lambda>a. case a of
       None \<Rightarrow> svc_throw (NotFound ''Loyalty account not found'')
     | Some a \<Rightarrow>
         svc_bind (resolveEarnPoints e org ''PURCHASE''
           ((account_ctx a)\<lparr>cx_purchaseAmountCents := Some cents\<rparr>)) (\<lambda>pts.
         if pts \<le> 0 then svc_throw (BadRequest no_points_message)
         else svc_bind (applyPoints e org (ac_id (la_row a)) pts ''EARN''
             (source_opts ''manual_purchase'' (Some (''staff-purchase-'' @ en_uuid e ''staff-purchase''))
               (Some (or_str (patched (map_option js_trim desc) []) (''Purchase $'' @ show_dollars cents)))
               True)) (\<lambda>res.
           svc_bind (completePendingForCustomer e org cust) (\<lambda>_.
           svc_bind (afterEarnActivity e org cust pts True) (\<lambda>_.
           svc_return (res, pts)))))))"

definition previewEarnFromPurchase :: "env \<Rightarrow> uuid \<Rightarrow> uuid \<Rightarrow> int \<Rightarrow> int dsvc" where
  "previewEarnFromPurchase e org cust cents =
     svc_bind (require_enabled e org) (\<lambda>_.
     svc_bind (ensureAccount e org cust) (\<lambda>a. case a of
       None \<Rightarrow> svc_throw (NotFound ''Loyalty account not found'')
     | Some a \<Rightarrow> resolveEarnPoints e org ''PURCHASE''
         ((account_ctx a)\<lparr>cx_purchaseAmountCents := Some cents\<rparr>)))"

section \<open>Events\<close>

definition earnFromEvent ::
  "env \<Rightarrow> uuid \<Rightarrow> uuid option \<Rightarrow> string \<Rightarrow> string \<Rightarrow> string \<Rightarrow> string option \<Rightarrow> bool \<Rightarrow>
   uuid option \<Rightarrow> int option \<Rightarrow> points_result option dsvc" where
  "earnFromEvent e org cust0 ev st si desc incVisit branch cents =
     (if \<not> truthy_str cust0 then svc_return None
      else let cust = the cust0 in
     svc_bind (is_enabled e org) (\<lambda>enabled.
       if \<not> enabled then svc_return None
       else svc_bind (ensureAccount e org cust) (\<lambda>a. case a of
         None \<Rightarrow> svc_return None
       | Some a \<Rightarrow>
           svc_bind (resolveEarnPoints e org ev
             ((account_ctx a)\<lparr>cx_branchId := branch, cx_purchaseAmountCents := cents\<rparr>)) (\<lambda>pts.
           if pts \<le> 0 then svc_return None
           else svc_bind (applyPoints e org (ac_id (la_row a)) pts ''EARN''
               (source_opts st (Some si) desc incVisit)) (\<lambda>res.
             if snd res then svc_return (Some res)
             else svc_bind (if ev = ''PURCHASE''
                 then svc_bind (completePendingForCustomer e org cust) (\<lambda>_. svc_return ())
                 else svc_return ()) (\<lambda>_.
               svc_bind (afterEarnActivity e org cust pts incVisit) (\<lambda>_.
               svc_return (Some res))))))))"

definition earnIntegrationPoints ::
  "env \<Rightarrow> uuid \<Rightarrow> uuid \<Rightarrow> int \<Rightarrow> string \<Rightarrow> string option \<Rightarrow> bool \<Rightarrow> account_row dsvc" where
  "earnIntegrationPoints e org acct pts si desc incVisit =
     svc_bind (applyPoints e org acct pts ''EARN''
       (source_opts ''integration'' (Some si) desc incVisit)) (\<lambda>(row, replay).
     svc_bind (if replay \<or> ac_customerId row = [] then svc_return ()
       else svc_bind (if incVisit
           then svc_bind (completePendingForCustomer e org (ac_customerId row)) (\<lambda>_. svc_return ())
           else svc_return ()) (\<lambda>_.
         afterEarnActivity e org (ac_customerId row) pts incVisit)) (\<lambda>_.
     svc_return row))"

definition branch_or_none :: "string option \<Rightarrow> string option" where
  "branch_or_none b = (if truthy_str b then b else None)"

definition handleTicketCompleted ::
  "env \<Rightarrow> uuid \<Rightarrow> string \<Rightarrow> uuid option \<Rightarrow> string \<Rightarrow> points_result option dsvc" where
  "handleTicketCompleted e org ticketId cust branch =
     earnFromEvent e org cust ''TICKET_COMPLETED'' ''ticket'' ticketId
       (Some ''Points for completed visit'') True (branch_or_none (Some branch)) None"

definition handleAppointmentCompleted ::
  "env \<Rightarrow> uuid \<Rightarrow> string \<Rightarrow> uuid option \<Rightarrow> string option \<Rightarrow> points_result option dsvc" where
  "handleAppointmentCompleted e org apptId cust branch =
     earnFromEvent e org cust ''APPOINTMENT_COMPLETED'' ''appointment'' apptId
       (Some ''Points for completed appointment'') True (branch_or_none branch) None"

text \<open>A rating is a whole number here, so rounding does nothing.\<close>

definition clamp_stars :: "int \<Rightarrow> int" where
  "clamp_stars rating = min 5 (max 1 rating)"

definition handleReviewSubmitted ::
  "env \<Rightarrow> uuid \<Rightarrow> string \<Rightarrow> uuid option \<Rightarrow> int option \<Rightarrow> points_result option dsvc" where
  "handleReviewSubmitted e org reviewId cust rating =
     earnFromEvent e org cust ''REVIEW_SUBMITTED'' ''review'' reviewId
       (Some (case rating of
           Some n \<Rightarrow> ''Points for review ('' @ show_int (clamp_stars n) @
                     [CHR 0xE2, CHR 0x98, CHR 0x85] @ '')''
         | None \<Rightarrow> ''Points for review''))
       False None None"

section \<open>Expiry\<close>

definition last_activity :: "uuid \<Rightarrow> uuid \<Rightarrow> db \<Rightarrow> time option" where
  "last_activity org acct s = (case recent_ledger org acct 1 s of [] \<Rightarrow> None
     | l # _ \<Rightarrow> Some (le_createdAt l))"

definition expiry_opts :: "int \<Rightarrow> apply_opts" where
  "expiry_opts days = source_opts ''expiry'' None
     (Some (''Points expired after '' @ show_int days @ '' days of inactivity'')) False"

fun expire_accounts :: "env \<Rightarrow> uuid \<Rightarrow> int \<Rightarrow> account_row list \<Rightarrow> nat \<Rightarrow> nat dsvc" where
  "expire_accounts e org days [] n = svc_return n"
| "expire_accounts e org days (a # as) n =
     svc_bind (with_tenant (tx_gets (last_activity org (ac_id a)))) (\<lambda>last.
       if (case last of None \<Rightarrow> True | Some t \<Rightarrow> en_now e - days * 86400000 < t)
       then expire_accounts e org days as n
       else svc_bind (applyPoints e org (ac_id a) (ac_pointsBalance a) ''EXPIRE'' (expiry_opts days))
              (\<lambda>_. expire_accounts e org days as (n + 1)))"

definition expireInactivePoints :: "env \<Rightarrow> uuid \<Rightarrow> int \<Rightarrow> nat dsvc" where
  "expireInactivePoints e org days =
     svc_bind (is_enabled e org) (\<lambda>enabled.
       if \<not> enabled \<or> days < 1 then svc_return 0
       else svc_bind (with_tenant (tx_gets (\<lambda>s.
           filter (\<lambda>a. ac_orgId a = org \<and> 0 < ac_pointsBalance a) (accounts s)))) (\<lambda>as.
         expire_accounts e org days as 0))"

definition expireForOrg :: "env \<Rightarrow> uuid \<Rightarrow> nat dsvc" where
  "expireForOrg e org =
     svc_bind (is_enabled e org) (\<lambda>enabled.
       if \<not> enabled then svc_return 0
       else svc_bind (with_tenant (tx_gets (find_program org))) (\<lambda>p. case p of
         None \<Rightarrow> svc_return 0
       | Some p \<Rightarrow> (case pr_pointsExpiryDays p of
           None \<Rightarrow> svc_return 0
         | Some d \<Rightarrow> if \<not> pr_enabled p \<or> d = 0 then svc_return 0
                     else expireInactivePoints e org d)))"

section \<open>No-shows\<close>

definition handleNoShow ::
  "env \<Rightarrow> uuid \<Rightarrow> uuid option \<Rightarrow> string \<Rightarrow> string \<Rightarrow> loaded_account option dsvc" where
  "handleNoShow e org cust0 st si =
     (if \<not> truthy_str cust0 then svc_return None
      else let cust = the cust0 in
     svc_bind (is_enabled e org) (\<lambda>enabled.
       if \<not> enabled then svc_return None
       else svc_bind (ensureAccount e org cust) (\<lambda>a. case a of
         None \<Rightarrow> svc_return None
       | Some a \<Rightarrow>
           svc_bind (with_tenant (update_account org (ac_id (la_row a))
             (\<lambda>x. x\<lparr>ac_healthScore := max 0 (ac_healthScore (la_row a) - 20),
                    ac_churnRisk := ''high''\<rparr>))) (\<lambda>_.
           svc_bind (log_effect (WhVisitNoShow org cust (ac_id (la_row a)) st si)) (\<lambda>_.
           svc_return (Some a))))))"

end
