(* ===== verification/Catalog.thy ===== *)
theory Catalog
  imports Gamification
begin

text \<open>
  \<^verbatim>\<open>LoyaltyCatalogService\<close>: rewards with their stock, redemptions with their status, and coupons with
  their usage limit.
\<close>

section \<open>Rewards\<close>

definition listRewards :: "env \<Rightarrow> uuid \<Rightarrow> bool \<Rightarrow> reward_row list dsvc" where
  "listRewards e org activeOnly = svc_bind (require_enabled e org) (\<lambda>_. with_tenant (tx_gets (\<lambda>s.
     sort_key rw_pointsCost
       (filter (\<lambda>r. rw_orgId r = org \<and> (activeOnly \<longrightarrow> rw_active r)) (rewards s)))))"

record reward_input =
  ri_name :: string
  ri_type :: string
  ri_pointsCost :: int
  ri_stock :: "int option"
  ri_active :: "bool option"
  ri_validFrom :: "time option"
  ri_validUntil :: "time option"

definition new_reward :: "env \<Rightarrow> uuid \<Rightarrow> reward_input \<Rightarrow> reward_row" where
  "new_reward e org d = \<lparr>rw_id = en_uuid e ''loyalty_rewards'', rw_orgId = org, rw_name = ri_name d,
     rw_type = ri_type d, rw_pointsCost = ri_pointsCost d, rw_stock = ri_stock d,
     rw_active = patched (ri_active d) True, rw_validFrom = ri_validFrom d,
     rw_validUntil = ri_validUntil d\<rparr>"

definition reward_cols_ok :: "reward_row \<Rightarrow> bool" where
  "reward_cols_ok r \<longleftrightarrow> int4_ok (rw_pointsCost r) \<and>
     (case rw_stock r of None \<Rightarrow> True | Some n \<Rightarrow> int4_ok n)"

definition createReward :: "env \<Rightarrow> uuid \<Rightarrow> reward_input \<Rightarrow> reward_row dsvc" where
  "createReward e org d = svc_bind (require_enabled e org) (\<lambda>_.
     with_tenant (if \<not> reward_cols_ok (new_reward e org d) then tx_throw IntegerOutOfRange
       else tx_bind (tx_modify (rewards_update (\<lambda>rs. rs @ [new_reward e org d])))
              (\<lambda>_. tx_return (new_reward e org d))))"

record reward_patch =
  rp_rname :: "string option"
  rp_rtype :: "string option"
  rp_pointsCost :: "int option"
  rp_stock :: "int option option"
  rp_ractive :: "bool option"
  rp_validFrom :: "time option option"
  rp_validUntil :: "time option option"

definition apply_reward_patch :: "reward_patch \<Rightarrow> reward_row \<Rightarrow> reward_row" where
  "apply_reward_patch d r = r\<lparr>
     rw_name := patched (rp_rname d) (rw_name r), rw_type := patched (rp_rtype d) (rw_type r),
     rw_pointsCost := patched (rp_pointsCost d) (rw_pointsCost r),
     rw_stock := patched (rp_stock d) (rw_stock r),
     rw_active := patched (rp_ractive d) (rw_active r),
     rw_validFrom := patched (rp_validFrom d) (rw_validFrom r),
     rw_validUntil := patched (rp_validUntil d) (rw_validUntil r)\<rparr>"

definition reward_key :: "uuid \<Rightarrow> uuid \<Rightarrow> reward_row \<Rightarrow> bool" where
  "reward_key org i r \<longleftrightarrow> rw_id r = i \<and> rw_orgId r = org"

definition updateReward :: "env \<Rightarrow> uuid \<Rightarrow> uuid \<Rightarrow> reward_patch \<Rightarrow> reward_row dsvc" where
  "updateReward e org i d = svc_bind (require_enabled e org) (\<lambda>_.
     with_tenant (tx_bind (tx_update_one rewards rewards_update (reward_key org i)
         (apply_reward_patch d)) (\<lambda>r.
       if reward_cols_ok r then tx_return r else tx_throw IntegerOutOfRange)))"

text \<open>The redemptions of a reward go with it (\<open>onDelete: Cascade\<close>).\<close>

definition deleteReward :: "env \<Rightarrow> uuid \<Rightarrow> uuid \<Rightarrow> unit dsvc" where
  "deleteReward e org i = svc_bind (require_enabled e org) (\<lambda>_.
     with_tenant (tx_bind (tx_find_or_throw rewards (reward_key org i)) (\<lambda>_.
       tx_bind (tx_modify (rewards_update (filter (\<lambda>r. \<not> reward_key org i r)))) (\<lambda>_.
       tx_modify (redemptions_update (filter (\<lambda>d. rd_rewardId d \<noteq> i)))))))"

section \<open>Redeeming a reward\<close>

definition find_reward :: "uuid \<Rightarrow> uuid \<Rightarrow> db \<Rightarrow> reward_row option" where
  "find_reward org i s = List.find (\<lambda>r. rw_id r = i \<and> rw_orgId r = org \<and> rw_active r) (rewards s)"

definition take_stock :: "uuid \<Rightarrow> uuid \<Rightarrow> unit dtx" where
  "take_stock org i =
     tx_bind (tx_update_many rewards rewards_update
       (\<lambda>r. reward_key org i r \<and> (case rw_stock r of None \<Rightarrow> False | Some n \<Rightarrow> 0 < n))
       (\<lambda>r. r\<lparr>rw_stock := map_option (\<lambda>n. n - 1) (rw_stock r)\<rparr>)) (\<lambda>n.
     if n = 0 then tx_throw (BadRequest ''Reward is out of stock'') else tx_return ())"

definition new_redemption :: "env \<Rightarrow> uuid \<Rightarrow> uuid \<Rightarrow> reward_row \<Rightarrow> redemption_row" where
  "new_redemption e org acct r = \<lparr>rd_id = en_uuid e ''loyalty_redemptions'', rd_orgId = org,
     rd_accountId = acct, rd_rewardId = rw_id r, rd_pointsSpent = rw_pointsCost r,
     rd_status = ''pending'', rd_redeemedAt = en_now e, rd_fulfilledAt = None\<rparr>"

definition insert_redemption :: "redemption_row \<Rightarrow> unit dtx" where
  "insert_redemption d = tx_read (\<lambda>s.
     if \<exists>q\<in>set (redemptions s). rd_id q = rd_id d then tx_throw PrismaP2002
     else tx_modify (redemptions_update (\<lambda>ds. ds @ [d])))"

definition redeem_reward_tx ::
  "env \<Rightarrow> uuid \<Rightarrow> uuid \<Rightarrow> uuid \<Rightarrow> (redemption_row \<times> apply_result) dtx" where
  "redeem_reward_tx e org acct rewardId = tx_read (\<lambda>s. case find_reward org rewardId s of
       None \<Rightarrow> tx_throw (NotFound ''Reward not found'')
     | Some r \<Rightarrow>
         if (case rw_validFrom r of None \<Rightarrow> False | Some t \<Rightarrow> en_now e < t)
         then tx_throw (BadRequest ''Reward is not yet available'')
         else if (case rw_validUntil r of None \<Rightarrow> False | Some t \<Rightarrow> t < en_now e)
         then tx_throw (BadRequest ''Reward has expired'')
         else
           tx_bind (burnPoints_tx e org acct (rw_pointsCost r) ''reward'' rewardId
             (Some (''Redeemed: '' @ rw_name r))) (\<lambda>burn.
           tx_bind (if rw_stock r \<noteq> None then take_stock org rewardId else tx_return ()) (\<lambda>_.
           tx_bind (insert_redemption (new_redemption e org acct r)) (\<lambda>_.
           tx_return (new_redemption e org acct r, burn)))))"

definition redeemReward :: "env \<Rightarrow> uuid \<Rightarrow> uuid \<Rightarrow> uuid \<Rightarrow> redemption_row dsvc" where
  "redeemReward e org cust rewardId =
     svc_bind (require_enabled e org) (\<lambda>_.
     svc_bind (getAccountByCustomerId e org cust) (\<lambda>a.
     svc_bind (with_tenant (redeem_reward_tx e org (ac_id (la_row a)) rewardId)) (\<lambda>(d, burn).
     svc_bind (dispatch_unless_replay org (ac_id (la_row a)) (Some burn)
       (source_opts ''reward'' (Some rewardId) None False)) (\<lambda>_.
     svc_bind (log_effect (WhRewardRedeemed org cust (ac_id (la_row a)) rewardId (rd_id d)
       (rd_pointsSpent d))) (\<lambda>_.
     svc_return d)))))"

section \<open>Redemptions\<close>

definition listRedemptions :: "env \<Rightarrow> uuid \<Rightarrow> string option \<Rightarrow> redemption_row list dsvc" where
  "listRedemptions e org status = svc_bind (require_enabled e org) (\<lambda>_. with_tenant (tx_gets (\<lambda>s.
     take 100 (sort_key (\<lambda>d. - rd_redeemedAt d) (filter (\<lambda>d. rd_orgId d = org \<and>
       (truthy_str status \<longrightarrow> Some (rd_status d) = status)) (redemptions s))))))"

definition redemption_key :: "uuid \<Rightarrow> uuid \<Rightarrow> redemption_row \<Rightarrow> bool" where
  "redemption_key org i d \<longleftrightarrow> rd_id d = i \<and> rd_orgId d = org"

text \<open>Moving a redemption out of \<open>pending\<close>, on the condition that it still is.\<close>

definition claim_redemption ::
  "uuid \<Rightarrow> uuid \<Rightarrow> (redemption_row \<Rightarrow> redemption_row) \<Rightarrow> unit dtx" where
  "claim_redemption org i f =
     tx_bind (tx_update_many redemptions redemptions_update
       (\<lambda>d. redemption_key org i d \<and> rd_status d = ''pending'') f) (\<lambda>n.
     if n = 0 then tx_throw (BadRequest ''Redemption is already fulfilled or cancelled'')
     else tx_return ())"

definition fulfill_tx :: "env \<Rightarrow> uuid \<Rightarrow> uuid \<Rightarrow> redemption_row dtx" where
  "fulfill_tx e org i = tx_read (\<lambda>s. case List.find (redemption_key org i) (redemptions s) of
       None \<Rightarrow> tx_throw (NotFound ''Redemption not found'')
     | Some d \<Rightarrow>
         if rd_status d \<noteq> ''pending''
         then tx_throw (BadRequest (''Redemption is already '' @ rd_status d))
         else tx_bind (claim_redemption org i
                (\<lambda>d. d\<lparr>rd_status := ''fulfilled'', rd_fulfilledAt := Some (en_now e)\<rparr>)) (\<lambda>_.
              tx_find_or_throw redemptions (redemption_key org i)))"

definition fulfillRedemption :: "env \<Rightarrow> uuid \<Rightarrow> uuid \<Rightarrow> redemption_row dsvc" where
  "fulfillRedemption e org i =
     svc_bind (require_enabled e org) (\<lambda>_. with_tenant (fulfill_tx e org i))"

text \<open>The reward and the account are required relations of the redemption.\<close>

definition cancel_tx :: "env \<Rightarrow> uuid \<Rightarrow> uuid \<Rightarrow> redemption_row dtx" where
  "cancel_tx e org i = tx_read (\<lambda>s. case List.find (redemption_key org i) (redemptions s) of
       None \<Rightarrow> tx_throw (NotFound ''Redemption not found'')
     | Some d \<Rightarrow> (case (List.find (reward_key org (rd_rewardId d)) (rewards s),
                      find_account org (rd_accountId d) s) of
         (Some r, Some a) \<Rightarrow>
           if rd_status d \<noteq> ''pending''
           then tx_throw (BadRequest (''Redemption is already '' @ rd_status d))
           else
             tx_bind (claim_redemption org i (\<lambda>d. d\<lparr>rd_status := ''cancelled''\<rparr>)) (\<lambda>_.
             tx_bind (adjustPoints_tx e org (ac_customerId a) (rd_pointsSpent d)
               (Some (''Cancelled redemption: '' @ rw_name r))) (\<lambda>_.
             tx_bind (if rw_stock r \<noteq> None
               then tx_update_many rewards rewards_update (reward_key org (rd_rewardId d))
                      (\<lambda>r. r\<lparr>rw_stock := map_option (\<lambda>n. n + 1) (rw_stock r)\<rparr>)
               else tx_return 0) (\<lambda>_.
             tx_find_or_throw redemptions (redemption_key org i))))
       | _ \<Rightarrow> tx_throw InconsistentResult))"

definition cancelRedemption :: "env \<Rightarrow> uuid \<Rightarrow> uuid \<Rightarrow> redemption_row dsvc" where
  "cancelRedemption e org i =
     svc_bind (require_enabled e org) (\<lambda>_. with_tenant (cancel_tx e org i))"

section \<open>Coupons\<close>

definition listCoupons :: "env \<Rightarrow> uuid \<Rightarrow> coupon_row list dsvc" where
  "listCoupons e org = svc_bind (require_enabled e org) (\<lambda>_. with_tenant (tx_gets (\<lambda>s.
     rev (filter (\<lambda>c. co_orgId c = org) (coupons s)))))"

text \<open>\<open>@@unique([orgId, code])\<close>.\<close>

definition insert_coupon :: "coupon_row \<Rightarrow> unit dtx" where
  "insert_coupon c = tx_read (\<lambda>s.
     if \<exists>q\<in>set (coupons s). co_id q = co_id c \<or> (co_orgId q = co_orgId c \<and> co_code q = co_code c)
     then tx_throw PrismaP2002 else tx_modify (coupons_update (\<lambda>cs. cs @ [c])))"

record coupon_input =
  ci_code :: string
  ci_name :: string
  ci_type :: string
  ci_value :: int
  ci_minPurchaseCents :: "int option"
  ci_maxUses :: "int option"
  ci_active :: "bool option"
  ci_validFrom :: "time option"
  ci_validUntil :: "time option"
  ci_tierSlugs :: "string list option"

definition new_coupon :: "env \<Rightarrow> uuid \<Rightarrow> coupon_input \<Rightarrow> coupon_row" where
  "new_coupon e org d = \<lparr>co_id = en_uuid e ''loyalty_coupons'', co_orgId = org, co_code = ci_code d,
     co_name = ci_name d, co_type = ci_type d, co_value = ci_value d,
     co_minPurchaseCents = ci_minPurchaseCents d, co_maxUses = ci_maxUses d, co_usedCount = 0,
     co_active = patched (ci_active d) True, co_validFrom = ci_validFrom d,
     co_validUntil = ci_validUntil d, co_tierSlugs = patched (ci_tierSlugs d) []\<rparr>"

definition createCoupon :: "env \<Rightarrow> uuid \<Rightarrow> coupon_input \<Rightarrow> coupon_row dsvc" where
  "createCoupon e org d = svc_bind (require_enabled e org) (\<lambda>_. with_tenant
     (tx_bind (insert_coupon (new_coupon e org d)) (\<lambda>_. tx_return (new_coupon e org d))))"

text \<open>Why a coupon cannot be used, for an account standing in the given tier, if in any.\<close>

definition assertCouponValid :: "time \<Rightarrow> coupon_row \<Rightarrow> string option \<Rightarrow> error option" where
  "assertCouponValid now c tier =
     (if (case co_validFrom c of None \<Rightarrow> False | Some t \<Rightarrow> now < t)
      then Some (BadRequest ''Coupon is not yet valid'')
      else if (case co_validUntil c of None \<Rightarrow> False | Some t \<Rightarrow> t < now)
      then Some (BadRequest ''Coupon has expired'')
      else if (case co_maxUses c of None \<Rightarrow> False | Some m \<Rightarrow> m \<le> co_usedCount c)
      then Some (BadRequest ''Coupon usage limit reached'')
      else if co_tierSlugs c \<noteq> [] \<and> (case tier of None \<Rightarrow> False | Some t \<Rightarrow> t \<notin> set (co_tierSlugs c))
      then Some (BadRequest ''Coupon not valid for patron tier'')
      else None)"

definition find_coupon :: "uuid \<Rightarrow> string \<Rightarrow> db \<Rightarrow> coupon_row option" where
  "find_coupon org code s =
     List.find (\<lambda>c. co_orgId c = org \<and> co_code c = to_upper code \<and> co_active c) (coupons s)"

definition tier_slug_of :: "account_row \<Rightarrow> db \<Rightarrow> string option" where
  "tier_slug_of a s = map_option ti_slug (tier_of a s)"

definition validateCoupon :: "env \<Rightarrow> uuid \<Rightarrow> string \<Rightarrow> uuid option \<Rightarrow> coupon_row dsvc" where
  "validateCoupon e org code acct = svc_bind (require_enabled e org) (\<lambda>_. svc_read (\<lambda>s.
     case find_coupon org code s of
       None \<Rightarrow> svc_throw (NotFound ''Coupon not found'')
     | Some c \<Rightarrow>
         (let tier = (if truthy_str acct
                then Option.bind (find_account org (the acct) s) (\<lambda>a. tier_slug_of a s) else None)
          in case assertCouponValid (en_now e) c tier of
               Some err \<Rightarrow> svc_throw err | None \<Rightarrow> svc_return c)))"

text \<open>The counter goes up on the condition that the limit the coupon was read with is not reached.\<close>

definition reserve_coupon :: "uuid \<Rightarrow> coupon_row \<Rightarrow> unit dtx" where
  "reserve_coupon org c =
     tx_bind (tx_update_many coupons coupons_update
       (\<lambda>q. co_id q = co_id c \<and> co_orgId q = org \<and> co_active q \<and>
            (case co_maxUses c of None \<Rightarrow> True | Some m \<Rightarrow> co_usedCount q < m))
       (\<lambda>q. q\<lparr>co_usedCount := co_usedCount q + 1\<rparr>)) (\<lambda>n.
     if n = 0 then tx_throw (BadRequest ''Coupon usage limit reached'') else tx_return ())"

definition redeem_coupon_tx :: "env \<Rightarrow> uuid \<Rightarrow> string \<Rightarrow> uuid \<Rightarrow> coupon_redemption_row dtx" where
  "redeem_coupon_tx e org code acct = tx_read (\<lambda>s. case find_coupon org code s of
       None \<Rightarrow> tx_throw (NotFound ''Coupon not found'')
     | Some c \<Rightarrow> (case find_account org acct s of
         None \<Rightarrow> tx_throw (NotFound ''Loyalty account not found'')
       | Some a \<Rightarrow> (case assertCouponValid (en_now e) c (tier_slug_of a s) of
           Some err \<Rightarrow> tx_throw err
         | None \<Rightarrow>
             tx_bind (reserve_coupon org c) (\<lambda>_.
             (let r = \<lparr>cr_orgId = org, cr_couponId = co_id c, cr_accountId = acct,
                       cr_redeemedAt = en_now e\<rparr>
              in tx_bind (tx_modify (couponRedemptions_update (\<lambda>rs. rs @ [r])))
                   (\<lambda>_. tx_return r))))))"

definition redeemCoupon :: "env \<Rightarrow> uuid \<Rightarrow> string \<Rightarrow> uuid \<Rightarrow> coupon_redemption_row dsvc" where
  "redeemCoupon e org code acct =
     svc_bind (require_enabled e org) (\<lambda>_. with_tenant (redeem_coupon_tx e org code acct))"

definition deleteCoupon :: "env \<Rightarrow> uuid \<Rightarrow> uuid \<Rightarrow> unit dsvc" where
  "deleteCoupon e org i = svc_bind (require_enabled e org) (\<lambda>_.
     with_tenant (tx_bind (tx_find_or_throw coupons (\<lambda>c. co_id c = i \<and> co_orgId c = org)) (\<lambda>_.
       tx_bind (tx_modify (coupons_update (filter (\<lambda>c. \<not> (co_id c = i \<and> co_orgId c = org))))) (\<lambda>_.
       tx_modify (couponRedemptions_update (filter (\<lambda>r. cr_couponId r \<noteq> i)))))))"

end
