(* ===== verification/Wallet.thy ===== *)
theory Wallet
  imports Gamification
begin

text \<open>
  \<^verbatim>\<open>LoyaltyWalletService\<close>: the stored-value wallet of a patron with its list of transactions, and
  gift cards.
\<close>

definition wallet_key :: "uuid \<Rightarrow> uuid \<Rightarrow> wallet_row \<Rightarrow> bool" where
  "wallet_key org i w \<longleftrightarrow> wa_id w = i \<and> wa_orgId w = org"

definition find_wallet :: "uuid \<Rightarrow> uuid \<Rightarrow> db \<Rightarrow> wallet_row option" where
  "find_wallet org i s = List.find (wallet_key org i) (wallets s)"

definition ensureWallet :: "env \<Rightarrow> uuid \<Rightarrow> loaded_account \<Rightarrow> wallet_row dsvc" where
  "ensureWallet e org a = (case la_wallet a of
       Some w \<Rightarrow> svc_return w
     | None \<Rightarrow>
         (let w = new_wallet e org (ac_id (la_row a)) in
          svc_catch (with_tenant (tx_bind (insert_wallet w) (\<lambda>_. tx_return w)))
            (\<lambda>err. if err = PrismaP2002
               then with_tenant (tx_find_or_throw wallets
                      (\<lambda>v. wa_accountId v = ac_id (la_row a) \<and> wa_orgId v = org))
               else svc_throw err)))"

definition wallet_history :: "uuid \<Rightarrow> uuid \<Rightarrow> db \<Rightarrow> wallet_tx_row list" where
  "wallet_history org i s = take 30 (sort_key (\<lambda>t. - wt_createdAt t)
     (filter (\<lambda>t. wt_orgId t = org \<and> wt_walletId t = i) (walletTxs s)))"

definition getWallet :: "env \<Rightarrow> uuid \<Rightarrow> uuid \<Rightarrow> (wallet_row \<times> wallet_tx_row list) dsvc" where
  "getWallet e org cust =
     svc_bind (require_enabled e org) (\<lambda>_.
     svc_bind (ensureAccount e org cust) (\<lambda>a. case a of
       None \<Rightarrow> svc_throw (NotFound ''Loyalty account not found'')
     | Some a \<Rightarrow>
         svc_bind (ensureWallet e org a) (\<lambda>w.
         with_tenant (tx_gets (\<lambda>s. (w, wallet_history org (wa_id w) s))))))"

section \<open>Moving money\<close>

text \<open>An update whose result leaves the 32-bit column fails.\<close>

definition debit_wallet :: "uuid \<Rightarrow> uuid \<Rightarrow> int \<Rightarrow> wallet_row dtx" where
  "debit_wallet org i cents = tx_read (\<lambda>s.
     if \<exists>w\<in>set (wallets s). wallet_key org i w \<and> cents \<le> wa_balanceCents w \<and>
          \<not> int4_ok (wa_balanceCents w - cents)
     then tx_throw IntegerOutOfRange
     else tx_bind (tx_update_many wallets wallets_update
         (\<lambda>w. wallet_key org i w \<and> cents \<le> wa_balanceCents w)
         (\<lambda>w. w\<lparr>wa_balanceCents := wa_balanceCents w - cents\<rparr>)) (\<lambda>n.
       if n = 0 then tx_throw (BadRequest ''Insufficient wallet balance'')
       else tx_find_or_throw wallets (wallet_key org i)))"

definition credit_wallet :: "uuid \<Rightarrow> uuid \<Rightarrow> int \<Rightarrow> wallet_row dtx" where
  "credit_wallet org i cents =
     tx_bind (tx_update_one wallets wallets_update (wallet_key org i)
       (\<lambda>w. w\<lparr>wa_balanceCents := wa_balanceCents w + cents\<rparr>)) (\<lambda>w.
     if int4_ok (wa_balanceCents w) then tx_return w else tx_throw IntegerOutOfRange)"

definition adjust_wallet_tx ::
  "env \<Rightarrow> uuid \<Rightarrow> uuid \<Rightarrow> string \<Rightarrow> int \<Rightarrow> string option \<Rightarrow> wallet_row dtx" where
  "adjust_wallet_tx e org i type cents desc =
     tx_bind (if type = ''DEBIT'' then debit_wallet org i cents else credit_wallet org i cents) (\<lambda>w.
     tx_bind (tx_modify (walletTxs_update (\<lambda>ts. ts @ [\<lparr>wt_orgId = org, wt_walletId = i,
        wt_type = type, wt_amountCents = (if type = ''DEBIT'' then - cents else cents),
        wt_balanceAfter = wa_balanceCents w, wt_description = desc,
        wt_sourceType = Some ''manual'', wt_createdAt = en_now e\<rparr>]))) (\<lambda>_.
     tx_find_or_throw wallets (wallet_key org i)))"

definition adjustWallet ::
  "env \<Rightarrow> uuid \<Rightarrow> uuid \<Rightarrow> string \<Rightarrow> int \<Rightarrow> string option \<Rightarrow> wallet_row dsvc" where
  "adjustWallet e org cust type cents desc =
     svc_bind (require_enabled e org) (\<lambda>_.
     svc_bind (ensureAccount e org cust) (\<lambda>a. case a of
       None \<Rightarrow> svc_throw (NotFound ''Loyalty account not found'')
     | Some a \<Rightarrow>
         svc_bind (ensureWallet e org a) (\<lambda>w.
         with_tenant (adjust_wallet_tx e org (wa_id w) type cents desc))))"

section \<open>Gift cards\<close>

text \<open>The random part of the code, \<open>Math.random().toString(36)\<close>, is an input.\<close>

definition createGiftCard ::
  "env \<Rightarrow> uuid \<Rightarrow> string \<Rightarrow> int \<Rightarrow> string option \<Rightarrow> time option \<Rightarrow> uuid option \<Rightarrow> gift_card_row dsvc" where
  "createGiftCard e org rand36 cents email expires purchaser =
     svc_bind (require_enabled e org) (\<lambda>_.
     svc_bind (if truthy_str purchaser
       then svc_bind (ensureAccount e org (the purchaser))
              (\<lambda>a. svc_return (map_option (\<lambda>x. ac_id (la_row x)) a))
       else svc_return None) (\<lambda>acct.
     (let g = \<lparr>gc_id = en_uuid e ''loyalty_gift_cards'', gc_orgId = org,
          gc_code = ''GC-'' @ to_upper (take 8 (drop 2 rand36)), gc_initialBalanceCents = cents,
          gc_balanceCents = cents, gc_purchaserAccountId = acct, gc_recipientEmail = email,
          gc_expiresAt = expires\<rparr>
      in with_tenant (tx_read (\<lambda>s.
        if \<exists>q\<in>set (giftCards s). gc_orgId q = org \<and> gc_code q = gc_code g
        then tx_throw PrismaP2002
        else if \<not> int4_ok cents then tx_throw IntegerOutOfRange
        else tx_bind (tx_modify (giftCards_update (\<lambda>gs. gs @ [g]))) (\<lambda>_. tx_return g))))))"

definition listGiftCards :: "env \<Rightarrow> uuid \<Rightarrow> gift_card_row list dsvc" where
  "listGiftCards e org = svc_bind (require_enabled e org) (\<lambda>_. with_tenant (tx_gets (\<lambda>s.
     take 100 (rev (filter (\<lambda>g. gc_orgId g = org) (giftCards s))))))"

definition deleteGiftCard :: "env \<Rightarrow> uuid \<Rightarrow> uuid \<Rightarrow> unit dsvc" where
  "deleteGiftCard e org i =
     svc_bind (require_enabled e org) (\<lambda>_.
     svc_bind (with_tenant (tx_read (\<lambda>s.
       tx_bind (tx_modify (giftCards_update (filter (\<lambda>g. \<not> (gc_id g = i \<and> gc_orgId g = org))))) (\<lambda>_.
       tx_return (count_rows (\<lambda>g. gc_id g = i \<and> gc_orgId g = org) (giftCards s)))))) (\<lambda>n.
     if n = 0 then svc_throw (NotFound ''Gift card not found'') else svc_return ()))"

end
