(* ===== verification/Integration.thy ===== *)
theory Integration
  imports Earn Catalog Wallet
begin

text \<open>
  \<^verbatim>\<open>LoyaltyIntegrationService\<close>, the API of point-of-sale connectors: finding a patron by id, email,
  telephone number or external id, creating one, and earning, redeeming and paying on the patron's
  behalf. With \<open>CustomerService.create\<close>, the metadata helpers of \<^verbatim>\<open>customer-contact.util.ts\<close>, and
  \<open>joinViaPublicReferral\<close> of the referral service, which upserts through it.
\<close>

section \<open>Metadata and telephone numbers\<close>

definition json_string_list :: "json option \<Rightarrow> string list" where
  "json_string_list v = (case v of
     Some (JArr xs) \<Rightarrow> List.map_filter
       (\<lambda>x. case x of JStr t \<Rightarrow> if js_trim t \<noteq> [] then Some t else None | _ \<Rightarrow> None) xs
   | _ \<Rightarrow> [])"

definition json_string :: "json option \<Rightarrow> string option" where
  "json_string v = (case v of Some (JStr x) \<Rightarrow> Some x | _ \<Rightarrow> None)"

record customer_metadata =
  md_tags :: "string list"
  md_notes :: string
  md_externalId :: "string option"

definition parseCustomerMetadata :: "json \<Rightarrow> customer_metadata" where
  "parseCustomerMetadata j = (case j of
     JObj r \<Rightarrow> \<lparr>md_tags = json_string_list (json_get r ''tags''),
       md_notes = patched (json_string (json_get r ''notes'')) [],
       md_externalId = json_string (json_get r ''externalId'')\<rparr>
   | _ \<Rightarrow> \<lparr>md_tags = [], md_notes = [], md_externalId = None\<rparr>)"

text \<open>Assigning a key of an object: in place, or at the end.\<close>

fun json_put :: "string \<Rightarrow> json \<Rightarrow> json_record \<Rightarrow> json_record" where
  "json_put k v [] = [(k, v)]"
| "json_put k v ((k', v') # r) = (if k' = k then (k, v) # r else (k', v') # json_put k v r)"

definition mergeCustomerMetadata ::
  "json \<Rightarrow> string list option \<Rightarrow> string option \<Rightarrow> string option \<Rightarrow> json" where
  "mergeCustomerMetadata existing tags notes ext =
     (let b0 = (case existing of JObj r \<Rightarrow> r | _ \<Rightarrow> []);
          b1 = (case tags of None \<Rightarrow> b0 | Some ts \<Rightarrow> json_put ''tags'' (JArr (map JStr ts)) b0);
          b2 = (case notes of None \<Rightarrow> b1 | Some n \<Rightarrow> json_put ''notes'' (JStr n) b1);
          b3 = (case ext of None \<Rightarrow> b2 | Some x \<Rightarrow> json_put ''externalId'' (JStr x) b2)
      in JObj b3)"

datatype phone_clause = PhoneIs string | PhoneContains string

fun phone_matches :: "phone_clause \<Rightarrow> string option \<Rightarrow> bool" where
  "phone_matches (PhoneIs p) v = (v = Some p)"
| "phone_matches (PhoneContains p) v = (case v of None \<Rightarrow> False | Some q \<Rightarrow> str_contains p q)"

definition customerPhoneOr :: "string \<Rightarrow> phone_clause list" where
  "customerPhoneOr phone =
     (let t = js_trim phone; n = digits_of t in
      if t = [] then []
      else PhoneIs t # (if 10 \<le> length n then [PhoneContains (last_n 10 n)] else []))"

definition phone_or :: "phone_clause list \<Rightarrow> customer_row \<Rightarrow> bool" where
  "phone_or cs c \<longleftrightarrow> list_ex (\<lambda>q. phone_matches q (cu_phone c)) cs"

section \<open>Creating and changing customers\<close>

text \<open>The primary key and \<open>@@unique([orgId, externalId])\<close>.\<close>

definition customer_clash :: "customer_row \<Rightarrow> customer_row \<Rightarrow> bool" where
  "customer_clash c d \<longleftrightarrow>
     cu_externalId c \<noteq> None \<and> cu_orgId c = cu_orgId d \<and> cu_externalId c = cu_externalId d"

definition update_customer :: "uuid \<Rightarrow> uuid \<Rightarrow> (customer_row \<Rightarrow> customer_row) \<Rightarrow> unit dtx" where
  "update_customer org cust f = tx_read (\<lambda>s. case find_customer org cust s of
       None \<Rightarrow> tx_throw PrismaP2025
     | Some c \<Rightarrow>
         if \<exists>d\<in>set (customers s). cu_id d \<noteq> cust \<and> customer_clash (f c) d then tx_throw PrismaP2002
         else tx_modify (customers_update (update_rows (\<lambda>c. cu_id c = cust \<and> cu_orgId c = org) f)))"

definition insert_customer :: "customer_row \<Rightarrow> unit dtx" where
  "insert_customer c = tx_read (\<lambda>s.
     if \<exists>d\<in>set (customers s). cu_id d = cu_id c \<or> customer_clash c d then tx_throw PrismaP2002
     else tx_modify (customers_update (\<lambda>cs. cs @ [c])))"

definition new_customer ::
  "uuid \<Rightarrow> uuid \<Rightarrow> string \<Rightarrow> string option \<Rightarrow> string option \<Rightarrow> bool \<Rightarrow> bool \<Rightarrow> customer_row" where
  "new_customer i org name email phone sms mail = \<lparr>cu_id = i, cu_orgId = org,
     cu_name = js_trim name, cu_email = email, cu_phone = phone, cu_externalId = None,
     cu_smsConsent = (if sms then ''GRANTED'' else ''REVOKED''),
     cu_emailConsent = (if mail then ''GRANTED'' else ''REVOKED''), cu_birthday = None,
     cu_gender = None, cu_city = None, cu_metadata = JNull\<rparr>"

definition createCustomer ::
  "env \<Rightarrow> uuid \<Rightarrow> string \<Rightarrow> string option \<Rightarrow> string option \<Rightarrow> bool \<Rightarrow> bool \<Rightarrow> customer_row dsvc" where
  "createCustomer e org name email0 phone0 sms mail =
     svc_bind (require_enabled e org) (\<lambda>_.
     (let email = trim_or_null email0; phone = trim_or_null phone0;
          c = new_customer (en_uuid e ''customers'') org name email phone sms mail in
      svc_bind (with_tenant (tx_gets (\<lambda>s. (email \<noteq> None \<or> phone \<noteq> None) \<and>
          List.find (\<lambda>d. cu_orgId d = org \<and> ((email \<noteq> None \<and> cu_email d = email) \<or>
            (phone \<noteq> None \<and> cu_phone d = phone))) (customers s) \<noteq> None))) (\<lambda>dup.
      if dup then svc_throw (Conflict ''A patron with this email or phone already exists'')
      else svc_bind (with_tenant (insert_customer c)) (\<lambda>_.
        svc_bind (log_effect (EvCustomerCreated org (cu_id c))) (\<lambda>_. svc_return c)))))"

section \<open>Finding a patron\<close>

record patron_ref =
  pf_customerId :: "uuid option"
  pf_email :: "string option"
  pf_phone :: "string option"
  pf_externalId :: "string option"

text \<open>\<open>metadata->>'externalId'\<close>: the text of a scalar value.\<close>

definition json_text :: "json \<Rightarrow> string option" where
  "json_text j = (case j of JStr x \<Rightarrow> Some x | JNum n \<Rightarrow> Some (show_int n)
     | JBool b \<Rightarrow> Some (if b then ''true'' else ''false'') | _ \<Rightarrow> None)"

definition metadata_externalId :: "customer_row \<Rightarrow> string option" where
  "metadata_externalId c = (case cu_metadata c of
     JObj r \<Rightarrow> Option.bind (json_get r ''externalId'') json_text | _ \<Rightarrow> None)"

definition find_by_externalId :: "uuid \<Rightarrow> string \<Rightarrow> db \<Rightarrow> customer_row option" where
  "find_by_externalId org x s =
     List.find (\<lambda>c. cu_orgId c = org \<and> cu_externalId c = Some x) (customers s)"

definition by_external :: "env \<Rightarrow> uuid \<Rightarrow> string \<Rightarrow> customer_row option dtx" where
  "by_external e org ext = tx_read (\<lambda>s. let x = js_trim ext in
     case find_by_externalId org x s of
       Some c \<Rightarrow> tx_return (Some c)
     | None \<Rightarrow>
         if \<not> en_legacyLookup e then tx_return None
         else (case List.find (\<lambda>c. cu_orgId c = org \<and> metadata_externalId c = Some x) (customers s) of
             None \<Rightarrow> tx_return None
           | Some c \<Rightarrow>
               if \<not> truthy_str (cu_externalId c)
               then tx_bind (update_customer org (cu_id c) (\<lambda>c. c\<lparr>cu_externalId := Some x\<rparr>))
                      (\<lambda>_. tx_return (Some c))
               else tx_return (Some c)))"

definition resolve_customer_tx :: "env \<Rightarrow> uuid \<Rightarrow> patron_ref \<Rightarrow> customer_row option dtx" where
  "resolve_customer_tx e org ref = tx_read (\<lambda>s.
     if truthy_str (pf_customerId ref) then tx_return (find_customer org (the (pf_customerId ref)) s)
     else (let byEmail = (if truthy_str (pf_email ref)
               then List.find (\<lambda>c. cu_orgId c = org \<and>
                      cu_email c = Some (js_trim (the (pf_email ref)))) (customers s)
               else None);
             byPhone = (if truthy_str (pf_phone ref)
               then List.find (\<lambda>c. cu_orgId c = org \<and>
                      phone_or (customerPhoneOr (the (pf_phone ref))) c) (customers s)
               else None)
         in case byEmail of
              Some c \<Rightarrow> tx_return (Some c)
            | None \<Rightarrow> (case byPhone of
                Some c \<Rightarrow> tx_return (Some c)
              | None \<Rightarrow> if truthy_str (pf_externalId ref)
                        then by_external e org (the (pf_externalId ref))
                        else tx_return None)))"

definition resolveCustomer :: "env \<Rightarrow> uuid \<Rightarrow> patron_ref \<Rightarrow> customer_row option dsvc" where
  "resolveCustomer e org ref = with_tenant (resolve_customer_tx e org ref)"

definition resolveCustomerOrThrow :: "env \<Rightarrow> uuid \<Rightarrow> patron_ref \<Rightarrow> customer_row dsvc" where
  "resolveCustomerOrThrow e org ref =
     svc_bind (resolveCustomer e org ref) (\<lambda>c. case c of
       None \<Rightarrow> svc_throw (NotFound ''Patron not found'') | Some c \<Rightarrow> svc_return c)"

section \<open>Creating or updating a patron\<close>

record upsert_result =
  ur_customerId :: uuid
  ur_accountId :: "uuid option"
  ur_created :: bool

definition account_id_of :: "loaded_account option \<Rightarrow> uuid option" where
  "account_id_of a = map_option (\<lambda>x. ac_id (la_row x)) a"

definition rename_existing :: "string option \<Rightarrow> string \<Rightarrow> customer_row \<Rightarrow> customer_row \<Rightarrow> customer_row" where
  "rename_existing ext name found c =
     (if truthy_str ext
      then (let md = parseCustomerMetadata (cu_metadata found) in
            c\<lparr>cu_externalId := ext, cu_name := js_trim name,
              cu_metadata := mergeCustomerMetadata (cu_metadata found) (Some (md_tags md))
                (Some (md_notes md)) ext\<rparr>)
      else c\<lparr>cu_name := js_trim name\<rparr>)"

definition upsertCustomer ::
  "env \<Rightarrow> uuid \<Rightarrow> string option \<Rightarrow> string \<Rightarrow> string option \<Rightarrow> string option \<Rightarrow> upsert_result dsvc" where
  "upsertCustomer e org ext0 name email0 phone0 =
     svc_bind (require_enabled e org) (\<lambda>_.
     (let email = trim_or_null email0; phone = trim_or_null phone0; ext = map_option js_trim ext0 in
      svc_bind (resolveCustomer e org \<lparr>pf_customerId = None, pf_email = email, pf_phone = phone,
          pf_externalId = ext\<rparr>) (\<lambda>existing. case existing of
        Some c \<Rightarrow>
          svc_bind (with_tenant (update_customer org (cu_id c) (rename_existing ext name c))) (\<lambda>_.
          svc_bind (ensureAccount e org (cu_id c)) (\<lambda>a.
          svc_return \<lparr>ur_customerId = cu_id c, ur_accountId = account_id_of a, ur_created = False\<rparr>))
      | None \<Rightarrow>
          svc_bind (createCustomer e org name email phone False False) (\<lambda>c.
          svc_bind (if truthy_str ext
            then with_tenant (update_customer org (cu_id c) (\<lambda>c. c\<lparr>cu_externalId := ext,
                   cu_metadata := mergeCustomerMetadata JNull (Some []) (Some []) ext\<rparr>))
            else svc_return ()) (\<lambda>_.
          svc_bind (ensureAccount e org (cu_id c)) (\<lambda>a.
          svc_return \<lparr>ur_customerId = cu_id c, ur_accountId = account_id_of a, ur_created = True\<rparr>))))))"

section \<open>Earning and redeeming\<close>

record earn_request =
  eq_ref :: patron_ref
  eq_points :: "int option"
  eq_purchaseAmountCents :: "int option"
  eq_lineItems :: "line_item list option"
  eq_eventType :: string
  eq_externalTxnId :: string
  eq_description :: "string option"

datatype earn_response =
    EarnReplay uuid int
  | EarnDone uuid uuid int int

definition find_integration_earn :: "uuid \<Rightarrow> string \<Rightarrow> db \<Rightarrow> ledger_row option" where
  "find_integration_earn org txn s = List.find (\<lambda>l. le_orgId l = org \<and>
     le_sourceType l = Some ''integration'' \<and> le_sourceId l = Some txn \<and> le_type l = ''EARN'') (ledger s)"

definition integration_points :: "env \<Rightarrow> uuid \<Rightarrow> loaded_account \<Rightarrow> earn_request \<Rightarrow> int dsvc" where
  "integration_points e org a q =
     (if patched (eq_points q) 0 = 0 \<and> patched (eq_purchaseAmountCents q) 0 \<noteq> 0
      then resolveEarnPoints e org (eq_eventType q)
        \<lparr>cx_purchaseAmountCents = eq_purchaseAmountCents q, cx_branchId = None,
         cx_tierSlug = map_option ti_slug (la_tier a),
         cx_lifetimePointsEarned = Some (ac_lifetimePointsEarned (la_row a)),
         cx_totalVisits = None, cx_accountId = None, cx_lineItems = eq_lineItems q\<rparr>
      else svc_return (patched (eq_points q) 0))"

definition integrationEarnPoints :: "env \<Rightarrow> uuid \<Rightarrow> earn_request \<Rightarrow> earn_response dsvc" where
  "integrationEarnPoints e org q =
     svc_bind (require_enabled e org) (\<lambda>_.
     svc_bind (with_tenant (tx_gets (find_integration_earn org (eq_externalTxnId q)))) (\<lambda>dup.
     case dup of Some l \<Rightarrow> svc_return (EarnReplay (le_accountId l) \<bar>le_points l\<bar>)
     | None \<Rightarrow>
         svc_bind (resolveCustomerOrThrow e org (eq_ref q)) (\<lambda>c.
         svc_bind (ensureAccount e org (cu_id c)) (\<lambda>a. case a of
           None \<Rightarrow> svc_throw (NotFound ''Loyalty account not found'')
         | Some a \<Rightarrow>
             svc_bind (integration_points e org a q) (\<lambda>pts.
             if pts \<le> 0 then svc_throw (BadRequest ''Could not resolve points for transaction'')
             else svc_bind (earnIntegrationPoints e org (ac_id (la_row a)) pts (eq_externalTxnId q)
                 (Some (patched (eq_description q) (''Integration earn ('' @ eq_eventType q @ '')'')))
                 (eq_eventType q = ''PURCHASE'')) (\<lambda>row.
               svc_return (EarnDone (ac_id row) (cu_id c) (ac_pointsBalance row) pts)))))))"

definition integrationRedeemReward :: "env \<Rightarrow> uuid \<Rightarrow> patron_ref \<Rightarrow> uuid \<Rightarrow> redemption_row dsvc" where
  "integrationRedeemReward e org ref rewardId =
     svc_bind (resolveCustomerOrThrow e org ref) (\<lambda>c. redeemReward e org (cu_id c) rewardId)"

definition integrationValidateCoupon ::
  "env \<Rightarrow> uuid \<Rightarrow> string \<Rightarrow> uuid option \<Rightarrow> uuid option \<Rightarrow> coupon_row dsvc" where
  "integrationValidateCoupon e org code acct cust =
     svc_bind (if \<not> truthy_str acct \<and> truthy_str cust
       then svc_bind (getAccountByCustomerId e org (the cust))
              (\<lambda>a. svc_return (Some (ac_id (la_row a))))
       else svc_return acct) (\<lambda>acct. validateCoupon e org code acct)"

definition integrationRedeemCoupon ::
  "env \<Rightarrow> uuid \<Rightarrow> string \<Rightarrow> patron_ref \<Rightarrow> coupon_redemption_row dsvc" where
  "integrationRedeemCoupon e org code ref =
     svc_bind (resolveCustomerOrThrow e org ref) (\<lambda>c.
     svc_bind (ensureAccount e org (cu_id c)) (\<lambda>a. case a of
       None \<Rightarrow> svc_throw (NotFound ''Loyalty account not found'')
     | Some a \<Rightarrow> redeemCoupon e org code (ac_id (la_row a))))"

definition integrationAdjustWallet ::
  "env \<Rightarrow> uuid \<Rightarrow> patron_ref \<Rightarrow> string \<Rightarrow> int \<Rightarrow> string option \<Rightarrow> wallet_row dsvc" where
  "integrationAdjustWallet e org ref type cents desc =
     svc_bind (resolveCustomerOrThrow e org ref) (\<lambda>c.
       adjustWallet e org (cu_id c) type cents desc)"

record patron_view =
  pv_customer :: customer_row
  pv_accountId :: "uuid option"
  pv_pointsBalance :: int
  pv_referralCode :: "string option"

definition lookupCustomer :: "env \<Rightarrow> uuid \<Rightarrow> patron_ref \<Rightarrow> patron_view dsvc" where
  "lookupCustomer e org ref =
     svc_bind (require_enabled e org) (\<lambda>_.
     svc_bind (resolveCustomer e org ref) (\<lambda>c. case c of
       None \<Rightarrow> svc_throw (NotFound ''Patron not found'')
     | Some c \<Rightarrow> svc_bind (ensureAccount e org (cu_id c)) (\<lambda>a.
         svc_return \<lparr>pv_customer = c, pv_accountId = account_id_of a,
           pv_pointsBalance = patched (map_option (\<lambda>x. ac_pointsBalance (la_row x)) a) 0,
           pv_referralCode = map_option (\<lambda>x. ac_referralCode (la_row x)) a\<rparr>)))"

section \<open>Joining through a public referral\<close>

record join_result =
  jr_referralApplied :: bool
  jr_referralStatus :: string
  jr_portalCode :: "string option"
  jr_pointsBalance :: int
  jr_referredBonusPoints :: int

definition joinViaPublicReferral ::
  "env \<Rightarrow> string \<Rightarrow> string \<Rightarrow> string option \<Rightarrow> string option \<Rightarrow> join_result dsvc" where
  "joinViaPublicReferral e code name email phone =
     svc_bind (getPublicReferralLanding e code) (\<lambda>ln. case ln of
       None \<Rightarrow> svc_throw (NotFound ''Referral code not found'')
     | Some ln \<Rightarrow> svc_read (\<lambda>s. case find_code code s of
         None \<Rightarrow> svc_throw (NotFound ''Referral code not found'')
       | Some ref \<Rightarrow>
           (let org = ac_orgId ref in
            svc_bind (upsertCustomer e org None (js_trim name) (trim_or_null email)
              (trim_or_null phone)) (\<lambda>u.
            if ur_customerId u = ac_customerId ref
            then svc_throw (BadRequest ''Cannot join using your own referral code'')
            else
              svc_bind (with_tenant (tx_gets (find_referral_of org (ur_customerId u)))) (\<lambda>existing.
              svc_bind (if existing = None
                then svc_bind (applyReferral e org code (ur_customerId u)) (\<lambda>_. svc_return ())
                else svc_return ()) (\<lambda>_.
              svc_bind (with_tenant (tx_gets (find_account_of org (ur_customerId u)))) (\<lambda>a.
              svc_return \<lparr>jr_referralApplied = (existing = None),
                jr_referralStatus = patched (map_option rf_status existing) ''pending'',
                jr_portalCode = map_option ac_referralCode a,
                jr_pointsBalance = patched (map_option ac_pointsBalance a) 0,
                jr_referredBonusPoints = ln_referredBonusPoints ln\<rparr>)))))))"

end
