(* ===== verification/Segments.thy ===== *)
theory Segments
  imports Integration
begin

text \<open>
  \<^verbatim>\<open>CustomerSegmentService\<close>: the preset patron segments. Some presets are conditions on the customer
  (\<open>presetWhere\<close>), the others are queries that give a list of customers
  (\<open>resolvePresetCustomerIds\<close>); either function says nothing about the presets of the other.
\<close>

definition ninety_days_ms :: int where
  "ninety_days_ms = 90 * 86400000"

text \<open>A contact of a queue row is the customer's: the same number, or the same address in any case.\<close>

definition same_contact :: "customer_row \<Rightarrow> string option \<Rightarrow> string option \<Rightarrow> bool" where
  "same_contact c phone email \<longleftrightarrow> (cu_phone c \<noteq> None \<and> phone = cu_phone c) \<or>
     (cu_email c \<noteq> None \<and> email \<noteq> None \<and> to_lower (the email) = to_lower (the (cu_email c)))"

definition org_customers :: "uuid \<Rightarrow> db \<Rightarrow> customer_row list" where
  "org_customers org s = filter (\<lambda>c. cu_orgId c = org) (customers s)"

definition recent_ticket :: "time \<Rightarrow> customer_row \<Rightarrow> ticket_row \<Rightarrow> bool" where
  "recent_ticket now c t \<longleftrightarrow> tk_orgId t = cu_orgId c \<and> tk_status t \<in> {''completed'', ''served''} \<and>
     now - ninety_days_ms \<le> patched (tk_completedAt t) (tk_bookedAt t) \<and>
     (tk_customerId t = Some (cu_id c) \<or> same_contact c (tk_customerPhone t) (tk_customerEmail t))"

definition repeatVisitors90d :: "env \<Rightarrow> uuid \<Rightarrow> db \<Rightarrow> uuid list" where
  "repeatVisitors90d e org s = map cu_id (filter (\<lambda>c.
     3 \<le> count_rows (recent_ticket (en_now e) c) (tickets s) +
         count_rows (\<lambda>v. vs_orgId v = cu_orgId c \<and> en_now e - ninety_days_ms \<le> vs_startedAt v \<and>
           same_contact c (vs_customerPhone v) (vs_customerEmail v)) (visitLog s)) (org_customers org s))"

definition appointments_of :: "customer_row \<Rightarrow> db \<Rightarrow> appointment_row list" where
  "appointments_of c s = filter (\<lambda>a. ap_orgId a = cu_orgId c \<and>
     same_contact c (ap_customerPhone a) (ap_customerEmail a)) (appointments s)"

definition appointmentNoShowLast :: "uuid \<Rightarrow> db \<Rightarrow> uuid list" where
  "appointmentNoShowLast org s = map cu_id (filter (\<lambda>c.
     list_ex (\<lambda>a. ap_status a = ''no_show'' \<and>
       list_all (\<lambda>b. ap_scheduledAt b \<le> ap_scheduledAt a) (appointments_of c s))
       (appointments_of c s)) (org_customers org s))"

definition lowRatingReview :: "uuid \<Rightarrow> db \<Rightarrow> uuid list" where
  "lowRatingReview org s = map cu_id (filter (\<lambda>c.
     list_ex (\<lambda>r. rv_orgId r = cu_orgId c \<and> rv_rating r \<le> 3 \<and>
       ((cu_email c \<noteq> None \<and> rv_customerEmail r \<noteq> None \<and>
          to_lower (the (rv_customerEmail r)) = to_lower (the (cu_email c))) \<or>
        to_lower (rv_customerName r) = to_lower (cu_name c))) (reviews s)) (org_customers org s))"

definition loyaltyInactive90d :: "env \<Rightarrow> uuid \<Rightarrow> db \<Rightarrow> uuid list" where
  "loyaltyInactive90d e org s = map ac_customerId (filter (\<lambda>a. ac_orgId a = org \<and>
     \<not> list_ex (\<lambda>l. le_accountId l = ac_id a \<and> le_orgId l = org \<and>
         en_now e - ninety_days_ms \<le> le_createdAt l) (ledger s)) (accounts s))"

text \<open>\<open>null\<close>, a list of customers, or a value that is not one of the presets.\<close>

datatype segment = NoIds | Ids "uuid list" | NotAPreset

definition where_presets :: "string list" where
  "where_presets = [''marketing_sms_opted_in'', ''loyalty_vip'', ''loyalty_high_ltv'',
     ''loyalty_rfm_champions'', ''loyalty_at_risk'']"

definition resolvePresetCustomerIds :: "env \<Rightarrow> uuid \<Rightarrow> string \<Rightarrow> db \<Rightarrow> segment" where
  "resolvePresetCustomerIds e org preset s =
     (if preset \<in> set where_presets then NoIds
      else if preset = ''repeat_visitors_90d'' then Ids (repeatVisitors90d e org s)
      else if preset = ''appointment_no_show_last'' then Ids (appointmentNoShowLast org s)
      else if preset = ''low_rating_review'' then Ids (lowRatingReview org s)
      else if preset = ''loyalty_inactive_90d'' then Ids (loyaltyInactive90d e org s)
      else NotAPreset)"

definition account_where :: "(account_row \<Rightarrow> bool) \<Rightarrow> customer_row \<Rightarrow> db \<Rightarrow> bool" where
  "account_where P c s \<longleftrightarrow>
     (case find_account_of (cu_orgId c) (cu_id c) s of None \<Rightarrow> False | Some a \<Rightarrow> P a)"

definition presetWhere :: "string \<Rightarrow> (customer_row \<Rightarrow> db \<Rightarrow> bool) option" where
  "presetWhere preset =
     (if preset = ''marketing_sms_opted_in'' then Some (\<lambda>c s. cu_smsConsent c = ''GRANTED'')
      else if preset = ''loyalty_vip'' then Some (\<lambda>c s. account_where (\<lambda>a.
        tier_slug_of a s \<in> {Some ''gold'', Some ''platinum'', Some ''diamond''} \<or>
        5000 \<le> ac_lifetimePointsEarned a) c s)
      else if preset = ''loyalty_high_ltv'' then
        Some (account_where (\<lambda>a. 100000 \<le> ac_lifetimeValueCents a))
      else if preset = ''loyalty_rfm_champions'' then Some (account_where (\<lambda>a.
        70 \<le> ac_healthScore a \<and> 5 \<le> ac_totalVisits a \<and> 50000 \<le> ac_lifetimeValueCents a))
      else if preset = ''loyalty_at_risk'' then
        Some (account_where (\<lambda>a. ac_churnRisk a \<in> {''high'', ''medium''}))
      else None)"

end
