(* ===== verification/Dispatch.thy ===== *)
theory Dispatch
  imports Accounts
begin

text \<open>
  \<^verbatim>\<open>LoyaltyCampaignDispatchService\<close>: a campaign send goes from \<open>queued\<close> through \<open>sending\<close> to \<open>sent\<close>,
  \<open>failed\<close> or \<open>skipped\<close>; consent and contact are checked per channel before a notification is handed
  over, and the notification worker reports the final status.
\<close>

datatype send_result = SendSent | SendSkipped | SendQueued | SendFailed

definition send_key :: "uuid \<Rightarrow> uuid \<Rightarrow> send_row \<Rightarrow> bool" where
  "send_key org i n \<longleftrightarrow> sn_id n = i \<and> sn_orgId n = org"

definition campaign_key :: "uuid \<Rightarrow> uuid \<Rightarrow> campaign_row \<Rightarrow> bool" where
  "campaign_key org i c \<longleftrightarrow> ca_id c = i \<and> ca_orgId c = org"

definition find_send :: "uuid \<Rightarrow> uuid \<Rightarrow> db \<Rightarrow> send_row option" where
  "find_send org i s = List.find (send_key org i) (sends s)"

definition find_campaign :: "uuid \<Rightarrow> uuid \<Rightarrow> db \<Rightarrow> campaign_row option" where
  "find_campaign org i s = List.find (campaign_key org i) (campaigns s)"

section \<open>The status of a send\<close>

definition claimSend :: "uuid \<Rightarrow> uuid \<Rightarrow> bool dsvc" where
  "claimSend org i =
     svc_bind (with_tenant (tx_update_many sends sends_update
       (\<lambda>n. send_key org i n \<and> sn_status n = ''queued'')
       (\<lambda>n. n\<lparr>sn_status := ''sending''\<rparr>))) (\<lambda>n. svc_return (0 < n))"

definition mark :: "env \<Rightarrow> string \<Rightarrow> string option \<Rightarrow> send_row \<Rightarrow> send_row" where
  "mark e status err n = n\<lparr>sn_status := status,
     sn_sentAt := (if status = ''sent'' then Some (en_now e) else sn_sentAt n), sn_error := err\<rparr>"

definition markSend :: "env \<Rightarrow> uuid \<Rightarrow> uuid \<Rightarrow> string \<Rightarrow> string option \<Rightarrow> unit dsvc" where
  "markSend e org i status err =
     svc_bind (with_tenant (tx_update_one sends sends_update (send_key org i) (mark e status err)))
       (\<lambda>_. svc_return ())"

definition bump_sentCount :: "uuid \<Rightarrow> uuid \<Rightarrow> unit dsvc" where
  "bump_sentCount org cid =
     svc_bind (with_tenant (tx_update_one campaigns campaigns_update (campaign_key org cid)
       (\<lambda>c. c\<lparr>ca_sentCount := ca_sentCount c + 1\<rparr>))) (\<lambda>_. svc_return ())"

definition finalizeSendFromNotification ::
  "env \<Rightarrow> uuid \<Rightarrow> uuid \<Rightarrow> bool \<Rightarrow> string option \<Rightarrow> unit dsvc" where
  "finalizeSendFromNotification e org i ok err =
     svc_bind (with_tenant (tx_update_many sends sends_update
       (\<lambda>n. send_key org i n \<and> sn_status n \<in> {''sending'', ''queued''})
       (mark e (if ok then ''sent'' else ''failed'') err))) (\<lambda>n.
     if n = 0 then svc_return ()
     else if ok then
       svc_bind (with_tenant (tx_gets (find_send org i))) (\<lambda>send. case send of
         None \<Rightarrow> svc_return () | Some n \<Rightarrow> bump_sentCount org (sn_campaignId n))
     else svc_return ())"

section \<open>One send\<close>

text \<open>Handing a message to the notification service, which may refuse it with an exception.\<close>

definition notify ::
  "env \<Rightarrow> uuid \<Rightarrow> string \<Rightarrow> string \<Rightarrow> campaign_row \<Rightarrow> uuid \<Rightarrow> uuid \<Rightarrow> unit dsvc" where
  "notify e org channel to c sendId cust = (case en_notify e sendId of
       Some msg \<Rightarrow> svc_throw (BadRequest msg)
     | None \<Rightarrow> log_effect (SendNotification org channel to
         (or_str (patched (trim_or_null (ca_subject c)) []) (ca_name c))
         (or_str (js_trim (patched (ca_body c) [])) ''Message from your loyalty program.'')
         (ca_id c) sendId cust))"

definition skip_send :: "env \<Rightarrow> uuid \<Rightarrow> uuid \<Rightarrow> string \<Rightarrow> send_result dsvc" where
  "skip_send e org i why =
     svc_bind (markSend e org i ''skipped'' (Some why)) (\<lambda>_. svc_return SendSkipped)"

definition has_text :: "string option \<Rightarrow> bool" where
  "has_text v = truthy_str (map_option js_trim v)"

text \<open>A channel with a consent flag and an address.\<close>

definition consented_send ::
  "env \<Rightarrow> uuid \<Rightarrow> campaign_row \<Rightarrow> uuid \<Rightarrow> customer_row \<Rightarrow> string \<Rightarrow> string \<Rightarrow> string \<Rightarrow>
   string option \<Rightarrow> string \<Rightarrow> send_result dsvc" where
  "consented_send e org c i cu channel consent noConsent address noAddress =
     (if consent \<noteq> ''GRANTED'' then skip_send e org i noConsent
      else if \<not> has_text address then skip_send e org i noAddress
      else svc_bind (notify e org channel (the address) c i (cu_id cu)) (\<lambda>_. svc_return SendQueued))"

definition dispatch_claimed ::
  "env \<Rightarrow> uuid \<Rightarrow> campaign_row \<Rightarrow> uuid \<Rightarrow> customer_row \<Rightarrow> send_result dsvc" where
  "dispatch_claimed e org c i cu =
     (let channel = to_upper (ca_channel c) in
      if channel = ''IN_APP'' then
        svc_bind (markSend e org i ''sent'' None) (\<lambda>_. svc_return SendSent)
      else if channel = ''PUSH'' then
        skip_send e org i (''Push provider not configured '' @ [CHR 0xE2, CHR 0x80, CHR 0x94] @
          '' use IN_APP, SMS, or EMAIL'')
      else if channel = ''WHATSAPP'' then
        consented_send e org c i cu ''whatsapp'' (cu_smsConsent cu)
          ''Marketing WhatsApp/SMS not consented'' (cu_phone cu) ''No phone on file''
      else if channel = ''SMS'' then
        consented_send e org c i cu ''sms'' (cu_smsConsent cu)
          ''Marketing SMS not consented'' (cu_phone cu) ''No phone on file''
      else if channel = ''EMAIL'' then
        consented_send e org c i cu ''email'' (cu_emailConsent cu)
          ''Marketing email not consented'' (cu_email cu) ''No email on file''
      else skip_send e org i (''Unsupported channel: '' @ channel))"

definition dispatchOne ::
  "env \<Rightarrow> uuid \<Rightarrow> campaign_row \<Rightarrow> uuid \<Rightarrow> customer_row \<Rightarrow> send_result dsvc" where
  "dispatchOne e org c i cu =
     svc_bind (claimSend org i) (\<lambda>claimed.
       if \<not> claimed then svc_return SendSkipped else dispatch_claimed e org c i cu)"

section \<open>A whole campaign\<close>

text \<open>The queued sends with the customer of their account, a required relation.\<close>

fun load_sends :: "uuid \<Rightarrow> send_row list \<Rightarrow> db \<Rightarrow> error + (uuid \<times> customer_row) list" where
  "load_sends org [] s = Inr []"
| "load_sends org (n # ns) s =
     (case Option.bind (find_account org (sn_accountId n) s)
             (\<lambda>a. find_customer org (ac_customerId a) s) of
        None \<Rightarrow> Inl InconsistentResult
      | Some cu \<Rightarrow> (case load_sends org ns s of Inl err \<Rightarrow> Inl err | Inr r \<Rightarrow> Inr ((sn_id n, cu) # r)))"

definition queued_sends :: "uuid \<Rightarrow> uuid \<Rightarrow> (uuid \<times> customer_row) list dtx" where
  "queued_sends org cid = tx_read (\<lambda>s. case load_sends org (filter (\<lambda>n. sn_orgId n = org \<and>
       sn_campaignId n = cid \<and> sn_status n = ''queued'') (sends s)) s of
     Inl err \<Rightarrow> tx_throw err | Inr r \<Rightarrow> tx_return r)"

text \<open>How many sends were sent, skipped and failed.\<close>

type_synonym delivery = "nat \<times> nat \<times> nat"

definition tally :: "send_result \<Rightarrow> delivery \<Rightarrow> delivery" where
  "tally r d = (case d of (sent, skipped, failed) \<Rightarrow> (case r of
     SendSent \<Rightarrow> (sent + 1, skipped, failed) | SendSkipped \<Rightarrow> (sent, skipped + 1, failed)
   | SendFailed \<Rightarrow> (sent, skipped, failed + 1) | SendQueued \<Rightarrow> (sent, skipped, failed)))"

definition try_send ::
  "env \<Rightarrow> uuid \<Rightarrow> campaign_row \<Rightarrow> uuid \<Rightarrow> customer_row \<Rightarrow> send_result dsvc" where
  "try_send e org c i cu = svc_catch (dispatchOne e org c i cu)
     (\<lambda>err. svc_bind (markSend e org i ''failed'' (Some (message_of err))) (\<lambda>_. svc_return SendFailed))"

fun dispatch_all ::
  "env \<Rightarrow> uuid \<Rightarrow> campaign_row \<Rightarrow> (uuid \<times> customer_row) list \<Rightarrow> delivery \<Rightarrow> delivery dsvc" where
  "dispatch_all e org c [] d = svc_return d"
| "dispatch_all e org c ((i, cu) # ns) d =
     svc_bind (try_send e org c i cu) (\<lambda>r. dispatch_all e org c ns (tally r d))"

definition remaining_sends :: "uuid \<Rightarrow> uuid \<Rightarrow> db \<Rightarrow> nat" where
  "remaining_sends org cid s = count_rows (\<lambda>n. sn_orgId n = org \<and> sn_campaignId n = cid \<and>
     sn_status n \<in> {''queued'', ''sending''}) (sends s)"

definition set_campaign :: "uuid \<Rightarrow> uuid \<Rightarrow> (campaign_row \<Rightarrow> campaign_row) \<Rightarrow> unit dsvc" where
  "set_campaign org cid f =
     svc_bind (with_tenant (tx_update_one campaigns campaigns_update (campaign_key org cid) f))
       (\<lambda>_. svc_return ())"

definition dispatchCampaign :: "env \<Rightarrow> uuid \<Rightarrow> uuid \<Rightarrow> delivery dsvc" where
  "dispatchCampaign e org cid =
     svc_bind (with_tenant (tx_gets (find_campaign org cid))) (\<lambda>c. case c of
       None \<Rightarrow> svc_return (0, 0, 0)
     | Some c \<Rightarrow>
         svc_bind (with_tenant (queued_sends org cid)) (\<lambda>ns.
         svc_bind (dispatch_all e org c ns (0, 0, 0)) (\<lambda>d.
         svc_bind (with_tenant (tx_gets (remaining_sends org cid))) (\<lambda>n.
         svc_bind (if n = 0 then set_campaign org cid (\<lambda>c. c\<lparr>ca_status := ''completed''\<rparr>)
                   else svc_return ()) (\<lambda>_.
         svc_return d)))))"

section \<open>One account\<close>

definition insert_send :: "send_row \<Rightarrow> unit dtx" where
  "insert_send n = tx_read (\<lambda>s.
     if \<exists>q\<in>set (sends s). sn_id q = sn_id n then tx_throw PrismaP2002
     else tx_modify (sends_update (\<lambda>ns. ns @ [n])))"

definition new_send :: "env \<Rightarrow> uuid \<Rightarrow> uuid \<Rightarrow> uuid \<Rightarrow> send_row" where
  "new_send e org cid acct = \<lparr>sn_id = en_uuid e (''sends/'' @ cid @ ''/'' @ acct), sn_orgId = org,
     sn_campaignId = cid, sn_accountId = acct, sn_status = ''queued'', sn_sentAt = None,
     sn_error = None, sn_createdAt = en_now e\<rparr>"

definition account_customer :: "uuid \<Rightarrow> uuid \<Rightarrow> customer_row option dtx" where
  "account_customer org acct = tx_read (\<lambda>s. case find_account org acct s of
       None \<Rightarrow> tx_return None
     | Some a \<Rightarrow> (case find_customer org (ac_customerId a) s of
         None \<Rightarrow> tx_throw InconsistentResult | Some cu \<Rightarrow> tx_return (Some cu)))"

definition sendToAccount :: "env \<Rightarrow> uuid \<Rightarrow> uuid \<Rightarrow> uuid \<Rightarrow> send_result dsvc" where
  "sendToAccount e org cid acct =
     svc_bind (with_tenant (tx_gets (find_campaign org cid))) (\<lambda>c. case c of
       None \<Rightarrow> svc_return SendSkipped
     | Some c \<Rightarrow>
         if ca_status c \<noteq> ''active'' then svc_return SendSkipped
         else svc_bind (with_tenant (account_customer org acct)) (\<lambda>cu. case cu of
           None \<Rightarrow> svc_return SendSkipped
         | Some cu \<Rightarrow>
             (let n = new_send e org cid acct in
              svc_bind (with_tenant (insert_send n)) (\<lambda>_.
              svc_catch
                (svc_bind (dispatchOne e org c (sn_id n) cu) (\<lambda>r.
                   if r = SendSent then svc_bind (bump_sentCount org cid) (\<lambda>_. svc_return r)
                   else svc_return r))
                (\<lambda>err. svc_bind (markSend e org (sn_id n) ''failed'' (Some (message_of err)))
                         (\<lambda>_. svc_return SendFailed))))))"

end
