(* ===== verification/Campaigns.thy ===== *)
theory Campaigns
  imports Segments Dispatch
begin

text \<open>
  \<^verbatim>\<open>LoyaltyCampaignService\<close>, which creates and launches campaigns, and
  \<^verbatim>\<open>LoyaltyCampaignAutomationService\<close>, which fires the triggered ones: welcome, birthday, win-back,
  tier upgrade and abandoned.
\<close>

section \<open>Campaigns\<close>

definition listCampaigns :: "env \<Rightarrow> uuid \<Rightarrow> campaign_row list dsvc" where
  "listCampaigns e org = svc_bind (require_enabled e org) (\<lambda>_. with_tenant (tx_gets (\<lambda>s.
     rev (filter (\<lambda>c. ca_orgId c = org) (campaigns s)))))"

record campaign_input =
  cm_name :: string
  cm_channel :: string
  cm_trigger :: string
  cm_status :: "string option"
  cm_subject :: "string option"
  cm_body :: "string option"
  cm_segmentPreset :: "string option"
  cm_scheduledAt :: "time option"

definition new_campaign :: "env \<Rightarrow> uuid \<Rightarrow> campaign_input \<Rightarrow> campaign_row" where
  "new_campaign e org d = \<lparr>ca_id = en_uuid e ''loyalty_campaigns'', ca_orgId = org,
     ca_name = cm_name d, ca_channel = cm_channel d, ca_trigger = cm_trigger d,
     ca_status = (case cm_scheduledAt d of
         Some t \<Rightarrow> if en_now e < t then ''scheduled'' else patched (cm_status d) ''draft''
       | None \<Rightarrow> patched (cm_status d) ''draft''),
     ca_subject = cm_subject d, ca_body = cm_body d, ca_segmentPreset = cm_segmentPreset d,
     ca_scheduledAt = cm_scheduledAt d, ca_sentCount = 0\<rparr>"

definition createCampaign :: "env \<Rightarrow> uuid \<Rightarrow> campaign_input \<Rightarrow> campaign_row dsvc" where
  "createCampaign e org d = svc_bind (require_enabled e org) (\<lambda>_.
     with_tenant (tx_bind (tx_modify (campaigns_update (\<lambda>cs. cs @ [new_campaign e org d])))
       (\<lambda>_. tx_return (new_campaign e org d))))"

record campaign_patch =
  cq_name :: "string option"
  cq_channel :: "string option"
  cq_trigger :: "string option"
  cq_status :: "string option"
  cq_subject :: "string option option"
  cq_body :: "string option option"
  cq_segmentPreset :: "string option option"
  cq_scheduledAt :: "time option option"

definition apply_campaign_patch :: "campaign_patch \<Rightarrow> campaign_row \<Rightarrow> campaign_row" where
  "apply_campaign_patch d c = c\<lparr>
     ca_name := patched (cq_name d) (ca_name c), ca_channel := patched (cq_channel d) (ca_channel c),
     ca_trigger := patched (cq_trigger d) (ca_trigger c),
     ca_status := patched (cq_status d) (ca_status c),
     ca_subject := patched (cq_subject d) (ca_subject c), ca_body := patched (cq_body d) (ca_body c),
     ca_segmentPreset := patched (cq_segmentPreset d) (ca_segmentPreset c),
     ca_scheduledAt := patched (cq_scheduledAt d) (ca_scheduledAt c)\<rparr>"

definition updateCampaign :: "env \<Rightarrow> uuid \<Rightarrow> uuid \<Rightarrow> campaign_patch \<Rightarrow> campaign_row dsvc" where
  "updateCampaign e org i d = svc_bind (require_enabled e org) (\<lambda>_.
     with_tenant (tx_update_one campaigns campaigns_update (campaign_key org i)
       (apply_campaign_patch d)))"

definition deleteCampaign :: "env \<Rightarrow> uuid \<Rightarrow> uuid \<Rightarrow> unit dsvc" where
  "deleteCampaign e org i = svc_bind (require_enabled e org) (\<lambda>_.
     with_tenant (tx_bind (tx_find_or_throw campaigns (campaign_key org i)) (\<lambda>_.
       tx_bind (tx_modify (campaigns_update (filter (\<lambda>c. \<not> campaign_key org i c)))) (\<lambda>_.
       tx_modify (sends_update (filter (\<lambda>n. sn_campaignId n \<noteq> i)))))))"

section \<open>Launching\<close>

definition zero_uuid :: uuid where
  "zero_uuid = ''00000000-0000-0000-0000-000000000000''"

text \<open>The accounts a campaign goes to: the segment's, or all of them when there are no ids.\<close>

definition segment_of :: "env \<Rightarrow> uuid \<Rightarrow> campaign_row \<Rightarrow> db \<Rightarrow> segment" where
  "segment_of e org c s =
     (if truthy_str (ca_segmentPreset c)
      then resolvePresetCustomerIds e org (the (ca_segmentPreset c)) s else NoIds)"

definition launch_accounts :: "uuid \<Rightarrow> segment \<Rightarrow> account_row list dtx" where
  "launch_accounts org seg = tx_read (\<lambda>s. case seg of
       NoIds \<Rightarrow> tx_return (take 500 (filter (\<lambda>a. ac_orgId a = org) (accounts s)))
     | Ids is \<Rightarrow> tx_return (take 500 (filter (\<lambda>a. ac_orgId a = org \<and>
         ac_customerId a \<in> set (if is \<noteq> [] then is else [zero_uuid])) (accounts s)))
     | NotAPreset \<Rightarrow> tx_throw PrismaValidation)"

definition queue_sends :: "env \<Rightarrow> uuid \<Rightarrow> uuid \<Rightarrow> account_row list \<Rightarrow> unit dtx" where
  "queue_sends e org cid as =
     tx_bind (tx_foreach as (\<lambda>a. insert_send (new_send e org cid (ac_id a)))) (\<lambda>_.
     tx_bind (tx_update_one campaigns campaigns_update (campaign_key org cid)
       (\<lambda>c. c\<lparr>ca_status := ''active'', ca_sentCount := 0\<rparr>)) (\<lambda>_. tx_return ()))"

definition launch :: "env \<Rightarrow> uuid \<Rightarrow> uuid \<Rightarrow> (nat \<times> delivery) dsvc" where
  "launch e org cid =
     svc_bind (require_enabled e org) (\<lambda>_.
     svc_bind (with_tenant (tx_gets (find_campaign org cid))) (\<lambda>c. case c of
       None \<Rightarrow> svc_throw (NotFound ''Campaign not found'')
     | Some c \<Rightarrow>
         if ca_status c = ''completed'' then svc_throw (BadRequest ''Campaign already completed'')
         else
           svc_bind (with_tenant (tx_gets (segment_of e org c))) (\<lambda>seg.
           svc_bind (with_tenant (launch_accounts org seg)) (\<lambda>as.
           svc_bind (with_tenant (queue_sends e org cid as)) (\<lambda>_.
           svc_bind (dispatchCampaign e org cid) (\<lambda>d.
           svc_bind (set_campaign org cid (\<lambda>c. c\<lparr>ca_sentCount := int (fst d)\<rparr>)) (\<lambda>_.
           svc_return (length as, d))))))))"

fun launch_all :: "env \<Rightarrow> uuid \<Rightarrow> campaign_row list \<Rightarrow> nat \<Rightarrow> nat dsvc" where
  "launch_all e org [] n = svc_return n"
| "launch_all e org (c # cs) n = svc_bind (launch e org (ca_id c)) (\<lambda>_. launch_all e org cs (n + 1))"

definition due_campaigns :: "env \<Rightarrow> uuid \<Rightarrow> db \<Rightarrow> campaign_row list" where
  "due_campaigns e org s = take 20 (filter (\<lambda>c. ca_orgId c = org \<and> ca_status c = ''scheduled'' \<and>
     (case ca_scheduledAt c of None \<Rightarrow> False | Some t \<Rightarrow> t \<le> en_now e)) (campaigns s))"

definition processDueScheduled :: "env \<Rightarrow> uuid \<Rightarrow> nat dsvc" where
  "processDueScheduled e org =
     svc_bind (require_enabled e org) (\<lambda>_.
     svc_bind (with_tenant (tx_gets (due_campaigns e org))) (\<lambda>cs. launch_all e org cs 0))"

section \<open>Calendar\<close>

text \<open>Year, month and day of a day number since 1970-01-01, and the day number of 1 January.\<close>

definition civil_from_days :: "int \<Rightarrow> int \<times> int \<times> int" where
  "civil_from_days days =
     (let z = days + 719468; era = z div 146097; doe = z mod 146097;
          yoe = (doe - doe div 1460 + doe div 36524 - doe div 146096) div 365;
          doy = doe - (365 * yoe + yoe div 4 - yoe div 100);
          mp = (5 * doy + 2) div 153;
          d = doy - (153 * mp + 2) div 5 + 1;
          m = (if mp < 10 then mp + 3 else mp - 9)
      in (yoe + era * 400 + (if m \<le> 2 then 1 else 0), m, d))"

definition year_start_day :: "int \<Rightarrow> int" where
  "year_start_day y =
     (let y1 = y - 1; era = y1 div 400; yoe = y1 mod 400
      in era * 146097 + yoe * 365 + yoe div 4 - yoe div 100 + 306 - 719468)"

definition day_of :: "time \<Rightarrow> int" where
  "day_of t = t div 86400000"

section \<open>Triggered campaigns\<close>

definition yearStart :: "time \<Rightarrow> time" where
  "yearStart now = year_start_day (fst (civil_from_days (day_of now))) * 86400000"

definition sent_since :: "time \<Rightarrow> send_row \<Rightarrow> bool" where
  "sent_since t n \<longleftrightarrow> sn_status n = ''sent'' \<and>
     (case sn_sentAt n of None \<Rightarrow> False | Some u \<Rightarrow> t \<le> u)"

definition isDuplicateSend :: "env \<Rightarrow> uuid \<Rightarrow> uuid \<Rightarrow> uuid \<Rightarrow> string \<Rightarrow> db \<Rightarrow> bool" where
  "isDuplicateSend e org cid acct trigger s =
     list_ex (\<lambda>n. sn_orgId n = org \<and> sn_campaignId n = cid \<and> sn_accountId n = acct \<and>
       (if trigger = ''BIRTHDAY'' then sent_since (yearStart (en_now e)) n
        else if trigger = ''WELCOME'' \<or> trigger = ''TIER_UPGRADE''
        then sn_status n \<in> {''sent'', ''queued''}
        else sent_since (en_now e - thirty_days_ms) n)) (sends s)"

fun fire_campaigns ::
  "env \<Rightarrow> uuid \<Rightarrow> string \<Rightarrow> uuid \<Rightarrow> campaign_row list \<Rightarrow> nat \<Rightarrow> nat dsvc" where
  "fire_campaigns e org trigger acct [] sent = svc_return sent"
| "fire_campaigns e org trigger acct (c # cs) sent =
     svc_bind (with_tenant (tx_gets (isDuplicateSend e org (ca_id c) acct trigger))) (\<lambda>dup.
       if dup then fire_campaigns e org trigger acct cs sent
       else svc_bind (sendToAccount e org (ca_id c) acct) (\<lambda>r.
         fire_campaigns e org trigger acct cs (if r = SendSent then sent + 1 else sent)))"

definition active_campaigns :: "uuid \<Rightarrow> string \<Rightarrow> db \<Rightarrow> campaign_row list" where
  "active_campaigns org trigger s = filter (\<lambda>c. ca_orgId c = org \<and> ca_trigger c = trigger \<and>
     ca_status c = ''active'') (campaigns s)"

definition fireTrigger :: "env \<Rightarrow> uuid \<Rightarrow> string \<Rightarrow> uuid \<Rightarrow> nat dsvc" where
  "fireTrigger e org trigger cust =
     svc_bind (is_enabled e org) (\<lambda>enabled.
       if \<not> enabled then svc_return 0
       else svc_bind (ensureAccount e org cust) (\<lambda>a. case a of
         None \<Rightarrow> svc_return 0
       | Some a \<Rightarrow>
           svc_bind (with_tenant (tx_gets (active_campaigns org trigger))) (\<lambda>cs.
           fire_campaigns e org trigger (ac_id (la_row a)) cs 0)))"

fun fire_all :: "env \<Rightarrow> uuid \<Rightarrow> string \<Rightarrow> uuid list \<Rightarrow> nat \<Rightarrow> nat dsvc" where
  "fire_all e org trigger [] sent = svc_return sent"
| "fire_all e org trigger (c # cs) sent =
     svc_bind (fireTrigger e org trigger c) (\<lambda>n. fire_all e org trigger cs (sent + n))"

section \<open>The daily run\<close>

definition birthday_customers :: "env \<Rightarrow> uuid \<Rightarrow> db \<Rightarrow> uuid list" where
  "birthday_customers e org s = map cu_id (filter (\<lambda>c. cu_orgId c = org \<and>
     (case cu_birthday c of None \<Rightarrow> False
      | Some b \<Rightarrow> snd (civil_from_days b) = snd (civil_from_days (day_of (en_now e))))) (customers s))"

definition processBirthdays :: "env \<Rightarrow> uuid \<Rightarrow> nat dsvc" where
  "processBirthdays e org = svc_bind (with_tenant (tx_gets (birthday_customers e org)))
     (\<lambda>cs. fire_all e org ''BIRTHDAY'' cs 0)"

definition processWinBack :: "env \<Rightarrow> uuid \<Rightarrow> nat dsvc" where
  "processWinBack e org = svc_bind (with_tenant (tx_gets (\<lambda>s. map ac_customerId (take 200
     (filter (\<lambda>a. ac_orgId a = org \<and> ac_churnRisk a = ''high'') (accounts s))))))
     (\<lambda>cs. fire_all e org ''WIN_BACK'' cs 0)"

definition ABANDONED_INACTIVE_DAYS :: int where
  "ABANDONED_INACTIVE_DAYS = 45"

fun fire_abandoned :: "env \<Rightarrow> uuid \<Rightarrow> account_row list \<Rightarrow> nat \<Rightarrow> nat dsvc" where
  "fire_abandoned e org [] sent = svc_return sent"
| "fire_abandoned e org (a # as) sent =
     svc_bind (with_tenant (tx_gets (last_activity org (ac_id a)))) (\<lambda>last.
       if (case last of None \<Rightarrow> True
           | Some t \<Rightarrow> en_now e - ABANDONED_INACTIVE_DAYS * 86400000 < t)
       then fire_abandoned e org as sent
       else svc_bind (fireTrigger e org ''ABANDONED'' (ac_customerId a))
              (\<lambda>n. fire_abandoned e org as (sent + n)))"

definition processAbandoned :: "env \<Rightarrow> uuid \<Rightarrow> nat dsvc" where
  "processAbandoned e org = svc_bind (with_tenant (tx_gets (\<lambda>s. take 500
     (filter (\<lambda>a. ac_orgId a = org \<and> 0 < ac_pointsBalance a) (accounts s)))))
     (\<lambda>as. fire_abandoned e org as 0)"

definition processDailyTriggers :: "env \<Rightarrow> uuid \<Rightarrow> (nat \<times> nat \<times> nat) dsvc" where
  "processDailyTriggers e org =
     svc_bind (is_enabled e org) (\<lambda>enabled.
       if \<not> enabled then svc_return (0, 0, 0)
       else svc_bind (processBirthdays e org) (\<lambda>b.
         svc_bind (processWinBack e org) (\<lambda>w.
         svc_bind (processAbandoned e org) (\<lambda>ab. svc_return (b, w, ab)))))"

end
