(* ===== verification/QueueEvents.thy ===== *)
theory QueueEvents
  imports Campaigns
begin

text \<open>
  \<^verbatim>\<open>LoyaltyQueueEventsService\<close>: the events of the queue platform, local or from a remote deployment,
  and what the loyalty program does about each; and \<^verbatim>\<open>LoyaltyListener.onTierUpgraded\<close>.
\<close>

record event_customer =
  ec_externalId :: string
  ec_name :: "string option"
  ec_email :: "string option"
  ec_phone :: "string option"

record queue_event =
  qe_event :: string
  qe_sourceId :: string
  qe_branchId :: "string option"
  qe_customerId :: "uuid option"
  qe_customer :: "event_customer option"
  qe_customerPhone :: "string option"
  qe_customerEmail :: "string option"
  qe_rating :: "int option"
  qe_comment :: "string option"

datatype event_result = EvSkipped | EvOk | EvOkIdempotent | EvUnknown string

definition earn_result :: "points_result option \<Rightarrow> event_result" where
  "earn_result r = (case r of Some (_, True) \<Rightarrow> EvOkIdempotent | _ \<Rightarrow> EvOk)"

section \<open>Who an event is about\<close>

text \<open>
  A customer id wins; then a patron with an external id is created or updated; then the telephone
  number or the address, in any case, are looked up.
\<close>

definition find_contact :: "uuid \<Rightarrow> string option \<Rightarrow> (customer_row \<Rightarrow> bool) \<Rightarrow> db \<Rightarrow> uuid option" where
  "find_contact org phone byEmail s = map_option cu_id (List.find (\<lambda>c. cu_orgId c = org \<and>
     ((truthy_str phone \<and> phone_or (customerPhoneOr (the phone)) c) \<or> byEmail c)) (customers s))"

definition or_opt :: "'a option \<Rightarrow> 'a option \<Rightarrow> 'a option" where
  "or_opt x y = (case x of None \<Rightarrow> y | Some _ \<Rightarrow> x)"

definition resolveCustomerId :: "env \<Rightarrow> uuid \<Rightarrow> queue_event \<Rightarrow> uuid option dsvc" where
  "resolveCustomerId e org q =
     (if truthy_str (qe_customerId q) then svc_return (qe_customerId q)
      else if truthy_str (map_option ec_externalId (qe_customer q)) then
        (let c = the (qe_customer q) in
         svc_bind (upsertCustomer e org (Some (ec_externalId c)) (patched (ec_name c) ''Patron'')
           (ec_email c) (ec_phone c)) (\<lambda>u. svc_return (Some (ur_customerId u))))
      else (let phone = or_opt (qe_customerPhone q) (Option.bind (qe_customer q) ec_phone);
                email = or_opt (qe_customerEmail q) (Option.bind (qe_customer q) ec_email) in
        if \<not> truthy_str phone \<and> \<not> truthy_str email then svc_return None
        else with_tenant (tx_gets (find_contact org phone (\<lambda>c. truthy_str email \<and>
          map_option to_lower (cu_email c) = map_option to_lower email)))))"

definition resolveCustomerIdFromEvent ::
  "uuid \<Rightarrow> uuid option \<Rightarrow> string option \<Rightarrow> string option \<Rightarrow> uuid option dsvc" where
  "resolveCustomerIdFromEvent org cust phone email =
     (if truthy_str cust then svc_return cust
      else if \<not> truthy_str phone \<and> \<not> truthy_str email then svc_return None
      else with_tenant (tx_gets (find_contact org phone
        (\<lambda>c. truthy_str email \<and> cu_email c = email))))"

section \<open>Completed visits\<close>

definition onTicketCompleted :: "env \<Rightarrow> uuid \<Rightarrow> string \<Rightarrow> uuid option \<Rightarrow> string \<Rightarrow> event_result dsvc" where
  "onTicketCompleted e org ticketId cust branch =
     (if \<not> truthy_str cust then svc_return EvSkipped
      else svc_bind (handleTicketCompleted e org ticketId cust branch)
             (\<lambda>r. svc_return (earn_result r)))"

definition onAppointmentCompleted ::
  "env \<Rightarrow> uuid \<Rightarrow> string \<Rightarrow> uuid option \<Rightarrow> string \<Rightarrow> string option \<Rightarrow> string option \<Rightarrow> event_result dsvc" where
  "onAppointmentCompleted e org apptId cust0 branch phone email =
     svc_bind (resolveCustomerIdFromEvent org cust0 phone email) (\<lambda>cust.
       if \<not> truthy_str cust then svc_return EvSkipped
       else svc_bind (handleAppointmentCompleted e org apptId cust (Some branch))
              (\<lambda>r. svc_return (earn_result r)))"

section \<open>Reviews\<close>

text \<open>\<open>a || b || c || null\<close> on optional strings.\<close>

fun first_truthy :: "string option list \<Rightarrow> string option" where
  "first_truthy [] = None"
| "first_truthy (v # vs) = (if truthy_str v then v else first_truthy vs)"

definition mirrored_review :: "uuid \<Rightarrow> queue_event \<Rightarrow> customer_row option \<Rightarrow> review_row" where
  "mirrored_review org q c = \<lparr>rv_id = qe_sourceId q, rv_orgId = org,
     rv_customerName = the (first_truthy
       [map_option js_trim (Option.bind (qe_customer q) ec_name),
        map_option (\<lambda>r. js_trim (cu_name r)) c, Some ''Patron'']),
     rv_customerEmail = trim_or_null (first_truthy [qe_customerEmail q,
       Option.bind (qe_customer q) ec_email, Option.bind c cu_email]),
     rv_rating = clamp_stars (patched (qe_rating q) 5),
     rv_comment = trim_or_null (qe_comment q), rv_status = ''approved''\<rparr>"

definition mirror_tx :: "uuid \<Rightarrow> review_row \<Rightarrow> unit dtx" where
  "mirror_tx org r = tx_read (\<lambda>s.
     if List.find (\<lambda>q. rv_id q = rv_id r \<and> rv_orgId q = org) (reviews s) \<noteq> None
     then tx_modify (reviews_update (update_rows (\<lambda>q. rv_id q = rv_id r \<and> rv_orgId q = org)
       (\<lambda>q. q\<lparr>rv_rating := rv_rating r, rv_status := ''approved'',
              rv_customerName := rv_customerName r, rv_customerEmail := rv_customerEmail r,
              rv_comment := (case rv_comment r of None \<Rightarrow> rv_comment q | Some c \<Rightarrow> Some c)\<rparr>)))
     else if \<exists>q\<in>set (reviews s). rv_id q = rv_id r then tx_throw PrismaP2002
     else tx_modify (reviews_update (\<lambda>rs. rs @ [r])))"

definition mirrorInboundReview :: "uuid \<Rightarrow> uuid \<Rightarrow> queue_event \<Rightarrow> unit dsvc" where
  "mirrorInboundReview org cust q =
     svc_bind (with_tenant (tx_gets (find_customer org cust))) (\<lambda>c.
     with_tenant (mirror_tx org (mirrored_review org q c)))"

definition onReviewSubmitted ::
  "env \<Rightarrow> uuid \<Rightarrow> string \<Rightarrow> uuid option \<Rightarrow> int \<Rightarrow> queue_event option \<Rightarrow> event_result dsvc" where
  "onReviewSubmitted e org reviewId cust rating payload =
     (if \<not> truthy_str cust then svc_return EvSkipped
      else svc_bind (case payload of None \<Rightarrow> svc_return ()
                     | Some q \<Rightarrow> mirrorInboundReview org (the cust) q) (\<lambda>_.
        svc_bind (handleReviewSubmitted e org reviewId cust (Some rating))
          (\<lambda>r. svc_return (earn_result r))))"

section \<open>New customers, no-shows and tier upgrades\<close>

definition onCustomerCreated :: "env \<Rightarrow> uuid \<Rightarrow> uuid \<Rightarrow> event_result dsvc" where
  "onCustomerCreated e org cust =
     svc_bind (ensureAccount e org cust) (\<lambda>_.
     svc_bind (fireTrigger e org ''WELCOME'' cust) (\<lambda>_.
     svc_bind (log_effect (WhCustomerCreated org cust)) (\<lambda>_.
     svc_bind (log_effect (SyncProfile org cust)) (\<lambda>_. svc_return EvOk))))"

definition no_show :: "env \<Rightarrow> uuid \<Rightarrow> uuid option \<Rightarrow> string \<Rightarrow> string \<Rightarrow> event_result dsvc" where
  "no_show e org cust st si =
     svc_bind (handleNoShow e org cust st si) (\<lambda>_.
     svc_bind (if truthy_str cust
       then svc_bind (fireTrigger e org ''WIN_BACK'' (the cust)) (\<lambda>_. svc_return ())
       else svc_return ()) (\<lambda>_. svc_return EvOk))"

definition onTicketNoShow :: "env \<Rightarrow> uuid \<Rightarrow> string \<Rightarrow> uuid option \<Rightarrow> event_result dsvc" where
  "onTicketNoShow e org ticketId cust = no_show e org cust ''ticket'' ticketId"

definition onAppointmentNoShow ::
  "env \<Rightarrow> uuid \<Rightarrow> string \<Rightarrow> uuid option \<Rightarrow> string option \<Rightarrow> string option \<Rightarrow> event_result dsvc" where
  "onAppointmentNoShow e org apptId cust0 phone email =
     svc_bind (resolveCustomerIdFromEvent org cust0 phone email)
       (\<lambda>cust. no_show e org cust ''appointment'' apptId)"

definition onTierUpgraded :: "env \<Rightarrow> uuid \<Rightarrow> uuid \<Rightarrow> string \<Rightarrow> unit dsvc" where
  "onTierUpgraded e org acct slug = svc_catch
     (svc_bind (with_tenant (tx_gets (find_account org acct))) (\<lambda>a. case a of
        None \<Rightarrow> svc_return ()
      | Some a \<Rightarrow> svc_bind (fireTrigger e org ''TIER_UPGRADE'' (ac_customerId a))
                   (\<lambda>_. log_effect (WhTierUpgraded org (ac_customerId a) acct slug))))
     (\<lambda>_. svc_return ())"

section \<open>Remote events\<close>

definition processRemoteEvent :: "env \<Rightarrow> uuid \<Rightarrow> queue_event \<Rightarrow> event_result dsvc" where
  "processRemoteEvent e org q =
     (if qe_event q = ''ticket.completed'' then
        svc_bind (resolveCustomerId e org q) (\<lambda>cust.
        onTicketCompleted e org (qe_sourceId q) cust (patched (qe_branchId q) []))
      else if qe_event q = ''ticket.no_show'' then
        svc_bind (resolveCustomerId e org q) (\<lambda>cust. onTicketNoShow e org (qe_sourceId q) cust)
      else if qe_event q = ''appointment.completed'' then
        svc_bind (resolveCustomerId e org q) (\<lambda>cust.
        onAppointmentCompleted e org (qe_sourceId q) cust (patched (qe_branchId q) [])
          (qe_customerPhone q) (qe_customerEmail q))
      else if qe_event q = ''appointment.no_show'' then
        svc_bind (resolveCustomerId e org q) (\<lambda>cust.
        onAppointmentNoShow e org (qe_sourceId q) cust (qe_customerPhone q) (qe_customerEmail q))
      else if qe_event q = ''review.submitted'' then
        svc_bind (resolveCustomerId e org q) (\<lambda>cust.
        onReviewSubmitted e org (qe_sourceId q) cust (patched (qe_rating q) 5) (Some q))
      else if qe_event q = ''customer.created'' then
        svc_bind (resolveCustomerId e org q) (\<lambda>cust.
          if \<not> truthy_str cust then svc_return EvSkipped else onCustomerCreated e org (the cust))
      else svc_return (EvUnknown (qe_event q)))"

end
