(* ===== verification/Portal.thy ===== *)
theory Portal
  imports Integration
begin

text \<open>
  The patron portal: \<^verbatim>\<open>LoyaltyPortalAuthService\<close> (one-time passwords and session tokens),
  \<^verbatim>\<open>LoyaltyPortalService\<close> (what a patron sees and may do, behind the session and the legal consent)
  and \<^verbatim>\<open>LoyaltyApiKeyService\<close> (the keys of connectors). SHA-256 and the signing of tokens are
  arguments: they belong to Node's crypto library and to the JWT library.
\<close>

section \<open>One-time passwords\<close>

definition OTP_TTL_SECONDS :: int where
  "OTP_TTL_SECONDS = 10 * 60"

definition otpKey :: "string \<Rightarrow> string" where
  "otpKey code = ''loyalty:portal:otp:'' @ to_upper code"

definition maskPhone :: "string \<Rightarrow> string" where
  "maskPhone phone = (let d = digits_of phone in
     if length d < 4 then ''****'' else ''***'' @ last_n 4 d)"

definition redis_set :: "env \<Rightarrow> string \<Rightarrow> string \<Rightarrow> int \<Rightarrow> unit dsvc" where
  "redis_set e k v ttl = svc_modify (cache_set (en_now e) k v ttl)"

definition customer_of_account :: "account_row \<Rightarrow> db \<Rightarrow> customer_row option" where
  "customer_of_account a s = List.find (\<lambda>c. cu_id c = ac_customerId a) (customers s)"

definition requestOtp :: "env \<Rightarrow> (string \<Rightarrow> string) \<Rightarrow> nat \<Rightarrow> string \<Rightarrow> string dsvc" where
  "requestOtp e sha256 otp code = svc_read (\<lambda>s. case find_code code s of
       None \<Rightarrow> svc_throw (NotFound ''Loyalty account not found'')
     | Some a \<Rightarrow> (case customer_of_account a s of
         None \<Rightarrow> svc_throw InconsistentResult
       | Some c \<Rightarrow>
           svc_bind (is_enabled e (ac_orgId a)) (\<lambda>enabled.
           if \<not> enabled then svc_throw (NotFound ''Loyalty account not found'')
           else (case trim_or_null (cu_phone c) of
             None \<Rightarrow> svc_throw (BadRequest ''No phone on file. Ask staff to add your phone number before unlocking portal actions.'')
           | Some phone \<Rightarrow>
               svc_bind (redis_set e (otpKey code) (sha256 (show_nat otp)) OTP_TTL_SECONDS) (\<lambda>_.
               svc_bind (case en_notify e ''otp'' of
                   Some msg \<Rightarrow> svc_throw (BadRequest msg)
                 | None \<Rightarrow> log_effect (SendOtp (ac_orgId a) phone otp (cu_id c) (ac_id a))) (\<lambda>_.
               svc_return (maskPhone phone)))))))"

text \<open>What a session token says.\<close>

record portal_token =
  pt_typ :: string
  pt_aid :: uuid
  pt_oid :: uuid
  pt_cid :: uuid
  pt_code :: string

definition LOYALTY_PORTAL_TOKEN_TYP :: string where
  "LOYALTY_PORTAL_TOKEN_TYP = ''loyalty_portal''"

definition six_digits :: "string \<Rightarrow> bool" where
  "six_digits x \<longleftrightarrow> length x = 6 \<and> list_all is_digit x"

definition portal_token_of :: "account_row \<Rightarrow> portal_token" where
  "portal_token_of a = \<lparr>pt_typ = LOYALTY_PORTAL_TOKEN_TYP, pt_aid = ac_id a, pt_oid = ac_orgId a,
     pt_cid = ac_customerId a, pt_code = ac_referralCode a\<rparr>"

definition verifyOtp ::
  "env \<Rightarrow> (string \<Rightarrow> string) \<Rightarrow> (portal_token \<Rightarrow> string) \<Rightarrow> string \<Rightarrow> string \<Rightarrow> string dsvc" where
  "verifyOtp e sha256 sign code otp0 = (let otp = js_trim otp0 in
     if \<not> six_digits otp then svc_throw (BadRequest ''Enter the 6-digit code from your SMS'')
     else svc_read (\<lambda>s. case cache_get (en_now e) (otpKey code) s of
       None \<Rightarrow> svc_throw (Unauthorized ''Code expired. Request a new one.'')
     | Some stored \<Rightarrow>
         if stored = [] then svc_throw (Unauthorized ''Code expired. Request a new one.'')
         else if stored \<noteq> sha256 otp then svc_throw (Unauthorized ''Invalid code'')
         else svc_bind (svc_modify (cache_del (otpKey code))) (\<lambda>_.
           case find_code code s of
             None \<Rightarrow> svc_throw (NotFound ''Loyalty account not found'')
           | Some a \<Rightarrow> svc_return (sign (portal_token_of a)))))"

definition verifyPortalToken ::
  "(string \<Rightarrow> portal_token option) \<Rightarrow> string \<Rightarrow> string \<Rightarrow> error + portal_token" where
  "verifyPortalToken verify token expected = (case verify token of
       None \<Rightarrow> Inl (Unauthorized ''Portal session expired. Verify again.'')
     | Some p \<Rightarrow>
         if pt_typ p \<noteq> LOYALTY_PORTAL_TOKEN_TYP then Inl (Unauthorized ''Invalid portal session'')
         else if to_upper (pt_code p) \<noteq> to_upper expected
         then Inl (Unauthorized ''Portal session does not match this account'')
         else Inr p)"

section \<open>Sessions and consent\<close>

definition enabled_account :: "env \<Rightarrow> account_row option \<Rightarrow> account_row option dsvc" where
  "enabled_account e a = (case a of None \<Rightarrow> svc_return None
     | Some a \<Rightarrow> svc_bind (is_enabled e (ac_orgId a))
                  (\<lambda>b. svc_return (if b then Some a else None)))"

definition resolveAccountBySession :: "env \<Rightarrow> portal_token \<Rightarrow> account_row option dsvc" where
  "resolveAccountBySession e t = svc_read (\<lambda>s. enabled_account e (List.find (\<lambda>a.
     ac_id a = pt_aid t \<and> ac_orgId a = pt_oid t \<and> ac_referralCode a = to_upper (pt_code t))
     (accounts s)))"

definition resolveAccountByCode :: "env \<Rightarrow> string \<Rightarrow> account_row option dsvc" where
  "resolveAccountByCode e code = svc_read (\<lambda>s. enabled_account e (find_code code s))"

definition PATRON_TERMS_VERSION :: string where
  "PATRON_TERMS_VERSION = ''2026-08-27''"

definition PATRON_PRIVACY_VERSION :: string where
  "PATRON_PRIVACY_VERSION = ''2026-08-27''"

definition PATRON_LEGAL_VERSION :: string where
  "PATRON_LEGAL_VERSION = PATRON_TERMS_VERSION @ ''/'' @ PATRON_PRIVACY_VERSION"

definition has_consent :: "uuid \<Rightarrow> uuid \<Rightarrow> db \<Rightarrow> bool" where
  "has_consent org cust s \<longleftrightarrow> list_ex (\<lambda>n. cn_orgId n = org \<and> cn_customerId n = cust \<and>
     cn_channel n = ''legal'' \<and> cn_purpose n = ''patron_portal'' \<and> cn_action n = ''GRANTED'' \<and>
     cn_legalVersion n = PATRON_LEGAL_VERSION) (consents s)"

definition hasPatronLegalConsent :: "uuid \<Rightarrow> uuid \<Rightarrow> bool dsvc" where
  "hasPatronLegalConsent org cust = with_tenant (tx_gets (has_consent org cust))"

definition requirePatronLegalConsent :: "uuid \<Rightarrow> uuid \<Rightarrow> unit dsvc" where
  "requirePatronLegalConsent org cust =
     svc_bind (hasPatronLegalConsent org cust) (\<lambda>b. if \<not> b
       then svc_throw (Forbidden ''Accept the Loyalty Program Terms and Privacy Notice before continuing.'')
       else svc_return ())"

text \<open>The guard of every action: a live account behind the session, and the consent.\<close>

definition with_session :: "env \<Rightarrow> portal_token \<Rightarrow> (account_row \<Rightarrow> 'a dsvc) \<Rightarrow> 'a dsvc" where
  "with_session e t f =
     svc_bind (resolveAccountBySession e t) (\<lambda>a. case a of
       None \<Rightarrow> svc_throw (NotFound ''Loyalty account not found'')
     | Some a \<Rightarrow> svc_bind (requirePatronLegalConsent (ac_orgId a) (ac_customerId a)) (\<lambda>_. f a))"

definition portalPlayGame :: "env \<Rightarrow> portal_token \<Rightarrow> string \<Rightarrow> (string \<times> int) dsvc" where
  "portalPlayGame e t game =
     with_session e t (\<lambda>a. playPatronGame e (ac_orgId a) (ac_id a) game)"

definition portalRedeemReward :: "env \<Rightarrow> portal_token \<Rightarrow> uuid \<Rightarrow> redemption_row dsvc" where
  "portalRedeemReward e t rewardId =
     with_session e t (\<lambda>a. redeemReward e (ac_orgId a) (ac_customerId a) rewardId)"

definition portalUpdateProfile ::
  "env \<Rightarrow> portal_token \<Rightarrow> int option option \<Rightarrow> string option option \<Rightarrow> string option option \<Rightarrow> unit dsvc" where
  "portalUpdateProfile e t birthday gender city = with_session e t (\<lambda>a.
     with_tenant (update_customer (ac_orgId a) (ac_customerId a) (\<lambda>c.
       c\<lparr>cu_birthday := patched birthday (cu_birthday c),
         cu_gender := patched gender (cu_gender c), cu_city := patched city (cu_city c)\<rparr>)))"

definition recordPatronLegalConsent :: "env \<Rightarrow> string \<Rightarrow> string \<Rightarrow> string \<Rightarrow> unit dsvc" where
  "recordPatronLegalConsent e code terms privacy =
     (if terms \<noteq> PATRON_TERMS_VERSION \<or> privacy \<noteq> PATRON_PRIVACY_VERSION
      then svc_throw (Forbidden ''Patron legal documents have been updated. Please review and accept again.'')
      else svc_bind (resolveAccountByCode e code) (\<lambda>a. case a of
        None \<Rightarrow> svc_throw (NotFound ''Loyalty account not found'')
      | Some a \<Rightarrow> svc_bind (hasPatronLegalConsent (ac_orgId a) (ac_customerId a)) (\<lambda>granted.
          if granted then svc_return ()
          else with_tenant (tx_modify (consents_update (\<lambda>cs. cs @ [\<lparr>cn_orgId = ac_orgId a,
            cn_customerId = ac_customerId a, cn_channel = ''legal'', cn_purpose = ''patron_portal'',
            cn_action = ''GRANTED'', cn_legalVersion = PATRON_LEGAL_VERSION\<rparr>]))))))"

section \<open>The portal page\<close>

record portal_page =
  pg_legalConsentGranted :: bool
  pg_patronName :: string
  pg_birthday :: "int option"
  pg_branding :: branding
  pg_orgSlug :: string
  pg_pointsBalance :: int
  pg_lifetimePointsEarned :: int
  pg_tier :: "tier_row option"
  pg_referralCode :: string
  pg_totalVisits :: int
  pg_badges :: "badge_row list"
  pg_challenges :: "(challenge_row \<times> progress_row) list"
  pg_rewards :: "reward_row list"
  pg_recentActivity :: "ledger_row list"
  pg_stampFilled :: int
  pg_wallet :: "(wallet_row \<times> wallet_tx_row list) option"
  pg_gameStatus :: "(string \<times> bool \<times> time option) list"
  pg_nextBestOffer :: "reward_row option"

definition LOYALTY_STAMP_CARD_TARGET :: int where
  "LOYALTY_STAMP_CARD_TARGET = 10"

definition next_best_offer :: "int \<Rightarrow> reward_row list \<Rightarrow> reward_row option" where
  "next_best_offer bal rs = (case List.find (\<lambda>r. rw_pointsCost r \<le> bal) rs of
     Some r \<Rightarrow> Some r | None \<Rightarrow> (case rs of [] \<Rightarrow> None | r # _ \<Rightarrow> Some r))"

definition portal_rewards :: "uuid \<Rightarrow> db \<Rightarrow> reward_row list" where
  "portal_rewards org s =
     sort_key rw_pointsCost (filter (\<lambda>r. rw_orgId r = org \<and> rw_active r) (rewards s))"

definition account_badges :: "account_row \<Rightarrow> db \<Rightarrow> badge_row list" where
  "account_badges a s = rev (List.map_filter
     (\<lambda>w. List.find (\<lambda>b. bd_id b = ba_badgeId w) (badges s))
     (filter (\<lambda>w. ba_accountId w = ac_id a) (badgeAwards s)))"

definition account_challenges :: "account_row \<Rightarrow> db \<Rightarrow> (challenge_row \<times> progress_row) list" where
  "account_challenges a s = List.map_filter
     (\<lambda>p. map_option (\<lambda>c. (c, p)) (List.find (\<lambda>c. ch_id c = cp_challengeId p) (challenges s)))
     (filter (\<lambda>p. cp_accountId p = ac_id a) (progresses s))"

definition portal_page_of ::
  "account_row \<Rightarrow> customer_row \<Rightarrow> org_row \<Rightarrow> bool \<Rightarrow> (string \<times> bool \<times> time option) list \<Rightarrow> db \<Rightarrow> portal_page" where
  "portal_page_of a c og granted games s =
     (let org = ac_orgId a; rs = portal_rewards org s in
      \<lparr>pg_legalConsentGranted = granted, pg_patronName = cu_name c, pg_birthday = cu_birthday c,
       pg_branding = buildLoyaltyPublicBranding og (find_program org s), pg_orgSlug = og_slug og,
       pg_pointsBalance = ac_pointsBalance a,
       pg_lifetimePointsEarned = ac_lifetimePointsEarned a,
       pg_tier = Option.bind (ac_tierId a) (\<lambda>t. List.find (\<lambda>r. ti_id r = t) (tiers s)),
       pg_referralCode = ac_referralCode a, pg_totalVisits = ac_totalVisits a,
       pg_badges = account_badges a s, pg_challenges = account_challenges a s, pg_rewards = rs,
       pg_recentActivity = recent_ledger org (ac_id a) 50 s,
       pg_stampFilled = ac_totalVisits a mod LOYALTY_STAMP_CARD_TARGET,
       pg_wallet = map_option (\<lambda>w. (w, take 20 (wallet_history org (wa_id w) s)))
         (List.find (\<lambda>w. wa_accountId w = ac_id a) (wallets s)),
       pg_gameStatus = games, pg_nextBestOffer = next_best_offer (ac_pointsBalance a) rs\<rparr>)"

definition getPortalByReferralCode :: "env \<Rightarrow> string \<Rightarrow> portal_page option dsvc" where
  "getPortalByReferralCode e code = svc_read (\<lambda>s. case find_code code s of
       None \<Rightarrow> svc_return None
     | Some a \<Rightarrow> (case (customer_of_account a s, List.find (\<lambda>g. og_id g = ac_orgId a) (orgs s)) of
         (Some c, Some og) \<Rightarrow>
           svc_bind (is_enabled e (ac_orgId a)) (\<lambda>enabled.
           if \<not> enabled then svc_return None
           else svc_bind (hasPatronLegalConsent (ac_orgId a) (ac_customerId a)) (\<lambda>granted.
             svc_bind (getPatronGameStatus e (ac_orgId a) (ac_id a)) (\<lambda>games.
             svc_return (Some (portal_page_of a c og granted games s)))))
       | _ \<Rightarrow> svc_throw InconsistentResult))"

section \<open>Connector keys\<close>

definition API_KEY_SETTING :: string where
  "API_KEY_SETTING = ''loyalty_integration_api_key''"

definition hex_char :: "nat \<Rightarrow> char" where
  "hex_char d = ''0123456789abcdef'' ! (d mod 16)"

definition to_hex :: "nat list \<Rightarrow> string" where
  "to_hex bytes = concat (map (\<lambda>b. [hex_char (b div 16), hex_char b]) bytes)"

definition generateRawKey :: "(nat \<Rightarrow> nat) \<Rightarrow> string" where
  "generateRawKey bytes = ''lms_'' @ to_hex (map (\<lambda>i. bytes i mod 256) [0..<32])"

definition key_setting :: "uuid \<Rightarrow> setting_row \<Rightarrow> bool" where
  "key_setting org t \<longleftrightarrow> st_orgId t = org \<and> st_key t = API_KEY_SETTING \<and> st_scope t = ''org'' \<and>
     st_scopeId t = None"

definition readStored :: "uuid \<Rightarrow> db \<Rightarrow> stored_key option" where
  "readStored org s = Option.bind (List.find (key_setting org) (settings s)) st_value"

definition getKeyStatus :: "uuid \<Rightarrow> (bool \<times> stored_key option) dsvc" where
  "getKeyStatus org = with_tenant (tx_gets (\<lambda>s. (readStored org s \<noteq> None, readStored org s)))"

text \<open>The first setting of the key gets the new value, or a setting is created.\<close>

definition write_key :: "env \<Rightarrow> uuid \<Rightarrow> stored_key \<Rightarrow> unit dtx" where
  "write_key e org v = tx_read (\<lambda>s. case List.find (key_setting org) (settings s) of
       Some t \<Rightarrow> tx_modify (settings_update (update_rows (\<lambda>u. st_id u = st_id t)
                    (\<lambda>u. u\<lparr>st_value := Some v\<rparr>)))
     | None \<Rightarrow> tx_modify (settings_update (\<lambda>ts. ts @ [\<lparr>st_id = en_uuid e ''settings'',
         st_orgId = org, st_key = API_KEY_SETTING, st_scope = ''org'', st_scopeId = None,
         st_value = Some v\<rparr>])))"

definition rotateKey :: "env \<Rightarrow> (string \<Rightarrow> string) \<Rightarrow> uuid \<Rightarrow> (string \<times> stored_key) dsvc" where
  "rotateKey e sha256 org =
     svc_bind (require_enabled e org) (\<lambda>_.
     (let raw = generateRawKey (en_bytes e ''api_key'' 0);
          v = \<lparr>sk_hash = sha256 raw, sk_prefix = take 12 raw, sk_createdAt = en_now e,
               sk_lastUsedAt = None\<rparr>
      in svc_bind (with_tenant (write_key e org v)) (\<lambda>_. svc_return (raw, v))))"

definition revokeKey :: "uuid \<Rightarrow> unit dsvc" where
  "revokeKey org = with_tenant (tx_modify (settings_update (filter (\<lambda>t. \<not> key_setting org t))))"

definition touchLastUsedAt :: "env \<Rightarrow> uuid \<Rightarrow> unit dsvc" where
  "touchLastUsedAt e org = svc_read (\<lambda>s. case readStored org s of
       None \<Rightarrow> svc_return ()
     | Some v \<Rightarrow> with_tenant (tx_read (\<lambda>s. case List.find (key_setting org) (settings s) of
         None \<Rightarrow> tx_return ()
       | Some t \<Rightarrow> tx_modify (settings_update (update_rows (\<lambda>u. st_id u = st_id t)
           (\<lambda>u. u\<lparr>st_value := Some (v\<lparr>sk_lastUsedAt := Some (en_now e)\<rparr>)\<rparr>))))))"

definition resolveOrgId :: "env \<Rightarrow> (string \<Rightarrow> string) \<Rightarrow> string \<Rightarrow> uuid option dsvc" where
  "resolveOrgId e sha256 rawKey = (let key = js_trim rawKey in
     if \<not> starts_with ''lms_'' key then svc_return None
     else svc_read (\<lambda>s. case List.find (\<lambda>t. st_key t = API_KEY_SETTING \<and> st_scope t = ''org'' \<and>
           st_scopeId t = None \<and> map_option sk_hash (st_value t) = Some (sha256 key)) (settings s) of
         None \<Rightarrow> svc_return None
       | Some t \<Rightarrow> svc_bind (is_enabled e (st_orgId t)) (\<lambda>enabled.
           if \<not> enabled then svc_return None
           else svc_bind (touchLastUsedAt e (st_orgId t)) (\<lambda>_. svc_return (Some (st_orgId t))))))"

end
