(* ===== verification/ServiceFacts.thy ===== *)
theory ServiceFacts
  imports AccountFacts QueueEvents Portal
begin

text \<open>
  What the services keep: an invariant that postings, new accounts and changes of an account's
  health keep, and that looks at no other table, is kept by every service method, by the
  \<open>preserves\<close> calculus. The invariant of the ledger and the keys of the accounts are two instances.
\<close>

section \<open>Steps that keep any blind invariant\<close>

lemma keeps_dispatch_unless [pres_intros]:
  "log_blind I \<Longrightarrow> preserves I (dispatch_unless_replay org acct r opts)"
  unfolding dispatch_unless_replay_def by (intro pres_intros)

lemma keeps_insert_award [pres_intros]:
  "blind badgeAwards_update I \<Longrightarrow> preserves_tx I (insert_award org acct b)"
  unfolding insert_award_def by (intro pres_intros)

lemma keeps_upsert_progress [pres_intros]:
  "blind progresses_update I \<Longrightarrow> preserves_tx I (upsert_progress org acct cid n)"
  unfolding upsert_progress_def Let_def by (intro pres_intros)

lemma keeps_complete_progress [pres_intros]:
  "blind progresses_update I \<Longrightarrow> preserves_tx I (complete_progress e acct cid n)"
  unfolding complete_progress_def by (intro pres_intros)

lemma keeps_find_referrer [pres_intros]: "preserves_tx I (find_referrer org code)"
  unfolding find_referrer_def by (intro pres_intros)

lemma keeps_insert_referral [pres_intros]:
  "blind referrals_update I \<Longrightarrow> preserves_tx I (insert_referral r)"
  unfolding insert_referral_def by (intro pres_intros)

lemma keeps_load_pending [pres_intros]: "preserves_tx I (load_pending org cust)"
  unfolding load_pending_def by (intro pres_intros)

lemma keeps_complete_referral [pres_intros]:
  "blind referrals_update I \<Longrightarrow> preserves_tx I (complete_referral e org rid acct)"
  unfolding complete_referral_def Let_def by (intro pres_intros)

lemma keeps_resolveEarnPoints [pres_intros]:
  "cache_blind I \<Longrightarrow> preserves I (resolveEarnPoints e org ev ctx)"
  unfolding resolveEarnPoints_def by (intro pres_intros)

lemma preserves_landing_case:
  "preserves I m \<Longrightarrow> (\<And>x y. preserves I (f x y)) \<Longrightarrow>
   preserves I (case p of (Some x, Some y) \<Rightarrow> f x y | _ \<Rightarrow> m)"
  by (auto split: prod.splits option.splits)

lemma keeps_queued_sends [pres_intros]: "preserves_tx I (queued_sends org cid)"
  unfolding queued_sends_def by (auto simp: preserves_tx_def tx_defs split: sum.splits)

lemma keeps_account_customer [pres_intros]: "preserves_tx I (account_customer org acct)"
  unfolding account_customer_def by (intro pres_intros)

lemma keeps_launch_accounts [pres_intros]: "preserves_tx I (launch_accounts org seg)"
  unfolding launch_accounts_def by (auto simp: preserves_tx_def tx_defs split: segment.splits)

section \<open>The contract\<close>

text \<open>Blind to every table but the accounts and the ledger.\<close>

definition rest_blind :: "(db \<Rightarrow> bool) \<Rightarrow> bool" where
  "rest_blind I \<longleftrightarrow> cache_blind I \<and> log_blind I \<and>
     blind walletTxs_update I \<and> blind rewards_update I \<and> blind redemptions_update I \<and>
     blind coupons_update I \<and> blind couponRedemptions_update I \<and> blind referrals_update I \<and>
     blind challenges_update I \<and> blind progresses_update I \<and> blind badges_update I \<and>
     blind badgeAwards_update I \<and> blind giftCards_update I \<and> blind gamePlays_update I \<and>
     blind campaigns_update I \<and> blind sends_update I \<and> blind customers_update I \<and>
     blind reviews_update I \<and> blind consents_update I \<and> blind settings_update I \<and>
     blind programs_update I \<and> blind tiers_update I \<and> blind earnRules_update I \<and>
     blind wallets_update I"

locale service_invariant =
  fixes I :: "db \<Rightarrow> bool"
  assumes posts [pres_intros]: "preserves_tx I (applyPointsInTransaction e org acct n ty opts)"
    and creates [pres_intros]: "preserves_tx I (insert_account (new_account i org cust tier code))"
    and touches: "I s \<Longrightarrow> (\<And>x. core (f x) = core x) \<Longrightarrow> I (set_accounts org acct f s)"
    and looks_nowhere_else: "rest_blind I"
begin

lemma blinds [pres_intros]:
  shows "cache_blind I" "log_blind I"
    "blind walletTxs_update I" "blind rewards_update I" "blind redemptions_update I"
    "blind coupons_update I" "blind couponRedemptions_update I" "blind referrals_update I"
    "blind challenges_update I" "blind progresses_update I" "blind badges_update I"
    "blind badgeAwards_update I" "blind giftCards_update I" "blind gamePlays_update I"
    "blind campaigns_update I" "blind sends_update I" "blind customers_update I"
    "blind reviews_update I" "blind consents_update I" "blind settings_update I"
    "blind programs_update I" "blind tiers_update I" "blind earnRules_update I"
    "blind wallets_update I"
  using looks_nowhere_else by (simp_all add: rest_blind_def)

lemma keeps_applyPoints [pres_intros]: "preserves I (applyPoints e org acct points type opts)"
  unfolding applyPoints_def runApplyPoints_def by (intro pres_intros)

lemma keeps_ensureAccount [pres_intros]: "preserves I (ensureAccount e org cust)"
  by (intro preserves_ensureAccount pres_intros)

lemma keeps_getAccountByCustomerId [pres_intros]: "preserves I (getAccountByCustomerId e org cust)"
  unfolding getAccountByCustomerId_def by (intro pres_intros)

lemma keeps_getAccountWithLedger [pres_intros]: "preserves I (getAccountWithLedger e org cust n)"
  unfolding getAccountWithLedger_def by (intro pres_intros)

lemma keeps_lookup [pres_intros]: "preserves I (lookupPatronByPhone e org phone)"
  unfolding lookupPatronByPhone_def by (intro pres_intros)

section \<open>Gamification\<close>

lemma keeps_adjustPoints_tx [pres_intros]: "preserves_tx I (adjustPoints_tx e org cust n d)"
  unfolding adjustPoints_tx_def adjustPointsInTransaction_def by (intro pres_intros)

lemma keeps_adjustPoints [pres_intros]: "preserves I (adjustPoints e org cust n d)"
  unfolding adjustPoints_def by (intro pres_intros)

lemma keeps_award_badges [pres_intros]: "preserves I (award_badges org a bs aw)"
  by (induction org a bs aw rule: award_badges.induct) (auto intro!: pres_intros)

lemma keeps_listBadges [pres_intros]: "preserves I (listBadges e org)"
  unfolding listBadges_def by (intro pres_intros)

lemma keeps_evaluateBadges [pres_intros]: "preserves I (evaluateBadgesForAccount e org cust)"
  unfolding evaluateBadgesForAccount_def by (intro pres_intros)

lemma keeps_advance_challenge [pres_intros]:
  "preserves_tx I (advance_challenge e org cust acct n c)"
  unfolding advance_challenge_def by (intro pres_intros)

lemma keeps_incrementChallenge [pres_intros]:
  "preserves I (incrementChallengeProgress e org cust t n)"
  unfolding incrementChallengeProgress_def by (intro pres_intros)

lemma keeps_play_game_tx [pres_intros]: "preserves_tx I (play_game_tx e org acct cust g oc)"
  unfolding play_game_tx_def by (intro pres_intros)

lemma keeps_playPatronGame [pres_intros]: "preserves I (playPatronGame e org acct g)"
  unfolding playPatronGame_def Let_def by (intro pres_intros)

section \<open>Referrals and earning\<close>

lemma keeps_applyReferral [pres_intros]: "preserves I (applyReferral e org code cust)"
  unfolding applyReferral_def Let_def by (intro pres_intros)

lemma keeps_pay_bonus [pres_intros]: "preserves I (pay_bonus e org acct n opts)"
  unfolding pay_bonus_def by (intro pres_intros)

lemma keeps_completePending [pres_intros]:
  "preserves I (completePendingForCustomer e org cust)"
  unfolding completePendingForCustomer_def complete_loaded_def by (intro pres_intros)

lemma keeps_afterEarn [pres_intros]: "preserves I (afterEarnActivity e org cust n inc)"
  unfolding afterEarnActivity_def by (intro pres_intros)

lemma keeps_earnFromPurchase [pres_intros]: "preserves I (earnFromPurchase e org cust n d)"
  unfolding earnFromPurchase_def by (intro pres_intros)

lemma keeps_preview [pres_intros]: "preserves I (previewEarnFromPurchase e org cust n)"
  unfolding previewEarnFromPurchase_def by (intro pres_intros)

lemma keeps_earnFromEvent [pres_intros]:
  "preserves I (earnFromEvent e org cust ev st si d inc br n)"
  unfolding earnFromEvent_def Let_def by (intro pres_intros)

lemma keeps_earnIntegration [pres_intros]:
  "preserves I (earnIntegrationPoints e org acct n si d inc)"
  unfolding earnIntegrationPoints_def by (intro pres_intros)

lemma keeps_handlers [pres_intros]:
  "preserves I (handleTicketCompleted e org i c b)"
  "preserves I (handleAppointmentCompleted e org i c br)"
  "preserves I (handleReviewSubmitted e org i c r)"
  unfolding handleTicketCompleted_def handleAppointmentCompleted_def handleReviewSubmitted_def
  by (intro pres_intros)+

lemma keeps_expire_accounts [pres_intros]: "preserves I (expire_accounts e org d as n)"
proof (induction as arbitrary: n)
  case Nil
  show ?case by simp (intro pres_intros)
next
  case (Cons a as)
  show ?case by simp (intro pres_intros Cons.IH)
qed

lemma keeps_expireInactive [pres_intros]: "preserves I (expireInactivePoints e org d)"
  unfolding expireInactivePoints_def by (intro pres_intros)

lemma keeps_expireForOrg [pres_intros]: "preserves I (expireForOrg e org)"
  unfolding expireForOrg_def by (intro pres_intros)

lemma keeps_health [pres_intros]:
  "preserves_tx I (update_account org acct (\<lambda>x. x\<lparr>ac_healthScore := h, ac_churnRisk := r\<rparr>))"
  by (rule preserves_txI)
    (auto simp: update_account_def core_def split: option.splits intro!: touches)

lemma keeps_handleNoShow [pres_intros]: "preserves I (handleNoShow e org c st si)"
  unfolding handleNoShow_def Let_def by (intro pres_intros)

section \<open>Catalog\<close>

lemma keeps_reward_writes [pres_intros]: "preserves_tx I (take_stock org i)"
  unfolding take_stock_def by (intro pres_intros)

lemma keeps_insert_redemption [pres_intros]: "preserves_tx I (insert_redemption d)"
  unfolding insert_redemption_def by (intro pres_intros)

lemma keeps_burn_tx [pres_intros]: "preserves_tx I (burnPoints_tx e org acct n st si d)"
  unfolding burnPoints_tx_def by (intro pres_intros)

lemma keeps_redeem_reward_tx [pres_intros]: "preserves_tx I (redeem_reward_tx e org acct i)"
  unfolding redeem_reward_tx_def by (intro pres_intros)

lemma keeps_redeemReward [pres_intros]: "preserves I (redeemReward e org cust i)"
  unfolding redeemReward_def by (intro pres_intros)

lemma keeps_claim_redemption [pres_intros]: "preserves_tx I (claim_redemption org i f)"
  unfolding claim_redemption_def by (intro pres_intros)

lemma keeps_fulfill_tx [pres_intros]: "preserves_tx I (fulfill_tx e org i)"
  unfolding fulfill_tx_def by (intro pres_intros)

lemma keeps_fulfillRedemption [pres_intros]: "preserves I (fulfillRedemption e org i)"
  unfolding fulfillRedemption_def by (intro pres_intros)

lemma keeps_cancel_tx [pres_intros]: "preserves_tx I (cancel_tx e org i)"
  unfolding cancel_tx_def by (intro pres_intros)

lemma keeps_cancelRedemption [pres_intros]: "preserves I (cancelRedemption e org i)"
  unfolding cancelRedemption_def by (intro pres_intros)

lemma keeps_createReward [pres_intros]: "preserves I (createReward e org d)"
  unfolding createReward_def by (intro pres_intros)

lemma keeps_updateReward [pres_intros]: "preserves I (updateReward e org i q)"
  unfolding updateReward_def by (intro pres_intros)

lemma keeps_deleteReward [pres_intros]: "preserves I (deleteReward e org i)"
  unfolding deleteReward_def by (intro pres_intros)

lemma keeps_insert_coupon [pres_intros]: "preserves_tx I (insert_coupon c)"
  unfolding insert_coupon_def by (intro pres_intros)

lemma keeps_createCoupon [pres_intros]: "preserves I (createCoupon e org ci)"
  unfolding createCoupon_def by (intro pres_intros)

lemma keeps_validateCoupon [pres_intros]: "preserves I (validateCoupon e org code acct)"
  unfolding validateCoupon_def Let_def by (intro pres_intros)

lemma keeps_reserve_coupon [pres_intros]: "preserves_tx I (reserve_coupon org c)"
  unfolding reserve_coupon_def by (intro pres_intros)

lemma keeps_redeem_coupon_tx [pres_intros]: "preserves_tx I (redeem_coupon_tx e org code acct)"
  unfolding redeem_coupon_tx_def Let_def by (intro pres_intros)

lemma keeps_redeemCoupon [pres_intros]: "preserves I (redeemCoupon e org code acct)"
  unfolding redeemCoupon_def by (intro pres_intros)

lemma keeps_deleteCoupon [pres_intros]: "preserves I (deleteCoupon e org i)"
  unfolding deleteCoupon_def by (intro pres_intros)

section \<open>Wallet\<close>

lemma keeps_ensureWallet [pres_intros]: "preserves I (ensureWallet e org a)"
  unfolding ensureWallet_def Let_def by (intro pres_intros)

lemma keeps_getWallet [pres_intros]: "preserves I (getWallet e org cust)"
  unfolding getWallet_def by (intro pres_intros)

lemma keeps_debit_wallet [pres_intros]: "preserves_tx I (debit_wallet org i n)"
  unfolding debit_wallet_def by (intro pres_intros)

lemma keeps_credit_wallet [pres_intros]: "preserves_tx I (credit_wallet org i n)"
  unfolding credit_wallet_def by (intro pres_intros)

lemma keeps_adjust_wallet_tx [pres_intros]: "preserves_tx I (adjust_wallet_tx e org i ty n d)"
  unfolding adjust_wallet_tx_def by (intro pres_intros)

lemma keeps_adjustWallet [pres_intros]: "preserves I (adjustWallet e org cust ty n d)"
  unfolding adjustWallet_def by (intro pres_intros)

lemma keeps_createGiftCard [pres_intros]: "preserves I (createGiftCard e org r n em ex pu)"
  unfolding createGiftCard_def Let_def by (intro pres_intros)

lemma keeps_deleteGiftCard [pres_intros]: "preserves I (deleteGiftCard e org i)"
  unfolding deleteGiftCard_def by (intro pres_intros)

section \<open>Integration\<close>

lemma keeps_update_customer [pres_intros]: "preserves_tx I (update_customer org cust f)"
  unfolding update_customer_def by (intro pres_intros)

lemma keeps_insert_customer [pres_intros]: "preserves_tx I (insert_customer c)"
  unfolding insert_customer_def by (intro pres_intros)

lemma keeps_createCustomer [pres_intros]: "preserves I (createCustomer e org nm em ph a b)"
  unfolding createCustomer_def Let_def by (intro pres_intros)

lemma keeps_by_external [pres_intros]: "preserves_tx I (by_external e org x)"
  unfolding by_external_def Let_def by (intro pres_intros)

lemma keeps_resolve_customer_tx [pres_intros]: "preserves_tx I (resolve_customer_tx e org ref)"
  unfolding resolve_customer_tx_def Let_def by (intro pres_intros)

lemma keeps_resolveCustomer [pres_intros]: "preserves I (resolveCustomer e org ref)"
  unfolding resolveCustomer_def by (intro pres_intros)

lemma keeps_resolveOrThrow [pres_intros]: "preserves I (resolveCustomerOrThrow e org ref)"
  unfolding resolveCustomerOrThrow_def by (intro pres_intros)

lemma keeps_upsertCustomer [pres_intros]: "preserves I (upsertCustomer e org x nm em ph)"
  unfolding upsertCustomer_def Let_def by (intro pres_intros)

lemma keeps_integration_points [pres_intros]: "preserves I (integration_points e org a q)"
  unfolding integration_points_def by (intro pres_intros)

lemma keeps_integrationEarn [pres_intros]: "preserves I (integrationEarnPoints e org q)"
  unfolding integrationEarnPoints_def by (intro pres_intros)

lemma keeps_integrationRedeem [pres_intros]: "preserves I (integrationRedeemReward e org ref i)"
  unfolding integrationRedeemReward_def by (intro pres_intros)

lemma keeps_integrationValidate [pres_intros]: "preserves I (integrationValidateCoupon e org code a c)"
  unfolding integrationValidateCoupon_def by (intro pres_intros)

lemma keeps_integrationCoupon [pres_intros]: "preserves I (integrationRedeemCoupon e org code ref)"
  unfolding integrationRedeemCoupon_def by (intro pres_intros)

lemma keeps_integrationWallet [pres_intros]: "preserves I (integrationAdjustWallet e org ref ty n d)"
  unfolding integrationAdjustWallet_def by (intro pres_intros)

lemma keeps_lookupCustomer [pres_intros]: "preserves I (lookupCustomer e org ref)"
  unfolding lookupCustomer_def by (intro pres_intros)

lemma keeps_landing [pres_intros]: "preserves I (getPublicReferralLanding e code)"
  unfolding getPublicReferralLanding_def Let_def by (intro pres_intros preserves_landing_case)

lemma keeps_join [pres_intros]: "preserves I (joinViaPublicReferral e code nm em ph)"
  unfolding joinViaPublicReferral_def Let_def by (intro pres_intros)

section \<open>Campaigns\<close>

lemma keeps_claimSend [pres_intros]: "preserves I (claimSend org i)"
  unfolding claimSend_def by (intro pres_intros)

lemma keeps_markSend [pres_intros]: "preserves I (markSend e org i st er)"
  unfolding markSend_def by (intro pres_intros)

lemma keeps_bump [pres_intros]: "preserves I (bump_sentCount org c)"
  unfolding bump_sentCount_def by (intro pres_intros)

lemma keeps_finalize [pres_intros]: "preserves I (finalizeSendFromNotification e org i ok er)"
  unfolding finalizeSendFromNotification_def by (intro pres_intros)

lemma keeps_notify [pres_intros]: "preserves I (notify e org ch to c i cu)"
  unfolding notify_def by (intro pres_intros)

lemma keeps_skip_send [pres_intros]: "preserves I (skip_send e org i w)"
  unfolding skip_send_def by (intro pres_intros)

lemma keeps_consented [pres_intros]: "preserves I (consented_send e org c i cu ch co nc ad na)"
  unfolding consented_send_def by (intro pres_intros)

lemma keeps_dispatch_claimed [pres_intros]: "preserves I (dispatch_claimed e org c i cu)"
  unfolding dispatch_claimed_def Let_def by (intro pres_intros)

lemma keeps_dispatchOne [pres_intros]: "preserves I (dispatchOne e org c i cu)"
  unfolding dispatchOne_def by (intro pres_intros)

lemma keeps_try_send [pres_intros]: "preserves I (try_send e org c i cu)"
  unfolding try_send_def by (intro pres_intros)

lemma keeps_dispatch_all [pres_intros]: "preserves I (dispatch_all e org c ns d)"
proof (induction ns arbitrary: d)
  case Nil
  show ?case by simp (intro pres_intros)
next
  case (Cons n ns)
  show ?case by (cases n) (simp, intro pres_intros Cons.IH)
qed

lemma keeps_set_campaign [pres_intros]: "preserves I (set_campaign org cid f)"
  unfolding set_campaign_def by (intro pres_intros)

lemma keeps_dispatchCampaign [pres_intros]: "preserves I (dispatchCampaign e org cid)"
  unfolding dispatchCampaign_def by (intro pres_intros)

lemma keeps_insert_send [pres_intros]: "preserves_tx I (insert_send n)"
  unfolding insert_send_def by (intro pres_intros)

lemma keeps_sendToAccount [pres_intros]: "preserves I (sendToAccount e org cid acct)"
  unfolding sendToAccount_def Let_def by (intro pres_intros)

lemma keeps_createCampaign [pres_intros]: "preserves I (createCampaign e org d)"
  unfolding createCampaign_def by (intro pres_intros)

lemma keeps_updateCampaign [pres_intros]: "preserves I (updateCampaign e org i q)"
  unfolding updateCampaign_def by (intro pres_intros)

lemma keeps_deleteCampaign [pres_intros]: "preserves I (deleteCampaign e org i)"
  unfolding deleteCampaign_def by (intro pres_intros)

lemma keeps_queue_sends [pres_intros]: "preserves_tx I (queue_sends e org cid as)"
  unfolding queue_sends_def by (intro pres_intros)

lemma keeps_launch [pres_intros]: "preserves I (launch e org cid)"
  unfolding launch_def by (intro pres_intros)

lemma keeps_launch_all [pres_intros]: "preserves I (launch_all e org cs n)"
  by (induction cs arbitrary: n) (auto intro!: pres_intros)

lemma keeps_processDue [pres_intros]: "preserves I (processDueScheduled e org)"
  unfolding processDueScheduled_def by (intro pres_intros)

lemma keeps_fire_campaigns [pres_intros]: "preserves I (fire_campaigns e org tr acct cs n)"
  by (induction cs arbitrary: n) (auto intro!: pres_intros)

lemma keeps_fireTrigger [pres_intros]: "preserves I (fireTrigger e org tr cust)"
  unfolding fireTrigger_def by (intro pres_intros)

lemma keeps_fire_all [pres_intros]: "preserves I (fire_all e org tr cs n)"
  by (induction cs arbitrary: n) (auto intro!: pres_intros)

lemma keeps_fire_abandoned [pres_intros]: "preserves I (fire_abandoned e org as n)"
proof (induction as arbitrary: n)
  case Nil
  show ?case by simp (intro pres_intros)
next
  case (Cons a as)
  show ?case by simp (intro pres_intros Cons.IH)
qed

lemma keeps_daily [pres_intros]: "preserves I (processDailyTriggers e org)"
  unfolding processDailyTriggers_def processBirthdays_def processWinBack_def processAbandoned_def by (intro pres_intros)

section \<open>Queue events\<close>

lemma keeps_resolveCustomerId [pres_intros]: "preserves I (resolveCustomerId e org q)"
  unfolding resolveCustomerId_def Let_def by (intro pres_intros)

lemma keeps_resolveFromEvent [pres_intros]: "preserves I (resolveCustomerIdFromEvent org c ph em)"
  unfolding resolveCustomerIdFromEvent_def by (intro pres_intros)

lemma keeps_mirror [pres_intros]: "preserves I (mirrorInboundReview org c q)"
  unfolding mirrorInboundReview_def mirror_tx_def by (intro pres_intros)

lemma keeps_onTicketCompleted [pres_intros]: "preserves I (onTicketCompleted e org i c b)"
  unfolding onTicketCompleted_def by (intro pres_intros)

lemma keeps_onAppointmentCompleted [pres_intros]: "preserves I (onAppointmentCompleted e org i c b ph em)"
  unfolding onAppointmentCompleted_def by (intro pres_intros)

lemma keeps_onReviewSubmitted [pres_intros]: "preserves I (onReviewSubmitted e org i c r q)"
  unfolding onReviewSubmitted_def by (intro pres_intros)

lemma keeps_onCustomerCreated [pres_intros]: "preserves I (onCustomerCreated e org cust)"
  unfolding onCustomerCreated_def by (intro pres_intros)

lemma keeps_no_show [pres_intros]: "preserves I (no_show e org c st si)"
  unfolding no_show_def by (intro pres_intros)

lemma keeps_onNoShow [pres_intros]: "preserves I (onTicketNoShow e org i c)"
  unfolding onTicketNoShow_def by (intro pres_intros)

lemma keeps_onAppointmentNoShow [pres_intros]: "preserves I (onAppointmentNoShow e org i c ph em)"
  unfolding onAppointmentNoShow_def by (intro pres_intros)

lemma keeps_onTierUpgraded [pres_intros]: "preserves I (onTierUpgraded e org acct slug)"
  unfolding onTierUpgraded_def by (intro pres_intros)

lemma keeps_remote [pres_intros]: "preserves I (processRemoteEvent e org q)"
  unfolding processRemoteEvent_def by (intro pres_intros)

section \<open>The portal\<close>

lemma keeps_enabled_account [pres_intros]: "preserves I (enabled_account e a)"
  unfolding enabled_account_def by (intro pres_intros)

lemma keeps_session [pres_intros]: "preserves I (resolveAccountBySession e t)"
  unfolding resolveAccountBySession_def by (intro pres_intros)

lemma keeps_byCode [pres_intros]: "preserves I (resolveAccountByCode e code)"
  unfolding resolveAccountByCode_def by (intro pres_intros)

lemma keeps_consent [pres_intros]: "preserves I (requirePatronLegalConsent org cust)"
  unfolding requirePatronLegalConsent_def hasPatronLegalConsent_def by (intro pres_intros)

lemma keeps_hasConsent [pres_intros]: "preserves I (hasPatronLegalConsent org cust)"
  unfolding hasPatronLegalConsent_def by (intro pres_intros)

lemma keeps_with_session [pres_intros]:
  "(\<And>a. preserves I (f a)) \<Longrightarrow> preserves I (with_session e t f)"
  unfolding with_session_def by (intro pres_intros)

lemma keeps_portal_actions [pres_intros]: "preserves I (portalPlayGame e t g)"
  unfolding portalPlayGame_def by (intro pres_intros)

lemma keeps_portal_redeem [pres_intros]: "preserves I (portalRedeemReward e t i)"
  unfolding portalRedeemReward_def by (intro pres_intros)

lemma keeps_portal_profile [pres_intros]: "preserves I (portalUpdateProfile e t b g c)"
  unfolding portalUpdateProfile_def by (intro pres_intros)

lemma keeps_recordConsent [pres_intros]: "preserves I (recordPatronLegalConsent e code a b)"
  unfolding recordPatronLegalConsent_def by (intro pres_intros)

end

section \<open>Two invariants\<close>

text \<open>A change of an account that leaves its keys and its counters keeps the invariant.\<close>

lemma ledger_inv_set_accounts:
  assumes inv: "ledger_inv s" and ks: "key_safe f"
    and cnt: "\<And>x. ac_pointsBalance (f x) = ac_pointsBalance x"
      "\<And>x. ac_lifetimePointsEarned (f x) = ac_lifetimePointsEarned x"
      "\<And>x. ac_lifetimePointsBurned (f x) = ac_lifetimePointsBurned x"
  shows "ledger_inv (set_accounts org acct f s)" (is "ledger_inv ?t")
proof -
  have same: "account_reconciled ?t (f x) = account_reconciled s x"
    and frame: "account_reconciled ?t x = account_reconciled s x" for x
    using ks cnt by (simp_all add: account_reconciled_def key_safe_def)
  have "account_reconciled ?t a" if "find_account o2 k ?t = Some a" for o2 k a
    using that inv same frame
    by (auto simp: find_set_accounts [OF ks] ledger_inv_def split: if_splits)
  moreover have "\<forall>l\<in>set (ledger ?t). find_account (le_orgId l) (le_accountId l) ?t \<noteq> None"
    using inv by (auto simp: find_set_accounts [OF ks] ledger_inv_def)
  ultimately show ?thesis using inv by (simp add: ledger_inv_def)
qed

interpretation lin: service_invariant ledger_inv
proof unfold_locales
  fix s :: db and f :: "account_row \<Rightarrow> account_row" and org acct
  assume "ledger_inv s" and f: "\<And>x. core (f x) = core x"
  then show "ledger_inv (set_accounts org acct f s)"
    by (intro ledger_inv_set_accounts key_safe_core) (use f in \<open>auto simp: core_def\<close>)
qed (auto simp: rest_blind_def intro: preserves_apply_tx preserves_insert_new_account)

definition same_keys :: "account_row \<Rightarrow> account_row \<Rightarrow> bool" where
  "same_keys a b \<longleftrightarrow> ac_id a = ac_id b \<and> ac_orgId a = ac_orgId b \<and>
     ac_customerId a = ac_customerId b \<and> ac_referralCode a = ac_referralCode b"

lemma same_keys_core: "core a = core b \<Longrightarrow> same_keys a b"
  by (simp add: core_def same_keys_def)

lemma same_keys_posting: "same_keys (posting ty n inc x) x"
  by (simp add: same_keys_def posting_def)

lemma accounts_inv_set_accounts:
  assumes "accounts_inv s" and key: "\<And>x. same_keys (f x) x"
  shows "accounts_inv (set_accounts org acct f s)"
  using assms(1) key
  by (simp add: accounts_inv_def set_accounts_def map_update_rows_same same_keys_def)

interpretation ain: service_invariant accounts_inv
proof unfold_locales
  fix e org acct n ty opts
  show "preserves_tx accounts_inv (applyPointsInTransaction e org acct n ty opts)"
  proof (rule preserves_txI)
    fix s r t assume I: "accounts_inv s" and run: "applyPointsInTransaction e org acct n ty opts s = Inr (r, t)"
    from run show "accounts_inv t"
    proof (cases rule: apply_tx_Inr_cases)
      case (replay l a)
      then show ?thesis using I by simp
    next
      case (post a h)
      have "same_keys (h x) x" for x
        using same_keys_core [OF post(5)] same_keys_posting
        unfolding same_keys_def by metis
      then show ?thesis
        using accounts_inv_set_accounts [OF I, of h] post(6)
        by (simp add: accounts_inv_def)
    qed
  qed
next
  show "rest_blind accounts_inv" by (simp add: rest_blind_def blind_def accounts_inv_def)
qed (auto intro: preserves_insert_account_keys accounts_inv_set_accounts same_keys_core)

end
