(* ===== verification/Reachable.thy ===== *)
theory Reachable
  imports ServiceFacts PointsProps
begin

text \<open>
  The states the services reach: one rule per entry point, whatever its arguments, the clock and the
  random draws, and whether it returns or throws. The ledger invariant holds in all of them.
\<close>

inductive service_step :: "db \<Rightarrow> db \<Rightarrow> bool" where
  s_getOrCreateProgram: "service_step s (snd (getOrCreateProgram e org s))"
| s_updateProgram: "service_step s (snd (updateProgram e org d s))"
| s_createTier: "service_step s (snd (createTier e org nm sl n so co s))"
| s_createEarnRule: "service_step s (snd (createEarnRule e org nm ev n ac cs s))"
| s_updateEarnRule: "service_step s (snd (updateEarnRule e org i rp s))"
| s_ensureAccount: "service_step s (snd (ensureAccount e org cust s))"
| s_adjustPoints: "service_step s (snd (adjustPoints e org cust n desc s))"
| s_applyPoints: "service_step s (snd (applyPoints e org acct n ty opts s))"
| s_earnFromPurchase: "service_step s (snd (earnFromPurchase e org cust n desc s))"
| s_earnFromEvent: "service_step s (snd (earnFromEvent e org cust0 ev st si desc inc br cents s))"
| s_earnIntegrationPoints: "service_step s (snd (earnIntegrationPoints e org acct n si desc inc s))"
| s_expireForOrg: "service_step s (snd (expireForOrg e org s))"
| s_handleNoShow: "service_step s (snd (handleNoShow e org cust0 st si s))"
| s_applyReferral: "service_step s (snd (applyReferral e org code cust s))"
| s_completePendingForCustomer: "service_step s (snd (completePendingForCustomer e org cust s))"
| s_incrementChallengeProgress: "service_step s (snd (incrementChallengeProgress e org cust ty n s))"
| s_evaluateBadgesForAccount: "service_step s (snd (evaluateBadgesForAccount e org cust s))"
| s_playPatronGame: "service_step s (snd (playPatronGame e org acct ty s))"
| s_createReward: "service_step s (snd (createReward e org ri s))"
| s_updateReward: "service_step s (snd (updateReward e org i rq s))"
| s_deleteReward: "service_step s (snd (deleteReward e org i s))"
| s_redeemReward: "service_step s (snd (redeemReward e org cust i s))"
| s_fulfillRedemption: "service_step s (snd (fulfillRedemption e org i s))"
| s_cancelRedemption: "service_step s (snd (cancelRedemption e org i s))"
| s_createCoupon: "service_step s (snd (createCoupon e org ci s))"
| s_redeemCoupon: "service_step s (snd (redeemCoupon e org code acct s))"
| s_deleteCoupon: "service_step s (snd (deleteCoupon e org i s))"
| s_adjustWallet: "service_step s (snd (adjustWallet e org cust ty n desc s))"
| s_createGiftCard: "service_step s (snd (createGiftCard e org r n em ex pu s))"
| s_deleteGiftCard: "service_step s (snd (deleteGiftCard e org i s))"
| s_upsertCustomer: "service_step s (snd (upsertCustomer e org x nm em ph s))"
| s_integrationEarnPoints: "service_step s (snd (integrationEarnPoints e org q s))"
| s_integrationRedeemReward: "service_step s (snd (integrationRedeemReward e org ref i s))"
| s_joinViaPublicReferral: "service_step s (snd (joinViaPublicReferral e code nm em ph s))"
| s_createCampaign: "service_step s (snd (createCampaign e org cm s))"
| s_updateCampaign: "service_step s (snd (updateCampaign e org i cq s))"
| s_deleteCampaign: "service_step s (snd (deleteCampaign e org i s))"
| s_launch: "service_step s (snd (launch e org i s))"
| s_processDueScheduled: "service_step s (snd (processDueScheduled e org s))"
| s_processDailyTriggers: "service_step s (snd (processDailyTriggers e org s))"
| s_fireTrigger: "service_step s (snd (fireTrigger e org ty cust s))"
| s_finalizeSendFromNotification: "service_step s (snd (finalizeSendFromNotification e org i b err s))"
| s_processRemoteEvent: "service_step s (snd (processRemoteEvent e org qe s))"
| s_onTierUpgraded: "service_step s (snd (onTierUpgraded e org acct sl s))"
| s_portalPlayGame: "service_step s (snd (portalPlayGame e pt ty s))"
| s_portalRedeemReward: "service_step s (snd (portalRedeemReward e pt i s))"
| s_portalUpdateProfile: "service_step s (snd (portalUpdateProfile e pt bd ge ci2 s))"
| s_recordPatronLegalConsent: "service_step s (snd (recordPatronLegalConsent e code te pr s))"

inductive_cases service_stepE: "service_step s t"

lemma blind_set: "blind upd I \<Longrightarrow> I s \<Longrightarrow> I (upd (\<lambda>_. x) s)"
  by (simp add: blind_def)

context service_invariant
begin

lemma keeps_createTier [pres_intros]: "preserves I (createTier e org nm sl n so co)"
  unfolding createTier_def Let_def by (intro pres_intros)

lemma keeps_createEarnRule [pres_intros]: "preserves I (createEarnRule e org nm ev n ac cs)"
  unfolding createEarnRule_def Let_def by (intro pres_intros)

lemma keeps_updateProgram [pres_intros]: "preserves I (updateProgram e org d)"
  unfolding updateProgram_def
  by (intro pres_intros preserves_txI)
    (auto split: option.splits intro: blind_set [where upd = programs_update] pres_intros)

lemma keeps_updateEarnRule [pres_intros]: "preserves I (updateEarnRule e org i rp)"
  unfolding updateEarnRule_def
  by (intro pres_intros preserves_txI)
    (auto simp: Let_def split: option.splits intro: blind_set [where upd = earnRules_update] pres_intros)

lemma service_step_keeps:
  assumes "service_step s t" and "I s"
  shows "I t"
  using assms by cases (erule ssubst, rule preservesD [where I = I], intro pres_intros, assumption)+

lemma service_run_keeps: "service_step\<^sup>*\<^sup>* s t \<Longrightarrow> I s \<Longrightarrow> I t"
  by (induction rule: rtranclp_induct) (auto intro: service_step_keeps)

end

abbreviation service_run :: "db \<Rightarrow> db \<Rightarrow> bool" where
  "service_run \<equiv> service_step\<^sup>*\<^sup>*"

text \<open>
  C4. Whatever the services do, in any order and with whatever failures, every account's balance is
  the sum of its ledger entries and never negative, its lifetime totals are the sums of the earning
  and of the burning entries, and no earn source is booked twice for an account.
\<close>

theorem services_reconcile:
  assumes "ledger_inv s" and "service_run s t" and "find_account org acct t = Some a"
  shows "ac_pointsBalance a = entry_sum (\<lambda>_. True) org acct (ledger t) \<and> 0 \<le> ac_pointsBalance a \<and>
    ac_lifetimePointsEarned a = entry_sum isLifetimeEarnType org acct (ledger t) \<and>
    ac_lifetimePointsBurned a = - entry_sum (\<lambda>ty. ty = ''BURN'') org acct (ledger t) \<and>
    (\<forall>i j. i < j \<longrightarrow> j < length (ledger t) \<longrightarrow> \<not> earn_source_clash (ledger t ! i) (ledger t ! j))"
proof -
  have inv: "ledger_inv t" using lin.service_run_keeps assms by blast
  then have "account_reconciled t a" using assms(3) by (auto simp: ledger_inv_def)
  moreover have "sorted_wrt (\<lambda>l r. \<not> earn_source_clash l r) (ledger t)"
    using inv by (simp add: ledger_inv_def)
  ultimately show ?thesis
    using find_accountD [OF assms(3)]
    by (simp add: account_reconciled_def sorted_wrt_iff_nth_less)
qed

text \<open>A manual credit of five points to the patron of the small database.\<close>

definition demo_adjusted :: db where
  "demo_adjusted = snd (adjustPoints demo_env ''o1'' ''c1'' 5 None demo_db)"

theorem services_reconcile_witness:
  "\<exists>a. find_account ''o1'' ''a1'' demo_adjusted = Some a \<and>
     ac_pointsBalance a = entry_sum (\<lambda>_. True) ''o1'' ''a1'' (ledger demo_adjusted)"
proof -
  have "map_option ac_pointsBalance (find_account ''o1'' ''a1'' demo_adjusted) = Some 105" by code_simp
  then obtain a where a: "find_account ''o1'' ''a1'' demo_adjusted = Some a" by auto
  have run: "service_run demo_db demo_adjusted"
    unfolding demo_adjusted_def by (rule r_into_rtranclp) (rule s_adjustPoints)
  from services_reconcile [OF demo_ledger_inv run a] a show ?thesis by blast
qed

text \<open>
  Whatever the services do, a patron has one account: no two accounts share an id or a
  customer, and within a tenant no two share a referral code.
\<close>

theorem services_keep_account_keys:
  assumes "accounts_inv s" and "service_run s t" and "a \<in> set (accounts t)" and "b \<in> set (accounts t)"
    and "ac_id a = ac_id b \<or> ac_customerId a = ac_customerId b \<or>
      (ac_orgId a = ac_orgId b \<and> ac_referralCode a = ac_referralCode b)"
  shows "a = b"
proof -
  have "accounts_inv t" using ain.service_run_keeps assms(1,2) by blast
  then show ?thesis
    using assms(3-5) distinct_map_eq [of ac_id "accounts t" a b]
      distinct_map_eq [of ac_customerId "accounts t" a b]
      distinct_map_eq [of "\<lambda>a. (ac_orgId a, ac_referralCode a)" "accounts t" a b]
    by (auto simp: accounts_inv_def)
qed

text \<open>The second patron of the small database gets an account; the first has one already.\<close>

definition demo_joined :: db where
  "demo_joined = snd (ensureAccount demo_env ''o1'' ''c2'' (snd (ensureAccount demo_env ''o1'' ''c1'' demo_db)))"

theorem services_keep_account_keys_witness:
  "\<exists>a. a \<in> set (accounts demo_joined) \<and> ac_customerId a = ''c2'' \<and> a = accounts demo_joined ! 1"
proof -
  have run: "service_run demo_db demo_joined"
    unfolding demo_joined_def
    by (rule rtranclp.rtrancl_into_rtrancl [OF r_into_rtranclp]) (rule s_ensureAccount)+
  have inv: "accounts_inv demo_db" by (simp add: accounts_inv_def demo_db_def demo_account_def)
  have m: "map ac_customerId (accounts demo_joined) = [''c1'', ''c2'']" by code_simp
  then have len: "length (accounts demo_joined) = 2" by (metis length_map length_Cons list.size(3) numeral_2_eq_2)
  have "''c2'' \<in> ac_customerId ` set (accounts demo_joined)" by (simp flip: set_map add: m)
  then obtain a where a: "a \<in> set (accounts demo_joined)" "ac_customerId a = ''c2''" by auto
  have b: "accounts demo_joined ! 1 \<in> set (accounts demo_joined)" using len by simp
  have "ac_customerId (accounts demo_joined ! 1) = ''c2''"
    using m len nth_map [of 1 "accounts demo_joined" ac_customerId] by simp
  with a services_keep_account_keys [OF inv run a(1) b] show ?thesis by auto
qed

end
