(* ===== verification/Lifecycle.thy ===== *)
theory Lifecycle
  imports ServiceFacts
begin

text \<open>
  Two contracts the remaining properties share. A \<open>lifecycle\<close>: rows with a status column that only
  moves along given arrows, so that a final status is final over every run. And the frame of the
  points operations: an invariant that looks neither at accounts nor at the ledger survives them.
\<close>

section \<open>Status columns\<close>

locale lifecycle =
  fixes step :: "'s \<Rightarrow> 's \<Rightarrow> bool"
    and status :: "'k \<Rightarrow> 's \<Rightarrow> string option"
    and moves :: "string \<Rightarrow> string \<Rightarrow> bool"
  assumes step_moves: "step s t \<Longrightarrow> status k s = Some a \<Longrightarrow>
    \<exists>b. status k t = Some b \<and> (b = a \<or> moves a b)"
begin

lemma run_moves:
  assumes "step\<^sup>*\<^sup>* s t" and "status k s = Some a"
  shows "\<exists>b. status k t = Some b \<and> moves\<^sup>*\<^sup>* a b"
  using assms
proof (induction rule: rtranclp_induct)
  case base
  then show ?case by auto
next
  case (step t u)
  then obtain b where "status k t = Some b" "moves\<^sup>*\<^sup>* a b" by blast
  with step_moves [OF step.hyps(2)] show ?case
    by (metis rtranclp.rtrancl_into_rtrancl)
qed

lemma final_stays:
  assumes "step\<^sup>*\<^sup>* s t" and "status k s = Some a" and "\<And>b. \<not> moves a b"
  shows "status k t = Some a"
  using run_moves [OF assms(1,2)] assms(3) by (auto elim: converse_rtranclpE)

end

section \<open>What the points operations leave alone\<close>

lemma frame_set_accounts: "blind accounts_update I \<Longrightarrow> I s \<Longrightarrow> I (set_accounts org acct f s)"
  by (simp add: set_accounts_def blind_def)

lemma frame_get_account: "get_account org acct s = Inr (a, t) \<Longrightarrow> t = s"
  by (auto simp: get_account_def split: option.splits)

lemma frame_apply_tx:
  assumes acc: "blind accounts_update I" and led: "blind ledger_update I"
  shows "preserves_tx I (applyPointsInTransaction e org acct n ty opts)"
proof (rule preserves_txI)
  fix s r t assume I: "I s" and run: "applyPointsInTransaction e org acct n ty opts s = Inr (r, t)"
  from run show "I t"
  proof (cases rule: apply_tx_Inr_cases)
    case (replay l a)
    then show ?thesis using I by simp
  next
    case (post a h)
    have "t = (set_accounts org acct h s)\<lparr>ledger := ledger s @ [posted_row e org acct n ty opts a]\<rparr>"
      using post by simp
    then have "t = ledger_update (\<lambda>_. ledger s @ [posted_row e org acct n ty opts a])
        (set_accounts org acct h s)" by simp
    then show ?thesis using blindD [OF led frame_set_accounts [OF acc I]] by simp
  qed
qed

lemma frame_applyPoints:
  assumes "blind accounts_update I" and "blind ledger_update I" and "log_blind I"
  shows "preserves I (applyPoints e org acct n ty opts)"
  unfolding applyPoints_def runApplyPoints_def
  by (intro pres_intros frame_apply_tx assms)

lemma frame_adjust_tx:
  assumes "blind accounts_update I" and "blind ledger_update I"
  shows "preserves_tx I (adjustPoints_tx e org cust n d)"
  unfolding adjustPoints_tx_def adjustPointsInTransaction_def
  by (intro pres_intros frame_apply_tx assms)

lemma frame_insert_account: "blind accounts_update I \<Longrightarrow> preserves_tx I (insert_account a)"
  by (auto simp: preserves_tx_def insert_account_def blind_def split: if_splits)

lemma frame_ensureAccount:
  assumes "blind accounts_update I" and "cache_blind I" and "blind programs_update I"
    and "blind tiers_update I" and "blind earnRules_update I" and "blind wallets_update I"
  shows "preserves I (ensureAccount e org cust)"
  by (intro preserves_ensureAccount frame_insert_account assms)

lemma frame_getAccount:
  assumes "blind accounts_update I" and "cache_blind I" and "blind programs_update I"
    and "blind tiers_update I" and "blind earnRules_update I" and "blind wallets_update I"
  shows "preserves I (getAccountByCustomerId e org cust)"
  unfolding getAccountByCustomerId_def by (intro pres_intros frame_ensureAccount assms)

lemma frame_incrementChallenge:
  assumes "blind accounts_update I" and "cache_blind I" and "blind programs_update I"
    and "blind tiers_update I" and "blind earnRules_update I" and "blind wallets_update I"
    and "blind ledger_update I" and "log_blind I" and "blind progresses_update I"
  shows "preserves I (incrementChallengeProgress e org cust ty n)"
  unfolding incrementChallengeProgress_def advance_challenge_def
  by (intro pres_intros frame_ensureAccount frame_adjust_tx assms)

text \<open>A bind whose first part says something about the value it returns.\<close>

lemma preserves_bind_result:
  assumes "preserves I m" and "\<And>s a t. I s \<Longrightarrow> m s = (Inr a, t) \<Longrightarrow> R a"
    and "\<And>a. R a \<Longrightarrow> preserves I (f a)"
  shows "preserves I (svc_bind m f)"
proof (rule preservesI)
  fix s assume I: "I s"
  show "I (snd (svc_bind m f s))"
  proof (cases "m s")
    case (Pair r t)
    then have "I t" using preservesD [OF assms(1) I] by simp
    then show ?thesis
      using Pair assms(2) [OF I] assms(3)
      by (cases r) (auto simp: svc_bind_def intro: preservesD)
  qed
qed

end
