(* ===== verification/CatalogFacts.thy ===== *)
theory CatalogFacts
  imports Lifecycle PointsProps
begin

text \<open>
  The catalogue: a redemption leaves \<open>pending\<close> once and for good, redeeming and cancelling move
  points and stock by the same amounts, stock is never negative and a coupon is never used more
  often than its limit.
\<close>

section \<open>Points moved inside a catalogue transaction\<close>

lemma apply_tx_moves:
  assumes "applyPointsInTransaction e org acct n ty opts s = Inr (r, t)"
    and "\<not> isEarnSourceIdempotentType ty"
  obtains a h where "0 < n" and "find_account org acct s = Some a"
    and "isDebitLedgerType ty \<longrightarrow> n \<le> ac_pointsBalance a"
    and "\<And>x. core (h x) = core (posting ty n (ao_incrementVisit opts) x)"
    and "t = (set_accounts org acct h s)\<lparr>ledger := ledger s @ [posted_row e org acct n ty opts a]\<rparr>"
    and "ar_account r = h a" and "\<not> ar_idempotent r"
  using assms(1)
proof (cases rule: apply_tx_Inr_cases)
  case (replay l a)
  then show ?thesis using assms(2) by (simp add: earlier_earn_def earn_source_def)
next
  case (post a h)
  have "isDebitLedgerType ty \<longrightarrow> n \<le> ac_pointsBalance a"
    using post(3,4) by (auto simp: posting_failure_def split: if_splits)
  then show ?thesis by (rule that [OF post(1,4) _ post(5-8)])
qed

lemma tables_set_accounts [simp]:
  "rewards (set_accounts org acct f s) = rewards s"
  "redemptions (set_accounts org acct f s) = redemptions s"
  "coupons (set_accounts org acct f s) = coupons s"
  by (simp_all add: set_accounts_def)

section \<open>The life of a redemption\<close>

inductive redemption_moves :: "string \<Rightarrow> string \<Rightarrow> bool" where
  fulfil: "redemption_moves ''pending'' ''fulfilled''"
| cancel: "redemption_moves ''pending'' ''cancelled''"

inductive_cases redemption_movesE: "redemption_moves a b"
inductive_simps redemption_moves_simps [simp]:
  "redemption_moves ''fulfilled'' b" "redemption_moves ''cancelled'' b" "redemption_moves ''pending'' b"

inductive redemption_step :: "db \<Rightarrow> db \<Rightarrow> bool" where
  rd_redeem: "redemption_step s (snd (redeemReward e org cust i s))"
| rd_fulfil: "redemption_step s (snd (fulfillRedemption e org i s))"
| rd_cancel: "redemption_step s (snd (cancelRedemption e org i s))"

definition redemption_status :: "uuid \<times> uuid \<Rightarrow> db \<Rightarrow> string option" where
  "redemption_status k s =
     map_option rd_status (List.find (redemption_key (fst k) (snd k)) (redemptions s))"

text \<open>Seen from a list of redemptions, every one is still there, where it was or one move on.\<close>

definition moved_on :: "redemption_row list \<Rightarrow> db \<Rightarrow> bool" where
  "moved_on ds s \<longleftrightarrow> (\<forall>org i d. List.find (redemption_key org i) ds = Some d \<longrightarrow>
     (\<exists>d'. List.find (redemption_key org i) (redemptions s) = Some d' \<and>
        (rd_status d' = rd_status d \<or> redemption_moves (rd_status d) (rd_status d'))))"

lemma moved_onD:
  "moved_on ds s \<Longrightarrow> List.find (redemption_key org i) ds = Some d \<Longrightarrow>
   \<exists>d'. List.find (redemption_key org i) (redemptions s) = Some d' \<and>
     (rd_status d' = rd_status d \<or> redemption_moves (rd_status d) (rd_status d'))"
  by (simp add: moved_on_def)

lemma moved_on_refl: "moved_on (redemptions s) s"
  by (simp add: moved_on_def)

lemma moved_on_frame [pres_intros]:
  "blind accounts_update (moved_on ds)" "blind ledger_update (moved_on ds)"
  "cache_blind (moved_on ds)" "log_blind (moved_on ds)" "blind programs_update (moved_on ds)"
  "blind tiers_update (moved_on ds)" "blind earnRules_update (moved_on ds)"
  "blind wallets_update (moved_on ds)" "blind rewards_update (moved_on ds)"
  by (simp_all add: blind_def moved_on_def)

lemma moved_on_insert: "preserves_tx (moved_on ds) (insert_redemption d)"
  by (rule preserves_txI)
    (fastforce simp: insert_redemption_def tx_defs moved_on_def find_append split: if_splits)

lemma moved_on_claim:
  assumes key: "\<And>d. rd_id (f d) = rd_id d" "\<And>d. rd_orgId (f d) = rd_orgId d"
    and st: "\<And>d. rd_status (f d) = x" and x: "redemption_moves ''pending'' x"
  shows "preserves_tx (moved_on ds) (claim_redemption org i f)"
proof (rule preserves_txI)
  fix s a t assume I: "moved_on ds s" and run: "claim_redemption org i f s = Inr (a, t)"
  let ?P = "\<lambda>d. redemption_key org i d \<and> rd_status d = ''pending''"
  have t: "redemptions t = update_rows ?P f (redemptions s)"
    using run by (auto simp: claim_redemption_def tx_update_many_def tx_defs split: if_splits)
  have "List.find (redemption_key o2 k) (redemptions t) =
      map_option (\<lambda>d. if ?P d then f d else d) (List.find (redemption_key o2 k) (redemptions s))" for o2 k
    unfolding t by (rule find_update_rows) (simp add: redemption_key_def key)
  note found = this
  show "moved_on ds t"
    unfolding moved_on_def
  proof (intro allI impI)
    fix o2 k d assume "List.find (redemption_key o2 k) ds = Some d"
    from moved_onD [OF I this] obtain d' where
        d': "List.find (redemption_key o2 k) (redemptions s) = Some d'"
      and mv: "rd_status d' = rd_status d \<or> redemption_moves (rd_status d) (rd_status d')" by blast
    show "\<exists>d'. List.find (redemption_key o2 k) (redemptions t) = Some d' \<and>
        (rd_status d' = rd_status d \<or> redemption_moves (rd_status d) (rd_status d'))"
    proof (cases "?P d'")
      case True
      then have "rd_status d = ''pending''" using mv True by (auto elim: redemption_movesE)
      then show ?thesis using found [of o2 k] d' True st x by simp
    next
      case False
      then show ?thesis using found [of o2 k] d' mv by (intro exI [of _ d']) auto
    qed
  qed
qed

lemmas catalogue_frames = frame_apply_tx frame_adjust_tx frame_getAccount moved_on_insert

lemma moved_on_redeem: "preserves (moved_on ds) (redeemReward e org cust i)"
  unfolding redeemReward_def redeem_reward_tx_def burnPoints_tx_def take_stock_def
  by (intro pres_intros catalogue_frames)

lemma moved_on_fulfil: "preserves (moved_on ds) (fulfillRedemption e org i)"
  unfolding fulfillRedemption_def fulfill_tx_def
  by (intro pres_intros moved_on_claim [where x = "''fulfilled''"]) simp_all

lemma moved_on_cancel: "preserves (moved_on ds) (cancelRedemption e org i)"
  unfolding cancelRedemption_def cancel_tx_def
  by (intro pres_intros moved_on_claim [where x = "''cancelled''"] catalogue_frames) simp_all

lemma redemption_step_moves:
  assumes "redemption_step s t" and "redemption_status k s = Some a"
  shows "\<exists>b. redemption_status k t = Some b \<and> (b = a \<or> redemption_moves a b)"
proof -
  have "moved_on (redemptions s) t"
    using assms(1) moved_on_refl
    by cases (auto intro: preservesD [OF moved_on_redeem] preservesD [OF moved_on_fulfil]
        preservesD [OF moved_on_cancel])
  then show ?thesis
    using assms(2) by (fastforce simp: redemption_status_def moved_on_def)
qed

interpretation rdl: lifecycle redemption_step redemption_status redemption_moves
  by unfold_locales (rule redemption_step_moves)

section \<open>Redeeming and cancelling\<close>

lemma find_active_reward:
  assumes "find_reward org i s = Some r" and "distinct (map rw_id (rewards s))"
  shows "List.find (reward_key org i) (rewards s) = Some r"
proof -
  have r: "r \<in> set (rewards s)" "rw_id r = i" "rw_orgId r = org"
    using assms(1) by (auto simp: find_reward_def dest: find_SomeD)
  then obtain r' where r': "List.find (reward_key org i) (rewards s) = Some r'"
    using find_ex [of r "rewards s" "reward_key org i"] by (auto simp: reward_key_def)
  then have "r' \<in> set (rewards s)" "rw_id r' = i" by (auto simp: reward_key_def dest: find_SomeD)
  with r have "r' = r" by (intro distinct_map_eq [OF assms(2)]) simp_all
  with r' show ?thesis by simp
qed

definition stock_step :: "int \<Rightarrow> reward_row \<Rightarrow> reward_row" where
  "stock_step k r = r\<lparr>rw_stock := map_option (\<lambda>n. n + k) (rw_stock r)\<rparr>"

lemma stock_step_simps [simp]:
  "rw_id (stock_step k r) = rw_id r" "rw_orgId (stock_step k r) = rw_orgId r"
  "rw_active (stock_step k r) = rw_active r" "rw_pointsCost (stock_step k r) = rw_pointsCost r"
  "rw_name (stock_step k r) = rw_name r" "rw_stock r = None \<Longrightarrow> stock_step k r = r"
  "stock_step j (stock_step k r) = stock_step (k + j) r" "stock_step 0 r = r"
  by (cases r; simp add: stock_step_def option.map_comp comp_def add.assoc option.map_ident)+

lemma take_stock_Inr:
  assumes "take_stock org i s = Inr (u, t)"
  shows "t = s\<lparr>rewards := update_rows (\<lambda>r. reward_key org i r \<and>
      (case rw_stock r of None \<Rightarrow> False | Some n \<Rightarrow> 0 < n)) (stock_step (-1)) (rewards s)\<rparr>
    \<and> (\<exists>r\<in>set (rewards s). reward_key org i r \<and> (\<exists>n. rw_stock r = Some n \<and> 0 < n))"
proof -
  have fn: "(\<lambda>r. r\<lparr>rw_stock := map_option (\<lambda>n. n - 1) (rw_stock r)\<rparr>) = stock_step (-1)"
    by (simp add: stock_step_def fun_eq_iff)
  show ?thesis
    using assms unfolding take_stock_def fn
    by (auto simp: tx_update_many_def tx_defs count_rows_zero_iff split: if_splits option.splits)
qed

text \<open>What a successful redemption does, in one place.\<close>

lemma redeem_reward_Inr:
  assumes run: "redeem_reward_tx e org acct i s = Inr ((d, b), t)"
    and ids: "distinct (map rw_id (rewards s))"
  obtains r a h where "find_reward org i s = Some r"
    and "find_account org acct s = Some a" and "0 < rw_pointsCost r"
    and "rw_pointsCost r \<le> ac_pointsBalance a" and "d = new_redemption e org acct r"
    and "\<And>x. core (h x) = core (posting ''BURN'' (rw_pointsCost r) False x)"
    and "accounts t = accounts (set_accounts org acct h s)"
    and "redemptions t = redemptions s @ [d]" and "\<forall>q\<in>set (redemptions s). rd_id q \<noteq> rd_id d"
    and "\<forall>n. rw_stock r = Some n \<longrightarrow> 0 < n"
    and "List.find (reward_key org i) (rewards t) = Some (stock_step (-1) r)"
    and "ledger t = ledger s @ [posted_row e org acct (rw_pointsCost r) ''BURN''
       (source_opts ''reward'' (Some i) (Some (''Redeemed: '' @ rw_name r)) False) a]"
proof -
  from run obtain r where r: "find_reward org i s = Some r"
    by (auto simp: redeem_reward_tx_def tx_defs split: option.splits)
  let ?opts = "source_opts ''reward'' (Some i) (Some (''Redeemed: '' @ rw_name r)) False"
  from run r obtain burn s1 s2 u where
      burn: "applyPointsInTransaction e org acct (rw_pointsCost r) ''BURN'' ?opts s = Inr (burn, s1)"
    and stock: "(if rw_stock r \<noteq> None then take_stock org i else tx_return ()) s1 = Inr (u, s2)"
    and ins: "insert_redemption (new_redemption e org acct r) s2 = Inr ((), t)"
    and d: "d = new_redemption e org acct r"
    by (auto simp: redeem_reward_tx_def burnPoints_tx_def tx_bind_Inr_iff tx_read_def tx_throw_def
        tx_return_def split: if_splits)
  from burn obtain a h where a: "find_account org acct s = Some a" "0 < rw_pointsCost r"
      "isDebitLedgerType ''BURN'' \<longrightarrow> rw_pointsCost r \<le> ac_pointsBalance a"
    and h: "\<And>x. core (h x) = core (posting ''BURN'' (rw_pointsCost r) (ao_incrementVisit ?opts) x)"
    and s1: "s1 = (set_accounts org acct h s)
      \<lparr>ledger := ledger s @ [posted_row e org acct (rw_pointsCost r) ''BURN'' ?opts a]\<rparr>"
    by (rule apply_tx_moves) (auto simp: isEarnSourceIdempotentType_def)
  have key: "List.find (reward_key org i) (rewards s) = Some r" by (rule find_active_reward [OF r ids])
  have same: "\<And>r'. r' \<in> set (rewards s) \<Longrightarrow> reward_key org i r' \<Longrightarrow> r' = r"
  proof -
    fix r' assume r': "r' \<in> set (rewards s)" "reward_key org i r'"
    from find_SomeD [OF key] have "r \<in> set (rewards s)" "rw_id r = i" by (simp_all add: reward_key_def)
    then show "r' = r" using r' by (intro distinct_map_eq [OF ids]) (simp_all add: reward_key_def)
  qed
  have st: "accounts s2 = accounts s1 \<and> ledger s2 = ledger s1 \<and> redemptions s2 = redemptions s1"
      "\<forall>n. rw_stock r = Some n \<longrightarrow> 0 < n"
      "List.find (reward_key org i) (rewards s2) = Some (stock_step (-1) r)"
  proof -
    show "accounts s2 = accounts s1 \<and> ledger s2 = ledger s1 \<and> redemptions s2 = redemptions s1"
      using stock take_stock_Inr [of org i s1 u s2] by (auto simp: tx_return_def split: if_splits)
    show pos: "\<forall>n. rw_stock r = Some n \<longrightarrow> 0 < n"
      using stock take_stock_Inr [of org i s1 u s2] same s1 by (auto split: if_splits)
    show "List.find (reward_key org i) (rewards s2) = Some (stock_step (-1) r)"
    proof (cases "rw_stock r")
      case None
      then have "s2 = s1" using stock by (simp add: tx_return_def)
      then show ?thesis using s1 key None by simp
    next
      case (Some n)
      then have "rewards s2 = update_rows (\<lambda>r. reward_key org i r \<and>
          (case rw_stock r of None \<Rightarrow> False | Some n \<Rightarrow> 0 < n)) (stock_step (-1)) (rewards s)"
        using stock take_stock_Inr [of org i s1 u s2] s1 by simp
      then show ?thesis
        using key find_SomeD [OF key] pos Some by (simp add: find_update_rows reward_key_def)
    qed
  qed
  have t: "redemptions t = redemptions s @ [d]" "\<forall>q\<in>set (redemptions s). rd_id q \<noteq> rd_id d"
      "accounts t = accounts s2" "rewards t = rewards s2" "ledger t = ledger s2"
    using ins st(1) s1 d by (auto simp: insert_redemption_def tx_defs split: if_splits)
  show thesis
  proof (rule that [OF r a(1,2)])
    show "rw_pointsCost r \<le> ac_pointsBalance a" using a(3) by (simp add: isDebitLedgerType_def)
    show "\<And>x. core (h x) = core (posting ''BURN'' (rw_pointsCost r) False x)"
      using h by (simp add: source_opts_def)
    show "accounts t = accounts (set_accounts org acct h s)" "ledger t = ledger s @
        [posted_row e org acct (rw_pointsCost r) ''BURN'' ?opts a]"
      using t st(1) s1 by simp_all
  qed (use d t st in auto)
qed

end
