(* ===== verification/CatalogProps.thy ===== *)
theory CatalogProps
  imports CatalogFacts
begin

text \<open>
  The properties of the catalogue: redemptions end once, a cancelled redemption gives back what it
  took, stock and coupon limits hold over every run.
\<close>

section \<open>Cancelling\<close>

lemma find_account_redemptions [simp]:
  "find_account org acct (s\<lparr>redemptions := ds\<rparr>) = find_account org acct s"
  "find_account_of org cust (s\<lparr>redemptions := ds\<rparr>) = find_account_of org cust s"
  "accounts (set_accounts org acct f (s\<lparr>redemptions := ds\<rparr>)) = accounts (set_accounts org acct f s)"
  by (simp_all add: find_account_def find_account_of_def set_accounts_def)

lemma cancel_Inr:
  assumes run: "cancel_tx e org i s = Inr (d', t)"
  obtains d r a b h where "List.find (redemption_key org i) (redemptions s) = Some d"
    and "rd_status d = ''pending''"
    and "List.find (reward_key org (rd_rewardId d)) (rewards s) = Some r"
    and "find_account org (rd_accountId d) s = Some a"
    and "find_account_of org (ac_customerId a) s = Some b"
    and "\<And>x. core (h x) = core (posting (adjust_type (rd_pointsSpent d)) \<bar>rd_pointsSpent d\<bar> False x)"
    and "accounts t = accounts (set_accounts org (ac_id b) h s)"
    and "rewards t = (if rw_stock r \<noteq> None
       then update_rows (reward_key org (rd_rewardId d)) (stock_step 1) (rewards s) else rewards s)"
    and "rd_status d' = ''cancelled''"
proof -
  from run obtain d r a where d: "List.find (redemption_key org i) (redemptions s) = Some d"
      "rd_status d = ''pending''"
    and r: "List.find (reward_key org (rd_rewardId d)) (rewards s) = Some r"
    and a: "find_account org (rd_accountId d) s = Some a"
    by (auto simp: cancel_tx_def tx_defs split: option.splits if_splits)
  let ?P = "\<lambda>d. redemption_key org i d \<and> rd_status d = ''pending''"
  let ?f = "\<lambda>d. d\<lparr>rd_status := ''cancelled''\<rparr> :: redemption_row"
  let ?s1 = "s\<lparr>redemptions := update_rows ?P ?f (redemptions s)\<rparr>"
  have claim: "claim_redemption org i ?f s = Inr (u, s1) \<Longrightarrow> s1 = ?s1" for u s1
    by (auto simp: claim_redemption_def tx_update_many_def tx_defs split: if_splits)
  from run d r a obtain p s2 n s3 where
      adj: "adjustPoints_tx e org (ac_customerId a) (rd_pointsSpent d)
        (Some (''Cancelled redemption: '' @ rw_name r)) ?s1 = Inr (p, s2)"
    and stock: "(if rw_stock r \<noteq> None
        then tx_update_many rewards rewards_update (reward_key org (rd_rewardId d))
          (\<lambda>r. r\<lparr>rw_stock := map_option (\<lambda>n. n + 1) (rw_stock r)\<rparr>) else tx_return 0) s2 = Inr (n, s3)"
    and final: "tx_find_or_throw redemptions (redemption_key org i) s3 = Inr (d', t)"
    by (auto simp: cancel_tx_def tx_bind_Inr_iff tx_read_def dest!: claim)
  from adj obtain b where b: "find_account_of org (ac_customerId a) s = Some b"
    and app: "applyPointsInTransaction e org (ac_id b) \<bar>rd_pointsSpent d\<bar>
      (adjust_type (rd_pointsSpent d)) (adjust_opts (Some (''Cancelled redemption: '' @ rw_name r)))
      ?s1 = Inr (p, s2)"
    by (auto simp: adjustPoints_tx_def adjustPointsInTransaction_def tx_defs split: option.splits)
  from app obtain c h where h: "\<And>x. core (h x) =
      core (posting (adjust_type (rd_pointsSpent d)) \<bar>rd_pointsSpent d\<bar> (ao_incrementVisit
        (adjust_opts (Some (''Cancelled redemption: '' @ rw_name r)))) x)"
    and s2: "s2 = (set_accounts org (ac_id b) h ?s1)\<lparr>ledger := ledger ?s1 @
      [posted_row e org (ac_id b) \<bar>rd_pointsSpent d\<bar> (adjust_type (rd_pointsSpent d))
        (adjust_opts (Some (''Cancelled redemption: '' @ rw_name r))) c]\<rparr>"
    by (rule apply_tx_moves) (auto simp: isEarnSourceIdempotentType_def adjust_type_def)
  have fn: "(\<lambda>r. r\<lparr>rw_stock := map_option (\<lambda>n. n + 1) (rw_stock r)\<rparr>) = stock_step 1"
    by (simp add: stock_step_def fun_eq_iff)
  have s3: "accounts s3 = accounts s2" "redemptions s3 = redemptions s2"
      "rewards s3 = (if rw_stock r \<noteq> None
         then update_rows (reward_key org (rd_rewardId d)) (stock_step 1) (rewards s2) else rewards s2)"
    using stock unfolding fn by (auto simp: tx_update_many_def tx_return_def split: if_splits)
  have t: "t = s3" "List.find (redemption_key org i) (redemptions s3) = Some d'"
    using final by (auto simp: tx_find_or_throw_def split: option.splits)
  have "List.find (redemption_key org i) (redemptions s3) =
      map_option (\<lambda>d. if ?P d then ?f d else d) (List.find (redemption_key org i) (redemptions s))"
    unfolding s3 s2 by (simp add: find_update_rows redemption_key_def)
  with t(2) d find_SomeD [OF d(1)] have "d' = ?f d" by simp
  then show thesis
    using that [OF d r a b, of h] h s2 s3 t(1) by (simp add: adjust_opts_def source_opts_def)
qed

lemma find_account_cong: "accounts t = accounts s \<Longrightarrow> find_account org acct t = find_account org acct s"
  by (simp add: find_account_def)

lemma customer_account_unique:
  assumes "distinct (map ac_customerId (accounts s))" and "find_account org acct s = Some a"
  shows "find_account_of org (ac_customerId a) s = Some a"
proof -
  have a: "a \<in> set (accounts s)" "ac_orgId a = org"
    using assms(2) by (auto simp: find_account_def acc_key_def dest: find_SomeD)
  then obtain b where b: "find_account_of org (ac_customerId a) s = Some b"
    using find_ex [of a "accounts s" "\<lambda>x. ac_customerId x = ac_customerId a \<and> ac_orgId x = org"]
    by (auto simp: find_account_of_def)
  then have "b \<in> set (accounts s)" "ac_customerId b = ac_customerId a"
    by (auto simp: find_account_of_def dest: find_SomeD)
  with a have "b = a" by (intro distinct_map_eq [OF assms(1)]) simp_all
  with b show ?thesis by simp
qed

text \<open>
  A redemption and its cancellation are a round trip: the patron's balance and the whole row of
  the reward, its stock included, are what they were before the redemption. The lifetime total of
  burned points keeps the cancelled redemption.
\<close>

theorem redeem_then_cancel:
  assumes red: "redeem_reward_tx e org acct i s = Inr ((d, b), t)"
    and can: "cancel_tx e' org (rd_id d) t = Inr (d', u)"
    and custs: "distinct (map ac_customerId (accounts s))"
    and ids: "distinct (map rw_id (rewards s))"
  shows "\<exists>a0 a1. find_account org acct s = Some a0 \<and> find_account org acct u = Some a1 \<and>
    ac_pointsBalance a1 = ac_pointsBalance a0 \<and>
    List.find (reward_key org i) (rewards u) = List.find (reward_key org i) (rewards s) \<and>
    rd_status d' = ''cancelled'' \<and>
    ac_lifetimePointsBurned a1 = ac_lifetimePointsBurned a0 + rd_pointsSpent d"
proof -
  obtain r a h where r: "find_reward org i s = Some r" and a: "find_account org acct s = Some a"
    and cost: "0 < rw_pointsCost r" and d: "d = new_redemption e org acct r"
    and h: "\<And>x. core (h x) = core (posting ''BURN'' (rw_pointsCost r) False x)"
    and acc: "accounts t = accounts (set_accounts org acct h s)"
    and rds: "redemptions t = redemptions s @ [d]" "\<forall>q\<in>set (redemptions s). rd_id q \<noteq> rd_id d"
    and stk: "List.find (reward_key org i) (rewards t) = Some (stock_step (-1) r)"
    by (rule redeem_reward_Inr [OF red ids]) (rule that)
  have ks: "key_safe h" by (simp add: key_safe_def core_eqD [OF h, simplified])
  have dd: "rd_accountId d = acct" "rd_rewardId d = i" "rd_pointsSpent d = rw_pointsCost r"
      "rd_orgId d = org"
    using r by (auto simp: d new_redemption_def find_reward_def dest: find_SomeD)
  have found: "List.find (redemption_key org (rd_id d)) (redemptions t) = Some d"
  proof -
    have "List.find (redemption_key org (rd_id d)) (redemptions s) = None"
      using rds(2) by (auto simp: find_None_iff redemption_key_def)
    then show ?thesis using dd(4) by (simp add: rds(1) find_append redemption_key_def)
  qed
  have at: "find_account org acct t = Some (h a)"
    using a by (simp add: find_account_cong [OF acc] find_set_accounts [OF ks])
  have cid: "\<And>x. ac_customerId (h x) = ac_customerId x" by (simp add: core_eqD [OF h, simplified])
  have dt: "distinct (map ac_customerId (accounts t))"
    using custs cid unfolding acc set_accounts_def
    by (simp add: map_update_rows_same)
  obtain d2 r2 a2 b2 g where d2: "List.find (redemption_key org (rd_id d)) (redemptions t) = Some d2"
    and r2: "List.find (reward_key org (rd_rewardId d2)) (rewards t) = Some r2"
    and a2: "find_account org (rd_accountId d2) t = Some a2"
    and b2: "find_account_of org (ac_customerId a2) t = Some b2"
    and g: "\<And>x. core (g x) = core (posting (adjust_type (rd_pointsSpent d2)) \<bar>rd_pointsSpent d2\<bar> False x)"
    and accu: "accounts u = accounts (set_accounts org (ac_id b2) g t)"
    and rwu: "rewards u = (if rw_stock r2 \<noteq> None
       then update_rows (reward_key org (rd_rewardId d2)) (stock_step 1) (rewards t) else rewards t)"
    and st: "rd_status d' = ''cancelled''"
    by (rule cancel_Inr [OF can]) (rule that)
  have d2d: "d2 = d" using d2 found by simp
  have eqs: "d2 = d" "r2 = stock_step (-1) r" "a2 = h a"
    using r2 a2 stk at unfolding d2d by (simp_all add: dd)
  have b2a: "b2 = h a" using b2 customer_account_unique [OF dt at] by (simp add: eqs)
  have kg: "key_safe g" by (simp add: key_safe_def core_eqD [OF g, simplified])
  have "ac_id (h a) = acct" using find_accountD [OF at] by simp
  then have au: "find_account org acct u = Some (g (h a))"
    using at by (simp add: find_account_cong [OF accu] find_set_accounts [OF kg] b2a)
  have "List.find (reward_key org i) (rewards u) = Some r"
  proof (cases "rw_stock r")
    case None
    then show ?thesis using rwu stk by (simp add: eqs stock_step_def)
  next
    case (Some n)
    have "reward_key org i (stock_step (-1) r)" using find_SomeD [OF stk] by simp
    then show ?thesis
      using rwu stk Some by (simp add: eqs dd stock_step_def [of "-1"] find_update_rows reward_key_def)
        (simp add: stock_step_def)
  qed
  moreover have "ac_pointsBalance (g (h a)) = ac_pointsBalance a \<and>
      ac_lifetimePointsBurned (g (h a)) = ac_lifetimePointsBurned a + rw_pointsCost r"
    using core_eqD(4,6) [OF g [of "h a"]] core_eqD(4,6) [OF h [of a]] cost
    by (simp add: eqs dd posting_def signed_points_def isDebitLedgerType_def adjust_type_def)
  ultimately show ?thesis
    using a au st find_active_reward [OF r ids] by (simp add: dd)
qed

text \<open>A reward with five in stock and a coupon for three uses.\<close>

definition demo_reward :: reward_row where
  "demo_reward = \<lparr>rw_id = ''w1'', rw_orgId = ''o1'', rw_name = ''Mug'', rw_type = ''GIFT'',
     rw_pointsCost = 40, rw_stock = Some 5, rw_active = True, rw_validFrom = None,
     rw_validUntil = Some 1800000000000\<rparr>"

definition demo_coupon :: coupon_row where
  "demo_coupon = \<lparr>co_id = ''k1'', co_orgId = ''o1'', co_code = ''WELCOME'', co_name = ''Welcome'',
     co_type = ''FIXED'', co_value = 500, co_minPurchaseCents = None, co_maxUses = Some 1,
     co_usedCount = 0, co_active = True, co_validFrom = None, co_validUntil = None,
     co_tierSlugs = []\<rparr>"

definition demo_shop :: db where
  "demo_shop = demo_db\<lparr>rewards := [demo_reward], coupons := [demo_coupon]\<rparr>"

definition demo_redeem :: "(error + redemption_row \<times> apply_result) \<times> db" where
  "demo_redeem = with_tenant (redeem_reward_tx demo_env ''o1'' ''a1'' ''w1'') demo_shop"

definition demo_cancel :: "(error + redemption_row) \<times> db" where
  "demo_cancel = with_tenant (cancel_tx demo_env ''o1'' ''loyalty_redemptions'') (snd demo_redeem)"

theorem redeem_then_cancel_witness:
  "\<exists>a. find_account ''o1'' ''a1'' (snd demo_cancel) = Some a \<and> ac_pointsBalance a = 100 \<and>
     List.find (reward_key ''o1'' ''w1'') (rewards (snd demo_cancel)) = Some demo_reward"
proof -
  have "map_option (\<lambda>p. rd_id (fst p)) (result_of demo_redeem) = Some ''loyalty_redemptions''"
    by code_simp
  then obtain d b where db: "result_of demo_redeem = Some (d, b)" "rd_id d = ''loyalty_redemptions''"
    by auto
  have red: "redeem_reward_tx demo_env ''o1'' ''a1'' ''w1'' demo_shop = Inr ((d, b), snd demo_redeem)"
    using result_ofD [OF db(1)] unfolding demo_redeem_def by (simp add: with_tenant_Inr_iff)
  have "result_of demo_cancel \<noteq> None" by code_simp
  then obtain d' where "result_of demo_cancel = Some d'" by auto
  then have can: "cancel_tx demo_env ''o1'' (rd_id d) (snd demo_redeem) = Inr (d', snd demo_cancel)"
    using result_ofD db(2) unfolding demo_cancel_def by (metis with_tenant_Inr_iff)
  have "\<exists>a0 a1. find_account ''o1'' ''a1'' demo_shop = Some a0 \<and>
      find_account ''o1'' ''a1'' (snd demo_cancel) = Some a1 \<and>
      ac_pointsBalance a1 = ac_pointsBalance a0 \<and>
      List.find (reward_key ''o1'' ''w1'') (rewards (snd demo_cancel)) =
        List.find (reward_key ''o1'' ''w1'') (rewards demo_shop)"
    using redeem_then_cancel [OF red can]
    by (fastforce simp: demo_shop_def demo_defs demo_reward_def)
  then show ?thesis
    by (auto simp: demo_shop_def demo_reward_def reward_key_def find_account_def acc_key_def
        demo_db_def demo_account_def)
qed

text \<open>
  A redemption is settled once: after it is fulfilled or cancelled, no run of redemptions,
  fulfilments and cancellations changes its status, and cancelling it again gives back nothing.
\<close>

theorem settled_redemption_stays:
  assumes "redemption_step\<^sup>*\<^sup>* s t" and "redemption_status (org, i) s = Some st"
    and "st = ''fulfilled'' \<or> st = ''cancelled''"
  shows "redemption_status (org, i) t = Some st \<and> (\<forall>d u e. cancel_tx e org i t \<noteq> Inr (d, u))"
proof -
  have st: "redemption_status (org, i) t = Some st"
    by (rule rdl.final_stays [OF assms(1,2)]) (use assms(3) in auto)
  have "st \<noteq> ''pending''" using assms(3) by auto
  then have "cancel_tx e org i t \<noteq> Inr (d, u)" for e d u
    using st by (auto simp: redemption_status_def elim: cancel_Inr)
  with st show ?thesis by blast
qed

text \<open>A fulfilled redemption of the small shop, and an attempt to cancel it.\<close>

definition demo_settled :: db where
  "demo_settled = demo_shop\<lparr>redemptions := [(new_redemption demo_env ''o1'' ''a1'' demo_reward)
     \<lparr>rd_id := ''d1'', rd_status := ''fulfilled''\<rparr>]\<rparr>"

theorem settled_redemption_stays_witness:
  "redemption_status (''o1'', ''d1'') (snd (cancelRedemption demo_env ''o1'' ''d1'' demo_settled)) =
    Some ''fulfilled''"
proof -
  have run: "redemption_step\<^sup>*\<^sup>* demo_settled (snd (cancelRedemption demo_env ''o1'' ''d1'' demo_settled))"
    by (rule r_into_rtranclp) (rule rd_cancel)
  have "redemption_status (''o1'', ''d1'') demo_settled = Some ''fulfilled''" by code_simp
  from settled_redemption_stays [OF run this] show ?thesis by simp
qed

section \<open>Stock\<close>

definition stock_ok :: "db \<Rightarrow> bool" where
  "stock_ok s \<longleftrightarrow> (\<forall>r\<in>set (rewards s). \<forall>n. rw_stock r = Some n \<longrightarrow> 0 \<le> n)"

inductive reward_step :: "db \<Rightarrow> db \<Rightarrow> bool" where
  rw_create: "(\<forall>n. ri_stock d = Some n \<longrightarrow> 0 \<le> n) \<Longrightarrow> reward_step s (snd (createReward e org d s))"
| rw_edit: "(\<forall>n. rp_stock q = Some (Some n) \<longrightarrow> 0 \<le> n) \<Longrightarrow> reward_step s (snd (updateReward e org i q s))"
| rw_delete: "reward_step s (snd (deleteReward e org i s))"
| rw_redemption: "redemption_step s t \<Longrightarrow> reward_step s t"

lemma stock_ok_frame [pres_intros]:
  "blind accounts_update stock_ok" "blind ledger_update stock_ok" "cache_blind stock_ok"
  "log_blind stock_ok" "blind programs_update stock_ok" "blind tiers_update stock_ok"
  "blind earnRules_update stock_ok" "blind wallets_update stock_ok" "blind redemptions_update stock_ok"
  by (simp_all add: blind_def stock_ok_def)

lemma stock_ok_update_many:
  assumes "\<And>r n. P r \<Longrightarrow> rw_stock (f r) = Some n \<Longrightarrow> (\<forall>m. rw_stock r = Some m \<longrightarrow> 0 \<le> m) \<Longrightarrow> 0 \<le> n"
  shows "preserves_tx stock_ok (tx_update_many rewards rewards_update P f)"
  using assms by (fastforce simp: preserves_tx_def tx_update_many_def stock_ok_def set_update_rows)

lemma stock_ok_update_one:
  assumes "\<And>r n. P r \<Longrightarrow> rw_stock (f r) = Some n \<Longrightarrow> (\<forall>m. rw_stock r = Some m \<longrightarrow> 0 \<le> m) \<Longrightarrow> 0 \<le> n"
  shows "preserves_tx stock_ok (tx_update_one rewards rewards_update P f)"
  using assms
  by (fastforce simp: preserves_tx_def tx_update_one_def stock_ok_def set_update_rows split: option.splits)

lemma stock_ok_insert_redemption: "preserves_tx stock_ok (insert_redemption d)"
  unfolding insert_redemption_def by (intro pres_intros)

lemma stock_ok_redeem: "preserves stock_ok (redeemReward e org cust i)"
  unfolding redeemReward_def redeem_reward_tx_def burnPoints_tx_def take_stock_def
  by (intro pres_intros frame_apply_tx frame_getAccount stock_ok_insert_redemption
      stock_ok_update_many) (auto split: option.splits)

lemma stock_ok_fulfil: "preserves stock_ok (fulfillRedemption e org i)"
  unfolding fulfillRedemption_def fulfill_tx_def claim_redemption_def by (intro pres_intros)

lemma stock_ok_cancel: "preserves stock_ok (cancelRedemption e org i)"
  unfolding cancelRedemption_def cancel_tx_def claim_redemption_def
  by (intro pres_intros frame_adjust_tx stock_ok_update_many) fastforce

lemma stock_ok_create:
  "(\<forall>n. ri_stock d = Some n \<longrightarrow> 0 \<le> n) \<Longrightarrow> preserves stock_ok (createReward e org d)"
  unfolding createReward_def
  by (intro pres_intros preserves_tx_modify) (auto simp: stock_ok_def new_reward_def)

lemma stock_ok_edit:
  "(\<forall>n. rp_stock q = Some (Some n) \<longrightarrow> 0 \<le> n) \<Longrightarrow> preserves stock_ok (updateReward e org i q)"
  unfolding updateReward_def
  by (intro pres_intros stock_ok_update_one)
    (auto simp: apply_reward_patch_def patched_def split: option.splits)

lemma stock_ok_delete: "preserves stock_ok (deleteReward e org i)"
  unfolding deleteReward_def
  by (intro pres_intros preserves_tx_modify) (auto simp: stock_ok_def)

text \<open>
  C5. The stock of a reward is never negative: rewards created and edited with a stock of zero or
  more keep it over any run of edits, redemptions, fulfilments and cancellations.
\<close>

theorem stock_never_negative:
  assumes "reward_step\<^sup>*\<^sup>* s t" and "stock_ok s" and "r \<in> set (rewards t)" and "rw_stock r = Some n"
  shows "0 \<le> n"
proof -
  have step: "stock_ok u" if "reward_step v u" "stock_ok v" for u v
    using that
    by (cases rule: reward_step.cases)
      (auto elim!: redemption_step.cases intro: preservesD [OF stock_ok_create]
        preservesD [OF stock_ok_edit] preservesD [OF stock_ok_delete] preservesD [OF stock_ok_redeem]
        preservesD [OF stock_ok_fulfil] preservesD [OF stock_ok_cancel])
  have "stock_ok t"
    using assms(1) by (induction rule: rtranclp_induct) (auto intro: step assms(2))
  with assms(3,4) show ?thesis by (simp add: stock_ok_def)
qed

definition demo_bought :: db where
  "demo_bought = snd (redeemReward demo_env ''o1'' ''c1'' ''w1'' demo_shop)"

theorem stock_never_negative_witness:
  "\<exists>r n. r \<in> set (rewards demo_bought) \<and> rw_stock r = Some n \<and> n = 4 \<and> 0 \<le> n"
proof -
  have run: "reward_step\<^sup>*\<^sup>* demo_shop demo_bought"
    unfolding demo_bought_def by (rule r_into_rtranclp) (intro rw_redemption rd_redeem)
  have ok: "stock_ok demo_shop" by (simp add: stock_ok_def demo_shop_def demo_reward_def)
  have "map rw_stock (rewards demo_bought) = [Some 4]" by code_simp
  then obtain r where r: "r \<in> set (rewards demo_bought)" "rw_stock r = Some 4" by auto
  from stock_never_negative [OF run ok r] r show ?thesis by blast
qed

section \<open>Coupons\<close>

definition coupon_uses :: "uuid \<Rightarrow> db \<Rightarrow> nat" where
  "coupon_uses i s = count_rows (\<lambda>r. cr_couponId r = i) (couponRedemptions s)"

definition coupons_ok :: "db \<Rightarrow> bool" where
  "coupons_ok s \<longleftrightarrow> distinct (map co_id (coupons s)) \<and>
     (\<forall>r\<in>set (couponRedemptions s). cr_couponId r \<in> co_id ` set (coupons s)) \<and>
     (\<forall>c\<in>set (coupons s). co_usedCount c = int (coupon_uses (co_id c) s) \<and>
        (\<forall>m. co_maxUses c = Some m \<longrightarrow> co_usedCount c \<le> m))"

inductive coupon_step :: "db \<Rightarrow> db \<Rightarrow> bool" where
  cp_create: "(\<forall>m. ci_maxUses d = Some m \<longrightarrow> 1 \<le> m) \<Longrightarrow> coupon_step s (snd (createCoupon e org d s))"
| cp_redeem: "coupon_step s (snd (redeemCoupon e org code acct s))"
| cp_delete: "coupon_step s (snd (deleteCoupon e org i s))"

lemma coupons_ok_frame [pres_intros]: "cache_blind coupons_ok"
  by (auto simp: blind_def coupons_ok_def coupon_uses_def)

lemma coupons_okI:
  assumes "distinct (map co_id (coupons s))"
    and "\<And>r. r \<in> set (couponRedemptions s) \<Longrightarrow> cr_couponId r \<in> co_id ` set (coupons s)"
    and "\<And>c. c \<in> set (coupons s) \<Longrightarrow> co_usedCount c = int (coupon_uses (co_id c) s)"
    and "\<And>c m. c \<in> set (coupons s) \<Longrightarrow> co_maxUses c = Some m \<Longrightarrow> co_usedCount c \<le> m"
  shows "coupons_ok s"
  using assms unfolding coupons_ok_def by blast

definition use_coupon :: "coupon_row \<Rightarrow> coupon_row" where
  "use_coupon c = c\<lparr>co_usedCount := co_usedCount c + 1\<rparr>"

lemma redeem_coupon_Inr:
  assumes run: "redeem_coupon_tx e org code acct s = Inr (r, t)"
    and ids: "distinct (map co_id (coupons s))"
  obtains c where "c \<in> set (coupons s)" and "\<forall>m. co_maxUses c = Some m \<longrightarrow> co_usedCount c < m"
    and "coupons t = update_rows (\<lambda>q. co_id q = co_id c) use_coupon (coupons s)"
    and "couponRedemptions t = couponRedemptions s @ [r]" and "cr_couponId r = co_id c"
proof -
  from run obtain c where c: "find_coupon org code s = Some c"
    by (auto simp: redeem_coupon_tx_def tx_defs split: option.splits)
  have cs: "c \<in> set (coupons s)" "co_orgId c = org" "co_active c"
    using c by (auto simp: find_coupon_def dest: find_SomeD)
  let ?P = "\<lambda>q. co_id q = co_id c \<and> co_orgId q = org \<and> co_active q \<and>
    (case co_maxUses c of None \<Rightarrow> True | Some m \<Rightarrow> co_usedCount q < m)"
  from run c obtain s1 where res: "reserve_coupon org c s = Inr ((), s1)"
    and t: "t = s1\<lparr>couponRedemptions := couponRedemptions s1 @ [r]\<rparr>" "cr_couponId r = co_id c"
    by (auto simp: redeem_coupon_tx_def tx_bind_Inr_iff tx_read_def tx_throw_def tx_return_def
        tx_modify_def Let_def split: option.splits)
  from res have s1: "s1 = s\<lparr>coupons := update_rows ?P use_coupon (coupons s)\<rparr>"
    and some: "\<exists>q\<in>set (coupons s). ?P q"
    by (auto simp: reserve_coupon_def tx_update_many_def tx_defs count_rows_zero_iff use_coupon_def
        [abs_def] split: if_splits)
  have only: "q = c" if "q \<in> set (coupons s)" "co_id q = co_id c" for q
    using distinct_map_eq [OF ids that(1) cs(1) that(2)] .
  from some only have lim: "case co_maxUses c of None \<Rightarrow> True | Some m \<Rightarrow> co_usedCount c < m" by blast
  have "update_rows ?P use_coupon (coupons s) =
      update_rows (\<lambda>q. co_id q = co_id c) use_coupon (coupons s)"
    unfolding update_rows_def using only cs lim by (intro map_cong refl) auto
  with lim show thesis using t s1 by (intro that [OF cs(1)]) (auto split: option.splits)
qed

lemma coupons_ok_redeem: "preserves coupons_ok (redeemCoupon e org code acct)"
  unfolding redeemCoupon_def
proof (intro pres_intros preserves_txI)
  fix s r t assume ok: "coupons_ok s" and run: "redeem_coupon_tx e org code acct s = Inr (r, t)"
  from ok have ids: "distinct (map co_id (coupons s))" by (simp add: coupons_ok_def)
  obtain c where c: "c \<in> set (coupons s)" "\<forall>m. co_maxUses c = Some m \<longrightarrow> co_usedCount c < m"
    and t: "coupons t = update_rows (\<lambda>q. co_id q = co_id c) use_coupon (coupons s)"
      "couponRedemptions t = couponRedemptions s @ [r]" "cr_couponId r = co_id c"
    by (rule redeem_coupon_Inr [OF run ids]) (rule that)
  have key: "co_id (use_coupon q) = co_id q" "co_maxUses (use_coupon q) = co_maxUses q"
      "co_usedCount (use_coupon q) = co_usedCount q + 1" for q
    by (simp_all add: use_coupon_def)
  have keys: "map co_id (coupons t) = map co_id (coupons s)"
    by (simp add: t map_update_rows_same key)
  have uses: "coupon_uses i t = coupon_uses i s + (if i = co_id c then 1 else 0)" for i
    by (simp add: coupon_uses_def count_rows_def t)
  have one: "q = c" if "q \<in> set (coupons s)" "co_id q = co_id c" for q
    using distinct_map_eq [OF ids that(1) c(1) that(2)] .
  have "co_usedCount q = int (coupon_uses (co_id q) t) \<and>
      (\<forall>m. co_maxUses q = Some m \<longrightarrow> co_usedCount q \<le> m)" if "q \<in> set (coupons t)" for q
  proof -
    from that obtain p where p: "p \<in> set (coupons s)"
        "q = (if co_id p = co_id c then use_coupon p else p)"
      by (auto simp: t set_update_rows)
    show ?thesis
    proof (cases "co_id p = co_id c")
      case True
      then have "p = c" using one p(1) by simp
      then show ?thesis using ok c p(2) by (auto simp: coupons_ok_def uses key)
    next
      case False
      then show ?thesis using ok p by (auto simp: coupons_ok_def uses)
    qed
  qed
  moreover have "\<forall>x\<in>set (couponRedemptions t). cr_couponId x \<in> co_id ` set (coupons t)"
  proof -
    have "co_id ` set (coupons t) = co_id ` set (coupons s)" using keys by (metis set_map)
    then show ?thesis using ok c(1) t(2,3) by (auto simp: coupons_ok_def)
  qed
  ultimately show "coupons_ok t" using ids keys by (intro coupons_okI) (simp, blast+)
qed

lemma coupons_ok_create:
  assumes "\<forall>m. ci_maxUses d = Some m \<longrightarrow> 1 \<le> m"
  shows "preserves coupons_ok (createCoupon e org d)"
  unfolding createCoupon_def
proof (intro pres_intros preserves_txI)
  fix s u t assume ok: "coupons_ok s" and run: "insert_coupon (new_coupon e org d) s = Inr (u, t)"
  let ?c = "new_coupon e org d"
  from run have t: "t = s\<lparr>coupons := coupons s @ [?c]\<rparr>" "co_id ?c \<notin> co_id ` set (coupons s)"
    by (auto simp: insert_coupon_def tx_defs split: if_splits)
  have "coupon_uses (co_id ?c) s = 0"
    unfolding coupon_uses_def count_rows_zero_iff
  proof
    fix r assume "r \<in> set (couponRedemptions s)"
    then have "cr_couponId r \<in> co_id ` set (coupons s)" using ok by (simp add: coupons_ok_def)
    with t(2) show "cr_couponId r \<noteq> co_id ?c" by metis
  qed
  then show "coupons_ok t"
    using ok t assms by (auto simp: coupons_ok_def coupon_uses_def new_coupon_def)
qed

lemma coupons_ok_delete: "preserves coupons_ok (deleteCoupon e org i)"
  unfolding deleteCoupon_def
proof (intro preserves_bind preserves_with_tenant preserves_txI preserves_require_enabled
    coupons_ok_frame)
  fix s u t
  assume ok: "coupons_ok s"
    and run: "tx_bind (tx_find_or_throw coupons (\<lambda>c. co_id c = i \<and> co_orgId c = org))
      (\<lambda>_. tx_bind (tx_modify (coupons_update (filter (\<lambda>c. \<not> (co_id c = i \<and> co_orgId c = org)))))
        (\<lambda>_. tx_modify (couponRedemptions_update (filter (\<lambda>r. cr_couponId r \<noteq> i))))) s = Inr (u, t)"
  from run have t: "coupons t = filter (\<lambda>c. \<not> (co_id c = i \<and> co_orgId c = org)) (coupons s)"
      "couponRedemptions t = filter (\<lambda>r. cr_couponId r \<noteq> i) (couponRedemptions s)"
    and ex: "\<exists>c\<in>set (coupons s). co_id c = i \<and> co_orgId c = org"
    by (auto simp: tx_find_or_throw_def tx_defs dest: find_SomeD split: option.splits)
  have all: "co_orgId q = org" if "q \<in> set (coupons s)" "co_id q = i" for q
    using ok ex that by (metis coupons_ok_def distinct_map_eq)
  have uses: "coupon_uses k t = coupon_uses k s" if "k \<noteq> i" for k
    using that by (simp add: coupon_uses_def count_rows_def t filter_filter) (metis (mono_tags, lifting))
  show "coupons_ok t"
  proof (rule coupons_okI)
    have kept: "q \<in> set (coupons s)" "co_id q \<noteq> i" if "q \<in> set (coupons t)" for q
      using that all by (auto simp: t)
    show "co_usedCount q = int (coupon_uses (co_id q) t)" if "q \<in> set (coupons t)" for q
      unfolding uses [OF kept(2) [OF that]] using ok kept(1) [OF that] by (simp add: coupons_ok_def)
    show "co_usedCount q \<le> m" if "q \<in> set (coupons t)" "co_maxUses q = Some m" for q m
      using ok kept(1) [OF that(1)] that(2) unfolding coupons_ok_def by blast
    show "distinct (map co_id (coupons t))"
      using ok by (simp add: coupons_ok_def t distinct_map_filter)
    show "cr_couponId r \<in> co_id ` set (coupons t)" if "r \<in> set (couponRedemptions t)" for r
    proof -
      from that have r: "r \<in> set (couponRedemptions s)" "cr_couponId r \<noteq> i" by (auto simp: t)
      with ok obtain q where "q \<in> set (coupons s)" "cr_couponId r = co_id q"
        by (auto simp: coupons_ok_def)
      with r(2) show ?thesis by (simp add: t)
    qed
  qed
qed

text \<open>
  C6. A coupon is never used more often than its limit, and its counter is the number of recorded
  uses, over any run of coupons created with a limit of at least one, redeemed and deleted.
\<close>

theorem coupon_within_limit:
  assumes "coupon_step\<^sup>*\<^sup>* s t" and "coupons_ok s" and "c \<in> set (coupons t)"
  shows "co_usedCount c = int (coupon_uses (co_id c) t) \<and>
    (\<forall>m. co_maxUses c = Some m \<longrightarrow> int (coupon_uses (co_id c) t) \<le> m)"
proof -
  have step: "coupons_ok u" if "coupon_step v u" "coupons_ok v" for u v
    using that
    by cases (auto intro: preservesD [OF coupons_ok_create] preservesD [OF coupons_ok_redeem]
        preservesD [OF coupons_ok_delete])
  have "coupons_ok t"
    using assms(1) by (induction rule: rtranclp_induct) (auto intro: step assms(2))
  with assms(3) show ?thesis by (auto simp: coupons_ok_def)
qed

definition demo_used :: db where
  "demo_used = snd (redeemCoupon demo_env ''o1'' ''welcome'' ''a1''
     (snd (redeemCoupon demo_env ''o1'' ''welcome'' ''a1'' demo_shop)))"

theorem coupon_within_limit_witness:
  "\<exists>c. c \<in> set (coupons demo_used) \<and> co_maxUses c = Some 1 \<and>
     int (coupon_uses (co_id c) demo_used) = 1 \<and> int (coupon_uses (co_id c) demo_used) \<le> 1"
proof -
  have run: "coupon_step\<^sup>*\<^sup>* demo_shop demo_used"
    unfolding demo_used_def
    by (rule rtranclp.rtrancl_into_rtrancl [OF r_into_rtranclp]) (rule cp_redeem)+
  have ok: "coupons_ok demo_shop"
    by (simp add: coupons_ok_def coupon_uses_def count_rows_def demo_shop_def demo_coupon_def
        demo_db_def empty_db_def)
  have "map (\<lambda>c. (co_maxUses c, co_usedCount c)) (coupons demo_used) = [(Some 1, 1)]" by code_simp
  then obtain c where c: "c \<in> set (coupons demo_used)" "co_maxUses c = Some 1" "co_usedCount c = 1"
    by auto
  from coupon_within_limit [OF run ok c(1)] c show ?thesis by auto
qed

end
