(* ===== verification/WalletFacts.thy ===== *)
theory WalletFacts
  imports Wallet Reachable
begin

text \<open>
  The wallet keeps the contract of \<^verbatim>\<open>Book\<close>: its balance is the sum of its transactions, never below
  zero and within the column, whatever mix of credits and debits ran and failed.
\<close>

section \<open>What the requests allow\<close>

text \<open>\<open>loyaltyWalletAdjustSchema\<close>: the body of a wallet adjustment.\<close>

definition loyaltyWalletAdjustSchema :: "string \<Rightarrow> int \<Rightarrow> string option \<Rightarrow> bool" where
  "loyaltyWalletAdjustSchema type cents desc \<longleftrightarrow>
     type \<in> {''CREDIT'', ''DEBIT'', ''REFUND'', ''CASHBACK'', ''BONUS'', ''GIFT''} \<and> 1 \<le> cents \<and>
     (case desc of None \<Rightarrow> True | Some d \<Rightarrow> length d \<le> 500)"

record wallet_op =
  wo_env :: env
  wo_org :: uuid
  wo_wallet :: uuid
  wo_type :: string
  wo_cents :: int
  wo_desc :: "string option"

definition wallet_step :: "wallet_op \<Rightarrow> db \<Rightarrow> error + db" where
  "wallet_step x s = (if loyaltyWalletAdjustSchema (wo_type x) (wo_cents x) (wo_desc x)
     then tx_step (\<lambda>x. adjust_wallet_tx (wo_env x) (wo_org x) (wo_wallet x) (wo_type x) (wo_cents x)
            (wo_desc x)) x s
     else Inl (BadRequest ''Validation failed''))"

section \<open>Balance and entries\<close>

fun the_only :: "'a list \<Rightarrow> 'a option" where
  "the_only [x] = Some x"
| "the_only _ = None"

lemma the_only_Some: "the_only xs = Some x \<longleftrightarrow> xs = [x]"
  by (cases xs rule: the_only.cases) auto

definition wallet_row_of :: "uuid \<times> uuid \<Rightarrow> db \<Rightarrow> wallet_row option" where
  "wallet_row_of k s = the_only (filter (wallet_key (fst k) (snd k)) (wallets s))"

definition wallet_bal :: "uuid \<times> uuid \<Rightarrow> db \<Rightarrow> int option" where
  "wallet_bal k s = map_option wa_balanceCents (wallet_row_of k s)"

definition wallet_entries :: "uuid \<times> uuid \<Rightarrow> db \<Rightarrow> int list" where
  "wallet_entries k s = map wt_amountCents
     (filter (\<lambda>t. wt_orgId t = fst k \<and> wt_walletId t = snd k) (walletTxs s))"

definition move_wallet :: "int \<Rightarrow> wallet_row \<Rightarrow> wallet_row" where
  "move_wallet d w = w\<lparr>wa_balanceCents := wa_balanceCents w + d\<rparr>"

lemma move_wallet_simps [simp]:
  "wallet_key org i (move_wallet d w) = wallet_key org i w"
  "wa_balanceCents (move_wallet d w) = wa_balanceCents w + d"
  by (simp_all add: move_wallet_def wallet_key_def)

lemma filter_update_rows:
  assumes "\<And>x. K (f x) = K x"
  shows "filter K (update_rows P f xs) = update_rows P f (filter K xs)"
  by (induction xs) (auto simp: update_rows_def assms)

lemma wallet_row_of_moved:
  "wallet_row_of k (s\<lparr>wallets := update_rows P (move_wallet d) (wallets s)\<rparr>) =
   map_option (\<lambda>w. if P w then move_wallet d w else w) (wallet_row_of k s)"
  unfolding wallet_row_of_def
  by (cases "filter (wallet_key (fst k) (snd k)) (wallets s)" rule: the_only.cases)
    (simp_all add: filter_update_rows, simp_all add: update_rows_def)

lemma wallet_row_of_filter:
  "wallet_row_of k s = Some w \<Longrightarrow> filter (wallet_key (fst k) (snd k)) (wallets s) = [w]"
  by (simp add: wallet_row_of_def the_only_Some)

lemma wallet_row_of_only:
  assumes "wallet_row_of (org, i) s = Some w" and "v \<in> set (wallets s)" and "wallet_key org i v"
  shows "v = w"
proof -
  have "v \<in> set (filter (wallet_key org i) (wallets s))" using assms(2,3) by simp
  also have "filter (wallet_key org i) (wallets s) = [w]" using wallet_row_of_filter [OF assms(1)] by simp
  finally show ?thesis by simp
qed

section \<open>One adjustment\<close>

text \<open>The balance and the new entry move by the same amount, and both checks were passed.\<close>

lemma debit_wallet_Inr:
  assumes "debit_wallet org i cents s = Inr (w, t)"
  shows "t = s\<lparr>wallets := update_rows (\<lambda>w. wallet_key org i w \<and> cents \<le> wa_balanceCents w)
      (move_wallet (- cents)) (wallets s)\<rparr>"
    and "\<exists>v\<in>set (wallets s). wallet_key org i v \<and> cents \<le> wa_balanceCents v"
  using assms
  by (auto simp: debit_wallet_def tx_update_many_def tx_find_or_throw_def tx_defs move_wallet_def
      [abs_def] count_rows_zero_iff split: if_splits option.splits)

lemma credit_wallet_Inr:
  assumes "credit_wallet org i cents s = Inr (w, t)"
  obtains v where "List.find (wallet_key org i) (wallets s) = Some v"
    and "int4_ok (wa_balanceCents v + cents)"
    and "t = s\<lparr>wallets := update_rows (wallet_key org i) (move_wallet cents) (wallets s)\<rparr>"
  using assms
  by (auto simp: credit_wallet_def tx_update_one_def tx_defs move_wallet_def [abs_def]
      split: if_splits option.splits)

definition wallet_posted ::
  "uuid \<times> uuid \<Rightarrow> int \<Rightarrow> (wallet_row \<Rightarrow> bool) \<Rightarrow> db \<Rightarrow> db \<Rightarrow> bool" where
  "wallet_posted k d P s t \<longleftrightarrow>
     wallets t = update_rows P (move_wallet d) (wallets s) \<and>
     (\<exists>r. walletTxs t = walletTxs s @ [r] \<and> wt_orgId r = fst k \<and> wt_walletId r = snd k \<and>
        wt_amountCents r = d)"

lemma adjust_wallet_Inr:
  assumes run: "adjust_wallet_tx e org i type cents desc s = Inr (w, t)"
  obtains (debit) "type = ''DEBIT''"
      "wallet_posted (org, i) (- cents) (\<lambda>w. wallet_key org i w \<and> cents \<le> wa_balanceCents w) s t"
      "\<exists>v\<in>set (wallets s). wallet_key org i v \<and> cents \<le> wa_balanceCents v"
    | (credit) v where "type \<noteq> ''DEBIT''" "wallet_posted (org, i) cents (wallet_key org i) s t"
      "v \<in> set (wallets s)" "wallet_key org i v" "int4_ok (wa_balanceCents v + cents)"
proof (cases "type = ''DEBIT''")
  case True
  from run True obtain v s1 where d: "debit_wallet org i cents s = Inr (v, s1)"
    and t: "wallets t = wallets s1" "walletTxs t = walletTxs s1 @ [\<lparr>wt_orgId = org, wt_walletId = i,
        wt_type = type, wt_amountCents = - cents, wt_balanceAfter = wa_balanceCents v,
        wt_description = desc, wt_sourceType = Some ''manual'', wt_createdAt = en_now e\<rparr>]"
    by (auto simp: adjust_wallet_tx_def tx_bind_Inr_iff tx_modify_def tx_find_or_throw_def
        split: option.splits)
  show thesis
    using debit_wallet_Inr [OF d] t by (intro debit True) (auto simp: wallet_posted_def)
next
  case False
  from run False obtain v s1 where d: "credit_wallet org i cents s = Inr (v, s1)"
    and t: "wallets t = wallets s1" "walletTxs t = walletTxs s1 @ [\<lparr>wt_orgId = org, wt_walletId = i,
        wt_type = type, wt_amountCents = cents, wt_balanceAfter = wa_balanceCents v,
        wt_description = desc, wt_sourceType = Some ''manual'', wt_createdAt = en_now e\<rparr>]"
    by (auto simp: adjust_wallet_tx_def tx_bind_Inr_iff tx_modify_def tx_find_or_throw_def
        split: option.splits)
  obtain u where u: "List.find (wallet_key org i) (wallets s) = Some u"
    and ok: "int4_ok (wa_balanceCents u + cents)"
    and s1: "s1 = s\<lparr>wallets := update_rows (wallet_key org i) (move_wallet cents) (wallets s)\<rparr>"
    by (rule credit_wallet_Inr [OF d]) (rule that)
  from find_SomeD [OF u] show thesis
    using t ok s1 by (intro credit [of u] False) (auto simp: wallet_posted_def)
qed

lemma wallet_step_effect:
  assumes step: "wallet_step x s = Inr t" and bal: "wallet_bal k s = Some b"
  obtains (same) "wallet_bal k t = Some b" "wallet_entries k t = wallet_entries k s"
    | (moved) d where "wallet_bal k t = Some (b + d)" "wallet_entries k t = wallet_entries k s @ [d]"
      "0 \<le> b + d \<or> 0 \<le> d" "d \<le> 0 \<or> int4_ok (b + d)"
proof -
  let ?org = "wo_org x" and ?i = "wo_wallet x" and ?c = "wo_cents x"
  from step obtain w where pos: "1 \<le> ?c"
    and run: "adjust_wallet_tx (wo_env x) ?org ?i (wo_type x) ?c (wo_desc x) s = Inr (w, t)"
    by (auto simp: wallet_step_def tx_step_Inr_iff loyaltyWalletAdjustSchema_def split: if_splits)
  from bal obtain v where v: "wallet_row_of k s = Some v" "wa_balanceCents v = b"
    by (auto simp: wallet_bal_def)
  have vk: "wallet_key (fst k) (snd k) v" "v \<in> set (wallets s)"
    using arg_cong [OF wallet_row_of_filter [OF v(1)], of set] by auto
  have kv: "wallet_key ?org ?i v \<longleftrightarrow> k = (?org, ?i)"
    using vk(1) by (auto simp: wallet_key_def prod_eq_iff)
  have bal_t: "wallet_bal k t = Some (if P v then b + d else b)"
    and ent_t: "wallet_entries k t = wallet_entries k s @ (if k = (?org, ?i) then [d] else [])"
    if "wallet_posted (?org, ?i) d P s t" for d P
  proof -
    have "wallet_row_of k t = map_option (\<lambda>w. if P w then move_wallet d w else w) (wallet_row_of k s)"
      using that wallet_row_of_moved [of k P d s] by (simp add: wallet_posted_def wallet_row_of_def)
    then show "wallet_bal k t = Some (if P v then b + d else b)" using v by (simp add: wallet_bal_def)
    show "wallet_entries k t = wallet_entries k s @ (if k = (?org, ?i) then [d] else [])"
      using that by (auto simp: wallet_posted_def wallet_entries_def prod_eq_iff)
  qed
  from run show thesis
  proof (cases rule: adjust_wallet_Inr)
    case debit
    show thesis
    proof (cases "k = (?org, ?i)")
      case True
      from debit(3) v(1) True have "?c \<le> b" using wallet_row_of_only v(2) by blast
      then show thesis
        using moved [of "- ?c"] bal_t [OF debit(2)] ent_t [OF debit(2)] True kv v(2) pos by simp
    next
      case False
      then show thesis using same bal_t [OF debit(2)] ent_t [OF debit(2)] kv by simp
    qed
  next
    case (credit u)
    show thesis
    proof (cases "k = (?org, ?i)")
      case True
      from credit(3,4) v(1) True have "u = v" using wallet_row_of_only by blast
      then show thesis
        using moved [of ?c] bal_t [OF credit(2)] ent_t [OF credit(2)] True kv v(2) pos credit(5)
        by simp
    next
      case False
      then show thesis using same bal_t [OF credit(2)] ent_t [OF credit(2)] kv by simp
    qed
  qed
qed

interpretation wb: bounded_book wallet_step wallet_bal wallet_entries 2147483647
proof unfold_locales
  fix x s s' k b
  assume step: "wallet_step x s = Inr s'" and bal: "wallet_bal k s = Some b"
  show "\<exists>ds. wallet_entries k s' = wallet_entries k s @ ds \<and> wallet_bal k s' = Some (b + sum_list ds)"
    using step bal by (cases rule: wallet_step_effect) (auto intro: exI [of _ "[]"])
  show "0 \<le> b'" if "0 \<le> b" "wallet_bal k s' = Some b'" for b'
    using step bal by (cases rule: wallet_step_effect) (use that in auto)
  show "b' \<le> 2147483647" if "b \<le> 2147483647" "wallet_bal k s' = Some b'" for b'
    using step bal by (cases rule: wallet_step_effect) (use that in \<open>auto simp: int4_ok_def\<close>)
qed

section \<open>Properties\<close>

text \<open>
  C7. However many wallet adjustments run, and whichever of them fail, the balance of a wallet stays
  the sum of its transactions, between zero and the largest value of its column.
\<close>

theorem wallet_runs_reconcile:
  assumes "wallet_bal (org, i) s = Some b" and "b = sum_list (wallet_entries (org, i) s)"
    and "0 \<le> b" and "b \<le> 2147483647"
  shows "\<exists>b'. wallet_bal (org, i) (run_ops wallet_step ops s) = Some b' \<and>
    b' = sum_list (wallet_entries (org, i) (run_ops wallet_step ops s)) \<and> 0 \<le> b' \<and> b' \<le> 2147483647"
  using wb.run_reconciled [of "(org, i)" s ops] wb.run_nonneg [OF assms(1,3), of ops]
    wb.run_bounded [OF assms(1,4), of ops] assms(1,2) by auto

definition demo_wallet :: db where
  "demo_wallet = empty_db\<lparr>wallets := [\<lparr>wa_id = ''w1'', wa_orgId = ''o1'', wa_accountId = ''a1'',
     wa_balanceCents = 0\<rparr>]\<rparr>"

definition demo_wallet_op :: "string \<Rightarrow> int \<Rightarrow> wallet_op" where
  "demo_wallet_op type n = \<lparr>wo_env = demo_env, wo_org = ''o1'', wo_wallet = ''w1'', wo_type = type,
     wo_cents = n, wo_desc = None\<rparr>"

definition demo_wallet_run :: db where
  "demo_wallet_run = run_ops wallet_step [demo_wallet_op ''CREDIT'' 500, demo_wallet_op ''DEBIT'' 900,
     demo_wallet_op ''DEBIT'' 120] demo_wallet"

theorem wallet_runs_reconcile_witness:
  "wallet_bal (''o1'', ''w1'') demo_wallet_run = Some 380 \<and>
   sum_list (wallet_entries (''o1'', ''w1'') demo_wallet_run) = 380"
proof -
  have start: "wallet_bal (''o1'', ''w1'') demo_wallet = Some 0"
    "0 = sum_list (wallet_entries (''o1'', ''w1'') demo_wallet)" by code_simp+
  have "wallet_bal (''o1'', ''w1'') demo_wallet_run = Some 380" by code_simp
  then show ?thesis
    using wallet_runs_reconcile [OF start, of "[demo_wallet_op ''CREDIT'' 500,
      demo_wallet_op ''DEBIT'' 900, demo_wallet_op ''DEBIT'' 120]"]
    by (simp add: demo_wallet_run_def)
qed

end
