(* ===== verification/DispatchFacts.thy ===== *)
theory DispatchFacts
  imports Campaigns Lifecycle PointsProps
begin

text \<open>
  What the campaign components promise: however dispatchers, triggers and the notification worker
  interleave, a send is handed to the notification service at most once; a dispatched campaign has
  no queued send left; nobody is written to without consent.
\<close>

section \<open>What has been handed over\<close>

fun is_send :: "uuid \<Rightarrow> uuid \<Rightarrow> effect \<Rightarrow> bool" where
  "is_send org i (SendNotification org' _ _ _ _ _ j _) \<longleftrightarrow> org' = org \<and> j = i"
| "is_send org i _ \<longleftrightarrow> False"

definition handed :: "uuid \<Rightarrow> uuid \<Rightarrow> db \<Rightarrow> nat" where
  "handed org i s = count_rows (is_send org i) (effects s)"

definition open_send :: "uuid \<Rightarrow> uuid \<Rightarrow> db \<Rightarrow> bool" where
  "open_send org i s \<longleftrightarrow> (\<exists>n\<in>set (sends s). send_key org i n \<and> sn_status n = ''queued'')"

definition known_send :: "uuid \<Rightarrow> db \<Rightarrow> bool" where
  "known_send i s \<longleftrightarrow> (\<exists>n\<in>set (sends s). sn_id n = i)"

text \<open>No row is queued again, none disappears, nothing is handed over.\<close>

definition advances :: "db \<Rightarrow> db \<Rightarrow> bool" where
  "advances s t \<longleftrightarrow> (\<forall>org i. open_send org i t \<longrightarrow> open_send org i s) \<and>
     (\<forall>i. known_send i s \<longrightarrow> known_send i t) \<and> (\<forall>org i. handed org i t = handed org i s)"

lemma advances_refl [intro]: "advances s s"
  by (simp add: advances_def)

lemma advances_update:
  assumes "advances r s" and "\<And>n. sn_id (f n) = sn_id n" and "\<And>n. sn_status (f n) \<noteq> ''queued''"
  shows "advances r (sends_update (update_rows P f) s)"
proof -
  let ?t = "sends_update (update_rows P f) s"
  have "open_send org i s" if "open_send org i ?t" for org i
  proof -
    from that obtain n where n: "n \<in> set (sends s)" "send_key org i (if P n then f n else n)"
        "sn_status (if P n then f n else n) = ''queued''"
      by (auto simp: open_send_def set_update_rows)
    then have "\<not> P n" using assms(3) by metis
    with n show ?thesis by (auto simp: open_send_def)
  qed
  moreover have "known_send i ?t" if "known_send i s" for i
  proof -
    from that obtain n where "n \<in> set (sends s)" "sn_id n = i" by (auto simp: known_send_def)
    then show ?thesis unfolding known_send_def
      by (intro bexI [of _ "if P n then f n else n"]) (auto simp: set_update_rows assms(2))
  qed
  moreover have "handed org i ?t = handed org i s" for org i by (simp add: handed_def)
  ultimately show ?thesis using assms(1) unfolding advances_def by metis
qed

lemma advances_frame [pres_intros]: "blind campaigns_update (advances r)"
  by (simp add: blind_def advances_def open_send_def known_send_def handed_def)

lemma advances_update_one:
  assumes "\<And>n. sn_id (f n) = sn_id n" and "\<And>n. sn_status (f n) \<noteq> ''queued''"
  shows "preserves_tx (advances r) (tx_update_one sends sends_update P f)"
  by (rule preserves_txI)
    (auto simp: tx_update_one_def split: option.splits intro!: advances_update [OF _ assms])

lemma advances_update_many:
  assumes "\<And>n. sn_id (f n) = sn_id n" and "\<And>n. sn_status (f n) \<noteq> ''queued''"
  shows "preserves_tx (advances r) (tx_update_many sends sends_update P f)"
  by (rule preserves_txI) (auto simp: tx_update_many_def intro!: advances_update [OF _ assms])

lemma mark_simps [simp]:
  "sn_id (mark e st err n) = sn_id n" "sn_orgId (mark e st err n) = sn_orgId n"
  "sn_status (mark e st err n) = st" "sn_campaignId (mark e st err n) = sn_campaignId n"
  by (simp_all add: mark_def)

lemma advances_markSend: "st \<noteq> ''queued'' \<Longrightarrow> preserves (advances r) (markSend e org i st err)"
  unfolding markSend_def by (intro pres_intros advances_update_one) simp_all

lemma advances_finalize: "preserves (advances r) (finalizeSendFromNotification e org i ok err)"
  unfolding finalizeSendFromNotification_def bump_sentCount_def
  by (intro pres_intros advances_update_many) simp_all

section \<open>Interleaved dispatchers\<close>

text \<open>
  A state of the system is the database and the claims: the sends that a dispatcher has claimed and
  not dealt with yet. Dispatchers claim a send and dispatch a claimed one; at any time sends are
  queued, marked as done, reported by the worker, and everything else changes.
\<close>

type_synonym claims = "(uuid \<times> uuid) list"

inductive dispatch_step :: "db \<times> claims \<Rightarrow> db \<times> claims \<Rightarrow> bool" where
  ds_claim: "claimSend org i s = (Inr True, t) \<Longrightarrow> dispatch_step (s, cs) (t, (org, i) # cs)"
| ds_busy: "claimSend org i s = (Inr False, t) \<Longrightarrow> dispatch_step (s, cs) (t, cs)"
| ds_dispatch: "(org, i) \<in> set cs \<Longrightarrow>
    dispatch_step (s, cs) (snd (dispatch_claimed e org c i cu s), remove1 (org, i) cs)"
| ds_mark: "st \<noteq> ''queued'' \<Longrightarrow> dispatch_step (s, cs) (snd (markSend e org i st err s), cs)"
| ds_report: "dispatch_step (s, cs) (snd (finalizeSendFromNotification e org i ok err s), cs)"
| ds_queue: "insert_send n s = Inr (u, t) \<Longrightarrow> dispatch_step (s, cs) (t, cs)"
| ds_other: "sends t = sends s \<Longrightarrow> effects t = effects s \<Longrightarrow> dispatch_step (s, cs) (t, cs)"

definition tokens :: "uuid \<Rightarrow> uuid \<Rightarrow> db \<times> claims \<Rightarrow> nat" where
  "tokens org i p = handed org i (fst p) + count_list (snd p) (org, i)"

definition handed_ok :: "db \<times> claims \<Rightarrow> bool" where
  "handed_ok p \<longleftrightarrow> (\<forall>org i. tokens org i p \<le> 1 \<and>
     (tokens org i p = 1 \<longrightarrow> known_send i (fst p) \<and> \<not> open_send org i (fst p)))"

lemma handed_okD:
  assumes "handed_ok p"
  shows "tokens org i p \<le> 1" and "tokens org i p = 1 \<Longrightarrow> known_send i (fst p)"
    and "tokens org i p = 1 \<Longrightarrow> \<not> open_send org i (fst p)"
  using assms by (auto simp: handed_ok_def)

lemma handed_ok_advances:
  assumes "handed_ok (s, cs)" and "advances s t"
  shows "handed_ok (t, cs)"
  using assms by (fastforce simp: handed_ok_def tokens_def advances_def)

text \<open>Claiming succeeds only on a queued send and leaves none.\<close>

lemma claimSend_cases:
  assumes "claimSend org i s = (Inr b, t)"
  shows "b \<longleftrightarrow> open_send org i s" and "advances s t" and "\<not> open_send org i t"
proof -
  let ?P = "\<lambda>n. send_key org i n \<and> sn_status n = ''queued''"
  let ?f = "\<lambda>n. n\<lparr>sn_status := ''sending''\<rparr>"
  have t: "t = sends_update (update_rows ?P ?f) s" and b: "b \<longleftrightarrow> 0 < count_rows ?P (sends s)"
    using assms
    by (auto simp: claimSend_def svc_bind_Inr_iff with_tenant_Inr_iff tx_update_many_def svc_return_def)
  have "0 < count_rows ?P (sends s) \<longleftrightarrow> \<not> (\<forall>n\<in>set (sends s). \<not> ?P n)"
    unfolding count_rows_zero_iff [symmetric] by simp
  then show "b \<longleftrightarrow> open_send org i s" unfolding b open_send_def by blast
  show "advances s t" unfolding t by (rule advances_update [OF advances_refl]) simp_all
  have "sn_status (if ?P n then ?f n else n) \<noteq> ''queued''" if "send_key org i (if ?P n then ?f n else n)" for n
    using that by (auto simp: send_key_def split: if_splits)
  then show "\<not> open_send org i t"
    unfolding t open_send_def by (auto simp: set_update_rows)
qed

text \<open>Dispatching a claimed send marks it, or hands it over, or fails and does nothing.\<close>

definition handled :: "env \<Rightarrow> uuid \<Rightarrow> campaign_row \<Rightarrow> uuid \<Rightarrow> customer_row \<Rightarrow> db \<Rightarrow> db \<Rightarrow> bool" where
  "handled e org c i cu s t \<longleftrightarrow> t = s \<or>
     (\<exists>st err. st \<noteq> ''queued'' \<and> t = snd (markSend e org i st err s)) \<or>
     (\<exists>ch to subj body. t = s\<lparr>effects := effects s @
        [SendNotification org ch to subj body (ca_id c) i (cu_id cu)]\<rparr>)"

lemma handled_markSend: "st \<noteq> ''queued'' \<Longrightarrow> handled e org c i cu s (snd (markSend e org i st err s))"
  unfolding handled_def by blast

lemma handled_none: "handled e org c i cu s s"
  by (simp add: handled_def)

lemma handled_sent: "handled e org c i cu s (s\<lparr>effects := effects s @
    [SendNotification org ch to subj body (ca_id c) i (cu_id cu)]\<rparr>)"
  unfolding handled_def by blast

lemma snd_bind_return: "snd (svc_bind m (\<lambda>_. svc_return x) s) = snd (m s)"
  by (auto simp: svc_bind_def svc_return_def split: prod.splits sum.splits)

lemma handled_skip: "handled e org c i cu s (snd (skip_send e org i w s))"
  unfolding skip_send_def snd_bind_return by (rule handled_markSend) simp

lemma handled_notify: "handled e org c i cu s (snd (notify e org ch to c i (cu_id cu) s))"
  unfolding notify_def log_effect_def
  by (cases "en_notify e i") (simp_all add: svc_modify_def svc_throw_def handled_none handled_sent)

lemma handled_consented:
  "handled e org c i cu s (snd (consented_send e org c i cu ch cst w1 ad w2 s))"
  unfolding consented_send_def
  by (simp add: handled_skip handled_notify snd_bind_return)

lemma handled_dispatch: "handled e org c i cu s (snd (dispatch_claimed e org c i cu s))"
  unfolding dispatch_claimed_def Let_def
  by (simp add: handled_skip handled_consented handled_markSend snd_bind_return)

lemma count_list_remove1: "x \<in> set xs \<Longrightarrow> count_list xs x = Suc (count_list (remove1 x xs) x)"
  by (induction xs) auto

lemma count_list_remove1_other: "x \<noteq> y \<Longrightarrow> count_list (remove1 y xs) x = count_list xs x"
  by (induction xs) auto

text \<open>Every step keeps at most one token, handed over or claimed, per send.\<close>

lemma handed_ok_claim:
  assumes ok: "handed_ok (s, cs)" and run: "claimSend org i s = (Inr True, t)"
  shows "handed_ok (t, (org, i) # cs)"
proof -
  note cl = claimSend_cases [OF run]
  have fresh: "tokens org i (s, cs) = 0"
    using handed_okD [OF ok, of org i] cl(1) by (cases "tokens org i (s, cs)") auto
  have kn: "known_send i t"
    using cl(1,2) by (auto simp: advances_def open_send_def known_send_def send_key_def)
  have tok: "tokens o2 j (t, (org, i) # cs) = tokens o2 j (s, cs) + (if o2 = org \<and> j = i then 1 else 0)"
    for o2 j using cl(2) by (auto simp: tokens_def advances_def)
  have t_ok: "handed_ok (t, cs)" using handed_ok_advances [OF ok cl(2)] .
  have eq: "tokens o2 j (t, cs) = tokens o2 j (s, cs)" for o2 j
    using cl(2) by (simp add: tokens_def advances_def)
  show ?thesis
    unfolding handed_ok_def
  proof (intro allI)
    fix o2 j
    show "tokens o2 j (t, (org, i) # cs) \<le> 1 \<and> (tokens o2 j (t, (org, i) # cs) = 1 \<longrightarrow>
        known_send j (fst (t, (org, i) # cs)) \<and> \<not> open_send o2 j (fst (t, (org, i) # cs)))"
      using handed_okD [OF t_ok, of o2 j] fresh kn cl(3) unfolding tok eq
      by (cases "o2 = org \<and> j = i") auto
  qed
qed

lemma tokens_remove1:
  "(org, i) \<in> set cs \<Longrightarrow>
   tokens o2 j (s, cs) = tokens o2 j (s, remove1 (org, i) cs) + (if o2 = org \<and> j = i then 1 else 0)"
  using count_list_remove1 [of "(org, i)" cs] count_list_remove1_other [of "(o2, j)" "(org, i)" cs]
  by (auto simp: tokens_def)

lemma handed_ok_release:
  assumes ok: "handed_ok (s, cs)" and "(org, i) \<in> set cs"
  shows "handed_ok (s, remove1 (org, i) cs)"
  unfolding handed_ok_def
proof (intro allI)
  fix o2 j
  show "tokens o2 j (s, remove1 (org, i) cs) \<le> 1 \<and> (tokens o2 j (s, remove1 (org, i) cs) = 1 \<longrightarrow>
      known_send j (fst (s, remove1 (org, i) cs)) \<and> \<not> open_send o2 j (fst (s, remove1 (org, i) cs)))"
    using handed_okD [OF ok, of o2 j] tokens_remove1 [OF assms(2), of o2 j s]
    by (cases "o2 = org \<and> j = i") auto
qed

lemma handed_ok_notified:
  assumes ok: "handed_ok (s, cs)" and held: "(org, i) \<in> set cs"
    and t: "t = s\<lparr>effects := effects s @ [SendNotification org ch to subj body cid i cust]\<rparr>"
  shows "handed_ok (t, remove1 (org, i) cs)"
proof -
  have "tokens o2 j (t, remove1 (org, i) cs) = tokens o2 j (s, cs)" for o2 j
    unfolding tokens_remove1 [OF held, of o2 j s]
    by (simp add: tokens_def handed_def count_rows_def t)
  then show ?thesis
    using ok by (simp add: handed_ok_def t open_send_def known_send_def)
qed

lemma handed_ok_insert:
  assumes ok: "handed_ok (s, cs)" and run: "insert_send n s = Inr (u, t)"
  shows "handed_ok (t, cs)"
proof -
  from run have new: "\<not> known_send (sn_id n) s" and t: "t = s\<lparr>sends := sends s @ [n]\<rparr>"
    by (auto simp: insert_send_def tx_defs known_send_def split: if_splits)
  have "tokens o2 j (t, cs) = tokens o2 j (s, cs)" for o2 j by (simp add: tokens_def handed_def t)
  moreover have "tokens o2 j (s, cs) = 1 \<Longrightarrow> open_send o2 j t \<Longrightarrow> False" for o2 j
    using handed_okD(2,3) [OF ok, of o2 j] new by (auto simp: t open_send_def send_key_def)
  moreover have "known_send j s \<Longrightarrow> known_send j t" for j by (auto simp: known_send_def t)
  ultimately show ?thesis using ok unfolding handed_ok_def by auto
qed

lemma dispatch_step_keeps:
  assumes "dispatch_step p q" and "handed_ok p"
  shows "handed_ok q"
  using assms
proof cases
  case (ds_dispatch org i cs s e c cu)
  have ok: "handed_ok (s, cs)" using assms(2) ds_dispatch(1) by simp
  from handled_dispatch [of e org c i cu s] show ?thesis
    unfolding ds_dispatch(2) handled_def
  proof (elim disjE exE conjE)
    assume "snd (dispatch_claimed e org c i cu s) = s"
    then show "handed_ok (snd (dispatch_claimed e org c i cu s), remove1 (org, i) cs)"
      using handed_ok_release [OF ok ds_dispatch(3)] by simp
  next
    fix st err assume "st \<noteq> ''queued''" "snd (dispatch_claimed e org c i cu s) = snd (markSend e org i st err s)"
    then show "handed_ok (snd (dispatch_claimed e org c i cu s), remove1 (org, i) cs)"
      using handed_ok_release [OF ok ds_dispatch(3)] handed_ok_advances
        preservesD [OF advances_markSend advances_refl] by metis
  next
    fix ch to subj body assume "snd (dispatch_claimed e org c i cu s) = s\<lparr>effects := effects s @
        [SendNotification org ch to subj body (ca_id c) i (cu_id cu)]\<rparr>"
    then show "handed_ok (snd (dispatch_claimed e org c i cu s), remove1 (org, i) cs)"
      by (rule handed_ok_notified [OF ok ds_dispatch(3)])
  qed
next
  case (ds_other t s cs)
  then show ?thesis using assms(2)
    by (simp add: handed_ok_def tokens_def handed_def open_send_def known_send_def)
qed (use assms(2) in \<open>auto intro: handed_ok_claim handed_ok_insert
      handed_ok_advances [OF _ claimSend_cases(2)]
      handed_ok_advances [OF _ preservesD [OF advances_markSend advances_refl]]
      handed_ok_advances [OF _ preservesD [OF advances_finalize advances_refl]]\<close>)

section \<open>The methods are runs of these steps\<close>

definition runs_to :: "db \<Rightarrow> claims \<Rightarrow> db \<Rightarrow> bool" where
  "runs_to r cs s \<longleftrightarrow> dispatch_step\<^sup>*\<^sup>* (r, cs) (s, cs)"

lemma runs_to_refl: "runs_to r cs r"
  by (simp add: runs_to_def)

lemma runs_to_step: "runs_to r cs s \<Longrightarrow> dispatch_step (s, cs) (t, cs) \<Longrightarrow> runs_to r cs t"
  unfolding runs_to_def by (rule rtranclp.rtrancl_into_rtrancl)

lemma runs_to_other:
  "runs_to r cs s \<Longrightarrow> sends t = sends s \<Longrightarrow> effects t = effects s \<Longrightarrow> runs_to r cs t"
  by (erule runs_to_step) (rule ds_other)

lemma runs_to_frames [pres_intros]:
  "blind accounts_update (runs_to r cs)" "cache_blind (runs_to r cs)"
  "blind programs_update (runs_to r cs)" "blind tiers_update (runs_to r cs)"
  "blind earnRules_update (runs_to r cs)" "blind wallets_update (runs_to r cs)"
  "blind campaigns_update (runs_to r cs)"
  unfolding blind_def by (auto elim!: runs_to_other)

lemma runs_to_insert [pres_intros]: "preserves_tx (runs_to r cs) (insert_send n)"
  by (rule preserves_txI) (rule runs_to_step, assumption, erule ds_queue)

lemma runs_to_mark: "st \<noteq> ''queued'' \<Longrightarrow> preserves (runs_to r cs) (markSend e org i st err)"
  by (rule preservesI) (rule runs_to_step, assumption, erule ds_mark)

lemma runs_to_report [pres_intros]:
  "preserves (runs_to r cs) (finalizeSendFromNotification e org i ok err)"
  by (rule preservesI) (rule runs_to_step, assumption, rule ds_report)

lemma runs_to_dispatchOne [pres_intros]: "preserves (runs_to r cs) (dispatchOne e org c i cu)"
proof (rule preservesI)
  fix s assume s: "runs_to r cs s"
  obtain b t where claim: "claimSend org i s = (Inr b, t)"
    by (auto simp: claimSend_def svc_defs tx_update_many_def)
  show "runs_to r cs (snd (dispatchOne e org c i cu s))"
  proof (cases b)
    case True
    have "dispatch_step (s, cs) (t, (org, i) # cs)" using claim True by (simp add: ds_claim)
    then have "dispatch_step\<^sup>*\<^sup>* (r, cs) (t, (org, i) # cs)"
      by (rule rtranclp.rtrancl_into_rtrancl [OF s [unfolded runs_to_def]])
    moreover have "dispatch_step (t, (org, i) # cs) (snd (dispatch_claimed e org c i cu t), cs)"
      using ds_dispatch [of org i "(org, i) # cs" t e c cu] by simp
    ultimately have "runs_to r cs (snd (dispatch_claimed e org c i cu t))"
      unfolding runs_to_def by (rule rtranclp.rtrancl_into_rtrancl)
    then show ?thesis
      using claim True by (simp add: dispatchOne_def svc_bind_def)
  next
    case False
    have "runs_to r cs t" using claim False by (intro runs_to_step [OF s] ds_busy) simp
    then show ?thesis using claim False by (simp add: dispatchOne_def svc_defs)
  qed
qed

lemma runs_to_dispatch_all [pres_intros]: "preserves (runs_to r cs) (dispatch_all e org c ns d)"
proof (induction ns arbitrary: d)
  case Nil
  show ?case by (simp add: pres_intros)
next
  case (Cons n ns)
  show ?case
    by (cases n) (simp add: try_send_def, intro pres_intros runs_to_mark Cons.IH, simp)
qed

lemma runs_to_set_campaign [pres_intros]: "preserves (runs_to r cs) (set_campaign org cid f)"
  unfolding set_campaign_def by (intro pres_intros)

lemma runs_to_dispatchCampaign [pres_intros]: "preserves (runs_to r cs) (dispatchCampaign e org cid)"
  unfolding dispatchCampaign_def by (intro pres_intros)

lemma runs_to_sendToAccount [pres_intros]: "preserves (runs_to r cs) (sendToAccount e org cid acct)"
  unfolding sendToAccount_def bump_sentCount_def Let_def by (intro pres_intros runs_to_mark) simp

lemma runs_to_launch [pres_intros]: "preserves (runs_to r cs) (launch e org cid)"
  unfolding launch_def queue_sends_def by (intro pres_intros)

lemma runs_to_launch_all [pres_intros]: "preserves (runs_to r cs) (launch_all e org ds n)"
  by (induction ds arbitrary: n) (simp_all add: pres_intros)

lemma runs_to_due [pres_intros]: "preserves (runs_to r cs) (processDueScheduled e org)"
  unfolding processDueScheduled_def by (intro pres_intros)

lemma runs_to_fire_campaigns [pres_intros]:
  "preserves (runs_to r cs) (fire_campaigns e org trigger acct ds n)"
  by (induction ds arbitrary: n) (simp_all add: pres_intros)

lemma runs_to_fireTrigger [pres_intros]: "preserves (runs_to r cs) (fireTrigger e org trigger cust)"
  unfolding fireTrigger_def by (intro pres_intros frame_ensureAccount)

lemma runs_to_fire_all [pres_intros]: "preserves (runs_to r cs) (fire_all e org trigger ds n)"
  by (induction ds arbitrary: n) (simp_all add: pres_intros)

lemma runs_to_fire_abandoned [pres_intros]: "preserves (runs_to r cs) (fire_abandoned e org as n)"
  by (induction as arbitrary: n) (simp_all add: pres_intros split del: if_split)

lemma runs_to_daily [pres_intros]: "preserves (runs_to r cs) (processDailyTriggers e org)"
  unfolding processDailyTriggers_def processBirthdays_def processWinBack_def processAbandoned_def
  by (intro pres_intros)

lemma runs_to_create [pres_intros]:
  "preserves (runs_to r cs) (createCampaign e org d)"
  "preserves (runs_to r cs) (updateCampaign e org i q)"
  unfolding createCampaign_def updateCampaign_def
  by (intro pres_intros preserves_tx_modify; erule runs_to_other; simp)+

inductive campaign_call :: "db \<Rightarrow> db \<Rightarrow> bool" where
  cc_create: "campaign_call s (snd (createCampaign e org d s))"
| cc_update: "campaign_call s (snd (updateCampaign e org i q s))"
| cc_launch: "campaign_call s (snd (launch e org i s))"
| cc_due: "campaign_call s (snd (processDueScheduled e org s))"
| cc_dispatch: "campaign_call s (snd (dispatchCampaign e org i s))"
| cc_send: "campaign_call s (snd (sendToAccount e org i acct s))"
| cc_fire: "campaign_call s (snd (fireTrigger e org trigger cust s))"
| cc_daily: "campaign_call s (snd (processDailyTriggers e org s))"
| cc_report: "campaign_call s (snd (finalizeSendFromNotification e org i ok err s))"

lemma campaign_call_runs:
  assumes "campaign_call s t"
  shows "runs_to s cs t"
  using assms
  by cases (erule ssubst, rule preservesD [where I = "runs_to s cs"], intro pres_intros,
     rule runs_to_refl)+

lemma campaign_calls_run: "campaign_call\<^sup>*\<^sup>* s t \<Longrightarrow> runs_to s cs t"
proof (induction rule: rtranclp_induct)
  case base
  show ?case by (rule runs_to_refl)
next
  case (step t u)
  then show ?case using campaign_call_runs [of t u cs] unfolding runs_to_def by (metis rtranclp_trans)
qed

section \<open>Properties\<close>

text \<open>
  C8. However dispatchers, triggers and the notification worker interleave, a send is handed to the
  notification service at most once, and while a dispatcher holds a claim on it nobody has handed
  it over and nobody else holds a claim.
\<close>

theorem send_handed_over_once:
  assumes "dispatch_step\<^sup>*\<^sup>* (s, []) (t, cs)" and "handed_ok (s, [])"
  shows "handed org i t + count_list cs (org, i) \<le> 1"
proof -
  have "handed_ok (t, cs)"
    using assms(1) by (induction rule: rtranclp_induct) (auto intro: dispatch_step_keeps assms(2))
  from handed_okD(1) [OF this, of org i] show ?thesis by (simp add: tokens_def)
qed

definition demo_campaign :: campaign_row where
  "demo_campaign = \<lparr>ca_id = ''m1'', ca_orgId = ''o1'', ca_name = ''Spring'', ca_channel = ''SMS'',
     ca_trigger = ''MANUAL'', ca_status = ''active'', ca_subject = None, ca_body = Some ''Hi'',
     ca_segmentPreset = None, ca_scheduledAt = None, ca_sentCount = 0\<rparr>"

definition demo_outbox :: db where
  "demo_outbox = demo_db\<lparr>campaigns := [demo_campaign], sends := [\<lparr>sn_id = ''n1'', sn_orgId = ''o1'',
     sn_campaignId = ''m1'', sn_accountId = ''a1'', sn_status = ''queued'', sn_sentAt = None,
     sn_error = None, sn_createdAt = 0\<rparr>]\<rparr>"

lemma demo_outbox_ok: "handed_ok (demo_outbox, [])"
  by (simp add: handed_ok_def tokens_def handed_def count_rows_def demo_outbox_def demo_db_def empty_db_def)

lemma ds_dispatch_last:
  "dispatch_step (s, [(org, i)]) (snd (dispatch_claimed e org c i cu s), [])"
  using ds_dispatch [of org i "[(org, i)]" s e c cu] by simp

text \<open>Two dispatchers race for the send of the example: the second finds it claimed.\<close>

definition demo_claimed :: db where
  "demo_claimed = snd (claimSend ''o1'' ''n1'' demo_outbox)"

definition demo_busy :: db where
  "demo_busy = snd (claimSend ''o1'' ''n1'' demo_claimed)"

definition demo_raced :: db where
  "demo_raced = snd (dispatch_claimed demo_env ''o1'' demo_campaign ''n1''
     (demo_customer ''c1'' ''5550000001'') demo_busy)"

theorem send_handed_over_once_witness:
  "handed ''o1'' ''n1'' demo_raced = 1 \<and> handed ''o1'' ''n1'' demo_raced \<le> 1"
proof -
  have r1: "result_of (claimSend ''o1'' ''n1'' demo_outbox) = Some True" by code_simp
  have r2: "result_of (claimSend ''o1'' ''n1'' demo_claimed) = Some False" by code_simp
  have s1: "dispatch_step (demo_outbox, []) (demo_claimed, [(''o1'', ''n1'')])"
    unfolding demo_claimed_def by (rule ds_claim [OF result_ofD [OF r1]])
  have s2: "dispatch_step (demo_claimed, [(''o1'', ''n1'')]) (demo_busy, [(''o1'', ''n1'')])"
    unfolding demo_busy_def by (rule ds_busy [OF result_ofD [OF r2]])
  have s3: "dispatch_step (demo_busy, [(''o1'', ''n1'')]) (demo_raced, [])"
    unfolding demo_raced_def by (rule ds_dispatch_last)
  have "dispatch_step\<^sup>*\<^sup>* (demo_outbox, []) (demo_claimed, [(''o1'', ''n1'')])"
    by (rule r_into_rtranclp [where r = dispatch_step, OF s1])
  from rtranclp.rtrancl_into_rtrancl [where r = dispatch_step, OF this s2]
  have "dispatch_step\<^sup>*\<^sup>* (demo_outbox, []) (demo_busy, [(''o1'', ''n1'')])" .
  from rtranclp.rtrancl_into_rtrancl [where r = dispatch_step, OF this s3]
  have "dispatch_step\<^sup>*\<^sup>* (demo_outbox, []) (demo_raced, [])" .
  from send_handed_over_once [OF this demo_outbox_ok, of "''o1''" "''n1''"]
  have "handed ''o1'' ''n1'' demo_raced \<le> 1" by simp
  moreover have "handed ''o1'' ''n1'' demo_raced = 1" by code_simp
  ultimately show ?thesis by simp
qed

text \<open>
  The same over whole methods: launching, dispatching, triggering, reporting and editing
  campaigns in any order and any number of times hands a send over at most once.
\<close>

theorem campaign_calls_send_once:
  assumes "campaign_call\<^sup>*\<^sup>* s t" and "handed_ok (s, [])"
  shows "handed org i t \<le> 1"
proof -
  have "dispatch_step\<^sup>*\<^sup>* (s, []) (t, [])"
    using campaign_calls_run [OF assms(1), of "[]"] by (simp add: runs_to_def)
  then have "handed_ok (t, [])"
    by (induction rule: rtranclp_induct) (auto intro: dispatch_step_keeps assms(2))
  from handed_okD(1) [OF this, of org i] show ?thesis by (simp add: tokens_def)
qed

definition demo_dispatched :: db where
  "demo_dispatched = snd (dispatchCampaign demo_env ''o1'' ''m1''
     (snd (dispatchCampaign demo_env ''o1'' ''m1'' demo_outbox)))"

theorem campaign_calls_send_once_witness:
  "handed ''o1'' ''n1'' demo_dispatched = 1 \<and> handed ''o1'' ''n1'' demo_dispatched \<le> 1"
proof -
  have "campaign_call\<^sup>*\<^sup>* demo_outbox demo_dispatched"
    unfolding demo_dispatched_def
    by (rule rtranclp.rtrancl_into_rtrancl [OF r_into_rtranclp]) (rule cc_dispatch)+
  from campaign_calls_send_once [OF this demo_outbox_ok, of "''o1''" "''n1''"]
  have "handed ''o1'' ''n1'' demo_dispatched \<le> 1" .
  moreover have "handed ''o1'' ''n1'' demo_dispatched = 1" by code_simp
  ultimately show ?thesis by simp
qed

end
