(* ===== verification/CampaignFacts.thy ===== *)
theory CampaignFacts
  imports DispatchFacts
begin

text \<open>
  More of the campaigns: a dispatched campaign has no queued send left and is completed when none
  is in flight, and nobody is written to without consent at an address of their own.
\<close>

section \<open>What is still queued\<close>

definition queued_within :: "uuid \<Rightarrow> uuid \<Rightarrow> uuid set \<Rightarrow> db \<Rightarrow> bool" where
  "queued_within org cid ids s \<longleftrightarrow> (\<forall>n\<in>set (sends s).
     sn_orgId n = org \<and> sn_campaignId n = cid \<and> sn_status n = ''queued'' \<longrightarrow> sn_id n \<in> ids)"

lemma queued_within_update:
  assumes "queued_within org cid ids s" and "\<And>n. sn_status (f n) \<noteq> ''queued''"
  shows "queued_within org cid ids (sends_update (update_rows P f) s)"
  unfolding queued_within_def
proof (intro ballI impI)
  fix m assume "m \<in> set (sends (sends_update (update_rows P f) s))"
    and m: "sn_orgId m = org \<and> sn_campaignId m = cid \<and> sn_status m = ''queued''"
  then obtain n where n: "n \<in> set (sends s)" "m = (if P n then f n else n)"
    by (auto simp: set_update_rows)
  with m assms(2) have "m = n" by (auto split: if_splits)
  with n m assms(1) show "sn_id m \<in> ids" by (simp add: queued_within_def)
qed

lemma queued_within_frames [pres_intros]:
  "blind campaigns_update (queued_within org cid ids)" "log_blind (queued_within org cid ids)"
  by (simp_all add: blind_def queued_within_def)

lemma queued_within_mark:
  "st \<noteq> ''queued'' \<Longrightarrow> preserves (queued_within o2 cid ids) (markSend e org i st err)"
  unfolding markSend_def
  by (intro pres_intros preserves_txI)
    (auto simp: tx_update_one_def split: option.splits intro!: queued_within_update)

lemma queued_within_handled:
  assumes "handled e org c i cu s t" and "queued_within o2 cid ids s"
  shows "queued_within o2 cid ids t"
  using assms unfolding handled_def
proof (elim disjE exE conjE)
  fix st err assume "st \<noteq> ''queued''" and "t = snd (markSend e org i st err s)"
  then show ?thesis using preservesD [OF queued_within_mark assms(2)] by simp
qed (simp_all add: queued_within_def)

lemma queued_within_claim:
  assumes "claimSend org i s = (Inr b, t)" and "queued_within org cid ids s"
  shows "queued_within org cid (ids - {i}) t"
proof -
  let ?P = "\<lambda>n. send_key org i n \<and> sn_status n = ''queued''"
  have "t = sends_update (update_rows ?P (\<lambda>n. n\<lparr>sn_status := ''sending''\<rparr>)) s"
    using assms(1) by (auto simp: claimSend_def svc_bind_Inr_iff with_tenant_Inr_iff
        tx_update_many_def svc_return_def)
  then have "queued_within org cid ids t"
    using queued_within_update [OF assms(2)] by simp
  with claimSend_cases(3) [OF assms(1)] show ?thesis
    by (auto simp: queued_within_def open_send_def send_key_def)
qed

lemma queued_within_try:
  assumes "queued_within org cid ids s"
  shows "queued_within org cid (ids - {i}) (snd (try_send e org c i cu s))"
proof -
  obtain b t where claim: "claimSend org i s = (Inr b, t)"
    by (auto simp: claimSend_def svc_defs tx_update_many_def)
  let ?Q = "queued_within org cid (ids - {i})"
  have "?Q t" by (rule queued_within_claim [OF claim assms])
  then have one: "?Q (snd (dispatchOne e org c i cu s))"
    using claim queued_within_handled [OF handled_dispatch]
    by (simp add: dispatchOne_def svc_bind_def svc_return_def)
  have mark: "preserves ?Q (markSend e org i ''failed'' err)" for err
    by (rule queued_within_mark) simp
  show ?thesis
    using one preservesD [OF mark]
    by (auto simp: try_send_def svc_catch_def snd_bind_return split: prod.splits sum.splits)
qed

lemma queued_within_all:
  "queued_within org cid (set (map fst ns)) s \<Longrightarrow> dispatch_all e org c ns d s = (Inr d', t) \<Longrightarrow>
   queued_within org cid {} t"
proof (induction ns arbitrary: d s)
  case Nil
  then show ?case by (simp add: svc_return_def)
next
  case (Cons n ns)
  obtain i cu where n: "n = (i, cu)" by (cases n)
  from Cons.prems(2) n obtain r u where u: "try_send e org c i cu s = (Inr r, u)"
    and rest: "dispatch_all e org c ns (tally r d) u = (Inr d', t)"
    by (auto simp: svc_bind_Inr_iff)
  have "queued_within org cid (set (map fst (n # ns)) - {i}) u"
    using queued_within_try [OF Cons.prems(1), of i e c cu] u by simp
  then have "queued_within org cid (set (map fst ns)) u"
    using n by (auto simp: queued_within_def)
  from Cons.IH [OF this rest] show ?case .
qed

lemma load_sends_ids: "load_sends org ns s = Inr r \<Longrightarrow> map fst r = map sn_id ns"
  by (induction ns arbitrary: r) (auto split: option.splits sum.splits)

text \<open>
  C9. A dispatch of a known campaign that returns leaves no send of it queued, and when none is in
  flight either, the campaign is completed.
\<close>

theorem dispatch_leaves_none_queued:
  assumes run: "dispatchCampaign e org cid s = (Inr d, t)" and known: "find_campaign org cid s = Some c"
  shows "(\<forall>n\<in>set (sends t). sn_orgId n = org \<and> sn_campaignId n = cid \<longrightarrow> sn_status n \<noteq> ''queued'') \<and>
    (remaining_sends org cid t = 0 \<longrightarrow>
       (\<exists>c'. find_campaign org cid t = Some c' \<and> ca_status c' = ''completed''))"
proof -
  from run known obtain ns u d1 v where
      ns: "queued_sends org cid s = Inr (ns, u)"
    and all: "dispatch_all e org c ns (0, 0, 0) u = (Inr d1, v)"
    and fin: "(if remaining_sends org cid v = 0
        then set_campaign org cid (\<lambda>c. c\<lparr>ca_status := ''completed''\<rparr>) else svc_return ()) v = (Inr (), t)"
    by (auto simp: dispatchCampaign_def svc_bind_Inr_iff with_tenant_Inr_iff tx_gets_def svc_return_def)
  have u: "u = s" and ids: "map fst ns = map sn_id (filter (\<lambda>n. sn_orgId n = org \<and>
       sn_campaignId n = cid \<and> sn_status n = ''queued'') (sends s))"
    using ns load_sends_ids by (auto simp: queued_sends_def tx_defs split: sum.splits)
  have "queued_within org cid (set (map fst ns)) s"
    unfolding ids by (auto simp: queued_within_def)
  then have v: "queued_within org cid {} v" using queued_within_all all u by blast
  have sends: "sends t = sends v"
    using fin by (auto simp: set_campaign_def svc_bind_Inr_iff with_tenant_Inr_iff tx_update_one_def
        svc_return_def split: if_splits option.splits)
  have fin_c: "\<exists>c'. find_campaign org cid t = Some c' \<and> ca_status c' = ''completed''"
    if "remaining_sends org cid v = 0"
  proof -
    let ?f = "\<lambda>c. c\<lparr>ca_status := ''completed''\<rparr>"
    from fin that obtain c0 where c0: "List.find (campaign_key org cid) (campaigns v) = Some c0"
      and t: "t = campaigns_update (update_rows (campaign_key org cid) ?f) v"
      by (auto simp: set_campaign_def svc_bind_Inr_iff with_tenant_Inr_iff tx_update_one_def
          svc_return_def split: option.splits)
    have "List.find (campaign_key org cid) (update_rows (campaign_key org cid) ?f (campaigns v)) =
        map_option (\<lambda>c. if campaign_key org cid c then ?f c else c)
          (List.find (campaign_key org cid) (campaigns v))"
      by (rule find_update_rows) (simp add: campaign_key_def)
    then show ?thesis using c0 find_SomeD [OF c0] by (simp add: find_campaign_def t)
  qed
  have "remaining_sends org cid t = remaining_sends org cid v" by (simp add: remaining_sends_def sends)
  with v fin_c sends show ?thesis by (auto simp: queued_within_def)
qed

definition demo_push :: db where
  "demo_push = demo_outbox\<lparr>campaigns := [demo_campaign\<lparr>ca_channel := ''PUSH''\<rparr>]\<rparr>"

theorem dispatch_leaves_none_queued_witness:
  "\<exists>d t. dispatchCampaign demo_env ''o1'' ''m1'' demo_push = (Inr d, t) \<and>
     (\<exists>c'. find_campaign ''o1'' ''m1'' t = Some c' \<and> ca_status c' = ''completed'')"
proof -
  let ?run = "dispatchCampaign demo_env ''o1'' ''m1'' demo_push"
  have "result_of ?run = Some (0, 1, 0)" by code_simp
  then have run: "?run = (Inr (0, 1, 0), snd ?run)" by (rule result_ofD)
  have known: "find_campaign ''o1'' ''m1'' demo_push = Some (demo_campaign\<lparr>ca_channel := ''PUSH''\<rparr>)"
    by (simp add: find_campaign_def campaign_key_def demo_push_def demo_campaign_def)
  have "remaining_sends ''o1'' ''m1'' (snd ?run) = 0" by code_simp
  with dispatch_leaves_none_queued [OF run known] run show ?thesis by metis
qed

section \<open>Consent\<close>

text \<open>May this customer be written to at this address over this channel?\<close>

definition may_write :: "customer_row \<Rightarrow> string \<Rightarrow> string \<Rightarrow> bool" where
  "may_write cu ch to \<longleftrightarrow>
     (if ch = ''email'' then cu_emailConsent cu = ''GRANTED'' \<and> cu_email cu = Some to
      else (ch = ''sms'' \<or> ch = ''whatsapp'') \<and> cu_smsConsent cu = ''GRANTED'' \<and> cu_phone cu = Some to)"

fun permitted :: "db \<Rightarrow> effect \<Rightarrow> bool" where
  "permitted r (SendNotification org ch to _ _ _ _ cust) \<longleftrightarrow>
     (\<exists>cu\<in>set (customers r). cu_id cu = cust \<and> cu_orgId cu = org \<and> may_write cu ch to)"
| "permitted r _ \<longleftrightarrow> True"

definition writes_permitted :: "db \<Rightarrow> db \<Rightarrow> bool" where
  "writes_permitted r s \<longleftrightarrow> customers s = customers r \<and>
     (\<forall>ev\<in>set (effects s). ev \<in> set (effects r) \<or> permitted r ev)"

lemma writes_permitted_refl: "writes_permitted r r"
  by (simp add: writes_permitted_def)

lemma writes_permitted_frames [pres_intros]:
  "blind accounts_update (writes_permitted r)" "cache_blind (writes_permitted r)"
  "blind programs_update (writes_permitted r)" "blind tiers_update (writes_permitted r)"
  "blind earnRules_update (writes_permitted r)" "blind wallets_update (writes_permitted r)"
  "blind campaigns_update (writes_permitted r)" "blind sends_update (writes_permitted r)"
  by (simp_all add: blind_def writes_permitted_def)

lemma writes_permitted_insert [pres_intros]: "preserves_tx (writes_permitted r) (insert_send n)"
  unfolding insert_send_def by (intro pres_intros)

lemma writes_permitted_marks [pres_intros]:
  "preserves (writes_permitted r) (markSend e org i st err)"
  "preserves (writes_permitted r) (finalizeSendFromNotification e org i ok err)"
  "preserves (writes_permitted r) (claimSend org i)"
  "preserves (writes_permitted r) (set_campaign org cid f)"
  unfolding markSend_def finalizeSendFromNotification_def bump_sentCount_def claimSend_def
    set_campaign_def
  by (intro pres_intros)+

definition of_tenant :: "db \<Rightarrow> uuid \<Rightarrow> customer_row \<Rightarrow> bool" where
  "of_tenant r org cu \<longleftrightarrow> cu \<in> set (customers r) \<and> cu_orgId cu = org"

lemma writes_permitted_notify:
  assumes "of_tenant r org cu" and "may_write cu ch to"
  shows "preserves (writes_permitted r) (notify e org ch to c i (cu_id cu))"
  using assms unfolding notify_def log_effect_def
  by (intro pres_intros preserves_modify) (auto simp: writes_permitted_def of_tenant_def)

lemma has_text_Some: "has_text v \<Longrightarrow> v = Some (the v)"
  by (cases v) (simp_all add: has_text_def truthy_str_def)

lemma writes_permitted_consented:
  assumes cu: "of_tenant r org cu"
    and may: "\<And>to. cst = ''GRANTED'' \<Longrightarrow> ad = Some to \<Longrightarrow> may_write cu ch to"
  shows "preserves (writes_permitted r) (consented_send e org c i cu ch cst w1 ad w2)"
proof -
  have skip: "preserves (writes_permitted r) (skip_send e org i w)" for w
    unfolding skip_send_def by (intro pres_intros)
  have "may_write cu ch (the ad)" if "cst = ''GRANTED''" "has_text ad"
    using may that has_text_Some by blast
  then have "preserves (writes_permitted r) (notify e org ch (the ad) c i (cu_id cu))"
    if "cst = ''GRANTED''" "has_text ad" using that writes_permitted_notify [OF cu] by blast
  then show ?thesis
    unfolding consented_send_def by (auto intro!: pres_intros skip)
qed

lemma writes_permitted_dispatchOne:
  assumes "of_tenant r org cu"
  shows "preserves (writes_permitted r) (dispatchOne e org c i cu)"
  unfolding dispatchOne_def dispatch_claimed_def Let_def skip_send_def
  by (intro pres_intros writes_permitted_consented assms) (simp_all add: may_write_def)

lemma writes_permitted_dispatch_all:
  "(\<And>n. n \<in> set ns \<Longrightarrow> of_tenant r org (snd n)) \<Longrightarrow>
   preserves (writes_permitted r) (dispatch_all e org c ns d)"
proof (induction ns arbitrary: d)
  case Nil
  show ?case by (simp add: pres_intros)
next
  case (Cons n ns)
  have one: "of_tenant r org (snd n)" using Cons.prems by simp
  have rest: "preserves (writes_permitted r) (dispatch_all e org c ns d)" for d
    using Cons by simp
  show ?case
    using one by (cases n) (simp add: try_send_def, intro pres_intros rest writes_permitted_dispatchOne)
qed

lemma find_customer_tenant: "find_customer org cust s = Some cu \<Longrightarrow> customers s = customers r \<Longrightarrow> of_tenant r org cu"
  by (auto simp: find_customer_def of_tenant_def dest: find_SomeD)

lemma load_sends_tenant:
  "load_sends org ns s = Inr l \<Longrightarrow> customers s = customers r \<Longrightarrow> n \<in> set l \<Longrightarrow> of_tenant r org (snd n)"
proof (induction ns arbitrary: l)
  case (Cons m ns)
  from Cons.prems(1) obtain cu l' where l: "l = (sn_id m, cu) # l'" "load_sends org ns s = Inr l'"
    and cu: "Option.bind (find_account org (sn_accountId m) s) (\<lambda>a. find_customer org (ac_customerId a) s) = Some cu"
    by (auto split: option.splits sum.splits)
  from cu obtain a :: account_row where "find_customer org (ac_customerId a) s = Some cu"
    by (auto simp: bind_eq_Some_conv)
  then show ?case using Cons.IH [OF l(2) Cons.prems(2)] Cons.prems(2,3) l(1) find_customer_tenant
    by auto
qed simp

lemma writes_permitted_dispatchCampaign [pres_intros]:
  "preserves (writes_permitted r) (dispatchCampaign e org cid)"
  unfolding dispatchCampaign_def
  by (intro pres_intros preserves_bind_result
        [where R = "\<lambda>ns. \<forall>n\<in>set ns. of_tenant r org (snd n)" and m = "with_tenant (queued_sends org cid)"])
    (auto simp: with_tenant_Inr_iff queued_sends_def tx_defs writes_permitted_def
      dest: load_sends_tenant split: sum.splits
      intro!: pres_intros writes_permitted_dispatch_all)

lemma account_customer_tenant:
  assumes "writes_permitted r s" and "with_tenant (account_customer org acct) s = (Inr (Some cu), t)"
  shows "of_tenant r org cu"
  using assms
  by (auto simp: with_tenant_Inr_iff account_customer_def tx_defs writes_permitted_def
      dest: find_customer_tenant split: option.splits)

lemma writes_permitted_bind_customer:
  assumes "preserves (writes_permitted r) none"
    and "\<And>cu. of_tenant r org cu \<Longrightarrow> preserves (writes_permitted r) (some cu)"
  shows "preserves (writes_permitted r) (svc_bind (with_tenant (account_customer org acct))
    (\<lambda>cu. case cu of None \<Rightarrow> none | Some cu \<Rightarrow> some cu))"
proof (rule preserves_bind_result [where R = "\<lambda>x. \<forall>cu. x = Some cu \<longrightarrow> of_tenant r org cu"])
  show "preserves (writes_permitted r) (with_tenant (account_customer org acct))"
    by (intro pres_intros)
qed (use account_customer_tenant assms in \<open>auto split: option.splits\<close>)

lemma writes_permitted_sendToAccount [pres_intros]:
  "preserves (writes_permitted r) (sendToAccount e org cid acct)"
  unfolding sendToAccount_def bump_sentCount_def Let_def
  by (intro preserves_bind preserves_case_option preserves_if writes_permitted_bind_customer
      writes_permitted_dispatchOne preserves_catch pres_intros)

lemma writes_permitted_launch [pres_intros]: "preserves (writes_permitted r) (launch e org cid)"
  unfolding launch_def queue_sends_def by (intro pres_intros)

lemma writes_permitted_loops [pres_intros]:
  "preserves (writes_permitted r) (launch_all e org ds n)"
  "preserves (writes_permitted r) (fire_campaigns e org trigger acct ds n)"
  by (induction ds arbitrary: n) (simp_all add: pres_intros)

lemma writes_permitted_fireTrigger [pres_intros]:
  "preserves (writes_permitted r) (fireTrigger e org trigger cust)"
  unfolding fireTrigger_def by (intro pres_intros frame_ensureAccount)

lemma writes_permitted_fire_all [pres_intros]:
  "preserves (writes_permitted r) (fire_all e org trigger ds n)"
  by (induction ds arbitrary: n) (simp_all add: pres_intros)

lemma writes_permitted_fire_abandoned [pres_intros]:
  "preserves (writes_permitted r) (fire_abandoned e org as n)"
  by (induction as arbitrary: n) (simp_all add: pres_intros split del: if_split)

lemma writes_permitted_rest [pres_intros]:
  "preserves (writes_permitted r) (processDueScheduled e org)"
  "preserves (writes_permitted r) (processDailyTriggers e org)"
  "preserves (writes_permitted r) (createCampaign e org d)"
  "preserves (writes_permitted r) (updateCampaign e org i q)"
  unfolding processDueScheduled_def processDailyTriggers_def processBirthdays_def
    processWinBack_def processAbandoned_def createCampaign_def updateCampaign_def
  by (intro pres_intros)+

lemma campaign_call_permitted:
  assumes "campaign_call s t" and "writes_permitted r s"
  shows "writes_permitted r t"
  using assms
  by cases (erule ssubst, rule preservesD [where I = "writes_permitted r"], intro pres_intros, assumption)+

text \<open>
  C10. Whatever campaign methods run, every message handed to the notification service since is for
  a customer of the same tenant who granted consent for the channel, and goes to the address the
  customer has on file.
\<close>

theorem nobody_written_without_consent:
  assumes "campaign_call\<^sup>*\<^sup>* s t"
    and "SendNotification org ch to subj body cid i cust \<in> set (effects t)"
    and "SendNotification org ch to subj body cid i cust \<notin> set (effects s)"
  shows "\<exists>cu\<in>set (customers s). cu_id cu = cust \<and> cu_orgId cu = org \<and> may_write cu ch to"
proof -
  have "writes_permitted s t"
    using assms(1)
    by (induction rule: rtranclp_induct) (auto intro: campaign_call_permitted writes_permitted_refl)
  then have "permitted s (SendNotification org ch to subj body cid i cust)"
    using assms(2,3) by (auto simp: writes_permitted_def)
  then show ?thesis by simp
qed

definition demo_sms :: effect where
  "demo_sms = SendNotification ''o1'' ''sms'' ''5550000001'' ''Spring'' ''Hi'' ''m1'' ''n1'' ''c1''"

definition demo_sent :: db where
  "demo_sent = snd (dispatchCampaign demo_env ''o1'' ''m1'' demo_outbox)"

theorem nobody_written_without_consent_witness:
  "\<exists>cu\<in>set (customers demo_outbox). cu_id cu = ''c1'' \<and> cu_orgId cu = ''o1'' \<and>
     may_write cu ''sms'' ''5550000001''"
proof -
  have run: "campaign_call\<^sup>*\<^sup>* demo_outbox demo_sent"
    unfolding demo_sent_def by (rule r_into_rtranclp) (rule cc_dispatch)
  have "effects demo_sent = [demo_sms]" by code_simp
  then have "demo_sms \<in> set (effects demo_sent)" by simp
  moreover have "demo_sms \<notin> set (effects demo_outbox)"
    by (simp add: demo_outbox_def demo_db_def empty_db_def)
  ultimately show ?thesis
    unfolding demo_sms_def by (rule nobody_written_without_consent [OF run])
qed

section \<open>Whom a launch reaches\<close>

text \<open>
  A launch with a preset that is a list of customers goes to the accounts of those customers,
  up to 500 of them. A launch with a preset that is a condition (VIPs, high value, champions, at
  risk, SMS opted in) gets no list and goes to all accounts of the tenant, up to 500, exactly as a
  launch without a preset.
\<close>

theorem launch_targets:
  "launch_accounts org (segment_of e org c s) s = (case ca_segmentPreset c of
     Some preset \<Rightarrow>
       if preset = [] \<or> preset \<in> set where_presets
       then Inr (take 500 (filter (\<lambda>a. ac_orgId a = org) (accounts s)), s)
       else (case resolvePresetCustomerIds e org preset s of
          Ids is \<Rightarrow> Inr (take 500 (filter (\<lambda>a. ac_orgId a = org \<and>
             ac_customerId a \<in> set (if is \<noteq> [] then is else [zero_uuid])) (accounts s)), s)
        | _ \<Rightarrow> Inl PrismaValidation)
   | None \<Rightarrow> Inr (take 500 (filter (\<lambda>a. ac_orgId a = org) (accounts s)), s))"
proof (cases "ca_segmentPreset c")
  case (Some p)
  show ?thesis
  proof (cases "p = [] \<or> p \<in> set where_presets")
    case True
    then have "segment_of e org c s = NoIds"
      using Some by (auto simp: segment_of_def truthy_str_def resolvePresetCustomerIds_def)
    then show ?thesis using Some True by (simp add: launch_accounts_def tx_defs)
  next
    case False
    then have "segment_of e org c s = resolvePresetCustomerIds e org p s"
        "resolvePresetCustomerIds e org p s \<noteq> NoIds"
      using Some by (simp_all add: segment_of_def truthy_str_def resolvePresetCustomerIds_def)
    then show ?thesis using Some False
      by (cases "resolvePresetCustomerIds e org p s") (simp_all add: launch_accounts_def tx_defs)
  qed
qed (simp add: segment_of_def truthy_str_def launch_accounts_def tx_defs)

end
