(* ===== verification/Frames.thy ===== *)
theory Frames
  imports Lifecycle
begin

text \<open>
  The frame of everything that earns: postings, accounts created on the way, challenges and badges
  write ten tables, and an invariant blind to these survives all of it.
\<close>

definition earn_blind :: "(db \<Rightarrow> bool) \<Rightarrow> bool" where
  "earn_blind I \<longleftrightarrow> blind accounts_update I \<and> blind ledger_update I \<and> cache_blind I \<and> log_blind I \<and>
     blind programs_update I \<and> blind tiers_update I \<and> blind earnRules_update I \<and>
     blind wallets_update I \<and> blind progresses_update I \<and> blind badgeAwards_update I"

lemma earn_blindD:
  assumes "earn_blind I"
  shows "blind accounts_update I" "blind ledger_update I" "cache_blind I" "log_blind I"
    "blind programs_update I" "blind tiers_update I" "blind earnRules_update I"
    "blind wallets_update I" "blind progresses_update I" "blind badgeAwards_update I"
  using assms by (simp_all add: earn_blind_def)

lemma earn_frame_ensure [pres_intros]: "earn_blind I \<Longrightarrow> preserves I (ensureAccount e org cust)"
  by (rule frame_ensureAccount) (erule earn_blindD)+

lemma earn_frame_applyPoints [pres_intros]: "earn_blind I \<Longrightarrow> preserves I (applyPoints e org acct n ty opts)"
  by (rule frame_applyPoints) (erule earn_blindD)+

lemma earn_frame_challenge [pres_intros]:
  "earn_blind I \<Longrightarrow> preserves I (incrementChallengeProgress e org cust ty n)"
  by (rule frame_incrementChallenge) (erule earn_blindD)+

lemma earn_frame_enabled [pres_intros]: "earn_blind I \<Longrightarrow> preserves I (is_enabled e org)"
  by (rule preserves_is_enabled) (erule earn_blindD)

lemma earn_frame_require [pres_intros]: "earn_blind I \<Longrightarrow> preserves I (require_enabled e org)"
  by (rule preserves_require_enabled) (erule earn_blindD)

lemma earn_frame_program [pres_intros]: "earn_blind I \<Longrightarrow> preserves I (getOrCreateProgram e org)"
  by (rule preserves_getOrCreateProgram) (erule earn_blindD)+

lemma earn_frame_award [pres_intros]: "earn_blind I \<Longrightarrow> preserves I (award_badges org a bs aw)"
  by (induction org a bs aw rule: award_badges.induct)
    (auto intro!: pres_intros dest: earn_blindD)

lemma earn_frame_badges [pres_intros]: "earn_blind I \<Longrightarrow> preserves I (evaluateBadgesForAccount e org cust)"
  unfolding evaluateBadgesForAccount_def listBadges_def by (intro pres_intros)

lemma earn_frame_after [pres_intros]: "earn_blind I \<Longrightarrow> preserves I (afterEarnActivity e org cust n inc)"
  unfolding afterEarnActivity_def by (intro pres_intros)

lemma earn_frame_resolve [pres_intros]: "earn_blind I \<Longrightarrow> preserves I (resolveEarnPoints e org ev ctx)"
  by (rule keeps_resolveEarnPoints) (erule earn_blindD)

lemma earn_frame_bonus [pres_intros]: "earn_blind I \<Longrightarrow> preserves I (pay_bonus e org acct n opts)"
  unfolding pay_bonus_def by (intro pres_intros)

lemma earn_frame_adjust [pres_intros]: "earn_blind I \<Longrightarrow> preserves_tx I (adjustPoints_tx e org cust n d)"
  by (rule frame_adjust_tx) (erule earn_blindD)+

text \<open>
  A method that earns and then may complete a referral keeps whatever the completion keeps.
\<close>

lemma earn_frame_methods:
  assumes "earn_blind I" and complete: "\<And>e org cust. preserves I (completePendingForCustomer e org cust)"
  shows "preserves I (earnFromPurchase e org cust n d)"
    and "preserves I (earnFromEvent e org cust0 ev st si desc inc br cents)"
    and "preserves I (earnIntegrationPoints e org acct n si desc inc)"
  unfolding earnFromPurchase_def earnFromEvent_def earnIntegrationPoints_def Let_def
  by (intro pres_intros complete assms(1))+

section \<open>The ledger only grows\<close>

definition has_entry :: "ledger_row \<Rightarrow> db \<Rightarrow> bool" where
  "has_entry l s \<longleftrightarrow> l \<in> set (ledger s)"

lemma has_entry_apply_tx: "preserves_tx (has_entry l) (applyPointsInTransaction e org acct n ty opts)"
proof (rule preserves_txI)
  fix s r t assume I: "has_entry l s" and run: "applyPointsInTransaction e org acct n ty opts s = Inr (r, t)"
  from run show "has_entry l t"
    by (cases rule: apply_tx_Inr_cases) (use I in \<open>auto simp: has_entry_def\<close>)
qed

lemma has_entry_frames [pres_intros]:
  "blind accounts_update (has_entry l)" "cache_blind (has_entry l)" "log_blind (has_entry l)"
  "blind programs_update (has_entry l)" "blind tiers_update (has_entry l)"
  "blind earnRules_update (has_entry l)" "blind wallets_update (has_entry l)"
  "blind progresses_update (has_entry l)" "blind referrals_update (has_entry l)"
  by (simp_all add: blind_def has_entry_def)

lemma has_entry_applyPoints [pres_intros]: "preserves (has_entry l) (applyPoints e org acct n ty opts)"
  unfolding applyPoints_def runApplyPoints_def by (intro pres_intros has_entry_apply_tx)

lemma has_entry_bonus [pres_intros]: "preserves (has_entry l) (pay_bonus e org acct n opts)"
  unfolding pay_bonus_def by (intro pres_intros)

lemma has_entry_ensure [pres_intros]: "preserves (has_entry l) (ensureAccount e org cust)"
  by (intro frame_ensureAccount pres_intros)

lemma has_entry_challenge [pres_intros]:
  "preserves (has_entry l) (incrementChallengeProgress e org cust ty n)"
  unfolding incrementChallengeProgress_def advance_challenge_def adjustPoints_tx_def
    adjustPointsInTransaction_def
  by (intro pres_intros has_entry_apply_tx)

end
