(* ===== verification/ReferralFacts.thy ===== *)
theory ReferralFacts
  imports Frames PointsProps
begin

text \<open>
  Referrals: one per referred patron, completed once and for good, with both bonuses booked.
\<close>

section \<open>The life of a referral\<close>

inductive referral_moves :: "string \<Rightarrow> string \<Rightarrow> bool" where
  completes: "a \<noteq> ''completed'' \<Longrightarrow> referral_moves a ''completed''"

inductive_simps referral_moves_simps [simp]: "referral_moves a b"

inductive referral_step :: "db \<Rightarrow> db \<Rightarrow> bool" where
  rs_apply: "referral_step s (snd (applyReferral e org code cust s))"
| rs_complete: "referral_step s (snd (completePendingForCustomer e org cust s))"
| rs_purchase: "referral_step s (snd (earnFromPurchase e org cust n d s))"
| rs_event: "referral_step s (snd (earnFromEvent e org cust0 ev st si desc inc br cents s))"
| rs_integration: "referral_step s (snd (earnIntegrationPoints e org acct n si desc inc s))"

definition find_referral :: "uuid \<times> uuid \<Rightarrow> db \<Rightarrow> referral_row option" where
  "find_referral k s = List.find (referral_key (fst k) (snd k)) (referrals s)"

definition referral_status :: "uuid \<times> uuid \<Rightarrow> db \<Rightarrow> string option" where
  "referral_status k s = map_option rf_status (find_referral k s)"

definition parties :: "referral_row \<Rightarrow> uuid \<times> uuid \<times> uuid \<times> uuid \<times> int \<times> int" where
  "parties r = (rf_id r, rf_orgId r, rf_referrerAccountId r, rf_referredCustomerId r,
     rf_referrerBonusPoints r, rf_referredBonusPoints r)"

text \<open>Seen from a list of referrals, every one is still there, between the same parties.\<close>

definition referrals_moved :: "referral_row list \<Rightarrow> db \<Rightarrow> bool" where
  "referrals_moved rs s \<longleftrightarrow> (\<forall>k r. List.find (referral_key (fst k) (snd k)) rs = Some r \<longrightarrow>
     (\<exists>r'. find_referral k s = Some r' \<and> parties r' = parties r \<and>
        (rf_status r' = rf_status r \<or> referral_moves (rf_status r) (rf_status r'))))"

lemma referrals_moved_refl: "referrals_moved (referrals s) s"
  by (simp add: referrals_moved_def find_referral_def)

lemma referrals_moved_frame [pres_intros]: "earn_blind (referrals_moved rs)"
  by (simp add: earn_blind_def blind_def referrals_moved_def find_referral_def)

lemma referrals_moved_insert [pres_intros]: "preserves_tx (referrals_moved rs) (insert_referral r)"
proof (rule preserves_txI)
  fix s u t assume I: "referrals_moved rs s" and run: "insert_referral r s = Inr (u, t)"
  from run have t: "referrals t = referrals s @ [r]"
    by (auto simp: insert_referral_def tx_defs split: if_splits)
  have "find_referral k t = Some q" if "find_referral k s = Some q" for k q
    using that by (simp add: find_referral_def t find_append)
  with I show "referrals_moved rs t" unfolding referrals_moved_def by blast
qed

lemma complete_referral_Inr:
  assumes "complete_referral e org rid acct s = Inr (r, t)"
  obtains q f where "List.find (referral_key org rid) (referrals s) = Some q" and "r = f q"
    and "t = referrals_update (update_rows (referral_key org rid) f) s"
    and "\<And>x. parties (f x) = parties x" and "\<And>x. rf_status (f x) = ''completed''"
    and "\<And>x. rf_referredAccountId (f x) = Some acct"
  using assms
  by (auto simp: complete_referral_def Let_def tx_defs parties_def split: option.splits if_splits)

lemma parties_key: "parties x = parties y \<Longrightarrow> referral_key org i x = referral_key org i y"
  by (simp add: parties_def referral_key_def)

lemma referrals_moved_complete [pres_intros]:
  "preserves_tx (referrals_moved rs) (complete_referral e org rid acct)"
proof (rule preserves_txI)
  fix s r t assume I: "referrals_moved rs s" and run: "complete_referral e org rid acct s = Inr (r, t)"
  obtain q f where t: "t = referrals_update (update_rows (referral_key org rid) f) s"
    and f: "\<And>x. parties (f x) = parties x" "\<And>x. rf_status (f x) = ''completed''"
    by (rule complete_referral_Inr [OF run]) (rule that)
  have found: "find_referral k t =
      map_option (\<lambda>x. if referral_key org rid x then f x else x) (find_referral k s)" for k
    by (simp add: find_referral_def t) (rule find_update_rows, rule parties_key, rule f(1))
  show "referrals_moved rs t"
    unfolding referrals_moved_def
  proof (intro allI impI)
    fix k q assume "List.find (referral_key (fst k) (snd k)) rs = Some q"
    with I obtain q' where q': "find_referral k s = Some q'" "parties q' = parties q"
        "rf_status q' = rf_status q \<or> referral_moves (rf_status q) (rf_status q')"
      unfolding referrals_moved_def by blast
    then show "\<exists>r'. find_referral k t = Some r' \<and> parties r' = parties q \<and>
        (rf_status r' = rf_status q \<or> referral_moves (rf_status q) (rf_status r'))"
      using found [of k] f by (cases "referral_key org rid q'") auto
  qed
qed

lemma referrals_moved_completePending [pres_intros]:
  "preserves (referrals_moved rs) (completePendingForCustomer e org cust)"
  unfolding completePendingForCustomer_def complete_loaded_def by (intro pres_intros)

lemma referrals_moved_apply [pres_intros]:
  "preserves (referrals_moved rs) (applyReferral e org code cust)"
  unfolding applyReferral_def Let_def by (intro pres_intros)

lemmas referrals_moved_earn [pres_intros] =
  earn_frame_methods [OF referrals_moved_frame referrals_moved_completePending]

lemma referral_step_moves:
  assumes "referral_step s t" and "referral_status k s = Some a"
  shows "\<exists>b. referral_status k t = Some b \<and> (b = a \<or> referral_moves a b)"
proof -
  have "referrals_moved (referrals s) t"
    using assms(1)
    by cases (erule ssubst, rule preservesD [where I = "referrals_moved (referrals s)"],
      intro pres_intros, rule referrals_moved_refl)+
  then show ?thesis
    using assms(2) unfolding referral_status_def referrals_moved_def find_referral_def by fastforce
qed

interpretation rfl: lifecycle referral_step referral_status referral_moves
  by unfold_locales (rule referral_step_moves)

section \<open>One referral per referred patron\<close>

definition referred :: "referral_row \<Rightarrow> uuid \<times> uuid" where
  "referred r = (rf_orgId r, rf_referredCustomerId r)"

definition referrals_ok :: "db \<Rightarrow> bool" where
  "referrals_ok s \<longleftrightarrow> distinct (map referred (referrals s)) \<and> distinct (map rf_id (referrals s))"

lemma referrals_ok_frame [pres_intros]: "earn_blind referrals_ok"
  by (simp add: earn_blind_def blind_def referrals_ok_def)

lemma referrals_ok_complete [pres_intros]: "preserves_tx referrals_ok (complete_referral e org rid acct)"
proof (rule preserves_txI)
  fix s r t assume I: "referrals_ok s" and run: "complete_referral e org rid acct s = Inr (r, t)"
  obtain q f where t: "t = referrals_update (update_rows (referral_key org rid) f) s"
    and f: "\<And>x. parties (f x) = parties x"
    by (rule complete_referral_Inr [OF run]) (rule that)
  have "referred (f x) = referred x" "rf_id (f x) = rf_id x" for x
    using f [of x] by (simp_all add: parties_def referred_def)
  then show "referrals_ok t"
    using I by (simp add: referrals_ok_def t map_update_rows_same)
qed

lemma referrals_ok_insert:
  assumes "find_referral_of (rf_orgId r) (rf_referredCustomerId r) s = None" and "referrals_ok s"
    and "insert_referral r s = Inr (u, t)"
  shows "referrals_ok t"
proof -
  have "t = s\<lparr>referrals := referrals s @ [r]\<rparr>" and "rf_id r \<notin> rf_id ` set (referrals s)"
    using assms(3) by (auto simp: insert_referral_def tx_defs split: if_splits)
  moreover have "referred r \<notin> referred ` set (referrals s)"
    using assms(1) by (auto simp: find_referral_of_def find_None_iff referred_def)
  ultimately show ?thesis using assms(2) by (auto simp: referrals_ok_def)
qed

lemma referrals_ok_completePending [pres_intros]:
  "preserves referrals_ok (completePendingForCustomer e org cust)"
  unfolding completePendingForCustomer_def complete_loaded_def by (intro pres_intros)

lemmas referrals_ok_earn [pres_intros] =
  earn_frame_methods [OF referrals_ok_frame referrals_ok_completePending]

text \<open>The check for an earlier referral and the insertion, as the code has them.\<close>

lemma referrals_ok_attach:
  assumes "rf_orgId r = org" and "rf_referredCustomerId r = cust" and "\<And>q. preserves referrals_ok (f q)"
  shows "preserves referrals_ok (svc_bind (with_tenant (tx_gets (find_referral_of org cust)))
    (\<lambda>existing. case existing of Some q \<Rightarrow> f q
       | None \<Rightarrow> with_tenant (tx_bind (insert_referral r) (\<lambda>_. tx_return r))))"
proof (rule preservesI)
  fix s assume ok: "referrals_ok s"
  show "referrals_ok (snd (svc_bind (with_tenant (tx_gets (find_referral_of org cust)))
      (\<lambda>existing. case existing of Some q \<Rightarrow> f q
       | None \<Rightarrow> with_tenant (tx_bind (insert_referral r) (\<lambda>_. tx_return r))) s))"
  proof (cases "find_referral_of org cust s")
    case (Some q)
    then show ?thesis using preservesD [OF assms(3) ok] by (simp add: svc_defs tx_defs)
  next
    case None
    show ?thesis
    proof (cases "insert_referral r s")
      case (Inl err)
      then show ?thesis using None ok by (simp add: svc_defs tx_defs)
    next
      case (Inr p)
      obtain u t where p: "p = (u, t)" by (cases p)
      then have "referrals_ok t" using referrals_ok_insert [of r s u t] None Inr ok assms(1,2) by simp
      then show ?thesis using None Inr p by (simp add: svc_defs tx_defs)
    qed
  qed
qed

lemma referrals_ok_apply [pres_intros]: "preserves referrals_ok (applyReferral e org code cust)"
  unfolding applyReferral_def Let_def
  by (intro referrals_ok_attach preserves_bind preserves_case_option preserves_if pres_intros)
    (simp_all add: pending_referral_def)

text \<open>
  C11. A patron is referred at most once: over any run of attaching, purchasing and completing, no
  two referrals of a tenant have the same referred customer.
\<close>

theorem one_referral_per_patron:
  assumes "referral_step\<^sup>*\<^sup>* s t" and "referrals_ok s" and "p \<in> set (referrals t)" and "q \<in> set (referrals t)"
    and "rf_orgId p = rf_orgId q" and "rf_referredCustomerId p = rf_referredCustomerId q"
  shows "p = q"
proof -
  have step: "referrals_ok v" if "referral_step u v" "referrals_ok u" for u v
    using that
    by cases (erule ssubst, rule preservesD [where I = referrals_ok], intro pres_intros, assumption)+
  have "referrals_ok t"
    using assms(1) by (induction rule: rtranclp_induct) (auto intro: step assms(2))
  then have "distinct (map referred (referrals t))" by (simp add: referrals_ok_def)
  then show ?thesis using assms(3-6) by (auto simp: referred_def dest: distinct_map_eq)
qed

text \<open>
  A completed referral stays completed, over any run of attaching, purchasing and completing.
\<close>

theorem completed_referral_is_final:
  assumes "referral_step\<^sup>*\<^sup>* s t" and "referral_status k s = Some ''completed''"
  shows "referral_status k t = Some ''completed''"
  by (rule rfl.final_stays [OF assms]) simp

section \<open>Completion pays both sides\<close>

definition bonus_entry :: "uuid \<Rightarrow> uuid \<Rightarrow> string \<Rightarrow> ledger_row \<Rightarrow> bool" where
  "bonus_entry org acct src l \<longleftrightarrow> le_orgId l = org \<and> le_accountId l = acct \<and> le_type l = ''BONUS'' \<and>
     le_sourceType l = Some ''referral'' \<and> le_sourceId l = Some src"

lemma pay_bonus_books:
  assumes run: "pay_bonus e org acct pts (referral_opts r suffix desc) s = (Inr (), t)"
    and pts: "0 < pts" and "suffix \<noteq> []"
  shows "\<exists>l. has_entry l t \<and> bonus_entry org acct (rf_id r @ suffix) l"
proof -
  let ?o = "referral_opts r suffix desc"
  from run pts obtain a b where first: "applyPoints e org acct pts ''BONUS'' ?o s = (Inr (a, b), t)"
    by (auto simp: pay_bonus_def svc_bind_Inr_iff svc_return_def)
  have src: "earn_source ''BONUS'' ?o = Some (''referral'', rf_id r @ suffix)"
    using assms(3) by (simp add: earn_source_def referral_opts_def source_opts_def truthy_str_def
        isEarnSourceIdempotentType_def)
  then have "earn_source ''BONUS'' ?o \<noteq> None" by simp
  then obtain l a' where "earlier_earn org acct ''BONUS'' ?o t = Some l"
    by (rule applyPoints_books [OF first])
  then show ?thesis
    unfolding earlier_earn_def src
    by (auto simp: findExistingEarnLedger_def has_entry_def bonus_entry_def dest: find_SomeD)
qed

lemma complete_loaded_Inr:
  assumes "complete_loaded e org cust p ref s1 = (Inr (Some r), t)"
  obtains acct s2 s3 s4 s5 where "(case rf_referredAccountId p of Some i \<Rightarrow> svc_return (Some i)
        | None \<Rightarrow> svc_bind (ensureAccount e org cust)
             (\<lambda>a. svc_return (map_option (\<lambda>x. ac_id (la_row x)) a))) s1 = (Inr (Some acct), s2)"
    and "pay_bonus e org (rf_referrerAccountId p) (rf_referrerBonusPoints p)
        (referral_opts p '':advocate'' ''Referral bonus (advocate)'') s2 = (Inr (), s3)"
    and "pay_bonus e org acct (rf_referredBonusPoints p)
        (referral_opts p '':welcome'' ''Welcome referral bonus'') s3 = (Inr (), s4)"
    and "(if ac_customerId ref = [] then svc_return ()
        else svc_catch (incrementChallengeProgress e org (ac_customerId ref) ''REFERRALS'' 1)
          (\<lambda>_. svc_return ())) s4 = (Inr (), s5)"
    and "complete_referral e org (rf_id p) acct s5 = Inr (r, t)"
proof -
  from assms [unfolded complete_loaded_def] obtain a s2 where a: "(case rf_referredAccountId p of
        Some i \<Rightarrow> svc_return (Some i) | None \<Rightarrow> svc_bind (ensureAccount e org cust)
             (\<lambda>a. svc_return (map_option (\<lambda>x. ac_id (la_row x)) a))) s1 = (Inr a, s2)"
    and r: "(case a of None \<Rightarrow> svc_return None | Some acct \<Rightarrow>
         svc_bind (pay_bonus e org (rf_referrerAccountId p) (rf_referrerBonusPoints p)
           (referral_opts p '':advocate'' ''Referral bonus (advocate)'')) (\<lambda>_.
         svc_bind (pay_bonus e org acct (rf_referredBonusPoints p)
           (referral_opts p '':welcome'' ''Welcome referral bonus'')) (\<lambda>_.
         svc_bind (if ac_customerId ref = [] then svc_return ()
           else svc_catch
             (incrementChallengeProgress e org (ac_customerId ref) ''REFERRALS'' 1)
             (\<lambda>_. svc_return ())) (\<lambda>_.
         svc_bind (with_tenant (complete_referral e org (rf_id p) acct)) (\<lambda>done.
         svc_return (Some done)))))) s2 = (Inr (Some r), t)"
    by (rule svc_bindE)
  from r obtain acct where "a = Some acct" by (cases a) (auto simp: svc_return_def)
  with r show thesis
    by (auto elim!: svc_bindE simp: with_tenant_Inr_iff svc_return_def intro: that [OF a [unfolded \<open>a = Some acct\<close>]])
qed

text \<open>
  When a pending referral is completed, it was pending for this patron, it is now completed
  under the same terms, and each bonus that is positive is in the ledger of its side: the
  advocate's under the source id with the suffix \<open>:advocate\<close>, the new patron's with \<open>:welcome\<close>.
\<close>

theorem completion_pays_both_sides:
  assumes ok: "referrals_ok s" and run: "completePendingForCustomer e org cust s = (Inr (Some r), t)"
  shows "rf_referredCustomerId r = cust \<and> rf_orgId r = org \<and> rf_status r = ''completed'' \<and>
    (\<exists>p\<in>set (referrals s). rf_status p = ''pending'' \<and> parties p = parties r) \<and>
    (rf_referrerBonusPoints r \<le> 0 \<or>
       (\<exists>l\<in>set (ledger t). bonus_entry org (rf_referrerAccountId r) (rf_id r @ '':advocate'') l)) \<and>
    (rf_referredBonusPoints r \<le> 0 \<or>
       (\<exists>acct l. rf_referredAccountId r = Some acct \<and> l \<in> set (ledger t) \<and>
          bonus_entry org acct (rf_id r @ '':welcome'') l))"
proof -
  from run [unfolded completePendingForCustomer_def] obtain en s0
    where r0: "is_enabled e org s = (Inr en, s0)"
      and r1: "(if \<not> en then svc_return None else svc_bind (with_tenant (load_pending org cust))
        (\<lambda>pending. case pending of None \<Rightarrow> svc_return None
         | Some (r, referrer) \<Rightarrow> complete_loaded e org cust r referrer)) s0 = (Inr (Some r), t)"
    by (rule svc_bindE)
  from r1 have "svc_bind (with_tenant (load_pending org cust))
        (\<lambda>pending. case pending of None \<Rightarrow> svc_return None
         | Some (r, referrer) \<Rightarrow> complete_loaded e org cust r referrer) s0 = (Inr (Some r), t)"
    by (cases en) (simp_all add: svc_return_def)
  then obtain pend s1 where l: "with_tenant (load_pending org cust) s0 = (Inr pend, s1)"
    and r2: "(case pend of None \<Rightarrow> svc_return None
         | Some (r, referrer) \<Rightarrow> complete_loaded e org cust r referrer) s1 = (Inr (Some r), t)"
    by (rule svc_bindE)
  from r2 obtain p ref where pend: "pend = Some (p, ref)"
    and r3: "complete_loaded e org cust p ref s1 = (Inr (Some r), t)"
    by (auto simp: svc_return_def split: option.splits)
  have load: "load_pending org cust s0 = Inr (Some (p, ref), s1)"
    using l pend by (simp add: with_tenant_Inr_iff)
  obtain c where en: "s0 = s\<lparr>redisStore := c\<rparr>" using is_enabled_state [of e org s] r0 by auto
  from load en have p: "find_pending org cust s = Some p" and s1: "s1 = s\<lparr>redisStore := c\<rparr>"
    by (auto simp: load_pending_def tx_defs find_pending_def split: option.splits)
  from p have pin: "p \<in> set (referrals s)" "rf_orgId p = org" "rf_referredCustomerId p = cust"
      "rf_status p = ''pending''"
    by (auto simp: find_pending_def dest: find_SomeD)
  obtain acct s2 s3 s4 s5 where
      who: "(case rf_referredAccountId p of Some i \<Rightarrow> svc_return (Some i)
        | None \<Rightarrow> svc_bind (ensureAccount e org cust)
             (\<lambda>a. svc_return (map_option (\<lambda>x. ac_id (la_row x)) a))) s1 = (Inr (Some acct), s2)"
    and pay1: "pay_bonus e org (rf_referrerAccountId p) (rf_referrerBonusPoints p)
        (referral_opts p '':advocate'' ''Referral bonus (advocate)'') s2 = (Inr (), s3)"
    and pay2: "pay_bonus e org acct (rf_referredBonusPoints p)
        (referral_opts p '':welcome'' ''Welcome referral bonus'') s3 = (Inr (), s4)"
    and chal: "(if ac_customerId ref = [] then svc_return ()
        else svc_catch (incrementChallengeProgress e org (ac_customerId ref) ''REFERRALS'' 1)
          (\<lambda>_. svc_return ())) s4 = (Inr (), s5)"
    and fin: "complete_referral e org (rf_id p) acct s5 = Inr (r, t)"
    by (rule complete_loaded_Inr [OF r3]) (rule that)
  have same: "referrals s5 = referrals s"
  proof -
    let ?I = "\<lambda>u. referrals u = referrals s"
    have eb: "earn_blind ?I" by (simp add: earn_blind_def blind_def)
    have i1: "?I s1" by (simp add: s1)
    have i2: "?I s2"
      using who preservesD [OF earn_frame_ensure [OF eb] i1, of e org cust] i1
      by (cases "rf_referredAccountId p") (auto simp: svc_return_def elim!: svc_bindE)
    have i3: "?I s3" using preservesD [OF earn_frame_bonus [OF eb] i2] pay1 by (metis snd_conv)
    have i4: "?I s4" using preservesD [OF earn_frame_bonus [OF eb] i3] pay2 by (metis snd_conv)
    have "preserves ?I (if ac_customerId ref = [] then svc_return ()
        else svc_catch (incrementChallengeProgress e org (ac_customerId ref) ''REFERRALS'' 1)
          (\<lambda>_. svc_return ()))"
      by (intro pres_intros eb)
    from preservesD [OF this i4] show ?thesis by (simp add: chal)
  qed
  obtain q f where q: "List.find (referral_key org (rf_id p)) (referrals s5) = Some q" and r: "r = f q"
    and t: "t = referrals_update (update_rows (referral_key org (rf_id p)) f) s5"
    and f: "\<And>x. parties (f x) = parties x" "\<And>x. rf_status (f x) = ''completed''"
      "\<And>x. rf_referredAccountId (f x) = Some acct"
    by (rule complete_referral_Inr [OF fin]) (rule that)
  have "q = p"
    using find_SomeD [OF q] pin(1) ok unfolding same
    by (auto simp: referrals_ok_def referral_key_def dest: distinct_map_eq)
  then have par: "parties r = parties p" and st: "rf_status r = ''completed''"
    and acc: "rf_referredAccountId r = Some acct"
    by (simp_all add: r f)
  have rest: "has_entry l t" if "has_entry l s4" for l
  proof -
    have "preserves (has_entry l) (if ac_customerId ref = [] then svc_return ()
        else svc_catch (incrementChallengeProgress e org (ac_customerId ref) ''REFERRALS'' 1)
          (\<lambda>_. svc_return ()))"
      by (intro pres_intros)
    from preservesD [OF this that] have "has_entry l s5" by (simp add: chal)
    then show ?thesis by (simp add: t has_entry_def)
  qed
  have one: "\<exists>l\<in>set (ledger t). bonus_entry org (rf_referrerAccountId p) (rf_id p @ '':advocate'') l"
    if "0 < rf_referrerBonusPoints p"
  proof -
    from pay_bonus_books [OF pay1 that] obtain l where l: "has_entry l s3"
        "bonus_entry org (rf_referrerAccountId p) (rf_id p @ '':advocate'') l" by auto
    have "has_entry l s4" using preservesD [OF has_entry_bonus l(1)] pay2 by (metis snd_conv)
    from rest [OF this] l(2) show ?thesis by (auto simp: has_entry_def)
  qed
  have two: "\<exists>l\<in>set (ledger t). bonus_entry org acct (rf_id p @ '':welcome'') l"
    if "0 < rf_referredBonusPoints p"
    using pay_bonus_books [OF pay2 that] rest by (auto simp: has_entry_def)
  have fields: "rf_id r = rf_id p" "rf_orgId r = org" "rf_referredCustomerId r = cust"
      "rf_referrerAccountId r = rf_referrerAccountId p"
      "rf_referrerBonusPoints r = rf_referrerBonusPoints p"
      "rf_referredBonusPoints r = rf_referredBonusPoints p"
    using par pin(2,3) by (simp_all add: parties_def)
  show ?thesis
    using pin(1,4) st acc par one two unfolding fields by (auto simp: not_le [symmetric])
qed

section \<open>A referral from code to completion\<close>

definition demo_referral :: referral_row where
  "demo_referral = \<lparr>rf_id = ''r1'', rf_orgId = ''o1'', rf_referrerAccountId = ''a1'',
     rf_referredCustomerId = ''c2'', rf_referredAccountId = None, rf_status = ''pending'',
     rf_referrerBonusPoints = 50, rf_referredBonusPoints = 25, rf_completedAt = None\<rparr>"

definition demo_referred :: db where
  "demo_referred = demo_db\<lparr>referrals := [demo_referral]\<rparr>"

definition demo_completed :: db where
  "demo_completed = snd (completePendingForCustomer demo_env ''o1'' ''c2'' demo_referred)"

lemma demo_referrals_ok: "referrals_ok demo_referred"
  by (simp add: referrals_ok_def demo_referred_def)

theorem completion_pays_both_sides_witness:
  "\<exists>r. completePendingForCustomer demo_env ''o1'' ''c2'' demo_referred = (Inr (Some r), demo_completed) \<and>
     rf_status r = ''completed'' \<and> 0 < rf_referrerBonusPoints r \<and>
     (\<exists>l\<in>set (ledger demo_completed). bonus_entry ''o1'' ''a1'' ''r1:advocate'' l)"
proof -
  let ?run = "completePendingForCustomer demo_env ''o1'' ''c2'' demo_referred"
  have "map_option (map_option (\<lambda>r. (rf_id r, rf_referrerAccountId r, rf_referrerBonusPoints r)))
      (result_of ?run) = Some (Some (''r1'', ''a1'', 50))" by code_simp
  then obtain r where res: "result_of ?run = Some (Some r)"
    and r: "rf_id r = ''r1''" "rf_referrerAccountId r = ''a1''" "rf_referrerBonusPoints r = 50" by auto
  have run: "?run = (Inr (Some r), demo_completed)"
    unfolding demo_completed_def by (rule result_ofD [OF res])
  from completion_pays_both_sides [OF demo_referrals_ok run] r run show ?thesis by simp
qed

theorem completed_referral_is_final_witness:
  "referral_status (''o1'', ''r1'') (snd (completePendingForCustomer demo_env ''o1'' ''c2'' demo_completed))
   = Some ''completed''"
proof -
  have "referral_status (''o1'', ''r1'') demo_completed = Some ''completed''" by code_simp
  then show ?thesis
    by (rule completed_referral_is_final [OF r_into_rtranclp [of referral_step, OF rs_complete]])
qed

definition demo_twice :: db where
  "demo_twice = snd (applyReferral demo_env ''o1'' ''abcd2345'' ''c2'' (demo_db\<lparr>referrals := []\<rparr>))"

theorem one_referral_per_patron_witness:
  "map rf_referredCustomerId (referrals demo_twice) = [''c2''] \<and>
   hd (referrals demo_twice) = last (referrals demo_twice)"
proof -
  have run: "referral_step\<^sup>*\<^sup>* (demo_db\<lparr>referrals := []\<rparr>) demo_twice"
    unfolding demo_twice_def by (rule r_into_rtranclp) (rule rs_apply)
  have ok: "referrals_ok (demo_db\<lparr>referrals := []\<rparr>)" by (simp add: referrals_ok_def)
  have "map (\<lambda>p. (rf_orgId p, rf_referredCustomerId p)) (referrals demo_twice) = [(''o1'', ''c2'')]"
    by code_simp
  then obtain p where p: "referrals demo_twice = [p]" "rf_referredCustomerId p = ''c2''" by auto
  have "hd (referrals demo_twice) = last (referrals demo_twice)"
    by (rule one_referral_per_patron [OF run ok]) (simp_all add: p)
  with p show ?thesis by simp
qed

end
