(* ===== verification/ProgramFacts.thy ===== *)
theory ProgramFacts
  imports Program AccountFacts PointsProps
begin

text \<open>
  The program of a tenant: created once, what an event earns under it, and the shape of the referral
  codes it hands out.
\<close>

section \<open>Created once\<close>

lemma insert_tier_programs: "insert_tier t s = Inr (u, s') \<Longrightarrow> programs s' = programs s"
  by (auto simp: insert_tier_def split: if_splits)

lemma tx_foreach_frame:
  "(\<And>x u v w. f x v = Inr (u, w) \<Longrightarrow> g w = g v) \<Longrightarrow> tx_foreach xs f s = Inr (u, t) \<Longrightarrow> g t = g s"
proof (induction xs arbitrary: s)
  case (Cons x xs)
  then show ?case by (fastforce simp: tx_bind_Inr_iff)
qed (simp add: tx_return_def)

text \<open>
  Creating the program is idempotent: once it ran, running it again, at any time and with any
  fresh ids, finds the same program, tiers and rules and changes nothing.
\<close>

theorem program_created_once:
  assumes run: "get_or_create_program_tx e org s = Inr (x, t)"
  shows "get_or_create_program_tx e' org t = Inr (x, t)"
proof (cases "find_program org s")
  case (Some p)
  then show ?thesis using run by (auto simp: get_or_create_program_tx_def tx_defs)
next
  case None
  let ?p = "new_program (en_uuid e ''loyalty_programs'') org"
  from run None obtain s1 s2 where
      tiers: "tx_foreach LOYALTY_DEFAULT_TIERS (\<lambda>d. insert_tier
             \<lparr>ti_id = en_uuid e (''loyalty_tiers/'' @ dt_slug d), ti_orgId = org,
              ti_programId = pr_id ?p, ti_name = dt_name d, ti_slug = dt_slug d,
              ti_minLifetimePoints = dt_min d, ti_sortOrder = dt_sort d,
              ti_color = Some (dt_color d)\<rparr>) (s\<lparr>programs := programs s @ [?p]\<rparr>) = Inr ((), s1)"
    and rules: "tx_foreach LOYALTY_DEFAULT_EARN_RULES (\<lambda>(ev, nm, pts). insert_rule
             \<lparr>er_id = en_uuid e (''loyalty_earn_rules/'' @ ev), er_orgId = org,
              er_programId = pr_id ?p, er_name = nm, er_eventType = ev, er_points = pts,
              er_active = True, er_conditions = [], er_createdAt = en_now e\<rparr>) s1 = Inr ((), s2)"
    and res: "x = (?p, program_tiers ?p s2, program_rules ?p s2)" "t = s2"
    by (auto simp: get_or_create_program_tx_def Let_def tx_bind_Inr_iff tx_read_def tx_gets_def
        insert_program_def tx_modify_def)
  have "programs s1 = programs s @ [?p]"
    using tx_foreach_frame [OF _ tiers, where g = programs] insert_tier_programs by fastforce
  moreover have "programs s2 = programs s1"
    by (rule tx_foreach_frame [OF _ rules, where g = programs])
      (auto simp: insert_rule_def tx_modify_def split: prod.splits)
  ultimately have "programs t = programs s @ [?p]" by (simp add: res)
  then have "find_program org t = Some ?p"
    using None by (simp add: find_program_def find_append new_program_def)
  then show ?thesis by (simp add: get_or_create_program_tx_def tx_defs res)
qed

theorem program_created_once_witness:
  "\<exists>x t. get_or_create_program_tx demo_env ''o2'' demo_db = Inr (x, t) \<and>
     get_or_create_program_tx demo_env ''o2'' t = Inr (x, t)"
proof -
  have "tx_result (get_or_create_program_tx demo_env ''o2'' demo_db) \<noteq> None" by code_simp
  then obtain x t where run: "get_or_create_program_tx demo_env ''o2'' demo_db = Inr (x, t)"
    by (auto simp: tx_result_def split: sum.splits)
  from program_created_once [OF this] run show ?thesis by blast
qed

section \<open>What an event earns\<close>

lemma eligible_amount_plain: "eligible_amount [] ctx = patched (cx_purchaseAmountCents ctx) 0"
  by (simp add: eligible_amount_def json_get_def)

lemma no_conditions: "ruleMatchesConditions e org [] ctx s"
  by (simp add: ruleMatchesConditions_def json_get_def)

text \<open>
  Under a program whose first active purchase rule is the default one, a point per dollar and no
  conditions, a purchase earns one point per full dollar.
\<close>

theorem purchase_earns_a_point_per_dollar:
  assumes "find_program org s = Some p" and "pr_enabled p"
    and "active_rules p ''PURCHASE'' s = r # rs" and "er_points r = 1" and "er_conditions r = []"
    and "cx_purchaseAmountCents ctx = Some cents" and "0 < cents"
  shows "earn_points_of e org ''PURCHASE'' ctx s = cents div 100"
  using assms by (simp add: earn_points_of_def no_conditions eligible_amount_plain Let_def patched_def)

definition demo_ctx :: "int \<Rightarrow> earn_ctx" where
  "demo_ctx cents = \<lparr>cx_purchaseAmountCents = Some cents, cx_branchId = None, cx_tierSlug = None,
     cx_lifetimePointsEarned = None, cx_totalVisits = None, cx_accountId = None, cx_lineItems = None\<rparr>"

definition demo_rule :: "int \<Rightarrow> rule_row" where
  "demo_rule n = \<lparr>er_id = ''e1'', er_orgId = ''o1'', er_programId = ''p1'', er_name = ''Purchase'',
     er_eventType = ''PURCHASE'', er_points = n, er_active = True, er_conditions = [], er_createdAt = 0\<rparr>"

theorem purchase_earns_a_point_per_dollar_witness:
  "earn_points_of demo_env ''o1'' ''PURCHASE'' (demo_ctx 1299) (demo_db\<lparr>earnRules := [demo_rule 1]\<rparr>) = 12"
proof -
  have "earn_points_of demo_env ''o1'' ''PURCHASE'' (demo_ctx 1299) (demo_db\<lparr>earnRules := [demo_rule 1]\<rparr>)
    = 1299 div 100"
    by (rule purchase_earns_a_point_per_dollar [of _ _ demo_program "demo_rule 1" "[]"])
      (simp_all add: find_program_def demo_db_def demo_program_def active_rules_def demo_rule_def
        demo_ctx_def)
  then show ?thesis by simp
qed

text \<open>Amounts of a context that no sale can make negative.\<close>

definition sane_ctx :: "earn_ctx \<Rightarrow> bool" where
  "sane_ctx ctx \<longleftrightarrow> 0 \<le> patched (cx_purchaseAmountCents ctx) 0 \<and>
     (\<forall>i\<in>set (patched (cx_lineItems ctx) []). 0 \<le> li_priceCents i \<and> 0 \<le> li_quantity i)"

lemma eligible_amount_nonneg: "sane_ctx ctx \<Longrightarrow> 0 \<le> eligible_amount c ctx"
  unfolding eligible_amount_def Let_def by (auto simp: sane_ctx_def intro!: sum_list_nonneg)

lemma first_rule_points_nonneg:
  "first_rule_points e org ev ctx s rs = Some n \<Longrightarrow> (\<And>r. r \<in> set rs \<Longrightarrow> 0 \<le> er_points r) \<Longrightarrow>
   sane_ctx ctx \<Longrightarrow> 0 \<le> n"
proof (induction rs)
  case (Cons r rs)
  then show ?case
    using eligible_amount_nonneg [OF Cons.prems(3), of "er_conditions r"]
    by (auto simp: Let_def split: if_splits)
qed simp

text \<open>
  No event earns a negative number of points under a program whose rules and default award none,
  for amounts that are not negative.
\<close>

theorem earned_points_nonneg:
  assumes "\<And>p. find_program org s = Some p \<Longrightarrow> 0 \<le> pr_defaultEarnPoints p"
    and "\<And>r. r \<in> set (earnRules s) \<Longrightarrow> 0 \<le> er_points r" and "sane_ctx ctx"
  shows "0 \<le> earn_points_of e org ev ctx s"
proof (cases "find_program org s")
  case (Some p)
  have "0 \<le> er_points r" if "r \<in> set (active_rules p ev s)" for r
    using that assms(2) by (auto simp: active_rules_def)
  then show ?thesis
    using Some assms(1) [OF Some] assms(3) first_rule_points_nonneg
    by (auto simp: earn_points_of_def Let_def split: option.splits)
qed (simp add: earn_points_of_def)

theorem earned_points_nonneg_witness:
  "0 \<le> earn_points_of demo_env ''o1'' ''PURCHASE'' (demo_ctx 250) (demo_db\<lparr>earnRules := [demo_rule 7]\<rparr>)"
  by (rule earned_points_nonneg)
    (auto simp: find_program_def demo_db_def demo_program_def demo_rule_def sane_ctx_def demo_ctx_def
      patched_def)

section \<open>Referral codes\<close>

lemma generated_length: "length (generateReferralCode n bytes) = n"
  by (simp add: generateReferralCode_def)

lemma generated_alphabet: "set (generateReferralCode n bytes) \<subseteq> set ALPHABET"
  by (auto simp: generateReferralCode_def intro!: nth_mem mod_less_divisor) (simp add: ALPHABET_def)

lemma try_codes_Some:
  "try_codes bytes org s is = Some c \<Longrightarrow>
   length c = 8 \<and> set c \<subseteq> set ALPHABET \<and> code_exists org c s = False"
  by (induction "is") (auto simp: Let_def generated_length split: if_splits
      dest: subsetD [OF generated_alphabet])

text \<open>
  A generated referral code has letters of the alphabet only, which has no 0, O, 1 or I, and is
  either eight characters long and unused in the tenant, or, after eight collisions, twelve.
\<close>

theorem referral_code_shape:
  "let c = generateUniqueReferralCode bytes org s in
   set c \<subseteq> set ALPHABET \<and> set ALPHABET \<inter> {CHR ''0'', CHR ''O'', CHR ''1'', CHR ''I''} = {} \<and>
   ((length c = 8 \<and> code_exists org c s = False) \<or> length c = 12)"
proof -
  have "set ALPHABET \<inter> {CHR ''0'', CHR ''O'', CHR ''1'', CHR ''I''} = {}" by (simp add: ALPHABET_def)
  moreover have "set (generateUniqueReferralCode bytes org s) \<subseteq> set ALPHABET \<and>
    ((length (generateUniqueReferralCode bytes org s) = 8 \<and>
      code_exists org (generateUniqueReferralCode bytes org s) s = False) \<or>
     length (generateUniqueReferralCode bytes org s) = 12)"
    using try_codes_Some [of bytes org s "[0..<8]"] generated_alphabet [of 12 "bytes 8"]
    by (auto simp: generateUniqueReferralCode_def generated_length split: option.splits)
  ultimately show ?thesis unfolding Let_def by blast
qed

end
