(* ===== verification/GameFacts.thy ===== *)
theory GameFacts
  imports Frames CatalogFacts
begin

text \<open>
  Challenges and games: a challenge pays its reward once, a game can be played once per cool-down,
  and the wheel picks by cumulative weight.
\<close>

section \<open>Challenges\<close>

definition completed_progress :: "uuid \<Rightarrow> uuid \<Rightarrow> db \<Rightarrow> bool" where
  "completed_progress acct cid s \<longleftrightarrow> (\<exists>p. find_progress acct cid s = Some p \<and> cp_completedAt p \<noteq> None)"

lemma find_progress_update:
  assumes "\<And>q. progress_key acct cid (f q) = progress_key acct cid q"
  shows "find_progress acct cid (progresses_update (update_rows P f) s) =
    map_option (\<lambda>q. if P q then f q else q) (find_progress acct cid s)"
  using assms by (simp add: find_progress_def) (rule find_update_rows)

lemma upsert_progress_Inr:
  assumes "upsert_progress org acct cid n s = Inr (p, t)"
  shows "find_progress acct cid t = Some p"
    and "\<exists>f. t = progresses_update f s"
    and "cp_completedAt p = Option.bind (find_progress acct cid s) cp_completedAt"
    and "cp_progress p = (case find_progress acct cid s of None \<Rightarrow> n | Some q \<Rightarrow> cp_progress q + n)"
proof -
  let ?g = "\<lambda>q. q\<lparr>cp_progress := cp_progress q + n\<rparr>"
  let ?new = "\<lparr>cp_orgId = org, cp_accountId = acct, cp_challengeId = cid, cp_progress = n,
    cp_completedAt = None\<rparr>"
  have all: "find_progress acct cid t = Some p \<and> (\<exists>f. t = progresses_update f s) \<and>
    cp_completedAt p = Option.bind (find_progress acct cid s) cp_completedAt \<and>
    cp_progress p = (case find_progress acct cid s of None \<Rightarrow> n | Some q \<Rightarrow> cp_progress q + n)"
  proof (cases "find_progress acct cid s")
    case None
    with assms have p: "p = ?new" and t: "t = progresses_update (\<lambda>ps. ps @ [?new]) s"
      by (auto simp: upsert_progress_def tx_defs Let_def split: if_splits)
    have "find_progress acct cid t = Some p"
      using None by (simp add: t p find_progress_def find_append progress_key_def)
    then show ?thesis using None p t by auto
  next
    case (Some q)
    with assms have p: "p = ?g q"
      and t: "t = progresses_update (update_rows (progress_key acct cid) ?g) s"
      by (auto simp: upsert_progress_def tx_defs split: if_splits)
    have "find_progress acct cid t =
        map_option (\<lambda>q. if progress_key acct cid q then ?g q else q) (find_progress acct cid s)"
      unfolding t by (rule find_progress_update) (simp add: progress_key_def)
    moreover have "progress_key acct cid q" using Some find_SomeD by (fastforce simp: find_progress_def)
    ultimately show ?thesis using Some p t by auto
  qed
  then show "find_progress acct cid t = Some p" "\<exists>f. t = progresses_update f s"
    "cp_completedAt p = Option.bind (find_progress acct cid s) cp_completedAt"
    "cp_progress p = (case find_progress acct cid s of None \<Rightarrow> n | Some q \<Rightarrow> cp_progress q + n)"
    by blast+
qed

text \<open>Completing, as the code does it, when the target is reached.\<close>

lemma complete_progress_found:
  assumes "find_progress acct cid s = Some p"
  shows "find_progress acct cid (progresses_update (update_rows (progress_key acct cid)
      (\<lambda>q. q\<lparr>cp_completedAt := Some now, cp_progress := target\<rparr>)) s) =
    Some (p\<lparr>cp_completedAt := Some now, cp_progress := target\<rparr>)"
  using assms find_SomeD [of "progress_key acct cid" "progresses s" p]
  by (simp add: find_progress_update progress_key_def) (simp add: find_progress_def progress_key_def)

text \<open>
  A challenge that is completed never pays again: further progress on it is counted, moves no
  points and reports no reward.
\<close>

theorem challenge_pays_once:
  assumes "completed_progress acct (ch_id c) s" and "advance_challenge e org cust acct n c s = Inr (r, t)"
  shows "r = None \<and> completed_progress acct (ch_id c) t \<and> accounts t = accounts s \<and> ledger t = ledger s"
proof -
  from assms(2) obtain p u where up: "upsert_progress org acct (ch_id c) n s = Inr (p, u)"
    and rest: "(if cp_completedAt p = None \<and> ch_targetValue c \<le> cp_progress p then
         tx_bind (complete_progress e acct (ch_id c) (ch_targetValue c)) (\<lambda>_.
           if 0 < ch_rewardPoints c then
             tx_bind (adjustPoints_tx e org cust (ch_rewardPoints c)
                (Some (''Challenge completed: '' @ ch_name c))) (\<lambda>r. tx_return (Some r))
           else tx_return None)
       else tx_return None) u = Inr (r, t)"
    by (auto simp: advance_challenge_def tx_bind_Inr_iff)
  note u = upsert_progress_Inr [OF up]
  have "cp_completedAt p \<noteq> None" using assms(1) u(3) by (auto simp: completed_progress_def)
  with rest have "r = None" "t = u" by (auto simp: tx_return_def)
  then show ?thesis
    using u(1,2) \<open>cp_completedAt p \<noteq> None\<close> by (auto simp: completed_progress_def)
qed

text \<open>
  The first time the progress of a challenge reaches its target, the challenge is completed in
  the same transaction that books the reward, and the reward goes out with it.
\<close>

theorem challenge_completes_and_pays:
  assumes "\<not> completed_progress acct (ch_id c) s"
    and "advance_challenge e org cust acct n c s = Inr (r, t)"
    and "ch_targetValue c \<le>
      (case find_progress acct (ch_id c) s of None \<Rightarrow> n | Some q \<Rightarrow> cp_progress q + n)"
    and "0 < ch_rewardPoints c"
  shows "completed_progress acct (ch_id c) t \<and> (\<exists>x a. r = Some x \<and>
    find_account_of org cust s = Some a \<and> length (ledger t) = length (ledger s) + 1 \<and>
    le_accountId (last (ledger t)) = ac_id a \<and> le_points (last (ledger t)) = ch_rewardPoints c)"
proof -
  from assms(2) obtain p u where up: "upsert_progress org acct (ch_id c) n s = Inr (p, u)"
    and rest: "(if cp_completedAt p = None \<and> ch_targetValue c \<le> cp_progress p then
         tx_bind (complete_progress e acct (ch_id c) (ch_targetValue c)) (\<lambda>_.
           if 0 < ch_rewardPoints c then
             tx_bind (adjustPoints_tx e org cust (ch_rewardPoints c)
                (Some (''Challenge completed: '' @ ch_name c))) (\<lambda>r. tx_return (Some r))
           else tx_return None)
       else tx_return None) u = Inr (r, t)"
    by (auto simp: advance_challenge_def tx_bind_Inr_iff)
  note u = upsert_progress_Inr [OF up]
  have "cp_completedAt p = None" "ch_targetValue c \<le> cp_progress p"
    using assms(1,3) u(3,4)
    by (cases "find_progress acct (ch_id c) s"; simp add: completed_progress_def)+
  with rest assms(4) obtain v x where v: "v = progresses_update (update_rows (progress_key acct (ch_id c))
        (\<lambda>q. q\<lparr>cp_completedAt := Some (en_now e), cp_progress := ch_targetValue c\<rparr>)) u"
    and adj: "adjustPoints_tx e org cust (ch_rewardPoints c)
        (Some (''Challenge completed: '' @ ch_name c)) v = Inr (x, t)" and r: "r = Some x"
    by (auto simp: tx_bind_Inr_iff complete_progress_def tx_modify_def tx_return_def)
  obtain f where f: "v = progresses_update f s" using u(2) v by auto
  have fa: "find_account_of org cust v = find_account_of org cust s"
    by (simp add: f find_account_of_def)
  from adj obtain a where a: "find_account_of org cust s = Some a"
    and run: "applyPointsInTransaction e org (ac_id a) \<bar>ch_rewardPoints c\<bar>
      (adjust_type (ch_rewardPoints c)) (adjust_opts (Some (''Challenge completed: '' @ ch_name c))) v
      = Inr (x, t)"
    by (auto simp: adjustPoints_tx_def adjustPointsInTransaction_def tx_defs fa split: option.splits)
  have ne: "\<not> isEarnSourceIdempotentType (adjust_type (ch_rewardPoints c))"
    using assms(4) by (simp add: adjust_type_def isEarnSourceIdempotentType_def)
  obtain b h where t: "t = (set_accounts org (ac_id a) h v)\<lparr>ledger := ledger v @
      [posted_row e org (ac_id a) \<bar>ch_rewardPoints c\<bar> (adjust_type (ch_rewardPoints c))
        (adjust_opts (Some (''Challenge completed: '' @ ch_name c))) b]\<rparr>"
    by (rule apply_tx_moves [OF run ne]) (rule that)
  have "find_progress acct (ch_id c) t = find_progress acct (ch_id c) v"
    by (simp add: t find_progress_def set_accounts_def)
  then have "completed_progress acct (ch_id c) t"
    using complete_progress_found [OF u(1), of "ch_targetValue c" "en_now e"]
    by (simp add: v completed_progress_def)
  moreover have "length (ledger t) = length (ledger s) + 1" by (simp add: t f)
  moreover have "le_accountId (last (ledger t)) = ac_id a" by (simp add: t)
  moreover have "le_points (last (ledger t)) = ch_rewardPoints c"
    using assms(4) by (simp add: t adjust_type_def signed_points_def isDebitLedgerType_def)
  ultimately show ?thesis using a r by blast
qed

definition demo_challenge :: challenge_row where
  "demo_challenge = \<lparr>ch_id = ''h1'', ch_orgId = ''o1'', ch_name = ''Two visits'', ch_targetType = ''VISITS'',
     ch_targetValue = 2, ch_rewardPoints = 30, ch_active = True\<rparr>"

definition demo_progress :: "int \<Rightarrow> time option \<Rightarrow> db" where
  "demo_progress n t = demo_db\<lparr>challenges := [demo_challenge], progresses := [\<lparr>cp_orgId = ''o1'',
     cp_accountId = ''a1'', cp_challengeId = ''h1'', cp_progress = n, cp_completedAt = t\<rparr>]\<rparr>"

theorem challenge_pays_once_witness:
  "\<exists>t. advance_challenge demo_env ''o1'' ''c1'' ''a1'' 1 demo_challenge (demo_progress 2 (Some 5)) = Inr (None, t) \<and>
     ledger t = ledger demo_db"
proof -
  let ?run = "advance_challenge demo_env ''o1'' ''c1'' ''a1'' 1 demo_challenge (demo_progress 2 (Some 5))"
  have "tx_result ?run \<noteq> None" by code_simp
  then obtain r t where run: "?run = Inr (r, t)" by (auto simp: tx_result_def split: sum.splits)
  have "completed_progress ''a1'' (ch_id demo_challenge) (demo_progress 2 (Some 5))"
    by (simp add: completed_progress_def find_progress_def progress_key_def demo_progress_def
        demo_challenge_def)
  from challenge_pays_once [OF this run] run show ?thesis by (simp add: demo_progress_def)
qed

theorem challenge_completes_and_pays_witness:
  "\<exists>x t. advance_challenge demo_env ''o1'' ''c1'' ''a1'' 1 demo_challenge (demo_progress 1 None) = Inr (Some x, t) \<and>
     le_points (last (ledger t)) = 30"
proof -
  let ?run = "advance_challenge demo_env ''o1'' ''c1'' ''a1'' 1 demo_challenge (demo_progress 1 None)"
  have "tx_result ?run \<noteq> None" by code_simp
  then obtain r t where run: "?run = Inr (r, t)" by (auto simp: tx_result_def split: sum.splits)
  have f: "find_progress ''a1'' (ch_id demo_challenge) (demo_progress 1 None) = Some \<lparr>cp_orgId = ''o1'',
     cp_accountId = ''a1'', cp_challengeId = ''h1'', cp_progress = 1, cp_completedAt = None\<rparr>"
    by (simp add: find_progress_def progress_key_def demo_progress_def demo_challenge_def)
  have "\<not> completed_progress ''a1'' (ch_id demo_challenge) (demo_progress 1 None)"
    by (simp add: completed_progress_def f)
  from challenge_completes_and_pays [OF this run] f run show ?thesis
    by (auto simp: demo_challenge_def)
qed

section \<open>Games\<close>

lemma last_play_latest:
  assumes "p \<in> set (plays_of org acct g s)"
  obtains q where "last_play org acct g s = Some q" and "gp_playedAt p \<le> gp_playedAt q"
proof (cases "sort_key (\<lambda>p. - gp_playedAt p) (plays_of org acct g s)")
  case Nil
  then have "set (plays_of org acct g s) = {}" by (metis set_sort list.set(1))
  then show ?thesis using assms by simp
next
  case (Cons q qs)
  from sort_key_hd_least [OF Cons] assms have "gp_playedAt p \<le> gp_playedAt q" by auto
  with Cons show ?thesis by (intro that) (simp_all add: last_play_def)
qed

definition played :: "uuid \<Rightarrow> uuid \<Rightarrow> string \<Rightarrow> time \<Rightarrow> db \<Rightarrow> bool" where
  "played org acct g now s \<longleftrightarrow> (\<exists>p\<in>set (plays_of org acct g s). gp_playedAt p = now)"

lemma played_frame [pres_intros]: "earn_blind (played org acct g now)"
  by (simp add: earn_blind_def blind_def played_def plays_of_def)

lemma play_game_tx_Inr:
  assumes "play_game_tx e org acct cust g oc s = Inr (r, t)"
  shows "case next_eligible org acct g s of None \<Rightarrow> True | Some u \<Rightarrow> u \<le> en_now e"
    and "played org acct g (en_now e) t"
proof -
  let ?p = "\<lparr>gp_orgId = org, gp_accountId = acct, gp_gameType = g, gp_resultLabel = oc_label oc,
    gp_pointsAwarded = oc_points oc, gp_playedAt = en_now e\<rparr>"
  let ?s = "gamePlays_update (\<lambda>ps. ps @ [?p]) s"
  from assms show "case next_eligible org acct g s of None \<Rightarrow> True | Some u \<Rightarrow> u \<le> en_now e"
    by (auto simp: play_game_tx_def tx_read_def tx_throw_def split: if_splits option.splits)
  have rest: "(if 0 < oc_points oc then tx_bind (adjustPoints_tx e org cust (oc_points oc)
            (Some (''Patron '' @ replace_underscore g @ '': '' @ oc_label oc)))
           (\<lambda>r. tx_return (Some r)) else tx_return None) ?s = Inr (r, t)"
    using assms
    by (simp add: play_game_tx_def tx_read_def tx_throw_def tx_bind_def [of "tx_modify f" for f]
        tx_modify_def split: if_splits)
  have "played org acct g (en_now e) ?s" by (simp add: played_def plays_of_def)
  moreover have "preserves_tx (played org acct g (en_now e)) (if 0 < oc_points oc
      then tx_bind (adjustPoints_tx e org cust (oc_points oc)
            (Some (''Patron '' @ replace_underscore g @ '': '' @ oc_label oc)))
           (\<lambda>r. tx_return (Some r)) else tx_return None)"
    by (intro pres_intros)
  ultimately show "played org acct g (en_now e) t" using rest by (blast dest: preserves_txD)
qed

lemma playPatronGame_Inr:
  assumes "playPatronGame e org acct g s = (Inr r, t)"
  obtains c and a :: account_row and x u where "play_game_tx e org acct (ac_customerId a) g (game_outcome e g)
      (s\<lparr>redisStore := c\<rparr>) = Inr (x, u)" and "played org acct g (en_now e) t"
proof -
  from assms [unfolded playPatronGame_def] obtain s0 where
      en: "require_enabled e org s = (Inr (), s0)"
    and r1: "svc_bind (with_tenant (tx_gets (find_account org acct))) (\<lambda>a.
       case a of None \<Rightarrow> svc_throw (BadRequest ''Account not found'')
       | Some a \<Rightarrow> (let oc = game_outcome e g in
            svc_bind (with_tenant (play_game_tx e org acct (ac_customerId a) g oc)) (\<lambda>r.
            svc_bind (dispatch_unless_replay org acct r manual_opts) (\<lambda>_.
            svc_return (oc_label oc, oc_points oc))))) s0 = (Inr r, t)"
    by (rule svc_bindE) simp
  obtain c where s0: "s0 = s\<lparr>redisStore := c\<rparr>"
    using en by (cases rule: require_enabledE [of e org s]) auto
  from r1 obtain a :: account_row and x u v where
      p: "play_game_tx e org acct (ac_customerId a) g (game_outcome e g) s0 = Inr (x, u)"
    and d: "dispatch_unless_replay org acct x manual_opts u = (Inr v, t)"
    by (auto elim!: svc_bindE simp: with_tenant_Inr_iff tx_gets_def svc_throw_def svc_return_def Let_def
        split: option.splits)
  have "preserves (played org acct g (en_now e)) (dispatch_unless_replay org acct x manual_opts)"
    by (intro pres_intros earn_blindD(4) [OF played_frame])
  from preservesD [OF this play_game_tx_Inr(2) [OF p]] d have "played org acct g (en_now e) t" by simp
  with p s0 show ?thesis by (intro that) auto
qed

text \<open>
  Two plays of a game by the same patron are at least the cool-down of the game apart: seven
  days for the wheel, three for the scratch card.
\<close>

theorem plays_respect_cooldown:
  assumes "playPatronGame e org acct g s = (Inr r, t)" and "playPatronGame e' org acct g t = (Inr r', t')"
  shows "en_now e + cooldown_days g * 86400000 \<le> en_now e'"
proof -
  have "played org acct g (en_now e) t" by (rule playPatronGame_Inr [OF assms(1)]) simp
  then obtain p where p: "p \<in> set (plays_of org acct g t)" "gp_playedAt p = en_now e"
    by (auto simp: played_def)
  obtain c and a :: account_row and x u where run: "play_game_tx e' org acct (ac_customerId a) g (game_outcome e' g)
      (t\<lparr>redisStore := c\<rparr>) = Inr (x, u)"
    by (rule playPatronGame_Inr [OF assms(2)]) (rule that)
  obtain q where q: "last_play org acct g t = Some q" "gp_playedAt p \<le> gp_playedAt q"
    by (rule last_play_latest [OF p(1)]) (rule that)
  have "next_eligible org acct g (t\<lparr>redisStore := c\<rparr>) = next_eligible org acct g t"
    by (simp add: next_eligible_def last_play_def plays_of_def)
  then show ?thesis
    using play_game_tx_Inr(1) [OF run] q p(2) by (simp add: next_eligible_def [of org acct g t])
qed

definition demo_later :: env where
  "demo_later = demo_env\<lparr>en_now := en_now demo_env + 8 * 86400000\<rparr>"

definition demo_played :: db where
  "demo_played = snd (playPatronGame demo_env ''o1'' ''a1'' ''spin_wheel'' demo_db)"

theorem plays_respect_cooldown_witness:
  "en_now demo_env + 7 * 86400000 \<le> en_now demo_later"
proof -
  have r1: "result_of (playPatronGame demo_env ''o1'' ''a1'' ''spin_wheel'' demo_db) \<noteq> None" by code_simp
  have r2: "result_of (playPatronGame demo_later ''o1'' ''a1'' ''spin_wheel'' demo_played) \<noteq> None" by code_simp
  from r1 r2 obtain x y where "result_of (playPatronGame demo_env ''o1'' ''a1'' ''spin_wheel'' demo_db) = Some x"
    and y: "result_of (playPatronGame demo_later ''o1'' ''a1'' ''spin_wheel'' demo_played) = Some y" by blast
  then have "playPatronGame demo_env ''o1'' ''a1'' ''spin_wheel'' demo_db = (Inr x, demo_played)"
    unfolding demo_played_def by (blast intro: result_ofD)
  from plays_respect_cooldown [OF this result_ofD [OF y]] show ?thesis by (simp add: cooldown_days_def)
qed

section \<open>The wheel\<close>

definition weight_upto :: "nat \<Rightarrow> outcome list \<Rightarrow> int" where
  "weight_upto k items = sum_list (map (int \<circ> oc_weight) (take k items))"

lemma pick_loop_spec:
  "pick_loop den roll items = Some i \<Longrightarrow>
   \<exists>k<length items. i = items ! k \<and> roll \<le> weight_upto (k + 1) items * den \<and>
     (\<forall>j<k. weight_upto (j + 1) items * den < roll)"
proof (induction items arbitrary: roll)
  case (Cons x xs)
  show ?case
  proof (cases "roll - int (oc_weight x) * den \<le> 0")
    case True
    then show ?thesis using Cons.prems by (intro exI [of _ 0]) (simp add: weight_upto_def)
  next
    case False
    with Cons.prems have "pick_loop den (roll - int (oc_weight x) * den) xs = Some i" by simp
    from Cons.IH [OF this] obtain k where k: "k < length xs" "i = xs ! k"
        "roll - int (oc_weight x) * den \<le> weight_upto (k + 1) xs * den"
        "\<forall>j<k. weight_upto (j + 1) xs * den < roll - int (oc_weight x) * den" by blast
    have step: "weight_upto (Suc n) (x # xs) = int (oc_weight x) + weight_upto n xs" for n
      by (simp add: weight_upto_def)
    have "weight_upto (j + 1) (x # xs) * den < roll" if "j < Suc k" for j
      using that k(4) False step by (cases j) (auto simp: weight_upto_def distrib_right)
    then show ?thesis
      using k step [of "k + 1"] by (intro exI [of _ "Suc k"]) (auto simp: distrib_right)
  qed
qed simp

lemma pick_loop_total:
  "items \<noteq> [] \<Longrightarrow> roll \<le> weight_upto (length items) items * den \<Longrightarrow> pick_loop den roll items \<noteq> None"
proof (induction items arbitrary: roll)
  case (Cons x xs)
  show ?case
  proof (cases "xs = []")
    case True
    then show ?thesis using Cons.prems by (simp add: weight_upto_def)
  next
    case False
    then show ?thesis
      using Cons.IH [OF False, of "roll - int (oc_weight x) * den"] Cons.prems(2)
      by (simp add: weight_upto_def distrib_right)
  qed
qed simp

text \<open>
  A weighted draw picks the first outcome whose cumulative weight reaches the roll, for every
  value of the random number below one; the fallback to the last outcome is never needed.
\<close>

theorem weighted_draw:
  assumes "num < den" and "items \<noteq> []"
  shows "\<exists>k<length items. pickWeighted num den items = items ! k \<and>
    int num * weight_upto (length items) items \<le> weight_upto (k + 1) items * int den \<and>
    (\<forall>j<k. weight_upto (j + 1) items * int den < int num * weight_upto (length items) items)"
proof -
  let ?T = "weight_upto (length items) items"
  have T: "sum_list (map (int \<circ> oc_weight) items) = ?T" by (simp add: weight_upto_def)
  have "0 \<le> ?T" unfolding weight_upto_def by (intro sum_list_nonneg) auto
  then have "int num * ?T \<le> ?T * int den"
    using assms(1) by (simp add: mult.commute [of _ "int den"] mult_right_mono)
  from pick_loop_total [OF assms(2) this] obtain i where
    i: "pick_loop (int den) (int num * ?T) items = Some i" by auto
  then have "pickWeighted num den items = i" by (simp add: pickWeighted_def T)
  with pick_loop_spec [OF i] show ?thesis by auto
qed

theorem weighted_draw_witness:
  "\<exists>k<4. pickWeighted 55 100 spinOutcomes = spinOutcomes ! k \<and>
     55 * weight_upto 4 spinOutcomes \<le> weight_upto (k + 1) spinOutcomes * 100"
proof -
  have "length spinOutcomes = 4" "spinOutcomes \<noteq> []" by (simp_all add: spinOutcomes_def)
  with weighted_draw [of 55 100 spinOutcomes] show ?thesis by auto
qed

end
