(* ===== verification/PortalFacts.thy ===== *)
theory PortalFacts
  imports Portal Frames PointsProps
begin

text \<open>
  The portal: a one-time password opens one session, a session is for the account it names, every
  action needs the legal consent, and a rotated connector key is the only one that opens the tenant.
  Signing and verification of tokens and the hash are the parameters of the model; what is assumed
  of them is written out in each statement.
\<close>

section \<open>One-time passwords\<close>

lemma verifyOtp_Inr:
  assumes "verifyOtp e sha256 sign code otp s = (Inr tok, t)"
  obtains a where "six_digits (js_trim otp)" and "t = cache_del (otpKey code) s"
    and "cache_get (en_now e) (otpKey code) s = Some (sha256 (js_trim otp))"
    and "find_code code s = Some a" and "tok = sign (portal_token_of a)"
proof -
  have f: "find_code code (cache_del (otpKey code) s) = find_code code s"
    by (simp add: find_code_def cache_del_def)
  show thesis
    using assms f that
    by (auto simp: verifyOtp_def Let_def svc_defs split: if_splits option.splits)
qed


definition demo_hash :: "string \<Rightarrow> string" where
  "demo_hash x = ''h'' @ rev x"

definition demo_sign :: "portal_token \<Rightarrow> string" where
  "demo_sign p = pt_aid p @ ''.'' @ pt_code p"

definition demo_verify :: "string \<Rightarrow> portal_token option" where
  "demo_verify x = (if x = demo_sign (portal_token_of demo_account) then Some (portal_token_of demo_account)
     else None)"

definition demo_otp :: db where
  "demo_otp = demo_db\<lparr>redisStore := [otpKey ''ABCD2345'' \<mapsto>
     (demo_hash ''123456'', en_now demo_env + OTP_TTL_SECONDS * 1000)]\<rparr>"

definition demo_opened :: db where
  "demo_opened = snd (verifyOtp demo_env demo_hash demo_sign ''ABCD2345'' '' 123456'' demo_otp)"


lemma to_upper_char_idem [simp]: "to_upper_char (to_upper_char c) = to_upper_char c"
proof (cases "97 \<le> (of_char c :: nat) \<and> (of_char c :: nat) \<le> 122")
  case True
  then have "(of_char c :: nat) - 32 < 256" by linarith
  then have "of_char (char_of ((of_char c :: nat) - 32) :: char) = (of_char c :: nat) - 32"
    by (simp del: of_char_mod_256)
  moreover from True have "\<not> 97 \<le> (of_char c :: nat) - 32" by linarith
  ultimately show ?thesis using True by (simp add: to_upper_char_def Let_def)
next
  case False
  then show ?thesis by (auto simp: to_upper_char_def Let_def)
qed

lemma to_upper_idem [simp]: "to_upper (to_upper x) = to_upper x"
  by (simp add: to_upper_def)

text \<open>
  C13. A password that was sent opens a session for the account of the code: within ten minutes, if
  it was typed as sent, if the portal is on and if what a token says survives signing and
  verification, \<open>verifyOtp\<close> returns a token that \<open>verifyPortalToken\<close> accepts for this code as the
  account's, and the session resolves to this account.
\<close>

theorem otp_opens_own_session:
  assumes sent: "requestOtp e sha256 n code s = (Inr masked, t)"
    and typed: "js_trim otp = show_nat n" "six_digits (show_nat n)" "sha256 (show_nat n) \<noteq> []"
    and soon: "en_now e' < en_now e + OTP_TTL_SECONDS * 1000"
    and sig: "\<And>a. a \<in> set (accounts s) \<Longrightarrow> verify (sign (portal_token_of a)) = Some (portal_token_of a)"
    and ids: "distinct (map ac_id (accounts s))"
  shows "\<exists>a u. find_code code s = Some a \<and>
    verifyOtp e' sha256 sign code otp t = (Inr (sign (portal_token_of a)), u) \<and>
    verifyPortalToken verify (sign (portal_token_of a)) code = Inr (portal_token_of a) \<and>
    (enabled_now e' (ac_orgId a) u = False \<or>
     fst (resolveAccountBySession e' (portal_token_of a) u) = Inr (Some a))"
proof -
  from sent obtain a where a: "find_code code s = Some a"
    by (auto simp: requestOtp_def svc_defs split: option.splits)
  obtain c where c: "customer_of_account a s = Some c"
    using sent a by (auto simp: requestOtp_def svc_defs split: option.splits)
  obtain r where en: "is_enabled e (ac_orgId a) s = (Inr (enabled_now e (ac_orgId a) s), s\<lparr>redisStore := r\<rparr>)"
    by (rule is_enabledE)
  have t: "redisStore t (otpKey code) = Some (sha256 (show_nat n), en_now e + OTP_TTL_SECONDS * 1000)"
    "accounts t = accounts s"
    using sent a c en
    by (auto simp: requestOtp_def svc_defs redis_set_def log_effect_def cache_set_def
        split: option.splits if_splits)
  have code: "ac_referralCode a = to_upper code" "a \<in> set (accounts s)"
    using a find_SomeD by (fastforce simp: find_code_def)+
  let ?u = "cache_del (otpKey code) t"
  have "find_code code ?u = Some a"
    using a by (simp add: find_code_def cache_del_def t(2))
  then have run: "verifyOtp e' sha256 sign code otp t = (Inr (sign (portal_token_of a)), ?u)"
    using t(1) soon typed by (simp add: verifyOtp_def cache_get_def svc_defs find_code_def cache_del_def)
  have tok: "verifyPortalToken verify (sign (portal_token_of a)) code = Inr (portal_token_of a)"
    using code sig [OF code(2)] by (simp add: verifyPortalToken_def) (simp add: portal_token_of_def)
  have "List.find (\<lambda>x. ac_id x = pt_aid (portal_token_of a) \<and> ac_orgId x = pt_oid (portal_token_of a) \<and>
      ac_referralCode x = to_upper (pt_code (portal_token_of a))) (accounts ?u) = Some a"
  proof -
    let ?P = "\<lambda>x. ac_id x = ac_id a \<and> ac_orgId x = ac_orgId a \<and> ac_referralCode x = to_upper code"
    from find_ex [OF code(2), of ?P] code(1) obtain b where b: "List.find ?P (accounts s) = Some b" by auto
    then have "b = a" using find_SomeD [OF b] code(2) ids by (auto dest: distinct_map_eq)
    with b show ?thesis by (simp add: portal_token_of_def code(1) cache_del_def t(2))
  qed
  then have "enabled_now e' (ac_orgId a) ?u = False \<or>
      fst (resolveAccountBySession e' (portal_token_of a) ?u) = Inr (Some a)"
    using is_enabled_result [of e' "ac_orgId a" ?u]
    by (cases "is_enabled e' (ac_orgId a) ?u")
      (auto simp: resolveAccountBySession_def svc_read_def enabled_account_def svc_bind_def svc_return_def)
  with run tok a show ?thesis by blast
qed

lemma show_demo_otp: "show_nat 123456 = ''123456''"
  by (simp add: show_nat.simps digit_char_def) code_simp

lemma demo_requested:
  "fst (requestOtp demo_env demo_hash n ''ABCD2345'' demo_db) = Inr ''***0001''"
proof -
  have db: "find_code ''ABCD2345'' demo_db = Some demo_account"
    "customer_of_account demo_account demo_db = Some (demo_customer ''c1'' ''5550000001'')"
    "trim_or_null (cu_phone (demo_customer ''c1'' ''5550000001'')) = Some ''5550000001''"
    "maskPhone ''5550000001'' = ''***0001''" "enabled_now demo_env ''o1'' demo_db"
    by code_simp+
  have more: "en_notify demo_env ''otp'' = None" "ac_orgId demo_account = ''o1''"
    by (simp_all add: demo_env_def demo_account_def)
  show ?thesis
    using is_enabled_result [of demo_env "''o1''" demo_db] db(5)
    by (cases "is_enabled demo_env ''o1'' demo_db")
      (simp add: requestOtp_def svc_read_def db more svc_bind_def svc_return_def redis_set_def
        svc_modify_def log_effect_def)
qed

theorem otp_opens_own_session_witness:
  "\<exists>u. verifyOtp demo_env demo_hash demo_sign ''ABCD2345'' ''123456''
      (snd (requestOtp demo_env demo_hash 123456 ''ABCD2345'' demo_db)) =
      (Inr (demo_sign (portal_token_of demo_account)), u) \<and>
    verifyPortalToken demo_verify (demo_sign (portal_token_of demo_account)) ''ABCD2345'' =
      Inr (portal_token_of demo_account)"
proof -
  have sent: "requestOtp demo_env demo_hash 123456 ''ABCD2345'' demo_db =
      (Inr ''***0001'', snd (requestOtp demo_env demo_hash 123456 ''ABCD2345'' demo_db))"
    using demo_requested [of 123456] by (metis prod.collapse)
  have typed: "js_trim ''123456'' = show_nat 123456" "six_digits (show_nat 123456)"
    "demo_hash (show_nat 123456) \<noteq> []"
    unfolding show_demo_otp by code_simp+
  have acc: "accounts demo_db = [demo_account]" by (simp add: demo_db_def)
  have code: "find_code ''ABCD2345'' demo_db = Some demo_account" by code_simp
  have sig: "demo_verify (demo_sign (portal_token_of a)) = Some (portal_token_of a)"
    if "a \<in> set (accounts demo_db)" for a
    using that by (simp add: acc demo_verify_def)
  have soon: "en_now demo_env < en_now demo_env + OTP_TTL_SECONDS * 1000" by (simp add: OTP_TTL_SECONDS_def)
  have ids: "distinct (map ac_id (accounts demo_db))" by (simp add: acc)
  have "\<exists>a u. find_code ''ABCD2345'' demo_db = Some a \<and>
    verifyOtp demo_env demo_hash demo_sign ''ABCD2345'' ''123456''
      (snd (requestOtp demo_env demo_hash 123456 ''ABCD2345'' demo_db)) =
      (Inr (demo_sign (portal_token_of a)), u) \<and>
    verifyPortalToken demo_verify (demo_sign (portal_token_of a)) ''ABCD2345'' = Inr (portal_token_of a) \<and>
    (enabled_now demo_env (ac_orgId a) u = False \<or>
     fst (resolveAccountBySession demo_env (portal_token_of a) u) = Inr (Some a))"
    by (rule otp_opens_own_session [where verify = demo_verify and sign = demo_sign,
      OF sent typed soon sig ids])
  then show ?thesis unfolding code option.inject by (elim exE conjE) (rule exI, rule conjI, simp_all)
qed

section \<open>Consent\<close>

text \<open>
  Without the patron's consent to the current legal documents no portal action runs: playing,
  redeeming and editing the profile are refused and change nothing but the cached licence flag.
\<close>

theorem portal_needs_consent:
  assumes acc: "fst (resolveAccountBySession e pt s) = Inr (Some a)"
    and no: "has_consent (ac_orgId a) (ac_customerId a) s = False"
  shows "\<exists>c. let refused = (Forbidden ''Accept the Loyalty Program Terms and Privacy Notice before continuing.'');
      t = s\<lparr>redisStore := c\<rparr> in
    portalPlayGame e pt g s = (Inl refused, t) \<and> portalRedeemReward e pt i s = (Inl refused, t) \<and>
    portalUpdateProfile e pt bd ge ci s = (Inl refused, t)"
proof -
  have "\<exists>c. resolveAccountBySession e pt s = (Inr (Some a), s\<lparr>redisStore := c\<rparr>)"
  proof -
    from acc obtain b where "List.find (\<lambda>a. ac_id a = pt_aid pt \<and> ac_orgId a = pt_oid pt \<and>
        ac_referralCode a = to_upper (pt_code pt)) (accounts s) = Some b"
      by (auto simp: resolveAccountBySession_def svc_read_def enabled_account_def svc_return_def
          split: option.splits)
    moreover obtain c where "is_enabled e (ac_orgId b) s =
        (Inr (enabled_now e (ac_orgId b) s), s\<lparr>redisStore := c\<rparr>)" by (rule is_enabledE)
    ultimately show ?thesis
      using acc by (auto simp: resolveAccountBySession_def svc_read_def enabled_account_def svc_bind_def
          svc_return_def split: if_splits)
  qed
  then obtain c where r: "resolveAccountBySession e pt s = (Inr (Some a), s\<lparr>redisStore := c\<rparr>)" by blast
  have no': "has_consent (ac_orgId a) (ac_customerId a) (s\<lparr>redisStore := c\<rparr>) = False"
    using no by (simp add: has_consent_def)
  have refuse: "with_session e pt f s = (Inl (Forbidden
      ''Accept the Loyalty Program Terms and Privacy Notice before continuing.''), s\<lparr>redisStore := c\<rparr>)"
    for f :: "account_row \<Rightarrow> 'a dsvc"
    using no' by (simp add: with_session_def svc_bind_def r requirePatronLegalConsent_def
        hasPatronLegalConsent_def with_tenant_def tx_gets_def svc_throw_def)
  show ?thesis
    unfolding Let_def portalPlayGame_def portalRedeemReward_def portalUpdateProfile_def refuse
    by (intro exI [of _ c] conjI refl)
qed

lemma demo_session:
  "fst (resolveAccountBySession demo_env (portal_token_of demo_account) demo_db) = Inr (Some demo_account)"
  by code_simp

theorem portal_needs_consent_witness:
  "\<exists>c. portalRedeemReward demo_env (portal_token_of demo_account) ''rw1'' demo_db =
    (Inl (Forbidden ''Accept the Loyalty Program Terms and Privacy Notice before continuing.''),
     demo_db\<lparr>redisStore := c\<rparr>)"
proof -
  have "has_consent (ac_orgId demo_account) (ac_customerId demo_account) demo_db = False" by code_simp
  from portal_needs_consent [OF demo_session this, of "''wheel''" "''rw1''" None None None]
  show ?thesis unfolding Let_def by (elim exE conjE) (rule exI)
qed

text \<open>
  Accepting the current documents gives the consent the portal asks for, and accepting them a
  second time records nothing.
\<close>

theorem consent_is_recorded_once:
  assumes rec: "recordPatronLegalConsent e code terms privacy s = (Inr x, t)"
    and a: "find_code code s = Some a"
  shows "has_consent (ac_orgId a) (ac_customerId a) t \<and>
    length (consents t) = length (consents s) +
      (if has_consent (ac_orgId a) (ac_customerId a) s then 0 else 1)"
proof -
  obtain c where en: "is_enabled e (ac_orgId a) s = (Inr (enabled_now e (ac_orgId a) s), s\<lparr>redisStore := c\<rparr>)"
    by (rule is_enabledE)
  show ?thesis
    using rec
    by (auto simp: recordPatronLegalConsent_def resolveAccountByCode_def enabled_account_def a en
        hasPatronLegalConsent_def run_simps has_consent_def split: if_splits)
qed

theorem consent_is_recorded_once_witness:
  "\<exists>t. recordPatronLegalConsent demo_env ''ABCD2345'' PATRON_TERMS_VERSION PATRON_PRIVACY_VERSION demo_db
      = (Inr (), t) \<and> has_consent ''o1'' ''c1'' t \<and> length (consents t) = 1"
proof -
  let ?r = "recordPatronLegalConsent demo_env ''ABCD2345'' PATRON_TERMS_VERSION PATRON_PRIVACY_VERSION demo_db"
  have "result_of ?r = Some ()" by code_simp
  then have run: "?r = (Inr (), snd ?r)" by (rule result_ofD)
  have code: "find_code ''ABCD2345'' demo_db = Some demo_account" by code_simp
  have was: "has_consent (ac_orgId demo_account) (ac_customerId demo_account) demo_db = False"
    "length (consents demo_db) = 0" by code_simp+
  have ids: "ac_orgId demo_account = ''o1''" "ac_customerId demo_account = ''c1''"
    by (simp_all add: demo_account_def)
  from consent_is_recorded_once [OF run code] show ?thesis
    unfolding was if_False unfolding ids by (intro exI [of _ "snd ?r"] conjI run) simp_all
qed

section \<open>Connector keys\<close>

lemma hex_char_not_space: "\<not> is_js_space (hex_char d)"
proof -
  have "d mod 16 \<in> set [0..<16]" by simp
  moreover have "list_all (\<lambda>i. \<not> is_js_space (''0123456789abcdef'' ! i)) [0..<16]" by code_simp
  ultimately show ?thesis unfolding hex_char_def list_all_iff by (elim bspec)
qed

lemma to_hex_not_space: "x \<in> set (to_hex bs) \<Longrightarrow> \<not> is_js_space x"
  by (auto simp: to_hex_def hex_char_not_space)

lemma length_to_hex: "length (to_hex bs) = 2 * length bs"
  by (induction bs) (simp_all add: to_hex_def)

lemma rawKey_trim: "js_trim (generateRawKey b) = generateRawKey b"
proof (rule js_trim_clean)
  have "\<not> is_js_space c" if "c \<in> set ''lms_''" for c
    using that by (auto simp: is_js_space_def)
  then show "\<not> is_js_space c" if "c \<in> set (generateRawKey b)" for c
    using that to_hex_not_space by (auto simp: generateRawKey_def)
qed

lemma rawKey_prefix: "starts_with ''lms_'' (generateRawKey b)"
  by (simp add: generateRawKey_def)

text \<open>One row holds the key of a tenant, under an identifier of its own.\<close>

definition one_key :: "uuid \<Rightarrow> db \<Rightarrow> bool" where
  "one_key org s \<longleftrightarrow> length (filter (key_setting org) (settings s)) \<le> 1 \<and> distinct (map st_id (settings s))"

lemma filter_le_one:
  assumes "length (filter P xs) \<le> 1" "x \<in> set xs" "P x" "y \<in> set xs" "P y"
  shows "x = y"
proof (cases "filter P xs")
  case Nil
  then show ?thesis using assms by (simp add: filter_empty_conv)
next
  case (Cons z zs)
  with assms(1) have "filter P xs = [z]" by simp
  then have "{u \<in> set xs. P u} = {z}" by (metis list.set(1,2) set_filter)
  with assms have "x \<in> {z}" "y \<in> {z}" by blast+
  then show ?thesis by simp
qed

lemma find_only: "x \<in> set xs \<Longrightarrow> P x \<Longrightarrow> (\<And>y. y \<in> set xs \<Longrightarrow> P y \<Longrightarrow> y = x) \<Longrightarrow> List.find P xs = Some x"
  using find_ex [of x xs P] find_SomeD by metis

text \<open>After the key is written its row is the only one of the tenant, and only it holds the new hash.\<close>

definition key_row :: "uuid \<Rightarrow> stored_key \<Rightarrow> db \<Rightarrow> setting_row \<Rightarrow> bool" where
  "key_row org v t r \<longleftrightarrow> r \<in> set (settings t) \<and> key_setting org r \<and> st_value r = Some v \<and>
     (\<forall>u\<in>set (settings t). key_setting org u \<or> map_option sk_hash (st_value u) = Some (sk_hash v) \<longrightarrow> u = r)"

lemma write_key_result:
  assumes w: "write_key e org v s = Inr (x, t)" and one: "one_key org s"
    and new: "\<And>u w. u \<in> set (settings s) \<Longrightarrow> st_value u = Some w \<Longrightarrow> sk_hash w \<noteq> sk_hash v"
  shows "\<exists>r. key_row org v t r"
proof (cases "List.find (key_setting org) (settings s)")
  case None
  let ?r = "\<lparr>st_id = en_uuid e ''settings'', st_orgId = org, st_key = API_KEY_SETTING, st_scope = ''org'',
    st_scopeId = None, st_value = Some v\<rparr>"
  have t: "settings t = settings s @ [?r]" using w None by (auto simp: write_key_def tx_defs)
  have "\<not> key_setting org u" if "u \<in> set (settings s)" for u
    using None that by (auto simp: find_None_iff)
  with new have "key_row org v t ?r" by (auto simp: key_row_def t, simp add: key_setting_def)
  then show ?thesis by (rule exI)
next
  case (Some q)
  let ?r = "q\<lparr>st_value := Some v\<rparr>"
  have t: "settings t = update_rows (\<lambda>u. st_id u = st_id q) (\<lambda>u. u\<lparr>st_value := Some v\<rparr>) (settings s)"
    using w Some by (auto simp: write_key_def tx_defs)
  have q: "q \<in> set (settings s)" "key_setting org q" using find_SomeD [OF Some] by simp_all
  have only: "u = q" if "u \<in> set (settings s)" "st_id u = st_id q \<or> key_setting org u" for u
    using that q one filter_le_one [of "key_setting org" "settings s" u q]
    by (auto simp: one_key_def dest: distinct_map_eq)
  have rows: "u = ?r \<or> u \<in> set (settings s) \<and> u \<noteq> q \<and> \<not> key_setting org u" if "u \<in> set (settings t)" for u
  proof -
    from that obtain x where x: "x \<in> set (settings s)"
      "u = (if st_id x = st_id q then x\<lparr>st_value := Some v\<rparr> else x)"
      unfolding t set_update_rows by (elim CollectE exE conjE)
    show ?thesis
    proof (cases "st_id x = st_id q")
      case True
      then have "x = q" by (intro only [OF x(1)]) (rule disjI1)
      with x True show ?thesis by simp
    next
      case False
      with x only [OF x(1)] show ?thesis by auto
    qed
  qed
  have "?r \<in> set (settings t)" using q(1) by (force simp: t set_update_rows)
  moreover have "key_setting org ?r \<and> st_value ?r = Some v" using q(2) by (simp add: key_setting_def)
  moreover have "\<forall>u\<in>set (settings t). key_setting org u \<or>
      map_option sk_hash (st_value u) = Some (sk_hash v) \<longrightarrow> u = ?r"
  proof (intro ballI impI)
    fix u
    assume "u \<in> set (settings t)" "key_setting org u \<or> map_option sk_hash (st_value u) = Some (sk_hash v)"
    then show "u = ?r" using rows [of u] new [of u] by (elim disjE conjE) auto
  qed
  ultimately have "key_row org v t ?r" unfolding key_row_def by (elim conjE) (intro conjI)
  then show ?thesis by (rule exI)
qed

lemma resolved_state:
  "fst (svc_bind (is_enabled e org) (\<lambda>enabled. if \<not> enabled then svc_return None
     else svc_bind (touchLastUsedAt e org) (\<lambda>_. svc_return (Some org))) s) =
   Inr (if enabled_now e org s then Some org else None)"
proof -
  obtain c where "is_enabled e org s = (Inr (enabled_now e org s), s\<lparr>redisStore := c\<rparr>)"
    by (rule is_enabledE)
  then show ?thesis
    by (simp add: run_simps touchLastUsedAt_def split: option.splits)
qed

text \<open>
  A rotated key opens its tenant and nothing else does: as long as the portal is on, \<open>resolveOrgId\<close>
  maps the key that \<open>rotateKey\<close> showed to the tenant, and a key is accepted as this tenant's only if
  it has the hash of the new one, so the old key is refused from then on.
\<close>

theorem rotated_key_opens_tenant:
  assumes rot: "rotateKey e sha256 org s = (Inr (raw, v), t)" and one: "one_key org s"
    and new: "\<forall>u\<in>set (settings s). map_option sk_hash (st_value u) \<noteq> Some (sha256 raw)"
  shows "fst (resolveOrgId e' sha256 raw t) = Inr (if enabled_now e' org t then Some org else None) \<and>
    (fst (resolveOrgId e' sha256 k t) = Inr (Some org) \<longrightarrow> sha256 (js_trim k) = sha256 raw)"
proof -
  from rot obtain u s1 where gate: "require_enabled e org s = (Inr u, s1)"
    and w: "write_key e org v s1 = Inr ((), t)"
    and raw: "raw = generateRawKey (en_bytes e ''api_key'' 0)" and v: "sk_hash v = sha256 raw"
    by (auto simp: rotateKey_def svc_bind_Inr_iff Let_def with_tenant_Inr_iff svc_return_def)
  from gate have s1: "settings s1 = settings s" by (cases rule: require_enabledE [of e org s]) auto
  have one1: "one_key org s1" using one by (simp add: one_key_def s1)
  have new1: "sk_hash w \<noteq> sk_hash v" if "u \<in> set (settings s1)" "st_value u = Some w" for u w
    using new that unfolding s1 v by auto
  have "\<exists>r. key_row org v t r" by (rule write_key_result [OF w one1]) (rule new1)
  then obtain r where "key_row org v t r" by (rule exE)
  then have r: "r \<in> set (settings t)" "key_setting org r" "st_value r = Some v"
    and only: "\<And>u. u \<in> set (settings t) \<Longrightarrow> key_setting org u \<Longrightarrow> u = r"
    and hashed: "\<And>u. u \<in> set (settings t) \<Longrightarrow>
      map_option sk_hash (st_value u) = Some (sk_hash v) \<Longrightarrow> u = r"
    unfolding key_row_def by blast+
  let ?find = "\<lambda>k. List.find (\<lambda>t. st_key t = API_KEY_SETTING \<and> st_scope t = ''org'' \<and>
    st_scopeId t = None \<and> map_option sk_hash (st_value t) = Some (sha256 k)) (settings t)"
  have found: "?find raw = Some r"
  proof (rule find_only [OF r(1)])
    show "st_key r = API_KEY_SETTING \<and> st_scope r = ''org'' \<and> st_scopeId r = None \<and>
      map_option sk_hash (st_value r) = Some (sha256 raw)"
      using r(2,3) v by (simp add: key_setting_def)
    show "u = r" if "u \<in> set (settings t)" "st_key u = API_KEY_SETTING \<and> st_scope u = ''org'' \<and>
        st_scopeId u = None \<and> map_option sk_hash (st_value u) = Some (sha256 raw)" for u
      using hashed that v by simp
  qed
  have org: "st_orgId r = org" using r(2) by (simp add: key_setting_def)
  have "starts_with ''lms_'' raw" "js_trim raw = raw"
    unfolding raw by (rule rawKey_prefix rawKey_trim)+
  then have opens: "fst (resolveOrgId e' sha256 raw t) =
      Inr (if enabled_now e' org t then Some org else None)"
    by (simp only: resolveOrgId_def Let_def svc_read_def found org option.case resolved_state
        not_True_eq_False if_False)
  have "sha256 (js_trim k) = sha256 raw" if "fst (resolveOrgId e' sha256 k t) = Inr (Some org)"
  proof -
    from that obtain u where u: "?find (js_trim k) = Some u" "st_orgId u = org"
      by (auto simp: resolveOrgId_def svc_read_def Let_def svc_return_def resolved_state
          split: if_splits option.splits)
    have "u \<in> set (settings t)" "key_setting org u" using find_SomeD [OF u(1)] u(2)
      by (auto simp: key_setting_def)
    then have "u = r" by (rule only)
    then show ?thesis using find_SomeD [OF u(1)] r(3) v by simp
  qed
  with opens show ?thesis by blast
qed

definition demo_rotated :: "(error + string \<times> stored_key) \<times> db" where
  "demo_rotated = rotateKey demo_env demo_hash ''o1'' demo_db"

theorem rotated_key_opens_tenant_witness:
  "\<exists>raw v t. demo_rotated = (Inr (raw, v), t) \<and>
     fst (resolveOrgId demo_env demo_hash raw t) = Inr (Some ''o1'')"
proof -
  have "result_of demo_rotated \<noteq> None" by code_simp
  then obtain raw v where "result_of demo_rotated = Some (raw, v)" by auto
  then have "demo_rotated = (Inr (raw, v), snd demo_rotated)" by (rule result_ofD)
  then have run: "rotateKey demo_env demo_hash ''o1'' demo_db = (Inr (raw, v), snd demo_rotated)"
    unfolding demo_rotated_def by simp
  have none: "settings demo_db = []" by (simp add: demo_db_def empty_db_def)
  have one: "one_key ''o1'' demo_db" by (simp add: one_key_def none)
  have new: "\<forall>u\<in>set (settings demo_db). map_option sk_hash (st_value u) \<noteq> Some (demo_hash raw)"
    by (simp add: none)
  have "enabled_now demo_env ''o1'' (snd demo_rotated)" by code_simp
  with rotated_key_opens_tenant [OF run one new, of demo_env] have
    "fst (resolveOrgId demo_env demo_hash raw (snd demo_rotated)) = Inr (Some ''o1'')" by simp
  with run show ?thesis unfolding demo_rotated_def by (intro exI conjI)
qed

end
