(* ===== verification/Calendar.thy ===== *)
theory Calendar
  imports Prelude
begin

text \<open>
  The calendar of JavaScript's \<open>Date\<close>, as its specification gives it: days since the epoch, the
  fields of a day in the proleptic Gregorian calendar, \<open>Date.UTC\<close>, and the text of an ISO date. An
  \<open>Invalid Date\<close> is \<open>None\<close>; its comparisons are all false, as those of \<open>NaN\<close> are.
\<close>

section \<open>Days and years\<close>

definition msPerDay :: int where
  "msPerDay = 86400000"

definition day_from_year :: "int \<Rightarrow> int" where
  "day_from_year y = 365 * (y - 1970) + (y - 1969) div 4 - (y - 1901) div 100 + (y - 1601) div 400"

definition leap_year :: "int \<Rightarrow> bool" where
  "leap_year y \<longleftrightarrow> y mod 4 = 0 \<and> (y mod 100 \<noteq> 0 \<or> y mod 400 = 0)"

text \<open>The number of days of a year before its month \<open>m\<close>, counted from zero.\<close>

definition month_start :: "bool \<Rightarrow> nat \<Rightarrow> int" where
  "month_start leap m = [0, 31, 59, 90, 120, 151, 181, 212, 243, 273, 304, 334, 365] ! m +
     (if leap \<and> 2 \<le> m then 1 else 0)"

definition days_in_month :: "int \<Rightarrow> nat \<Rightarrow> int" where
  "days_in_month y m = month_start (leap_year y) (m + 1) - month_start (leap_year y) m"

text \<open>The year a day lies in: an estimate from the mean length of a year, and its correction.\<close>

definition year_from_day :: "int \<Rightarrow> int" where
  "year_from_day n =
     (let y = 1970 + (n * 400) div 146097 in
      if n < day_from_year y then y - 1 else if day_from_year (y + 1) \<le> n then y + 1 else y)"

definition month_from_day :: "int \<Rightarrow> nat" where
  "month_from_day n =
     (let y = year_from_day n; d = n - day_from_year y in
      length (takeWhile (\<lambda>m. month_start (leap_year y) m \<le> d) [1..<12]))"

definition date_from_day :: "int \<Rightarrow> int" where
  "date_from_day n =
     (let y = year_from_day n
      in n - day_from_year y - month_start (leap_year y) (month_from_day n) + 1)"

text \<open>\<open>MakeDay\<close>: the month may lie outside the year, the day outside the month.\<close>

definition make_day :: "int \<Rightarrow> int \<Rightarrow> int \<Rightarrow> int" where
  "make_day y m d =
     (let ym = y + m div 12; mn = nat (m mod 12)
      in day_from_year ym + month_start (leap_year ym) mn + d - 1)"

text \<open>\<open>Date.UTC\<close> with a month counted from zero; a year below one hundred is one of the last century.\<close>

definition date_utc :: "int \<Rightarrow> int \<Rightarrow> int \<Rightarrow> int \<Rightarrow> int \<Rightarrow> int \<Rightarrow> time" where
  "date_utc y m d h mi sec =
     make_day (if 0 \<le> y \<and> y \<le> 99 then 1900 + y else y) m d * msPerDay
     + h * 3600000 + mi * 60000 + sec * 1000"

text \<open>\<open>getUTCDay\<close>: Sunday is zero.\<close>

definition week_day :: "int \<Rightarrow> int" where
  "week_day n = (n + 4) mod 7"

section \<open>The calendar is one\<close>

lemma div_bounds: "0 < c \<Longrightarrow> c * (x div c) \<le> x \<and> x < c * (x div c) + c" for x c :: int
  using mult_div_mod_eq [of c x] pos_mod_bound [of c x] pos_mod_sign [of c x] by linarith

lemma div_step: "0 < c \<Longrightarrow> (x + 1) div c = x div c + (if (x + 1) mod c = 0 then 1 else 0)" for x c :: int
proof -
  assume c: "0 < c"
  have x: "x = c * (x div c) + x mod c" by simp
  show ?thesis
  proof (cases "x mod c + 1 = c")
    case True
    then have "x + 1 = c * (x div c) + c" using x by linarith
    then have s: "x + 1 = c * (x div c + 1)" by (simp only: distrib_left mult_1_right)
    then have "(x + 1) div c = x div c + 1" "(x + 1) mod c = 0" using c by simp_all
    then show ?thesis by simp
  next
    case False
    then have r: "x mod c + 1 < c" "0 \<le> x mod c + 1" using c pos_mod_bound [of c x] pos_mod_sign [of c x] by linarith+
    have s: "x + 1 = c * (x div c) + (x mod c + 1)" using x by simp
    then have "(x + 1) div c = x div c" using r by (metis int_div_pos_eq)
    moreover have "(x + 1) mod c = x mod c + 1" using s r by (metis int_mod_pos_eq)
    moreover have "x mod c + 1 \<noteq> 0" using pos_mod_sign [OF c, of x] by linarith
    ultimately show ?thesis by simp
  qed
qed

lemma div_next:
  fixes c b y :: int
  assumes "0 < c" "c dvd b - 1"
  shows "(y + 1 - b) div c = (y - b) div c + (if y mod c = 0 then 1 else 0)"
proof -
  have "(y + 1 - b) mod c = y mod c"
    using assms(2) by (simp add: mod_eq_dvd_iff) (metis dvd_minus_iff minus_diff_eq)
  then show ?thesis using div_step [OF assms(1), of "y - b"] by (simp only: diff_add_eq)
qed

lemma leap_count:
  fixes a b c y :: int
  assumes "r \<Longrightarrow> q" "q \<Longrightarrow> p"
  shows "365 * (y + 1 - 1970) + (a + (if p then 1 else 0)) - (b + (if q then 1 else 0)) +
      (c + (if r then 1 else 0)) =
    365 * (y - 1970) + a - b + c + (if p \<and> (\<not> q \<or> r) then 366 else 365)"
  using assms by (cases p; cases q; cases r) simp_all

lemma day_from_year_Suc: "day_from_year (y + 1) = day_from_year y + (if leap_year y then 366 else 365)"
proof -
  have d4: "(y + 1 - 1969) div 4 = (y - 1969) div 4 + (if y mod 4 = 0 then 1 else 0)"
    by (rule div_next) simp_all
  have d100: "(y + 1 - 1901) div 100 = (y - 1901) div 100 + (if y mod 100 = 0 then 1 else 0)"
    by (rule div_next) simp_all
  have d400: "(y + 1 - 1601) div 400 = (y - 1601) div 400 + (if y mod 400 = 0 then 1 else 0)"
    by (rule div_next) simp_all
  have imp: "y mod 400 = 0 \<Longrightarrow> y mod 100 = 0" "y mod 100 = 0 \<Longrightarrow> y mod 4 = 0"
    using mod_mod_cancel [of 100 400 y] mod_mod_cancel [of 4 100 y] by simp_all
  show ?thesis
    unfolding day_from_year_def leap_year_def d4 d100 d400 by (rule leap_count [OF imp])
qed

lemma day_from_year_mono: "y < z \<Longrightarrow> day_from_year y + 365 \<le> day_from_year z"
proof (induction "nat (z - y)" arbitrary: z)
  case 0
  then show ?case by simp
next
  case (Suc k)
  show ?case
  proof (cases "z = y + 1")
    case True
    then show ?thesis using day_from_year_Suc [of y] by simp
  next
    case False
    with Suc have "day_from_year y + 365 \<le> day_from_year (z - 1)" by (intro Suc.hyps) auto
    then show ?thesis using day_from_year_Suc [of "z - 1"] by (simp split: if_splits)
  qed
qed

text \<open>A day lies between the first days of its year and of the next.\<close>

lemma mean_year_lower:
  fixes A B C k n :: int
  assumes "146097 * k \<le> n * 400" "4 * A \<le> k" "k + 68 < 100 * B + 100" "400 * C \<le> k + 368"
  shows "365 * (k - 1) + A - B + C \<le> n"
proof (rule ccontr)
  assume "\<not> ?thesis"
  then have "400 * n < 400 * (365 * (k - 1) + A - B + C)" by simp
  then have "400 * n < 146000 * k - 146000 + 400 * A - 400 * B + 400 * C" by (simp add: algebra_simps)
  moreover have "400 * A \<le> 100 * k" "4 * k + 272 < 400 * B + 400" using assms(2,3) by linarith+
  ultimately show False using assms(1,4) by linarith
qed

lemma mean_year_upper:
  fixes A B C k n :: int
  assumes "n * 400 < 146097 * k + 146097" "k + 3 < 4 * A + 4" "100 * B \<le> k + 71" "k + 371 < 400 * C + 400"
  shows "n < 365 * (k + 2) + A - B + C"
proof (rule ccontr)
  assume "\<not> ?thesis"
  then have "400 * (365 * (k + 2) + A - B + C) \<le> 400 * n" by simp
  then have "146000 * k + 292000 + 400 * A - 400 * B + 400 * C \<le> 400 * n" by (simp add: algebra_simps)
  moreover have "100 * k + 300 < 400 * A + 400" "400 * B \<le> 4 * k + 284" using assms(2,3) by linarith+
  ultimately show False using assms(1,4) by linarith
qed

lemma year_from_day_bounds:
  "day_from_year (year_from_day n) \<le> n \<and> n < day_from_year (year_from_day n + 1)"
proof -
  define y where "y = 1970 + (n * 400) div 146097"
  have est: "146097 * (y - 1970) \<le> n * 400" "n * 400 < 146097 * (y - 1970) + 146097"
    using div_bounds [of 146097 "n * 400"] unfolding y_def by simp_all
  define k where "k = y - 1970"
  have y: "y = k + 1970" by (simp add: k_def)
  have est': "146097 * k \<le> n * 400" "n * 400 < 146097 * k + 146097" using est by (simp_all add: k_def)
  have lower: "day_from_year (y - 1) \<le> n"
    using mean_year_lower [OF est'(1), of "k div 4" "(k + 68) div 100" "(k + 368) div 400"]
      div_bounds [of 4 k] div_bounds [of 100 "k + 68"] div_bounds [of 400 "k + 368"]
    unfolding day_from_year_def y by (simp add: algebra_simps)
  have upper: "n < day_from_year (y + 2)"
    using mean_year_upper [OF est'(2), of "(k + 3) div 4" "(k + 71) div 100" "(k + 371) div 400"]
      div_bounds [of 4 "k + 3"] div_bounds [of 100 "k + 71"] div_bounds [of 400 "k + 371"]
    unfolding day_from_year_def y by (simp add: algebra_simps)
  show ?thesis
    using lower upper unfolding year_from_day_def y_def [symmetric] Let_def
    by (auto simp: add.commute)
qed

lemma year_from_day_eq:
  assumes "day_from_year y \<le> n" "n < day_from_year (y + 1)"
  shows "year_from_day n = y"
proof -
  let ?z = "year_from_day n"
  have z: "day_from_year ?z \<le> n" "n < day_from_year (?z + 1)" using year_from_day_bounds by auto
  have "\<not> y < ?z" using day_from_year_mono [of "y + 1" ?z] assms z by (cases "y + 1 = ?z") auto
  moreover have "\<not> ?z < y" using day_from_year_mono [of "?z + 1" y] assms z by (cases "?z + 1 = y") auto
  ultimately show ?thesis by simp
qed

section \<open>Months\<close>

lemma months_cases: "m < 12 \<Longrightarrow> m \<in> {0, 1, 2, 3, 4, 5, 6, 7, 8, 9, 10, 11}" for m :: nat
  by (simp add: numeral_eq_Suc less_Suc_eq)

lemma month_starts:
  "month_start l 0 = 0" "month_start l 1 = 31" "month_start l 2 = 59 + of_bool l"
  "month_start l 3 = 90 + of_bool l" "month_start l 4 = 120 + of_bool l" "month_start l 5 = 151 + of_bool l"
  "month_start l 6 = 181 + of_bool l" "month_start l 7 = 212 + of_bool l" "month_start l 8 = 243 + of_bool l"
  "month_start l 9 = 273 + of_bool l" "month_start l 10 = 304 + of_bool l" "month_start l 11 = 334 + of_bool l"
  "month_start l 12 = 365 + of_bool l"
  by (simp_all add: month_start_def)

lemma months_upt: "[1..<12] = [1, 2, 3, 4, 5, 6, 7, 8, 9, 10, 11 :: nat]"
  by code_simp

lemma next_months:
  "0 + 1 = (1 :: nat)" "1 + 1 = (2 :: nat)" "2 + 1 = (3 :: nat)" "3 + 1 = (4 :: nat)" "4 + 1 = (5 :: nat)"
  "5 + 1 = (6 :: nat)" "6 + 1 = (7 :: nat)" "7 + 1 = (8 :: nat)" "8 + 1 = (9 :: nat)" "9 + 1 = (10 :: nat)"
  "10 + 1 = (11 :: nat)" "11 + 1 = (12 :: nat)"
  by simp_all

lemma month_unique:
  assumes "m < 12" "month_start l m \<le> d" "d < month_start l (m + 1)"
  shows "length (takeWhile (\<lambda>i. month_start l i \<le> d) [1..<12]) = m"
  using months_cases [OF assms(1)] assms(2,3) unfolding months_upt
  by (cases l; elim insertE emptyE) (simp_all add: month_starts next_months del: One_nat_def)

lemma month_exists:
  assumes "0 \<le> d" "d < 365 + of_bool l"
  shows "\<exists>m<12. month_start l m \<le> d \<and> d < month_start l (m + 1)"
proof (rule ccontr)
  assume none: "\<not> ?thesis"
  have "month_start l m \<le> d" if "m \<le> 12" for m
    using that
  proof (induction m)
    case 0
    then show ?case using assms by (simp add: month_starts)
  next
    case (Suc m)
    then show ?case using none by (auto simp: not_less)
  qed
  from this [of 12] assms show False by (simp add: month_starts)
qed

lemma year_length: "day_from_year (y + 1) = day_from_year y + 365 + of_bool (leap_year y)"
  by (simp add: day_from_year_Suc)

lemma month_step: "j < 12 \<Longrightarrow> month_start l j \<le> month_start l (Suc j)"
  unfolding Suc_eq_plus1 using months_cases [of j]
  by (cases l) (auto simp: month_starts next_months simp del: One_nat_def)

lemma month_start_mono:
  assumes "i \<le> j" "j \<le> 12"
  shows "month_start l i \<le> month_start l j"
  using assms(2,1)
proof (induction j)
  case (Suc j)
  have "month_start l j \<le> month_start l (Suc j)"
    by (rule month_step) (use Suc.prems in simp)
  with Suc show ?case by (cases "i = Suc j") auto
qed simp

text \<open>A day of the calendar, its month counted from zero.\<close>

definition valid_date :: "int \<Rightarrow> nat \<Rightarrow> int \<Rightarrow> bool" where
  "valid_date y m d \<longleftrightarrow> m < 12 \<and> 1 \<le> d \<and> d \<le> days_in_month y m"

lemma fields_of_day:
  assumes "valid_date y m d" and n: "n = make_day y (int m) d"
  shows "year_from_day n = y" "month_from_day n = m" "date_from_day n = d"
proof -
  let ?l = "leap_year y"
  have m: "m < 12" and d: "month_start ?l m \<le> n - day_from_year y" "n - day_from_year y < month_start ?l (m + 1)"
    and n': "n = day_from_year y + month_start ?l m + d - 1"
    using assms by (simp_all add: valid_date_def days_in_month_def make_day_def)
  have "0 \<le> month_start ?l m" "month_start ?l (m + 1) \<le> 365 + of_bool ?l"
    using month_start_mono [of 0 m ?l] month_start_mono [of "m + 1" 12 ?l] m by (simp_all add: month_starts)
  with d year_length [of y] show y: "year_from_day n = y" by (intro year_from_day_eq) auto
  show mm: "month_from_day n = m"
    using month_unique [OF m d] by (simp add: month_from_day_def y Let_def)
  show "date_from_day n = d" unfolding date_from_day_def y mm Let_def using n' by simp
qed

lemma day_of_fields:
  "valid_date (year_from_day n) (month_from_day n) (date_from_day n)"
  "make_day (year_from_day n) (int (month_from_day n)) (date_from_day n) = n"
proof -
  let ?y = "year_from_day n"
  have "0 \<le> n - day_from_year ?y" "n - day_from_year ?y < 365 + of_bool (leap_year ?y)"
    using year_from_day_bounds [of n] year_length [of ?y] by auto
  from month_exists [OF this] obtain m where m: "m < 12" "month_start (leap_year ?y) m \<le> n - day_from_year ?y"
    "n - day_from_year ?y < month_start (leap_year ?y) (m + 1)" by blast
  then have mm: "month_from_day n = m" using month_unique [OF m] by (simp add: month_from_day_def Let_def)
  show "valid_date ?y (month_from_day n) (date_from_day n)"
    using m by (simp add: valid_date_def days_in_month_def date_from_day_def mm Let_def)
  show "make_day ?y (int (month_from_day n)) (date_from_day n) = n"
    using m(1) by (simp add: make_day_def date_from_day_def mm Let_def)
qed

end
