(* ===== verification/Hours.thy ===== *)
theory Hours
  imports Calendar
begin

text \<open>
  \<^verbatim>\<open>utils/branch-hours.ts\<close>: ISO dates, the time of a zone, the opening window of a branch and
  whether an instant or an appointment lies in it.

  The data of the time zones belong to the runtime. They are an argument: for a zone name, its offset
  to UTC in seconds at every instant, or nothing when \<open>Intl.DateTimeFormat\<close> does not know the name.
\<close>

section \<open>Numbers and texts\<close>

text \<open>\<open>String.prototype.split\<close> with a separator of one character.\<close>

fun str_split :: "char \<Rightarrow> string \<Rightarrow> string list" where
  "str_split c [] = [[]]"
| "str_split c (x # xs) = (if x = c then [] # str_split c xs
     else (case str_split c xs of [] \<Rightarrow> [[x]] | p # ps \<Rightarrow> (x # p) # ps))"

definition digit_value :: "char \<Rightarrow> int" where
  "digit_value c = int (of_char c) - 48"

definition digits_value :: "string \<Rightarrow> int" where
  "digits_value x = foldl (\<lambda>a c. a * 10 + digit_value c) 0 x"

text \<open>
  \<open>Number(x)\<close> of a text of decimal digits; the empty text is zero. Every other text counts as
  \<open>NaN\<close>: the columns and the validators of the code hold dates and times of digits only, so that
  fractions, exponents and signs do not occur.
\<close>

definition js_number :: "string \<Rightarrow> int option" where
  "js_number x = (let t = js_trim x in if list_all is_digit t then Some (digits_value t) else None)"

text \<open>A component of \<open>x.split(c).map(Number)\<close> with its default for a missing one.\<close>

definition component :: "nat \<Rightarrow> int \<Rightarrow> int option list \<Rightarrow> int option" where
  "component i d xs = (if i < length xs then xs ! i else Some d)"

text \<open>\<open>String(n).padStart(k, '0')\<close>.\<close>

definition pad_start :: "nat \<Rightarrow> int \<Rightarrow> string" where
  "pad_start k n = (let x = show_int n in replicate (k - length x) (CHR ''0'') @ x)"

definition iso_date :: "int \<Rightarrow> int \<Rightarrow> int \<Rightarrow> string" where
  "iso_date y m d = show_int y @ ''-'' @ pad_start 2 m @ ''-'' @ pad_start 2 d"

section \<open>Dates\<close>

text \<open>\<open>None\<close> is the \<open>Invalid Date\<close>.\<close>

definition isoDateToUtcDate :: "string \<Rightarrow> time option" where
  "isoDateToUtcDate date = (let xs = map js_number (str_split (CHR ''-'') date) in
     case (component 0 0 xs, component 1 1 xs, component 2 1 xs) of
       (Some y, Some m, Some d) \<Rightarrow> Some (date_utc y (m - 1) d 0 0 0)
     | _ \<Rightarrow> None)"

definition getIsoDateFromUtcDate :: "time \<Rightarrow> string" where
  "getIsoDateFromUtcDate t = (let n = t div msPerDay in
     iso_date (year_from_day n) (int (month_from_day n) + 1) (date_from_day n))"

definition toSchemaDayOfWeekFromIsoDate :: "string \<Rightarrow> int option" where
  "toSchemaDayOfWeekFromIsoDate date = map_option (\<lambda>t. let d = week_day (t div msPerDay) in
     if d = 0 then 6 else d - 1) (isoDateToUtcDate date)"

text \<open>The pattern \<open>/^(\d{4})-(\d{2})-(\d{2})$/\<close>.\<close>

definition iso_shape :: "string \<Rightarrow> bool" where
  "iso_shape x \<longleftrightarrow> length x = 10 \<and> x ! 4 = CHR ''-'' \<and> x ! 7 = CHR ''-'' \<and>
     list_all is_digit (take 4 x) \<and> list_all is_digit (take 2 (drop 5 x)) \<and>
     list_all is_digit (drop 8 x)"

definition normalizeIsoDateKey :: "string \<Rightarrow> error + string" where
  "normalizeIsoDateKey date =
     (if \<not> iso_shape date then Inl (PlainError ''Invalid ISO date'')
      else (case isoDateToUtcDate date of
          None \<Rightarrow> Inl (PlainError ''Invalid ISO date'')
        | Some t \<Rightarrow> if getIsoDateFromUtcDate t \<noteq> date then Inl (PlainError ''Invalid ISO date'')
                    else Inr date))"

section \<open>Time zones\<close>

type_synonym zones = "string \<Rightarrow> (time \<Rightarrow> int) option"

definition normalizeTimeZone :: "zones \<Rightarrow> string option \<Rightarrow> string" where
  "normalizeTimeZone tz zone = (case zone of None \<Rightarrow> ''UTC''
     | Some z \<Rightarrow> (let n = js_trim z in if n = [] \<or> tz n = None then ''UTC'' else n))"

text \<open>The offset of a normalised zone; \<open>UTC\<close> is known to every runtime.\<close>

definition zone_offset :: "zones \<Rightarrow> string \<Rightarrow> time \<Rightarrow> int" where
  "zone_offset tz zone t = (case tz zone of None \<Rightarrow> 0 | Some f \<Rightarrow> f t)"

record tz_parts =
  tp_year :: int
  tp_month :: int
  tp_day :: int
  tp_hour :: int
  tp_minute :: int
  tp_second :: int

text \<open>The fields that \<open>Intl.DateTimeFormat\<close> prints; the milliseconds are dropped.\<close>

definition getTimeZoneParts :: "zones \<Rightarrow> string \<Rightarrow> time \<Rightarrow> tz_parts" where
  "getTimeZoneParts tz zone t =
     (let l = t div 1000 + zone_offset tz zone t; n = l div 86400; r = l mod 86400 in
      \<lparr>tp_year = year_from_day n, tp_month = int (month_from_day n) + 1, tp_day = date_from_day n,
       tp_hour = r div 3600, tp_minute = r mod 3600 div 60, tp_second = r mod 60\<rparr>)"

definition getDateKeyInTimeZone :: "zones \<Rightarrow> string \<Rightarrow> time \<Rightarrow> string" where
  "getDateKeyInTimeZone tz zone t = (let p = getTimeZoneParts tz zone t in
     iso_date (tp_year p) (tp_month p) (tp_day p))"

text \<open>\<open>Math.round(x / 60000)\<close> rounds halves up.\<close>

definition getTimeZoneOffsetMinutes :: "zones \<Rightarrow> string \<Rightarrow> time \<Rightarrow> int" where
  "getTimeZoneOffsetMinutes tz zone t = (let p = getTimeZoneParts tz zone t in
     (date_utc (tp_year p) (tp_month p - 1) (tp_day p) (tp_hour p) (tp_minute p) (tp_second p)
      - t + 30000) div 60000)"

text \<open>The offset is read at the time as if it were UTC, and once more at the first result.\<close>

definition zoned_to_utc :: "zones \<Rightarrow> string \<Rightarrow> time \<Rightarrow> time" where
  "zoned_to_utc tz zone base =
     (let c = base - getTimeZoneOffsetMinutes tz zone base * 60000
      in base - getTimeZoneOffsetMinutes tz zone c * 60000)"

text \<open>Formatting an invalid date is a \<open>RangeError\<close>.\<close>

definition zonedDateTimeToUtc :: "zones \<Rightarrow> string \<Rightarrow> string \<Rightarrow> string \<Rightarrow> error + time" where
  "zonedDateTimeToUtc tz date time zone =
     (let xs = map js_number (str_split (CHR ''-'') date); ts = map js_number (str_split (CHR '':'') time)
      in case (component 0 0 xs, component 1 1 xs, component 2 1 xs, component 0 0 ts, component 1 0 ts) of
        (Some y, Some m, Some d, Some h, Some mi) \<Rightarrow>
          Inr (zoned_to_utc tz zone (date_utc y (m - 1) d h mi 0))
      | _ \<Rightarrow> Inl (PlainError ''Invalid time value''))"

definition err_bind :: "error + 'a \<Rightarrow> ('a \<Rightarrow> error + 'b) \<Rightarrow> error + 'b" where
  "err_bind m f = (case m of Inl e \<Rightarrow> Inl e | Inr a \<Rightarrow> f a)"

text \<open>From the first to the last millisecond of a local day.\<close>

definition next_date :: "string \<Rightarrow> string option" where
  "next_date date = (let xs = map js_number (str_split (CHR ''-'') date) in
     case (component 0 0 xs, component 1 1 xs, component 2 1 xs) of
       (Some y, Some m, Some d) \<Rightarrow> Some (getIsoDateFromUtcDate (date_utc y (m - 1) (d + 1) 0 0 0))
     | _ \<Rightarrow> None)"

definition getUtcRangeForZonedDate :: "zones \<Rightarrow> string \<Rightarrow> string \<Rightarrow> error + (time \<times> time)" where
  "getUtcRangeForZonedDate tz date zone =
     err_bind (zonedDateTimeToUtc tz date ''00:00'' zone) (\<lambda>start.
     case next_date date of
       None \<Rightarrow> Inl (PlainError ''Invalid time value'')
     | Some next \<Rightarrow> err_bind (zonedDateTimeToUtc tz next ''00:00'' zone)
         (\<lambda>nextStart. Inr (start, nextStart - 1)))"

definition intervalsOverlap :: "time \<Rightarrow> time \<Rightarrow> time \<Rightarrow> time \<Rightarrow> bool" where
  "intervalsOverlap startA endA startB endB \<longleftrightarrow> startA < endB \<and> startB < endA"

section \<open>The opening window\<close>

record hours_window =
  hw_openTime :: string
  hw_closeTime :: string
  hw_isClosed :: bool
  hw_breakStart :: "string option"
  hw_breakEnd :: "string option"

datatype availability_reason = ROpen | RClosedDay | ROutsideHours | RBreak | RNoSchedule

record window_bounds =
  wb_openAt :: time
  wb_closeAt :: time
  wb_breakStart :: "time option"
  wb_breakEnd :: "time option"

definition optional_time :: "zones \<Rightarrow> string \<Rightarrow> string option \<Rightarrow> string \<Rightarrow> error + time option" where
  "optional_time tz date time zone =
     (if truthy_str time then err_bind (zonedDateTimeToUtc tz date (the time) zone) (\<lambda>t. Inr (Some t))
      else Inr None)"

definition resolveWindowUtcBounds :: "zones \<Rightarrow> string \<Rightarrow> hours_window \<Rightarrow> string \<Rightarrow> error + window_bounds" where
  "resolveWindowUtcBounds tz date w zone =
     err_bind (zonedDateTimeToUtc tz date (hw_openTime w) zone) (\<lambda>o1.
     err_bind (zonedDateTimeToUtc tz date (hw_closeTime w) zone) (\<lambda>c1.
     err_bind (optional_time tz date (hw_breakStart w) zone) (\<lambda>b1.
     err_bind (optional_time tz date (hw_breakEnd w) zone) (\<lambda>b2.
     Inr \<lparr>wb_openAt = o1, wb_closeAt = c1, wb_breakStart = b1, wb_breakEnd = b2\<rparr>))))"

record availability =
  av_isOpen :: bool
  av_reason :: availability_reason
  av_localDate :: string
  av_window :: "hours_window option"
  av_bounds :: "window_bounds option"

text \<open>No window, a closed one, or one without its times.\<close>

definition no_window :: "hours_window option \<Rightarrow> bool" where
  "no_window w \<longleftrightarrow> (case w of None \<Rightarrow> True
     | Some w \<Rightarrow> hw_isClosed w \<or> hw_openTime w = [] \<or> hw_closeTime w = [])"

definition reason_at :: "time \<Rightarrow> window_bounds \<Rightarrow> availability_reason" where
  "reason_at at b =
     (if at < wb_openAt b \<or> wb_closeAt b \<le> at then ROutsideHours
      else (case (wb_breakStart b, wb_breakEnd b) of
          (Some bs, Some be) \<Rightarrow> if bs \<le> at \<and> at < be then RBreak else ROpen
        | _ \<Rightarrow> ROpen))"

definition evaluateBranchAvailabilityAtInstant ::
  "zones \<Rightarrow> time \<Rightarrow> string \<Rightarrow> hours_window option \<Rightarrow> string \<Rightarrow> error + availability" where
  "evaluateBranchAvailabilityAtInstant tz at zone w date =
     (if no_window w
      then Inr \<lparr>av_isOpen = False, av_reason = RClosedDay, av_localDate = date, av_window = None, av_bounds = None\<rparr>
      else err_bind (resolveWindowUtcBounds tz date (the w) zone) (\<lambda>b.
        let r = reason_at at b in
        Inr \<lparr>av_isOpen = (r = ROpen), av_reason = r, av_localDate = date, av_window = w, av_bounds = Some b\<rparr>))"

definition slot_reason :: "time \<Rightarrow> time \<Rightarrow> window_bounds \<Rightarrow> availability_reason" where
  "slot_reason start end1 b =
     (if start < wb_openAt b \<or> wb_closeAt b < end1 then ROutsideHours
      else (case (wb_breakStart b, wb_breakEnd b) of
          (Some bs, Some be) \<Rightarrow> if intervalsOverlap start end1 bs be then RBreak else ROpen
        | _ \<Rightarrow> ROpen))"

definition evaluateAppointmentSlotAgainstWindow ::
  "zones \<Rightarrow> time \<Rightarrow> int \<Rightarrow> string \<Rightarrow> hours_window option \<Rightarrow> string \<Rightarrow> error + availability_reason" where
  "evaluateAppointmentSlotAgainstWindow tz start dur zone w date =
     (if no_window w then Inr RClosedDay
      else err_bind (resolveWindowUtcBounds tz date (the w) zone)
        (\<lambda>b. Inr (slot_reason start (start + dur * 60000) b)))"

text \<open>The dash between two times, as UTF-8 encodes it.\<close>

definition en_dash :: string where
  "en_dash = [CHR 0xE2, CHR 0x80, CHR 0x93]"

definition branchAvailabilityMessage ::
  "availability_reason \<Rightarrow> string option \<Rightarrow> hours_window option \<Rightarrow> string" where
  "branchAvailabilityMessage r label w =
     (let action = (if truthy_str label then '' before '' @ the label else []);
          tail = ''Operations are unavailable'' @ action @ ''.'' in
      case r of
        ROpen \<Rightarrow> ''Branch is open.''
      | RClosedDay \<Rightarrow> ''This branch is closed on this day. '' @ tail
      | ROutsideHours \<Rightarrow> (case w of
            Some w \<Rightarrow> if hw_openTime w \<noteq> [] \<and> hw_closeTime w \<noteq> []
              then ''This branch is outside operating hours ('' @ hw_openTime w @ en_dash @ hw_closeTime w
                @ '' local time). '' @ tail
              else ''This branch is outside operating hours. '' @ tail
          | None \<Rightarrow> ''This branch is outside operating hours. '' @ tail)
      | RBreak \<Rightarrow> (case w of
            Some w \<Rightarrow> if truthy_str (hw_breakStart w) \<and> truthy_str (hw_breakEnd w)
              then ''This branch is on a scheduled break ('' @ the (hw_breakStart w) @ en_dash
                @ the (hw_breakEnd w) @ '' local time). '' @ tail
              else ''This branch is on a scheduled break. '' @ tail
          | None \<Rightarrow> ''This branch is on a scheduled break. '' @ tail)
      | RNoSchedule \<Rightarrow> ''No operating schedule is configured for this branch. '' @ tail)"

end
