(* ===== verification/QueueSchema.thy ===== *)
theory QueueSchema
  imports Hours
begin

text \<open>
  The tables of the queue platform that its services here read and write, with the columns they use:
  branches and their hours, services, appointments, queues, tickets, visits, desks, agent sessions,
  flow templates and role assignments. The queue platform and the loyalty services share one
  database; their models meet in the events that a ticket or an appointment emits.
\<close>

section \<open>Organisations and branches\<close>

record org_row =
  og_id :: uuid
  og_timezone :: "string option"
  og_visitJourneysEnabled :: bool

record branch_row =
  br_id :: uuid
  br_orgId :: uuid
  br_name :: string
  br_timezone :: string
  br_defaultJourneyMode :: string

text \<open>\<open>@@unique([branchId, dayOfWeek])\<close>; Monday is zero.\<close>

record working_hours_row =
  wh_branchId :: uuid
  wh_dayOfWeek :: int
  wh_window :: hours_window

text \<open>\<open>@@unique([branchId, date])\<close>.\<close>

record date_override_row =
  do_branchId :: uuid
  do_date :: time
  do_openTime :: "string option"
  do_closeTime :: "string option"
  do_isClosed :: bool
  do_breakStart :: "string option"
  do_breakEnd :: "string option"

section \<open>Services and appointments\<close>

record service_row =
  sv_id :: uuid
  sv_orgId :: uuid
  sv_name :: string
  sv_status :: string
  sv_durationMinutes :: int
  sv_queueEnabled :: bool
  sv_estimateLow :: int
  sv_estimateHigh :: int
  sv_appointmentEnabled :: bool
  sv_slotInterval :: "int option"
  sv_leadTimeMinutes :: int
  sv_maxAdvanceDays :: int
  sv_bufferMinutes :: int
  sv_journeyModeOverride :: "string option"

record sub_service_row =
  ss_id :: uuid
  ss_serviceId :: uuid
  ss_name :: string
  ss_status :: string
  ss_durationMinutes :: "int option"

text \<open>\<open>@@unique([branchId, serviceId])\<close>.\<close>

record branch_service_row =
  bs_branchId :: uuid
  bs_serviceId :: uuid
  bs_isActive :: bool
  bs_estimateLow :: "int option"
  bs_estimateHigh :: "int option"
  bs_journeyModeOverride :: "string option"

record appt_row =
  at_id :: uuid
  at_orgId :: uuid
  at_branchId :: uuid
  at_serviceId :: uuid
  at_subServiceId :: "uuid option"
  at_customerName :: string
  at_customerEmail :: "string option"
  at_customerPhone :: "string option"
  at_scheduledAt :: time
  at_durationMinutes :: int
  at_status :: string
  at_notes :: "string option"
  at_assignedUserId :: "uuid option"

text \<open>The columns of a customer that bookings and reminders use.\<close>

record contact_row =
  ct_id :: uuid
  ct_orgId :: uuid
  ct_name :: string
  ct_email :: "string option"
  ct_phone :: "string option"
  ct_transactionalSmsAllowed :: bool
  ct_marketingSms :: string
  ct_marketingEmail :: string
  ct_smsConsentSource :: "string option"
  ct_marketingSource :: "string option"

record consent_entry =
  ce_orgId :: uuid
  ce_customerId :: uuid
  ce_channel :: string
  ce_source :: string

text \<open>The limits of a plan are a JSON object of numbers and switches.\<close>

datatype plan_value = PlanNumber int | PlanSwitch bool

type_synonym plan_limits = "(string \<times> plan_value) list"

record subscription_row =
  su_orgId :: uuid
  su_status :: string
  su_limits :: "plan_limits option"

section \<open>Queues and tickets\<close>

text \<open>
  Tables keep their rows in the order of creation, so \<open>orderBy: { createdAt: 'asc' }\<close> is the order of
  the list.
\<close>

record queue_row =
  qu_id :: uuid
  qu_orgId :: uuid
  qu_branchId :: uuid
  qu_serviceId :: uuid
  qu_name :: string
  qu_prefix :: string
  qu_status :: string
  qu_nextTicketSeq :: int
  qu_sessionOpenedAt :: "time option"
  qu_sessionClosesAt :: "time option"
  qu_journeyModeOverride :: "string option"
  qu_flowTemplateId :: "uuid option"
  qu_stepRole :: "string option"
  qu_callingPolicy :: string
  qu_maxCapacity :: "int option"
  qu_maxServiceMinutes :: int

text \<open>\<open>metadata\<close> is modelled by its keys that are \<open>true\<close>, the only values the ticket services read.\<close>

record queue_ticket =
  tk_id :: uuid
  tk_orgId :: uuid
  tk_visitId :: "uuid option"
  tk_queueId :: uuid
  tk_branchId :: uuid
  tk_serviceId :: uuid
  tk_displayNumber :: string
  tk_customerId :: "uuid option"
  tk_customerName :: "string option"
  tk_customerPhone :: "string option"
  tk_customerEmail :: "string option"
  tk_smsAllowed :: bool
  tk_status :: string
  tk_priority :: int
  tk_position :: "int option"
  tk_deskNumber :: "string option"
  tk_servedByUserId :: "uuid option"
  tk_source :: string
  tk_language :: "string option"
  tk_bookedAt :: time
  tk_calledAt :: "time option"
  tk_servedAt :: "time option"
  tk_completedAt :: "time option"
  tk_readyAt :: "time option"
  tk_flowTemplateId :: "uuid option"
  tk_stepIndex :: "int option"
  tk_note :: "string option"
  tk_externalRef :: "string option"
  tk_waitMinutes :: "int option"
  tk_serviceMinutes :: "int option"
  tk_legalHold :: bool
  tk_flags :: "string list"

record queue_visit =
  vs_id :: uuid
  vs_orgId :: uuid
  vs_branchId :: uuid
  vs_source :: string
  vs_customerName :: "string option"
  vs_customerPhone :: "string option"
  vs_language :: "string option"
  vs_status :: string
  vs_externalRef :: "string option"
  vs_completedAt :: "time option"

record desk_row =
  dk_id :: uuid
  dk_orgId :: uuid
  dk_branchId :: uuid
  dk_number :: string
  dk_status :: string
  dk_assignedUsers :: "uuid list"

record session_row =
  se_userId :: uuid
  se_branchId :: uuid
  se_deskNumber :: "string option"
  se_surface :: string
  se_endedAt :: "time option"

record flow_template_row =
  fl_id :: uuid
  fl_orgId :: uuid
  fl_branchId :: uuid
  fl_name :: string
  fl_isActive :: bool

record flow_step_row =
  fs_orgId :: uuid
  fs_templateId :: uuid
  fs_stepIndex :: int
  fs_deskNumber :: string
  fs_serviceId :: uuid
  fs_queueId :: "uuid option"
  fs_stepRole :: string
  fs_callingPolicy :: string

section \<open>Roles\<close>

text \<open>A role of an organisation and what it permits; an assignment without a branch is for all of them.\<close>

record permission_row =
  pm_resource :: string
  pm_action :: string
  pm_scope :: string

record role_row =
  ro_id :: uuid
  ro_orgId :: uuid
  ro_name :: string
  ro_isSystemRole :: bool
  ro_permissions :: "permission_row list"

record role_assignment =
  ra_userId :: uuid
  ra_branchId :: "uuid option"
  ra_role :: role_row

section \<open>Users, screens and announcements\<close>

record user_row =
  us_id :: uuid
  us_orgId :: uuid

record display_row =
  dd_id :: uuid
  dd_orgId :: uuid
  dd_branchId :: "uuid option"

record announcement_row =
  an_id :: uuid
  an_orgId :: uuid
  an_branchId :: "uuid option"

section \<open>Effects\<close>

text \<open>
  What the services start without waiting for it, and the rows they write to the audit tables, which
  nothing here reads: events to the loyalty listener, messages, real-time events by channel.
\<close>

datatype queue_effect =
    Activity uuid string uuid
  | AuditRow uuid string string uuid
  | Publish "string list" string uuid
  | InvalidateStats uuid uuid "uuid list"
  | DropCache string
  | RefreshVisit uuid "uuid option"
  | NotifyAlmostReady uuid uuid
  | SmsCalled uuid uuid "string option"
  | SmsRecalled uuid uuid
  | SmsTicketIssued uuid uuid
  | EvTicketCompleted uuid uuid "uuid option" uuid uuid
  | EvTicketNoShow uuid uuid "uuid option" uuid
  | EvAppointmentCompleted uuid uuid uuid
  | EvAppointmentNoShow uuid uuid uuid
  | MailBooked uuid string uuid
  | SmsBooked uuid string uuid
  | AppointmentReminder uuid uuid bool
  | RepairProfiles uuid uuid
  | ProvisionProfiles uuid uuid uuid

section \<open>The state\<close>

text \<open>
  A cached value lives until its time, or for ever. The plan limits are cached as the text of an object.
\<close>

record qdb =
  q_orgs :: "org_row list"
  q_subscriptions :: "subscription_row list"
  q_branches :: "branch_row list"
  q_workingHours :: "working_hours_row list"
  q_dateOverrides :: "date_override_row list"
  q_services :: "service_row list"
  q_subServices :: "sub_service_row list"
  q_branchServices :: "branch_service_row list"
  q_appointments :: "appt_row list"
  q_contacts :: "contact_row list"
  q_consents :: "consent_entry list"
  q_queues :: "queue_row list"
  q_tickets :: "queue_ticket list"
  q_visits :: "queue_visit list"
  q_desks :: "desk_row list"
  q_sessions :: "session_row list"
  q_flowTemplates :: "flow_template_row list"
  q_flowSteps :: "flow_step_row list"
  q_roles :: "role_row list"
  q_roleAssignments :: "role_assignment list"
  q_users :: "user_row list"
  q_displays :: "display_row list"
  q_announcements :: "announcement_row list"
  q_completeProfiles :: "uuid list"
  q_redis :: "string \<Rightarrow> (string \<times> time option) option"
  q_limitsCache :: "uuid \<Rightarrow> (plan_limits \<times> time) option"
  q_effects :: "queue_effect list"

type_synonym 'a qtx = "(qdb, 'a) tx"
type_synonym 'a qsvc = "(qdb, 'a) svc"

text \<open>
  What a call draws from outside: the clock, the time zones of the runtime, the day boundaries of the
  server's own zone (\<open>setHours\<close>), which zones the date library luxon knows and the start of the current day in one, the year and month and the start of the month on the server, fresh row identifiers by table, and the configuration.
\<close>

record qenv =
  qe_now :: time
  qe_tz :: zones
  qe_serverDay :: "time \<Rightarrow> time \<times> time"
  qe_luxonValid :: "string \<Rightarrow> bool"
  qe_startOfDay :: "string \<Rightarrow> time"
  qe_uuid :: "string \<Rightarrow> uuid"
  qe_writeBlock :: bool
  qe_sessionHours :: int
  qe_monthKey :: string
  qe_monthStart :: time
  qe_journeysDisabled :: bool
  qe_journeysLegacyOn :: bool
  qe_reminderMinutes :: "int list"
  qe_reminderScanMinutes :: int

definition q_log :: "queue_effect \<Rightarrow> unit qsvc" where
  "q_log ev = svc_modify (\<lambda>s. s\<lparr>q_effects := q_effects s @ [ev]\<rparr>)"

definition empty_qdb :: qdb where
  "empty_qdb = \<lparr>q_orgs = [], q_subscriptions = [], q_branches = [], q_workingHours = [], q_dateOverrides = [], q_services = [],
     q_subServices = [], q_branchServices = [], q_appointments = [], q_contacts = [], q_consents = [],
     q_queues = [], q_tickets = [], q_visits = [], q_desks = [], q_sessions = [], q_flowTemplates = [],
     q_flowSteps = [], q_roles = [], q_roleAssignments = [], q_users = [], q_displays = [], q_announcements = [], q_completeProfiles = [], q_redis = (\<lambda>_. None), q_limitsCache = (\<lambda>_. None), q_effects = []\<rparr>"

definition q_cache_get :: "time \<Rightarrow> string \<Rightarrow> qdb \<Rightarrow> string option" where
  "q_cache_get now k s = (case q_redis s k of
     None \<Rightarrow> None | Some (v, None) \<Rightarrow> Some v | Some (v, Some t) \<Rightarrow> if now < t then Some v else None)"

definition q_cache_set :: "time \<Rightarrow> string \<Rightarrow> string \<Rightarrow> int \<Rightarrow> qdb \<Rightarrow> qdb" where
  "q_cache_set now k v ttl s = s\<lparr>q_redis := (q_redis s)(k \<mapsto> (v, Some (now + ttl * 1000)))\<rparr>"

lemmas queue_writes [pres_intros] =
  preserves_tx_blind [where upd = q_appointments_update]
  preserves_tx_blind [where upd = q_contacts_update]
  preserves_tx_blind [where upd = q_consents_update]
  preserves_tx_blind [where upd = q_queues_update]
  preserves_tx_blind [where upd = q_tickets_update]
  preserves_tx_blind [where upd = q_visits_update]

lemma preserves_q_log [pres_intros]: "blind q_effects_update I \<Longrightarrow> preserves I (q_log ev)"
  by (auto simp: q_log_def preserves_def svc_modify_def blind_def)

end
