(* ===== verification/BranchHours.thy ===== *)
theory BranchHours
  imports QueueSchema
begin

text \<open>
  \<^verbatim>\<open>BranchHoursService\<close>: the zone of a branch, its window on a date (an override of the date beats
  the weekly hours), and the two checks that take it: customer intake now, and an appointment.
\<close>

text \<open>Reading inside a transaction: an error ends it.\<close>

definition tx_lift :: "error + 'a \<Rightarrow> 'a qtx" where
  "tx_lift m = (case m of Inl e \<Rightarrow> tx_throw e | Inr a \<Rightarrow> tx_return a)"

definition svc_lift :: "error + 'a \<Rightarrow> 'a qsvc" where
  "svc_lift m = (case m of Inl e \<Rightarrow> svc_throw e | Inr a \<Rightarrow> svc_return a)"

definition resolveBranchTimeZone :: "qenv \<Rightarrow> uuid \<Rightarrow> uuid \<Rightarrow> qdb \<Rightarrow> error + string" where
  "resolveBranchTimeZone e org branch s =
     (case List.find (\<lambda>b. br_id b = branch \<and> br_orgId b = org) (q_branches s) of
        None \<Rightarrow> Inl (NotFound ''Branch not found'')
      | Some b \<Rightarrow> Inr (normalizeTimeZone (qe_tz e) (Some (br_timezone b))))"

definition override_window :: "date_override_row \<Rightarrow> hours_window option" where
  "override_window o1 =
     (if do_isClosed o1 \<or> \<not> truthy_str (do_openTime o1) \<or> \<not> truthy_str (do_closeTime o1) then None
      else Some \<lparr>hw_openTime = the (do_openTime o1), hw_closeTime = the (do_closeTime o1),
        hw_isClosed = do_isClosed o1, hw_breakStart = do_breakStart o1, hw_breakEnd = do_breakEnd o1\<rparr>)"

definition getWorkingHoursWindowForLocalDate ::
  "uuid \<Rightarrow> string \<Rightarrow> qdb \<Rightarrow> error + hours_window option" where
  "getWorkingHoursWindowForLocalDate branch date s =
     err_bind (normalizeIsoDateKey date) (\<lambda>date.
     case List.find (\<lambda>o1. do_branchId o1 = branch \<and> Some (do_date o1) = isoDateToUtcDate date)
            (q_dateOverrides s) of
       Some o1 \<Rightarrow> Inr (override_window o1)
     | None \<Rightarrow> Inr (case List.find (\<lambda>h. wh_branchId h = branch \<and>
           Some (wh_dayOfWeek h) = toSchemaDayOfWeekFromIsoDate date) (q_workingHours s) of
         None \<Rightarrow> None
       | Some h \<Rightarrow> if hw_isClosed (wh_window h) then None else Some (wh_window h)))"

definition evaluateBranchAvailability :: "qenv \<Rightarrow> uuid \<Rightarrow> uuid \<Rightarrow> time \<Rightarrow> qdb \<Rightarrow> error + availability" where
  "evaluateBranchAvailability e org branch at s =
     err_bind (resolveBranchTimeZone e org branch s) (\<lambda>zone.
     (let date = getDateKeyInTimeZone (qe_tz e) zone at in
      err_bind (getWorkingHoursWindowForLocalDate branch date s) (\<lambda>w.
      evaluateBranchAvailabilityAtInstant (qe_tz e) at zone w date)))"

definition assertBranchAcceptsCustomerIntake ::
  "qenv \<Rightarrow> uuid \<Rightarrow> uuid \<Rightarrow> string \<Rightarrow> time \<Rightarrow> qdb \<Rightarrow> error + unit" where
  "assertBranchAcceptsCustomerIntake e org branch label at s =
     err_bind (evaluateBranchAvailability e org branch at s) (\<lambda>a.
       if av_isOpen a then Inr ()
       else Inl (BadRequest (branchAvailabilityMessage (av_reason a) (Some label) (av_window a))))"

definition slot_message :: "availability_reason \<Rightarrow> string" where
  "slot_message r = (case r of
       RClosedDay \<Rightarrow> ''The selected branch is closed on that day''
     | ROutsideHours \<Rightarrow> ''The selected appointment time is outside branch working hours''
     | RBreak \<Rightarrow> ''The selected appointment time overlaps the branch break window''
     | RNoSchedule \<Rightarrow> ''No operating schedule is configured for this branch on that day''
     | ROpen \<Rightarrow> [])"

definition assertAppointmentSlotWithinWorkingHours ::
  "qenv \<Rightarrow> uuid \<Rightarrow> string \<Rightarrow> time \<Rightarrow> int \<Rightarrow> qdb \<Rightarrow> error + unit" where
  "assertAppointmentSlotWithinWorkingHours e branch zone start dur s =
     (let date = getDateKeyInTimeZone (qe_tz e) zone start in
      err_bind (getWorkingHoursWindowForLocalDate branch date s) (\<lambda>w.
      err_bind (evaluateAppointmentSlotAgainstWindow (qe_tz e) start dur zone w date) (\<lambda>r.
      if r = ROpen then Inr () else Inl (BadRequest (slot_message r)))))"

end
