(* ===== verification/Appointments.thy ===== *)
theory Appointments
  imports BranchHours
begin

text \<open>
  Appointments: \<^verbatim>\<open>AppointmentSlotService\<close> (which slots a day offers), \<^verbatim>\<open>AppointmentBookingService\<close>,
  \<^verbatim>\<open>AppointmentLifecycleService\<close> (the status of an appointment), \<^verbatim>\<open>AppointmentPublicService\<close> and
  \<^verbatim>\<open>AppointmentReminderService\<close>, with \<open>normalizeSmsRecipient\<close>.
\<close>

section \<open>Recipients\<close>

text \<open>The characters that \<open>/[\s().-]/g\<close> removes.\<close>

definition phone_filler :: "char \<Rightarrow> bool" where
  "phone_filler c \<longleftrightarrow> is_js_space c \<or> c \<in> set ''().-''"

definition e164 :: "string \<Rightarrow> bool" where
  "e164 x \<longleftrightarrow> (case x of
     p # d # ds \<Rightarrow> p = CHR ''+'' \<and> is_digit d \<and> d \<noteq> CHR ''0'' \<and> list_all is_digit ds \<and>
       7 \<le> length ds \<and> length ds \<le> 14
   | _ \<Rightarrow> False)"

definition normalizeSmsRecipient :: "string \<Rightarrow> string option" where
  "normalizeSmsRecipient phone = (let trimmed = js_trim phone in
     if trimmed = [] then None
     else (let compact = filter (\<lambda>c. \<not> phone_filler c) trimmed;
               plus = (if starts_with ''00'' compact then CHR ''+'' # drop 2 compact else compact);
               n = (if starts_with ''+'' plus then Some plus
                    else if length plus = 11 \<and> starts_with ''1'' plus \<and> list_all is_digit plus
                    then Some (CHR ''+'' # plus)
                    else if length plus = 10 \<and> list_all is_digit plus then Some (''+1'' @ plus)
                    else None)
       in case n of None \<Rightarrow> None | Some x \<Rightarrow> if e164 x then Some x else None))"

section \<open>Slots\<close>

definition getBookableService :: "uuid \<Rightarrow> uuid \<Rightarrow> qdb \<Rightarrow> error + service_row" where
  "getBookableService org sid s =
     (case List.find (\<lambda>v. sv_id v = sid \<and> sv_orgId v = org \<and> sv_status v = ''active'' \<and>
        sv_appointmentEnabled v) (q_services s) of
        None \<Rightarrow> Inl (NotFound ''Appointment service not found'') | Some v \<Rightarrow> Inr v)"

text \<open>\<open>Math.round((low + high) / 2)\<close> rounds up.\<close>

definition resolveAppointmentDurationMinutes ::
  "service_row \<Rightarrow> int option \<Rightarrow> int option \<Rightarrow> int option \<Rightarrow> int" where
  "resolveAppointmentDurationMinutes v branchLow branchHigh subDuration =
     (let low = patched branchLow (sv_estimateLow v); high = patched branchHigh (sv_estimateHigh v);
          own = (if sv_queueEnabled v \<and> 1 \<le> low \<and> low \<le> high then (low + high + 1) div 2
                 else if 1 \<le> sv_durationMinutes v then sv_durationMinutes v else 30)
      in case subDuration of Some d \<Rightarrow> if 1 \<le> d then d else own | None \<Rightarrow> own)"

definition active_branch_service :: "uuid \<Rightarrow> uuid \<Rightarrow> qdb \<Rightarrow> error + branch_service_row" where
  "active_branch_service branch sid s =
     (case List.find (\<lambda>b. bs_branchId b = branch \<and> bs_serviceId b = sid) (q_branchServices s) of
        Some b \<Rightarrow> if bs_isActive b then Inr b
          else Inl (BadRequest ''This appointment service is not available at the selected branch'')
      | None \<Rightarrow> Inl (BadRequest ''This appointment service is not available at the selected branch''))"

definition chosen_sub_service :: "uuid option \<Rightarrow> uuid \<Rightarrow> qdb \<Rightarrow> error + sub_service_row option" where
  "chosen_sub_service sub sid s =
     (if truthy_str sub
      then (case List.find (\<lambda>x. ss_id x = the sub \<and> ss_serviceId x = sid \<and> ss_status x = ''active'')
              (q_subServices s) of
          None \<Rightarrow> Inl (NotFound ''Sub-service not found'') | Some x \<Rightarrow> Inr (Some x))
      else Inr None)"

text \<open>What both a slot search and a booking read first.\<close>

record booking_ctx =
  bk_branch :: branch_row
  bk_zone :: string
  bk_service :: service_row
  bk_duration :: int

definition booking_ctx_of ::
  "qenv \<Rightarrow> branch_row \<Rightarrow> service_row \<Rightarrow> branch_service_row \<Rightarrow> sub_service_row option \<Rightarrow> booking_ctx" where
  "booking_ctx_of e b v bs sub =
     \<lparr>bk_branch = b, bk_zone = normalizeTimeZone (qe_tz e) (Some (br_timezone b)), bk_service = v,
      bk_duration = resolveAppointmentDurationMinutes v (bs_estimateLow bs) (bs_estimateHigh bs)
        (Option.bind sub ss_durationMinutes)\<rparr>"

definition find_branch :: "uuid \<Rightarrow> qdb \<Rightarrow> error + branch_row" where
  "find_branch branch s = (case List.find (\<lambda>b. br_id b = branch) (q_branches s) of
     None \<Rightarrow> Inl (NotFound ''Branch not found'') | Some b \<Rightarrow> Inr b)"

definition slot_context ::
  "qenv \<Rightarrow> uuid \<Rightarrow> uuid \<Rightarrow> uuid option \<Rightarrow> qdb \<Rightarrow> error + booking_ctx" where
  "slot_context e branch sid sub s =
     err_bind (find_branch branch s) (\<lambda>b.
     err_bind (getBookableService (br_orgId b) sid s) (\<lambda>v.
     err_bind (active_branch_service branch sid s) (\<lambda>bs.
     err_bind (chosen_sub_service sub sid s) (\<lambda>sub.
     Inr (booking_ctx_of e b v bs sub)))))"

definition validateAdvanceWindow :: "time \<Rightarrow> time \<Rightarrow> int \<Rightarrow> int \<Rightarrow> error + unit" where
  "validateAdvanceWindow now start lead maxDays =
     (if start < now + lead * 60000
      then Inl (BadRequest ''This appointment time is too soon to book'')
      else if now + maxDays * 86400000 < start
      then Inl (BadRequest ''This appointment time is outside the advance booking window'')
      else Inr ())"

definition validateAdvanceSearchWindow :: "time \<Rightarrow> time \<Rightarrow> int \<Rightarrow> error + unit" where
  "validateAdvanceSearchWindow now dayEnd maxDays =
     (if now + maxDays * 86400000 < dayEnd
      then Inl (BadRequest ''This appointment date is outside the advance booking window'') else Inr ())"

definition appointment_date :: "string \<Rightarrow> error + string" where
  "appointment_date date = (case normalizeIsoDateKey date of
     Inl _ \<Rightarrow> Inl (BadRequest ''Invalid appointment date'') | Inr d \<Rightarrow> Inr d)"

text \<open>The appointments that occupy time: neither cancelled nor missed.\<close>

definition occupies :: "appt_row \<Rightarrow> bool" where
  "occupies a \<longleftrightarrow> at_status a \<noteq> ''cancelled'' \<and> at_status a \<noteq> ''no_show''"

definition booked_between :: "uuid \<Rightarrow> uuid \<Rightarrow> time \<Rightarrow> time \<Rightarrow> qdb \<Rightarrow> appt_row list" where
  "booked_between branch sid from1 to1 s = filter (\<lambda>a. at_branchId a = branch \<and> at_serviceId a = sid \<and>
     from1 \<le> at_scheduledAt a \<and> at_scheduledAt a \<le> to1 \<and> occupies a) (q_appointments s)"

text \<open>An appointment and a candidate collide when they overlap, each with the buffer after it.\<close>

definition collides :: "int \<Rightarrow> time \<Rightarrow> int \<Rightarrow> appt_row \<Rightarrow> bool" where
  "collides buffer start dur a =
     intervalsOverlap start (start + dur * 60000 + buffer * 60000) (at_scheduledAt a)
       (at_scheduledAt a + at_durationMinutes a * 60000 + buffer * 60000)"

definition slot_offered :: "time \<Rightarrow> window_bounds \<Rightarrow> service_row \<Rightarrow> int \<Rightarrow> appt_row list \<Rightarrow> time \<Rightarrow> bool" where
  "slot_offered now b v dur existing cursor =
     (let end1 = cursor + dur * 60000 in
      \<not> wb_closeAt b < end1 \<and>
      \<not> cursor < now + sv_leadTimeMinutes v * 60000 \<and>
      \<not> (case (wb_breakStart b, wb_breakEnd b) of
           (Some bs, Some be) \<Rightarrow> intervalsOverlap cursor end1 bs be | _ \<Rightarrow> False) \<and>
      \<not> list_ex (collides (sv_bufferMinutes v) cursor dur) existing)"

text \<open>The loop over the day; with a step that is not positive it never ends.\<close>

partial_function (option) slot_loop :: "(time \<Rightarrow> bool) \<Rightarrow> time \<Rightarrow> int \<Rightarrow> time \<Rightarrow> time list option" where
  "slot_loop ok closeAt step cursor =
     (if cursor < closeAt
      then Option.bind (slot_loop ok closeAt step (cursor + step))
             (\<lambda>r. Some (if ok cursor then cursor # r else r))
      else Some [])"

declare slot_loop.simps [code]

text \<open>\<open>None\<close>: the search never returns.\<close>

definition getAvailableSlots ::
  "qenv \<Rightarrow> uuid \<Rightarrow> uuid \<Rightarrow> string \<Rightarrow> uuid option \<Rightarrow> qdb \<Rightarrow> (error + time list) option" where
  "getAvailableSlots e branch sid date sub s =
     (case err_bind (slot_context e branch sid sub s) (\<lambda>c.
           err_bind (appointment_date date) (\<lambda>date.
           err_bind (getUtcRangeForZonedDate (qe_tz e) date (bk_zone c)) (\<lambda>(dayStart, dayEnd).
           err_bind (validateAdvanceSearchWindow (qe_now e) dayEnd (sv_maxAdvanceDays (bk_service c))) (\<lambda>_.
           err_bind (getWorkingHoursWindowForLocalDate branch date s) (\<lambda>w. case w of
             None \<Rightarrow> Inr None
           | Some w \<Rightarrow>
               err_bind (resolveWindowUtcBounds (qe_tz e) date w (bk_zone c)) (\<lambda>b.
               Inr (Some (c, b, booked_between branch sid dayStart dayEnd s)))))))) of
        Inl err \<Rightarrow> Some (Inl err)
      | Inr None \<Rightarrow> Some (Inr [])
      | Inr (Some (c, b, existing)) \<Rightarrow>
          map_option Inr (slot_loop (slot_offered (qe_now e) b (bk_service c) (bk_duration c) existing)
            (wb_closeAt b) (patched (sv_slotInterval (bk_service c)) (bk_duration c) * 60000) (wb_openAt b)))"

section \<open>Booking\<close>

record booking_input =
  bi_branchId :: uuid
  bi_serviceId :: uuid
  bi_subServiceId :: "uuid option"
  bi_customerName :: string
  bi_customerEmail :: "string option"
  bi_customerPhone :: "string option"
  bi_scheduledAt :: "time option"
  bi_notes :: "string option"
  bi_smsAllowed :: bool
  bi_marketingSms :: bool
  bi_marketingEmail :: bool

text \<open>The look-up is by the day of the server's zone, not of the branch's.\<close>

definition findOverlappingAppointment :: "qenv \<Rightarrow> uuid \<Rightarrow> uuid \<Rightarrow> time \<Rightarrow> int \<Rightarrow> int \<Rightarrow> qdb \<Rightarrow> appt_row option" where
  "findOverlappingAppointment e branch sid start dur buffer s =
     (let (dayStart, dayEnd) = qe_serverDay e start in
      List.find (collides buffer start dur) (booked_between branch sid dayStart dayEnd s))"

definition marketing_patch :: "booking_input \<Rightarrow> contact_row \<Rightarrow> contact_row" where
  "marketing_patch d c =
     c\<lparr>ct_marketingSms := (if bi_marketingSms d then ''GRANTED'' else ct_marketingSms c),
       ct_marketingEmail := (if bi_marketingEmail d then ''GRANTED'' else ct_marketingEmail c),
       ct_marketingSource := (if bi_marketingSms d \<or> bi_marketingEmail d then Some ''appointment_booking''
                              else ct_marketingSource c)\<rparr>"

definition new_contact :: "qenv \<Rightarrow> uuid \<Rightarrow> booking_input \<Rightarrow> string option \<Rightarrow> contact_row" where
  "new_contact e org d phone = marketing_patch d
     \<lparr>ct_id = qe_uuid e ''customers'', ct_orgId = org, ct_name = bi_customerName d,
      ct_email = bi_customerEmail d, ct_phone = phone, ct_transactionalSmsAllowed = bi_smsAllowed d,
      ct_marketingSms = ''REVOKED'', ct_marketingEmail = ''REVOKED'',
      ct_smsConsentSource = Some ''appointment_booking'', ct_marketingSource = None\<rparr>"

text \<open>The customer of the booking: found by number, else by email, and updated, or created.\<close>

definition upsert_contact :: "qenv \<Rightarrow> uuid \<Rightarrow> booking_input \<Rightarrow> string option \<Rightarrow> uuid qtx" where
  "upsert_contact e org d phone = tx_read (\<lambda>s.
     case List.find (\<lambda>c. ct_orgId c = org \<and>
            (if phone \<noteq> None then ct_phone c = phone else ct_email c = bi_customerEmail d)) (q_contacts s) of
       Some c \<Rightarrow> tx_bind (tx_modify (q_contacts_update (update_rows (\<lambda>x. ct_id x = ct_id c)
           (\<lambda>x. marketing_patch d (x\<lparr>ct_name := bi_customerName d,
              ct_email := (if truthy_str (bi_customerEmail d) then bi_customerEmail d else ct_email c),
              ct_phone := (if phone \<noteq> None then phone else ct_phone c),
              ct_transactionalSmsAllowed := bi_smsAllowed d\<rparr>))))) (\<lambda>_. tx_return (ct_id c))
     | None \<Rightarrow> tx_bind (tx_modify (q_contacts_update (\<lambda>cs. cs @ [new_contact e org d phone])))
           (\<lambda>_. tx_return (ct_id (new_contact e org d phone))))"

definition log_consents :: "uuid \<Rightarrow> uuid \<Rightarrow> booking_input \<Rightarrow> unit qtx" where
  "log_consents org cust d = tx_modify (q_consents_update (\<lambda>xs. xs @
     (if bi_marketingSms d then [\<lparr>ce_orgId = org, ce_customerId = cust, ce_channel = ''sms'',
        ce_source = ''appointment_booking''\<rparr>] else []) @
     (if bi_marketingEmail d then [\<lparr>ce_orgId = org, ce_customerId = cust, ce_channel = ''email'',
        ce_source = ''appointment_booking''\<rparr>] else [])))"

definition new_appointment :: "qenv \<Rightarrow> booking_ctx \<Rightarrow> booking_input \<Rightarrow> time \<Rightarrow> string option \<Rightarrow> appt_row" where
  "new_appointment e c d start phone =
     \<lparr>at_id = qe_uuid e ''appointments'', at_orgId = br_orgId (bk_branch c), at_branchId = bi_branchId d,
      at_serviceId = bi_serviceId d, at_subServiceId = bi_subServiceId d,
      at_customerName = bi_customerName d, at_customerEmail = bi_customerEmail d,
      at_customerPhone = phone, at_scheduledAt = start, at_durationMinutes = bk_duration c,
      at_status = ''confirmed'', at_notes = bi_notes d, at_assignedUserId = None\<rparr>"

definition book_tx :: "qenv \<Rightarrow> booking_ctx \<Rightarrow> booking_input \<Rightarrow> time \<Rightarrow> string option \<Rightarrow> (appt_row \<times> uuid) qtx" where
  "book_tx e c d start phone = tx_read (\<lambda>s.
     case findOverlappingAppointment e (bi_branchId d) (bi_serviceId d) start (bk_duration c)
            (sv_bufferMinutes (bk_service c)) s of
       Some _ \<Rightarrow> tx_throw (Conflict ''Selected time slot is no longer available'')
     | None \<Rightarrow>
         tx_bind (upsert_contact e (br_orgId (bk_branch c)) d phone) (\<lambda>cust.
         tx_bind (log_consents (br_orgId (bk_branch c)) cust d) (\<lambda>_.
         tx_bind (tx_modify (q_appointments_update (\<lambda>as. as @ [new_appointment e c d start phone]))) (\<lambda>_.
         tx_return (new_appointment e c d start phone, cust)))))"

definition booking_context :: "qenv \<Rightarrow> booking_input \<Rightarrow> qdb \<Rightarrow> error + booking_ctx" where
  "booking_context e d s =
     err_bind (find_branch (bi_branchId d) s) (\<lambda>b.
     err_bind (getBookableService (br_orgId b) (bi_serviceId d) s) (\<lambda>v.
     err_bind (active_branch_service (bi_branchId d) (bi_serviceId d) s) (\<lambda>bs.
     if \<not> truthy_str (bi_customerEmail d) then Inl (BadRequest ''Email is required for appointments'')
     else if \<not> truthy_str (bi_customerPhone d)
     then Inl (BadRequest ''Phone number is required for appointments'')
     else err_bind (chosen_sub_service (bi_subServiceId d) (bi_serviceId d) s) (\<lambda>sub.
     Inr (booking_ctx_of e b v bs sub)))))"

text \<open>Everything a booking checks before its transaction.\<close>

definition booking_checks :: "qenv \<Rightarrow> booking_input \<Rightarrow> qdb \<Rightarrow> error + (booking_ctx \<times> time \<times> string option)" where
  "booking_checks e d s =
     err_bind (booking_context e d s) (\<lambda>c. case bi_scheduledAt d of
       None \<Rightarrow> Inl (BadRequest ''Invalid appointment date/time'')
     | Some start \<Rightarrow>
         err_bind (validateAdvanceWindow (qe_now e) start (sv_leadTimeMinutes (bk_service c))
           (sv_maxAdvanceDays (bk_service c))) (\<lambda>_.
         err_bind (assertAppointmentSlotWithinWorkingHours e (bi_branchId d) (bk_zone c) start (bk_duration c) s)
           (\<lambda>_.
         (let phone = Option.bind (bi_customerPhone d) normalizeSmsRecipient in
          if bi_smsAllowed d \<and> phone = None
          then Inl (BadRequest ''SMS notifications require a valid mobile number in international format (e.g. +15550001234)'')
          else Inr (c, start, phone)))))"

definition book :: "qenv \<Rightarrow> booking_input \<Rightarrow> (appt_row \<times> bool) qsvc" where
  "book e d = svc_read (\<lambda>s.
     svc_bind (svc_lift (booking_checks e d s)) (\<lambda>(c, start, phone).
     svc_bind (with_tenant (book_tx e c d start phone)) (\<lambda>(a, cust).
     (let org = br_orgId (bk_branch c) in
      svc_bind (q_log (Activity org ''appointment.book'' (at_id a))) (\<lambda>_.
      svc_bind (q_log (Activity org ''consent.sms.captured'' cust)) (\<lambda>_.
      svc_bind (q_log (AuditRow org ''create'' ''appointments'' (at_id a))) (\<lambda>_.
      svc_bind (q_log (MailBooked org (the (bi_customerEmail d)) (at_id a))) (\<lambda>_.
      if phone \<noteq> None \<and> bi_smsAllowed d
      then (if org \<in> set (q_completeProfiles s)
            then svc_bind (q_log (SmsBooked org (the phone) (at_id a))) (\<lambda>_. svc_return (a, False))
            else svc_return (a, True))
      else svc_return (a, False)))))))))"

section \<open>The status of an appointment\<close>

definition appointment_transitions :: "string \<Rightarrow> string list option" where
  "appointment_transitions st =
     (if st = ''pending'' then Some [''confirmed'', ''cancelled'', ''completed'', ''no_show'']
      else if st = ''confirmed'' then Some [''pending'', ''cancelled'', ''completed'', ''no_show'']
      else if st = ''cancelled'' then Some [''pending'', ''confirmed'']
      else if st = ''completed'' then Some [''confirmed'']
      else if st = ''no_show'' then Some [''pending'', ''confirmed'', ''cancelled'']
      else None)"

text \<open>\<open>value in APPOINTMENT_STATUS_TRANSITIONS\<close> also finds what every object inherits.\<close>

definition inherited_names :: "string list" where
  "inherited_names = [''constructor'', ''hasOwnProperty'', ''isPrototypeOf'', ''propertyIsEnumerable'',
     ''toLocaleString'', ''toString'', ''valueOf'', ''__proto__'', ''__defineGetter__'', ''__defineSetter__'',
     ''__lookupGetter__'', ''__lookupSetter__'']"

definition isAppointmentStatus :: "string \<Rightarrow> bool" where
  "isAppointmentStatus v \<longleftrightarrow> appointment_transitions v \<noteq> None \<or> v \<in> set inherited_names"

definition validateStatusTransition :: "string \<Rightarrow> string \<Rightarrow> error + string" where
  "validateStatusTransition cur next =
     (if \<not> isAppointmentStatus next then Inl (BadRequest ''Invalid appointment status'')
      else if cur = next then Inr next
      else if next \<in> set (patched (appointment_transitions cur) []) then Inr next
      else Inl (BadRequest (''Cannot change appointment status from '' @ cur @ '' to '' @ next)))"

definition find_appointment :: "uuid \<Rightarrow> uuid \<Rightarrow> qdb \<Rightarrow> error + appt_row" where
  "find_appointment org i s =
     (case List.find (\<lambda>a. at_id a = i \<and> at_orgId a = org) (q_appointments s) of
        None \<Rightarrow> Inl (NotFound ''Appointment not found'') | Some a \<Rightarrow> Inr a)"

record appointment_patch =
  pa_status :: "string option"
  pa_assignedUserId :: "uuid option"
  pa_notes :: "string option"

definition patch_appointment :: "appointment_patch \<Rightarrow> appt_row \<Rightarrow> appt_row" where
  "patch_appointment d a = a\<lparr>at_status := patched (pa_status d) (at_status a),
     at_assignedUserId := (if pa_assignedUserId d = None then at_assignedUserId a else pa_assignedUserId d),
     at_notes := (if pa_notes d = None then at_notes a else pa_notes d)\<rparr>"

text \<open>Only a status that is not empty is checked; the patch is written as it is.\<close>

definition updateAppointment :: "qenv \<Rightarrow> uuid \<Rightarrow> uuid \<Rightarrow> appointment_patch \<Rightarrow> appt_row qsvc" where
  "updateAppointment e org i d = svc_read (\<lambda>s.
     svc_bind (svc_lift (find_appointment org i s)) (\<lambda>a.
     svc_bind (if truthy_str (pa_status d)
         then svc_bind (svc_lift (validateStatusTransition (at_status a) (the (pa_status d))))
                (\<lambda>st. svc_return (Some st))
         else svc_return None) (\<lambda>st.
     svc_bind (with_tenant (tx_update_one q_appointments q_appointments_update (\<lambda>x. at_id x = i)
         (patch_appointment d))) (\<lambda>u.
     svc_bind (q_log (Activity org (if st \<noteq> None then ''appointment.status.update'' else ''appointment.update'') i)) (\<lambda>_.
     svc_bind (q_log (AuditRow org ''update'' ''appointments'' i)) (\<lambda>_.
     svc_bind (if st = Some ''completed'' then q_log (EvAppointmentCompleted org i (at_branchId a))
               else svc_return ()) (\<lambda>_.
     svc_bind (if st = Some ''no_show'' then q_log (EvAppointmentNoShow org i (at_branchId a))
               else svc_return ()) (\<lambda>_. svc_return u))))))))"

definition deleteAppointment :: "qenv \<Rightarrow> uuid \<Rightarrow> uuid \<Rightarrow> unit qsvc" where
  "deleteAppointment e org i = svc_read (\<lambda>s.
     svc_bind (svc_lift (find_appointment org i s)) (\<lambda>_.
     svc_bind (with_tenant (tx_modify (q_appointments_update (filter (\<lambda>a. at_id a \<noteq> i))))) (\<lambda>_.
     svc_bind (q_log (Activity org ''appointment.delete'' i)) (\<lambda>_.
     q_log (AuditRow org ''delete'' ''appointments'' i)))))"

definition cancelPublic :: "qenv \<Rightarrow> uuid \<Rightarrow> appt_row qsvc" where
  "cancelPublic e i = svc_read (\<lambda>s. case List.find (\<lambda>a. at_id a = i) (q_appointments s) of
       None \<Rightarrow> svc_throw (NotFound ''Appointment not found'')
     | Some a \<Rightarrow>
         if at_status a \<notin> {''pending'', ''confirmed''}
         then svc_throw (BadRequest ''This appointment cannot be cancelled'')
         else svc_bind (with_tenant (tx_update_one q_appointments q_appointments_update (\<lambda>x. at_id x = i)
                (\<lambda>x. x\<lparr>at_status := ''cancelled''\<rparr>))) (\<lambda>u.
           svc_bind (q_log (Activity (at_orgId a) ''appointment.cancel.public'' i)) (\<lambda>_.
           svc_bind (q_log (AuditRow (at_orgId a) ''update'' ''appointments'' i)) (\<lambda>_. svc_return u))))"

section \<open>The public look-up\<close>

definition maskCustomerName :: "string \<Rightarrow> string option" where
  "maskCustomerName name = (let t = js_trim name in
     if name = [] \<or> t = [] then None
     else if length t \<le> 1 then Some ''*''
     else if length t = 2 then Some (hd t # ''*'')
     else Some (hd t # replicate (max 1 (length t - 2)) (CHR ''*'') @ [last t]))"

definition customerLookup ::
  "uuid \<Rightarrow> string option \<Rightarrow> string option \<Rightarrow> qdb \<Rightarrow> error + (appt_row \<times> string option) list" where
  "customerLookup branch email phone s =
     (if \<not> truthy_str email \<and> \<not> truthy_str phone then Inr []
      else err_bind (find_branch branch s) (\<lambda>b. Inr (map (\<lambda>a. (a, maskCustomerName (at_customerName a)))
        (take 20 (rev (sort_key at_scheduledAt (filter (\<lambda>a. at_orgId a = br_orgId b \<and> at_branchId a = branch \<and>
          (truthy_str email \<longrightarrow> at_customerEmail a = Some (to_lower (the email))) \<and>
          (truthy_str phone \<longrightarrow> at_customerPhone a = phone)) (q_appointments s))))))))"

text \<open>What the public page of one appointment shows: no address, number or note, and the queue now.\<close>

record public_view =
  pv_appointment :: appt_row
  pv_hasEmail :: bool
  pv_hasPhone :: bool
  pv_queuePosition :: nat
  pv_waitingCount :: nat
  pv_inRoomCount :: nat
  pv_estimatedMinutes :: int

definition tickets_today :: "qenv \<Rightarrow> uuid \<Rightarrow> uuid \<Rightarrow> string list \<Rightarrow> qdb \<Rightarrow> nat" where
  "tickets_today e org branch sts s = count_rows (\<lambda>k. tk_orgId k = org \<and> tk_branchId k = branch \<and>
     tk_status k \<in> set sts \<and> fst (qe_serverDay e (qe_now e)) \<le> tk_bookedAt k) (q_tickets s)"

definition getPublicById :: "qenv \<Rightarrow> uuid \<Rightarrow> qdb \<Rightarrow> error + public_view" where
  "getPublicById e i s = (case List.find (\<lambda>a. at_id a = i) (q_appointments s) of
     None \<Rightarrow> Inl (NotFound ''Appointment not found'')
   | Some a \<Rightarrow>
       (let waiting = tickets_today e (at_orgId a) (at_branchId a) [''waiting''] s;
            ahead = count_rows (\<lambda>x. at_orgId x = at_orgId a \<and> at_branchId x = at_branchId a \<and>
              at_status x \<in> {''pending'', ''confirmed''} \<and> at_scheduledAt x < at_scheduledAt a) (q_appointments s);
            minutes = (case List.find (\<lambda>v. sv_id v = at_serviceId a) (q_services s) of
              Some v \<Rightarrow> sv_durationMinutes v | None \<Rightarrow> 15)
        in Inr \<lparr>pv_appointment = a\<lparr>at_customerEmail := None, at_customerPhone := None, at_notes := None\<rparr>,
             pv_hasEmail = truthy_str (at_customerEmail a), pv_hasPhone = truthy_str (at_customerPhone a),
             pv_queuePosition = ahead + 1, pv_waitingCount = waiting,
             pv_inRoomCount = tickets_today e (at_orgId a) (at_branchId a) [''called'', ''serving''] s,
             pv_estimatedMinutes = max 0 (int (waiting + ahead) * max 5 minutes)\<rparr>))"

section \<open>Reminders\<close>

definition reminder_key :: "uuid \<Rightarrow> int \<Rightarrow> string" where
  "reminder_key i m = ''notification:appointment:'' @ i @ '':reminder:'' @ show_int m"

definition due_for_reminder :: "qenv \<Rightarrow> uuid option \<Rightarrow> int \<Rightarrow> qdb \<Rightarrow> appt_row list" where
  "due_for_reminder e org m s =
     (let from1 = qe_now e + m * 60000; to1 = from1 + max (qe_reminderScanMinutes e) 5 * 60000 in
      take 250 (filter (\<lambda>a. (truthy_str org \<longrightarrow> at_orgId a = the org) \<and>
        at_status a \<in> {''pending'', ''confirmed''} \<and> from1 \<le> at_scheduledAt a \<and> at_scheduledAt a < to1 \<and>
        (at_customerPhone a \<noteq> None \<or> at_customerEmail a \<noteq> None)) (q_appointments s)))"

definition remind :: "qenv \<Rightarrow> int \<Rightarrow> appt_row \<Rightarrow> nat qsvc" where
  "remind e m a = svc_read (\<lambda>s.
     if truthy_str (q_cache_get (qe_now e) (reminder_key (at_id a) m) s) then svc_return 0
     else (let sms = (case List.find (\<lambda>c. ct_orgId c = at_orgId a \<and> ct_phone c = at_customerPhone a)
                        (q_contacts s) of
                Some c \<Rightarrow> truthy_str (at_customerPhone a) \<and> ct_transactionalSmsAllowed c | None \<Rightarrow> False) in
       svc_bind (q_log (AppointmentReminder (at_orgId a) (at_id a) sms)) (\<lambda>_.
       svc_bind (svc_modify (q_cache_set (qe_now e) (reminder_key (at_id a) m) ''sent'' (14 * 24 * 60 * 60)))
         (\<lambda>_. svc_return 1))))"

fun remind_all :: "qenv \<Rightarrow> int \<Rightarrow> appt_row list \<Rightarrow> nat qsvc" where
  "remind_all e m [] = svc_return 0"
| "remind_all e m (a # as) =
     svc_bind (remind e m a) (\<lambda>k. svc_bind (remind_all e m as) (\<lambda>n. svc_return (k + n)))"

fun remind_thresholds :: "qenv \<Rightarrow> uuid option \<Rightarrow> int list \<Rightarrow> nat qsvc" where
  "remind_thresholds e org [] = svc_return 0"
| "remind_thresholds e org (m # ms) = svc_bind (svc_read (\<lambda>s. remind_all e m (due_for_reminder e org m s)))
     (\<lambda>k. svc_bind (remind_thresholds e org ms) (\<lambda>n. svc_return (k + n)))"

definition sendDueReminders :: "qenv \<Rightarrow> uuid option \<Rightarrow> nat qsvc" where
  "sendDueReminders e org = remind_thresholds e org (filter (\<lambda>m. 0 < m) (qe_reminderMinutes e))"

end
