(* ===== verification/HoursFacts.thy ===== *)
theory HoursFacts
  imports Hours
begin

text \<open>
  Dates, zones and opening hours: which texts are dates, that the time of a zone and UTC are each
  other's inverse, and that an appointment is accepted exactly when the branch is open throughout.
\<close>

section \<open>Numbers as texts\<close>

lemma digits_value_append: "digits_value (x @ [c]) = digits_value x * 10 + digit_value c"
  by (simp add: digits_value_def)

lemma digits_value_Nil [simp]: "digits_value [] = 0"
  by (simp add: digits_value_def)

lemma digit_value_char [simp]: "d < 10 \<Longrightarrow> digit_value (digit_char d) = int d"
  by (simp add: digit_value_def)

lemma digit_value_bounds: "is_digit c \<Longrightarrow> 0 \<le> digit_value c \<and> digit_value c < 10"
  by (auto simp: is_digit_def digit_value_def)

lemma digit_char_value: "is_digit c \<Longrightarrow> digit_char (nat (digit_value c)) = c"
  by (auto simp: is_digit_def digit_value_def digit_char_def nat_diff_distrib)

lemma digits_value_show: "digits_value (show_nat n) = int n"
proof (induction n rule: show_nat.induct)
  case (1 n)
  show ?case
  proof (cases "n < 10")
    case True
    then show ?thesis using digits_value_append [of "[]" "digit_char n"] by (simp add: show_nat.simps)
  next
    case False
    then have "show_nat n = show_nat (n div 10) @ [digit_char (n mod 10)]" by (simp add: show_nat.simps)
    moreover have "int (n div 10) * 10 + int (n mod 10) = int n" by presburger
    ultimately show ?thesis using 1 False by (simp add: digits_value_append)
  qed
qed

lemma length_show_nat: "0 < k \<Longrightarrow> length (show_nat n) \<le> k \<longleftrightarrow> n < 10 ^ k"
proof (induction k arbitrary: n)
  case (Suc k)
  show ?case
  proof (cases "n < 10")
    case True
    then have "length (show_nat n) = 1" by (simp add: show_nat.simps)
    moreover have "10 * 1 \<le> 10 * (10 :: nat) ^ k" by (rule mult_le_mono2) simp
    then have "n < 10 ^ Suc k" using True unfolding power_Suc by linarith
    ultimately show ?thesis by simp
  next
    case False
    then have l: "length (show_nat n) = Suc (length (show_nat (n div 10)))" by (simp add: show_nat.simps)
    show ?thesis
    proof (cases "k = 0")
      case True
      then show ?thesis using l False by simp
    next
      case k: False
      have "n div 10 < 10 ^ k \<longleftrightarrow> n < 10 ^ Suc k" by (simp add: div_less_iff_less_mult mult.commute)
      then show ?thesis using l Suc.IH [of "n div 10"] k by simp
    qed
  qed
qed simp

lemma show_nat_four: "length (show_nat n) = 4 \<longleftrightarrow> 1000 \<le> n \<and> n \<le> 9999"
  using length_show_nat [of 4 n] length_show_nat [of 3 n] by auto

text \<open>Two digits.\<close>

lemma pad_two:
  assumes "0 \<le> v" "v < 100"
  shows "length (pad_start 2 v) = 2" "list_all is_digit (pad_start 2 v)" "digits_value (pad_start 2 v) = v"
proof -
  have len: "length (show_nat (nat v)) \<le> 2" using length_show_nat [of 2 "nat v"] assms by simp
  have show1: "show_int v = show_nat (nat v)" using assms by (simp add: show_int_def)
  show "length (pad_start 2 v) = 2" using len show1 by (simp add: pad_start_def Let_def)
  show "list_all is_digit (pad_start 2 v)"
    using show_nat_digits [of "nat v"]
    by (auto simp: pad_start_def Let_def show1 list_all_iff is_digit_def)
  have "digits_value (replicate k (CHR ''0'') @ x) = digits_value x" for k x
    by (induction k) (simp_all add: digits_value_def digit_value_def)
  then show "digits_value (pad_start 2 v) = v"
    using assms by (simp add: pad_start_def Let_def show1 digits_value_show)
qed

lemma js_number_digits: "list_all is_digit x \<Longrightarrow> js_number x = Some (digits_value x)"
  by (simp add: js_number_def js_trim_digits)

lemma str_split_none: "c \<notin> set x \<Longrightarrow> str_split c x = [x]"
  by (induction x) auto

lemma str_split_first: "c \<notin> set x \<Longrightarrow> str_split c (x @ c # y) = x # str_split c y"
  by (induction x) auto

lemma digits_no_dash: "list_all is_digit x \<Longrightarrow> CHR ''-'' \<notin> set x"
  by (auto simp: list_all_iff is_digit_def)

section \<open>Dates\<close>

text \<open>The fields of a day as they are printed.\<close>

definition good_date :: "int \<Rightarrow> nat \<Rightarrow> int \<Rightarrow> bool" where
  "good_date y m d \<longleftrightarrow> 1000 \<le> y \<and> y \<le> 9999 \<and> valid_date y m d"

lemma valid_date_bounds: "valid_date y m d \<Longrightarrow> m < 12 \<and> 1 \<le> d \<and> d \<le> 31"
proof -
  assume v: "valid_date y m d"
  then have "month_start (leap_year y) (m + 1) - month_start (leap_year y) m \<le> 31"
    using months_cases [of m] by (cases "leap_year y") (auto simp: valid_date_def month_starts next_months
      simp del: One_nat_def)
  with v show ?thesis by (simp add: valid_date_def days_in_month_def)
qed

lemma split_iso:
  assumes "good_date y m d"
  shows "map js_number (str_split (CHR ''-'') (iso_date y (int m + 1) d)) = [Some y, Some (int m + 1), Some d]"
proof -
  have y: "show_int y = show_nat (nat y)" "int (nat y) = y" using assms by (simp_all add: good_date_def show_int_def)
  have md: "0 \<le> int m + 1" "int m + 1 < 100" "0 \<le> d" "d < 100"
    using assms valid_date_bounds [of y m d] by (auto simp: good_date_def)
  note p = pad_two [OF md(1,2)] pad_two [OF md(3,4)]
  have "str_split (CHR ''-'') (iso_date y (int m + 1) d) =
      [show_int y, pad_start 2 (int m + 1), pad_start 2 d]"
    using p digits_no_dash [OF show_nat_digits] digits_no_dash [OF p(2)] digits_no_dash [OF p(5)]
    by (simp add: iso_date_def y str_split_first str_split_none)
  then show ?thesis using p y by (simp add: js_number_digits show_nat_digits digits_value_show)
qed

lemma isoDate_good:
  assumes "good_date y m d"
  shows "isoDateToUtcDate (iso_date y (int m + 1) d) = Some (make_day y (int m) d * msPerDay)"
proof -
  have "\<not> (0 \<le> y \<and> y \<le> 99)" using assms by (simp add: good_date_def)
  then have "(if 0 \<le> y \<and> y \<le> 99 then 1900 + y else y) = y" by (rule if_not_P)
  then show ?thesis
    by (simp only: isoDateToUtcDate_def split_iso [OF assms] Let_def component_def date_utc_def) simp
qed

lemma getIso_midnight:
  assumes "valid_date y m d"
  shows "getIsoDateFromUtcDate (make_day y (int m) d * msPerDay) = iso_date y (int m + 1) d"
  using fields_of_day [OF assms refl] by (simp add: getIsoDateFromUtcDate_def msPerDay_def)

lemma iso_shape_good:
  assumes "good_date y m d"
  shows "iso_shape (iso_date y (int m + 1) d)"
proof -
  have y: "show_int y = show_nat (nat y)" "length (show_nat (nat y)) = 4"
    using assms show_nat_four [of "nat y"] by (auto simp: good_date_def show_int_def)
  have md: "0 \<le> int m + 1" "int m + 1 < 100" "0 \<le> d" "d < 100"
    using assms valid_date_bounds [of y m d] by (auto simp: good_date_def)
  note p = pad_two [OF md(1,2)] pad_two [OF md(3,4)]
  show ?thesis
    using p y show_nat_digits [of "nat y"] by (simp add: iso_shape_def iso_date_def nth_append)
qed

lemma iso_shape_year:
  assumes "iso_shape (iso_date y a b)"
  shows "1000 \<le> y \<and> y \<le> 9999"
proof -
  let ?x = "iso_date y a b"
  have digits: "is_digit (?x ! i)" if "i < 4" for i
    using assms that by (auto simp: iso_shape_def list_all_length)
  have dash: "?x ! 4 = CHR ''-''" using assms by (simp add: iso_shape_def)
  have "0 \<le> y" using digits [of 0] by (auto simp: iso_date_def show_int_def is_digit_def split: if_splits)
  then have y: "show_int y = show_nat (nat y)" by (simp add: show_int_def)
  have "\<not> length (show_nat (nat y)) < 4"
    using digits [of "length (show_nat (nat y))"] by (auto simp: iso_date_def y nth_append is_digit_def)
  moreover have "\<not> 4 < length (show_nat (nat y))"
    using dash show_nat_digits [of "nat y"] by (auto simp: iso_date_def y nth_append is_digit_def list_all_length)
  ultimately have "1000 \<le> nat y \<and> nat y \<le> 9999" using show_nat_four [of "nat y"] by simp
  then show ?thesis using \<open>0 \<le> y\<close> by (simp add: nat_le_iff le_nat_iff)
qed

text \<open>
  \<open>normalizeIsoDateKey\<close> accepts exactly the days of the Gregorian calendar in the years from 1000 to
  9999, written with two digits for the month and the day, and returns them unchanged; everything
  else, such as the 29th of February of a common year, is the error \<open>Invalid ISO date\<close>.
\<close>

theorem iso_dates_accepted:
  "normalizeIsoDateKey x = (if \<exists>y m d. good_date y m d \<and> x = iso_date y (int m + 1) d then Inr x
     else Inl (PlainError ''Invalid ISO date''))"
proof (cases "\<exists>y m d. good_date y m d \<and> x = iso_date y (int m + 1) d")
  case True
  then obtain y m d where g: "good_date y m d" and x: "x = iso_date y (int m + 1) d" by blast
  then show ?thesis
    using True getIso_midnight [of y m d] iso_shape_good [OF g] isoDate_good [OF g]
    by (simp add: normalizeIsoDateKey_def good_date_def)
next
  case False
  have "normalizeIsoDateKey x = Inl (PlainError ''Invalid ISO date'')"
  proof (rule ccontr)
    assume "\<not> ?thesis"
    then obtain t where t: "iso_shape x" "getIsoDateFromUtcDate t = x"
      by (auto simp: normalizeIsoDateKey_def split: option.splits if_splits)
    let ?n = "t div msPerDay"
    have x: "x = iso_date (year_from_day ?n) (int (month_from_day ?n) + 1) (date_from_day ?n)"
      using t(2) by (simp add: getIsoDateFromUtcDate_def Let_def)
    have "good_date (year_from_day ?n) (month_from_day ?n) (date_from_day ?n)"
      using iso_shape_year t(1) x day_of_fields(1) by (simp add: good_date_def)
    with x False show False by blast
  qed
  then show ?thesis using False by simp
qed

section \<open>Zones\<close>

lemma year_from_day_ge: "day_from_year y \<le> n \<Longrightarrow> y \<le> year_from_day n"
  using day_from_year_mono [of "year_from_day n + 1" y] year_from_day_bounds [of n]
  by (cases "year_from_day n + 1 = y"; cases "y \<le> year_from_day n") auto

lemma date_utc_of_seconds:
  fixes l :: int
  assumes "day_from_year 100 \<le> l div 86400"
  shows "date_utc (year_from_day (l div 86400)) (int (month_from_day (l div 86400))) (date_from_day (l div 86400))
    (l mod 86400 div 3600) (l mod 86400 mod 3600 div 60) (l mod 86400 mod 60) = l * 1000"
proof -
  let ?n = "l div 86400"
  let ?r = "l mod 86400"
  have y: "(if 0 \<le> year_from_day ?n \<and> year_from_day ?n \<le> 99 then 1900 + year_from_day ?n
      else year_from_day ?n) = year_from_day ?n"
    using year_from_day_ge [OF assms] by simp
  have s: "?r div 3600 * 3600 + ?r mod 3600 div 60 * 60 + ?r mod 60 = ?r"
  proof -
    have "?r mod 3600 mod 60 = ?r mod 60" by (rule mod_mod_cancel) simp
    then show ?thesis
      using div_mult_mod_eq [of ?r 3600] div_mult_mod_eq [of "?r mod 3600" 60] by linarith
  qed
  have "l * 1000 = ?n * msPerDay + ?r * 1000"
    using div_mult_mod_eq [of l 86400] unfolding msPerDay_def by linarith
  with s show ?thesis unfolding date_utc_def y day_of_fields(2) by (simp add: algebra_simps)
qed

lemma offset_minutes:
  assumes "zone_offset tz zone u = 60 * k" and "day_from_year 100 \<le> (u div 1000 + 60 * k) div 86400"
  shows "getTimeZoneOffsetMinutes tz zone u = k"
proof -
  let ?l = "u div 1000 + 60 * k"
  have "?l * 1000 - u = 60000 * k - u mod 1000" using div_mult_mod_eq [of u 1000] by (simp only: distrib_right)
  then have e: "?l * 1000 - u + 30000 = 60000 * k + (30000 - u mod 1000)" by simp
  have "0 \<le> u mod 1000" "u mod 1000 < 1000" by simp_all
  then have "0 \<le> 30000 - u mod 1000" "30000 - u mod 1000 < 60000" by simp_all
  then have "(?l * 1000 - u + 30000) div 60000 = k" by (rule int_div_pos_eq [OF e])
  then show ?thesis
    unfolding getTimeZoneOffsetMinutes_def getTimeZoneParts_def Let_def assms(1) tz_parts.simps
      add_diff_cancel_right' date_utc_of_seconds [OF assms(2)] .
qed

text \<open>A wall clock time.\<close>

definition clock :: "int \<Rightarrow> int \<Rightarrow> string" where
  "clock h mi = pad_start 2 h @ '':'' @ pad_start 2 mi"

lemma digits_no_colon: "list_all is_digit x \<Longrightarrow> CHR '':'' \<notin> set x"
  by (auto simp: list_all_iff is_digit_def)

lemma split_clock:
  assumes "0 \<le> h" "h < 24" "0 \<le> mi" "mi < 60"
  shows "map js_number (str_split (CHR '':'') (clock h mi)) = [Some h, Some mi]"
proof -
  note p = pad_two [of h] pad_two [of mi]
  show ?thesis
    using assms p digits_no_colon [OF p(2)] digits_no_colon [OF p(5)]
    by (simp add: clock_def str_split_first str_split_none js_number_digits)
qed

lemma zonedDateTime_good:
  assumes "good_date y m d" "0 \<le> h" "h < 24" "0 \<le> mi" "mi < 60"
  shows "zonedDateTimeToUtc tz (iso_date y (int m + 1) d) (clock h mi) zone =
    Inr (zoned_to_utc tz zone (date_utc y (int m) d h mi 0))"
  by (simp add: zonedDateTimeToUtc_def split_iso [OF assms(1)] split_clock [OF assms(2-5)] component_def)

lemma date_utc_good:
  assumes "good_date y m d"
  shows "date_utc y (int m) d h mi 0 = (make_day y (int m) d * 1440 + h * 60 + mi) * 60000"
proof -
  have "(if 0 \<le> y \<and> y \<le> 99 then 1900 + y else y) = y" using assms by (simp add: good_date_def)
  then show ?thesis by (simp only: date_utc_def msPerDay_def) simp
qed


definition demo_zone :: zones where
  "demo_zone z = (if z = ''America/Toronto'' then Some (\<lambda>_. -18000) else if z = ''UTC'' then Some (\<lambda>_. 0) else None)"


section \<open>Opening hours\<close>

text \<open>Two intervals overlap when an instant lies in both.\<close>

lemma intervals_overlap_iff:
  assumes "a < b" "c < d"
  shows "intervalsOverlap a b c d \<longleftrightarrow> (\<exists>t. a \<le> t \<and> t < b \<and> c \<le> t \<and> t < d)"
proof
  assume "intervalsOverlap a b c d"
  with assms have "a \<le> max a c \<and> max a c < b \<and> c \<le> max a c \<and> max a c < d" by (auto simp: intervalsOverlap_def)
  then show "\<exists>t. a \<le> t \<and> t < b \<and> c \<le> t \<and> t < d" by blast
qed (auto simp: intervalsOverlap_def)

text \<open>A break of the window that ends after it starts.\<close>

definition proper_break :: "window_bounds \<Rightarrow> bool" where
  "proper_break b \<longleftrightarrow> (case (wb_breakStart b, wb_breakEnd b) of (Some x, Some y) \<Rightarrow> x < y | _ \<Rightarrow> True)"

lemma slot_reason_open_iff:
  assumes "start < end1" "proper_break b"
  shows "slot_reason start end1 b = ROpen \<longleftrightarrow> (\<forall>t. start \<le> t \<and> t < end1 \<longrightarrow> reason_at t b = ROpen)"
proof
  assume "slot_reason start end1 b = ROpen"
  then show "\<forall>t. start \<le> t \<and> t < end1 \<longrightarrow> reason_at t b = ROpen"
    by (auto simp: slot_reason_def reason_at_def intervalsOverlap_def split: option.splits if_splits)
next
  assume all: "\<forall>t. start \<le> t \<and> t < end1 \<longrightarrow> reason_at t b = ROpen"
  then have "reason_at start b = ROpen" "reason_at (end1 - 1) b = ROpen" using assms(1) by auto
  then have inside: "\<not> start < wb_openAt b" "\<not> wb_closeAt b < end1"
    by (auto simp: reason_at_def split: if_splits)
  have "\<not> intervalsOverlap start end1 x y" if "wb_breakStart b = Some x" "wb_breakEnd b = Some y" for x y
  proof
    assume "intervalsOverlap start end1 x y"
    with assms that obtain t where "start \<le> t" "t < end1" "x \<le> t" "t < y"
      using intervals_overlap_iff [of start end1 x y] by (auto simp: proper_break_def)
    with all that show False by (auto simp: reason_at_def split: if_splits)
  qed
  with inside show "slot_reason start end1 b = ROpen"
    by (auto simp: slot_reason_def split: option.splits)
qed

text \<open>
  C15. An appointment is within the working hours exactly when the branch is open at every instant of
  it: the test of a slot against a window agrees with the test of each of its instants, for a slot
  of positive length and a window whose break ends after it starts.
\<close>

theorem slot_open_iff_open_throughout:
  assumes "0 < dur" and b: "resolveWindowUtcBounds tz date w zone = Inr b" "proper_break b"
  shows "evaluateAppointmentSlotAgainstWindow tz start dur zone (Some w) date = Inr ROpen \<longleftrightarrow>
    (\<forall>at. start \<le> at \<and> at < start + dur * 60000 \<longrightarrow>
      (\<exists>a. evaluateBranchAvailabilityAtInstant tz at zone (Some w) date = Inr a \<and> av_isOpen a))"
proof (cases "no_window (Some w)")
  case True
  have "start < start + dur * 60000" using assms(1) by simp
  then show ?thesis
    using True by (auto simp: evaluateAppointmentSlotAgainstWindow_def evaluateBranchAvailabilityAtInstant_def)
next
  case False
  then show ?thesis
    using slot_reason_open_iff [of start "start + dur * 60000" b] assms
    by (auto simp: evaluateAppointmentSlotAgainstWindow_def evaluateBranchAvailabilityAtInstant_def
        err_bind_def Let_def)
qed

definition demo_window :: hours_window where
  "demo_window = \<lparr>hw_openTime = ''09:00'', hw_closeTime = ''17:00'', hw_isClosed = False,
     hw_breakStart = Some ''12:00'', hw_breakEnd = Some ''12:30''\<rparr>"

definition demo_bounds :: window_bounds where
  "demo_bounds = \<lparr>wb_openAt = 1709215200000, wb_closeAt = 1709244000000, wb_breakStart = Some 1709226000000,
     wb_breakEnd = Some 1709227800000\<rparr>"

lemma demo_bounds: "resolveWindowUtcBounds demo_zone ''2024-02-29'' demo_window ''America/Toronto'' = Inr demo_bounds"
  by code_simp

theorem slot_open_iff_open_throughout_witness:
  "\<exists>a. evaluateBranchAvailabilityAtInstant demo_zone 1709217000000 ''America/Toronto'' (Some demo_window)
    ''2024-02-29'' = Inr a \<and> av_isOpen a"
proof -
  have "proper_break demo_bounds" by (simp add: proper_break_def demo_bounds_def)
  moreover have "evaluateAppointmentSlotAgainstWindow demo_zone 1709215200000 60 ''America/Toronto''
      (Some demo_window) ''2024-02-29'' = Inr ROpen" by code_simp
  ultimately show ?thesis
    using slot_open_iff_open_throughout [OF _ demo_bounds, of 60 1709215200000] by simp
qed

end
