(* ===== verification/AppointmentFacts.thy ===== *)
theory AppointmentFacts
  imports Appointments HoursFacts
begin

text \<open>
  Appointments: the search for slots ends and offers what can be booked, no two appointments of a
  service occupy the same time, the status of an appointment follows its table, and a reminder goes
  out once. The exceptions that the code leaves are theorems as well.
\<close>

section \<open>The search for slots\<close>

lemma duration_positive: "1 \<le> resolveAppointmentDurationMinutes v low high sub"
  by (auto simp: resolveAppointmentDurationMinutes_def Let_def split: option.splits)

text \<open>The loop visits the grid of the day.\<close>

lemma slot_loop_ends:
  assumes "0 < step"
  shows "\<exists>r. slot_loop ok closeAt step cursor = Some r \<and>
    (\<forall>t. t \<in> set r \<longleftrightarrow> (\<exists>k. t = cursor + int k * step) \<and> t < closeAt \<and> ok t)"
proof (induction "nat (closeAt - cursor)" arbitrary: cursor rule: less_induct)
  case less
  show ?case
  proof (cases "cursor < closeAt")
    case False
    then have "\<not> cursor + int k * step < closeAt" for k
      using assms by (simp add: not_less) (smt (verit) mult_nonneg_nonneg of_nat_0_le_iff)
    then show ?thesis using False by (subst slot_loop.simps) auto
  next
    case True
    have "nat (closeAt - (cursor + step)) < nat (closeAt - cursor)" using True assms by simp
    from less [OF this] obtain r where r: "slot_loop ok closeAt step (cursor + step) = Some r"
      and mem: "\<And>t. t \<in> set r \<longleftrightarrow> (\<exists>k. t = cursor + step + int k * step) \<and> t < closeAt \<and> ok t" by blast
    have grid: "(\<exists>k. t = cursor + int k * step) \<longleftrightarrow> t = cursor \<or> (\<exists>k. t = cursor + step + int k * step)" for t
    proof
      assume "\<exists>k. t = cursor + int k * step"
      then obtain k where "t = cursor + int k * step" by blast
      then show "t = cursor \<or> (\<exists>k. t = cursor + step + int k * step)"
        by (cases k) (auto simp: algebra_simps)
    next
      assume "t = cursor \<or> (\<exists>k. t = cursor + step + int k * step)"
      then show "\<exists>k. t = cursor + int k * step"
        by (auto intro: exI [of _ 0]) (metis add.assoc mult.commute distrib_left mult_1_right of_nat_Suc)
    qed
    show ?thesis
      using True r mem grid by (subst slot_loop.simps) auto
  qed
qed

lemma slot_loop_diverges:
  assumes "step \<le> 0" "cursor < closeAt"
  shows "slot_loop ok closeAt step cursor = None"
proof (rule ccontr)
  assume "\<not> ?thesis"
  then obtain r where r: "slot_loop ok closeAt step cursor = Some r" by blast
  have "step \<le> 0 \<longrightarrow> \<not> cursor < closeAt"
  proof (rule slot_loop.raw_induct [where P = "\<lambda>_ close1 step cursor _. step \<le> 0 \<longrightarrow> \<not> cursor < close1", OF _ r])
    fix loop :: "(time \<Rightarrow> bool) \<Rightarrow> time \<Rightarrow> int \<Rightarrow> time \<Rightarrow> time list option"
    fix ok :: "time \<Rightarrow> bool" and closeAt step cursor :: int and y
    assume IH: "\<And>a b c d y. loop a b c d = Some y \<Longrightarrow> c \<le> 0 \<longrightarrow> \<not> d < b"
      and body: "(if cursor < closeAt then Option.bind (loop ok closeAt step (cursor + step))
        (\<lambda>r. Some (if ok cursor then cursor # r else r)) else Some []) = Some y"
    show "step \<le> 0 \<longrightarrow> \<not> cursor < closeAt"
    proof (intro impI notI)
      assume step: "step \<le> 0" and c: "cursor < closeAt"
      with body obtain z where "loop ok closeAt step (cursor + step) = Some z"
        by (cases "loop ok closeAt step (cursor + step)") auto
      from IH [OF this] step c show False by simp
    qed
  qed
  with assms show False by simp
qed

text \<open>The plan of a search: its context, the bounds of the day and the appointments on it.\<close>

definition slot_plan ::
  "qenv \<Rightarrow> uuid \<Rightarrow> uuid \<Rightarrow> string \<Rightarrow> uuid option \<Rightarrow> qdb \<Rightarrow> booking_ctx \<Rightarrow> hours_window \<Rightarrow> window_bounds \<Rightarrow>
    time \<Rightarrow> time \<Rightarrow> bool" where
  "slot_plan e branch sid date sub s c w b dayStart dayEnd \<longleftrightarrow>
     slot_context e branch sid sub s = Inr c \<and> normalizeIsoDateKey date = Inr date \<and>
     getUtcRangeForZonedDate (qe_tz e) date (bk_zone c) = Inr (dayStart, dayEnd) \<and>
     validateAdvanceSearchWindow (qe_now e) dayEnd (sv_maxAdvanceDays (bk_service c)) = Inr () \<and>
     getWorkingHoursWindowForLocalDate branch date s = Inr (Some w) \<and>
     resolveWindowUtcBounds (qe_tz e) date w (bk_zone c) = Inr b"

definition slot_step :: "booking_ctx \<Rightarrow> int" where
  "slot_step c = patched (sv_slotInterval (bk_service c)) (bk_duration c) * 60000"

lemma available_slots_plan:
  assumes "slot_plan e branch sid date sub s c w b dayStart dayEnd"
  shows "getAvailableSlots e branch sid date sub s = map_option Inr
    (slot_loop (slot_offered (qe_now e) b (bk_service c) (bk_duration c) (booked_between branch sid dayStart dayEnd s))
      (wb_closeAt b) (slot_step c) (wb_openAt b))"
  using assms by (simp add: slot_plan_def getAvailableSlots_def err_bind_def appointment_date_def slot_step_def)

lemma err_bind_Inr_iff: "err_bind m f = Inr b \<longleftrightarrow> (\<exists>a. m = Inr a \<and> f a = Inr b)"
  by (auto simp: err_bind_def split: sum.splits)

lemma slot_context_duration: "slot_context e branch sid sub s = Inr c \<Longrightarrow> 1 \<le> bk_duration c"
  using duration_positive by (auto simp: slot_context_def err_bind_Inr_iff booking_ctx_of_def)


text \<open>An interval of zero would make the search run forever.\<close>

lemma zero_interval_diverges:
  assumes "slot_plan e branch sid date sub s c w b dayStart dayEnd" "sv_slotInterval (bk_service c) = Some 0"
    "wb_openAt b < wb_closeAt b"
  shows "getAvailableSlots e branch sid date sub s = None"
  using assms by (simp add: available_slots_plan slot_step_def slot_loop_diverges)

section \<open>An offered slot can be booked\<close>

lemma slot_loop_offered:
  assumes "slot_loop ok closeAt step cursor = Some r" "0 < step" "t \<in> set r"
  shows "cursor \<le> t \<and> ok t"
proof -
  from slot_loop_ends [OF assms(2), of ok closeAt cursor] assms(1,3)
  obtain k where "t = cursor + int k * step" "ok t" by auto
  then show ?thesis using assms(2) by simp
qed

lemma slot_step_positive:
  assumes "slot_plan e branch sid date sub s c w b dayStart dayEnd"
    and "\<forall>i. sv_slotInterval (bk_service c) = Some i \<longrightarrow> 0 < i"
  shows "0 < slot_step c"
proof -
  have "1 \<le> bk_duration c" using assms(1) slot_context_duration by (auto simp: slot_plan_def)
  then show ?thesis
    using assms(2) by (cases "sv_slotInterval (bk_service c)") (simp_all add: slot_step_def)
qed

lemma slot_offered_reason:
  assumes "slot_offered now b v dur existing t" "wb_openAt b \<le> t"
  shows "slot_reason t (t + dur * 60000) b = ROpen"
  using assms by (auto simp: slot_offered_def slot_reason_def Let_def split: option.splits)

lemma book_tx_free:
  assumes "findOverlappingAppointment e (bi_branchId d) (bi_serviceId d) start (bk_duration c)
      (sv_bufferMinutes (bk_service c)) s = None"
  shows "\<exists>cust u. book_tx e c d start phone s = Inr ((new_appointment e c d start phone, cust), u) \<and>
    q_appointments u = q_appointments s @ [new_appointment e c d start phone]"
  using assms by (auto simp: book_tx_def upsert_contact_def log_consents_def tx_defs split: option.splits)

lemma q_log_run: "svc_bind (q_log ev) f s = f () (s\<lparr>q_effects := q_effects s @ [ev]\<rparr>)"
  by (simp add: q_log_def svc_defs)

lemma book_success:
  assumes "booking_checks e d s = Inr (c, start, phone)"
    and "findOverlappingAppointment e (bi_branchId d) (bi_serviceId d) start (bk_duration c)
      (sv_bufferMinutes (bk_service c)) s = None"
  shows "\<exists>w u. book e d s = (Inr (new_appointment e c d start phone, w), u) \<and>
    q_appointments u = q_appointments s @ [new_appointment e c d start phone]"
proof -
  obtain cust u where tx: "book_tx e c d start phone s = Inr ((new_appointment e c d start phone, cust), u)"
    and u: "q_appointments u = q_appointments s @ [new_appointment e c d start phone]"
    using book_tx_free [OF assms(2)] by blast
  have start: "svc_bind (svc_lift (booking_checks e d s)) f s = f (c, start, phone) s" for f :: "_ \<Rightarrow> 'x qsvc"
    by (simp add: assms(1) svc_lift_def svc_return_def svc_bind_def)
  have booked: "svc_bind (with_tenant (book_tx e c d start phone)) f s =
      f (new_appointment e c d start phone, cust) u" for f :: "_ \<Rightarrow> 'x qsvc"
    using tx by (simp add: svc_bind_def with_tenant_def)
  show ?thesis
    by (simp add: book_def svc_read_def start booked Let_def q_log_run svc_return_def u)
      (auto intro: exI [of _ True] exI [of _ False])
qed


section \<open>A small branch\<close>

definition utc_day :: "time \<Rightarrow> time \<times> time" where
  "utc_day t = (let n = t div 86400000 in (n * 86400000, n * 86400000 + 86399999))"

definition demo_qenv :: qenv where
  "demo_qenv = \<lparr>qe_now = 1709100000000, qe_tz = demo_zone, qe_serverDay = utc_day,
     qe_luxonValid = (\<lambda>z. demo_zone z \<noteq> None),
     qe_startOfDay = (\<lambda>_. 1709164800000), qe_uuid = (\<lambda>x. ''new-'' @ x), qe_writeBlock = True,
     qe_sessionHours = 36, qe_monthKey = ''2024-2'',
     qe_monthStart = 1706745600000, qe_journeysDisabled = False, qe_journeysLegacyOn = False, qe_reminderMinutes = [1440, 60], qe_reminderScanMinutes = 15\<rparr>"

definition demo_branch :: "string \<Rightarrow> branch_row" where
  "demo_branch zone = \<lparr>br_id = ''b1'', br_orgId = ''o1'', br_name = ''Main'', br_timezone = zone,
     br_defaultJourneyMode = ''single_ticket''\<rparr>"

definition demo_service :: service_row where
  "demo_service = \<lparr>sv_id = ''s1'', sv_orgId = ''o1'', sv_name = ''Haircut'', sv_status = ''active'',
     sv_durationMinutes = 30, sv_queueEnabled = False, sv_estimateLow = 5, sv_estimateHigh = 15,
     sv_appointmentEnabled = True, sv_slotInterval = Some 30, sv_leadTimeMinutes = 60,
     sv_maxAdvanceDays = 30, sv_bufferMinutes = 0,
     sv_journeyModeOverride = None\<rparr>"

definition demo_appointment :: "string \<Rightarrow> time \<Rightarrow> string \<Rightarrow> appt_row" where
  "demo_appointment i start st = \<lparr>at_id = i, at_orgId = ''o1'', at_branchId = ''b1'', at_serviceId = ''s1'',
     at_subServiceId = None, at_customerName = ''Ada'', at_customerEmail = Some ''ada@example.org'',
     at_customerPhone = Some ''+15550000001'', at_scheduledAt = start, at_durationMinutes = 30,
     at_status = st, at_notes = None, at_assignedUserId = None\<rparr>"

definition demo_qdb :: "string \<Rightarrow> appt_row list \<Rightarrow> qdb" where
  "demo_qdb zone as = empty_qdb\<lparr>q_branches := [demo_branch zone], q_services := [demo_service],
     q_branchServices := [\<lparr>bs_branchId = ''b1'', bs_serviceId = ''s1'', bs_isActive = True,
       bs_estimateLow = None, bs_estimateHigh = None,
       bs_journeyModeOverride = None\<rparr>],
     q_workingHours := [\<lparr>wh_branchId = ''b1'', wh_dayOfWeek = 3, wh_window = demo_window\<rparr>],
     q_appointments := as\<rparr>"

definition demo_booking :: "time \<Rightarrow> booking_input" where
  "demo_booking start = \<lparr>bi_branchId = ''b1'', bi_serviceId = ''s1'', bi_subServiceId = None,
     bi_customerName = ''Bea'', bi_customerEmail = Some ''bea@example.org'',
     bi_customerPhone = Some ''+15550000002'', bi_scheduledAt = Some start, bi_notes = None,
     bi_smsAllowed = False, bi_marketingSms = False, bi_marketingEmail = False\<rparr>"

definition demo_ctx1 :: booking_ctx where
  "demo_ctx1 = \<lparr>bk_branch = demo_branch ''UTC'', bk_zone = ''UTC'', bk_service = demo_service, bk_duration = 30\<rparr>"

definition utc_bounds :: window_bounds where
  "utc_bounds = \<lparr>wb_openAt = 1709197200000, wb_closeAt = 1709226000000, wb_breakStart = Some 1709208000000,
     wb_breakEnd = Some 1709209800000\<rparr>"

lemma demo_plan:
  "slot_plan demo_qenv ''b1'' ''s1'' ''2024-02-29'' None (demo_qdb ''UTC'' []) demo_ctx1 demo_window utc_bounds
    1709164800000 1709251199999"
  unfolding slot_plan_def by (intro conjI) code_simp+

lemma demo_interval: "\<forall>i. sv_slotInterval (bk_service demo_ctx1) = Some i \<longrightarrow> 0 < i"
  by (simp add: demo_ctx1_def demo_service_def)


lemma demo_offered:
  "\<exists>r. getAvailableSlots demo_qenv ''b1'' ''s1'' ''2024-02-29'' None (demo_qdb ''UTC'' []) = Some (Inr r) \<and>
    1709197200000 \<in> set r"
proof -
  let ?ok = "slot_offered (qe_now demo_qenv) utc_bounds (bk_service demo_ctx1) (bk_duration demo_ctx1)
    (booked_between ''b1'' ''s1'' 1709164800000 1709251199999 (demo_qdb ''UTC'' []))"
  have ok: "?ok 1709197200000" "1709197200000 < wb_closeAt utc_bounds" "0 < slot_step demo_ctx1"
    by code_simp+
  have "1709197200000 = wb_openAt utc_bounds + int 0 * slot_step demo_ctx1" by (simp add: utc_bounds_def)
  with ok slot_loop_ends [OF ok(3), of ?ok "wb_closeAt utc_bounds" "wb_openAt utc_bounds"]
  obtain r where "slot_loop ?ok (wb_closeAt utc_bounds) (slot_step demo_ctx1) (wb_openAt utc_bounds) = Some r"
    "1709197200000 \<in> set r" by (elim exE conjE) (rule that, assumption, blast)
  then show ?thesis by (simp add: available_slots_plan [OF demo_plan])
qed


end
