(* ===== verification/BookingFacts.thy ===== *)
theory BookingFacts
  imports AppointmentFacts
begin

text \<open>
  What bookings and status changes keep: no two appointments that occupy time overlap, as long as
  appointments stay within a day of the server's zone and no cancelled one is reinstated. Both
  conditions are needed, and the code does not check either. The status follows its table, and a
  reminder goes out once.
\<close>

section \<open>No double booking\<close>

definition at_end :: "appt_row \<Rightarrow> time" where
  "at_end a = at_scheduledAt a + at_durationMinutes a * 60000"

definition clash :: "appt_row \<Rightarrow> appt_row \<Rightarrow> bool" where
  "clash a b \<longleftrightarrow> at_branchId a = at_branchId b \<and> at_serviceId a = at_serviceId b \<and> occupies a \<and> occupies b \<and>
     intervalsOverlap (at_scheduledAt a) (at_end a) (at_scheduledAt b) (at_end b)"

text \<open>The days of the server partition time.\<close>

definition day_partition :: "(time \<Rightarrow> time \<times> time) \<Rightarrow> bool" where
  "day_partition day \<longleftrightarrow> (\<forall>t. fst (day t) \<le> t \<and> t \<le> snd (day t)) \<and>
     (\<forall>t u. fst (day t) \<le> u \<and> u \<le> snd (day t) \<longrightarrow> day u = day t)"

definition within_day :: "(time \<Rightarrow> time \<times> time) \<Rightarrow> appt_row \<Rightarrow> bool" where
  "within_day day a \<longleftrightarrow> 1 \<le> at_durationMinutes a \<and> at_end a \<le> snd (day (at_scheduledAt a)) + 1"

definition booking_inv :: "(time \<Rightarrow> time \<times> time) \<Rightarrow> qdb \<Rightarrow> bool" where
  "booking_inv day s \<longleftrightarrow> sorted_wrt (\<lambda>a b. \<not> clash a b) (q_appointments s) \<and>
     list_all (within_day day) (q_appointments s) \<and> list_all (\<lambda>v. 0 \<le> sv_bufferMinutes v) (q_services s)"

lemma day_partitionD:
  assumes "day_partition day"
  shows "fst (day t) \<le> t" "t \<le> snd (day t)" "fst (day t) \<le> u \<Longrightarrow> u \<le> snd (day t) \<Longrightarrow> day u = day t"
  using assms unfolding day_partition_def by blast+

lemma same_day:
  assumes day: "day_partition day" and a: "within_day day a" and t: "at_scheduledAt a \<le> t" "t < at_end a"
  shows "day t = day (at_scheduledAt a)"
proof -
  have "fst (day (at_scheduledAt a)) \<le> t" using day_partitionD(1) [OF day, of "at_scheduledAt a"] t(1) by linarith
  moreover have "t \<le> snd (day (at_scheduledAt a))" using a t(2) by (simp add: within_day_def)
  ultimately show ?thesis by (rule day_partitionD(3) [OF day])
qed

text \<open>A clash is found by the look-up of a booking.\<close>

lemma clash_is_found:
  assumes day: "day_partition (qe_serverDay e)" and a: "within_day (qe_serverDay e) a" and b: "within_day (qe_serverDay e) b"
    and clash: "clash b a" and buffer: "0 \<le> buffer" and mem: "b \<in> set (q_appointments s)"
  shows "findOverlappingAppointment e (at_branchId a) (at_serviceId a) (at_scheduledAt a)
    (at_durationMinutes a) buffer s \<noteq> None"
proof -
  have "at_scheduledAt a < at_end a" "at_scheduledAt b < at_end b"
    using a b by (simp_all add: within_day_def at_end_def)
  moreover have over: "intervalsOverlap (at_scheduledAt b) (at_end b) (at_scheduledAt a) (at_end a)"
    using clash by (simp add: clash_def)
  ultimately obtain t where "at_scheduledAt b \<le> t" "t < at_end b" "at_scheduledAt a \<le> t" "t < at_end a"
    using intervals_overlap_iff by blast
  then have "qe_serverDay e (at_scheduledAt b) = qe_serverDay e (at_scheduledAt a)"
    using same_day [OF day a, of t] same_day [OF day b, of t] by simp
  then have "fst (qe_serverDay e (at_scheduledAt a)) \<le> at_scheduledAt b"
    "at_scheduledAt b \<le> snd (qe_serverDay e (at_scheduledAt a))"
    using day_partitionD(1,2) [OF day, of "at_scheduledAt b"] by simp_all
  moreover have "collides buffer (at_scheduledAt a) (at_durationMinutes a) b"
    using over buffer by (auto simp: collides_def intervalsOverlap_def at_end_def)
  ultimately have "\<exists>x. x \<in> set (booked_between (at_branchId a) (at_serviceId a)
      (fst (qe_serverDay e (at_scheduledAt a))) (snd (qe_serverDay e (at_scheduledAt a))) s) \<and>
      collides buffer (at_scheduledAt a) (at_durationMinutes a) x"
    using mem clash by (intro exI [of _ b]) (simp add: booked_between_def clash_def)
  then show ?thesis
    by (auto simp: findOverlappingAppointment_def split: prod.splits dest!: find_ex)
qed

text \<open>A booking fails and leaves the appointments alone, or appends one that nothing was in the way of.\<close>

lemma book_tx_appends:
  assumes "book_tx e c d start phone s = Inr ((a, cust), u)"
  shows "a = new_appointment e c d start phone \<and> q_appointments u = q_appointments s @ [a] \<and>
    q_services u = q_services s \<and>
    findOverlappingAppointment e (bi_branchId d) (bi_serviceId d) start (bk_duration c)
      (sv_bufferMinutes (bk_service c)) s = None"
  using assms by (auto simp: book_tx_def upsert_contact_def log_consents_def tx_defs split: option.splits)

lemma q_log_frame: "snd (q_log ev s) = s\<lparr>q_effects := q_effects s @ [ev]\<rparr>" "fst (q_log ev s) = Inr ()"
  by (simp_all add: q_log_def svc_modify_def)

lemma book_cases:
  assumes "book e d s = (r, t)"
  shows "q_services t = q_services s \<and> (q_appointments t = q_appointments s \<or>
    (\<exists>c start phone w. booking_checks e d s = Inr (c, start, phone) \<and>
      r = Inr (new_appointment e c d start phone, w) \<and>
      q_appointments t = q_appointments s @ [new_appointment e c d start phone] \<and>
      findOverlappingAppointment e (bi_branchId d) (bi_serviceId d) start (bk_duration c)
        (sv_bufferMinutes (bk_service c)) s = None))"
proof (cases "booking_checks e d s")
  case (Inl err)
  then show ?thesis using assms by (auto simp: book_def svc_read_def svc_lift_def svc_throw_def svc_bind_def)
next
  case (Inr p)
  obtain c start phone where p: "p = (c, start, phone)" by (cases p)
  show ?thesis
  proof (cases "book_tx e c d start phone s")
    case (Inl err)
    then show ?thesis
      using assms Inr p by (auto simp: book_def svc_read_def svc_lift_def svc_return_def svc_bind_def with_tenant_def)
  next
    case tx: (Inr q)
    obtain a cust u where q: "q = ((a, cust), u)" by (metis prod.exhaust)
    have start: "svc_bind (svc_lift (booking_checks e d s)) f s = f (c, start, phone) s" for f :: "_ \<Rightarrow> 'x qsvc"
      by (simp add: Inr p svc_lift_def svc_return_def svc_bind_def)
    have booked: "svc_bind (with_tenant (book_tx e c d start phone)) f s = f (a, cust) u" for f :: "_ \<Rightarrow> 'x qsvc"
      using tx q by (simp add: svc_bind_def with_tenant_def)
    have "fst (book e d s) \<in> {Inr (a, True), Inr (a, False)}" "q_appointments (snd (book e d s)) = q_appointments u"
      "q_services (snd (book e d s)) = q_services u"
      by (simp_all add: book_def svc_read_def start booked Let_def q_log_run svc_return_def)
    with book_tx_appends [of e c d start phone s a cust u] tx q assms Inr p show ?thesis by auto
  qed
qed

lemma book_keeps:
  assumes inv: "booking_inv (qe_serverDay e) s" and day: "day_partition (qe_serverDay e)"
    and run: "book e d s = (r, t)" and stays: "\<And>a w. r = Inr (a, w) \<Longrightarrow> within_day (qe_serverDay e) a"
  shows "booking_inv (qe_serverDay e) t"
proof -
  from book_cases [OF run] consider (same) "q_appointments t = q_appointments s" "q_services t = q_services s"
    | (new) c start phone w where "booking_checks e d s = Inr (c, start, phone)"
      "r = Inr (new_appointment e c d start phone, w)" "q_services t = q_services s"
      "q_appointments t = q_appointments s @ [new_appointment e c d start phone]"
      "findOverlappingAppointment e (bi_branchId d) (bi_serviceId d) start (bk_duration c)
        (sv_bufferMinutes (bk_service c)) s = None"
    by blast
  then show ?thesis
  proof cases
    case same
    with inv show ?thesis by (simp add: booking_inv_def)
  next
    case new
    let ?a = "new_appointment e c d start phone"
    have a: "within_day (qe_serverDay e) ?a" by (rule stays [OF new(2)])
    have "bk_service c \<in> set (q_services s)"
      using new(1) find_SomeD by (fastforce simp: booking_checks_def booking_context_def err_bind_Inr_iff
          getBookableService_def booking_ctx_of_def Let_def split: option.splits if_splits)
    then have buffer: "0 \<le> sv_bufferMinutes (bk_service c)"
      using inv by (auto simp: booking_inv_def list_all_iff)
    have "\<not> clash b ?a" if b: "b \<in> set (q_appointments s)" for b
    proof
      assume "clash b ?a"
      moreover have "within_day (qe_serverDay e) b" using inv b by (simp add: booking_inv_def list_all_iff)
      ultimately show False
        using clash_is_found [OF day a _ _ buffer b] new(5) by (simp add: new_appointment_def)
    qed
    with inv a new show ?thesis by (auto simp: booking_inv_def sorted_wrt_append)
  qed
qed

text \<open>Changing rows without moving them, and never from free to occupied.\<close>

definition stays_put :: "appt_row \<Rightarrow> appt_row \<Rightarrow> bool" where
  "stays_put a b \<longleftrightarrow> at_branchId b = at_branchId a \<and> at_serviceId b = at_serviceId a \<and>
     at_scheduledAt b = at_scheduledAt a \<and> at_durationMinutes b = at_durationMinutes a \<and>
     (occupies b \<longrightarrow> occupies a)"

lemma clash_stays_put: "stays_put a a' \<Longrightarrow> stays_put b b' \<Longrightarrow> clash a' b' \<Longrightarrow> clash a b"
  by (simp add: stays_put_def clash_def at_end_def)

lemma within_day_stays_put: "stays_put a a' \<Longrightarrow> within_day day a \<Longrightarrow> within_day day a'"
  by (simp add: stays_put_def within_day_def at_end_def)

lemma booking_inv_update:
  assumes inv: "booking_inv day s" and t: "q_appointments t = update_rows P f (q_appointments s)" "q_services t = q_services s"
    and f: "\<And>a. a \<in> set (q_appointments s) \<Longrightarrow> P a \<Longrightarrow> stays_put a (f a)"
  shows "booking_inv day t"
proof -
  let ?g = "\<lambda>a. if P a then f a else a"
  have g: "stays_put a (?g a)" if "a \<in> set (q_appointments s)" for a
    using f [OF that] by (cases "P a") (simp_all add: stays_put_def)
  have "sorted_wrt (\<lambda>a b. \<not> clash a b) (q_appointments s)" using inv by (simp add: booking_inv_def)
  then have "sorted_wrt (\<lambda>a b. \<not> clash (?g a) (?g b)) (q_appointments s)"
    by (rule sorted_wrt_mono_rel [rotated]) (rule contrapos_nn, assumption, rule clash_stays_put [OF g g])
  moreover have "within_day day (?g a)" if "a \<in> set (q_appointments s)" for a
    by (rule within_day_stays_put [OF g [OF that]]) (use inv that in \<open>simp add: booking_inv_def list_all_iff\<close>)
  then have "list_all (within_day day) (map ?g (q_appointments s))"
    by (simp only: list_all_iff set_map ball_simps(9)) (rule ballI)
  ultimately show ?thesis using inv by (simp add: booking_inv_def t sorted_wrt_map update_rows_def)
qed

lemma updateAppointment_cases:
  assumes "updateAppointment e org i p s = (r, t)"
  shows "q_services t = q_services s \<and> (q_appointments t = q_appointments s \<or>
    q_appointments t = update_rows (\<lambda>x. at_id x = i) (patch_appointment p) (q_appointments s))"
  using assms
  by (auto simp: updateAppointment_def svc_read_def svc_lift_def svc_bind_def svc_return_def svc_throw_def
      with_tenant_def tx_update_one_def q_log_def svc_modify_def Let_def split: sum.splits option.splits if_splits)

lemma cancelPublic_cases:
  assumes "cancelPublic e i s = (r, t)"
  shows "q_services t = q_services s \<and> (q_appointments t = q_appointments s \<or>
    q_appointments t = update_rows (\<lambda>x. at_id x = i) (\<lambda>x. x\<lparr>at_status := ''cancelled''\<rparr>) (q_appointments s))"
  using assms
  by (auto simp: cancelPublic_def svc_read_def svc_bind_def svc_return_def svc_throw_def
      with_tenant_def tx_update_one_def q_log_def svc_modify_def split: sum.splits option.splits if_splits)

lemma deleteAppointment_cases:
  assumes "deleteAppointment e org i s = (r, t)"
  shows "q_services t = q_services s \<and> (q_appointments t = q_appointments s \<or>
    q_appointments t = filter (\<lambda>a. at_id a \<noteq> i) (q_appointments s))"
  using assms
  by (auto simp: deleteAppointment_def svc_read_def svc_lift_def svc_bind_def svc_return_def svc_throw_def
      with_tenant_def tx_modify_def q_log_def svc_modify_def split: sum.splits option.splits)

text \<open>The operations on appointments, with the two conditions on them.\<close>

inductive appointment_step :: "(time \<Rightarrow> time \<times> time) \<Rightarrow> qdb \<Rightarrow> qdb \<Rightarrow> bool" for day where
  Booked: "book e d s = (r, t) \<Longrightarrow> qe_serverDay e = day \<Longrightarrow> (\<And>a w. r = Inr (a, w) \<Longrightarrow> within_day day a) \<Longrightarrow>
    appointment_step day s t"
| Updated: "updateAppointment e org i p s = (r, t) \<Longrightarrow>
    (\<And>a. a \<in> set (q_appointments s) \<Longrightarrow> at_id a = i \<Longrightarrow> occupies (patch_appointment p a) \<Longrightarrow> occupies a) \<Longrightarrow>
    appointment_step day s t"
| Cancelled: "cancelPublic e i s = (r, t) \<Longrightarrow> appointment_step day s t"
| Deleted: "deleteAppointment e org i s = (r, t) \<Longrightarrow> appointment_step day s t"

lemma appointment_step_keeps:
  assumes "appointment_step day s t" "day_partition day" "booking_inv day s"
  shows "booking_inv day t"
  using assms
proof cases
  case (Booked e d r)
  with book_keeps [of e s d r t] assms show ?thesis by auto
next
  case (Updated e org i p r)
  from updateAppointment_cases [OF Updated(1)] show ?thesis
  proof (elim conjE disjE)
    assume "q_appointments t = update_rows (\<lambda>x. at_id x = i) (patch_appointment p) (q_appointments s)"
      "q_services t = q_services s"
    then show ?thesis
      by (rule booking_inv_update [OF assms(3)]) (use Updated(2) in \<open>auto simp: patch_appointment_def stays_put_def\<close>)
  qed (use assms(3) in \<open>simp add: booking_inv_def\<close>)
next
  case (Cancelled e i r)
  from cancelPublic_cases [OF Cancelled(1)] show ?thesis
  proof (elim conjE disjE)
    assume "q_appointments t = update_rows (\<lambda>x. at_id x = i) (\<lambda>x. x\<lparr>at_status := ''cancelled''\<rparr>) (q_appointments s)"
      "q_services t = q_services s"
    then show ?thesis
      by (rule booking_inv_update [OF assms(3)]) (auto simp: occupies_def stays_put_def)
  qed (use assms(3) in \<open>simp add: booking_inv_def\<close>)
next
  case (Deleted e org i r)
  from deleteAppointment_cases [OF Deleted(1)] show ?thesis
    using assms(3) by (auto simp: booking_inv_def list_all_iff sorted_wrt_filter)
qed

text \<open>
  C18. No service is booked twice for the same time: over any run of bookings, status changes,
  cancellations and deletions no two appointments of a branch and service that occupy time overlap,
  provided that every booked appointment ends within the day of the server's zone on which it
  starts, and that no update turns a cancelled or missed appointment back into one that occupies.
\<close>

theorem no_double_booking:
  assumes "(appointment_step day)\<^sup>*\<^sup>* s t" and "day_partition day" and "booking_inv day s"
  shows "sorted_wrt (\<lambda>a b. \<not> clash a b) (q_appointments t)"
proof -
  from assms(1) have "booking_inv day t"
    using assms(2,3) by (induction rule: rtranclp_induct) (auto intro: appointment_step_keeps)
  then show ?thesis by (simp add: booking_inv_def)
qed

definition no_patch :: appointment_patch where
  "no_patch = \<lparr>pa_status = None, pa_assignedUserId = None, pa_notes = None\<rparr>"

lemma utc_days: "day_partition utc_day"
proof (unfold day_partition_def, intro conjI allI impI)
  fix t u :: time
  show "fst (utc_day t) \<le> t" by (simp add: utc_day_def Let_def)
  show "t \<le> snd (utc_day t)"
    using pos_mod_bound [of 86400000 t] by (simp add: utc_day_def Let_def minus_div_mult_eq_mod [symmetric])
  assume "fst (utc_day t) \<le> u \<and> u \<le> snd (utc_day t)"
  then have "u div 86400000 = t div 86400000"
    by (intro int_div_pos_eq [of _ _ _ "u - t div 86400000 * 86400000"]) (simp_all add: utc_day_def Let_def)
  then show "utc_day u = utc_day t" by (simp add: utc_day_def Let_def)
qed

definition demo_taken :: "time \<Rightarrow> appt_row" where
  "demo_taken start = \<lparr>at_id = ''new-appointments'', at_orgId = ''o1'', at_branchId = ''b1'', at_serviceId = ''s1'',
     at_subServiceId = None, at_customerName = ''Bea'', at_customerEmail = Some ''bea@example.org'',
     at_customerPhone = Some ''+15550000002'', at_scheduledAt = start, at_durationMinutes = 30,
     at_status = ''confirmed'', at_notes = None, at_assignedUserId = None\<rparr>"

text \<open>A booking at the small branch, whose calendar may already hold appointments.\<close>

lemma demo_books:
  assumes tables: "q_branches s = [demo_branch zone]" "q_services s = [demo_service]"
      "q_branchServices s = [\<lparr>bs_branchId = ''b1'', bs_serviceId = ''s1'', bs_isActive = True,
       bs_estimateLow = None, bs_estimateHigh = None,
       bs_journeyModeOverride = None\<rparr>]"
    and zone: "normalizeTimeZone demo_zone (Some zone) = zone"
    and advance: "validateAdvanceWindow 1709100000000 start 60 30 = Inr ()"
    and hours: "assertAppointmentSlotWithinWorkingHours demo_qenv ''b1'' zone start 30 s = Inr ()"
    and free: "findOverlappingAppointment demo_qenv ''b1'' ''s1'' start 30 0 s = None"
  shows "\<exists>w u. book demo_qenv (demo_booking start) s = (Inr (demo_taken start, w), u) \<and>
    q_appointments u = q_appointments s @ [demo_taken start]"
proof -
  let ?c = "\<lparr>bk_branch = demo_branch zone, bk_zone = zone, bk_service = demo_service, bk_duration = 30\<rparr>"
  have phone: "normalizeSmsRecipient ''+15550000002'' = Some ''+15550000002''" by code_simp
  have "resolveAppointmentDurationMinutes demo_service None None None = 30" by code_simp
  with zone have "booking_context demo_qenv (demo_booking start) s = Inr ?c"
    by (simp add: booking_context_def find_branch_def getBookableService_def active_branch_service_def tables
        chosen_sub_service_def booking_ctx_of_def err_bind_def truthy_str_def demo_branch_def demo_booking_def)
      (simp add: demo_qenv_def demo_service_def)
  then have checks: "booking_checks demo_qenv (demo_booking start) s = Inr (?c, start, Some ''+15550000002'')"
    using advance hours
    by (simp add: booking_checks_def err_bind_def demo_booking_def phone) (simp add: demo_qenv_def demo_service_def)
  have new: "new_appointment demo_qenv ?c (demo_booking start) start (Some ''+15550000002'') = demo_taken start"
    by (simp add: new_appointment_def demo_booking_def demo_branch_def demo_taken_def) (simp add: demo_qenv_def)
  have "findOverlappingAppointment demo_qenv (bi_branchId (demo_booking start)) (bi_serviceId (demo_booking start))
      start (bk_duration ?c) (sv_bufferMinutes (bk_service ?c)) s = None"
    using free by (simp add: demo_booking_def demo_service_def)
  from book_success [OF checks this] show ?thesis unfolding new .
qed

lemma demo_second_booking:
  "\<exists>w u. book demo_qenv (demo_booking 1709197200000)
      (demo_qdb ''UTC'' [demo_appointment ''a1'' 1709199000000 ''confirmed'']) = (Inr (demo_taken 1709197200000, w), u) \<and>
    q_appointments u = q_appointments (demo_qdb ''UTC'' [demo_appointment ''a1'' 1709199000000 ''confirmed'']) @
      [demo_taken 1709197200000]"
proof (rule demo_books [where zone = "''UTC''"])
  show "normalizeTimeZone demo_zone (Some ''UTC'') = ''UTC''" by code_simp
  show "validateAdvanceWindow 1709100000000 1709197200000 60 30 = Inr ()" by code_simp
  show "assertAppointmentSlotWithinWorkingHours demo_qenv ''b1'' ''UTC'' 1709197200000 30
    (demo_qdb ''UTC'' [demo_appointment ''a1'' 1709199000000 ''confirmed'']) = Inr ()" by code_simp
  show "findOverlappingAppointment demo_qenv ''b1'' ''s1'' 1709197200000 30 0
    (demo_qdb ''UTC'' [demo_appointment ''a1'' 1709199000000 ''confirmed'']) = None" by code_simp
qed (simp_all add: demo_qdb_def)

theorem no_double_booking_witness:
  "\<exists>r t. book demo_qenv (demo_booking 1709197200000)
      (demo_qdb ''UTC'' [demo_appointment ''a1'' 1709199000000 ''confirmed'']) = (r, t) \<and>
    length (q_appointments t) = 2 \<and> sorted_wrt (\<lambda>a b. \<not> clash a b) (q_appointments t)"
proof -
  let ?s = "demo_qdb ''UTC'' [demo_appointment ''a1'' 1709199000000 ''confirmed'']"
  from demo_second_booking obtain w t where run: "book demo_qenv (demo_booking 1709197200000) ?s = (Inr (demo_taken 1709197200000, w), t)"
    and t: "q_appointments t = q_appointments ?s @ [demo_taken 1709197200000]" by (elim exE conjE) (rule that)
  have day: "qe_serverDay demo_qenv = utc_day" by (simp add: demo_qenv_def)
  have "within_day utc_day (demo_taken 1709197200000)" by code_simp
  then have step: "appointment_step utc_day ?s t" by (intro Booked [OF run day]) simp
  have "booking_inv utc_day ?s" unfolding booking_inv_def by (intro conjI) code_simp+
  from no_double_booking [OF r_into_rtranclp [of "appointment_step utc_day", OF step] utc_days this]
  have "sorted_wrt (\<lambda>a b. \<not> clash a b) (q_appointments t)" .
  moreover have "length (q_appointments t) = 2" unfolding t by (simp add: demo_qdb_def)
  ultimately show ?thesis using run by (intro exI conjI)
qed

text \<open>
  The conditions matter. A branch in Toronto that is open from 17:00 to 23:00 is served by a server in
  UTC; an appointment of an hour at 18:30 reaches past midnight UTC, and 19:00 is booked over it.
\<close>

definition evening_qdb :: qdb where
  "evening_qdb = (demo_qdb ''America/Toronto'' [(demo_appointment ''a1'' 1709249400000 ''confirmed'')\<lparr>at_durationMinutes := 60\<rparr>])
     \<lparr>q_workingHours := [\<lparr>wh_branchId = ''b1'', wh_dayOfWeek = 3, wh_window =
       \<lparr>hw_openTime = ''17:00'', hw_closeTime = ''23:00'', hw_isClosed = False, hw_breakStart = None,
         hw_breakEnd = None\<rparr>\<rparr>]\<rparr>"

theorem double_booking_across_midnight:
  "\<exists>w u. book demo_qenv (demo_booking 1709251200000) evening_qdb = (Inr (demo_taken 1709251200000, w), u) \<and>
    \<not> sorted_wrt (\<lambda>a b. \<not> clash a b) (q_appointments u)"
proof -
  have "\<exists>w u. book demo_qenv (demo_booking 1709251200000) evening_qdb = (Inr (demo_taken 1709251200000, w), u) \<and>
    q_appointments u = q_appointments evening_qdb @ [demo_taken 1709251200000]"
  proof (rule demo_books [where zone = "''America/Toronto''"])
    show "normalizeTimeZone demo_zone (Some ''America/Toronto'') = ''America/Toronto''" by code_simp
    show "validateAdvanceWindow 1709100000000 1709251200000 60 30 = Inr ()" by code_simp
    show "assertAppointmentSlotWithinWorkingHours demo_qenv ''b1'' ''America/Toronto'' 1709251200000 30 evening_qdb = Inr ()"
      by code_simp
    show "findOverlappingAppointment demo_qenv ''b1'' ''s1'' 1709251200000 30 0 evening_qdb = None" by code_simp
  qed (simp_all add: evening_qdb_def demo_qdb_def)
  moreover have "sorted_wrt (\<lambda>a b. \<not> clash a b) (q_appointments evening_qdb @ [demo_taken 1709251200000]) = False"
    by code_simp
  ultimately show ?thesis by auto
qed

text \<open>Reinstating a cancelled appointment does not look at what was booked since.\<close>

definition resold_qdb :: qdb where
  "resold_qdb = demo_qdb ''UTC'' [demo_appointment ''a1'' 1709197200000 ''cancelled'',
     demo_appointment ''a2'' 1709197200000 ''confirmed'']"

theorem reinstating_double_books:
  "sorted_wrt (\<lambda>a b. \<not> clash a b) (q_appointments resold_qdb) \<and>
   (let (r, t) = updateAppointment demo_qenv ''o1'' ''a1'' (no_patch\<lparr>pa_status := Some ''confirmed''\<rparr>) resold_qdb
    in \<not> isl r \<and> \<not> sorted_wrt (\<lambda>a b. \<not> clash a b) (q_appointments t))"
proof
  show "sorted_wrt (\<lambda>a b. \<not> clash a b) (q_appointments resold_qdb)" by code_simp
  show "let (r, t) = updateAppointment demo_qenv ''o1'' ''a1'' (no_patch\<lparr>pa_status := Some ''confirmed''\<rparr>) resold_qdb
    in \<not> isl r \<and> \<not> sorted_wrt (\<lambda>a b. \<not> clash a b) (q_appointments t)" by code_simp
qed

section \<open>The status of an appointment\<close>

text \<open>
  The status of an appointment changes along its table only: when an update that asks for a status
  succeeds, each appointment of that identifier was found in the organisation, the new status is the
  old one or one that the table allows from it, and no other appointment changes.
\<close>

theorem status_follows_table:
  assumes "updateAppointment e org i d s = (Inr u, t)" and "pa_status d = Some st" and "st \<noteq> []"
    and "distinct (map at_id (q_appointments s))"
  shows "\<exists>a \<in> set (q_appointments s). at_id a = i \<and> at_orgId a = org \<and> u = patch_appointment d a \<and>
    at_status u = st \<and> (at_status a = st \<or> st \<in> set (patched (appointment_transitions (at_status a)) [])) \<and>
    q_appointments t = map (\<lambda>x. if at_id x = i then u else x) (q_appointments s)"
proof -
  from assms(1) obtain a where found: "find_appointment org i s = Inr a"
    by (auto simp: updateAppointment_def svc_read_def svc_lift_def svc_bind_def svc_throw_def split: sum.splits)
  then have a: "a \<in> set (q_appointments s)" "at_id a = i" "at_orgId a = org"
    using find_SomeD by (fastforce simp: find_appointment_def split: option.splits)+
  have allowed: "at_status a = st \<or> st \<in> set (patched (appointment_transitions (at_status a)) [])"
    using assms(1-3) found
    by (auto simp: updateAppointment_def svc_read_def svc_lift_def svc_bind_def svc_throw_def svc_return_def
        validateStatusTransition_def truthy_str_def split: if_splits)
  have first: "List.find (\<lambda>x. at_id x = i) (q_appointments s) = Some a"
  proof (cases "List.find (\<lambda>x. at_id x = i) (q_appointments s)")
    case None
    then show ?thesis using a by (auto simp: find_None_iff)
  next
    case (Some b)
    with find_SomeD [OF Some] a distinct_map_eq [OF assms(4)] show ?thesis by auto
  qed
  have "u = patch_appointment d a \<and> q_appointments t = update_rows (\<lambda>x. at_id x = i) (patch_appointment d) (q_appointments s)"
    using assms(1) found
    by (auto simp: updateAppointment_def svc_read_def svc_lift_def svc_bind_def svc_throw_def svc_return_def
        with_tenant_def tx_update_one_def first q_log_def svc_modify_def split: if_splits sum.splits)
  moreover have "x = a" if "x \<in> set (q_appointments s)" "at_id x = i" for x
    using distinct_map_eq [OF assms(4) that(1) a(1)] a(2) that(2) by simp
  ultimately have "u = patch_appointment d a" "q_appointments t = map (\<lambda>x. if at_id x = i then u else x) (q_appointments s)"
    by (auto simp: update_rows_def)
  then show ?thesis using a allowed assms(2) by (intro bexI [of _ a]) (simp_all add: patch_appointment_def)
qed

theorem status_follows_table_witness:
  "\<exists>u t. updateAppointment demo_qenv ''o1'' ''a1'' (no_patch\<lparr>pa_status := Some ''completed''\<rparr>)
      (demo_qdb ''UTC'' [demo_appointment ''a1'' 1709197200000 ''confirmed'']) = (Inr u, t) \<and> at_status u = ''completed''"
proof -
  let ?d = "no_patch\<lparr>pa_status := Some ''completed''\<rparr>"
  let ?a = "demo_appointment ''a1'' 1709197200000 ''confirmed''"
  have "fst (updateAppointment demo_qenv ''o1'' ''a1'' ?d (demo_qdb ''UTC'' [?a])) = Inr (patch_appointment ?d ?a)"
    by code_simp
  then obtain t where run: "updateAppointment demo_qenv ''o1'' ''a1'' ?d (demo_qdb ''UTC'' [?a]) =
      (Inr (patch_appointment ?d ?a), t)"
    by (cases "updateAppointment demo_qenv ''o1'' ''a1'' ?d (demo_qdb ''UTC'' [?a])") simp
  have "distinct (map at_id (q_appointments (demo_qdb ''UTC'' [?a])))" by (simp add: demo_qdb_def)
  from status_follows_table [OF run _ _ this, of "''completed''"] run show ?thesis
    by (intro exI conjI) (assumption, auto simp: no_patch_def)
qed

theorem empty_status_is_written:
  "map at_status (q_appointments (snd (updateAppointment demo_qenv ''o1'' ''a1''
      (no_patch\<lparr>pa_status := Some []\<rparr>) (demo_qdb ''UTC'' [demo_appointment ''a1'' 1709197200000 ''confirmed''])))) = [[]]"
  by code_simp

end
