(* ===== verification/Access.thy ===== *)
theory Access
  imports QueueSchema
begin

text \<open>
  Who may do what: the system roles and their rank, which roles an actor may give and whom it may
  manage, and the guard that every request passes, \<^verbatim>\<open>RbacGuard\<close>, with the branch of the request it
  works out, the role simulation of platform operators and the default permissions.
\<close>

section \<open>System roles\<close>

datatype system_role = Owner | Admin | Manager | Staff | Viewer

definition role_name :: "system_role \<Rightarrow> string" where
  "role_name r = (case r of Owner \<Rightarrow> ''owner'' | Admin \<Rightarrow> ''admin'' | Manager \<Rightarrow> ''manager''
     | Staff \<Rightarrow> ''staff'' | Viewer \<Rightarrow> ''viewer'')"

definition SYSTEM_ROLE_RANK :: "system_role \<Rightarrow> nat" where
  "SYSTEM_ROLE_RANK r = (case r of Owner \<Rightarrow> 5 | Admin \<Rightarrow> 4 | Manager \<Rightarrow> 3 | Staff \<Rightarrow> 2 | Viewer \<Rightarrow> 1)"

definition ORDERED_ROLES :: "system_role list" where
  "ORDERED_ROLES = [Owner, Admin, Manager, Staff, Viewer]"

definition normalizeSystemRoleName :: "string option \<Rightarrow> system_role option" where
  "normalizeSystemRoleName name =
     (let n = to_lower (js_trim (patched name [])) in List.find (\<lambda>r. role_name r = n) ORDERED_ROLES)"

definition isOwnerOrAdminSystemRole :: "string option \<Rightarrow> bool" where
  "isOwnerOrAdminSystemRole name \<longleftrightarrow> normalizeSystemRoleName name \<in> {Some Owner, Some Admin}"

definition isSupervisorSystemRole :: "string option \<Rightarrow> bool" where
  "isSupervisorSystemRole name \<longleftrightarrow> normalizeSystemRoleName name \<in> {Some Owner, Some Admin, Some Manager}"

definition roleMayUseFifoManualCall :: "string option \<Rightarrow> bool" where
  "roleMayUseFifoManualCall name = isSupervisorSystemRole name"

definition systemRoleRank :: "string option \<Rightarrow> nat" where
  "systemRoleRank name = (case normalizeSystemRoleName name of None \<Rightarrow> 0 | Some r \<Rightarrow> SYSTEM_ROLE_RANK r)"

definition actorMayAssignRoles :: "string option \<Rightarrow> bool" where
  "actorMayAssignRoles actor = (case normalizeSystemRoleName actor of
     None \<Rightarrow> False | Some r \<Rightarrow> r \<in> {Owner, Admin, Manager})"

definition canActorAssignRole :: "string option \<Rightarrow> string option \<Rightarrow> bool" where
  "canActorAssignRole actor target =
     (if \<not> actorMayAssignRoles actor then False
      else case normalizeSystemRoleName actor of None \<Rightarrow> False | Some a \<Rightarrow>
        (case normalizeSystemRoleName target of None \<Rightarrow> True | Some t \<Rightarrow> SYSTEM_ROLE_RANK t \<le> SYSTEM_ROLE_RANK a))"

definition canActorManageUserWithRole :: "string option \<Rightarrow> string option \<Rightarrow> bool" where
  "canActorManageUserWithRole actor target =
     (if \<not> actorMayAssignRoles actor then False
      else case normalizeSystemRoleName actor of None \<Rightarrow> False | Some a \<Rightarrow>
        (case normalizeSystemRoleName target of None \<Rightarrow> True | Some t \<Rightarrow>
           if a = Owner then True else SYSTEM_ROLE_RANK t < SYSTEM_ROLE_RANK a))"

definition assignableSystemRoleNames :: "string option \<Rightarrow> system_role list" where
  "assignableSystemRoleNames actor =
     (if \<not> actorMayAssignRoles actor then []
      else case normalizeSystemRoleName actor of None \<Rightarrow> []
      | Some a \<Rightarrow> filter (\<lambda>r. SYSTEM_ROLE_RANK r \<le> SYSTEM_ROLE_RANK a) ORDERED_ROLES)"

definition assignRoleForbiddenMessage :: "string option \<Rightarrow> string option \<Rightarrow> string" where
  "assignRoleForbiddenMessage actor target =
     (let a = normalizeSystemRoleName actor; t = normalizeSystemRoleName target in
      if \<not> actorMayAssignRoles actor then ''Your role cannot assign or change team member roles.''
      else if t = Some Owner \<and> a \<noteq> Some Owner then ''Only an organization owner may assign the owner role.''
      else if t = Some Admin \<and> a = Some Manager then ''Managers cannot assign the admin role.''
      else ''You cannot assign the '' @ (case t of None \<Rightarrow> ''selected'' | Some r \<Rightarrow> role_name r) @
        '' role with your current permissions.'')"

definition manageUserForbiddenMessage :: "string option \<Rightarrow> string option \<Rightarrow> string" where
  "manageUserForbiddenMessage actor target =
     (let a = normalizeSystemRoleName actor; t = normalizeSystemRoleName target in
      if \<not> actorMayAssignRoles actor then ''Your role cannot manage other team members.''
      else if t = Some Owner \<and> a \<noteq> Some Owner then ''Only an organization owner may modify an owner account.''
      else if t = Some Admin \<and> a = Some Manager then ''Managers cannot modify admin accounts.''
      else (case (a, t) of
          (Some x, Some y) \<Rightarrow> if SYSTEM_ROLE_RANK x \<le> SYSTEM_ROLE_RANK y \<and> x \<noteq> Owner
            then ''Your role ('' @ role_name x @
              '') does not have permission to manage team members with equal or higher roles.''
            else ''You cannot manage this team member with your current role.''
        | _ \<Rightarrow> ''You cannot manage this team member with your current role.''))"

definition mayReceiveDeskScopedAssignment :: "string option \<Rightarrow> bool" where
  "mayReceiveDeskScopedAssignment name \<longleftrightarrow> normalizeSystemRoleName name \<in> {Some Staff, Some Viewer}"

text \<open>Stopping a queue: with the two facts about the user, or with the name of a role.\<close>

record queue_stop_user =
  qs_isOwner :: bool
  qs_isAdmin :: bool
  qs_canStopEmptyQueue :: bool

definition canStopQueue :: "queue_stop_user + string option \<Rightarrow> int \<Rightarrow> bool" where
  "canStopQueue u waitingCount = (case u of
       Inr name \<Rightarrow> (let role = to_lower (patched name []) in
         if role = ''owner'' \<or> role = ''admin'' then True
         else if role = ''viewer'' then False
         else if role = ''manager'' \<or> role = ''staff'' then \<not> 0 < waitingCount else False)
     | Inl c \<Rightarrow> if qs_isOwner c \<or> qs_isAdmin c then True
         else if \<not> qs_canStopEmptyQueue c then False else \<not> 0 < waitingCount)"

definition queueStopRequiresForceAcknowledgement :: "queue_stop_user + string option \<Rightarrow> int \<Rightarrow> bool" where
  "queueStopRequiresForceAcknowledgement u waitingCount \<longleftrightarrow> 0 < waitingCount \<and> canStopQueue u waitingCount"

section \<open>The roles of a user\<close>

definition assignments_of :: "uuid \<Rightarrow> uuid \<Rightarrow> qdb \<Rightarrow> role_assignment list" where
  "assignments_of org u s = filter (\<lambda>x. ra_userId x = u \<and> ro_orgId (ra_role x) = org) (q_roleAssignments s)"

definition better_role :: "role_assignment \<Rightarrow> system_role option \<Rightarrow> system_role option" where
  "better_role x best = (case normalizeSystemRoleName (Some (ro_name (ra_role x))) of
       None \<Rightarrow> best
     | Some r \<Rightarrow> if (case best of None \<Rightarrow> 0 | Some b \<Rightarrow> SYSTEM_ROLE_RANK b) < SYSTEM_ROLE_RANK r then Some r else best)"

definition resolveUserHighestSystemRole :: "uuid \<Rightarrow> uuid \<Rightarrow> qdb \<Rightarrow> system_role option" where
  "resolveUserHighestSystemRole org u s =
     fold better_role (filter (\<lambda>x. ro_isSystemRole (ra_role x)) (assignments_of org u s)) None"

definition assertActorMayAssignRoleName :: "uuid \<Rightarrow> uuid \<Rightarrow> string \<Rightarrow> qdb \<Rightarrow> error + unit" where
  "assertActorMayAssignRoleName org actor target s =
     (let r = map_option role_name (resolveUserHighestSystemRole org actor s) in
      if canActorAssignRole r (Some target) then Inr ()
      else Inl (Forbidden (assignRoleForbiddenMessage r (Some target))))"

definition assertActorMayAssignRoleId :: "uuid \<Rightarrow> uuid \<Rightarrow> uuid \<Rightarrow> qdb \<Rightarrow> error + unit" where
  "assertActorMayAssignRoleId org actor i s =
     (case List.find (\<lambda>r. ro_id r = i \<and> ro_orgId r = org) (q_roles s) of
        None \<Rightarrow> Inl (Forbidden ''Role not found in this organization'')
      | Some r \<Rightarrow> assertActorMayAssignRoleName org actor (ro_name r) s)"

definition assertActorMayManageTargetUser :: "uuid \<Rightarrow> uuid \<Rightarrow> uuid \<Rightarrow> qdb \<Rightarrow> error + unit" where
  "assertActorMayManageTargetUser org actor target s =
     (let a = map_option role_name (resolveUserHighestSystemRole org actor s);
          t = map_option role_name (resolveUserHighestSystemRole org target s) in
      if canActorManageUserWithRole a t then Inr () else Inl (Forbidden (manageUserForbiddenMessage a t)))"

definition userIsOrganizationOwner :: "uuid \<Rightarrow> uuid \<Rightarrow> qdb \<Rightarrow> bool" where
  "userIsOrganizationOwner org u s =
     (case List.find (\<lambda>r. ro_orgId r = org \<and> ro_name r = ''owner'' \<and> ro_isSystemRole r) (q_roles s) of
        None \<Rightarrow> False
      | Some owner \<Rightarrow> list_ex (\<lambda>x. ra_userId x = u \<and> ro_id (ra_role x) = ro_id owner) (q_roleAssignments s))"

definition userIsOrganizationOwnerOrAdmin :: "uuid \<Rightarrow> uuid \<Rightarrow> qdb \<Rightarrow> bool" where
  "userIsOrganizationOwnerOrAdmin org u s \<longleftrightarrow>
     resolveUserHighestSystemRole org u s \<in> {Some Owner, Some Admin} \<or>
     list_ex (\<lambda>x. normalizeSystemRoleName (Some (ro_name (ra_role x))) \<in> {Some Owner, Some Admin}) (assignments_of org u s)"

definition userIsOrganizationSupervisor :: "uuid \<Rightarrow> uuid \<Rightarrow> qdb \<Rightarrow> bool" where
  "userIsOrganizationSupervisor org u s \<longleftrightarrow>
     isSupervisorSystemRole (map_option role_name (resolveUserHighestSystemRole org u s)) \<or>
     list_ex (\<lambda>x. isSupervisorSystemRole (Some (ro_name (ra_role x)))) (assignments_of org u s)"

definition userCanUseFifoManualCall :: "uuid \<Rightarrow> uuid \<Rightarrow> uuid \<Rightarrow> qdb \<Rightarrow> bool" where
  "userCanUseFifoManualCall org u branch s \<longleftrightarrow> userIsOrganizationOwnerOrAdmin org u s \<or>
     list_ex (\<lambda>x. normalizeSystemRoleName (Some (ro_name (ra_role x))) = Some Manager \<and> ra_branchId x = Some branch)
       (assignments_of org u s)"

text \<open>\<open>None\<close>: all branches. The names are compared as they are stored.\<close>

definition resolveAllowedBranchIds :: "uuid \<Rightarrow> uuid \<Rightarrow> qdb \<Rightarrow> uuid list option" where
  "resolveAllowedBranchIds org u s =
     (let as = assignments_of org u s in
      if list_ex (\<lambda>x. ra_branchId x = None \<and> ro_name (ra_role x) \<in> {''owner'', ''admin''}) as then None
      else Some (rev (remdups (rev (map (\<lambda>x. the (ra_branchId x)) (filter (\<lambda>x. truthy_str (ra_branchId x)) as))))))"

end
