(* ===== verification/Guard.thy ===== *)
theory Guard
  imports Access
begin

text \<open>
  \<^verbatim>\<open>RbacGuard\<close>: the branch a request is about, which role assignments apply to it and whether the
  permissions they carry cover what the route asks for; with the default permissions of the system
  roles and the sessions of platform operators that act as a role.
\<close>

section \<open>Default permissions\<close>

definition org_permissions :: "(string \<times> string list) list \<Rightarrow> permission_row list" where
  "org_permissions ps = concat (map (\<lambda>(r, as). map (\<lambda>a. \<lparr>pm_resource = r, pm_action = a, pm_scope = ''org''\<rparr>) as) ps)"

definition branch_permissions :: "(string \<times> string list) list \<Rightarrow> permission_row list" where
  "branch_permissions ps =
     concat (map (\<lambda>(r, as). map (\<lambda>a. \<lparr>pm_resource = r, pm_action = a, pm_scope = ''branch''\<rparr>) as) ps)"

definition owner_permissions :: "permission_row list" where
  "owner_permissions = org_permissions (map (\<lambda>r. (r, [''manage'']))
     [''organization'', ''branch'', ''service'', ''queue'', ''ticket'', ''appointment'', ''desk'', ''announcement'',
      ''user'', ''role'', ''report'', ''billing'', ''display'', ''notification'', ''settings'', ''review'',
      ''customer'', ''station_profile''])"

definition admin_permissions :: "permission_row list" where
  "admin_permissions = org_permissions
     [(''organization'', [''read'', ''update'']), (''branch'', [''read'', ''create'', ''update'']),
      (''service'', [''manage'']), (''queue'', [''manage'']), (''ticket'', [''manage'']),
      (''appointment'', [''manage'']), (''desk'', [''manage'']), (''announcement'', [''manage'']),
      (''user'', [''read'', ''create'', ''update'']), (''role'', [''read'', ''create'', ''update'']),
      (''report'', [''read'']), (''display'', [''manage'']), (''notification'', [''manage'']),
      (''settings'', [''read'', ''update'']), (''review'', [''read'', ''update'']),
      (''customer'', [''read'', ''update'']), (''station_profile'', [''manage''])]"

definition manager_permissions :: "permission_row list" where
  "manager_permissions = branch_permissions
     [(''branch'', [''read'', ''update'']), (''service'', [''read'']), (''queue'', [''manage'']),
      (''ticket'', [''manage'']), (''appointment'', [''manage'']), (''desk'', [''manage'']),
      (''announcement'', [''manage'']), (''user'', [''read'', ''update'']), (''report'', [''read'']),
      (''display'', [''manage'']), (''review'', [''read'', ''update'']), (''customer'', [''read'', ''update'']),
      (''station_profile'', [''manage''])]"

definition staff_permissions :: "permission_row list" where
  "staff_permissions = branch_permissions
     [(''branch'', [''read'']), (''service'', [''read'']), (''queue'', [''read'', ''update'']),
      (''ticket'', [''create'', ''update'', ''read'']), (''appointment'', [''read'', ''update'']),
      (''desk'', [''read'', ''update'']), (''display'', [''read'']), (''customer'', [''read'']),
      (''station_profile'', [''read''])]"

definition viewer_permissions :: "permission_row list" where
  "viewer_permissions = branch_permissions (map (\<lambda>r. (r, [''read'']))
     [''branch'', ''service'', ''queue'', ''ticket'', ''appointment'', ''desk'', ''announcement'', ''report'',
      ''review'', ''display'', ''customer'', ''station_profile''])"

definition DEFAULT_ROLE_PERMISSIONS :: "system_role \<Rightarrow> permission_row list" where
  "DEFAULT_ROLE_PERMISSIONS r = (case r of Owner \<Rightarrow> owner_permissions | Admin \<Rightarrow> admin_permissions
     | Manager \<Rightarrow> manager_permissions | Staff \<Rightarrow> staff_permissions | Viewer \<Rightarrow> viewer_permissions)"

section \<open>Who asks\<close>

record principal =
  pr_userId :: "uuid option"
  pr_orgId :: uuid
  pr_impersonation :: bool
  pr_orgSlug :: "string option"
  pr_actAsRole :: "string option"
  pr_actAsBranchId :: "uuid option"

definition isFullImpersonationBypass :: "principal \<Rightarrow> bool" where
  "isFullImpersonationBypass u \<longleftrightarrow> pr_impersonation u \<and> pr_orgSlug u = Some ''queueplatform-internal'' \<and>
     \<not> truthy_str (pr_actAsRole u)"

definition isRoleSimulationImpersonation :: "principal \<Rightarrow> bool" where
  "isRoleSimulationImpersonation u \<longleftrightarrow> pr_impersonation u \<and> pr_orgSlug u = Some ''queueplatform-internal'' \<and>
     truthy_str (pr_actAsRole u)"

definition impersonationSimulatesOwner :: "principal \<Rightarrow> bool" where
  "impersonationSimulatesOwner u \<longleftrightarrow>
     isFullImpersonationBypass u \<or> normalizeSystemRoleName (pr_actAsRole u) = Some Owner"

definition impersonationSimulatesOwnerOrAdmin :: "principal \<Rightarrow> bool" where
  "impersonationSimulatesOwnerOrAdmin u \<longleftrightarrow>
     isFullImpersonationBypass u \<or> isOwnerOrAdminSystemRole (pr_actAsRole u)"

definition branchScopedImpersonationRole :: "system_role \<Rightarrow> bool" where
  "branchScopedImpersonationRole r \<longleftrightarrow> r \<in> {Manager, Staff, Viewer}"

text \<open>What the guard uses of an assignment: its branch and its permissions.\<close>

type_synonym grant = "uuid option \<times> permission_row list"

definition buildSimulatedRoleAssignments :: "system_role \<Rightarrow> uuid option \<Rightarrow> grant list" where
  "buildSimulatedRoleAssignments r branch =
     [(if branchScopedImpersonationRole r then branch else None, DEFAULT_ROLE_PERMISSIONS r)]"

section \<open>What the request is about\<close>

text \<open>The text fields of a request, by name; what is not a text reads as nothing.\<close>

record request =
  rq_params :: "string \<Rightarrow> string option"
  rq_body :: "string \<Rightarrow> string option"
  rq_query :: "string \<Rightarrow> string option"
  rq_path :: "string option"

record required_permission =
  rp_resource :: string
  rp_action :: string

record auth_context =
  ac_branchId :: "uuid option"
  ac_resourceBranchIds :: "uuid list option"
  ac_targetUserId :: "uuid option"

fun readString :: "string option list \<Rightarrow> string option" where
  "readString [] = None"
| "readString (v # vs) = (case v of Some x \<Rightarrow> if js_trim x \<noteq> [] then Some x else readString vs
     | None \<Rightarrow> readString vs)"

definition asks_for :: "string \<Rightarrow> required_permission list \<Rightarrow> bool" where
  "asks_for res ps \<longleftrightarrow> list_ex (\<lambda>p. rp_resource p = res) ps"

definition loadUserBranchIds :: "uuid \<Rightarrow> uuid \<Rightarrow> qdb \<Rightarrow> uuid list option" where
  "loadUserBranchIds org u s =
     (if List.find (\<lambda>x. us_id x = u \<and> us_orgId x = org) (q_users s) = None then None
      else Some (rev (remdups (rev (map (\<lambda>x. the (ra_branchId x))
        (filter (\<lambda>x. truthy_str (ra_branchId x)) (assignments_of org u s)))))))"

definition loadServiceBranchIds :: "uuid \<Rightarrow> uuid \<Rightarrow> qdb \<Rightarrow> uuid list option" where
  "loadServiceBranchIds org sid s =
     (let rows = filter (\<lambda>x. bs_serviceId x = sid \<and>
        list_ex (\<lambda>b. br_id b = bs_branchId x \<and> br_orgId b = org) (q_branches s)) (q_branchServices s) in
      if rows = []
      then (if List.find (\<lambda>v. sv_id v = sid \<and> sv_orgId v = org) (q_services s) = None then None else Some [])
      else Some (map bs_branchId rows))"

definition extractTargetUserId :: "request \<Rightarrow> required_permission list \<Rightarrow> uuid \<Rightarrow> uuid option" where
  "extractTargetUserId rq ps u =
     (case readString [rq_params rq ''userId'', rq_body rq ''userId'', rq_query rq ''userId'',
        rq_body rq ''assignedUserId'', rq_query rq ''assignedUserId''] of
        Some x \<Rightarrow> Some x
      | None \<Rightarrow> if asks_for ''user'' ps \<or> rq_path rq = Some ''me''
                then Some (patched (readString [rq_params rq ''id'']) u) else None)"

text \<open>\<open>Inr\<close>: the row was found, and this is its branch; \<open>Inl ()\<close>: try the next permission.\<close>

definition branch_of_resource :: "uuid \<Rightarrow> uuid \<Rightarrow> string \<Rightarrow> qdb \<Rightarrow> unit + uuid option" where
  "branch_of_resource org i res s =
     (if res = ''branch'' then
        (case List.find (\<lambda>x. br_id x = i \<and> br_orgId x = org) (q_branches s) of
           Some x \<Rightarrow> Inr (Some (br_id x)) | None \<Rightarrow> Inl ())
      else if res = ''queue'' then
        (case List.find (\<lambda>x. qu_id x = i \<and> qu_orgId x = org) (q_queues s) of
           Some x \<Rightarrow> Inr (Some (qu_branchId x))
         | None \<Rightarrow> (case List.find (\<lambda>x. fl_id x = i \<and> fl_orgId x = org) (q_flowTemplates s) of
             Some x \<Rightarrow> Inr (Some (fl_branchId x)) | None \<Rightarrow> Inl ()))
      else if res = ''ticket'' then
        (case List.find (\<lambda>x. tk_id x = i \<and> tk_orgId x = org) (q_tickets s) of
           Some x \<Rightarrow> Inr (Some (tk_branchId x)) | None \<Rightarrow> Inl ())
      else if res = ''appointment'' then
        (case List.find (\<lambda>x. at_id x = i \<and> at_orgId x = org) (q_appointments s) of
           Some x \<Rightarrow> Inr (Some (at_branchId x)) | None \<Rightarrow> Inl ())
      else if res = ''desk'' then
        (case List.find (\<lambda>x. dk_id x = i \<and> dk_orgId x = org) (q_desks s) of
           Some x \<Rightarrow> Inr (Some (dk_branchId x)) | None \<Rightarrow> Inl ())
      else if res = ''display'' then
        (case List.find (\<lambda>x. dd_id x = i \<and> dd_orgId x = org) (q_displays s) of
           Some x \<Rightarrow> Inr (dd_branchId x) | None \<Rightarrow> Inl ())
      else if res = ''announcement'' then
        (case List.find (\<lambda>x. an_id x = i \<and> an_orgId x = org) (q_announcements s) of
           Some x \<Rightarrow> Inr (an_branchId x) | None \<Rightarrow> Inl ())
      else Inl ())"

fun resolveBranchIdFromResource :: "uuid \<Rightarrow> uuid \<Rightarrow> required_permission list \<Rightarrow> qdb \<Rightarrow> uuid option" where
  "resolveBranchIdFromResource org i [] s = None"
| "resolveBranchIdFromResource org i (p # ps) s = (case branch_of_resource org i (rp_resource p) s of
     Inr b \<Rightarrow> b | Inl _ \<Rightarrow> resolveBranchIdFromResource org i ps s)"

text \<open>A branch that the request names comes before the branch of the resource.\<close>

definition named_branch :: "request \<Rightarrow> uuid option" where
  "named_branch rq = readString [rq_params rq ''branchId'', rq_body rq ''branchId'', rq_query rq ''branchId'']"

definition resolveAuthorizationContext ::
  "request \<Rightarrow> required_permission list \<Rightarrow> uuid \<Rightarrow> uuid \<Rightarrow> qdb \<Rightarrow> auth_context" where
  "resolveAuthorizationContext rq ps org u s =
     (let i = readString [rq_params rq ''id'', rq_body rq ''id'', rq_query rq ''id''];
          services = (if truthy_str i \<and> asks_for ''service'' ps then loadServiceBranchIds org (the i) s else None);
          resources = (if truthy_str i \<and> asks_for ''user'' ps then loadUserBranchIds org (the i) s else services);
          own = (if \<not> truthy_str (named_branch rq) \<and> truthy_str i
                 then resolveBranchIdFromResource org (the i) ps s else named_branch rq);
          queue = readString [rq_body rq ''queueId'', rq_query rq ''queueId'', rq_params rq ''queueId''];
          by_queue = (if \<not> truthy_str own \<and> truthy_str queue \<and> asks_for ''ticket'' ps
            then (case List.find (\<lambda>x. qu_id x = the queue \<and> qu_orgId x = org) (q_queues s) of
                    Some x \<Rightarrow> Some (qu_branchId x) | None \<Rightarrow> own) else own);
          ticket = readString [rq_body rq ''ticketId'', rq_query rq ''ticketId''];
          by_ticket = (if \<not> truthy_str by_queue \<and> truthy_str ticket \<and> asks_for ''ticket'' ps
            then (case List.find (\<lambda>x. tk_id x = the ticket \<and> tk_orgId x = org) (q_tickets s) of
                    Some x \<Rightarrow> Some (tk_branchId x) | None \<Rightarrow> by_queue) else by_queue)
      in \<lparr>ac_branchId = by_ticket, ac_resourceBranchIds = resources,
          ac_targetUserId = extractTargetUserId rq ps u\<rparr>)"

section \<open>The decision\<close>

definition isAssignmentApplicable :: "uuid option \<Rightarrow> uuid option \<Rightarrow> uuid list option \<Rightarrow> bool" where
  "isAssignmentApplicable assigned requested resources =
     (if \<not> truthy_str assigned then True
      else if patched resources [] \<noteq> [] then the assigned \<in> set (the resources)
      else if truthy_str requested then requested = assigned
      else True)"

definition branchScopedResources :: "string list" where
  "branchScopedResources = [''branch'', ''service'', ''queue'', ''ticket'', ''appointment'', ''desk'', ''announcement'',
     ''display'', ''review'', ''customer'', ''station_profile'']"

definition isPermissionScopeSatisfied ::
  "string \<Rightarrow> auth_context \<Rightarrow> uuid \<Rightarrow> uuid option \<Rightarrow> required_permission \<Rightarrow> bool \<Rightarrow> bool" where
  "isPermissionScopeSatisfied scope c u assigned p listRead =
     (if scope = ''org'' then assigned \<noteq> None \<longrightarrow> rp_resource p \<in> set branchScopedResources
      else if scope = ''branch'' then truthy_str (ac_branchId c) \<or> patched (ac_resourceBranchIds c) [] \<noteq> [] \<or>
        (listRead \<and> rp_action p = ''read'' \<and> assigned \<noteq> None)
      else if scope = ''own'' then truthy_str (ac_targetUserId c) \<and> ac_targetUserId c = Some u
      else False)"

definition grants :: "auth_context \<Rightarrow> uuid \<Rightarrow> bool \<Rightarrow> required_permission \<Rightarrow> grant \<Rightarrow> bool" where
  "grants c u listRead p g = (case g of (assigned, perms) \<Rightarrow>
     isAssignmentApplicable assigned (ac_branchId c) (ac_resourceBranchIds c) \<and>
     list_ex (\<lambda>q. pm_resource q = rp_resource p \<and> (pm_action q = rp_action p \<or> pm_action q = ''manage'') \<and>
       isPermissionScopeSatisfied (pm_scope q) c u assigned p listRead) perms)"

definition grants_of :: "principal \<Rightarrow> uuid \<Rightarrow> qdb \<Rightarrow> error + grant list" where
  "grants_of pr u s =
     (if isRoleSimulationImpersonation pr
      then (case normalizeSystemRoleName (pr_actAsRole pr) of
          None \<Rightarrow> Inl (PlainError ''Cannot read properties of undefined'')
        | Some r \<Rightarrow> Inr (buildSimulatedRoleAssignments r (pr_actAsBranchId pr)))
      else Inr (map (\<lambda>x. (ra_branchId x, ro_permissions (ra_role x))) (assignments_of (pr_orgId pr) u s)))"

definition canActivate :: "required_permission list \<Rightarrow> bool \<Rightarrow> request \<Rightarrow> principal option \<Rightarrow> qdb \<Rightarrow> error + bool" where
  "canActivate ps listRead rq who s =
     (if ps = [] then Inr True
      else case Option.bind who (\<lambda>pr. if truthy_str (pr_userId pr) then Some (pr, the (pr_userId pr)) else None) of
        None \<Rightarrow> Inl (Forbidden ''Authentication required'')
      | Some (pr, u) \<Rightarrow>
          if isFullImpersonationBypass pr then Inr True
          else (let c = resolveAuthorizationContext rq ps (pr_orgId pr) u s in
            case grants_of pr u s of
              Inl err \<Rightarrow> Inl err
            | Inr gs \<Rightarrow>
                if list_all (\<lambda>p. list_ex (grants c u listRead p) gs) ps then Inr True
                else Inl (Forbidden ''You do not have sufficient permission for this action.'')))"

end
