(* ===== verification/AccessFacts.thy ===== *)
theory AccessFacts
  imports Guard
begin

text \<open>
  Who may do what: roles are given and users managed along the rank only, a user of a branch reaches
  what belongs to that branch only as long as the request does not name a branch itself, and a viewer
  only reads.
\<close>

section \<open>The rank of a role\<close>

lemma SYSTEM_ROLE_RANK_simps [simp]:
  "SYSTEM_ROLE_RANK Owner = 5" "SYSTEM_ROLE_RANK Admin = 4" "SYSTEM_ROLE_RANK Manager = 3"
  "SYSTEM_ROLE_RANK Staff = 2" "SYSTEM_ROLE_RANK Viewer = 1"
  by (simp_all add: SYSTEM_ROLE_RANK_def)

lemma rank_positive [simp]: "0 < SYSTEM_ROLE_RANK r"
  by (cases r) simp_all

lemma rank_supervisor: "3 \<le> SYSTEM_ROLE_RANK r \<longleftrightarrow> r \<in> {Owner, Admin, Manager}"
  by (cases r) simp_all

lemma rank_inject: "SYSTEM_ROLE_RANK r = SYSTEM_ROLE_RANK q \<longleftrightarrow> r = q"
  by (cases r; cases q) simp_all

lemma role_name_normalizes [simp]: "normalizeSystemRoleName (Some (role_name r)) = Some r"
  by (cases r) (simp_all add: role_name_def, code_simp+)

lemma may_assign_rank: "actorMayAssignRoles actor \<longleftrightarrow> 3 \<le> systemRoleRank actor"
  by (simp add: actorMayAssignRoles_def systemRoleRank_def rank_supervisor split: option.split)

text \<open>
  The rank decides: an actor may give a role exactly if it is at least a manager and the role is
  not above its own, may pick exactly those system roles from the list, and may manage exactly the
  users below it, an owner everyone.
\<close>

theorem role_hierarchy:
  "(canActorAssignRole actor target \<longleftrightarrow> 3 \<le> systemRoleRank actor \<and> systemRoleRank target \<le> systemRoleRank actor) \<and>
   (r \<in> set (assignableSystemRoleNames actor) \<longleftrightarrow> canActorAssignRole actor (Some (role_name r))) \<and>
   (canActorManageUserWithRole actor target \<longleftrightarrow> 3 \<le> systemRoleRank actor \<and>
      (systemRoleRank target < systemRoleRank actor \<or> normalizeSystemRoleName actor = Some Owner))"
  using may_assign_rank [of actor]
  by (cases "normalizeSystemRoleName actor"; cases "normalizeSystemRoleName target"; cases r)
    (simp_all add: canActorAssignRole_def canActorManageUserWithRole_def assignableSystemRoleNames_def
      ORDERED_ROLES_def systemRoleRank_def disj_commute)

section \<open>The highest role of a user\<close>

definition rank_of :: "system_role option \<Rightarrow> nat" where
  "rank_of r = (case r of None \<Rightarrow> 0 | Some r \<Rightarrow> SYSTEM_ROLE_RANK r)"

definition role_of :: "role_assignment \<Rightarrow> system_role option" where
  "role_of x = normalizeSystemRoleName (Some (ro_name (ra_role x)))"

lemma better_role_cases:
  "better_role x best = best \<or> better_role x best = role_of x"
  "rank_of best \<le> rank_of (better_role x best)" "rank_of (role_of x) \<le> rank_of (better_role x best)"
  by (auto simp: better_role_def rank_of_def role_of_def split: option.splits)

lemma fold_better_role:
  "fold better_role xs best = best \<or> fold better_role xs best \<in> role_of ` set xs"
proof (induction xs arbitrary: best)
  case (Cons y ys)
  from Cons.IH [of "better_role y best"] better_role_cases(1) [of y best] show ?case by auto
qed simp

lemma fold_better_role_grows: "rank_of best \<le> rank_of (fold better_role xs best)"
  by (induction xs arbitrary: best) (auto intro: order.trans better_role_cases(2))

lemma fold_better_role_bounds: "x \<in> set xs \<Longrightarrow> rank_of (role_of x) \<le> rank_of (fold better_role xs best)"
  by (induction xs arbitrary: best)
    (auto intro: order.trans [OF better_role_cases(3) fold_better_role_grows])

lemma highest_role:
  assumes "resolveUserHighestSystemRole org u s = Some r"
  shows "\<exists>x. x \<in> set (assignments_of org u s) \<and> ro_isSystemRole (ra_role x) \<and> role_of x = Some r"
proof -
  have "Some r \<in> role_of ` set (filter (\<lambda>x. ro_isSystemRole (ra_role x)) (assignments_of org u s))"
    using fold_better_role [of "filter (\<lambda>x. ro_isSystemRole (ra_role x)) (assignments_of org u s)" None] assms
    unfolding resolveUserHighestSystemRole_def by simp
  then show ?thesis by (elim imageE) (intro exI, auto)
qed

lemma highest_role_bounds:
  "x \<in> set (assignments_of org u s) \<Longrightarrow> ro_isSystemRole (ra_role x) \<Longrightarrow>
    rank_of (role_of x) \<le> rank_of (resolveUserHighestSystemRole org u s)"
  unfolding resolveUserHighestSystemRole_def by (rule fold_better_role_bounds) simp

text \<open>
  C19. No one gives a role above the ones they hold: when the check of an assignment passes, the actor
  has a system role of the organisation, at least manager, whose rank is at least that of the role.
\<close>

theorem no_escalation:
  assumes "assertActorMayAssignRoleName org actor target s = Inr ()"
  shows "\<exists>x \<in> set (q_roleAssignments s). ra_userId x = actor \<and> ro_orgId (ra_role x) = org \<and>
    ro_isSystemRole (ra_role x) \<and> 3 \<le> systemRoleRank (Some (ro_name (ra_role x))) \<and>
    systemRoleRank (Some target) \<le> systemRoleRank (Some (ro_name (ra_role x)))"
proof -
  let ?r = "resolveUserHighestSystemRole org actor s"
  from assms have may: "canActorAssignRole (map_option role_name ?r) (Some target)"
    by (auto simp: assertActorMayAssignRoleName_def Let_def split: if_splits)
  then obtain r where r: "?r = Some r"
    by (cases ?r) (auto simp: canActorAssignRole_def actorMayAssignRoles_def normalizeSystemRoleName_def patched_def
        ORDERED_ROLES_def role_name_def js_trim_def to_lower_def)
  with highest_role [of org actor s r] obtain x where x: "x \<in> set (assignments_of org actor s)"
    "ro_isSystemRole (ra_role x)" "role_of x = Some r" by blast
  then have rank: "systemRoleRank (Some (ro_name (ra_role x))) = SYSTEM_ROLE_RANK r"
    by (simp add: role_of_def systemRoleRank_def)
  have "3 \<le> SYSTEM_ROLE_RANK r \<and> systemRoleRank (Some target) \<le> SYSTEM_ROLE_RANK r"
    using may r rank_supervisor [of r]
    by (auto simp: canActorAssignRole_def actorMayAssignRoles_def systemRoleRank_def split: option.splits)
  with x rank show ?thesis by (auto simp: assignments_of_def)
qed

section \<open>The guard\<close>

lemma guard_grants:
  assumes "canActivate ps listRead rq (Some pr) s = Inr True" and "pr_userId pr = Some u" and "u \<noteq> []"
    and "\<not> pr_impersonation pr" and "p \<in> set ps"
  shows "\<exists>x. x \<in> set (assignments_of (pr_orgId pr) u s) \<and>
    grants (resolveAuthorizationContext rq ps (pr_orgId pr) u s) u listRead p (ra_branchId x, ro_permissions (ra_role x))"
proof -
  have "grants_of pr u s = Inr (map (\<lambda>x. (ra_branchId x, ro_permissions (ra_role x))) (assignments_of (pr_orgId pr) u s))"
    using assms(4) by (simp add: grants_of_def isRoleSimulationImpersonation_def)
  with assms show ?thesis
    by (auto simp: canActivate_def isFullImpersonationBypass_def truthy_str_def Let_def list_all_iff list_ex_iff
        split: if_splits)
qed


text \<open>
  A viewer only reads: a user all of whose assignments carry the default permissions of viewers
  passes the guard only where every permission the route asks for is to read.
\<close>

theorem viewers_only_read:
  assumes "canActivate ps listRead rq (Some pr) s = Inr True" and "pr_userId pr = Some u" and "u \<noteq> []"
    and "\<not> pr_impersonation pr"
    and "list_all (\<lambda>x. ro_permissions (ra_role x) = DEFAULT_ROLE_PERMISSIONS Viewer) (assignments_of (pr_orgId pr) u s)"
  shows "list_all (\<lambda>p. rp_action p = ''read'') ps"
proof -
  have "rp_action p = ''read''" if "p \<in> set ps" for p
  proof -
    from guard_grants [OF assms(1-4) that] assms(5) obtain q where "q \<in> set (DEFAULT_ROLE_PERMISSIONS Viewer)"
      "pm_action q = rp_action p \<or> pm_action q = ''manage''" by (auto simp: grants_def list_ex_iff list_all_iff)
    moreover have "list_all (\<lambda>q. pm_action q = ''read'') (DEFAULT_ROLE_PERMISSIONS Viewer)" by code_simp
    ultimately show ?thesis by (auto simp: list_all_iff)
  qed
  then show ?thesis by (simp add: list_all_iff)
qed

section \<open>A small organisation\<close>

definition demo_role :: "system_role \<Rightarrow> role_row" where
  "demo_role r = \<lparr>ro_id = role_name r, ro_orgId = ''o1'', ro_name = role_name r, ro_isSystemRole = True,
     ro_permissions = DEFAULT_ROLE_PERMISSIONS r\<rparr>"

definition demo_ticket :: "uuid \<Rightarrow> uuid \<Rightarrow> queue_ticket" where
  "demo_ticket i branch = \<lparr>tk_id = i, tk_orgId = ''o1'', tk_visitId = None, tk_queueId = ''q1'', tk_branchId = branch,
     tk_serviceId = ''s1'', tk_displayNumber = ''A001'', tk_customerId = None, tk_customerName = None,
     tk_customerPhone = None, tk_customerEmail = None, tk_smsAllowed = False, tk_status = ''waiting'', tk_priority = 0, tk_position = None,
     tk_deskNumber = None, tk_servedByUserId = None, tk_source = ''kiosk'', tk_language = None,
     tk_bookedAt = 1709200000000, tk_calledAt = None, tk_servedAt = None, tk_completedAt = None, tk_readyAt = None,
     tk_flowTemplateId = None, tk_stepIndex = None, tk_note = None, tk_externalRef = None, tk_waitMinutes = None, tk_serviceMinutes = None,
     tk_legalHold = False, tk_flags = []\<rparr>"

definition staffed :: "(uuid \<times> system_role \<times> uuid option) list \<Rightarrow> qdb" where
  "staffed us = empty_qdb\<lparr>q_roles := map demo_role ORDERED_ROLES,
     q_roleAssignments := map (\<lambda>(u, r, b). \<lparr>ra_userId = u, ra_branchId = b, ra_role = demo_role r\<rparr>) us,
     q_tickets := [demo_ticket ''t1'' ''b1'', demo_ticket ''t2'' ''b2'']\<rparr>"

definition demo_principal :: "uuid \<Rightarrow> principal" where
  "demo_principal u = \<lparr>pr_userId = Some u, pr_orgId = ''o1'', pr_impersonation = False, pr_orgSlug = Some ''shop'',
     pr_actAsRole = None, pr_actAsBranchId = None\<rparr>"

definition about_ticket :: "uuid \<Rightarrow> uuid option \<Rightarrow> request" where
  "about_ticket i branch = \<lparr>rq_params = [''id'' \<mapsto> i], rq_body = (\<lambda>_. None),
     rq_query = (\<lambda>k. if k = ''branchId'' then branch else None), rq_path = None\<rparr>"

definition may_ticket :: "string \<Rightarrow> required_permission list" where
  "may_ticket a = [\<lparr>rp_resource = ''ticket'', rp_action = a\<rparr>]"

theorem no_escalation_witness:
  "assertActorMayAssignRoleName ''o1'' ''u1'' ''manager'' (staffed [(''u1'', Staff, Some ''b1''), (''u1'', Admin, None)]) = Inr () \<and>
   (\<exists>x \<in> set (q_roleAssignments (staffed [(''u1'', Staff, Some ''b1''), (''u1'', Admin, None)])).
     3 \<le> systemRoleRank (Some (ro_name (ra_role x))))"
proof -
  have run: "assertActorMayAssignRoleName ''o1'' ''u1'' ''manager''
    (staffed [(''u1'', Staff, Some ''b1''), (''u1'', Admin, None)]) = Inr ()" by code_simp
  with no_escalation [OF run] show ?thesis by blast
qed


theorem viewers_only_read_witness:
  "canActivate (may_ticket ''read'') False (about_ticket ''t1'' None) (Some (demo_principal ''u1''))
     (staffed [(''u1'', Viewer, Some ''b1'')]) = Inr True \<and> list_all (\<lambda>p. rp_action p = ''read'') (may_ticket ''read'')"
proof -
  let ?s = "staffed [(''u1'', Viewer, Some ''b1'')]"
  have run: "canActivate (may_ticket ''read'') False (about_ticket ''t1'' None) (Some (demo_principal ''u1'')) ?s = Inr True"
    by code_simp
  have user: "pr_userId (demo_principal ''u1'') = Some ''u1''" "\<not> pr_impersonation (demo_principal ''u1'')"
    by (simp_all add: demo_principal_def)
  have "list_all (\<lambda>x. ro_permissions (ra_role x) = DEFAULT_ROLE_PERMISSIONS Viewer)
      (assignments_of (pr_orgId (demo_principal ''u1'')) ''u1'' ?s)"
    by (simp add: assignments_of_def staffed_def demo_principal_def demo_role_def list_all_iff)
  from viewers_only_read [OF run user(1) _ user(2) this] run show ?thesis by simp
qed

text \<open>
  A branch that the request names is believed: a manager of one branch may not update the ticket of
  another, but may when the request adds the identifier of the own branch.
\<close>

theorem named_branch_is_believed:
  "canActivate (may_ticket ''update'') False (about_ticket ''t2'' None) (Some (demo_principal ''u1''))
     (staffed [(''u1'', Manager, Some ''b1'')]) =
     Inl (Forbidden ''You do not have sufficient permission for this action.'') \<and>
   canActivate (may_ticket ''update'') False (about_ticket ''t2'' (Some ''b1'')) (Some (demo_principal ''u1''))
     (staffed [(''u1'', Manager, Some ''b1'')]) = Inr True"
  by (intro conjI) code_simp+

end
