(* ===== verification/Tickets.thy ===== *)
theory Tickets
  imports BranchHours Access "HOL-Library.Char_ord" "HOL-Library.List_Lexorder" "HOL-Library.Product_Lexorder"
begin

text \<open>
  What all ticket services share: calling policies and display numbers (\<^verbatim>\<open>TicketQueueContextService\<close>),
  the guards of staff actions (\<^verbatim>\<open>TicketStaffGuardService\<close>, \<^verbatim>\<open>TicketActionSurfaceService\<close>), the flags in
  the metadata of a ticket, and the change of status (\<^verbatim>\<open>TicketTransitionService\<close>).
\<close>

section \<open>Calling policies\<close>

definition normalizeCallingPolicyValue :: "string option \<Rightarrow> string" where
  "normalizeCallingPolicyValue p =
     (if p \<in> {Some ''manual_only'', Some ''ready_then_manual'', Some ''ready_then_fifo''} then the p else ''fifo'')"

definition resolveCallingPolicyForStep :: "string option \<Rightarrow> string option \<Rightarrow> string" where
  "resolveCallingPolicyForStep role p =
     (let policy = normalizeCallingPolicyValue p in
      if role = Some ''pickup'' \<and> (policy = ''fifo'' \<or> policy = ''manual_only'') then ''ready_then_manual''
      else policy)"

definition isFlowEligibleQueue :: "string option \<Rightarrow> bool" where
  "isFlowEligibleQueue m \<longleftrightarrow> m = Some ''visit_multi_step''"

definition queueUsesManualRowCall :: "string option \<Rightarrow> bool" where
  "queueUsesManualRowCall p \<longleftrightarrow>
     normalizeCallingPolicyValue p = ''manual_only'' \<or> normalizeCallingPolicyValue p = ''ready_then_manual''"

definition canManuallyCallWaitingTicket :: "string option \<Rightarrow> time option \<Rightarrow> bool" where
  "canManuallyCallWaitingTicket p readyAt =
     (let n = normalizeCallingPolicyValue p in
      if \<not> queueUsesManualRowCall (Some n) then False
      else if n = ''ready_then_manual'' \<and> readyAt = None then False else True)"

definition isReadyGatedPolicy :: "string option \<Rightarrow> bool" where
  "isReadyGatedPolicy p \<longleftrightarrow> normalizeCallingPolicyValue p \<in> {''ready_then_manual'', ''ready_then_fifo''}"

definition journeyStepAcceptsExternalRef :: "int option \<Rightarrow> string option \<Rightarrow> bool" where
  "journeyStepAcceptsExternalRef i role \<longleftrightarrow> role \<in> {Some ''service'', Some ''pickup''} \<or>
     (case i of Some n \<Rightarrow> 1 \<le> n | None \<Rightarrow> False)"

section \<open>The queue of a ticket\<close>

definition find_queue :: "uuid \<Rightarrow> uuid \<Rightarrow> qdb \<Rightarrow> queue_row option" where
  "find_queue org i s = List.find (\<lambda>q. qu_id q = i \<and> qu_orgId q = org) (q_queues s)"

definition find_ticket :: "uuid \<Rightarrow> uuid \<Rightarrow> qdb \<Rightarrow> queue_ticket option" where
  "find_ticket org i s = List.find (\<lambda>t. tk_id t = i \<and> tk_orgId t = org) (q_tickets s)"

definition getQueueSessionFallbackHours :: "qenv \<Rightarrow> int" where
  "getQueueSessionFallbackHours e = min 72 (max 24 (qe_sessionHours e))"

definition formatDisplayNumber :: "string \<Rightarrow> int \<Rightarrow> string" where
  "formatDisplayNumber prefix seq = prefix @ pad_start 3 seq"

definition normalizeJourneyMode :: "string option \<Rightarrow> string" where
  "normalizeJourneyMode m = (if m = Some ''visit_multi_step'' then ''visit_multi_step'' else ''single_ticket'')"

definition assertTicketInLiveQueue :: "time \<Rightarrow> time \<Rightarrow> error + unit" where
  "assertTicketInLiveQueue booked floor1 =
     (if booked < floor1
      then Inl (BadRequest (''This ticket is from a prior queue session and is no longer in today'' @
        [char_of (39 :: nat)] @ ''s waiting line.''))
      else Inr ())"

definition isVisitJourneysEnabledForOrg :: "qenv \<Rightarrow> uuid \<Rightarrow> qdb \<Rightarrow> bool" where
  "isVisitJourneysEnabledForOrg e org s =
     (if qe_journeysDisabled e then False else if qe_journeysLegacyOn e then True
      else case List.find (\<lambda>g. og_id g = org) (q_orgs s) of None \<Rightarrow> False | Some g \<Rightarrow> og_visitJourneysEnabled g)"

definition resolveEffectiveJourneyMode :: "uuid \<Rightarrow> uuid \<Rightarrow> uuid \<Rightarrow> uuid option \<Rightarrow> qdb \<Rightarrow> string" where
  "resolveEffectiveJourneyMode org branch sid queue s =
     (let q = Option.bind (Option.bind queue (\<lambda>i. if i = [] then None else find_queue org i s)) qu_journeyModeOverride;
          bs = Option.bind (List.find (\<lambda>b. bs_branchId b = branch \<and> bs_serviceId b = sid) (q_branchServices s))
            bs_journeyModeOverride;
          v = Option.bind (List.find (\<lambda>v. sv_id v = sid \<and> sv_orgId v = org) (q_services s)) sv_journeyModeOverride
      in if truthy_str q then normalizeJourneyMode q
         else if truthy_str bs then normalizeJourneyMode bs
         else if truthy_str v then normalizeJourneyMode v
         else normalizeJourneyMode (map_option br_defaultJourneyMode
           (List.find (\<lambda>b. br_id b = branch \<and> br_orgId b = org) (q_branches s))))"

definition resolveQueueCallingPolicy :: "uuid \<Rightarrow> uuid \<Rightarrow> qdb \<Rightarrow> string" where
  "resolveQueueCallingPolicy org queue s = (case find_queue org queue s of
       None \<Rightarrow> ''fifo''
     | Some q \<Rightarrow>
         (case (if truthy_str (qu_flowTemplateId q)
                then List.find (\<lambda>f. fs_orgId f = org \<and> fs_templateId f = the (qu_flowTemplateId q) \<and>
                  fs_queueId f = Some queue) (q_flowSteps s) else None) of
            Some f \<Rightarrow> resolveCallingPolicyForStep (Some (fs_stepRole f)) (Some (fs_callingPolicy f))
          | None \<Rightarrow> resolveCallingPolicyForStep (qu_stepRole q) (Some (qu_callingPolicy q))))"

text \<open>
  The next display number of a queue. A session ends at its time; a number then starts over at one.
  The row lock makes concurrent reservations wait for each other.
\<close>

definition session_expired :: "qenv \<Rightarrow> queue_row \<Rightarrow> bool" where
  "session_expired e q \<longleftrightarrow>
     (case qu_sessionClosesAt q of None \<Rightarrow> True | Some t \<Rightarrow> t \<le> qe_now e) \<or> qu_nextTicketSeq q < 1"

definition advance_sequence :: "qenv \<Rightarrow> queue_row \<Rightarrow> queue_row" where
  "advance_sequence e q = (if session_expired e q
     then q\<lparr>qu_nextTicketSeq := 2, qu_sessionOpenedAt := Some (qe_now e),
            qu_sessionClosesAt := Some (qe_now e + getQueueSessionFallbackHours e * 60 * 60 * 1000)\<rparr>
     else q\<lparr>qu_nextTicketSeq := qu_nextTicketSeq q + 1\<rparr>)"

definition not_open_message :: "string \<Rightarrow> string" where
  "not_open_message st = (if st = ''closed'' then ''Queue is closed. Reopen the queue before issuing tickets.''
     else ''Queue is not open (status: '' @ st @ '')'')"

definition reserveQueueDisplayNumber :: "qenv \<Rightarrow> uuid \<Rightarrow> uuid \<Rightarrow> bool \<Rightarrow> (string \<times> string) qtx" where
  "reserveQueueDisplayNumber e org queue enforce = tx_read (\<lambda>s. case find_queue org queue s of
       None \<Rightarrow> tx_throw (NotFound ''Queue not found'')
     | Some q \<Rightarrow>
         if enforce \<and> qu_status q \<noteq> ''open'' then tx_throw (BadRequest (not_open_message (qu_status q)))
         else tx_bind (tx_update_one q_queues q_queues_update (\<lambda>x. qu_id x = queue) (advance_sequence e)) (\<lambda>_.
           tx_return (qu_status q, formatDisplayNumber (qu_prefix q)
             (if session_expired e q then 1 else qu_nextTicketSeq q))))"

section \<open>The start of the day at a branch\<close>

text \<open>A read that may fill the cache.\<close>

definition svc_get :: "(qdb \<Rightarrow> 'a \<times> qdb) \<Rightarrow> 'a qsvc" where
  "svc_get g = (\<lambda>s. case g s of (a, t) \<Rightarrow> (Inr a, t))"

definition tx_get :: "(qdb \<Rightarrow> 'a \<times> qdb) \<Rightarrow> 'a qtx" where
  "tx_get g = (\<lambda>s. Inr (g s))"

definition normalizeOrgIanaZone :: "qenv \<Rightarrow> string option \<Rightarrow> string" where
  "normalizeOrgIanaZone e raw =
     (let t = js_trim (patched raw ''UTC''); candidate = (if t = [] then ''UTC'' else t) in
      if qe_luxonValid e candidate then candidate else ''UTC'')"

definition through_cache :: "qenv \<Rightarrow> string \<Rightarrow> (qdb \<Rightarrow> string \<times> qdb) \<Rightarrow> qdb \<Rightarrow> string \<times> qdb" where
  "through_cache e key load s = (case q_cache_get (qe_now e) key s of
       Some z \<Rightarrow> if z \<noteq> [] then (z, s) else (let (z, t) = load s in (z, if z \<noteq> [] then q_cache_set (qe_now e) key z 600 t else t))
     | None \<Rightarrow> (let (z, t) = load s in (z, if z \<noteq> [] then q_cache_set (qe_now e) key z 600 t else t)))"

definition resolveOrgIanaZone :: "qenv \<Rightarrow> uuid \<Rightarrow> qdb \<Rightarrow> string \<times> qdb" where
  "resolveOrgIanaZone e org = through_cache e (''org:timezone:'' @ org) (\<lambda>s.
     (normalizeOrgIanaZone e (Option.bind (List.find (\<lambda>g. og_id g = org) (q_orgs s)) og_timezone), s))"

definition resolveBranchIanaZone :: "qenv \<Rightarrow> uuid \<Rightarrow> uuid \<Rightarrow> qdb \<Rightarrow> string \<times> qdb" where
  "resolveBranchIanaZone e org branch = through_cache e (''branch:timezone:'' @ branch) (\<lambda>s.
     case List.find (\<lambda>b. br_id b = branch \<and> br_orgId b = org) (q_branches s) of
       Some b \<Rightarrow> if js_trim (br_timezone b) \<noteq> [] then (normalizeOrgIanaZone e (Some (br_timezone b)), s)
                 else resolveOrgIanaZone e org s
     | None \<Rightarrow> resolveOrgIanaZone e org s)"

definition resolveEffectiveIanaZone ::
  "qenv \<Rightarrow> uuid \<Rightarrow> uuid option \<Rightarrow> uuid option \<Rightarrow> qdb \<Rightarrow> string \<times> qdb" where
  "resolveEffectiveIanaZone e org branch queue s =
     (let b = js_trim (patched branch []); q = js_trim (patched queue []);
          found = (if b \<noteq> [] then Some b else if q \<noteq> [] then map_option qu_branchId (find_queue org q s) else None)
      in if truthy_str found then resolveBranchIanaZone e org (the found) s else resolveOrgIanaZone e org s)"

definition liveQueueBookedAtFloor :: "qenv \<Rightarrow> uuid \<Rightarrow> uuid \<Rightarrow> qdb \<Rightarrow> time \<times> qdb" where
  "liveQueueBookedAtFloor e org queue s = (let (z, t) = resolveEffectiveIanaZone e org None (Some queue) s in
     (qe_startOfDay e (normalizeOrgIanaZone e (Some z)), t))"

section \<open>Guards of staff actions\<close>

datatype operational_gate = CustomerIntake | QueueStatusOnly

definition assertStaffQueueActionAllowed ::
  "qenv \<Rightarrow> uuid \<Rightarrow> uuid \<Rightarrow> uuid \<Rightarrow> string \<Rightarrow> operational_gate \<Rightarrow> qdb \<Rightarrow> error + unit" where
  "assertStaffQueueActionAllowed e org queue branch label gate s = (case find_queue org queue s of
       None \<Rightarrow> Inl (NotFound ''Queue not found'')
     | Some q \<Rightarrow>
         if qu_branchId q \<noteq> branch then Inl (BadRequest ''Queue does not belong to the specified branch'')
         else if qu_status q = ''closed''
         then Inl (BadRequest (''Queue is closed. Reopen the queue before '' @ label @ ''.''))
         else if gate = CustomerIntake then assertBranchAcceptsCustomerIntake e org branch label (qe_now e) s
         else Inr ())"

definition assertQueueNotClosedForStaffActions :: "qenv \<Rightarrow> uuid \<Rightarrow> uuid \<Rightarrow> string \<Rightarrow> qdb \<Rightarrow> error + unit" where
  "assertQueueNotClosedForStaffActions e org queue label s = (case find_queue org queue s of
       None \<Rightarrow> Inl (NotFound ''Queue not found'')
     | Some q \<Rightarrow> assertStaffQueueActionAllowed e org queue (qu_branchId q) label QueueStatusOnly s)"

definition listAssignedDeskNumbersInBranch :: "uuid \<Rightarrow> uuid \<Rightarrow> uuid \<Rightarrow> qdb \<Rightarrow> string list" where
  "listAssignedDeskNumbersInBranch org u branch s = sort (map dk_number (filter (\<lambda>d. dk_orgId d = org \<and>
     dk_branchId d = branch \<and> u \<in> set (dk_assignedUsers d)) (q_desks s)))"

fun desk_labels :: "string list \<Rightarrow> string" where
  "desk_labels [] = []"
| "desk_labels [n] = ''Desk '' @ n"
| "desk_labels (n # ns) = ''Desk '' @ n @ '', '' @ desk_labels ns"

definition assertClassicDeskAssignmentForBranch ::
  "uuid \<Rightarrow> uuid \<Rightarrow> uuid \<Rightarrow> string option \<Rightarrow> qdb \<Rightarrow> error + unit" where
  "assertClassicDeskAssignmentForBranch org u branch required s =
     (if userIsOrganizationSupervisor org u s then Inr ()
      else (let assigned = listAssignedDeskNumbersInBranch org u branch s; desk = js_trim (patched required []) in
        if assigned = [] then Inl (Forbidden ''You do not have any desk assignments in this branch. Ask a manager to assign at least one desk before serving customers here.'')
        else if desk = [] \<or> desk \<in> set assigned then Inr ()
        else Inl (Forbidden (''You are not assigned to Desk '' @ desk @ ''. Your assigned desk(s): '' @
          desk_labels assigned @ ''.''))))"

datatype action_surface = Classic | Workbench

definition isQueueJourneyManaged :: "uuid \<Rightarrow> uuid \<Rightarrow> qdb \<Rightarrow> bool" where
  "isQueueJourneyManaged org queue s = (case find_queue org queue s of
       None \<Rightarrow> False
     | Some q \<Rightarrow> qu_journeyModeOverride q = Some ''visit_multi_step'' \<or> truthy_str (qu_flowTemplateId q))"

definition isTicketJourneyManaged :: "uuid \<Rightarrow> uuid \<Rightarrow> qdb \<Rightarrow> error + bool" where
  "isTicketJourneyManaged org i s = (case find_ticket org i s of
       None \<Rightarrow> Inl (NotFound ''Ticket not found'')
     | Some t \<Rightarrow> Inr (truthy_str (tk_visitId t) \<or> isQueueJourneyManaged org (tk_queueId t) s))"

definition assertActionSurfaceForQueue :: "qenv \<Rightarrow> uuid \<Rightarrow> uuid \<Rightarrow> action_surface \<Rightarrow> qdb \<Rightarrow> error + unit" where
  "assertActionSurfaceForQueue e org queue surface s =
     (let managed = isQueueJourneyManaged org queue s in
      if surface = Classic \<and> managed \<and> qe_writeBlock e
      then Inl (BadRequest ''This queue is a multi-step journey service. Please switch to the Multi-Step Workbench to serve.'')
      else if surface = Workbench \<and> \<not> managed \<and> qe_writeBlock e
      then Inl (BadRequest ''This queue is a single-step ticket service. Please switch to the Single-Step Console to serve.'')
      else Inr ())"

definition assertActionSurfaceForTicket :: "qenv \<Rightarrow> uuid \<Rightarrow> uuid \<Rightarrow> action_surface \<Rightarrow> qdb \<Rightarrow> error + unit" where
  "assertActionSurfaceForTicket e org i surface s = err_bind (isTicketJourneyManaged org i s) (\<lambda>managed.
      if surface = Classic \<and> managed \<and> qe_writeBlock e
      then Inl (BadRequest ''This ticket belongs to a multi-step journey. Use Journey workbench actions.'')
      else if surface = Workbench \<and> \<not> managed \<and> qe_writeBlock e
      then Inl (BadRequest ''This ticket is single-step. Use classic Agent actions.'')
      else Inr ())"

section \<open>Flags in the metadata of a ticket\<close>

definition METADATA_RESUMMON_SMS_ON_SERVE :: string where
  "METADATA_RESUMMON_SMS_ON_SERVE = ''resummonSmsOnServe''"

definition mergeTicketMetadata :: "string list \<Rightarrow> string \<Rightarrow> string list" where
  "mergeTicketMetadata flags k = (if k \<in> set flags then flags else flags @ [k])"

definition ticketMetadataFlag :: "string list \<Rightarrow> string \<Rightarrow> bool" where
  "ticketMetadataFlag flags k \<longleftrightarrow> k \<in> set flags"

definition clearTicketMetadataFlag :: "string list \<Rightarrow> string \<Rightarrow> string list" where
  "clearTicketMetadataFlag flags k = filter (\<lambda>x. x \<noteq> k) flags"

section \<open>Messages\<close>

definition canSendTransactionalSms :: "queue_ticket \<Rightarrow> bool" where
  "canSendTransactionalSms t \<longleftrightarrow> truthy_str (tk_customerPhone t) \<and> tk_smsAllowed t"

definition emitTicketCalledNotification :: "uuid \<Rightarrow> queue_ticket \<Rightarrow> string option \<Rightarrow> unit qsvc" where
  "emitTicketCalledNotification org t desk =
     (if \<not> canSendTransactionalSms t then svc_return ()
      else (let d = (if tk_deskNumber t \<noteq> None then tk_deskNumber t else desk) in
        q_log (SmsCalled org (tk_id t) (if truthy_str d then d else None))))"

text \<open>The three channels of a ticket, and what follows from every change of its status.\<close>

definition publish_ticket :: "uuid \<Rightarrow> uuid \<Rightarrow> uuid \<Rightarrow> string \<Rightarrow> uuid \<Rightarrow> unit qsvc" where
  "publish_ticket queue branch org ev i =
     q_log (Publish [''queue:'' @ queue, ''display:'' @ branch, ''org:'' @ org] (''ticket.'' @ ev) i)"

definition ticket_public_key :: "uuid \<Rightarrow> string" where
  "ticket_public_key i = ''cache:ticket-public:'' @ i"

section \<open>The status of a ticket\<close>

text \<open>What a change of status writes besides the status: only the columns that are given.\<close>

record ticket_patch =
  tp_calledAt :: "time option"
  tp_servedAt :: "time option option"
  tp_servedByUserId :: "uuid option option"
  tp_completedAt :: "time option"
  tp_flags :: "string list option"
  tp_deskNumber :: "string option"
  tp_externalRef :: "string option"

definition empty_patch :: ticket_patch where
  "empty_patch = \<lparr>tp_calledAt = None, tp_servedAt = None, tp_servedByUserId = None, tp_completedAt = None,
     tp_flags = None, tp_deskNumber = None, tp_externalRef = None\<rparr>"

definition some_or :: "'a option \<Rightarrow> 'a option \<Rightarrow> 'a option" where
  "some_or v old = (case v of None \<Rightarrow> old | Some x \<Rightarrow> Some x)"

definition apply_patch :: "ticket_patch \<Rightarrow> queue_ticket \<Rightarrow> queue_ticket" where
  "apply_patch p t = t\<lparr>tk_calledAt := some_or (tp_calledAt p) (tk_calledAt t),
     tk_servedAt := patched (tp_servedAt p) (tk_servedAt t),
     tk_servedByUserId := patched (tp_servedByUserId p) (tk_servedByUserId t),
     tk_completedAt := some_or (tp_completedAt p) (tk_completedAt t),
     tk_flags := patched (tp_flags p) (tk_flags t),
     tk_deskNumber := some_or (tp_deskNumber p) (tk_deskNumber t),
     tk_externalRef := some_or (tp_externalRef p) (tk_externalRef t)\<rparr>"

definition branchHoursGateForTransition :: "string \<Rightarrow> string \<Rightarrow> operational_gate" where
  "branchHoursGateForTransition from1 to1 = (if to1 = ''called'' then CustomerIntake
     else if to1 = ''serving'' \<and> from1 = ''waiting'' then CustomerIntake else QueueStatusOnly)"

text \<open>\<open>Math.round(Math.max(0, ms / 60000))\<close>.\<close>

definition minutes_between :: "time \<Rightarrow> time \<Rightarrow> int" where
  "minutes_between from1 to1 = (max 0 (to1 - from1) + 30000) div 60000"

definition effective_served :: "qenv \<Rightarrow> ticket_patch \<Rightarrow> queue_ticket \<Rightarrow> time" where
  "effective_served e p t = (case tp_servedAt p of
       Some (Some x) \<Rightarrow> x
     | _ \<Rightarrow> (case tk_servedAt t of Some x \<Rightarrow> x | None \<Rightarrow> patched (tk_calledAt t) (qe_now e)))"

definition change_status :: "qenv \<Rightarrow> string \<Rightarrow> ticket_patch \<Rightarrow> queue_ticket \<Rightarrow> queue_ticket" where
  "change_status e to1 p t =
     (let u = apply_patch p (t\<lparr>tk_status := to1,
            tk_position := (if tk_status t = ''waiting'' \<and> to1 \<noteq> ''waiting'' then None else tk_position t)\<rparr>);
          served = effective_served e p t in
      if to1 = ''completed'' \<or> to1 = ''no_show''
      then u\<lparr>tk_waitMinutes := Some (minutes_between (tk_bookedAt t) served),
             tk_serviceMinutes := Some (minutes_between served (qe_now e))\<rparr>
      else u)"

fun joined_or :: "string list \<Rightarrow> string" where
  "joined_or [] = []"
| "joined_or [x] = x"
| "joined_or (x # xs) = x @ '' or '' @ joined_or xs"

definition transitionTicketCore ::
  "qenv \<Rightarrow> uuid \<Rightarrow> uuid \<Rightarrow> string list \<Rightarrow> string \<Rightarrow> ticket_patch \<Rightarrow> queue_ticket qtx" where
  "transitionTicketCore e org i allowed to1 p = tx_read (\<lambda>s. case find_ticket org i s of
       None \<Rightarrow> tx_throw (NotFound ''Ticket not found'')
     | Some t \<Rightarrow>
         tx_bind (tx_lift (assertStaffQueueActionAllowed e org (tk_queueId t) (tk_branchId t)
           (''marking tickets as '' @ to1) (branchHoursGateForTransition (tk_status t) to1) s)) (\<lambda>_.
         if tk_status t \<notin> set allowed
         then tx_throw (BadRequest (''Ticket is in '' @ tk_status t @ '' state, expected '' @ joined_or allowed))
         else tx_update_one q_tickets q_tickets_update (\<lambda>x. tk_id x = i) (change_status e to1 p)))"

definition emitTransitionSideEffects :: "uuid \<Rightarrow> queue_ticket \<Rightarrow> uuid \<Rightarrow> string \<Rightarrow> unit qsvc" where
  "emitTransitionSideEffects org t i to1 =
     svc_bind (publish_ticket (tk_queueId t) (tk_branchId t) (tk_orgId t) to1 i) (\<lambda>_.
     svc_bind (q_log (InvalidateStats org (tk_branchId t) [tk_queueId t])) (\<lambda>_.
     svc_bind (q_log (DropCache (ticket_public_key i))) (\<lambda>_.
     q_log (RefreshVisit (tk_orgId t) (tk_visitId t)))))"

definition transitionTicket ::
  "qenv \<Rightarrow> uuid \<Rightarrow> uuid \<Rightarrow> string list \<Rightarrow> string \<Rightarrow> ticket_patch \<Rightarrow> queue_ticket qsvc" where
  "transitionTicket e org i allowed to1 p =
     svc_bind (with_tenant (transitionTicketCore e org i allowed to1 p)) (\<lambda>t.
     svc_bind (emitTransitionSideEffects org t i to1) (\<lambda>_.
     svc_bind (if to1 = ''completed''
         then q_log (EvTicketCompleted org i (tk_customerId t) (tk_branchId t) (tk_serviceId t)) else svc_return ()) (\<lambda>_.
     svc_bind (if to1 = ''no_show''
         then q_log (EvTicketNoShow org i (tk_customerId t) (tk_branchId t)) else svc_return ()) (\<lambda>_.
     svc_return t))))"

end
