(* ===== verification/Journeys.thy ===== *)
theory Journeys
  imports Tickets
begin

text \<open>
  Visits with several steps: \<^verbatim>\<open>TicketJourneyFlowService\<close> finds the step after a ticket and the queue
  of a step, repairing links to queues that are gone, and carries the transaction number of a visit;
  \<^verbatim>\<open>TicketTransitionService.refreshVisitStatus\<close> closes a visit that has nothing left to do.
\<close>

section \<open>Steps of a flow\<close>

definition first_step :: "(flow_step_row \<Rightarrow> bool) \<Rightarrow> qdb \<Rightarrow> flow_step_row option" where
  "first_step P s = (case sort_key fs_stepIndex (filter P (q_flowSteps s)) of [] \<Rightarrow> None | x # _ \<Rightarrow> Some x)"

definition getNextStep :: "uuid \<Rightarrow> uuid \<Rightarrow> int \<Rightarrow> qdb \<Rightarrow> flow_step_row option" where
  "getNextStep org template cur s =
     first_step (\<lambda>f. fs_templateId f = template \<and> fs_orgId f = org \<and> cur < fs_stepIndex f) s"

definition resolveFlowTemplateId ::
  "uuid \<Rightarrow> uuid \<Rightarrow> uuid option \<Rightarrow> uuid option \<Rightarrow> qdb \<Rightarrow> uuid option" where
  "resolveFlowTemplateId org branch queue template s =
     (let q = (if truthy_str queue then Option.bind (find_queue org (the queue) s) qu_flowTemplateId else None) in
      if truthy_str template then template
      else if truthy_str q then q
      else map_option fl_id (List.find (\<lambda>f. fl_orgId f = org \<and> fl_branchId f = branch \<and> fl_isActive f)
        (q_flowTemplates s)))"

text \<open>The highest step that a ticket of the visit has reached; zero when none has an index.\<close>

definition reached_step :: "uuid \<Rightarrow> uuid option \<Rightarrow> qdb \<Rightarrow> int" where
  "reached_step org visit s =
     (let is = List.map_filter tk_stepIndex (filter (\<lambda>t. tk_orgId t = org \<and> tk_visitId t = visit) (q_tickets s))
      in if truthy_str visit \<and> is \<noteq> [] then fold max (tl is) (hd is) else 0)"

definition resolveFlowStepIndexForQueue :: "uuid \<Rightarrow> uuid \<Rightarrow> uuid \<Rightarrow> uuid option \<Rightarrow> qdb \<Rightarrow> int option" where
  "resolveFlowStepIndexForQueue org branch queue visit s =
     (case resolveFlowTemplateId org branch (Some queue) None s of
        None \<Rightarrow> None
      | Some template \<Rightarrow>
          (let least = reached_step org visit s;
               own = (\<lambda>f. fs_orgId f = org \<and> fs_templateId f = template \<and> fs_queueId f = Some queue);
               found = first_step (\<lambda>f. own f \<and> least \<le> fs_stepIndex f) s;
               again = (if found = None \<and> 0 < least then first_step own s else None);
               by_service = (case List.find (\<lambda>q. qu_id q = queue \<and> qu_orgId q = org \<and> qu_branchId q = branch) (q_queues s) of
                   Some q \<Rightarrow> if qu_serviceId q \<noteq> []
                     then first_step (\<lambda>f. fs_orgId f = org \<and> fs_templateId f = template \<and>
                       fs_serviceId f = qu_serviceId q \<and> least \<le> fs_stepIndex f) s else None
                 | None \<Rightarrow> None)
           in if again \<noteq> None then map_option fs_stepIndex again
              else if by_service \<noteq> None then map_option fs_stepIndex by_service
              else map_option fs_stepIndex found))"

section \<open>The transaction number of a visit\<close>

definition trimmed :: "string option \<Rightarrow> string option" where
  "trimmed v = map_option js_trim v"

definition persistVisitExternalRef :: "uuid \<Rightarrow> uuid \<Rightarrow> string \<Rightarrow> unit qtx" where
  "persistVisitExternalRef org visit ref1 =
     (if js_trim ref1 = [] then tx_return ()
      else tx_bind (tx_update_one q_visits q_visits_update (\<lambda>v. vs_id v = visit \<and> vs_orgId v = org)
        (\<lambda>v. v\<lparr>vs_externalRef := Some (js_trim ref1)\<rparr>)) (\<lambda>_. tx_return ()))"

text \<open>The latest booking first; of two at the same instant the one created first.\<close>

definition latest_ref :: "uuid \<Rightarrow> uuid \<Rightarrow> qdb \<Rightarrow> string option" where
  "latest_ref org visit s = (case sort_key (\<lambda>t. - tk_bookedAt t) (filter (\<lambda>t. tk_orgId t = org \<and>
       tk_visitId t = Some visit \<and> tk_externalRef t \<noteq> None) (q_tickets s)) of
     [] \<Rightarrow> None | t # _ \<Rightarrow> tk_externalRef t)"

definition resolveVisitExternalRef :: "uuid \<Rightarrow> uuid \<Rightarrow> string option \<Rightarrow> string option qtx" where
  "resolveVisitExternalRef org visit ref1 = tx_read (\<lambda>s.
     let own = trimmed (Option.bind (List.find (\<lambda>v. vs_id v = visit \<and> vs_orgId v = org) (q_visits s)) vs_externalRef);
         last1 = trimmed (latest_ref org visit s)
     in if truthy_str (trimmed ref1)
        then tx_bind (persistVisitExternalRef org visit (the (trimmed ref1))) (\<lambda>_. tx_return (trimmed ref1))
        else if truthy_str own then tx_return own
        else if truthy_str last1
        then tx_bind (persistVisitExternalRef org visit (the last1)) (\<lambda>_. tx_return last1)
        else tx_return last1)"

section \<open>The queue of a step\<close>

fun find_index1 :: "('a \<Rightarrow> bool) \<Rightarrow> 'a list \<Rightarrow> nat option" where
  "find_index1 P [] = None"
| "find_index1 P (x # xs) = (if P x then Some 0 else map_option Suc (find_index1 P xs))"

definition findQueueForFlowStepFallback ::
  "uuid \<Rightarrow> uuid \<Rightarrow> uuid \<Rightarrow> int \<Rightarrow> uuid \<Rightarrow> qdb \<Rightarrow> queue_row option" where
  "findQueueForFlowStepFallback org branch template i sid s =
     (let step = List.find (\<lambda>f. fs_orgId f = org \<and> fs_templateId f = template \<and> fs_stepIndex f = i) (q_flowSteps s);
          name = js_trim (patched (map_option sv_name (Option.bind step
            (\<lambda>f. List.find (\<lambda>v. sv_id v = fs_serviceId f) (q_services s)))) []);
          here = filter (\<lambda>q. qu_orgId q = org \<and> qu_branchId q = branch) (q_queues s);
          by_name = (if name = [] then None else List.find (\<lambda>q. to_lower (qu_name q) = to_lower name \<or>
            str_contains (to_lower name) (to_lower (qu_name q))) here);
          steps = sort_key fs_stepIndex (filter (\<lambda>f. fs_orgId f = org \<and> fs_templateId f = template) (q_flowSteps s));
          queues = filter (\<lambda>q. qu_flowTemplateId q = Some template) here
      in if by_name \<noteq> None then by_name
         else case find_index1 (\<lambda>f. fs_stepIndex f = i) steps of
           None \<Rightarrow> None
         | Some n \<Rightarrow> if n < length queues then Some (queues ! n)
             else if sid \<noteq> [] then List.find (\<lambda>q. qu_serviceId q = sid \<and> qu_status q \<noteq> ''closed'') here
             else None)"

definition queue_of_service :: "uuid \<Rightarrow> uuid \<Rightarrow> uuid \<Rightarrow> int \<Rightarrow> uuid \<Rightarrow> qdb \<Rightarrow> queue_row option" where
  "queue_of_service org branch template i sid s =
     (let mine = (\<lambda>q. qu_orgId q = org \<and> qu_branchId q = branch \<and> qu_serviceId q = sid) in
      case List.find (\<lambda>q. mine q \<and> qu_status q = ''open'') (q_queues s) of
        Some q \<Rightarrow> Some q
      | None \<Rightarrow> (case List.find mine (q_queues s) of
          Some q \<Rightarrow> Some q | None \<Rightarrow> findQueueForFlowStepFallback org branch template i sid s))"

definition resolveQueueForFlowStep ::
  "uuid \<Rightarrow> uuid \<Rightarrow> uuid \<Rightarrow> int \<Rightarrow> uuid \<Rightarrow> uuid option \<Rightarrow> queue_row option qtx" where
  "resolveQueueForFlowStep org branch template i sid queue = tx_read (\<lambda>s.
     case (if truthy_str queue then find_queue org (the queue) s else None) of
       Some q \<Rightarrow> tx_return (Some q)
     | None \<Rightarrow>
         if sid = [] then tx_return None
         else (case queue_of_service org branch template i sid s of
             None \<Rightarrow> tx_return None
           | Some q \<Rightarrow>
               if queue \<noteq> Some (qu_id q) \<or> sid \<noteq> qu_serviceId q
               then tx_bind (tx_modify (q_flowSteps_update (update_rows
                   (\<lambda>f. fs_orgId f = org \<and> fs_templateId f = template \<and> fs_stepIndex f = i)
                   (\<lambda>f. f\<lparr>fs_queueId := Some (qu_id q), fs_serviceId := qu_serviceId q\<rparr>)))) (\<lambda>_.
                 tx_return (Some q))
               else tx_return (Some q)))"

text \<open>Every step of a template, one after the other; the count is of those whose queue changed.\<close>

fun repair_steps :: "uuid \<Rightarrow> uuid \<Rightarrow> uuid \<Rightarrow> flow_step_row list \<Rightarrow> nat qtx" where
  "repair_steps org branch template [] = tx_return 0"
| "repair_steps org branch template (f # fs) =
     tx_bind (resolveQueueForFlowStep org branch template (fs_stepIndex f) (fs_serviceId f) (fs_queueId f)) (\<lambda>q.
     tx_bind (repair_steps org branch template fs) (\<lambda>n.
     tx_return ((case q of Some q \<Rightarrow> if fs_queueId f \<noteq> Some (qu_id q) then 1 else 0 | None \<Rightarrow> 0) + n)))"

definition repairStaleFlowStepQueueLinks :: "uuid \<Rightarrow> uuid \<Rightarrow> uuid \<Rightarrow> nat qsvc" where
  "repairStaleFlowStepQueueLinks org branch template = with_tenant (tx_read (\<lambda>s.
     repair_steps org branch template (sort_key fs_stepIndex
       (filter (\<lambda>f. fs_orgId f = org \<and> fs_templateId f = template) (q_flowSteps s)))))"

section \<open>The next step of a ticket\<close>

record journey_ctx =
  jc_visitId :: "uuid option"
  jc_stepIndex :: "int option"
  jc_branchId :: uuid
  jc_queueId :: uuid
  jc_flowTemplateId :: "uuid option"

record journey_next =
  jn_stepIndex :: int
  jn_serviceId :: uuid
  jn_queueId :: uuid
  jn_deskNumber :: string
  jn_templateId :: uuid

text \<open>The template and the configured step after the ticket, before its queue is resolved.\<close>

definition next_configured :: "uuid \<Rightarrow> journey_ctx \<Rightarrow> uuid option \<Rightarrow> qdb \<Rightarrow> (uuid \<times> flow_step_row) option" where
  "next_configured org c template s =
     (if \<not> truthy_str (jc_visitId c) then None
      else Option.bind (if jc_stepIndex c \<noteq> None then jc_stepIndex c
          else resolveFlowStepIndexForQueue org (jc_branchId c) (jc_queueId c) (jc_visitId c) s) (\<lambda>cur.
        Option.bind (resolveFlowTemplateId org (jc_branchId c) (Some (jc_queueId c)) template s) (\<lambda>t.
        map_option (\<lambda>f. (t, f)) (getNextStep org t cur s))))"

definition journey_next_of :: "uuid \<Rightarrow> flow_step_row \<Rightarrow> queue_row \<Rightarrow> journey_next" where
  "journey_next_of template f q = \<lparr>jn_stepIndex = fs_stepIndex f, jn_serviceId = fs_serviceId f,
     jn_queueId = qu_id q, jn_deskNumber = fs_deskNumber f, jn_templateId = template\<rparr>"

text \<open>The second component says whether a later step is configured at all.\<close>

definition resolveNextJourneyStepTx :: "uuid \<Rightarrow> journey_ctx \<Rightarrow> (journey_next option \<times> bool) qtx" where
  "resolveNextJourneyStepTx org c = tx_read (\<lambda>s. case next_configured org c (jc_flowTemplateId c) s of
       None \<Rightarrow> tx_return (None, False)
     | Some (t, f) \<Rightarrow>
         tx_bind (resolveQueueForFlowStep org (jc_branchId c) t (fs_stepIndex f) (fs_serviceId f) (fs_queueId f)) (\<lambda>q.
         tx_return (map_option (journey_next_of t f) q, True)))"

definition resolveNextJourneyStep :: "uuid \<Rightarrow> journey_ctx \<Rightarrow> journey_next option qtx" where
  "resolveNextJourneyStep org c = tx_read (\<lambda>s. case next_configured org c (jc_flowTemplateId c) s of
       None \<Rightarrow> tx_return None
     | Some (t, f) \<Rightarrow>
         tx_bind (resolveQueueForFlowStep org (jc_branchId c) t (fs_stepIndex f) (fs_serviceId f) (fs_queueId f)) (\<lambda>q.
         tx_return (map_option (journey_next_of t f) q)))"

text \<open>Here the template of the ticket is not looked at.\<close>

definition getNextStepResolutionFailure :: "uuid \<Rightarrow> journey_ctx \<Rightarrow> (uuid \<times> flow_step_row) option qtx" where
  "getNextStepResolutionFailure org c = tx_read (\<lambda>s. case next_configured org c None s of
       None \<Rightarrow> tx_return None
     | Some (t, f) \<Rightarrow>
         tx_bind (resolveQueueForFlowStep org (jc_branchId c) t (fs_stepIndex f) (fs_serviceId f) (fs_queueId f)) (\<lambda>q.
         tx_return (if q = None then Some (t, f) else None)))"

section \<open>The status of a visit\<close>

definition active_statuses :: "string list" where
  "active_statuses = [''waiting'', ''called'', ''serving'']"

definition journey_ctx_of :: "queue_ticket \<Rightarrow> journey_ctx" where
  "journey_ctx_of t = \<lparr>jc_visitId = tk_visitId t, jc_stepIndex = tk_stepIndex t, jc_branchId = tk_branchId t,
     jc_queueId = tk_queueId t, jc_flowTemplateId = tk_flowTemplateId t\<rparr>"

definition keep_visit_active :: "uuid \<Rightarrow> unit qtx" where
  "keep_visit_active visit = tx_bind (tx_update_one q_visits q_visits_update (\<lambda>v. vs_id v = visit)
     (\<lambda>v. v\<lparr>vs_status := ''active'', vs_completedAt := None\<rparr>)) (\<lambda>_. tx_return ())"

definition complete_visit :: "qenv \<Rightarrow> uuid \<Rightarrow> uuid \<Rightarrow> queue_ticket option \<Rightarrow> unit qtx" where
  "complete_visit e org visit last1 =
     tx_bind (case last1 of Some t \<Rightarrow> resolveVisitExternalRef org visit (tk_externalRef t) | None \<Rightarrow> tx_return None) (\<lambda>ref1.
     tx_bind (tx_update_one q_visits q_visits_update (\<lambda>v. vs_id v = visit)
       (\<lambda>v. v\<lparr>vs_status := ''completed'', vs_completedAt := Some (qe_now e),
          vs_externalRef := (if truthy_str ref1 then ref1 else vs_externalRef v)\<rparr>)) (\<lambda>_. tx_return ()))"

definition refreshVisitStatus :: "qenv \<Rightarrow> uuid \<Rightarrow> uuid option \<Rightarrow> unit qsvc" where
  "refreshVisitStatus e org visit =
     (if \<not> truthy_str visit then svc_return ()
      else with_tenant (tx_read (\<lambda>s.
        let v = the visit; mine = filter (\<lambda>t. tk_orgId t = org \<and> tk_visitId t = visit) (q_tickets s) in
        if List.find (\<lambda>x. vs_id x = v \<and> vs_orgId x = org) (q_visits s) = None then tx_return ()
        else if list_ex (\<lambda>t. tk_status t \<in> set active_statuses) mine then keep_visit_active v
        else if mine = [] then complete_visit e org v None
        else if tk_status (last mine) = ''no_show'' \<or> tk_status (last mine) = ''cancelled''
        then complete_visit e org v (Some (last mine))
        else tx_bind (resolveNextJourneyStep org (journey_ctx_of (last mine))) (\<lambda>n.
          if n \<noteq> None then keep_visit_active v else complete_visit e org v (Some (last mine))))))"

end
