(* ===== verification/Issuance.thy ===== *)
theory Issuance
  imports Journeys Appointments
begin

text \<open>
  \<^verbatim>\<open>TicketIssuanceService\<close>: issuing a ticket, with the queues that the public may enter
  (\<^verbatim>\<open>flow-public-entry.ts\<close>), the monthly limit of the plan (\<^verbatim>\<open>PlanLimitService\<close>,
  \<^verbatim>\<open>TicketStatsCacheService\<close>), consent (\<^verbatim>\<open>TicketCustomerConsentService\<close>) and a further step of a visit
  (\<^verbatim>\<open>TicketVisitStepService\<close>).
\<close>

section \<open>Queues that the public may enter\<close>

definition getNonEntryQueueIdsFromFlowSteps :: "flow_step_row list \<Rightarrow> uuid list" where
  "getNonEntryQueueIdsFromFlowSteps steps = (case steps of [] \<Rightarrow> []
     | f # fs \<Rightarrow> (let least = foldl min (fs_stepIndex f) (map fs_stepIndex fs) in
         map (\<lambda>x. the (fs_queueId x)) (filter (\<lambda>x. truthy_str (fs_queueId x) \<and> least < fs_stepIndex x) steps)))"

definition loadActiveFlowStepsForBranch :: "uuid \<Rightarrow> uuid \<Rightarrow> qdb \<Rightarrow> flow_step_row list" where
  "loadActiveFlowStepsForBranch org branch s =
     concat (map (\<lambda>t. filter (\<lambda>f. fs_templateId f = fl_id t) (q_flowSteps s))
       (filter (\<lambda>t. fl_orgId t = org \<and> fl_branchId t = branch \<and> fl_isActive t) (q_flowTemplates s)))"

definition getNonEntryQueueIdsForBranch :: "uuid \<Rightarrow> uuid \<Rightarrow> qdb \<Rightarrow> uuid list" where
  "getNonEntryQueueIdsForBranch org branch s =
     getNonEntryQueueIdsFromFlowSteps (loadActiveFlowStepsForBranch org branch s)"

definition getAllFlowBoundQueueIds :: "uuid \<Rightarrow> uuid \<Rightarrow> qdb \<Rightarrow> uuid list" where
  "getAllFlowBoundQueueIds org branch s =
     map (\<lambda>f. the (fs_queueId f)) (filter (\<lambda>f. fs_orgId f = org \<and> truthy_str (fs_queueId f) \<and>
       list_ex (\<lambda>t. fl_id t = fs_templateId f \<and> fl_branchId t = branch) (q_flowTemplates s)) (q_flowSteps s))"

definition filterPublicKioskQueues :: "queue_row list \<Rightarrow> flow_step_row list \<Rightarrow> uuid list \<Rightarrow> queue_row list" where
  "filterPublicKioskQueues queues steps bound =
     (let flow = (if 2 \<le> length steps then List.map_filter (\<lambda>f. if truthy_str (fs_queueId f) then fs_queueId f else None) steps
                  else []);
          nonEntry = getNonEntryQueueIdsFromFlowSteps (if 2 \<le> length steps then steps else []);
          entry = filter (\<lambda>q. qu_id q \<in> set flow \<and> qu_id q \<notin> set nonEntry) queues
      in entry @ filter (\<lambda>q. qu_id q \<notin> set flow \<and> qu_serviceId q \<notin> set (map qu_serviceId entry) \<and>
           qu_id q \<notin> set bound) queues)"

definition not_for_walk_in :: error where
  "not_for_walk_in = BadRequest ''This queue is not available for walk-in check-in. Customers must start at the first step of the visit journey.''"

definition assertPublicQueueEntryAllowed :: "uuid \<Rightarrow> uuid \<Rightarrow> uuid \<Rightarrow> qdb \<Rightarrow> error + unit" where
  "assertPublicQueueEntryAllowed org branch queue s =
     (if Option.bind (find_queue org queue s) qu_stepRole = Some ''pickup'' then Inl not_for_walk_in
      else if queue \<in> set (getNonEntryQueueIdsForBranch org branch s) then Inl not_for_walk_in else Inr ())"

definition isServiceAvailableAtBranch :: "branch_service_row list \<Rightarrow> uuid \<Rightarrow> bool" where
  "isServiceAvailableAtBranch pivots branch \<longleftrightarrow>
     pivots = [] \<or> list_ex (\<lambda>b. bs_branchId b = branch \<and> bs_isActive b) pivots"

definition pivots_of :: "uuid \<Rightarrow> qdb \<Rightarrow> branch_service_row list" where
  "pivots_of sid s = filter (\<lambda>b. bs_serviceId b = sid) (q_branchServices s)"

definition assertServicesAssignedToBranch :: "uuid \<Rightarrow> uuid \<Rightarrow> uuid list \<Rightarrow> qdb \<Rightarrow> error + unit" where
  "assertServicesAssignedToBranch org branch ids s =
     (let found = filter (\<lambda>v. sv_orgId v = org \<and> sv_id v \<in> set ids) (q_services s) in
      if ids = [] then Inr ()
      else if length found \<noteq> length (remdups ids) then Inl (BadRequest ''One or more services were not found'')
      else case List.find (\<lambda>v. \<not> isServiceAvailableAtBranch (pivots_of (sv_id v) s) branch) found of
        None \<Rightarrow> Inr ()
      | Some v \<Rightarrow> Inl (BadRequest ((if sv_name v = [] then ''A selected service''
          else CHR 0x22 # sv_name v @ [CHR 0x22]) @ '' is not assigned to this branch'')))"

section \<open>The limit of the plan\<close>

definition LIMITS_CACHE_TTL :: int where
  "LIMITS_CACHE_TTL = 300"

definition limits_of_plan :: "uuid \<Rightarrow> qdb \<Rightarrow> plan_limits" where
  "limits_of_plan org s = (case List.find (\<lambda>u. su_orgId u = org \<and> su_status u \<in> {''active'', ''trialing''})
     (q_subscriptions s) of None \<Rightarrow> [] | Some u \<Rightarrow> patched (su_limits u) [])"

definition cached_limits :: "time \<Rightarrow> uuid \<Rightarrow> qdb \<Rightarrow> plan_limits option" where
  "cached_limits now org s = (case q_limitsCache s org of
     Some (l, t) \<Rightarrow> if now < t then Some l else None | None \<Rightarrow> None)"

definition getLimits :: "qenv \<Rightarrow> uuid \<Rightarrow> qdb \<Rightarrow> plan_limits \<times> qdb" where
  "getLimits e org s = (case cached_limits (qe_now e) org s of
       Some l \<Rightarrow> (l, s)
     | None \<Rightarrow> (limits_of_plan org s,
         s\<lparr>q_limitsCache := (q_limitsCache s)(org \<mapsto> (limits_of_plan org s, qe_now e + LIMITS_CACHE_TTL * 1000))\<rparr>))"

definition invalidateLimitsCache :: "uuid \<Rightarrow> qdb \<Rightarrow> qdb" where
  "invalidateLimitsCache org s = s\<lparr>q_limitsCache := (q_limitsCache s)(org := None)\<rparr>"

text \<open>
  The limit, if the plan has one and it is reached. A count that is no number compares as false, as
  \<open>NaN\<close> does.
\<close>

definition plan_number :: "plan_limits \<Rightarrow> string \<Rightarrow> int option" where
  "plan_number ls feature = (case map_of ls feature of Some (PlanNumber n) \<Rightarrow> Some n | _ \<Rightarrow> None)"

definition checkLimit :: "qenv \<Rightarrow> uuid \<Rightarrow> string \<Rightarrow> int option \<Rightarrow> qdb \<Rightarrow> int option \<times> qdb" where
  "checkLimit e org feature n s = (let (ls, t) = getLimits e org s in
     (case (n, plan_number ls feature) of (Some n, Some l) \<Rightarrow> if l \<le> n then Some l else None | _ \<Rightarrow> None, t))"

definition requireFeature :: "qenv \<Rightarrow> uuid \<Rightarrow> string \<Rightarrow> string option \<Rightarrow> qdb \<Rightarrow> (error + unit) \<times> qdb" where
  "requireFeature e org feature message s = (let (ls, t) = getLimits e org s in
     (if map_of ls feature = Some (PlanSwitch True) then Inr ()
      else Inl (Forbidden (patched message
        ''Your current plan does not include access to this feature. Please upgrade to continue.'')), t))"

definition monthly_key :: "qenv \<Rightarrow> uuid \<Rightarrow> string" where
  "monthly_key e org = ''org:'' @ org @ '':tickets-count:'' @ qe_monthKey e"

text \<open>\<open>parseInt(x, 10)\<close>.\<close>

definition parse_int :: "string \<Rightarrow> int option" where
  "parse_int x = (let t = dropWhile is_js_space x; neg = (t \<noteq> [] \<and> hd t = CHR ''-'');
       u = (if t \<noteq> [] \<and> (hd t = CHR ''-'' \<or> hd t = CHR ''+'') then tl t else t); ds = takeWhile is_digit u in
     if ds = [] then None else Some (if neg then - digits_value ds else digits_value ds))"

definition getMonthlyTicketCount :: "qenv \<Rightarrow> uuid \<Rightarrow> qdb \<Rightarrow> int option \<times> qdb" where
  "getMonthlyTicketCount e org s = (case q_cache_get (qe_now e) (monthly_key e org) s of
       Some v \<Rightarrow> (parse_int v, s)
     | None \<Rightarrow>
         (let n = int (length (filter (\<lambda>t. tk_orgId t = org \<and> qe_monthStart e \<le> tk_bookedAt t) (q_tickets s)))
          in (Some n, q_cache_set (qe_now e) (monthly_key e org) (show_int n) (86400 * 32) s)))"

text \<open>\<open>INCR\<close> starts a missing counter at one and keeps the time a counter has to live.\<close>

definition incrementMonthlyTicketCount :: "qenv \<Rightarrow> uuid \<Rightarrow> qdb \<Rightarrow> qdb" where
  "incrementMonthlyTicketCount e org s = (let k = monthly_key e org in
     case q_cache_get (qe_now e) k s of
       None \<Rightarrow> s\<lparr>q_redis := (q_redis s)(k \<mapsto> (''1'', None))\<rparr>
     | Some v \<Rightarrow> (case parse_int v of
           None \<Rightarrow> s
         | Some n \<Rightarrow> s\<lparr>q_redis := (q_redis s)(k \<mapsto> (show_int (n + 1), Option.bind (q_redis s k) snd))\<rparr>))"

section \<open>Issuing\<close>

record issue_data =
  ix_queueId :: uuid
  ix_branchId :: uuid
  ix_serviceId :: uuid
  ix_visitId :: "uuid option"
  ix_stepIndex :: "int option"
  ix_deskNumber :: "string option"
  ix_initialStatus :: "string option"
  ix_customerId :: "uuid option"
  ix_customerName :: "string option"
  ix_customerPhone :: "string option"
  ix_smsAllowed :: "bool option"
  ix_marketingSms :: bool
  ix_marketingEmail :: bool
  ix_source :: string
  ix_priority :: "int option"
  ix_language :: "string option"
  ix_note :: "string option"
  ix_externalRef :: "string option"

datatype issuance = PublicIssue | AuthenticatedIssue

definition normalized_phone :: "issue_data \<Rightarrow> string option" where
  "normalized_phone d = (if truthy_str (ix_customerPhone d) then normalizeSmsRecipient (the (ix_customerPhone d)) else None)"

text \<open>The number in international form, and what the public may not ask for.\<close>

definition accepted_issue :: "issuance \<Rightarrow> issue_data \<Rightarrow> error + issue_data" where
  "accepted_issue mode d =
     (let phone = normalized_phone d; src = to_lower (js_trim (ix_source d));
          d' = (if truthy_str phone then d\<lparr>ix_customerPhone := phone\<rparr>
                else if \<not> truthy_str (ix_customerPhone d) then d\<lparr>ix_customerPhone := None\<rparr> else d) in
      if ix_smsAllowed d = Some True \<and> \<not> truthy_str phone
      then Inl (BadRequest ''SMS notifications require a valid mobile number in international format (e.g. +15550001234)'')
      else if mode = PublicIssue \<and> src = ''staff''
      then Inl (Forbidden ''Staff-issued tickets require an authenticated staff session'')
      else if mode = PublicIssue \<and> src = ''kiosk'' \<and> ix_smsAllowed d = Some True \<and> \<not> truthy_str (ix_customerPhone d')
      then Inl (BadRequest ''Kiosk SMS notifications require a valid mobile number in international format (e.g. +15550001234)'')
      else Inr d')"

definition issue_org :: "uuid option \<Rightarrow> uuid \<Rightarrow> qdb \<Rightarrow> error + uuid" where
  "issue_org org branch s =
     (if truthy_str org then Inr (the org)
      else case List.find (\<lambda>b. br_id b = branch) (q_branches s) of
        None \<Rightarrow> Inl (NotFound ''Branch not found'')
      | Some b \<Rightarrow> if br_orgId b = [] then Inl (NotFound ''Organization could not be resolved for this ticket'')
          else Inr (br_orgId b))"

definition prepareIssueTicketPayload :: "qenv \<Rightarrow> uuid \<Rightarrow> issue_data \<Rightarrow> qdb \<Rightarrow> issue_data" where
  "prepareIssueTicketPayload e org d s =
     (if ix_stepIndex d \<noteq> None then d
      else if \<not> isVisitJourneysEnabledForOrg e org s then d
      else if resolveEffectiveJourneyMode org (ix_branchId d) (ix_serviceId d) (Some (ix_queueId d)) s \<noteq> ''visit_multi_step''
        \<and> \<not> truthy_str (ix_visitId d) then d
      else case resolveFlowStepIndexForQueue org (ix_branchId d) (ix_queueId d) (ix_visitId d) s of
        None \<Rightarrow> d | Some i \<Rightarrow> d\<lparr>ix_stepIndex := Some i\<rparr>)"

text \<open>The branch, the service and the queue of a ticket, before anything is written.\<close>

definition issue_queue :: "qenv \<Rightarrow> uuid \<Rightarrow> issue_data \<Rightarrow> qdb \<Rightarrow> error + queue_row" where
  "issue_queue e org d s =
     (if map_option br_orgId (List.find (\<lambda>b. br_id b = ix_branchId d) (q_branches s)) \<noteq> Some org
      then Inl (NotFound ''Branch not found'')
      else err_bind (assertBranchAcceptsCustomerIntake e org (ix_branchId d) ''issuing tickets'' (qe_now e) s) (\<lambda>_.
        if map_option sv_orgId (List.find (\<lambda>v. sv_id v = ix_serviceId d) (q_services s)) \<noteq> Some org
        then Inl (NotFound ''Service not found'')
        else case List.find (\<lambda>q. qu_id q = ix_queueId d) (q_queues s) of
          None \<Rightarrow> Inl (NotFound ''Queue not found'')
        | Some q \<Rightarrow>
            if qu_branchId q \<noteq> ix_branchId d \<or> qu_serviceId q \<noteq> ix_serviceId d
            then Inl (BadRequest ''branchId and serviceId must match the selected queue'')
            else Inr q))"

definition issue_mode :: "qenv \<Rightarrow> uuid \<Rightarrow> issue_data \<Rightarrow> qdb \<Rightarrow> string" where
  "issue_mode e org d s = (if isVisitJourneysEnabledForOrg e org s
     then resolveEffectiveJourneyMode org (ix_branchId d) (ix_serviceId d) (Some (ix_queueId d)) s
     else ''single_ticket'')"

text \<open>The ticket of the first step; a ticket without a step sorts last.\<close>

definition first_of_visit :: "uuid \<Rightarrow> uuid \<Rightarrow> qdb \<Rightarrow> queue_ticket option" where
  "first_of_visit org visit s =
     (case sort_key (\<lambda>t. case tk_stepIndex t of None \<Rightarrow> (1 :: int, 0) | Some n \<Rightarrow> (0, n))
        (filter (\<lambda>t. tk_orgId t = org \<and> tk_visitId t = Some visit) (q_tickets s)) of
      [] \<Rightarrow> None | t # _ \<Rightarrow> Some t)"

definition new_visit :: "qenv \<Rightarrow> uuid \<Rightarrow> issue_data \<Rightarrow> queue_visit" where
  "new_visit e org d = \<lparr>vs_id = qe_uuid e ''visits'', vs_orgId = org, vs_branchId = ix_branchId d,
     vs_source = ix_source d, vs_customerName = ix_customerName d, vs_customerPhone = ix_customerPhone d,
     vs_language = ix_language d, vs_status = ''active'', vs_externalRef = None, vs_completedAt = None\<rparr>"

text \<open>The visit of the ticket, opened again or created, and the number that its tickets share.\<close>

definition issue_visit :: "qenv \<Rightarrow> uuid \<Rightarrow> issue_data \<Rightarrow> (uuid option \<times> string option) qtx" where
  "issue_visit e org d = tx_read (\<lambda>s.
     if truthy_str (ix_visitId d)
     then (let v = the (ix_visitId d); number = map_option tk_displayNumber (first_of_visit org v s) in
       case List.find (\<lambda>x. vs_id x = v \<and> vs_orgId x = org \<and> vs_branchId x = ix_branchId d) (q_visits s) of
         None \<Rightarrow> tx_throw (NotFound ''Visit not found'')
       | Some x \<Rightarrow>
           if vs_status x = ''completed''
           then tx_bind (tx_update_one q_visits q_visits_update (\<lambda>y. vs_id y = v)
               (\<lambda>y. y\<lparr>vs_status := ''active'', vs_completedAt := None\<rparr>)) (\<lambda>_. tx_return (Some v, number))
           else if vs_status x \<noteq> ''active'' then tx_throw (BadRequest ''Visit is not active'')
           else tx_return (Some v, number))
     else if issue_mode e org d s = ''visit_multi_step''
     then tx_bind (tx_modify (q_visits_update (\<lambda>vs. vs @ [new_visit e org d]))) (\<lambda>_.
       tx_return (Some (vs_id (new_visit e org d)), None))
     else tx_return (ix_visitId d, None))"

definition issue_number :: "qenv \<Rightarrow> uuid \<Rightarrow> issue_data \<Rightarrow> string option \<Rightarrow> string qtx" where
  "issue_number e org d shared =
     (if \<not> truthy_str shared
      then tx_bind (reserveQueueDisplayNumber e org (ix_queueId d) True) (\<lambda>(_, n). tx_return n)
      else tx_read (\<lambda>s. case List.find (\<lambda>q. qu_id q = ix_queueId d) (q_queues s) of
          None \<Rightarrow> tx_throw (NotFound ''Queue not found'')
        | Some q \<Rightarrow>
            if qu_orgId q \<noteq> [] \<and> qu_orgId q \<noteq> org then tx_throw (NotFound ''Queue not found'')
            else if ix_source d \<noteq> ''staff'' \<and> ix_source d \<noteq> ''system'' \<and> qu_status q \<noteq> ''open''
            then tx_throw (BadRequest (not_open_message (qu_status q)))
            else tx_return (the shared)))"

section \<open>The customer of a ticket\<close>

definition issue_marketing :: "issue_data \<Rightarrow> contact_row \<Rightarrow> contact_row" where
  "issue_marketing d c =
     c\<lparr>ct_marketingSms := (if ix_marketingSms d then ''GRANTED'' else ct_marketingSms c),
       ct_marketingEmail := (if ix_marketingEmail d then ''GRANTED'' else ct_marketingEmail c),
       ct_marketingSource := (if ix_marketingSms d \<or> ix_marketingEmail d then Some (ix_source d)
                              else ct_marketingSource c)\<rparr>"

definition issued_contact :: "qenv \<Rightarrow> uuid \<Rightarrow> issue_data \<Rightarrow> string \<Rightarrow> string option \<Rightarrow> contact_row" where
  "issued_contact e org d name phone = issue_marketing d
     \<lparr>ct_id = qe_uuid e ''customers'', ct_orgId = org, ct_name = name, ct_email = None, ct_phone = phone,
      ct_transactionalSmsAllowed = patched (ix_smsAllowed d) False, ct_marketingSms = ''REVOKED'',
      ct_marketingEmail = ''REVOKED'', ct_smsConsentSource = Some (ix_source d), ct_marketingSource = None\<rparr>"

definition name_or :: "string option \<Rightarrow> string \<Rightarrow> string" where
  "name_or n d = (if truthy_str n then the n else d)"

definition create_contact :: "contact_row \<Rightarrow> unit qtx" where
  "create_contact c = tx_modify (q_contacts_update (\<lambda>cs. cs @ [c]))"

text \<open>
  The customer found by number and brought up to date, created by number or by name, or the one that
  was named; with the name and the number that go on the ticket.
\<close>

definition issue_customer ::
  "qenv \<Rightarrow> uuid \<Rightarrow> issue_data \<Rightarrow> (uuid option \<times> string option \<times> string option) qtx" where
  "issue_customer e org d = tx_read (\<lambda>s.
     if \<not> truthy_str (ix_customerId d) \<and> truthy_str (ix_customerPhone d) then
       (case List.find (\<lambda>c. ct_orgId c = org \<and> ct_phone c = ix_customerPhone d) (q_contacts s) of
          Some c \<Rightarrow> (let name = name_or (ix_customerName d) (ct_name c) in
            tx_bind (tx_update_one q_contacts q_contacts_update (\<lambda>x. ct_id x = ct_id c)
              (\<lambda>x. issue_marketing d (x\<lparr>ct_name := name,
                 ct_transactionalSmsAllowed := patched (ix_smsAllowed d) (ct_transactionalSmsAllowed c)\<rparr>))) (\<lambda>_.
            tx_return (Some (ct_id c), Some name, ix_customerPhone d)))
        | None \<Rightarrow> (let name = name_or (ix_customerName d) ''Anonymous''; c = issued_contact e org d name (ix_customerPhone d) in
            tx_bind (create_contact c) (\<lambda>_. tx_return (Some (ct_id c), Some name, ix_customerPhone d))))
     else if \<not> truthy_str (ix_customerId d) \<and> truthy_str (ix_customerName d) then
       (let c = issued_contact e org d (the (ix_customerName d)) None in
        tx_bind (create_contact c) (\<lambda>_.
        tx_return (Some (ct_id c), ix_customerName d, ix_customerPhone d)))
     else if truthy_str (ix_customerId d) then
       (case List.find (\<lambda>c. ct_id c = the (ix_customerId d)) (q_contacts s) of
          None \<Rightarrow> tx_return (ix_customerId d, ix_customerName d, ix_customerPhone d)
        | Some c \<Rightarrow>
            (let name = Some (name_or (ix_customerName d) (ct_name c));
                 phone = (if truthy_str (ix_customerPhone d) then ix_customerPhone d
                          else if truthy_str (ct_phone c) then ct_phone c else None) in
             if ix_marketingSms d \<or> ix_marketingEmail d
             then tx_bind (tx_update_one q_contacts q_contacts_update (\<lambda>x. ct_id x = ct_id c) (issue_marketing d))
               (\<lambda>_. tx_return (ix_customerId d, name, phone))
             else tx_return (ix_customerId d, name, phone)))
     else tx_return (ix_customerId d, ix_customerName d, ix_customerPhone d))"

definition logMarketingConsent :: "uuid \<Rightarrow> uuid \<Rightarrow> string \<Rightarrow> string \<Rightarrow> unit qtx" where
  "logMarketingConsent org cust channel src = tx_modify (q_consents_update (\<lambda>xs. xs @
     [\<lparr>ce_orgId = org, ce_customerId = cust, ce_channel = channel, ce_source = src\<rparr>]))"

definition issue_consents :: "uuid \<Rightarrow> issue_data \<Rightarrow> uuid option \<Rightarrow> unit qtx" where
  "issue_consents org d cust =
     (if truthy_str cust
      then tx_bind (if ix_marketingSms d then logMarketingConsent org (the cust) ''sms'' (ix_source d) else tx_return ()) (\<lambda>_.
        if ix_marketingEmail d then logMarketingConsent org (the cust) ''email'' (ix_source d) else tx_return ())
      else tx_return ())"

section \<open>The row of a ticket\<close>

definition issue_step :: "uuid \<Rightarrow> issue_data \<Rightarrow> string \<Rightarrow> uuid option \<Rightarrow> qdb \<Rightarrow> int option" where
  "issue_step org d mode visit s = (case ix_stepIndex d of
       Some i \<Rightarrow> Some i
     | None \<Rightarrow> if truthy_str visit \<or> mode = ''visit_multi_step''
         then resolveFlowStepIndexForQueue org (ix_branchId d) (ix_queueId d) visit s else None)"

definition issue_ref :: "uuid \<Rightarrow> issue_data \<Rightarrow> uuid option \<Rightarrow> int option \<Rightarrow> string option \<Rightarrow> string option qtx" where
  "issue_ref org d visit step role =
     (if truthy_str visit \<and> journeyStepAcceptsExternalRef step role
      then if ix_source d \<noteq> ''system'' \<and> trim_or_null (ix_externalRef d) = None
           then resolveVisitExternalRef org (the visit) None
           else tx_return (trim_or_null (ix_externalRef d))
      else tx_return None)"

definition issued_ticket ::
  "qenv \<Rightarrow> uuid \<Rightarrow> issue_data \<Rightarrow> queue_row \<Rightarrow> uuid option \<Rightarrow> string \<Rightarrow> uuid option \<times> string option \<times> string option \<Rightarrow>
   int option \<Rightarrow> string option \<Rightarrow> queue_ticket" where
  "issued_ticket e org d q visit number who step ref1 = (case who of (cust, name, phone) \<Rightarrow>
     \<lparr>tk_id = qe_uuid e ''tickets'', tk_orgId = org, tk_visitId = visit, tk_queueId = ix_queueId d,
      tk_branchId = ix_branchId d, tk_serviceId = ix_serviceId d, tk_displayNumber = number, tk_customerId = cust,
      tk_customerName = Some (name_or name ''Anonymous''), tk_customerPhone = phone, tk_customerEmail = None,
      tk_smsAllowed = patched (ix_smsAllowed d) False, tk_status = patched (ix_initialStatus d) ''waiting'',
      tk_priority = patched (ix_priority d) 0, tk_position = None, tk_deskNumber = ix_deskNumber d,
      tk_servedByUserId = None, tk_source = ix_source d, tk_language = Some (patched (ix_language d) ''en''),
      tk_bookedAt = qe_now e,
      tk_calledAt = (if ix_initialStatus d \<in> {Some ''called'', Some ''serving''} then Some (qe_now e) else None),
      tk_servedAt = (if ix_initialStatus d = Some ''serving'' then Some (qe_now e) else None),
      tk_completedAt = None, tk_readyAt = None, tk_flowTemplateId = qu_flowTemplateId q, tk_stepIndex = step,
      tk_note = ix_note d, tk_externalRef = (if truthy_str ref1 then ref1 else None), tk_waitMinutes = None,
      tk_serviceMinutes = None, tk_legalHold = False, tk_flags = []\<rparr>)"

text \<open>The primary key of the table is unique.\<close>

definition create_ticket :: "queue_ticket \<Rightarrow> queue_ticket qtx" where
  "create_ticket t = tx_read (\<lambda>s. if tk_id t \<in> tk_id ` set (q_tickets s) then tx_throw PrismaP2002
     else tx_bind (tx_modify (q_tickets_update (\<lambda>ts. ts @ [t]))) (\<lambda>_. tx_return t))"

definition issueTicketCore :: "qenv \<Rightarrow> uuid \<Rightarrow> issue_data \<Rightarrow> queue_ticket qtx" where
  "issueTicketCore e org d = tx_read (\<lambda>s.
     tx_bind (tx_lift (issue_queue e org d s)) (\<lambda>q.
     tx_bind (issue_visit e org d) (\<lambda>(visit, shared).
     tx_bind (issue_number e org d shared) (\<lambda>number.
     tx_bind (issue_customer e org d) (\<lambda>who.
     tx_bind (issue_consents org d (fst who)) (\<lambda>_.
     tx_read (\<lambda>u. let step = issue_step org d (issue_mode e org d s) visit u in
       tx_bind (issue_ref org d visit step (Option.bind (find_queue org (ix_queueId d) u) qu_stepRole)) (\<lambda>ref1.
       create_ticket (issued_ticket e org d q visit number who step ref1)))))))))"

section \<open>The service\<close>

definition emitTicketIssuedSideEffects :: "qenv \<Rightarrow> uuid \<Rightarrow> queue_ticket \<Rightarrow> uuid \<Rightarrow> uuid \<Rightarrow> unit qsvc" where
  "emitTicketIssuedSideEffects e org t queue branch =
     svc_bind (svc_modify (incrementMonthlyTicketCount e org)) (\<lambda>_.
     svc_bind (publish_ticket queue branch org ''issued'' (tk_id t)) (\<lambda>_.
     svc_bind (q_log (InvalidateStats org branch [queue])) (\<lambda>_.
     if \<not> truthy_str (tk_visitId t) \<and> canSendTransactionalSms t then q_log (SmsTicketIssued org (tk_id t))
     else svc_return ())))"

definition logSmsConsentEvent :: "uuid \<Rightarrow> string \<Rightarrow> uuid \<Rightarrow> unit qsvc" where
  "logSmsConsentEvent org action i = q_log (Activity org action i)"

text \<open>The second component says that the message was not sent for want of a complete profile.\<close>

definition issueTicket :: "qenv \<Rightarrow> issuance \<Rightarrow> uuid option \<Rightarrow> issue_data \<Rightarrow> (queue_ticket \<times> bool) qsvc" where
  "issueTicket e mode org0 raw =
     svc_bind (svc_lift (accepted_issue mode raw)) (\<lambda>d.
     svc_bind (svc_read (\<lambda>s. svc_lift (issue_org org0 (ix_branchId d) s))) (\<lambda>org.
     svc_bind (svc_read (\<lambda>s. if mode = PublicIssue \<and> \<not> truthy_str (ix_visitId d)
       then svc_lift (assertPublicQueueEntryAllowed org (ix_branchId d) (ix_queueId d) s) else svc_return ())) (\<lambda>_.
     svc_bind (svc_get (getMonthlyTicketCount e org)) (\<lambda>n.
     svc_bind (svc_get (checkLimit e org ''maxTicketsPerMonth'' n)) (\<lambda>reached.
     case reached of
       Some l \<Rightarrow> svc_throw (Forbidden (''Monthly ticket limit reached. Your plan allows '' @ show_int l @
         '' tickets per month. Please upgrade to issue more.''))
     | None \<Rightarrow>
         svc_bind (svc_read (\<lambda>s. with_tenant (issueTicketCore e org (prepareIssueTicketPayload e org d s)))) (\<lambda>t.
         svc_bind (logSmsConsentEvent org ''consent.sms.captured'' (patched (tk_customerId t) (tk_id t))) (\<lambda>_.
         svc_bind (emitTicketIssuedSideEffects e org t (ix_queueId d) (ix_branchId d)) (\<lambda>_.
         svc_read (\<lambda>s. svc_return (t, ix_smsAllowed d = Some True \<and> org \<notin> set (q_completeProfiles s)))))))))))"

definition updateTrackPreferences :: "uuid \<Rightarrow> bool \<Rightarrow> unit qsvc" where
  "updateTrackPreferences i allowed = svc_read (\<lambda>s. case List.find (\<lambda>t. tk_id t = i) (q_tickets s) of
       None \<Rightarrow> svc_throw (NotFound ''Ticket not found'')
     | Some t \<Rightarrow>
         if tk_smsAllowed t = allowed then svc_return ()
         else svc_bind (with_tenant (
             tx_bind (tx_update_one q_tickets q_tickets_update (\<lambda>x. tk_id x = i) (\<lambda>x. x\<lparr>tk_smsAllowed := allowed\<rparr>)) (\<lambda>_.
             if truthy_str (tk_customerId t)
             then tx_bind (tx_update_one q_contacts q_contacts_update (\<lambda>c. ct_id c = the (tk_customerId t))
               (\<lambda>c. c\<lparr>ct_transactionalSmsAllowed := allowed\<rparr>)) (\<lambda>_. tx_return ())
             else tx_return ()))) (\<lambda>_.
           logSmsConsentEvent (tk_orgId t) ''consent.sms.updated'' (patched (tk_customerId t) i)))"

text \<open>A further step of a visit, asked for by staff: what is not given comes from the visit.\<close>

definition reopen_visit :: "uuid \<Rightarrow> uuid \<Rightarrow> queue_visit qtx" where
  "reopen_visit org visit = tx_read (\<lambda>s. case List.find (\<lambda>v. vs_id v = visit \<and> vs_orgId v = org) (q_visits s) of
       None \<Rightarrow> tx_throw (NotFound ''Visit not found'')
     | Some v \<Rightarrow>
         if vs_status v = ''completed''
         then tx_bind (tx_update_one q_visits q_visits_update (\<lambda>y. vs_id y = visit)
             (\<lambda>y. y\<lparr>vs_status := ''active'', vs_completedAt := None\<rparr>)) (\<lambda>_. tx_return (v\<lparr>vs_status := ''active''\<rparr>))
         else if vs_status v \<noteq> ''active'' then tx_throw (BadRequest ''Visit is not active'')
         else tx_return v)"

definition visit_step_data :: "queue_visit \<Rightarrow> issue_data \<Rightarrow> string option \<Rightarrow> issue_data" where
  "visit_step_data v d src = \<lparr>ix_queueId = ix_queueId d, ix_branchId = vs_branchId v, ix_serviceId = ix_serviceId d,
     ix_visitId = Some (vs_id v), ix_stepIndex = None, ix_deskNumber = ix_deskNumber d, ix_initialStatus = None,
     ix_customerId = None,
     ix_customerName = (if ix_customerName d \<noteq> None then ix_customerName d else vs_customerName v),
     ix_customerPhone = (if ix_customerPhone d \<noteq> None then ix_customerPhone d else vs_customerPhone v),
     ix_smsAllowed = ix_smsAllowed d, ix_marketingSms = False, ix_marketingEmail = False,
     ix_source = patched src ''staff'', ix_priority = ix_priority d,
     ix_language = (if ix_language d \<noteq> None then ix_language d else vs_language v),
     ix_note = ix_note d, ix_externalRef = None\<rparr>"

definition createVisitStep :: "qenv \<Rightarrow> uuid \<Rightarrow> uuid \<Rightarrow> issue_data \<Rightarrow> string option \<Rightarrow> (uuid \<times> queue_ticket \<times> bool) qsvc" where
  "createVisitStep e org visit d src =
     svc_bind (with_tenant (reopen_visit org visit)) (\<lambda>v.
     svc_bind (issueTicket e AuthenticatedIssue (Some org) (visit_step_data v d src)) (\<lambda>r.
     svc_return (vs_id v, r)))"

end
