(* ===== verification/Finalize.thy ===== *)
theory Finalize
  imports Issuance
begin

text \<open>
  \<^verbatim>\<open>TicketJourneyTransitionService.finalizeTicketWithJourneyAdvance\<close>: a ticket is completed and, when
  its visit has a further step, the ticket of that step is issued in the same transaction.
\<close>

section \<open>The ticket that follows\<close>

definition follow_up_key :: "queue_ticket \<Rightarrow> (int \<times> int) \<times> int" where
  "follow_up_key t = (case tk_stepIndex t of None \<Rightarrow> (1, 0) | Some n \<Rightarrow> (0, n), tk_bookedAt t)"

definition findActiveJourneyFollowUpTicket ::
  "uuid \<Rightarrow> uuid \<Rightarrow> uuid option \<Rightarrow> int option \<Rightarrow> qdb \<Rightarrow> queue_ticket option" where
  "findActiveJourneyFollowUpTicket org i visit step s =
     (if \<not> truthy_str visit then None
      else case sort_key follow_up_key (filter (\<lambda>t. tk_orgId t = org \<and> tk_visitId t = visit \<and> tk_id t \<noteq> i \<and>
          tk_status t \<in> set active_statuses \<and>
          (case step of None \<Rightarrow> True | Some n \<Rightarrow> (case tk_stepIndex t of None \<Rightarrow> False | Some k \<Rightarrow> n < k))) (q_tickets s)) of
        [] \<Rightarrow> None | t # _ \<Rightarrow> Some t)"

definition tx_catch :: "'a qtx \<Rightarrow> (error \<Rightarrow> error) \<Rightarrow> 'a qtx" where
  "tx_catch t f s = (case t s of Inl err \<Rightarrow> Inl (f err) | Inr r \<Rightarrow> Inr r)"

definition status_words :: "string \<Rightarrow> string" where
  "status_words terminal = (if terminal = ''no_show'' then ''no show'' else terminal)"

definition issue_next_error :: "string \<Rightarrow> error \<Rightarrow> error" where
  "issue_next_error terminal err =
     (let detail = or_str (js_trim (message_of err)) ''Unknown error'' in
      case err of
        BadRequest m \<Rightarrow> BadRequest m
      | NotFound m \<Rightarrow> BadRequest (''Could not issue the next journey step ('' @ detail @
          ''). The ticket was not marked as '' @ status_words terminal @
          '' so the visit stays active. Check the flow on the Flows page.'')
      | Forbidden m \<Rightarrow> BadRequest m
      | Unauthorized m \<Rightarrow> BadRequest m
      | Conflict m \<Rightarrow> BadRequest m
      | _ \<Rightarrow> BadRequest (''Could not issue the next step in this visit journey. The ticket was not marked as '' @
          status_words terminal @ '' so the visit stays active. '' @ detail))"

text \<open>Where the next step is served at the desk that served this one, its ticket is called at once.\<close>

definition auto_call :: "queue_ticket \<Rightarrow> journey_next \<Rightarrow> queue_row \<Rightarrow> bool" where
  "auto_call j n q \<longleftrightarrow> truthy_str (tk_deskNumber j) \<and> jn_deskNumber n \<noteq> [] \<and>
     tk_deskNumber j = Some (jn_deskNumber n) \<and> qu_stepRole q \<noteq> Some ''pickup''"

definition next_issue_data :: "queue_ticket \<Rightarrow> journey_next \<Rightarrow> queue_row \<Rightarrow> string option \<Rightarrow> issue_data" where
  "next_issue_data j n q ref1 = \<lparr>ix_queueId = qu_id q, ix_branchId = tk_branchId j, ix_serviceId = qu_serviceId q,
     ix_visitId = tk_visitId j, ix_stepIndex = Some (jn_stepIndex n),
     ix_deskNumber = (if auto_call j n q then Some (jn_deskNumber n) else None),
     ix_initialStatus = Some (if auto_call j n q then ''called'' else ''waiting''),
     ix_customerId = tk_customerId j, ix_customerName = tk_customerName j, ix_customerPhone = tk_customerPhone j,
     ix_smsAllowed = None, ix_marketingSms = False, ix_marketingEmail = False, ix_source = ''system'',
     ix_priority = None, ix_language = tk_language j, ix_note = None,
     ix_externalRef = (if truthy_str ref1 then ref1 else None)\<rparr>"

definition issue_next_step ::
  "qenv \<Rightarrow> uuid \<Rightarrow> queue_ticket \<Rightarrow> string \<Rightarrow> journey_next \<Rightarrow> string option \<Rightarrow> queue_ticket qtx" where
  "issue_next_step e org j terminal n ref1 =
     tx_bind (resolveQueueForFlowStep org (tk_branchId j) (jn_templateId n) (jn_stepIndex n) (jn_serviceId n)
       (Some (jn_queueId n))) (\<lambda>q. case q of
       None \<Rightarrow> tx_throw (BadRequest ''The next journey step points to a queue that no longer exists. Update the flow on the Flows page, then complete this step again.'')
     | Some q \<Rightarrow>
         if qu_status q \<noteq> ''open''
         then tx_throw (BadRequest ''The next queue in the journey is currently closed. It must be open for tickets to transition into it.'')
         else if qu_branchId q \<noteq> tk_branchId j
         then tx_throw (BadRequest ''The next journey step queue belongs to a different branch. Re-save your flow template for this branch.'')
         else tx_catch (issueTicketCore e org (next_issue_data j n q ref1)) (issue_next_error terminal))"

section \<open>Completion\<close>

definition accepts_ref :: "queue_ticket \<Rightarrow> qdb \<Rightarrow> bool" where
  "accepts_ref j s = journeyStepAcceptsExternalRef (tk_stepIndex j)
     (Option.bind (List.find (\<lambda>q. qu_id q = tk_queueId j) (q_queues s)) qu_stepRole)"

definition ref_missing :: error where
  "ref_missing = BadRequest ''Transaction number is required from the first step and must be carried through the journey.''"

text \<open>The ticket \<open>j\<close> is as it was read before the transaction; \<open>l\<close> as it is locked in it.\<close>

definition finalize_ref :: "uuid \<Rightarrow> queue_ticket \<Rightarrow> bool \<Rightarrow> string option \<Rightarrow> string option qtx" where
  "finalize_ref org j accepts ref1 = (case tk_visitId j of
       None \<Rightarrow> tx_return None
     | Some v \<Rightarrow> if accepts then resolveVisitExternalRef org v (if ref1 \<noteq> None then ref1 else tk_externalRef j)
         else tx_return None)"

definition next_ref :: "journey_next \<Rightarrow> bool \<Rightarrow> string option \<Rightarrow> string option" where
  "next_ref n accepts ref1 =
     (if journeyStepAcceptsExternalRef (Some (jn_stepIndex n)) None \<and> accepts then ref1 else None)"

definition finalize_locked ::
  "qenv \<Rightarrow> uuid \<Rightarrow> queue_ticket \<Rightarrow> queue_ticket \<Rightarrow> string \<Rightarrow> bool \<Rightarrow> string option \<Rightarrow> (queue_ticket \<times> queue_ticket option) qtx" where
  "finalize_locked e org j l terminal accepts given =
     tx_bind (resolveNextJourneyStepTx org \<lparr>jc_visitId = tk_visitId l, jc_stepIndex = tk_stepIndex l,
       jc_branchId = tk_branchId j, jc_queueId = tk_queueId j, jc_flowTemplateId = tk_flowTemplateId l\<rparr>)
       (\<lambda>(next1, later).
     if next1 = None \<and> later
     then tx_throw (BadRequest (''Could not resolve the next journey step just now (the service may be briefly degraded). This step was kept active so nothing was lost '' @
       [char_of (226 :: nat), char_of (128 :: nat), char_of (148 :: nat)] @ '' please try Complete again in a moment.''))
     else tx_bind (finalize_ref org j accepts given) (\<lambda>ref1.
     if truthy_str (tk_visitId j) \<and> accepts \<and> \<not> truthy_str ref1 then tx_throw ref_missing
     else tx_bind (case next1 of None \<Rightarrow> tx_return None
         | Some n \<Rightarrow> tx_bind (issue_next_step e org j terminal n (next_ref n accepts ref1)) (\<lambda>t. tx_return (Some t)))
       (\<lambda>issued.
     tx_bind (transitionTicketCore e org (tk_id l) [''called'', ''serving''] terminal
       (empty_patch\<lparr>tp_completedAt := Some (qe_now e),
          tp_externalRef := (if accepts \<and> truthy_str ref1 then ref1 else None)\<rparr>)) (\<lambda>t.
     tx_return (t, issued)))))"

definition finalize_tx ::
  "qenv \<Rightarrow> uuid \<Rightarrow> queue_ticket \<Rightarrow> string \<Rightarrow> bool \<Rightarrow> string option \<Rightarrow> (queue_ticket \<times> queue_ticket option) qtx" where
  "finalize_tx e org j terminal accepts given = tx_read (\<lambda>s. case find_ticket org (tk_id j) s of
       None \<Rightarrow> tx_throw (NotFound ''Ticket not found'')
     | Some l \<Rightarrow>
         if tk_status l = terminal
         then tx_return (l, findActiveJourneyFollowUpTicket org (tk_id l) (tk_visitId l) (tk_stepIndex l) s)
         else finalize_locked e org j l terminal accepts given)"

definition finalize_precheck :: "uuid \<Rightarrow> queue_ticket \<Rightarrow> journey_next option \<Rightarrow> unit qsvc" where
  "finalize_precheck org j pre =
     (if pre = None \<and> truthy_str (tk_visitId j)
      then svc_bind (with_tenant (getNextStepResolutionFailure org (journey_ctx_of j))) (\<lambda>failure.
        if failure \<noteq> None
        then svc_throw (BadRequest ''The next journey step could not be linked to a queue at this branch. Open the Flows page, re-save your flow template, then complete this step again.'')
        else svc_read (\<lambda>s.
          if isQueueJourneyManaged org (tk_queueId j) s \<and>
             \<not> truthy_str (resolveFlowTemplateId org (tk_branchId j) (Some (tk_queueId j)) None s)
          then svc_throw (BadRequest ''Multi-step journey is not configured for this branch. Link queues to a flow template or activate one on the Flows page, then complete the step again.'')
          else svc_return ()))
      else svc_return ())"

definition queue_gone :: "error \<Rightarrow> error" where
  "queue_gone err = (case err of
       NotFound m \<Rightarrow> if str_contains ''queue not found'' (to_lower m)
         then BadRequest ''A queue required for this journey step no longer exists. Re-save your flow on the Flows page, then complete this step again.''
         else err
     | _ \<Rightarrow> err)"

definition finalize_effects ::
  "qenv \<Rightarrow> uuid \<Rightarrow> uuid \<Rightarrow> string \<Rightarrow> queue_ticket \<times> queue_ticket option \<Rightarrow> unit qsvc" where
  "finalize_effects e org i terminal r =
     svc_bind (case snd r of None \<Rightarrow> svc_return () | Some n \<Rightarrow>
         svc_bind (emitTicketIssuedSideEffects e org n (tk_queueId n) (tk_branchId n)) (\<lambda>_.
         if tk_status n = ''called'' then emitTicketCalledNotification org n (tk_deskNumber n) else svc_return ()))
       (\<lambda>_. emitTransitionSideEffects org (fst r) i terminal)"

definition finalizeTicketWithJourneyAdvance ::
  "qenv \<Rightarrow> uuid \<Rightarrow> uuid \<Rightarrow> string \<Rightarrow> string option \<Rightarrow> (queue_ticket \<times> queue_ticket option) qsvc" where
  "finalizeTicketWithJourneyAdvance e org i terminal given = svc_read (\<lambda>s. case find_ticket org i s of
       None \<Rightarrow> svc_throw (NotFound ''Ticket not found'')
     | Some j \<Rightarrow>
         svc_bind (with_tenant (resolveNextJourneyStep org (journey_ctx_of j))) (\<lambda>pre.
         svc_bind (finalize_precheck org j pre) (\<lambda>_.
         svc_bind (svc_catch (with_tenant (finalize_tx e org j terminal (accepts_ref j s) given))
           (\<lambda>err. svc_throw (queue_gone err))) (\<lambda>r.
         svc_bind (finalize_effects e org i terminal r) (\<lambda>_. svc_return r)))))"

end
