(* ===== verification/StaffActions.thy ===== *)
theory StaffActions
  imports Finalize
begin

text \<open>
  \<^verbatim>\<open>TicketStaffActionService\<close>: what staff do with tickets. A transaction sees the rows as they are when
  it begins; the row locks of the code make transactions on one ticket follow each other.
\<close>

section \<open>Calling the next customer\<close>

definition staff_at_desk ::
  "string \<Rightarrow> uuid \<Rightarrow> uuid \<Rightarrow> uuid \<Rightarrow> string \<Rightarrow> action_surface \<Rightarrow> qdb \<Rightarrow> error + unit" where
  "staff_at_desk cannot org u branch desk surface s =
     (if surface = Workbench
      then if list_ex (\<lambda>x. se_branchId x = branch \<and> se_deskNumber x = Some desk \<and> se_surface x = ''journey'' \<and>
             se_endedAt x = None \<and> se_userId x = u) (q_sessions s) then Inr ()
           else Inl (BadRequest (cannot @ '': Sign in at desk '' @ desk @
             '' on the multi-step page first (workbench session required).''))
      else err_bind (assertClassicDeskAssignmentForBranch org u branch (Some desk) s) (\<lambda>_.
        case List.find (\<lambda>d. dk_branchId d = branch \<and> dk_number d = desk) (q_desks s) of
          Some d \<Rightarrow> if dk_status d = ''open'' then Inr ()
            else Inl (BadRequest (cannot @ '': Desk '' @ desk @ '' is currently closed.''))
        | None \<Rightarrow> Inl (BadRequest (cannot @ '': Desk '' @ desk @ '' is currently closed.''))))"

text \<open>The calling policy of the queue, once everything that forbids the call is excluded.\<close>

definition call_next_policy ::
  "qenv \<Rightarrow> uuid \<Rightarrow> uuid \<Rightarrow> string \<Rightarrow> uuid \<Rightarrow> action_surface \<Rightarrow> qdb \<Rightarrow> error + string" where
  "call_next_policy e org queue desk u surface s =
     err_bind (assertActionSurfaceForQueue e org queue surface s) (\<lambda>_. case find_queue org queue s of
       None \<Rightarrow> Inl (NotFound ''Queue not found'')
     | Some q \<Rightarrow>
         err_bind (assertStaffQueueActionAllowed e org queue (qu_branchId q) ''calling next'' CustomerIntake s) (\<lambda>_.
         let policy = resolveQueueCallingPolicy org queue s in
         if policy = ''manual_only'' \<or> policy = ''ready_then_manual''
         then Inl (BadRequest ''This queue requires manual call. Use \"Call\" on a specific ticket.'')
         else err_bind (staff_at_desk ''Cannot call next customer'' org u (qu_branchId q) desk surface s)
           (\<lambda>_. Inr policy)))"

text \<open>The waiting tickets of the live queue that the desk may take, and the order they are taken in.\<close>

definition waiting_here :: "uuid \<Rightarrow> uuid \<Rightarrow> time \<Rightarrow> bool \<Rightarrow> string \<Rightarrow> queue_ticket \<Rightarrow> bool" where
  "waiting_here org queue floor1 filtered desk t \<longleftrightarrow> tk_queueId t = queue \<and> tk_orgId t = org \<and>
     tk_status t = ''waiting'' \<and> floor1 \<le> tk_bookedAt t \<and>
     (filtered \<longrightarrow> tk_deskNumber t = Some desk \<or> tk_deskNumber t = None)"

definition eligible ::
  "uuid \<Rightarrow> uuid \<Rightarrow> time \<Rightarrow> bool \<Rightarrow> string \<Rightarrow> string \<Rightarrow> queue_ticket \<Rightarrow> bool" where
  "eligible org queue floor1 filtered desk policy t \<longleftrightarrow> waiting_here org queue floor1 filtered desk t \<and>
     (policy = ''ready_then_fifo'' \<longrightarrow> tk_readyAt t \<noteq> None)"

definition call_key :: "bool \<Rightarrow> string \<Rightarrow> queue_ticket \<Rightarrow> int \<times> int \<times> int \<times> time" where
  "call_key filtered desk t = (if filtered \<and> tk_deskNumber t \<noteq> Some desk then 1 else 0,
     if tk_position t = None then 1 else 0, patched (tk_position t) 0, tk_bookedAt t)"

definition next_in_line ::
  "uuid \<Rightarrow> uuid \<Rightarrow> time \<Rightarrow> bool \<Rightarrow> string \<Rightarrow> string \<Rightarrow> qdb \<Rightarrow> queue_ticket option" where
  "next_in_line org queue floor1 filtered desk policy s =
     (case sort_key (call_key filtered desk) (filter (eligible org queue floor1 filtered desk policy) (q_tickets s)) of
        [] \<Rightarrow> None | t # _ \<Rightarrow> Some t)"

definition nobody_waiting ::
  "uuid \<Rightarrow> uuid \<Rightarrow> time \<Rightarrow> bool \<Rightarrow> string \<Rightarrow> string \<Rightarrow> qdb \<Rightarrow> error" where
  "nobody_waiting org queue floor1 filtered desk policy s =
     (let here = filter (waiting_here org queue floor1 filtered desk) (q_tickets s) in
      if policy = ''ready_then_fifo'' \<and> here \<noteq> [] \<and> list_all (\<lambda>t. tk_readyAt t = None) here
      then BadRequest ''Customers are waiting, but none are marked Ready yet. Mark tickets as Ready before using Call Next.''
      else NotFound ''No waiting tickets in this queue'')"

definition mark_called :: "qenv \<Rightarrow> uuid \<Rightarrow> string \<Rightarrow> queue_ticket \<Rightarrow> queue_ticket" where
  "mark_called e u desk t = t\<lparr>tk_status := ''called'', tk_calledAt := Some (qe_now e),
     tk_servedByUserId := Some u, tk_deskNumber := Some desk\<rparr>"

definition call_next_tx ::
  "qenv \<Rightarrow> uuid \<Rightarrow> uuid \<Rightarrow> string \<Rightarrow> uuid \<Rightarrow> bool \<Rightarrow> action_surface \<Rightarrow> time \<Rightarrow> queue_ticket qtx" where
  "call_next_tx e org queue desk u filtered surface floor1 = tx_read (\<lambda>s.
     tx_bind (tx_lift (call_next_policy e org queue desk u surface s)) (\<lambda>policy.
     case next_in_line org queue floor1 filtered desk policy s of
       None \<Rightarrow> tx_throw (nobody_waiting org queue floor1 filtered desk policy s)
     | Some t \<Rightarrow> tx_update_one q_tickets q_tickets_update (\<lambda>x. tk_id x = tk_id t)
         (\<lambda>x. (mark_called e u desk x)\<lparr>tk_position := None\<rparr>)))"

definition called_effects :: "uuid \<Rightarrow> uuid \<Rightarrow> string \<Rightarrow> queue_ticket \<Rightarrow> unit qsvc" where
  "called_effects org queue desk t =
     svc_bind (publish_ticket queue (tk_branchId t) org ''called'' (tk_id t)) (\<lambda>_.
     svc_bind (q_log (InvalidateStats org (tk_branchId t) [queue])) (\<lambda>_.
     svc_bind (q_log (DropCache (ticket_public_key (tk_id t)))) (\<lambda>_.
     svc_bind (if canSendTransactionalSms t then emitTicketCalledNotification org t (Some desk) else svc_return ())
       (\<lambda>_. q_log (NotifyAlmostReady org queue)))))"

definition callNext ::
  "qenv \<Rightarrow> uuid \<Rightarrow> uuid \<Rightarrow> string \<Rightarrow> uuid \<Rightarrow> bool \<Rightarrow> action_surface \<Rightarrow> queue_ticket qsvc" where
  "callNext e org queue desk u filtered surface =
     svc_bind (svc_get (liveQueueBookedAtFloor e org queue)) (\<lambda>floor1.
     svc_bind (with_tenant (call_next_tx e org queue desk u filtered surface floor1)) (\<lambda>t.
     svc_bind (called_effects org queue desk t) (\<lambda>_. svc_return t)))"

section \<open>Calling a customer\<close>

definition call_specific_target ::
  "qenv \<Rightarrow> uuid \<Rightarrow> uuid \<Rightarrow> action_surface \<Rightarrow> qdb \<Rightarrow> error + queue_ticket" where
  "call_specific_target e org i surface s =
     err_bind (assertActionSurfaceForTicket e org i surface s) (\<lambda>_. case find_ticket org i s of
       None \<Rightarrow> Inl (NotFound ''Ticket not found'')
     | Some t \<Rightarrow>
         if tk_status t \<noteq> ''waiting''
         then Inl (BadRequest (''Cannot call ticket '' @ [char_of (226 :: nat), char_of (128 :: nat), char_of (148 :: nat)] @
           '' current status is \"'' @ tk_status t @ ''\" (must be \"waiting\")''))
         else Inr t)"

definition call_specific_checks ::
  "qenv \<Rightarrow> uuid \<Rightarrow> queue_ticket \<Rightarrow> string \<Rightarrow> uuid \<Rightarrow> action_surface \<Rightarrow> time \<Rightarrow> qdb \<Rightarrow> error + unit" where
  "call_specific_checks e org t desk u surface floor1 s =
     err_bind (assertTicketInLiveQueue (tk_bookedAt t) floor1) (\<lambda>_. case find_queue org (tk_queueId t) s of
       None \<Rightarrow> Inl (NotFound ''Queue not found'')
     | Some q \<Rightarrow>
         err_bind (assertStaffQueueActionAllowed e org (tk_queueId t) (qu_branchId q) ''calling tickets'' CustomerIntake s)
           (\<lambda>_. let policy = resolveQueueCallingPolicy org (tk_queueId t) s in
         if (policy = ''fifo'' \<or> policy = ''ready_then_fifo'') \<and> \<not> userCanUseFifoManualCall org u (qu_branchId q) s
         then Inl (BadRequest ''This step uses Call Next only. Use Call Next instead of calling a specific customer.'')
         else if policy = ''ready_then_manual'' \<and> tk_readyAt t = None
         then Inl (BadRequest ''Ticket must be marked ready before calling'')
         else staff_at_desk ''Cannot call ticket'' org u (qu_branchId q) desk surface s))"

definition call_specific_tx ::
  "qenv \<Rightarrow> uuid \<Rightarrow> uuid \<Rightarrow> string \<Rightarrow> uuid \<Rightarrow> action_surface \<Rightarrow> queue_ticket qtx" where
  "call_specific_tx e org i desk u surface = tx_read (\<lambda>s.
     tx_bind (tx_lift (call_specific_target e org i surface s)) (\<lambda>t.
     tx_bind (tx_get (liveQueueBookedAtFloor e org (tk_queueId t))) (\<lambda>floor1.
     tx_bind (tx_lift (call_specific_checks e org t desk u surface floor1 s)) (\<lambda>_.
     tx_update_one q_tickets q_tickets_update (\<lambda>x. tk_id x = i) (mark_called e u desk)))))"

definition callSpecific ::
  "qenv \<Rightarrow> uuid \<Rightarrow> uuid \<Rightarrow> string \<Rightarrow> uuid \<Rightarrow> action_surface \<Rightarrow> queue_ticket qsvc" where
  "callSpecific e org i desk u surface =
     svc_bind (with_tenant (call_specific_tx e org i desk u surface)) (\<lambda>t.
     svc_bind (called_effects org (tk_queueId t) desk t) (\<lambda>_. svc_return t))"

section \<open>Moving to the front\<close>

definition first_position :: "uuid \<Rightarrow> queue_ticket \<Rightarrow> time \<Rightarrow> qdb \<Rightarrow> int option" where
  "first_position org t floor1 s =
     (case sort (List.map_filter tk_position (filter (\<lambda>x. tk_orgId x = org \<and> tk_queueId x = tk_queueId t \<and>
         tk_status x = ''waiting'' \<and> floor1 \<le> tk_bookedAt x \<and> tk_id x \<noteq> tk_id t) (q_tickets s))) of
        [] \<Rightarrow> None | p # _ \<Rightarrow> Some p)"

definition bring_to_first_tx :: "qenv \<Rightarrow> uuid \<Rightarrow> uuid \<Rightarrow> time \<Rightarrow> queue_ticket qtx" where
  "bring_to_first_tx e org i floor1 = tx_read (\<lambda>s. case find_ticket org i s of
       None \<Rightarrow> tx_throw (NotFound ''Ticket not found'')
     | Some t \<Rightarrow>
         if tk_status t \<noteq> ''waiting'' then tx_throw (BadRequest ''Only waiting tickets can be moved to first.'')
         else tx_bind (tx_lift (assertTicketInLiveQueue (tk_bookedAt t) floor1)) (\<lambda>_.
         case find_queue org (tk_queueId t) s of
           None \<Rightarrow> tx_throw (NotFound ''Queue not found'')
         | Some q \<Rightarrow>
             tx_bind (tx_lift (assertStaffQueueActionAllowed e org (tk_queueId t) (qu_branchId q)
               ''reordering tickets'' CustomerIntake s)) (\<lambda>_.
             tx_update_one q_tickets q_tickets_update (\<lambda>x. tk_id x = i) (\<lambda>x. x\<lparr>tk_position :=
               Some (case first_position org t floor1 s of Some p \<Rightarrow> p - 1 | None \<Rightarrow> - 1)\<rparr>))))"

definition bringToFirst :: "qenv \<Rightarrow> uuid \<Rightarrow> uuid \<Rightarrow> queue_ticket qsvc" where
  "bringToFirst e org i = svc_read (\<lambda>s. case find_ticket org i s of
       None \<Rightarrow> svc_throw (NotFound ''Ticket not found'')
     | Some peek \<Rightarrow>
         svc_bind (svc_get (liveQueueBookedAtFloor e org (tk_queueId peek))) (\<lambda>floor1.
         svc_bind (with_tenant (bring_to_first_tx e org i floor1)) (\<lambda>t.
         svc_bind (publish_ticket (tk_queueId t) (tk_branchId t) org ''prioritized'' i) (\<lambda>_.
         svc_bind (q_log (InvalidateStats org (tk_branchId t) [tk_queueId t])) (\<lambda>_.
         svc_bind (q_log (Activity org ''ticket.bring_to_first'' (tk_id t))) (\<lambda>_.
         svc_bind (q_log (AuditRow org ''update'' ''tickets'' (tk_id t))) (\<lambda>_. svc_return t)))))))"

section \<open>Ready\<close>

definition mark_ready_tx :: "qenv \<Rightarrow> uuid \<Rightarrow> uuid \<Rightarrow> uuid \<Rightarrow> action_surface \<Rightarrow> queue_ticket qtx" where
  "mark_ready_tx e org i u surface = tx_read (\<lambda>s.
     tx_bind (tx_lift (assertActionSurfaceForTicket e org i surface s)) (\<lambda>_. case find_ticket org i s of
       None \<Rightarrow> tx_throw (NotFound ''Ticket not found'')
     | Some t \<Rightarrow>
         if tk_status t \<noteq> ''waiting'' then tx_throw (BadRequest ''Only waiting tickets can be marked ready'')
         else (case find_queue org (tk_queueId t) s of
           None \<Rightarrow> tx_throw (NotFound ''Queue not found'')
         | Some q \<Rightarrow>
             tx_bind (tx_lift (assertStaffQueueActionAllowed e org (tk_queueId t) (qu_branchId q)
               ''marking tickets ready'' CustomerIntake s)) (\<lambda>_.
             if \<not> isReadyGatedPolicy (Some (resolveQueueCallingPolicy org (tk_queueId t) s))
             then tx_throw (BadRequest ''This queue does not use readiness gating'')
             else tx_bind (if surface = Classic
                 then tx_lift (assertClassicDeskAssignmentForBranch org u (tk_branchId t) None s) else tx_return ()) (\<lambda>_.
               tx_update_one q_tickets q_tickets_update (\<lambda>x. tk_id x = i)
                 (\<lambda>x. x\<lparr>tk_readyAt := Some (patched (tk_readyAt t) (qe_now e))\<rparr>))))))"

definition markReady :: "qenv \<Rightarrow> uuid \<Rightarrow> uuid \<Rightarrow> uuid \<Rightarrow> action_surface \<Rightarrow> queue_ticket qsvc" where
  "markReady e org i u surface =
     svc_bind (with_tenant (mark_ready_tx e org i u surface)) (\<lambda>t.
     svc_bind (publish_ticket (tk_queueId t) (tk_branchId t) org ''ready'' i) (\<lambda>_.
     svc_bind (q_log (InvalidateStats org (tk_branchId t) [tk_queueId t])) (\<lambda>_.
     svc_bind (q_log (Activity org ''ticket.mark_ready'' (tk_id t))) (\<lambda>_. svc_return t))))"

section \<open>Serving, completing, missing\<close>

text \<open>The ticket of an action on the surface it belongs to, by staff assigned to its desk.\<close>

definition acting_ticket :: "qenv \<Rightarrow> uuid \<Rightarrow> uuid \<Rightarrow> uuid \<Rightarrow> action_surface \<Rightarrow> qdb \<Rightarrow> error + queue_ticket" where
  "acting_ticket e org i u surface s =
     err_bind (assertActionSurfaceForTicket e org i surface s) (\<lambda>_. case find_ticket org i s of
       None \<Rightarrow> Inl (NotFound ''Ticket not found'')
     | Some t \<Rightarrow>
         if surface = Classic
         then err_bind (assertClassicDeskAssignmentForBranch org u (tk_branchId t) (tk_deskNumber t) s) (\<lambda>_. Inr t)
         else Inr t)"

definition serve :: "qenv \<Rightarrow> uuid \<Rightarrow> uuid \<Rightarrow> uuid \<Rightarrow> action_surface \<Rightarrow> queue_ticket qsvc" where
  "serve e org i u surface = svc_read (\<lambda>s.
     svc_bind (svc_lift (acting_ticket e org i u surface s)) (\<lambda>cur.
     if tk_status cur = ''serving'' then svc_return cur
     else (let again = ticketMetadataFlag (tk_flags cur) METADATA_RESUMMON_SMS_ON_SERVE in
       svc_bind (transitionTicket e org i [''called''] ''serving'' (empty_patch\<lparr>tp_servedAt := Some (Some (qe_now e)),
         tp_servedByUserId := Some (Some u),
         tp_flags := (if again then Some (clearTicketMetadataFlag (tk_flags cur) METADATA_RESUMMON_SMS_ON_SERVE)
                      else None)\<rparr>)) (\<lambda>t.
       svc_bind (if again then svc_read (\<lambda>v. case find_ticket org i v of
           Some n \<Rightarrow> if canSendTransactionalSms n then emitTicketCalledNotification org n None else svc_return ()
         | None \<Rightarrow> svc_return ()) else svc_return ()) (\<lambda>_. svc_return t)))))"

definition complete ::
  "qenv \<Rightarrow> uuid \<Rightarrow> uuid \<Rightarrow> uuid \<Rightarrow> string option \<Rightarrow> action_surface \<Rightarrow> (queue_ticket \<times> queue_ticket option) qsvc" where
  "complete e org i u given surface = svc_read (\<lambda>s.
     svc_bind (svc_lift (acting_ticket e org i u surface s)) (\<lambda>_.
     finalizeTicketWithJourneyAdvance e org i ''completed'' given))"

definition noShow ::
  "qenv \<Rightarrow> uuid \<Rightarrow> uuid \<Rightarrow> uuid \<Rightarrow> action_surface \<Rightarrow> (queue_ticket \<times> queue_ticket option) qsvc" where
  "noShow e org i u surface = svc_read (\<lambda>s.
     svc_bind (svc_lift (acting_ticket e org i u surface s)) (\<lambda>cur.
     if tk_status cur = ''no_show'' then svc_return (cur, None)
     else if tk_status cur = ''completed''
     then svc_return (cur, findActiveJourneyFollowUpTicket org i (tk_visitId cur) (tk_stepIndex cur) s)
     else svc_bind (with_tenant (transitionTicketCore e org i [''called'', ''serving''] ''no_show''
         (empty_patch\<lparr>tp_completedAt := Some (qe_now e)\<rparr>))) (\<lambda>t.
       svc_bind (emitTransitionSideEffects org t i ''no_show'') (\<lambda>_. svc_return (t, None)))))"

section \<open>Cancelling\<close>

text \<open>A reason that is missing is written out as the word for it.\<close>

definition cancel_note :: "string option \<Rightarrow> string option \<Rightarrow> string" where
  "cancel_note note reason = (if truthy_str note then the note @ '' | '' else []) @
     ''Cancelled: '' @ patched reason ''undefined''"

definition cancel_ticket_tx ::
  "qenv \<Rightarrow> uuid \<Rightarrow> uuid \<Rightarrow> uuid option \<Rightarrow> string option \<Rightarrow> action_surface \<Rightarrow> queue_ticket qtx" where
  "cancel_ticket_tx e org i actor reason surface = tx_read (\<lambda>s.
     tx_bind (tx_lift (assertActionSurfaceForTicket e org i surface s)) (\<lambda>_. case find_ticket org i s of
       None \<Rightarrow> tx_throw (NotFound ''Ticket not found'')
     | Some t \<Rightarrow>
         tx_bind (if surface = Classic \<and> truthy_str actor
           then tx_lift (assertClassicDeskAssignmentForBranch org (the actor) (tk_branchId t) (tk_deskNumber t) s)
           else tx_return ()) (\<lambda>_.
         tx_bind (tx_lift (assertStaffQueueActionAllowed e org (tk_queueId t) (tk_branchId t)
           ''cancelling tickets'' QueueStatusOnly s)) (\<lambda>_.
         if tk_status t \<noteq> ''waiting'' \<and> tk_status t \<noteq> ''called''
         then tx_throw (BadRequest (''Cannot cancel ticket in status: '' @ tk_status t))
         else tx_update_one q_tickets q_tickets_update (\<lambda>x. tk_id x = i) (\<lambda>x. x\<lparr>tk_status := ''cancelled'',
           tk_completedAt := Some (qe_now e), tk_note := Some (cancel_note (tk_note t) reason)\<rparr>)))))"

definition cancel ::
  "qenv \<Rightarrow> uuid \<Rightarrow> uuid \<Rightarrow> uuid option \<Rightarrow> string option \<Rightarrow> action_surface \<Rightarrow> queue_ticket qsvc" where
  "cancel e org i actor reason surface =
     svc_bind (with_tenant (cancel_ticket_tx e org i actor reason surface)) (\<lambda>t.
     svc_bind (q_log (Publish [''queue:'' @ tk_queueId t, ''org:'' @ org] ''ticket.cancelled'' i)) (\<lambda>_.
     svc_bind (q_log (InvalidateStats org (tk_branchId t) [tk_queueId t])) (\<lambda>_.
     svc_bind (q_log (RefreshVisit org (tk_visitId t))) (\<lambda>_.
     svc_bind (q_log (Activity org ''ticket.cancel'' (tk_id t))) (\<lambda>_.
     svc_bind (q_log (AuditRow org ''update'' ''tickets'' (tk_id t))) (\<lambda>_. svc_return t))))))"

section \<open>Transferring\<close>

text \<open>The queue a ticket goes to and its step there: a visit goes to the next step of its flow.\<close>

definition transfer_next :: "uuid \<Rightarrow> queue_ticket \<Rightarrow> qdb \<Rightarrow> flow_step_row option" where
  "transfer_next org t s =
     (let own = Option.bind (List.find (\<lambda>q. qu_id q = tk_queueId t) (q_queues s)) qu_flowTemplateId;
          template = (if own \<noteq> None then own else map_option fl_id (List.find (\<lambda>f. fl_orgId f = org \<and>
            fl_branchId f = tk_branchId t \<and> fl_isActive f) (q_flowTemplates s)));
          steps = sort_key fs_stepIndex (filter (\<lambda>f. fs_orgId f = org \<and> Some (fs_templateId f) = template) (q_flowSteps s));
          cur = (case tk_stepIndex t of Some n \<Rightarrow> n
            | None \<Rightarrow> (case List.find (\<lambda>f. fs_queueId f = Some (tk_queueId t)) steps of
                Some f \<Rightarrow> fs_stepIndex f | None \<Rightarrow> 0))
      in if truthy_str (tk_visitId t) \<and> truthy_str template
         then List.find (\<lambda>f. cur < fs_stepIndex f) steps else None)"

definition transfer_target :: "uuid \<Rightarrow> queue_ticket \<Rightarrow> uuid option \<Rightarrow> qdb \<Rightarrow> error + (uuid \<times> int option)" where
  "transfer_target org t target s = (case transfer_next org t s of
       None \<Rightarrow> if truthy_str target then Inr (the target, None) else Inl (BadRequest ''Target queue is required'')
     | Some f \<Rightarrow>
         if truthy_str target \<and> target \<noteq> fs_queueId f
         then Inl (BadRequest ''Target queue must match the next step in the active flow template'')
         else (let q = (if target \<noteq> None then target else fs_queueId f) in
           if truthy_str q then Inr (the q, Some (fs_stepIndex f)) else Inl (BadRequest ''Target queue is required'')))"

definition transfer_checks ::
  "qenv \<Rightarrow> uuid \<Rightarrow> uuid \<Rightarrow> uuid option \<Rightarrow> uuid \<Rightarrow> action_surface \<Rightarrow> qdb \<Rightarrow> error + (queue_ticket \<times> queue_row \<times> int option)" where
  "transfer_checks e org i target u surface s =
     err_bind (acting_ticket e org i u surface s) (\<lambda>t.
     err_bind (assertStaffQueueActionAllowed e org (tk_queueId t) (tk_branchId t) ''transferring tickets''
       CustomerIntake s) (\<lambda>_.
     err_bind (transfer_target org t target s) (\<lambda>(queue, step).
     case find_queue org queue s of
       None \<Rightarrow> Inl (NotFound ''Target queue not found'')
     | Some q \<Rightarrow> Inr (t, q, step))))"

definition transfer_ref ::
  "uuid \<Rightarrow> queue_ticket \<Rightarrow> queue_row \<Rightarrow> int option \<Rightarrow> bool \<Rightarrow> string option \<Rightarrow> string option qtx" where
  "transfer_ref org t q step accepts given =
     tx_bind (if truthy_str (tk_visitId t) \<and> journeyStepAcceptsExternalRef step (qu_stepRole q)
       then if truthy_str (trimmed given) then resolveVisitExternalRef org (the (tk_visitId t)) given
            else if accepts then resolveVisitExternalRef org (the (tk_visitId t)) (tk_externalRef t)
            else tx_return None
       else tx_return None) (\<lambda>ref1.
     if truthy_str (tk_visitId t) \<and> accepts \<and> \<not> truthy_str ref1 then tx_throw ref_missing else tx_return ref1)"

definition transferred_visit_ticket ::
  "qenv \<Rightarrow> uuid \<Rightarrow> queue_ticket \<Rightarrow> queue_row \<Rightarrow> int option \<Rightarrow> string \<Rightarrow> string option \<Rightarrow> string option \<Rightarrow> queue_ticket" where
  "transferred_visit_ticket e org t q step number desk ref1 =
     t\<lparr>tk_id := qe_uuid e ''tickets'', tk_orgId := org, tk_queueId := qu_id q, tk_serviceId := qu_serviceId q,
       tk_displayNumber := number, tk_status := (if truthy_str desk then ''called'' else ''waiting''),
       tk_position := None, tk_deskNumber := desk, tk_servedByUserId := None,
       tk_externalRef := (if truthy_str ref1 then ref1 else None),
       tk_stepIndex := (if step \<noteq> None then step else map_option (\<lambda>n. n + 1) (tk_stepIndex t)),
       tk_readyAt := None, tk_bookedAt := qe_now e,
       tk_calledAt := (if truthy_str desk then Some (qe_now e) else None), tk_servedAt := None,
       tk_completedAt := None, tk_flowTemplateId := None, tk_waitMinutes := None, tk_serviceMinutes := None,
       tk_customerEmail := None, tk_legalHold := False, tk_flags := []\<rparr>"

definition moved_ticket ::
  "qenv \<Rightarrow> queue_row \<Rightarrow> int option \<Rightarrow> string \<Rightarrow> string option \<Rightarrow> string option \<Rightarrow> queue_ticket \<Rightarrow> queue_ticket" where
  "moved_ticket e q step number desk ref1 t =
     t\<lparr>tk_queueId := qu_id q, tk_stepIndex := (if step \<noteq> None then step else tk_stepIndex t), tk_readyAt := None,
       tk_displayNumber := number, tk_status := (if truthy_str desk then ''called'' else ''waiting''),
       tk_calledAt := (if truthy_str desk then Some (qe_now e) else None), tk_servedAt := None,
       tk_servedByUserId := None, tk_deskNumber := desk,
       tk_externalRef := (if truthy_str ref1 then ref1 else tk_externalRef t)\<rparr>"

definition transfer_tx ::
  "qenv \<Rightarrow> uuid \<Rightarrow> uuid \<Rightarrow> uuid option \<Rightarrow> uuid \<Rightarrow> string option \<Rightarrow> string option \<Rightarrow> action_surface \<Rightarrow>
   (queue_ticket \<times> queue_ticket) qtx" where
  "transfer_tx e org i target u desk given surface = tx_read (\<lambda>s.
     tx_bind (tx_lift (transfer_checks e org i target u surface s)) (\<lambda>(t, q, step).
     tx_bind (reserveQueueDisplayNumber e org (qu_id q) True) (\<lambda>(_, number).
     tx_bind (transfer_ref org t q step (accepts_ref t s) given) (\<lambda>ref1.
     tx_bind (if truthy_str (tk_visitId t)
       then tx_bind (tx_update_one q_tickets q_tickets_update (\<lambda>x. tk_id x = i) (\<lambda>x. x\<lparr>tk_status := ''completed'',
           tk_completedAt := Some (qe_now e), tk_externalRef := (if truthy_str ref1 then ref1 else tk_externalRef x)\<rparr>)) (\<lambda>_.
         create_ticket (transferred_visit_ticket e org t q step number desk ref1))
       else tx_update_one q_tickets q_tickets_update (\<lambda>x. tk_id x = i) (moved_ticket e q step number desk ref1)) (\<lambda>n.
     tx_return (t, n))))))"

text \<open>The events are sent by a timer that the transaction sets; the audit follows the transaction.\<close>

definition transfer ::
  "qenv \<Rightarrow> uuid \<Rightarrow> uuid \<Rightarrow> uuid option \<Rightarrow> uuid \<Rightarrow> string option \<Rightarrow> string option \<Rightarrow> action_surface \<Rightarrow> queue_ticket qsvc" where
  "transfer e org i target u desk given surface =
     svc_bind (with_tenant (transfer_tx e org i target u desk given surface)) (\<lambda>(t, n).
     svc_bind (q_log (Publish [''queue:'' @ tk_queueId t] ''ticket.transferred_out'' (tk_id n))) (\<lambda>_.
     svc_bind (q_log (Publish [''queue:'' @ tk_queueId n] ''ticket.transferred_in'' (tk_id n))) (\<lambda>_.
     svc_bind (q_log (Publish [''org:'' @ org] ''ticket.transferred'' (tk_id n))) (\<lambda>_.
     svc_bind (q_log (InvalidateStats org (tk_branchId t) [tk_queueId t, tk_queueId n])) (\<lambda>_.
     svc_bind (if truthy_str (tk_visitId t) then q_log (RefreshVisit org (tk_visitId t)) else svc_return ()) (\<lambda>_.
     svc_bind (q_log (Activity org ''ticket.transfer'' (tk_id n))) (\<lambda>_.
     svc_bind (q_log (AuditRow org ''update'' ''tickets'' (tk_id n))) (\<lambda>_. svc_return n))))))))"

section \<open>Recalling, changing desks\<close>

definition recall_patch :: "qenv \<Rightarrow> queue_ticket \<Rightarrow> string option \<Rightarrow> ticket_patch" where
  "recall_patch e cur desk =
     empty_patch\<lparr>tp_calledAt := Some (qe_now e),
       tp_servedAt := (if tk_status cur = ''serving'' then Some None else None),
       tp_servedByUserId := (if tk_status cur = ''serving'' then Some None else None),
       tp_flags := (if tk_status cur = ''serving''
         then Some (mergeTicketMetadata (tk_flags cur) METADATA_RESUMMON_SMS_ON_SERVE)
         else if ticketMetadataFlag (tk_flags cur) METADATA_RESUMMON_SMS_ON_SERVE
         then Some (clearTicketMetadataFlag (tk_flags cur) METADATA_RESUMMON_SMS_ON_SERVE) else None),
       tp_deskNumber := (if truthy_str desk then desk else None)\<rparr>"

definition recall ::
  "qenv \<Rightarrow> uuid \<Rightarrow> uuid \<Rightarrow> uuid \<Rightarrow> action_surface \<Rightarrow> string option \<Rightarrow> queue_ticket qsvc" where
  "recall e org i u surface desk = svc_read (\<lambda>s.
     svc_bind (svc_lift (acting_ticket e org i u surface s)) (\<lambda>cur.
     svc_bind (transitionTicket e org i [''called'', ''serving''] ''called'' (recall_patch e cur desk)) (\<lambda>t.
     svc_bind (if \<not> canSendTransactionalSms t then svc_return ()
       else if tk_status cur = ''serving'' then q_log (SmsRecalled org (tk_id t))
       else (let d = (if tk_deskNumber t \<noteq> None then tk_deskNumber t else desk) in
         emitTicketCalledNotification org t (if truthy_str d then d else None))) (\<lambda>_. svc_return t))))"

definition change_desk_tx :: "qenv \<Rightarrow> uuid \<Rightarrow> uuid \<Rightarrow> string \<Rightarrow> uuid \<Rightarrow> action_surface \<Rightarrow> queue_ticket qtx" where
  "change_desk_tx e org i desk u surface = tx_read (\<lambda>s.
     tx_bind (tx_lift (acting_ticket e org i u surface s)) (\<lambda>t.
     tx_bind (tx_lift (assertStaffQueueActionAllowed e org (tk_queueId t) (tk_branchId t)
       ''changing desk assignments'' QueueStatusOnly s)) (\<lambda>_.
     if tk_status t \<notin> {''called'', ''serving''}
     then tx_throw (BadRequest ''Only active (called/serving) tickets can be reassigned to another desk'')
     else tx_update_one q_tickets q_tickets_update (\<lambda>x. tk_id x = i) (\<lambda>x. x\<lparr>tk_deskNumber := Some desk\<rparr>))))"

definition changeDesk :: "qenv \<Rightarrow> uuid \<Rightarrow> uuid \<Rightarrow> string \<Rightarrow> uuid \<Rightarrow> action_surface \<Rightarrow> queue_ticket qsvc" where
  "changeDesk e org i desk u surface =
     svc_bind (with_tenant (change_desk_tx e org i desk u surface)) (\<lambda>t.
     svc_bind (q_log (Publish [''queue:'' @ tk_queueId t, ''org:'' @ org] ''ticket.desk_changed'' i)) (\<lambda>_.
     svc_bind (q_log (Activity org ''ticket.change_desk'' i)) (\<lambda>_.
     svc_bind (q_log (AuditRow org ''update'' ''tickets'' i)) (\<lambda>_. svc_return t))))"

end
