(* ===== verification/TicketRuns.thy ===== *)
theory TicketRuns
  imports StaffActions
begin

text \<open>
  How the operations on tickets carry an invariant of the rows. The locale states what each way of
  writing a ticket must keep; from that, every operation of the ticket services keeps it for the table.
\<close>

named_theorems keeps_intros

section \<open>A transaction from one state\<close>

definition keeps :: "('s \<Rightarrow> bool) \<Rightarrow> ('s, 'a) tx \<Rightarrow> 's \<Rightarrow> bool" where
  "keeps I t s \<longleftrightarrow> (\<forall>a s'. I s \<longrightarrow> t s = Inr (a, s') \<longrightarrow> I s')"

lemma keeps_preserves: "(\<And>s. keeps I t s) \<Longrightarrow> preserves_tx I t"
  by (simp add: keeps_def preserves_tx_def)

lemma preserves_keeps: "preserves_tx I t \<Longrightarrow> keeps I t s"
  by (simp add: keeps_def preserves_tx_def)

lemma keeps_read [keeps_intros]: "keeps I (f s) s \<Longrightarrow> keeps I (tx_read f) s"
  by (simp add: keeps_def tx_read_def)

lemma keeps_throw [keeps_intros]: "keeps I (tx_throw err) s"
  by (simp add: keeps_def tx_throw_def)

lemma keeps_return [keeps_intros]: "keeps I (tx_return a) s"
  by (simp add: keeps_def tx_return_def)

lemma keeps_lift [keeps_intros]:
  assumes "\<And>a. r = Inr a \<Longrightarrow> keeps I (f a) s"
  shows "keeps I (tx_bind (tx_lift r) f) s"
proof (cases r)
  case (Inl err)
  then show ?thesis by (simp add: keeps_def tx_bind_def tx_lift_def tx_throw_def)
next
  case (Inr a)
  then have "keeps I (f a) s" by (rule assms)
  with Inr show ?thesis by (simp add: keeps_def tx_bind_def tx_lift_def tx_return_def)
qed

lemma keeps_if [keeps_intros]:
  "(b \<Longrightarrow> keeps I m s) \<Longrightarrow> (\<not> b \<Longrightarrow> keeps I n s) \<Longrightarrow> keeps I (if b then m else n) s"
  by simp

lemma keeps_case_option [keeps_intros]:
  assumes "v = None \<Longrightarrow> keeps I m s" and "\<And>x. v = Some x \<Longrightarrow> keeps I (n x) s"
  shows "keeps I (case v of None \<Rightarrow> m | Some x \<Rightarrow> n x) s"
proof (cases v)
  case None
  with assms(1) show ?thesis by simp
next
  case (Some x)
  then have "keeps I (n x) s" by (rule assms(2))
  with Some show ?thesis by simp
qed

lemma keeps_case_prod [keeps_intros]:
  assumes "\<And>x y. v = (x, y) \<Longrightarrow> keeps I (n x y) s"
  shows "keeps I (case v of (x, y) \<Rightarrow> n x y) s"
proof (cases v)
  case (Pair x y)
  then have "keeps I (n x y) s" by (rule assms)
  with Pair show ?thesis by simp
qed

lemma keeps_let [keeps_intros]: "keeps I (f v) s \<Longrightarrow> keeps I (let x = v in f x) s"
  by simp

lemma keeps_lift_if [keeps_intros]:
  "keeps I (f ()) s \<Longrightarrow> keeps I (tx_bind (if b then tx_lift r else tx_return ()) f) s"
  by (cases r) (simp_all add: keeps_def tx_bind_def tx_lift_def tx_throw_def tx_return_def)

lemma keeps_get:
  assumes "I s \<Longrightarrow> I (snd (g s))" and "keeps I (f (fst (g s))) (snd (g s))"
  shows "keeps I (tx_bind (tx_get g) f) s"
proof (unfold keeps_def, intro allI impI)
  fix a s' assume "I s" and run: "tx_bind (tx_get g) f s = Inr (a, s')"
  from run have "f (fst (g s)) (snd (g s)) = Inr (a, s')"
    by (cases "g s") (simp add: tx_bind_def tx_get_def)
  with assms(1) [OF \<open>I s\<close>] assms(2) show "I s'" by (simp add: keeps_def)
qed

lemma preserves_tx_lift [pres_intros]: "preserves_tx I (tx_lift r)"
  by (cases r) (auto simp: preserves_tx_def tx_lift_def tx_throw_def tx_return_def)

lemma preserves_svc_lift [pres_intros]: "preserves I (svc_lift r)"
  by (cases r) (auto simp: preserves_def svc_lift_def svc_throw_def svc_return_def)

lemma preserves_lift_bind:
  assumes "\<And>a. r = Inr a \<Longrightarrow> preserves I (f a)"
  shows "preserves I (svc_bind (svc_lift r) f)"
proof (cases r)
  case (Inl err)
  then show ?thesis by (simp add: preserves_def svc_bind_def svc_lift_def svc_throw_def)
next
  case (Inr a)
  then have "preserves I (f a)" by (rule assms)
  with Inr show ?thesis by (simp add: preserves_def svc_bind_def svc_lift_def svc_return_def)
qed

lemma preserves_tx_catch [pres_intros]: "preserves_tx I t \<Longrightarrow> preserves_tx I (tx_catch t f)"
  by (auto simp: preserves_tx_def tx_catch_def split: sum.splits)

lemma preserves_svc_get: "(\<And>s. I s \<Longrightarrow> I (snd (g s))) \<Longrightarrow> preserves I (svc_get g)"
  by (auto simp: preserves_def svc_get_def split_def)

lemmas step_writes [pres_intros] = preserves_tx_blind [where upd = q_flowSteps_update]

lemma keeps_update_one:
  assumes "\<And>r. I s \<Longrightarrow> List.find P (tab s) = Some r \<Longrightarrow> I (upd (update_rows P f) s)"
  shows "keeps I (tx_update_one tab upd P f) s"
  using assms by (auto simp: keeps_def tx_update_one_def split: option.splits)

section \<open>Operations that read tickets only\<close>

text \<open>What is written besides tickets: rows of other tables, the caches, the log of effects.\<close>

definition blind_beside_tickets :: "(qdb \<Rightarrow> bool) \<Rightarrow> bool" where
  "blind_beside_tickets I \<longleftrightarrow> blind q_contacts_update I \<and> blind q_consents_update I \<and> blind q_queues_update I \<and>
     blind q_visits_update I \<and> blind q_flowSteps_update I \<and> blind q_redis_update I \<and>
     blind q_limitsCache_update I \<and> blind q_effects_update I"

lemma blind_besideD:
  assumes "blind_beside_tickets I"
  shows "blind q_contacts_update I" "blind q_consents_update I" "blind q_queues_update I"
    "blind q_visits_update I" "blind q_flowSteps_update I" "blind q_redis_update I"
    "blind q_limitsCache_update I" "blind q_effects_update I"
  using assms by (simp_all add: blind_beside_tickets_def)

text \<open>The zone of a queue is read through the cache.\<close>

definition redis_only :: "qdb \<Rightarrow> qdb \<Rightarrow> bool" where
  "redis_only s t \<longleftrightarrow> (\<exists>r. t = s\<lparr>q_redis := r\<rparr>)"

lemma redis_only_refl [simp]: "redis_only s s"
  unfolding redis_only_def by (rule exI [of _ "q_redis s"]) simp

lemma redis_only_set: "redis_only s t \<Longrightarrow> redis_only s (q_cache_set now k v ttl t)"
  by (auto simp: redis_only_def q_cache_set_def)

lemma through_cache_redis:
  assumes "redis_only s (snd (load s))"
  shows "redis_only s (snd (through_cache e key load s))"
  using assms redis_only_set [OF assms]
  by (cases "load s") (simp add: through_cache_def Let_def split: option.splits)

lemma resolveOrgIanaZone_redis: "redis_only s (snd (resolveOrgIanaZone e org s))"
  unfolding resolveOrgIanaZone_def by (rule through_cache_redis) simp

lemma resolveBranchIanaZone_redis: "redis_only s (snd (resolveBranchIanaZone e org branch s))"
  unfolding resolveBranchIanaZone_def
  by (rule through_cache_redis) (simp add: resolveOrgIanaZone_redis split: option.splits)

lemma liveQueueBookedAtFloor_redis: "redis_only s (snd (liveQueueBookedAtFloor e org queue s))"
proof -
  have "redis_only s (snd (resolveEffectiveIanaZone e org None (Some queue) s))"
    unfolding resolveEffectiveIanaZone_def Let_def by (simp add: resolveBranchIanaZone_redis resolveOrgIanaZone_redis)
  then show ?thesis by (simp add: liveQueueBookedAtFloor_def split_def Let_def)
qed

lemma live_floor_tickets [simp]: "q_tickets (snd (liveQueueBookedAtFloor e org queue s)) = q_tickets s"
  using liveQueueBookedAtFloor_redis [of s e org queue] by (auto simp: redis_only_def)

lemma live_floor_keeps:
  assumes "blind q_redis_update I" and "I s"
  shows "I (snd (liveQueueBookedAtFloor e org queue s))"
proof -
  from liveQueueBookedAtFloor_redis obtain r where "snd (liveQueueBookedAtFloor e org queue s) = q_redis_update (\<lambda>_. r) s"
    unfolding redis_only_def by blast
  then show ?thesis using assms by (simp only: blindD)
qed

section \<open>The rows\<close>

definition rows_ok :: "(queue_ticket \<Rightarrow> bool) \<Rightarrow> uuid set \<Rightarrow> qdb \<Rightarrow> bool" where
  "rows_ok W kept s \<longleftrightarrow> distinct (map tk_id (q_tickets s)) \<and> kept \<subseteq> tk_id ` set (q_tickets s) \<and>
     (\<forall>t\<in>set (q_tickets s). W t)"

lemma rows_blind: "blind_beside_tickets (rows_ok W kept)"
  by (simp add: blind_beside_tickets_def blind_def rows_ok_def)

lemmas rows_blinds = blind_besideD [OF rows_blind]

lemma rows_ok_same:
  assumes "rows_ok W kept s" and "x \<in> set (q_tickets s)" and "t \<in> set (q_tickets s)" and "tk_id x = tk_id t"
  shows "x = t"
  using assms by (auto simp: rows_ok_def dest: distinct_map_eq)

lemma rows_ok_update:
  assumes "rows_ok W kept s" and id: "\<And>x. tk_id (f x) = tk_id x"
    and W: "\<And>x. x \<in> set (q_tickets s) \<Longrightarrow> tk_id x = i \<Longrightarrow> W (f x)"
  shows "rows_ok W kept (q_tickets_update (update_rows (\<lambda>x. tk_id x = i) f) s)"
proof -
  have ids: "map tk_id (update_rows (\<lambda>x. tk_id x = i) f xs) = map tk_id xs" for xs
    by (simp add: update_rows_def id)
  then have set_ids: "tk_id ` set (update_rows (\<lambda>x. tk_id x = i) f xs) = tk_id ` set xs" for xs
    by (metis set_map)
  show ?thesis
    using assms(1) W by (simp add: rows_ok_def ids set_ids) (auto simp: update_rows_def)
qed

lemma rows_ok_insert:
  assumes "rows_ok W kept s" and "tk_id t \<notin> tk_id ` set (q_tickets s)" and "W t"
  shows "rows_ok W kept (q_tickets_update (\<lambda>ts. ts @ [t]) s)"
  using assms by (auto simp: rows_ok_def)

lemma rows_create:
  assumes "tk_id t \<notin> kept \<Longrightarrow> W t"
  shows "preserves_tx (rows_ok W kept) (create_ticket t)"
proof (rule preserves_txI)
  fix s a s' assume ok: "rows_ok W kept s" and run: "create_ticket t s = Inr (a, s')"
  from run have new: "tk_id t \<notin> tk_id ` set (q_tickets s)" and s': "s' = q_tickets_update (\<lambda>ts. ts @ [t]) s"
    by (auto simp: create_ticket_def tx_defs split: if_splits)
  from ok new have "tk_id t \<notin> kept" by (auto simp: rows_ok_def)
  with rows_ok_insert [OF ok new] assms show "rows_ok W kept s'" by (simp add: s')
qed

lemma rows_update_any:
  assumes "\<And>x. tk_id (f x) = tk_id x" and "\<And>x. W x \<Longrightarrow> W (f x)"
  shows "keeps (rows_ok W kept) (tx_update_one q_tickets q_tickets_update (\<lambda>x. tk_id x = i) f) s"
  by (rule keeps_update_one, rule rows_ok_update) (use assms in \<open>auto simp: rows_ok_def\<close>)

lemma rows_update_found:
  assumes "t \<in> set (q_tickets s)" and "tk_id t = i" and "\<And>x. tk_id (f x) = tk_id x" and "W t \<Longrightarrow> W (f t)"
  shows "keeps (rows_ok W kept) (tx_update_one q_tickets q_tickets_update (\<lambda>x. tk_id x = i) f) s"
proof (rule keeps_update_one)
  assume ok: "rows_ok W kept s"
  show "rows_ok W kept (q_tickets_update (update_rows (\<lambda>x. tk_id x = i) f) s)"
  proof (rule rows_ok_update [OF ok assms(3)])
    fix x assume "x \<in> set (q_tickets s)" and "tk_id x = i"
    then have "x = t" using rows_ok_same [OF ok] assms(1,2) by simp
    then show "W (f x)" using assms(1,4) ok by (simp add: rows_ok_def)
  qed
qed

lemma next_in_lineD:
  assumes "next_in_line org queue floor1 filtered n policy s = Some t"
  shows "t \<in> set (q_tickets s) \<and> eligible org queue floor1 filtered n policy t"
proof -
  have "t \<in> set (sort_key (call_key filtered n) (filter (eligible org queue floor1 filtered n policy) (q_tickets s)))"
    using assms by (auto simp: next_in_line_def simp del: set_sort split: list.splits)
  then show ?thesis by simp
qed

lemma find_ticketD: "find_ticket org i s = Some t \<Longrightarrow> t \<in> set (q_tickets s) \<and> tk_id t = i"
  unfolding find_ticket_def by (auto dest: find_SomeD)

section \<open>What every way of writing a ticket must keep\<close>

definition lawful_change :: "string \<Rightarrow> ticket_patch \<Rightarrow> bool" where
  "lawful_change to1 p \<longleftrightarrow> (to1 = ''serving'' \<and> (\<exists>x. tp_servedAt p = Some (Some x))) \<or>
     (to1 = ''called'' \<and> tp_calledAt p \<noteq> None) \<or>
     ((to1 = ''completed'' \<or> to1 = ''no_show'') \<and> tp_completedAt p \<noteq> None)"

text \<open>The statuses a ticket may be issued with, by the type of the request.\<close>

definition lawful_issue :: "issue_data \<Rightarrow> bool" where
  "lawful_issue d \<longleftrightarrow> ix_initialStatus d \<in> {None, Some ''waiting'', Some ''called'', Some ''serving''}"

lemma redis_fields [simp]:
  "lawful_issue (d\<lparr>ix_stepIndex := i\<rparr>) = lawful_issue d" "lawful_issue (d\<lparr>ix_customerPhone := ph\<rparr>) = lawful_issue d"
  by (simp_all add: lawful_issue_def)

lemma lawful_next [simp]: "lawful_issue (next_issue_data j n q ref1)"
  by (simp add: lawful_issue_def next_issue_data_def)

lemma lawful_step [simp]: "lawful_issue (visit_step_data v d src)"
  by (simp add: lawful_issue_def visit_step_data_def)

lemma lawful_prepared [simp]: "lawful_issue (prepareIssueTicketPayload e org d s) = lawful_issue d"
  by (simp add: prepareIssueTicketPayload_def split: option.splits)

lemma lawful_accepted: "accepted_issue mode d = Inr d' \<Longrightarrow> lawful_issue d' = lawful_issue d"
  by (auto simp: accepted_issue_def Let_def split: if_splits)

text \<open>One call of the ticket services, transfers apart; what it throws is not looked at.\<close>

inductive ticket_step :: "qdb \<Rightarrow> qdb \<Rightarrow> bool" where
  step_issue: "lawful_issue d \<Longrightarrow> ticket_step s (snd (issueTicket e mode org0 d s))"
| step_visit: "ticket_step s (snd (createVisitStep e org v d src s))"
| step_call_next: "ticket_step s (snd (callNext e org queue desk u filtered surface s))"
| step_call: "ticket_step s (snd (callSpecific e org i desk u surface s))"
| step_first: "ticket_step s (snd (bringToFirst e org i s))"
| step_ready: "ticket_step s (snd (markReady e org i u surface s))"
| step_serve: "ticket_step s (snd (serve e org i u surface s))"
| step_complete: "ticket_step s (snd (complete e org i u given surface s))"
| step_no_show: "ticket_step s (snd (noShow e org i u surface s))"
| step_cancel: "ticket_step s (snd (cancel e org i actor reason surface s))"
| step_recall: "ticket_step s (snd (recall e org i u surface given s))"
| step_desk: "ticket_step s (snd (changeDesk e org i desk u surface s))"
| step_refresh: "ticket_step s (snd (refreshVisitStatus e org visit s))"
| step_preferences: "ticket_step s (snd (updateTrackPreferences i b s))"

inductive ticket_or_transfer :: "qdb \<Rightarrow> qdb \<Rightarrow> bool" where
  "ticket_step s t \<Longrightarrow> ticket_or_transfer s t"
| "ticket_or_transfer s (snd (transfer e org i target u desk given surface s))"

locale ticket_rows =
  fixes W :: "queue_ticket \<Rightarrow> bool" and kept :: "uuid set"
  assumes seat: "\<And>t p. W t \<Longrightarrow> W (t\<lparr>tk_position := p\<rparr>)"
    and ready: "\<And>t r. W t \<Longrightarrow> W (t\<lparr>tk_readyAt := r\<rparr>)"
    and desk: "\<And>t n. W t \<Longrightarrow> W (t\<lparr>tk_deskNumber := n\<rparr>)"
    and sms: "\<And>t b. W t \<Longrightarrow> W (t\<lparr>tk_smsAllowed := b\<rparr>)"
    and call: "\<And>e u d t. W t \<Longrightarrow> tk_status t = ''waiting'' \<Longrightarrow> W (mark_called e u d t)"
    and change: "\<And>e to1 p t. W t \<Longrightarrow> tk_status t = ''called'' \<or> tk_status t = ''serving'' \<Longrightarrow>
      lawful_change to1 p \<Longrightarrow> W (change_status e to1 p t)"
    and call_off: "\<And>t now n. W t \<Longrightarrow> tk_status t = ''waiting'' \<or> tk_status t = ''called'' \<Longrightarrow>
      W (t\<lparr>tk_status := ''cancelled'', tk_completedAt := Some now, tk_note := n\<rparr>)"
    and issue: "\<And>e org d q visit number who step ref1. qe_uuid e ''tickets'' \<notin> kept \<Longrightarrow> lawful_issue d \<Longrightarrow>
      W (issued_ticket e org d q visit number who step ref1)"
begin

abbreviation ok :: "qdb \<Rightarrow> bool" where
  "ok \<equiv> rows_ok W kept"

lemma transitionTicketCore:
  assumes "lawful_change to1 p" and "set allowed \<subseteq> {''called'', ''serving''}"
  shows "preserves_tx ok (transitionTicketCore e org i allowed to1 p)"
proof (rule keeps_preserves)
  fix s
  have "keeps ok (tx_update_one q_tickets q_tickets_update (\<lambda>x. tk_id x = i) (change_status e to1 p)) s"
    if t: "find_ticket org i s = Some t" and "tk_status t \<in> set allowed" for t
  proof (rule rows_update_found)
    show "t \<in> set (q_tickets s)" "tk_id t = i" using find_ticketD [OF t] by simp_all
    show "tk_id (change_status e to1 p x) = tk_id x" for x by (simp add: change_status_def apply_patch_def Let_def)
    have "tk_status t = ''called'' \<or> tk_status t = ''serving''" using that assms(2) by blast
    then show "W t \<Longrightarrow> W (change_status e to1 p t)" using assms(1) change by blast
  qed
  then show "keeps ok (transitionTicketCore e org i allowed to1 p) s"
    unfolding transitionTicketCore_def by (intro keeps_intros) simp_all
qed

lemma side_effects:
  "preserves ok (publish_ticket queue branch org ev i)" "preserves ok (q_log ev1)"
  "preserves ok (emitTicketCalledNotification org t d)" "preserves ok (emitTransitionSideEffects org t i to1)"
  "preserves ok (called_effects org queue n t)" "preserves ok (logSmsConsentEvent org a i)"
  by (simp_all add: publish_ticket_def emitTicketCalledNotification_def emitTransitionSideEffects_def
      called_effects_def logSmsConsentEvent_def pres_intros rows_blinds)

lemma increment: "preserves ok (svc_modify (incrementMonthlyTicketCount e org))"
proof (rule preserves_modify)
  fix s assume "ok s"
  then show "ok (incrementMonthlyTicketCount e org s)"
    by (simp add: incrementMonthlyTicketCount_def Let_def rows_ok_def split: option.splits)
qed

lemma issued_effects: "preserves ok (emitTicketIssuedSideEffects e org t queue branch)"
  unfolding emitTicketIssuedSideEffects_def by (intro pres_intros increment side_effects rows_blinds)

lemma transitionTicket:
  "lawful_change to1 p \<Longrightarrow> set allowed \<subseteq> {''called'', ''serving''} \<Longrightarrow>
   preserves ok (transitionTicket e org i allowed to1 p)"
  unfolding transitionTicket_def by (intro pres_intros transitionTicketCore side_effects rows_blinds)

section \<open>Every operation\<close>

lemma callNext: "preserves ok (callNext e org queue n u filtered surface)"
proof -
  have "keeps ok (tx_update_one q_tickets q_tickets_update (\<lambda>x. tk_id x = tk_id t)
      (\<lambda>x. (mark_called e u n x)\<lparr>tk_position := None\<rparr>)) s"
    if "next_in_line org queue floor1 filtered n policy s = Some t" for t s floor1 policy
  proof (rule rows_update_found [OF _ refl])
    show "t \<in> set (q_tickets s)" and "W t \<Longrightarrow> W ((mark_called e u n t)\<lparr>tk_position := None\<rparr>)"
      using next_in_lineD [OF that] by (simp_all add: eligible_def waiting_here_def call seat)
  qed (simp add: mark_called_def)
  then have "preserves_tx ok (call_next_tx e org queue n u filtered surface floor1)" for floor1
    unfolding call_next_tx_def by (intro keeps_preserves keeps_intros)
  moreover have "preserves ok (svc_get (liveQueueBookedAtFloor e org queue))"
    by (rule preserves_svc_get) (rule live_floor_keeps [OF rows_blinds(6)])
  ultimately show ?thesis unfolding callNext_def by (intro pres_intros side_effects)
qed

lemma callSpecific: "preserves ok (callSpecific e org i n u surface)"
proof -
  have "keeps ok (call_specific_tx e org i n u surface) s" for s
  proof -
    have "keeps ok (tx_update_one q_tickets q_tickets_update (\<lambda>x. tk_id x = i) (mark_called e u n))
        (snd (liveQueueBookedAtFloor e org (tk_queueId t) s))"
      if "call_specific_target e org i surface s = Inr t" for t
    proof (rule rows_update_found)
      from that have t: "find_ticket org i s = Some t" and w: "tk_status t = ''waiting''"
        by (auto simp: call_specific_target_def err_bind_def split: sum.splits option.splits if_splits)
      show "t \<in> set (q_tickets (snd (liveQueueBookedAtFloor e org (tk_queueId t) s)))" "tk_id t = i"
        using find_ticketD [OF t] by simp_all
      show "W t \<Longrightarrow> W (mark_called e u n t)" using w by (simp add: call)
    qed (simp add: mark_called_def)
    then show ?thesis unfolding call_specific_tx_def
      by (intro keeps_intros keeps_get live_floor_keeps [OF rows_blinds(6)])
  qed
  then show ?thesis unfolding callSpecific_def by (intro pres_intros keeps_preserves side_effects)
qed

lemma bringToFirst: "preserves ok (bringToFirst e org i)"
proof -
  have "keeps ok (tx_update_one q_tickets q_tickets_update (\<lambda>x. tk_id x = i) (\<lambda>x. x\<lparr>tk_position := p\<rparr>)) s" for p s
    by (rule rows_update_any) (simp_all add: seat)
  then have "preserves_tx ok (bring_to_first_tx e org i floor1)" for floor1
    unfolding bring_to_first_tx_def by (intro keeps_preserves keeps_intros)
  moreover have "preserves ok (svc_get (liveQueueBookedAtFloor e org queue))" for queue
    by (rule preserves_svc_get) (rule live_floor_keeps [OF rows_blinds(6)])
  ultimately show ?thesis unfolding bringToFirst_def by (intro pres_intros side_effects)
qed

lemma markReady: "preserves ok (markReady e org i u surface)"
proof -
  have "keeps ok (tx_update_one q_tickets q_tickets_update (\<lambda>x. tk_id x = i) (\<lambda>x. x\<lparr>tk_readyAt := r\<rparr>)) s" for r s
    by (rule rows_update_any) (simp_all add: ready)
  then have "preserves_tx ok (mark_ready_tx e org i u surface)"
    unfolding mark_ready_tx_def by (intro keeps_preserves keeps_intros)
  then show ?thesis unfolding markReady_def by (intro pres_intros side_effects)
qed

lemma serve: "preserves ok (serve e org i u surface)"
  unfolding serve_def by (intro pres_intros transitionTicket side_effects) (simp_all add: lawful_change_def)

lemma recall: "preserves ok (recall e org i u surface n)"
  unfolding recall_def
  by (intro pres_intros transitionTicket side_effects) (simp_all add: lawful_change_def recall_patch_def)

lemma noShow: "preserves ok (noShow e org i u surface)"
  unfolding noShow_def by (intro pres_intros transitionTicketCore side_effects) (simp_all add: lawful_change_def)

lemma cancel: "preserves ok (cancel e org i actor reason surface)"
proof -
  have "keeps ok (tx_update_one q_tickets q_tickets_update (\<lambda>x. tk_id x = i) (\<lambda>x. x\<lparr>tk_status := ''cancelled'',
      tk_completedAt := Some (qe_now e), tk_note := Some (cancel_note (tk_note t) reason)\<rparr>)) s"
    if t: "find_ticket org i s = Some t" and st: "\<not> (tk_status t \<noteq> ''waiting'' \<and> tk_status t \<noteq> ''called'')" for t s
    by (rule rows_update_found [of t]) (use find_ticketD [OF t] st in \<open>auto simp: call_off\<close>)
  then have "preserves_tx ok (cancel_ticket_tx e org i actor reason surface)"
    unfolding cancel_ticket_tx_def by (intro keeps_preserves keeps_intros)
  then show ?thesis unfolding cancel_def by (intro pres_intros side_effects)
qed

lemma changeDesk: "preserves ok (changeDesk e org i n u surface)"
proof -
  have "keeps ok (tx_update_one q_tickets q_tickets_update (\<lambda>x. tk_id x = i) (\<lambda>x. x\<lparr>tk_deskNumber := d\<rparr>)) s" for d s
    by (rule rows_update_any) (simp_all add: desk)
  then have "preserves_tx ok (change_desk_tx e org i n u surface)"
    unfolding change_desk_tx_def by (intro keeps_preserves keeps_intros)
  then show ?thesis unfolding changeDesk_def by (intro pres_intros side_effects)
qed

lemma reads:
  "preserves ok (svc_get (getMonthlyTicketCount e org))" "preserves ok (svc_get (checkLimit e org feature n))"
  by (auto intro!: preserves_svc_get simp: getMonthlyTicketCount_def checkLimit_def getLimits_def q_cache_set_def
      Let_def rows_ok_def split: option.splits)

lemma visit_parts:
  "preserves_tx ok (resolveVisitExternalRef org v r)" "preserves_tx ok (reserveQueueDisplayNumber e org queue b)"
  "preserves_tx ok (resolveQueueForFlowStep org branch tmpl k sid linked)"
  "preserves_tx ok (keep_visit_active v)"
  unfolding resolveVisitExternalRef_def persistVisitExternalRef_def reserveQueueDisplayNumber_def
    resolveQueueForFlowStep_def keep_visit_active_def Let_def
  by (intro pres_intros rows_blinds)+

lemma next_steps:
  "preserves_tx ok (resolveNextJourneyStepTx org c)" "preserves_tx ok (resolveNextJourneyStep org c)"
  "preserves_tx ok (getNextStepResolutionFailure org c)"
  unfolding resolveNextJourneyStepTx_def resolveNextJourneyStep_def getNextStepResolutionFailure_def
  by (intro pres_intros visit_parts)+

lemma refreshVisitStatus: "preserves ok (refreshVisitStatus e org v)"
  unfolding refreshVisitStatus_def complete_visit_def Let_def
  by (intro pres_intros visit_parts next_steps rows_blinds)

lemma issue_parts:
  "preserves_tx ok (issue_visit e org d)" "preserves_tx ok (issue_number e org d shared)"
  "preserves_tx ok (issue_customer e org d)" "preserves_tx ok (issue_consents org d cust)"
  "preserves_tx ok (issue_ref org d v k r)"
  unfolding issue_visit_def issue_number_def issue_customer_def create_contact_def issue_consents_def
    logMarketingConsent_def issue_ref_def Let_def
  by (intro pres_intros visit_parts rows_blinds)+

lemma issueTicketCore:
  assumes "lawful_issue d"
  shows "preserves_tx ok (issueTicketCore e org d)"
proof -
  have "tk_id (issued_ticket e org d q visit number who step ref1) = qe_uuid e ''tickets''" for q visit number who step ref1
    by (simp add: issued_ticket_def split: prod.split)
  then have "preserves_tx ok (create_ticket (issued_ticket e org d q visit number who step ref1))" for q visit number who step ref1
    by (intro rows_create) (simp add: issue assms)
  then show ?thesis unfolding issueTicketCore_def Let_def
    by (intro pres_intros issue_parts)
qed

lemma issueTicket:
  assumes "lawful_issue raw"
  shows "preserves ok (issueTicket e mode org0 raw)"
  unfolding issueTicket_def
proof (rule preserves_lift_bind, goal_cases)
  case (1 d)
  then have "lawful_issue d" using assms by (simp add: lawful_accepted)
  then show ?case by (intro pres_intros reads issueTicketCore issued_effects side_effects) simp
qed

lemma createVisitStep: "preserves ok (createVisitStep e org v d src)"
  unfolding createVisitStep_def reopen_visit_def by (intro pres_intros issueTicket rows_blinds) simp_all

lemma updateTrackPreferences: "preserves ok (updateTrackPreferences i b)"
proof -
  have "preserves_tx ok (tx_update_one q_tickets q_tickets_update (\<lambda>x. tk_id x = i) (\<lambda>x. x\<lparr>tk_smsAllowed := b\<rparr>))"
    by (rule keeps_preserves, rule rows_update_any) (simp_all add: sms)
  then show ?thesis unfolding updateTrackPreferences_def
    by (intro pres_intros side_effects rows_blinds preserves_tx_bind [OF \<open>preserves_tx ok _\<close>])
qed

lemma finalize_effects: "preserves ok (finalize_effects e org i k r)"
  unfolding finalize_effects_def by (intro pres_intros issued_effects side_effects)

lemma finalizeTicketWithJourneyAdvance:
  assumes "k = ''completed'' \<or> k = ''no_show''"
  shows "preserves ok (finalizeTicketWithJourneyAdvance e org i k given)"
proof -
  have "preserves_tx ok (issue_next_step e org j k n r)" for j n r
    unfolding issue_next_step_def by (intro pres_intros visit_parts issueTicketCore) simp
  then have "preserves_tx ok (finalize_locked e org j l k b given)" for j l b
    unfolding finalize_locked_def finalize_ref_def
    by (intro pres_intros visit_parts next_steps transitionTicketCore) (use assms in \<open>auto simp: lawful_change_def\<close>)
  then have "preserves_tx ok (finalize_tx e org j k b given)" for j b
    unfolding finalize_tx_def by (intro pres_intros)
  then show ?thesis unfolding finalizeTicketWithJourneyAdvance_def finalize_precheck_def
    by (intro pres_intros next_steps finalize_effects)
qed

lemma complete: "preserves ok (complete e org i u given surface)"
  unfolding complete_def by (intro pres_intros finalizeTicketWithJourneyAdvance) simp

lemma ticket_step: "ticket_step s t \<Longrightarrow> ok s \<Longrightarrow> ok t"
  by (induction rule: ticket_step.induct)
    (intro preservesD [where I = ok] issueTicket createVisitStep callNext callSpecific bringToFirst markReady serve
      complete noShow cancel recall changeDesk refreshVisitStatus updateTrackPreferences; assumption)+

lemma ticket_steps: "ticket_step\<^sup>*\<^sup>* s t \<Longrightarrow> ok s \<Longrightarrow> ok t"
  by (induction rule: rtranclp_induct) (auto dest: ticket_step)

end

locale ticket_rows_moving = ticket_rows +
  assumes moved: "\<And>t e q step number n r. W t \<Longrightarrow> W (moved_ticket e q step number n r t)"
    and passed_on: "\<And>t now r. W t \<Longrightarrow> W (t\<lparr>tk_status := ''completed'', tk_completedAt := Some now, tk_externalRef := r\<rparr>)"
    and onward: "\<And>e org t q step number n r. qe_uuid e ''tickets'' \<notin> kept \<Longrightarrow>
      W (transferred_visit_ticket e org t q step number n r)"
begin

lemma transfer: "preserves (rows_ok W kept) (transfer e org i target u n given surface)"
proof -
  have upd: "preserves_tx (rows_ok W kept) (tx_bind (tx_update_one q_tickets q_tickets_update (\<lambda>x. tk_id x = i)
      (\<lambda>x. x\<lparr>tk_status := ''completed'', tk_completedAt := Some (qe_now e),
        tk_externalRef := (if b then r else tk_externalRef x)\<rparr>)) f)"
    if "\<And>a. preserves_tx (rows_ok W kept) (f a)" for b r and f :: "queue_ticket \<Rightarrow> queue_ticket qtx"
    by (rule preserves_tx_bind [OF _ that], rule keeps_preserves, rule rows_update_any) (simp_all add: passed_on)
  have mov: "preserves_tx (rows_ok W kept) (tx_update_one q_tickets q_tickets_update (\<lambda>x. tk_id x = i)
      (moved_ticket e q k number n r))" for q k number r
    by (rule keeps_preserves, rule rows_update_any) (simp_all add: moved, simp add: moved_ticket_def)
  have "tk_id (transferred_visit_ticket e org t q k number n r) = qe_uuid e ''tickets''" for t q k number r
    by (simp add: transferred_visit_ticket_def)
  then have new: "preserves_tx (rows_ok W kept) (create_ticket (transferred_visit_ticket e org t q k number n r))" for t q k number r
    by (intro rows_create) (simp add: onward)
  have "preserves_tx (rows_ok W kept) (transfer_tx e org i target u n given surface)"
    unfolding transfer_tx_def transfer_ref_def
    by (intro preserves_tx_read preserves_tx_bind preserves_tx_if preserves_tx_case_prod preserves_tx_lift
        preserves_tx_return preserves_tx_throw visit_parts upd mov new)
  then show ?thesis unfolding transfer_def by (intro pres_intros side_effects)
qed

lemma moving_steps: "ticket_or_transfer\<^sup>*\<^sup>* s t \<Longrightarrow> rows_ok W kept s \<Longrightarrow> rows_ok W kept t"
proof (induction rule: rtranclp_induct)
  case (step y z)
  then have y: "rows_ok W kept y" by simp
  from step(2) show ?case
  proof (cases rule: ticket_or_transfer.cases)
    case 1
    then show ?thesis using y by (rule ticket_step)
  next
    case 2
    then show ?thesis using preservesD [OF transfer y] by simp
  qed
qed

end

end
