(* ===== verification/TicketFacts.thy ===== *)
theory TicketFacts
  imports TicketRuns AppointmentFacts AccessFacts
begin

text \<open>
  Properties of the ticket services: the state of a ticket, the order of a queue, the steps of a visit,
  the limit of the plan.
\<close>

section \<open>The state of a ticket\<close>

definition ticket_statuses :: "string list" where
  "ticket_statuses = [''waiting'', ''called'', ''serving'', ''completed'', ''no_show'', ''cancelled'']"

definition over :: "string \<Rightarrow> bool" where
  "over st \<longleftrightarrow> st = ''completed'' \<or> st = ''no_show'' \<or> st = ''cancelled''"

definition well_timed :: "queue_ticket \<Rightarrow> bool" where
  "well_timed t \<longleftrightarrow> tk_status t \<in> set ticket_statuses \<and>
     (tk_status t = ''called'' \<or> tk_status t = ''serving'' \<longrightarrow> tk_calledAt t \<noteq> None) \<and>
     (tk_status t = ''serving'' \<longrightarrow> tk_servedAt t \<noteq> None) \<and>
     (over (tk_status t) \<longrightarrow> tk_completedAt t \<noteq> None)"

lemma some_or_None [simp]: "some_or v old = None \<longleftrightarrow> v = None \<and> old = None"
  by (simp add: some_or_def split: option.splits)

lemma some_or_Some [simp]: "some_or (Some x) old = Some x"
  by (simp add: some_or_def)

lemma change_status_fields:
  "tk_id (change_status e to1 p t) = tk_id t" "tk_status (change_status e to1 p t) = to1"
  "tk_calledAt (change_status e to1 p t) = some_or (tp_calledAt p) (tk_calledAt t)"
  "tk_servedAt (change_status e to1 p t) = patched (tp_servedAt p) (tk_servedAt t)"
  "tk_completedAt (change_status e to1 p t) = some_or (tp_completedAt p) (tk_completedAt t)"
  by (simp_all add: change_status_def apply_patch_def Let_def)

lemma well_timed_called: "tk_status t = ''called'' \<Longrightarrow> well_timed t \<longleftrightarrow> tk_calledAt t \<noteq> None"
  and well_timed_serving: "tk_status t = ''serving'' \<Longrightarrow> well_timed t \<longleftrightarrow> tk_calledAt t \<noteq> None \<and> tk_servedAt t \<noteq> None"
  and well_timed_waiting: "tk_status t = ''waiting'' \<Longrightarrow> well_timed t"
  and well_timed_over: "over (tk_status t) \<Longrightarrow> well_timed t \<longleftrightarrow> tk_completedAt t \<noteq> None"
  by (auto simp: well_timed_def over_def ticket_statuses_def)

lemma over_statuses: "over ''completed''" "over ''no_show''" "over ''cancelled''"
  "\<not> over ''waiting''" "\<not> over ''called''" "\<not> over ''serving''"
  by (simp_all add: over_def)

lemma well_timed_same:
  "tk_status u = tk_status t \<Longrightarrow> tk_calledAt u = tk_calledAt t \<Longrightarrow> tk_servedAt u = tk_servedAt t \<Longrightarrow>
   tk_completedAt u = tk_completedAt t \<Longrightarrow> well_timed u = well_timed t"
  by (simp add: well_timed_def)

lemma well_timed_change:
  assumes "well_timed t" and "tk_status t = ''called'' \<or> tk_status t = ''serving''" and "lawful_change to1 p"
  shows "well_timed (change_status e to1 p t)"
proof -
  have called: "tk_calledAt t \<noteq> None" using assms(1,2) by (auto simp: well_timed_def)
  from assms(3) consider (serving) x where "to1 = ''serving''" "tp_servedAt p = Some (Some x)"
    | (called) "to1 = ''called''" "tp_calledAt p \<noteq> None"
    | (finished) "over to1" "tp_completedAt p \<noteq> None"
    by (auto simp: lawful_change_def over_statuses)
  then show ?thesis
  proof cases
    case serving
    then show ?thesis using called by (simp add: well_timed_serving change_status_fields)
  next
    case called
    then show ?thesis by (simp add: well_timed_called change_status_fields)
  next
    case finished
    then show ?thesis by (simp add: well_timed_over change_status_fields)
  qed
qed

lemma well_timed_issued:
  assumes "lawful_issue d"
  shows "well_timed (issued_ticket e org d q visit number who step ref1)"
proof -
  obtain cust name phone where who: "who = (cust, name, phone)" by (cases who)
  from assms consider "patched (ix_initialStatus d) ''waiting'' = ''waiting''" | "ix_initialStatus d = Some ''called''"
    | "ix_initialStatus d = Some ''serving''" by (auto simp: lawful_issue_def)
  then show ?thesis
    by cases (simp_all add: who issued_ticket_def well_timed_waiting well_timed_called well_timed_serving)
qed

interpretation wt: ticket_rows_moving well_timed "{}"
proof (unfold_locales, goal_cases)
  case (5 e u d t)
  show ?case by (simp add: well_timed_called mark_called_def)
next
  case (9 t e q step number n r)
  show ?case by (cases "truthy_str n") (simp_all add: moved_ticket_def well_timed_called well_timed_waiting)
next
  case (11 e org t q step number n r)
  show ?case by (cases "truthy_str n") (simp_all add: transferred_visit_ticket_def well_timed_called well_timed_waiting)
qed (simp_all add: well_timed_change well_timed_issued well_timed_over over_statuses cong: well_timed_same)

interpretation settled: ticket_rows "\<lambda>t. tk_id t = i \<longrightarrow> over k \<longrightarrow> tk_status t = k" "{i}" for i k
proof (unfold_locales, goal_cases)
  case (5 e u d t)
  then show ?case by (auto simp: mark_called_def over_statuses)
next
  case (6 e to1 p t)
  then show ?case by (auto simp: change_status_fields over_statuses)
next
  case (7 t now n)
  then show ?case by (auto simp: over_statuses)
next
  case (8 e org d q visit number who step ref1)
  then show ?case by (auto simp: issued_ticket_def split: prod.splits)
qed simp_all

text \<open>
  C21. A ticket is always in one of six statuses and carries the times that go with it: over any run of
  the ticket services, transfers included, from tickets that do, a called or served ticket has the time
  of its call, a served one the time service began, and one that is over the time it ended.
\<close>

theorem tickets_stay_well_timed:
  assumes "ticket_or_transfer\<^sup>*\<^sup>* s t" and "distinct (map tk_id (q_tickets s))" and "list_all well_timed (q_tickets s)"
  shows "list_all well_timed (q_tickets t) \<and> distinct (map tk_id (q_tickets t))"
  using wt.moving_steps [OF assms(1)] assms(2,3) by (auto simp: rows_ok_def list_all_iff)

text \<open>
  C22. What is over stays over: a ticket that is completed, missed or cancelled keeps that status over
  any run of the ticket services, transfers apart.
\<close>

theorem settled_tickets_stay:
  assumes "ticket_step\<^sup>*\<^sup>* s t" and "distinct (map tk_id (q_tickets s))"
    and "find_ticket org i s = Some a" and "over (tk_status a)"
  shows "\<exists>b\<in>set (q_tickets t). tk_id b = i \<and> tk_status b = tk_status a"
proof -
  have "a \<in> set (q_tickets s)" "tk_id a = i" using find_ticketD [OF assms(3)] by simp_all
  then have "rows_ok (\<lambda>x. tk_id x = i \<longrightarrow> over (tk_status a) \<longrightarrow> tk_status x = tk_status a) {i} s"
    using assms(2) by (auto simp: rows_ok_def dest: distinct_map_eq)
  from settled.ticket_steps [OF assms(1) this] assms(4) show ?thesis by (auto simp: rows_ok_def)
qed

section \<open>The order of a queue\<close>

lemma next_in_line_least:
  assumes "next_in_line org queue floor1 filtered n policy s = Some w"
    and "x \<in> set (q_tickets s)" and "eligible org queue floor1 filtered n policy x"
  shows "call_key filtered n w \<le> call_key filtered n x"
proof -
  let ?xs = "sort_key (call_key filtered n) (filter (eligible org queue floor1 filtered n policy) (q_tickets s))"
  from assms(1) obtain ws where ws: "?xs = w # ws" by (auto simp: next_in_line_def split: list.splits)
  have "sorted (map (call_key filtered n) ?xs)" by simp
  then have "\<forall>y\<in>set ws. call_key filtered n w \<le> call_key filtered n y" unfolding ws by simp
  moreover have "x \<in> set ?xs" using assms(2,3) by simp
  ultimately show ?thesis unfolding ws by auto
qed

lemma redis_only_reads:
  assumes "redis_only s t"
  shows "q_tickets t = q_tickets s" "resolveQueueCallingPolicy org queue t = resolveQueueCallingPolicy org queue s"
proof -
  from assms obtain r where r: "t = s\<lparr>q_redis := r\<rparr>" by (auto simp: redis_only_def)
  show "q_tickets t = q_tickets s" by (simp add: r)
  show "resolveQueueCallingPolicy org queue t = resolveQueueCallingPolicy org queue s"
    by (simp add: r resolveQueueCallingPolicy_def find_queue_def cong: option.case_cong if_cong)
qed

lemma log_tickets [simp]: "q_tickets (snd (q_log ev s)) = q_tickets s"
  by (simp add: q_log_def svc_modify_def)

lemma called_effects_tickets: "q_tickets (snd (called_effects org queue n t s)) = q_tickets s"
proof -
  have "preserves (\<lambda>u. q_tickets u = q_tickets s) (called_effects org queue n t)"
    unfolding called_effects_def publish_ticket_def emitTicketCalledNotification_def
    by (intro pres_intros) (simp_all add: blind_def)
  then show ?thesis by (rule preservesD) simp
qed

text \<open>
  C23. Call Next takes the first in line: the ticket it calls is one of the live queue that may be
  called there, none of those sorts before it (own desk first when desks are filtered, then tickets
  with a position, then by position, then by the time of booking), it becomes the called ticket of the
  desk, and no other ticket changes.
\<close>

theorem call_next_takes_first:
  assumes "callNext e org queue desk u filtered surface s = (Inr t, s')" and "distinct (map tk_id (q_tickets s))"
  defines "may \<equiv> eligible org queue (fst (liveQueueBookedAtFloor e org queue s)) filtered desk
    (resolveQueueCallingPolicy org queue s)"
  shows "\<exists>w\<in>set (q_tickets s). may w \<and>
    (\<forall>x\<in>set (q_tickets s). may x \<longrightarrow> call_key filtered desk w \<le> call_key filtered desk x) \<and>
    t = (mark_called e u desk w)\<lparr>tk_position := None\<rparr> \<and>
    q_tickets s' = map (\<lambda>x. if x = w then t else x) (q_tickets s)"
proof -
  let ?floor = "fst (liveQueueBookedAtFloor e org queue s)" and ?v = "snd (liveQueueBookedAtFloor e org queue s)"
  have v: "redis_only s ?v" by (rule liveQueueBookedAtFloor_redis)
  have get: "svc_get (liveQueueBookedAtFloor e org queue) s = (Inr ?floor, ?v)"
    by (simp add: svc_get_def split_def)
  from assms(1) obtain x y where run: "call_next_tx e org queue desk u filtered surface ?floor ?v = Inr (t, x)"
    and eff: "called_effects org queue desk t x = (Inr y, s')"
    by (auto simp: callNext_def svc_bind_Inr_iff get with_tenant_Inr_iff svc_return_def)
  from eff have s': "s' = snd (called_effects org queue desk t x)" by simp
  from run obtain policy w where policy: "call_next_policy e org queue desk u surface ?v = Inr policy"
    and w: "next_in_line org queue ?floor filtered desk policy ?v = Some w"
    and upd: "tx_update_one q_tickets q_tickets_update (\<lambda>x. tk_id x = tk_id w)
      (\<lambda>x. (mark_called e u desk x)\<lparr>tk_position := None\<rparr>) ?v = Inr (t, x)"
    by (auto simp: call_next_tx_def tx_read_def tx_bind_Inr_iff tx_lift_def tx_throw_def tx_return_def
        split: sum.splits option.splits)
  have p: "policy = resolveQueueCallingPolicy org queue s"
    using policy by (auto simp: call_next_policy_def err_bind_def Let_def redis_only_reads [OF v]
        split: sum.splits option.splits if_splits)
  have mem: "w \<in> set (q_tickets s)" and may: "may w"
    using next_in_lineD [OF w] by (simp_all add: may_def p)
  have same: "y = w" if "y \<in> set (q_tickets s)" "tk_id y = tk_id w" for y
    using that mem assms(2) by (auto dest: distinct_map_eq)
  have found: "List.find (\<lambda>x. tk_id x = tk_id w) (q_tickets s) = Some w"
    using same mem by (metis (mono_tags, lifting) find_SomeD find_not_None not_None_eq)
  have t: "t = (mark_called e u desk w)\<lparr>tk_position := None\<rparr>"
    and x: "q_tickets x = update_rows (\<lambda>x. tk_id x = tk_id w) (\<lambda>x. (mark_called e u desk x)\<lparr>tk_position := None\<rparr>) (q_tickets s)"
    using upd by (auto simp: tx_update_one_def found)
  have "q_tickets s' = map (\<lambda>x. if x = w then t else x) (q_tickets s)"
    unfolding s' called_effects_tickets x update_rows_def
    by (rule map_cong [OF refl]) (use same t in auto)
  moreover have "call_key filtered desk w \<le> call_key filtered desk y" if "y \<in> set (q_tickets s)" "may y" for y
    using next_in_line_least [OF w, of y] that by (simp add: may_def p)
  ultimately show ?thesis using mem may t by blast
qed

section \<open>A small queue\<close>

definition noon :: qenv where
  "noon = demo_qenv\<lparr>qe_now := 1709200800000\<rparr>"

definition demo_queue :: "string \<Rightarrow> queue_row" where
  "demo_queue i = \<lparr>qu_id = i, qu_orgId = ''o1'', qu_branchId = ''b1'', qu_serviceId = ''s1'', qu_name = ''Lobby'',
     qu_prefix = ''A'', qu_status = ''open'', qu_nextTicketSeq = 3, qu_sessionOpenedAt = None,
     qu_sessionClosesAt = Some 1709290000000, qu_journeyModeOverride = None, qu_flowTemplateId = None,
     qu_stepRole = None, qu_callingPolicy = ''fifo'', qu_maxCapacity = None, qu_maxServiceMinutes = 15\<rparr>"

definition lobby :: "queue_ticket list \<Rightarrow> qdb" where
  "lobby ts = (demo_qdb ''UTC'' [])\<lparr>q_queues := [demo_queue ''q1''], q_tickets := ts,
     q_desks := [\<lparr>dk_id = ''d1'', dk_orgId = ''o1'', dk_branchId = ''b1'', dk_number = ''1'', dk_status = ''open'',
       dk_assignedUsers = [''u1'']\<rparr>],
     q_orgs := [\<lparr>og_id = ''o1'', og_timezone = Some ''UTC'', og_visitJourneysEnabled = True\<rparr>],
     q_redis := [''branch:timezone:b1'' \<mapsto> (''UTC'', None)]\<rparr>"

definition two_waiting :: "queue_ticket list" where
  "two_waiting = [demo_ticket ''t1'' ''b1'', (demo_ticket ''t2'' ''b1'')\<lparr>tk_bookedAt := 1709199000000\<rparr>]"

lemma lobby_floor: "liveQueueBookedAtFloor noon ''o1'' ''q1'' (lobby ts) = (1709164800000, lobby ts)"
proof -
  have "find_queue ''o1'' ''q1'' (lobby ts) = Some (demo_queue ''q1'')"
    by (simp add: lobby_def find_queue_def demo_queue_def)
  moreover have "q_cache_get (qe_now noon) ''branch:timezone:b1'' (lobby ts) = Some ''UTC''"
    by (simp add: lobby_def q_cache_get_def)
  moreover have "js_trim ''q1'' = ''q1''" "js_trim [] = []" by code_simp+
  ultimately have "resolveEffectiveIanaZone noon ''o1'' None (Some ''q1'') (lobby ts) = (''UTC'', lobby ts)"
    by (simp add: resolveEffectiveIanaZone_def resolveBranchIanaZone_def through_cache_def demo_queue_def)
  then show ?thesis by (simp add: liveQueueBookedAtFloor_def noon_def demo_qenv_def)
qed

text \<open>The branch is open at that time, whatever else the database holds.\<close>

lemma lobby_open:
  assumes "q_branches s = [demo_branch ''UTC'']" and "q_dateOverrides s = []"
    and "q_workingHours s = [\<lparr>wh_branchId = ''b1'', wh_dayOfWeek = 3, wh_window = demo_window\<rparr>]"
  shows "assertBranchAcceptsCustomerIntake noon ''o1'' ''b1'' label 1709200800000 s = Inr ()"
proof -
  have "normalizeTimeZone demo_zone (Some ''UTC'') = ''UTC''" by code_simp
  then have zone: "resolveBranchTimeZone noon ''o1'' ''b1'' s = Inr ''UTC''"
    by (simp add: resolveBranchTimeZone_def assms demo_branch_def noon_def demo_qenv_def)
  have day: "getDateKeyInTimeZone (qe_tz noon) ''UTC'' 1709200800000 = ''2024-02-29''" by code_simp
  have iso: "normalizeIsoDateKey ''2024-02-29'' = Inr ''2024-02-29''" "toSchemaDayOfWeekFromIsoDate ''2024-02-29'' = Some 3"
    and open1: "hw_isClosed demo_window = False" by code_simp+
  then have window: "getWorkingHoursWindowForLocalDate ''b1'' ''2024-02-29'' s = Inr (Some demo_window)"
    by (simp add: getWorkingHoursWindowForLocalDate_def assms err_bind_def)
  have "(case evaluateBranchAvailabilityAtInstant (qe_tz noon) 1709200800000 ''UTC'' (Some demo_window) ''2024-02-29'' of
      Inl _ \<Rightarrow> False | Inr a \<Rightarrow> av_isOpen a)" by code_simp
  then obtain a where av: "evaluateBranchAvailabilityAtInstant (qe_tz noon) 1709200800000 ''UTC'' (Some demo_window)
      ''2024-02-29'' = Inr a" "av_isOpen a" by (auto split: sum.splits)
  then show ?thesis
    by (simp add: assertBranchAcceptsCustomerIntake_def evaluateBranchAvailability_def zone day window err_bind_def Let_def)
qed

lemma lobby_intake:
  "assertBranchAcceptsCustomerIntake noon ''o1'' ''b1'' label 1709200800000 (lobby ts) = Inr ()"
  by (rule lobby_open) (simp_all add: lobby_def demo_qdb_def empty_qdb_def)

lemma lobby_queue: "find_queue ''o1'' ''q1'' (lobby ts) = Some (demo_queue ''q1'')"
  by (simp add: lobby_def find_queue_def demo_queue_def)

lemma lobby_policy: "call_next_policy noon ''o1'' ''q1'' ''1'' ''u1'' Classic (lobby ts) = Inr ''fifo''"
proof -
  have surface: "assertActionSurfaceForQueue noon ''o1'' ''q1'' Classic (lobby ts) = Inr ()"
    by (simp add: assertActionSurfaceForQueue_def isQueueJourneyManaged_def lobby_queue demo_queue_def)
  have allowed: "assertStaffQueueActionAllowed noon ''o1'' ''q1'' ''b1'' ''calling next'' CustomerIntake (lobby ts) = Inr ()"
    using lobby_intake by (simp add: assertStaffQueueActionAllowed_def lobby_queue demo_queue_def noon_def)
  have policy: "resolveQueueCallingPolicy ''o1'' ''q1'' (lobby ts) = ''fifo''"
    by (simp add: resolveQueueCallingPolicy_def lobby_queue demo_queue_def resolveCallingPolicyForStep_def
        normalizeCallingPolicyValue_def)
  have "js_trim ''1'' = ''1''" by code_simp
  then have "staff_at_desk cannot ''o1'' ''u1'' ''b1'' ''1'' Classic (lobby ts) = Inr ()" for cannot
    by (simp add: staff_at_desk_def assertClassicDeskAssignmentForBranch_def listAssignedDeskNumbersInBranch_def
        lobby_def err_bind_def Let_def)
  then show ?thesis
    by (simp add: call_next_policy_def surface lobby_queue demo_queue_def allowed policy err_bind_def Let_def)
qed

lemma lobby_next: "next_in_line ''o1'' ''q1'' 1709164800000 False ''1'' ''fifo'' (lobby two_waiting) =
    Some ((demo_ticket ''t2'' ''b1'')\<lparr>tk_bookedAt := 1709199000000\<rparr>)"
  by code_simp

definition second :: queue_ticket where
  "second = (demo_ticket ''t2'' ''b1'')\<lparr>tk_bookedAt := 1709199000000\<rparr>"

definition called_second :: queue_ticket where
  "called_second = (mark_called noon ''u1'' ''1'' second)\<lparr>tk_position := None\<rparr>"

lemma two_waiting_distinct: "distinct (map tk_id (q_tickets (lobby two_waiting)))"
  by (simp add: lobby_def two_waiting_def demo_ticket_def)

lemma called_effects_Inr: "\<exists>s'. called_effects org queue n t s = (Inr (), s')"
  by (simp add: called_effects_def publish_ticket_def emitTicketCalledNotification_def q_log_def svc_bind_def
      svc_modify_def svc_return_def Let_def)

lemma lobby_call: "\<exists>s'. callNext noon ''o1'' ''q1'' ''1'' ''u1'' False Classic (lobby two_waiting) = (Inr called_second, s')"
proof -
  have found: "List.find (\<lambda>x. tk_id x = tk_id second) (q_tickets (lobby two_waiting)) = Some second"
    by (simp add: lobby_def two_waiting_def second_def demo_ticket_def)
  have "\<exists>x. call_next_tx noon ''o1'' ''q1'' ''1'' ''u1'' False Classic 1709164800000 (lobby two_waiting) = Inr (called_second, x)"
    using lobby_next lobby_policy [of two_waiting] found
    by (simp add: call_next_tx_def tx_read_def tx_bind_def tx_lift_def tx_return_def tx_update_one_def
        second_def [symmetric] called_second_def)
  then obtain x where tx: "call_next_tx noon ''o1'' ''q1'' ''1'' ''u1'' False Classic 1709164800000 (lobby two_waiting) =
      Inr (called_second, x)" by blast
  obtain s' where "called_effects ''o1'' ''q1'' ''1'' called_second x = (Inr (), s')" using called_effects_Inr by blast
  then have "callNext noon ''o1'' ''q1'' ''1'' ''u1'' False Classic (lobby two_waiting) = (Inr called_second, s')"
    by (simp add: callNext_def svc_bind_def svc_get_def lobby_floor with_tenant_def tx svc_return_def)
  then show ?thesis by blast
qed

theorem call_next_takes_first_witness:
  "\<exists>s'. callNext noon ''o1'' ''q1'' ''1'' ''u1'' False Classic (lobby two_waiting) = (Inr called_second, s') \<and>
    map tk_status (q_tickets s') = [''waiting'', ''called'']"
proof -
  obtain s' where run: "callNext noon ''o1'' ''q1'' ''1'' ''u1'' False Classic (lobby two_waiting) = (Inr called_second, s')"
    using lobby_call by blast
  from call_next_takes_first [OF run two_waiting_distinct] obtain w where
    w: "w \<in> set two_waiting" "called_second = (mark_called noon ''u1'' ''1'' w)\<lparr>tk_position := None\<rparr>"
    and ts: "q_tickets s' = map (\<lambda>x. if x = w then called_second else x) two_waiting"
    by (auto simp: lobby_def)
  have "tk_id called_second = tk_id w" by (subst w(2)) (simp add: mark_called_def)
  moreover have "tk_id called_second = ''t2''"
    by (simp add: called_second_def mark_called_def second_def demo_ticket_def)
  ultimately have "tk_id w = ''t2''" by simp
  with w(1) have "w = second" by (auto simp: two_waiting_def second_def demo_ticket_def)
  have ids: "tk_id (demo_ticket ''t1'' ''b1'') \<noteq> tk_id second" and wait: "tk_status (demo_ticket ''t1'' ''b1'') = ''waiting''"
    by (simp_all add: second_def demo_ticket_def)
  have two: "two_waiting = [demo_ticket ''t1'' ''b1'', second]" by (simp add: two_waiting_def second_def)
  have other: "demo_ticket ''t1'' ''b1'' \<noteq> second" using ids by (intro notI) simp
  have "q_tickets s' = [demo_ticket ''t1'' ''b1'', called_second]"
    unfolding ts \<open>w = second\<close> two by (simp only: list.map other if_False refl if_True)
  then have "map tk_status (q_tickets s') = [''waiting'', ''called'']"
    by (simp add: wait called_second_def mark_called_def)
  with run show ?thesis by (intro exI [of _ s'] conjI)
qed

theorem tickets_stay_well_timed_witness:
  "list_all well_timed (q_tickets (snd (callNext noon ''o1'' ''q1'' ''1'' ''u1'' False Classic (lobby two_waiting))))"
proof -
  have "ticket_or_transfer\<^sup>*\<^sup>* (lobby two_waiting) (snd (callNext noon ''o1'' ''q1'' ''1'' ''u1'' False Classic (lobby two_waiting)))"
    by (intro r_into_rtranclp ticket_or_transfer.intros ticket_step.intros)
  moreover have "list_all well_timed (q_tickets (lobby two_waiting))"
    by (simp add: lobby_def two_waiting_def demo_ticket_def well_timed_waiting)
  ultimately show ?thesis using tickets_stay_well_timed [OF _ two_waiting_distinct] by blast
qed

definition one_missed :: "queue_ticket list" where
  "one_missed = [(demo_ticket ''t3'' ''b1'')\<lparr>tk_status := ''no_show'', tk_completedAt := Some 1709200000000\<rparr>, second]"

theorem settled_tickets_stay_witness:
  "\<exists>b\<in>set (q_tickets (snd (recall noon ''o1'' ''t3'' ''u1'' Classic None (lobby one_missed)))).
    tk_id b = ''t3'' \<and> tk_status b = ''no_show''"
proof -
  have "ticket_step\<^sup>*\<^sup>* (lobby one_missed) (snd (recall noon ''o1'' ''t3'' ''u1'' Classic None (lobby one_missed)))"
    by (intro r_into_rtranclp ticket_step.intros)
  moreover have "distinct (map tk_id (q_tickets (lobby one_missed)))"
    by (simp add: lobby_def one_missed_def second_def demo_ticket_def)
  moreover have "find_ticket ''o1'' ''t3'' (lobby one_missed) =
      Some ((demo_ticket ''t3'' ''b1'')\<lparr>tk_status := ''no_show'', tk_completedAt := Some 1709200000000\<rparr>)"
    by (simp add: find_ticket_def lobby_def one_missed_def second_def demo_ticket_def)
  ultimately show ?thesis using settled_tickets_stay [where i = "''t3''"] by (fastforce simp: over_statuses)
qed

end
