(* ===== verification/JourneyFacts.thy ===== *)
theory JourneyFacts
  imports TicketFacts
begin

text \<open>
  What the ticket services tell the loyalty services, which queues the public may enter, the limit of
  the plan, and the completion of a step of a visit.
\<close>

section \<open>Events for the loyalty services\<close>

fun visit_event :: "queue_effect \<Rightarrow> bool" where
  "visit_event (EvTicketCompleted _ _ _ _ _) = True"
| "visit_event (EvTicketNoShow _ _ _ _) = True"
| "visit_event _ = False"

definition visit_events :: "qdb \<Rightarrow> queue_effect list" where
  "visit_events s = filter visit_event (q_effects s)"

definition says :: "queue_effect list \<Rightarrow> qdb \<Rightarrow> bool" where
  "says L s \<longleftrightarrow> visit_events s = L"

lemma says_blinds [pres_intros]:
  "blind q_contacts_update (says L)" "blind q_consents_update (says L)" "blind q_queues_update (says L)"
  "blind q_visits_update (says L)" "blind q_flowSteps_update (says L)" "blind q_redis_update (says L)"
  "blind q_limitsCache_update (says L)" "blind q_tickets_update (says L)"
  by (simp_all add: blind_def says_def visit_events_def)

lemma says_log: "\<not> visit_event ev \<Longrightarrow> preserves (says L) (q_log ev)"
  by (simp add: preserves_def says_def visit_events_def q_log_def svc_modify_def)

lemma says_parts:
  "preserves (says L) (publish_ticket queue branch org ev i)"
  "preserves (says L) (emitTicketCalledNotification org t d)"
  "preserves (says L) (emitTransitionSideEffects org t i to1)"
  "preserves (says L) (called_effects org queue n t)" "preserves (says L) (logSmsConsentEvent org a i)"
  unfolding publish_ticket_def emitTicketCalledNotification_def emitTransitionSideEffects_def
    called_effects_def logSmsConsentEvent_def Let_def
  by (intro preserves_bind preserves_if preserves_return says_log; simp)+

lemma says_increment: "preserves (says L) (svc_modify (incrementMonthlyTicketCount e org))"
  by (rule preserves_modify)
    (simp add: incrementMonthlyTicketCount_def Let_def says_def visit_events_def split: option.splits)

lemma says_issued: "preserves (says L) (emitTicketIssuedSideEffects e org t queue branch)"
  unfolding emitTicketIssuedSideEffects_def
  by (intro preserves_bind preserves_if preserves_return says_increment says_parts says_log; simp)

lemma says_live: "preserves (says L) (svc_get (liveQueueBookedAtFloor e org queue))"
  by (rule preserves_svc_get) (rule live_floor_keeps [OF says_blinds(6)])

lemma says_live_tx: "preserves_tx (says L) (tx_get (liveQueueBookedAtFloor e org queue))"
  using live_floor_keeps [OF says_blinds(6)] by (auto simp: preserves_tx_def tx_get_def) (metis snd_conv)

lemma says_reads:
  "preserves (says L) (svc_get (getMonthlyTicketCount e org))" "preserves (says L) (svc_get (checkLimit e org feature n))"
  by (auto intro!: preserves_svc_get simp: getMonthlyTicketCount_def checkLimit_def getLimits_def q_cache_set_def
      Let_def says_def visit_events_def split: option.splits)

lemma says_core:
  "preserves_tx (says L) (transitionTicketCore e org i allowed to1 p)" "preserves_tx (says L) (create_ticket t)"
  "preserves_tx (says L) (resolveVisitExternalRef org v r)" "preserves_tx (says L) (reserveQueueDisplayNumber e org queue b)"
  "preserves_tx (says L) (resolveQueueForFlowStep org branch tmpl k sid linked)"
  unfolding transitionTicketCore_def create_ticket_def resolveVisitExternalRef_def persistVisitExternalRef_def
    reserveQueueDisplayNumber_def resolveQueueForFlowStep_def Let_def
  by (intro pres_intros)+

lemma says_next:
  "preserves_tx (says L) (resolveNextJourneyStepTx org c)" "preserves_tx (says L) (resolveNextJourneyStep org c)"
  "preserves_tx (says L) (getNextStepResolutionFailure org c)"
  unfolding resolveNextJourneyStepTx_def resolveNextJourneyStep_def getNextStepResolutionFailure_def
  by (intro pres_intros says_core)+

lemma says_issue_core: "preserves_tx (says L) (issueTicketCore e org d)"
  unfolding issueTicketCore_def issue_visit_def issue_number_def issue_customer_def create_contact_def issue_consents_def
    logMarketingConsent_def issue_ref_def Let_def
  by (intro pres_intros says_core)

lemma says_issue: "preserves (says L) (issueTicket e mode org0 raw)"
  unfolding issueTicket_def by (intro pres_intros says_reads says_issue_core says_issued says_parts)

lemma says_transition:
  assumes "to1 \<noteq> ''completed''" and "to1 \<noteq> ''no_show''"
  shows "preserves (says L) (transitionTicket e org i allowed to1 p)"
  unfolding transitionTicket_def using assms by (simp add: pres_intros says_core says_parts)

lemma says_finalize: "preserves (says L) (finalizeTicketWithJourneyAdvance e org i k given)"
  unfolding finalizeTicketWithJourneyAdvance_def finalize_precheck_def finalize_tx_def finalize_locked_def
    finalize_ref_def issue_next_step_def finalize_effects_def
  by (intro pres_intros says_core says_next says_issue_core says_issued says_parts)

lemma ticket_step_says: "ticket_step s t \<Longrightarrow> says L s \<Longrightarrow> says L t"
proof (induction rule: ticket_step.induct)
  case (step_visit s e org v d src)
  have "preserves (says L) (createVisitStep e org v d src)"
    unfolding createVisitStep_def reopen_visit_def by (intro pres_intros says_issue)
  then show ?case using step_visit by (rule preservesD)
qed (auto intro!: preservesD [where I = "says L"] pres_intros says_issue says_live says_live_tx says_core says_next says_parts
    says_transition says_finalize says_log
    simp: callNext_def call_next_tx_def callSpecific_def call_specific_tx_def bringToFirst_def bring_to_first_tx_def
      markReady_def mark_ready_tx_def serve_def complete_def noShow_def cancel_def cancel_ticket_tx_def recall_def changeDesk_def
      change_desk_tx_def refreshVisitStatus_def complete_visit_def keep_visit_active_def updateTrackPreferences_def Let_def)

lemma transfer_says: "preserves (says L) (transfer e org i target u n given surface)"
  unfolding transfer_def transfer_tx_def transfer_ref_def by (intro pres_intros says_core says_log; simp)


definition at_desk :: "queue_ticket" where
  "at_desk = (demo_ticket ''t1'' ''b1'')\<lparr>tk_status := ''serving'', tk_deskNumber := Some ''1'',
     tk_calledAt := Some 1709200200000, tk_servedAt := Some 1709200500000\<rparr>"

lemma at_desk_acting: "acting_ticket noon ''o1'' ''t1'' ''u1'' Classic (lobby [at_desk]) = Inr at_desk"
proof -
  have t: "find_ticket ''o1'' ''t1'' (lobby [at_desk]) = Some at_desk"
    by (simp add: find_ticket_def lobby_def at_desk_def demo_ticket_def)
  have surface: "assertActionSurfaceForTicket noon ''o1'' ''t1'' Classic (lobby [at_desk]) = Inr ()"
    by (simp add: assertActionSurfaceForTicket_def isTicketJourneyManaged_def t isQueueJourneyManaged_def err_bind_def)
      (simp add: at_desk_def demo_ticket_def lobby_queue demo_queue_def)
  have "js_trim ''1'' = ''1''" by code_simp
  then have "assertClassicDeskAssignmentForBranch ''o1'' ''u1'' ''b1'' (Some ''1'') (lobby [at_desk]) = Inr ()"
    by (simp add: assertClassicDeskAssignmentForBranch_def listAssignedDeskNumbersInBranch_def lobby_def Let_def)
  then show ?thesis by (simp add: acting_ticket_def surface t err_bind_def) (simp add: at_desk_def demo_ticket_def)
qed

definition done_ticket :: queue_ticket where
  "done_ticket = change_status noon ''completed''
     (empty_patch\<lparr>tp_completedAt := Some (qe_now noon), tp_externalRef := None\<rparr>) at_desk"

lemma at_desk_finalize:
  "\<exists>x. finalize_tx noon ''o1'' at_desk ''completed'' b None (lobby [at_desk]) = Inr ((done_ticket, None), x)"
proof -
  have at: "tk_id at_desk = ''t1''" "tk_visitId at_desk = None" "tk_status at_desk = ''serving''"
    "tk_queueId at_desk = ''q1''" "tk_branchId at_desk = ''b1''"
    by (simp_all add: at_desk_def demo_ticket_def)
  have t: "find_ticket ''o1'' ''t1'' (lobby [at_desk]) = Some at_desk"
    and found: "List.find (\<lambda>x. tk_id x = ''t1'') (q_tickets (lobby [at_desk])) = Some at_desk"
    by (simp_all add: find_ticket_def lobby_def at_desk_def demo_ticket_def)
  have gate: "assertStaffQueueActionAllowed noon ''o1'' ''q1'' ''b1'' label QueueStatusOnly (lobby [at_desk]) = Inr ()" for label
    by (simp add: assertStaffQueueActionAllowed_def lobby_queue) (simp add: demo_queue_def)
  have next1: "resolveNextJourneyStepTx ''o1'' \<lparr>jc_visitId = None, jc_stepIndex = k, jc_branchId = br, jc_queueId = q,
      jc_flowTemplateId = f\<rparr> s = Inr ((None, False), s)" for k br q f s
    by (simp add: resolveNextJourneyStepTx_def next_configured_def tx_read_def tx_return_def)
  show ?thesis
    by (simp add: finalize_tx_def tx_read_def at t finalize_locked_def tx_bind_def next1 finalize_ref_def tx_return_def
        transitionTicketCore_def branchHoursGateForTransition_def gate tx_lift_def tx_update_one_def found
        done_ticket_def [symmetric])
qed

lemma finalize_effects_Inr: "\<exists>s'. finalize_effects e org i k r s = (Inr (), s')"
  by (cases "snd r") (simp_all add: finalize_effects_def emitTicketIssuedSideEffects_def emitTransitionSideEffects_def
      publish_ticket_def emitTicketCalledNotification_def q_log_def svc_bind_def svc_modify_def svc_return_def Let_def)

lemma demo_complete:
  "\<exists>s'. complete noon ''o1'' ''t1'' ''u1'' None Classic (lobby [at_desk]) = (Inr (done_ticket, None), s')"
proof -
  have at: "tk_visitId at_desk = None" by (simp add: at_desk_def demo_ticket_def)
  have t: "find_ticket ''o1'' ''t1'' (lobby [at_desk]) = Some at_desk"
    by (simp add: find_ticket_def lobby_def at_desk_def demo_ticket_def)
  have pre: "resolveNextJourneyStep ''o1'' (journey_ctx_of at_desk) s = Inr (None, s)" for s
    by (simp add: resolveNextJourneyStep_def next_configured_def journey_ctx_of_def at tx_read_def tx_return_def)
  have check: "finalize_precheck ''o1'' at_desk None s = (Inr (), s)" for s
    by (simp add: finalize_precheck_def at svc_return_def)
  obtain x where x: "finalize_tx noon ''o1'' at_desk ''completed'' (accepts_ref at_desk (lobby [at_desk])) None (lobby [at_desk]) =
      Inr ((done_ticket, None), x)" using at_desk_finalize by blast
  obtain s' where "finalize_effects noon ''o1'' ''t1'' ''completed'' (done_ticket, None) x = (Inr (), s')"
    using finalize_effects_Inr by blast
  then have "finalizeTicketWithJourneyAdvance noon ''o1'' ''t1'' ''completed'' None (lobby [at_desk]) =
      (Inr (done_ticket, None), s')"
    by (simp add: finalizeTicketWithJourneyAdvance_def svc_read_def t svc_bind_def pre check svc_catch_def with_tenant_def x
        svc_return_def)
  then have "complete noon ''o1'' ''t1'' ''u1'' None Classic (lobby [at_desk]) = (Inr (done_ticket, None), s')"
    by (simp add: complete_def svc_read_def svc_bind_def svc_lift_def at_desk_acting svc_return_def)
  then show ?thesis by (intro exI)
qed


section \<open>Queues that the public may enter\<close>

lemma foldl_min_least:
  fixes a :: int
  shows "foldl min a xs \<le> a" and "x \<in> set xs \<Longrightarrow> foldl min a xs \<le> x"
proof -
  have "foldl min a xs \<le> a \<and> (\<forall>x\<in>set xs. foldl min a xs \<le> x)"
  proof (induction xs arbitrary: a)
    case (Cons y ys)
    from Cons [of "min a y"] show ?case by auto
  qed simp
  then show "foldl min a xs \<le> a" and "x \<in> set xs \<Longrightarrow> foldl min a xs \<le> x" by auto
qed

lemma later_step_excluded:
  assumes "f \<in> set steps" and "g \<in> set steps" and "fs_queueId f = Some q" and "q \<noteq> []"
    and "fs_stepIndex g < fs_stepIndex f"
  shows "q \<in> set (getNonEntryQueueIdsFromFlowSteps steps)"
proof (cases steps)
  case (Cons x xs)
  have "foldl min (fs_stepIndex x) (map fs_stepIndex xs) \<le> fs_stepIndex g"
    using assms(2) by (auto simp: Cons intro: foldl_min_least)
  then have "foldl min (fs_stepIndex x) (map fs_stepIndex xs) < fs_stepIndex f" using assms(5) by simp
  then have "f \<in> set (filter (\<lambda>y. truthy_str (fs_queueId y) \<and>
      foldl min (fs_stepIndex x) (map fs_stepIndex xs) < fs_stepIndex y) steps)"
    using assms(1,3,4) by simp
  from imageI [OF this, of "\<lambda>y. the (fs_queueId y)"] show ?thesis
    using assms(3) by (simp only: getNonEntryQueueIdsFromFlowSteps_def Cons list.case Let_def set_map option.sel)
qed (use assms(1) in simp)

lemma public_issue_checked:
  assumes "issueTicket e PublicIssue (Some org) d s = (Inr r, t)" and "org \<noteq> []" and "\<not> truthy_str (ix_visitId d)"
  shows "assertPublicQueueEntryAllowed org (ix_branchId d) (ix_queueId d) s = Inr ()"
proof -
  obtain d' where acc: "accepted_issue PublicIssue d = Inr d'"
    using assms(1) by (cases "accepted_issue PublicIssue d") (auto simp: issueTicket_def svc_bind_def svc_lift_def svc_throw_def)
  then have d': "ix_branchId d' = ix_branchId d" "ix_queueId d' = ix_queueId d" "ix_visitId d' = ix_visitId d"
    by (auto simp: accepted_issue_def Let_def split: if_splits)
  show ?thesis
    using assms by (cases "assertPublicQueueEntryAllowed org (ix_branchId d) (ix_queueId d) s")
      (auto simp: issueTicket_def svc_bind_def svc_lift_def svc_throw_def svc_return_def acc d' issue_org_def svc_read_def)
qed


section \<open>The limit of the plan\<close>

lemma digit_not_sign: "is_digit c \<Longrightarrow> c \<noteq> CHR ''-'' \<and> c \<noteq> CHR ''+''"
  by (auto simp: is_digit_def)

lemma parse_digits:
  assumes "list_all is_digit x" and "x \<noteq> []"
  shows "parse_int x = Some (digits_value x)" "parse_int (CHR ''-'' # x) = Some (- digits_value x)"
proof -
  obtain c cs where x: "x = c # cs" using assms(2) by (cases x) auto
  have all: "takeWhile is_digit cs = cs" using assms(1) by (simp add: x list_all_iff takeWhile_eq_all_conv)
  show "parse_int x = Some (digits_value x)" "parse_int (CHR ''-'' # x) = Some (- digits_value x)"
    using assms digit_not_space [of c] digit_not_sign [of c] by (auto simp: parse_int_def x Let_def is_js_space_def all)
qed

lemma parse_show [simp]: "parse_int (show_int i) = Some i"
  by (simp add: show_int_def parse_digits show_nat_digits digits_value_show)

lemma count_counted:
  assumes "getMonthlyTicketCount e org s = (Some n, u)"
  shows "\<exists>v. q_cache_get (qe_now e) (monthly_key e org) u = Some v \<and> parse_int v = Some n"
  using assms by (auto simp: getMonthlyTicketCount_def Let_def q_cache_get_def q_cache_set_def split: option.splits)

definition redis_is :: "(string \<Rightarrow> (string \<times> time option) option) \<Rightarrow> qdb \<Rightarrow> bool" where
  "redis_is R s \<longleftrightarrow> q_redis s = R"

lemma redis_is_blinds [pres_intros]:
  "blind q_contacts_update (redis_is R)" "blind q_consents_update (redis_is R)" "blind q_queues_update (redis_is R)"
  "blind q_visits_update (redis_is R)" "blind q_flowSteps_update (redis_is R)" "blind q_limitsCache_update (redis_is R)"
  "blind q_tickets_update (redis_is R)" "blind q_effects_update (redis_is R)"
  by (simp_all add: blind_def redis_is_def)

lemma issue_core_redis: "issueTicketCore e org d s = Inr (a, u) \<Longrightarrow> q_redis u = q_redis s"
proof -
  have "preserves_tx (redis_is (q_redis s)) (issueTicketCore e org d)"
    unfolding issueTicketCore_def issue_visit_def issue_number_def issue_customer_def create_contact_def
      issue_consents_def logMarketingConsent_def issue_ref_def resolveVisitExternalRef_def persistVisitExternalRef_def
      reserveQueueDisplayNumber_def create_ticket_def Let_def
    by (intro pres_intros)
  then show "issueTicketCore e org d s = Inr (a, u) \<Longrightarrow> q_redis u = q_redis s"
    by (auto dest: preserves_txD simp: redis_is_def)
qed

lemma issued_effects_redis:
  assumes "emitTicketIssuedSideEffects e org t queue branch s = (Inr (), u)"
  shows "q_redis u = q_redis (incrementMonthlyTicketCount e org s)"
proof -
  let ?rest = "svc_bind (publish_ticket queue branch org ''issued'' (tk_id t)) (\<lambda>_.
     svc_bind (q_log (InvalidateStats org branch [queue])) (\<lambda>_.
     if \<not> truthy_str (tk_visitId t) \<and> canSendTransactionalSms t then q_log (SmsTicketIssued org (tk_id t))
     else svc_return ()))"
  have "preserves (redis_is (q_redis (incrementMonthlyTicketCount e org s))) ?rest"
    unfolding publish_ticket_def by (intro pres_intros)
  from preservesD [OF this, of "incrementMonthlyTicketCount e org s"] assms show ?thesis
    by (simp add: emitTicketIssuedSideEffects_def svc_bind_def svc_modify_def redis_is_def)
qed


section \<open>A ticket from the kiosk\<close>

definition kiosk_request :: issue_data where
  "kiosk_request = \<lparr>ix_queueId = ''q1'', ix_branchId = ''b1'', ix_serviceId = ''s1'', ix_visitId = None,
     ix_stepIndex = None, ix_deskNumber = None, ix_initialStatus = None, ix_customerId = None,
     ix_customerName = None, ix_customerPhone = None, ix_smsAllowed = None, ix_marketingSms = False,
     ix_marketingEmail = False, ix_source = ''kiosk'', ix_priority = None, ix_language = None, ix_note = None,
     ix_externalRef = None\<rparr>"

definition flow_step :: "int \<Rightarrow> string \<Rightarrow> flow_step_row" where
  "flow_step n q = \<lparr>fs_orgId = ''o1'', fs_templateId = ''f1'', fs_stepIndex = n, fs_deskNumber = [],
     fs_serviceId = ''s1'', fs_queueId = Some q, fs_stepRole = ''service'', fs_callingPolicy = ''fifo''\<rparr>"

definition three_tickets :: plan_limits where
  "three_tickets = [(''maxBranches'', PlanNumber 1), (''maxTicketsPerMonth'', PlanNumber 3), (''hasApiAccess'', PlanSwitch False)]"

lemma three_tickets_limit [simp]: "plan_number three_tickets ''maxTicketsPerMonth'' = Some 3"
  by (simp add: plan_number_def three_tickets_def)

definition kiosk :: qdb where
  "kiosk = (lobby two_waiting)\<lparr>q_queues := [demo_queue ''q1'', demo_queue ''q2''],
     q_flowTemplates := [\<lparr>fl_id = ''f1'', fl_orgId = ''o1'', fl_branchId = ''b1'', fl_name = ''Clinic'', fl_isActive = True\<rparr>],
     q_flowSteps := [flow_step 0 ''q1'', flow_step 1 ''q2''],
     q_subscriptions := [\<lparr>su_orgId = ''o1'', su_status = ''active'', su_limits = Some three_tickets\<rparr>]\<rparr>"

definition kiosk_ready :: qdb where
  "kiosk_ready = kiosk\<lparr>q_redis := (q_redis kiosk)(''org:o1:tickets-count:2024-2'' \<mapsto> (''2'', Some (1709200800000 + 86400 * 32 * 1000))),
     q_limitsCache := [''o1'' \<mapsto> (three_tickets, 1709200800000 + 300 * 1000)]\<rparr>"

definition kiosk_ticket :: queue_ticket where
  "kiosk_ticket = issued_ticket noon ''o1'' kiosk_request (demo_queue ''q1'') None ''A003'' (None, None, None) None None"

lemma kiosk_fields:
  "q_branches kiosk_ready = [demo_branch ''UTC'']" "q_dateOverrides kiosk_ready = []"
  "q_workingHours kiosk_ready = [\<lparr>wh_branchId = ''b1'', wh_dayOfWeek = 3, wh_window = demo_window\<rparr>]"
  "q_services kiosk_ready = [demo_service]" "q_queues kiosk_ready = [demo_queue ''q1'', demo_queue ''q2'']"
  "q_tickets kiosk_ready = two_waiting" "q_flowSteps kiosk_ready = [flow_step 0 ''q1'', flow_step 1 ''q2'']"
  "q_branchServices kiosk_ready = [\<lparr>bs_branchId = ''b1'', bs_serviceId = ''s1'', bs_isActive = True,
       bs_estimateLow = None, bs_estimateHigh = None, bs_journeyModeOverride = None\<rparr>]"
  by (simp_all add: kiosk_ready_def kiosk_def lobby_def demo_qdb_def empty_qdb_def)

lemma kiosk_mode:
  "resolveEffectiveJourneyMode ''o1'' ''b1'' ''s1'' (Some ''q1'') kiosk_ready = ''single_ticket''"
  by (simp add: resolveEffectiveJourneyMode_def kiosk_fields find_queue_def Let_def normalizeJourneyMode_def)
    (simp add: demo_queue_def demo_service_def demo_branch_def normalizeJourneyMode_def)

lemma kiosk_issue_queue: "issue_queue noon ''o1'' kiosk_request kiosk_ready = Inr (demo_queue ''q1'')"
proof -
  have "assertBranchAcceptsCustomerIntake noon ''o1'' ''b1'' label 1709200800000 kiosk_ready = Inr ()" for label
    by (rule lobby_open) (simp_all add: kiosk_fields)
  moreover have "qe_now noon = 1709200800000" by (simp add: noon_def)
  ultimately show ?thesis
    by (simp add: issue_queue_def kiosk_request_def kiosk_fields err_bind_def)
      (simp add: demo_branch_def demo_service_def demo_queue_def)
qed

lemma kiosk_core: "\<exists>u. issueTicketCore noon ''o1'' kiosk_request kiosk_ready = Inr (kiosk_ticket, u)"
proof -
  have mode: "issue_mode noon ''o1'' kiosk_request kiosk_ready = ''single_ticket''"
    by (simp add: issue_mode_def kiosk_request_def kiosk_mode)
  have visit: "issue_visit noon ''o1'' kiosk_request kiosk_ready = Inr ((None, None), kiosk_ready)"
    using mode by (simp add: issue_visit_def tx_read_def tx_return_def kiosk_request_def)
  have "pad_start 3 3 = ''003''" by code_simp
  then have number: "\<exists>u. issue_number noon ''o1'' kiosk_request None kiosk_ready = Inr (''A003'', u) \<and> q_tickets u = two_waiting"
    by (simp add: issue_number_def reserveQueueDisplayNumber_def tx_read_def tx_bind_def tx_return_def kiosk_request_def
        find_queue_def kiosk_fields tx_update_one_def)
      (simp add: demo_queue_def session_expired_def noon_def formatDisplayNumber_def)
  then obtain u where u: "issue_number noon ''o1'' kiosk_request None kiosk_ready = Inr (''A003'', u)" "q_tickets u = two_waiting"
    by blast
  have who: "issue_customer noon ''o1'' kiosk_request v = Inr ((None, None, None), v)" for v
    by (simp add: issue_customer_def tx_read_def tx_return_def kiosk_request_def)
  have consents: "issue_consents ''o1'' kiosk_request None v = Inr ((), v)" for v
    by (simp add: issue_consents_def tx_return_def)
  have step: "issue_step ''o1'' kiosk_request ''single_ticket'' None v = None" for v
    by (simp add: issue_step_def kiosk_request_def)
  have ref1: "issue_ref ''o1'' kiosk_request None k role v = Inr (None, v)" for k role v
    by (simp add: issue_ref_def tx_return_def)
  have "tk_id kiosk_ticket \<notin> tk_id ` set two_waiting"
    by (simp add: kiosk_ticket_def issued_ticket_def noon_def demo_qenv_def two_waiting_def demo_ticket_def)
  then have "create_ticket kiosk_ticket u = Inr (kiosk_ticket, q_tickets_update (\<lambda>ts. ts @ [kiosk_ticket]) u)"
    by (simp add: create_ticket_def tx_defs u(2))
  then show ?thesis
    by (simp add: issueTicketCore_def tx_read_def tx_bind_def tx_lift_def tx_return_def kiosk_issue_queue visit u(1) who
        consents mode step ref1 Let_def kiosk_ticket_def [symmetric])
qed

lemma kiosk_counts:
  "getMonthlyTicketCount noon ''o1'' kiosk = (Some 2, kiosk\<lparr>q_redis := (q_redis kiosk)(''org:o1:tickets-count:2024-2'' \<mapsto>
     (''2'', Some (1709200800000 + 86400 * 32 * 1000)))\<rparr>)"
  "getLimits noon ''o1'' kiosk = (three_tickets, kiosk\<lparr>q_limitsCache := [''o1'' \<mapsto> (three_tickets, 1709200800000 + 300 * 1000)]\<rparr>)"
  "checkLimit noon ''o1'' ''maxTicketsPerMonth'' (Some 2) (kiosk\<lparr>q_redis := r\<rparr>) =
     (None, kiosk\<lparr>q_redis := r, q_limitsCache := [''o1'' \<mapsto> (three_tickets, 1709200800000 + 300 * 1000)]\<rparr>)"
proof -
  have key: "monthly_key noon ''o1'' = ''org:o1:tickets-count:2024-2''"
    by (simp add: monthly_key_def noon_def demo_qenv_def)
  have two: "show_int 2 = ''2''" by code_simp
  have ts: "q_tickets kiosk = two_waiting" and subs: "q_subscriptions kiosk = [\<lparr>su_orgId = ''o1'', su_status = ''active'', su_limits = Some three_tickets\<rparr>]"
    and cache: "q_limitsCache kiosk = (\<lambda>_. None)" and redis: "q_redis kiosk = [''branch:timezone:b1'' \<mapsto> (''UTC'', None)]"
    by (simp_all add: kiosk_def lobby_def demo_qdb_def empty_qdb_def)
  have count: "int (length (filter (\<lambda>t. tk_orgId t = ''o1'' \<and> qe_monthStart noon \<le> tk_bookedAt t) two_waiting)) = 2"
    by (simp add: two_waiting_def demo_ticket_def noon_def demo_qenv_def)
  show "getMonthlyTicketCount noon ''o1'' kiosk = (Some 2, kiosk\<lparr>q_redis := (q_redis kiosk)(''org:o1:tickets-count:2024-2'' \<mapsto>
     (''2'', Some (1709200800000 + 86400 * 32 * 1000)))\<rparr>)"
    by (simp add: getMonthlyTicketCount_def q_cache_get_def redis key ts count Let_def two q_cache_set_def)
      (simp add: noon_def)
  show "getLimits noon ''o1'' kiosk = (three_tickets, kiosk\<lparr>q_limitsCache := [''o1'' \<mapsto> (three_tickets, 1709200800000 + 300 * 1000)]\<rparr>)"
    by (simp add: getLimits_def cached_limits_def cache limits_of_plan_def subs LIMITS_CACHE_TTL_def noon_def)
  show "checkLimit noon ''o1'' ''maxTicketsPerMonth'' (Some 2) (kiosk\<lparr>q_redis := r\<rparr>) =
     (None, kiosk\<lparr>q_redis := r, q_limitsCache := [''o1'' \<mapsto> (three_tickets, 1709200800000 + 300 * 1000)]\<rparr>)"
    by (simp add: checkLimit_def getLimits_def cached_limits_def cache limits_of_plan_def subs LIMITS_CACHE_TTL_def noon_def)
qed

lemma effects_issued_Inr: "\<exists>u. emitTicketIssuedSideEffects e org t queue branch s = (Inr (), u)"
  by (simp add: emitTicketIssuedSideEffects_def publish_ticket_def q_log_def svc_bind_def svc_modify_def svc_return_def)

lemma kiosk_steps:
  "loadActiveFlowStepsForBranch ''o1'' ''b1'' kiosk = [flow_step 0 ''q1'', flow_step 1 ''q2'']"
proof -
  have "q_flowTemplates kiosk = [\<lparr>fl_id = ''f1'', fl_orgId = ''o1'', fl_branchId = ''b1'', fl_name = ''Clinic'', fl_isActive = True\<rparr>]"
    "q_flowSteps kiosk = [flow_step 0 ''q1'', flow_step 1 ''q2'']"
    by (simp_all add: kiosk_def)
  then show ?thesis by (simp add: loadActiveFlowStepsForBranch_def Let_def) (simp add: flow_step_def)
qed

lemma kiosk_pickups:
  "getNonEntryQueueIdsFromFlowSteps [flow_step 0 ''q1'', flow_step 1 ''q2''] = [''q2'']"
  by (simp add: getNonEntryQueueIdsFromFlowSteps_def Let_def) (simp add: flow_step_def)

lemma kiosk_issue: "\<exists>w t. issueTicket noon PublicIssue (Some ''o1'') kiosk_request kiosk = (Inr (kiosk_ticket, w), t)"
proof -
  have accepted: "accepted_issue PublicIssue kiosk_request = Inr kiosk_request"
  proof -
    have "to_lower (js_trim ''kiosk'') = ''kiosk''" by code_simp
    then show ?thesis by (simp add: accepted_issue_def kiosk_request_def normalized_phone_def Let_def)
  qed
  have entry: "assertPublicQueueEntryAllowed ''o1'' ''b1'' ''q1'' kiosk = Inr ()"
    by (simp only: assertPublicQueueEntryAllowed_def getNonEntryQueueIdsForBranch_def kiosk_steps kiosk_pickups)
      (simp add: find_queue_def kiosk_def demo_queue_def)
  have prep: "prepareIssueTicketPayload noon ''o1'' kiosk_request kiosk_ready = kiosk_request"
    by (simp add: prepareIssueTicketPayload_def kiosk_request_def kiosk_mode)
  have ready: "kiosk\<lparr>q_redis := (q_redis kiosk)(''org:o1:tickets-count:2024-2'' \<mapsto> (''2'', Some (1711965600000))),
      q_limitsCache := [''o1'' \<mapsto> (three_tickets, 1709201100000)]\<rparr> = kiosk_ready"
    by (simp add: kiosk_ready_def)
  obtain u where core: "issueTicketCore noon ''o1'' kiosk_request kiosk_ready = Inr (kiosk_ticket, u)" using kiosk_core by (elim exE)
  have log: "logSmsConsentEvent ''o1'' a i u = (Inr (), u\<lparr>q_effects := q_effects u @ [Activity ''o1'' a i]\<rparr>)" for a i
    by (simp add: logSmsConsentEvent_def q_log_def svc_modify_def)
  obtain x where eff: "emitTicketIssuedSideEffects noon ''o1'' kiosk_ticket ''q1'' ''b1'' (u\<lparr>q_effects := q_effects u @
      [Activity ''o1'' ''consent.sms.captured'' (patched (tk_customerId kiosk_ticket) (tk_id kiosk_ticket))]\<rparr>) = (Inr (), x)"
    by (rule exE [OF effects_issued_Inr]) assumption
  have ids: "ix_queueId kiosk_request = ''q1''" "ix_branchId kiosk_request = ''b1''" "ix_visitId kiosk_request = None"
    by (simp_all add: kiosk_request_def)
  show ?thesis
    by (simp add: issueTicket_def svc_bind_def svc_lift_def accepted svc_return_def svc_read_def issue_org_def entry ids
        svc_get_def kiosk_counts ready prep with_tenant_def core log eff)
qed



end
