(* ===== verification/CompletionFacts.thy ===== *)
theory CompletionFacts
  imports JourneyFacts
begin

text \<open>
  Completing a step of a visit: the ticket of the step is completed and the ticket of the next step is
  issued in one transaction, or nothing is.
\<close>

section \<open>Repaired links\<close>

text \<open>Looking for the next step may repair the links of steps to queues; nothing else changes.\<close>

definition links_only :: "qdb \<Rightarrow> qdb \<Rightarrow> bool" where
  "links_only s u \<longleftrightarrow> u = s\<lparr>q_flowSteps := q_flowSteps u\<rparr>"

lemma links_only_refl [simp]: "links_only s s"
  by (simp add: links_only_def)

lemma links_only_blind [pres_intros]: "blind q_flowSteps_update (links_only s)"
proof (unfold blind_def, intro allI impI)
  fix f u assume "links_only s u"
  then obtain x where u: "u = s\<lparr>q_flowSteps := x\<rparr>" unfolding links_only_def by blast
  show "links_only s (q_flowSteps_update f u)" by (simp add: u links_only_def)
qed

lemma links_only_fields:
  assumes "links_only s u"
  shows "q_tickets u = q_tickets s" "q_visits u = q_visits s" "find_ticket org i u = find_ticket org i s"
proof -
  obtain x where u: "u = s\<lparr>q_flowSteps := x\<rparr>" using assms unfolding links_only_def by blast
  show "q_tickets u = q_tickets s" "q_visits u = q_visits s" "find_ticket org i u = find_ticket org i s"
    by (simp_all add: u find_ticket_def)
qed

lemma links_only_next:
  "preserves_tx (links_only s) (resolveQueueForFlowStep org branch tmpl k sid linked)"
  "preserves_tx (links_only s) (resolveNextJourneyStepTx org c)" "preserves_tx (links_only s) (resolveNextJourneyStep org c)"
  "preserves_tx (links_only s) (getNextStepResolutionFailure org c)"
  unfolding resolveNextJourneyStepTx_def resolveNextJourneyStep_def getNextStepResolutionFailure_def
    resolveQueueForFlowStep_def
  by (intro pres_intros)+

lemma finalize_effects_tickets: "q_tickets (snd (finalize_effects e org i k r s)) = q_tickets s"
proof -
  have "preserves (\<lambda>u. q_tickets u = q_tickets s) (finalize_effects e org i k r)"
    unfolding finalize_effects_def emitTicketIssuedSideEffects_def emitTransitionSideEffects_def publish_ticket_def
      emitTicketCalledNotification_def incrementMonthlyTicketCount_def Let_def
    by (intro pres_intros) (auto simp: blind_def preserves_def svc_modify_def split: option.splits)
  then show ?thesis by (rule preservesD) simp
qed

text \<open>What a completion comes down to.\<close>

lemma svc_bind_cases:
  assumes "svc_bind m f s = (r, s')"
  obtains (thrown) err where "m s = (Inl err, s')" and "r = Inl err"
  | (went) a u where "m s = (Inr a, u)" and "f a u = (r, s')"
  using assms by (auto simp: svc_bind_def split: prod.splits sum.splits)

lemma preserves_run: "preserves I m \<Longrightarrow> I s \<Longrightarrow> m s = (r, s') \<Longrightarrow> I s'"
  by (auto simp: preserves_def)

lemma finalize_cases:
  assumes "finalizeTicketWithJourneyAdvance e org i terminal given s = (r, s')"
  obtains (failed) err where "r = Inl err" and "links_only s s'"
  | (finished) j u p v where "find_ticket org i s = Some j" and "links_only s u"
      and "finalize_tx e org j terminal (accepts_ref j s) given u = Inr (p, v)"
      and "r = Inr p" and "s' = snd (finalize_effects e org i terminal p v)"
proof (cases "find_ticket org i s")
  case None
  with assms show ?thesis by (auto simp: finalizeTicketWithJourneyAdvance_def svc_read_def svc_throw_def intro: failed)
next
  case (Some j)
  have pre: "preserves (links_only s) (with_tenant (resolveNextJourneyStep org (journey_ctx_of j)))"
    by (intro pres_intros links_only_next)
  have chk: "preserves (links_only s) (finalize_precheck org j nx)" for nx
    unfolding finalize_precheck_def by (intro pres_intros links_only_next)
  from assms have "svc_bind (with_tenant (resolveNextJourneyStep org (journey_ctx_of j))) (\<lambda>pre.
      svc_bind (finalize_precheck org j pre) (\<lambda>_.
      svc_bind (svc_catch (with_tenant (finalize_tx e org j terminal (accepts_ref j s) given)) (\<lambda>err. svc_throw (queue_gone err)))
        (\<lambda>r. svc_bind (finalize_effects e org i terminal r) (\<lambda>_. svc_return r)))) s = (r, s')"
    by (simp add: finalizeTicketWithJourneyAdvance_def svc_read_def Some)
  then show ?thesis
  proof (cases rule: svc_bind_cases)
    case (thrown err)
    then show ?thesis using preserves_run [OF pre links_only_refl] by (intro failed)
  next
    case (went nx w)
    have w: "links_only s w" using preserves_run [OF pre _ went(1)] by simp
    from went(2) show ?thesis
    proof (cases rule: svc_bind_cases)
      case (thrown err)
      then show ?thesis using preserves_run [OF chk w] by (intro failed)
    next
      case (went un u)
      have u: "links_only s u" using preserves_run [OF chk w went(1)] .
      from went(2) show ?thesis
      proof (cases rule: svc_bind_cases)
        case (thrown err)
        then have "s' = u" by (auto simp: svc_catch_def with_tenant_def svc_throw_def split: sum.splits)
        with thrown u show ?thesis by (intro failed) auto
      next
        case (went p v)
        obtain x where x: "finalize_effects e org i terminal p v = (Inr (), x)" using finalize_effects_Inr by (rule exE)
        from went u Some x show ?thesis
          by (intro finished) (auto simp: svc_catch_def with_tenant_def svc_throw_def svc_bind_def svc_return_def split: sum.splits)
      qed
    qed
  qed
qed

text \<open>
  C28. A completion that fails changes nothing that anyone sees: no ticket, no visit, no number, no
  customer, no message; only links of flow steps to queues that were gone may have been repaired.
\<close>

theorem failed_completion_changes_nothing:
  assumes "finalizeTicketWithJourneyAdvance e org i terminal given s = (Inl err, s')"
  shows "s' = s\<lparr>q_flowSteps := q_flowSteps s'\<rparr>"
  using assms by (cases rule: finalize_cases) (simp_all add: links_only_def)

section \<open>The ticket of the next step\<close>

definition tickets_are :: "queue_ticket list \<Rightarrow> qdb \<Rightarrow> bool" where
  "tickets_are ts s \<longleftrightarrow> q_tickets s = ts"

lemma tickets_are_blinds [pres_intros]:
  "blind q_contacts_update (tickets_are ts)" "blind q_consents_update (tickets_are ts)" "blind q_queues_update (tickets_are ts)"
  "blind q_visits_update (tickets_are ts)" "blind q_flowSteps_update (tickets_are ts)"
  by (simp_all add: blind_def tickets_are_def)

lemma tickets_are_parts:
  "preserves_tx (tickets_are ts) (issue_visit e org d)" "preserves_tx (tickets_are ts) (issue_number e org d shared)"
  "preserves_tx (tickets_are ts) (issue_customer e org d)" "preserves_tx (tickets_are ts) (issue_consents org d cust)"
  "preserves_tx (tickets_are ts) (issue_ref org d visit step role)"
  "preserves_tx (tickets_are ts) (finalize_ref org j accepts ref1)"
  "preserves_tx (tickets_are ts) (resolveNextJourneyStepTx org c)"
  "preserves_tx (tickets_are ts) (resolveQueueForFlowStep org branch tmpl k sid linked)"
  unfolding issue_visit_def issue_number_def issue_customer_def create_contact_def issue_consents_def
    logMarketingConsent_def issue_ref_def resolveVisitExternalRef_def persistVisitExternalRef_def
    reserveQueueDisplayNumber_def finalize_ref_def resolveNextJourneyStepTx_def resolveQueueForFlowStep_def Let_def
  by (intro pres_intros)+

lemma tickets_unchanged: "preserves_tx (tickets_are (q_tickets s)) m \<Longrightarrow> m s = Inr (a, u) \<Longrightarrow> q_tickets u = q_tickets s"
  by (auto dest: preserves_txD simp: tickets_are_def)

text \<open>A ticket that is issued for a visit belongs to it and shares its number.\<close>

lemma issue_visit_given:
  assumes "issue_visit e org d s = Inr ((visit, shared), u)" and "truthy_str (ix_visitId d)"
  shows "visit = ix_visitId d" "shared = map_option tk_displayNumber (first_of_visit org (the (ix_visitId d)) s)"
  using assms by (cases "ix_visitId d"; auto simp: issue_visit_def tx_read_def Let_def tx_bind_Inr_iff tx_return_def
      tx_throw_def split: option.splits if_splits)+

lemma issue_number_shared:
  "issue_number e org d shared s = Inr (n, u) \<Longrightarrow> truthy_str shared \<Longrightarrow> n = the shared"
  by (auto simp: issue_number_def tx_read_def tx_return_def tx_throw_def split: option.splits if_splits)

lemma tx_lift_Inr_iff: "tx_lift r s = Inr (a, u) \<longleftrightarrow> r = Inr a \<and> u = s"
  by (cases r) (auto simp: tx_lift_def tx_throw_def tx_return_def)

lemma issue_core_row:
  assumes "issueTicketCore e org d s = Inr (m, w)" and visit: "truthy_str (ix_visitId d)"
  shows "q_tickets w = q_tickets s @ [m]" "tk_id m \<notin> tk_id ` set (q_tickets s)" "tk_orgId m = org"
    "tk_branchId m = ix_branchId d" "tk_queueId m = ix_queueId d" "tk_visitId m = ix_visitId d"
    "tk_status m = patched (ix_initialStatus d) ''waiting''"
    "ix_stepIndex d \<noteq> None \<Longrightarrow> tk_stepIndex m = ix_stepIndex d"
    "first_of_visit org (the (ix_visitId d)) s = Some x \<Longrightarrow> tk_displayNumber x \<noteq> [] \<Longrightarrow> tk_displayNumber m = tk_displayNumber x"
proof -
  from assms(1) obtain q v shared s1 number s2 who s3 un s4 step ref1 s5 where
    v: "issue_visit e org d s = Inr ((v, shared), s1)" and n: "issue_number e org d shared s1 = Inr (number, s2)"
    and who: "issue_customer e org d s2 = Inr (who, s3)" and con: "issue_consents org d (fst who) s3 = Inr (un, s4)"
    and step: "step = issue_step org d (issue_mode e org d s) v s4"
    and ref1: "issue_ref org d v step (Option.bind (find_queue org (ix_queueId d) s4) qu_stepRole) s4 = Inr (ref1, s5)"
    and new: "create_ticket (issued_ticket e org d q v number who step ref1) s5 = Inr (m, w)"
    by (auto simp: issueTicketCore_def tx_read_def tx_bind_Inr_iff tx_lift_Inr_iff Let_def)
  have same: "q_tickets s5 = q_tickets s"
    using tickets_unchanged [OF tickets_are_parts(1) v] tickets_unchanged [OF tickets_are_parts(2) n]
      tickets_unchanged [OF tickets_are_parts(3) who] tickets_unchanged [OF tickets_are_parts(4) con]
      tickets_unchanged [OF tickets_are_parts(5) ref1] by simp
  have m: "m = issued_ticket e org d q v number who step ref1" and w: "q_tickets w = q_tickets s5 @ [m]"
    and fresh: "tk_id m \<notin> tk_id ` set (q_tickets s5)"
    using new by (auto simp: create_ticket_def tx_defs split: if_splits)
  show "q_tickets w = q_tickets s @ [m]" "tk_id m \<notin> tk_id ` set (q_tickets s)" using w fresh by (simp_all add: same)
  show "tk_orgId m = org" "tk_branchId m = ix_branchId d" "tk_queueId m = ix_queueId d" "tk_visitId m = ix_visitId d"
    "tk_status m = patched (ix_initialStatus d) ''waiting''" "ix_stepIndex d \<noteq> None \<Longrightarrow> tk_stepIndex m = ix_stepIndex d"
    using issue_visit_given(1) [OF v visit] step
    by (auto simp: m issued_ticket_def issue_step_def split: prod.splits)
  show "tk_displayNumber m = tk_displayNumber x"
    if "first_of_visit org (the (ix_visitId d)) s = Some x" "tk_displayNumber x \<noteq> []"
    using issue_number_shared [OF n] issue_visit_given(2) [OF v visit] that
    by (auto simp: m issued_ticket_def split: prod.splits)
qed

lemma next_tx_cases:
  assumes "resolveNextJourneyStepTx org c s = Inr ((nx, later), u)"
  obtains (no_step) "next_configured org c (jc_flowTemplateId c) s = None" and "nx = None" and "\<not> later"
  | (step) tmpl f where "next_configured org c (jc_flowTemplateId c) s = Some (tmpl, f)" and "later"
      and "\<forall>n. nx = Some n \<longrightarrow> jn_stepIndex n = fs_stepIndex f"
proof (cases "next_configured org c (jc_flowTemplateId c) s")
  case None
  with assms show ?thesis by (intro no_step) (simp_all add: resolveNextJourneyStepTx_def tx_read_def tx_return_def)
next
  case (Some p)
  obtain tmpl f where p: "p = (tmpl, f)" by (cases p)
  from assms have "later \<and> (\<exists>q. nx = map_option (journey_next_of tmpl f) q)"
    by (auto simp: resolveNextJourneyStepTx_def tx_read_def Some p tx_bind_Inr_iff tx_return_def)
  with Some p show ?thesis by (intro step) (auto simp: journey_next_of_def)
qed

lemma tx_catch_Inr_iff [simp]: "tx_catch t f s = Inr r \<longleftrightarrow> t s = Inr r"
  by (simp add: tx_catch_def split: sum.splits)

lemma issue_next_run:
  assumes "issue_next_step e org j terminal n ref1 s = Inr (m, w)"
  shows "\<exists>q u. q_tickets u = q_tickets s \<and> issueTicketCore e org (next_issue_data j n q ref1) u = Inr (m, w)"
proof -
  from assms obtain q u where run: "resolveQueueForFlowStep org (tk_branchId j) (jn_templateId n) (jn_stepIndex n)
      (jn_serviceId n) (Some (jn_queueId n)) s = Inr (Some q, u)" and issue: "issueTicketCore e org (next_issue_data j n q ref1) u = Inr (m, w)"
    by (auto simp: issue_next_step_def tx_bind_Inr_iff tx_throw_def split: option.split_asm if_split_asm)
  then show ?thesis using tickets_unchanged [OF tickets_are_parts(8) run] by blast
qed

lemma transition_core_row:
  assumes "transitionTicketCore e org i allowed to1 p s = Inr (t, v)"
    and "find_ticket org i s = Some j" and "distinct (map tk_id (q_tickets s))"
  shows "tk_status j \<in> set allowed" "t = change_status e to1 p j"
    "q_tickets v = map (\<lambda>x. if x = j then t else x) (q_tickets s)"
proof -
  have j: "j \<in> set (q_tickets s)" "tk_id j = i" using find_ticketD [OF assms(2)] by simp_all
  have same: "x = j" if "x \<in> set (q_tickets s)" "tk_id x = i" for x
    using that j assms(3) by (auto dest: distinct_map_eq)
  obtain r where r: "List.find (\<lambda>x. tk_id x = i) (q_tickets s) = Some r" using j find_ex [OF j(1), of "\<lambda>x. tk_id x = i"] by blast
  then have found: "List.find (\<lambda>x. tk_id x = i) (q_tickets s) = Some j" using same find_SomeD [OF r] by simp
  show status: "tk_status j \<in> set allowed" and t: "t = change_status e to1 p j"
    using assms(1) by (simp_all add: transitionTicketCore_def tx_read_def assms(2) tx_bind_Inr_iff tx_lift_Inr_iff
        tx_throw_def tx_update_one_def found split: if_split_asm)
  have "q_tickets v = update_rows (\<lambda>x. tk_id x = i) (change_status e to1 p) (q_tickets s)"
    using assms(1) by (auto simp: transitionTicketCore_def tx_read_def assms(2) tx_bind_Inr_iff tx_lift_Inr_iff
        tx_throw_def tx_update_one_def found split: if_split_asm)
  then show "q_tickets v = map (\<lambda>x. if x = j then t else x) (q_tickets s)"
    unfolding update_rows_def
  proof (simp, intro allI impI ballI, goal_cases)
    case (1 x)
    show ?case
    proof (cases "tk_id x = i")
      case True
      then have "x = j" using same 1 by simp
      then show ?thesis using t j by simp
    next
      case False
      then show ?thesis using j by auto
    qed
  qed
qed

text \<open>The ticket that follows \<open>j\<close>, at the step \<open>f\<close>.\<close>

definition follows :: "qdb \<Rightarrow> queue_ticket \<Rightarrow> flow_step_row \<Rightarrow> queue_ticket \<Rightarrow> bool" where
  "follows s j f m \<longleftrightarrow> tk_orgId m = tk_orgId j \<and> tk_visitId m = tk_visitId j \<and> tk_branchId m = tk_branchId j \<and>
     tk_stepIndex m = Some (fs_stepIndex f) \<and> tk_status m \<in> {''waiting'', ''called''} \<and>
     tk_id m \<notin> tk_id ` set (q_tickets s) \<and>
     (case first_of_visit (tk_orgId j) (the (tk_visitId j)) s of
        Some x \<Rightarrow> tk_displayNumber x = [] \<or> tk_displayNumber m = tk_displayNumber x | None \<Rightarrow> False)"

lemma first_of_visit_exists:
  assumes "j \<in> set (q_tickets s)" and "truthy_str (tk_visitId j)"
  shows "\<exists>x. first_of_visit (tk_orgId j) (the (tk_visitId j)) s = Some x"
proof -
  let ?xs = "filter (\<lambda>t. tk_orgId t = tk_orgId j \<and> tk_visitId t = Some (the (tk_visitId j))) (q_tickets s)"
  have "j \<in> set ?xs" using assms by (cases "tk_visitId j") simp_all
  then have "j \<in> set (sort_key k ?xs)" for k :: "queue_ticket \<Rightarrow> int \<times> int" by (simp only: set_sort)
  then have "sort_key k ?xs \<noteq> []" for k :: "queue_ticket \<Rightarrow> int \<times> int"
    by (metis empty_iff empty_set)
  then obtain x xs where "sort_key (\<lambda>t. case tk_stepIndex t of None \<Rightarrow> (1 :: int, 0) | Some n \<Rightarrow> (0, n)) ?xs = x # xs"
    by (meson neq_Nil_conv)
  then show ?thesis by (simp add: first_of_visit_def)
qed

lemma next_follows:
  assumes "issue_next_step e (tk_orgId j) j terminal n ref1 s = Inr (m, w)"
    and "j \<in> set (q_tickets s)" and "truthy_str (tk_visitId j)" and "jn_stepIndex n = fs_stepIndex f"
  shows "follows s j f m" "q_tickets w = q_tickets s @ [m]"
proof -
  from issue_next_run [OF assms(1)] obtain q u where u: "q_tickets u = q_tickets s"
    and issue: "issueTicketCore e (tk_orgId j) (next_issue_data j n q ref1) u = Inr (m, w)" by blast
  have d: "ix_visitId (next_issue_data j n q ref1) = tk_visitId j" by (simp add: next_issue_data_def)
  note row = issue_core_row [OF issue, unfolded d, OF assms(3)]
  obtain x where x: "first_of_visit (tk_orgId j) (the (tk_visitId j)) s = Some x"
    using first_of_visit_exists [OF assms(2,3)] by (rule exE)
  then have "first_of_visit (tk_orgId j) (the (tk_visitId j)) u = Some x" by (simp add: first_of_visit_def u)
  then show "follows s j f m"
    using row(2-8) row(9) [of x] assms(4) by (auto simp: follows_def x u next_issue_data_def split: if_splits)
  show "q_tickets w = q_tickets s @ [m]" using row(1) by (simp add: u)
qed

text \<open>What is issued, given what the search for the next step found.\<close>

lemma issued_row:
  assumes "resolveNextJourneyStepTx (tk_orgId j) (journey_ctx_of j) s = Inr ((nx, later), u)" and "\<not> (nx = None \<and> later)"
    and "(case nx of None \<Rightarrow> tx_return None
      | Some k \<Rightarrow> tx_bind (issue_next_step e (tk_orgId j) j terminal k (next_ref k accepts ref1)) (\<lambda>t. tx_return (Some t))) v =
      Inr (n, w)"
    and v: "q_tickets v = q_tickets s" and j: "j \<in> set (q_tickets s)"
  shows "q_tickets w = q_tickets s @ (case n of None \<Rightarrow> [] | Some m \<Rightarrow> [m]) \<and>
    (case next_configured (tk_orgId j) (journey_ctx_of j) (tk_flowTemplateId j) s of
       None \<Rightarrow> n = None | Some p \<Rightarrow> \<exists>m. n = Some m \<and> follows s j (snd p) m)"
  using assms(1)
proof (cases rule: next_tx_cases)
  case no_step
  then show ?thesis using assms(3) v by (auto simp: tx_return_def journey_ctx_of_def)
next
  case (step tmpl f)
  then obtain k where k: "nx = Some k" "jn_stepIndex k = fs_stepIndex f" using assms(2) by auto
  then obtain m where m: "n = Some m" and run: "issue_next_step e (tk_orgId j) j terminal k (next_ref k accepts ref1) v = Inr (m, w)"
    using assms(3) by (auto simp: tx_bind_Inr_iff tx_return_def)
  have at: "next_configured (tk_orgId j) (journey_ctx_of j) (tk_flowTemplateId j) s = Some (tmpl, f)"
    using step(1) by (simp add: journey_ctx_of_def)
  then have "truthy_str (tk_visitId j)" by (auto simp: next_configured_def journey_ctx_of_def split: if_split_asm)
  then have "follows v j f m" "q_tickets w = q_tickets v @ [m]"
    using next_follows [OF run _ _ k(2)] j v by simp_all
  then show ?thesis by (simp add: at m v follows_def first_of_visit_def)
qed

lemma tx_guard_Inr_iff: "(if b then tx_throw err else m) s = Inr r \<longleftrightarrow> \<not> b \<and> m s = Inr r"
  by (simp add: tx_throw_def)

lemma finalize_locked_row:
  assumes "finalize_locked e (tk_orgId j) j j terminal accepts given s = Inr ((t, n), v)"
    and "find_ticket (tk_orgId j) (tk_id j) s = Some j" and "distinct (map tk_id (q_tickets s))"
  shows "tk_status j \<in> {''called'', ''serving''} \<and> tk_id t = tk_id j \<and> tk_status t = terminal \<and>
    q_tickets v = map (\<lambda>x. if x = j then t else x) (q_tickets s) @ (case n of None \<Rightarrow> [] | Some m \<Rightarrow> [m]) \<and>
    (case next_configured (tk_orgId j) (journey_ctx_of j) (tk_flowTemplateId j) s of
       None \<Rightarrow> n = None | Some p \<Rightarrow> \<exists>m. n = Some m \<and> follows s j (snd p) m)"
proof -
  have ctx: "\<lparr>jc_visitId = tk_visitId j, jc_stepIndex = tk_stepIndex j, jc_branchId = tk_branchId j,
      jc_queueId = tk_queueId j, jc_flowTemplateId = tk_flowTemplateId j\<rparr> = journey_ctx_of j"
    by (simp add: journey_ctx_of_def)
  from assms(1) obtain nx later s1 ref1 s2 s3 where
    nx: "resolveNextJourneyStepTx (tk_orgId j) (journey_ctx_of j) s = Inr ((nx, later), s1)" and more: "\<not> (nx = None \<and> later)"
    and ref1: "finalize_ref (tk_orgId j) j accepts given s1 = Inr (ref1, s2)"
    and new: "(case nx of None \<Rightarrow> tx_return None
      | Some k \<Rightarrow> tx_bind (issue_next_step e (tk_orgId j) j terminal k (next_ref k accepts ref1)) (\<lambda>t. tx_return (Some t))) s2 = Inr (n, s3)"
    and core: "transitionTicketCore e (tk_orgId j) (tk_id j) [''called'', ''serving''] terminal
       (empty_patch\<lparr>tp_completedAt := Some (qe_now e), tp_externalRef := (if accepts \<and> truthy_str ref1 then ref1 else None)\<rparr>) s3 = Inr (t, v)"
    unfolding finalize_locked_def ctx tx_bind_Inr_iff split_paired_Ex prod.case tx_guard_Inr_iff
    by (elim exE conjE) (simp add: tx_return_def)
  have s2: "q_tickets s2 = q_tickets s"
    using tickets_unchanged [OF tickets_are_parts(7) nx] tickets_unchanged [OF tickets_are_parts(6) ref1] by simp
  have j: "j \<in> set (q_tickets s)" using find_ticketD [OF assms(2)] by simp
  note issued = issued_row [OF nx more new s2 j]
  have there: "find_ticket (tk_orgId j) (tk_id j) s3 = Some j" using assms(2) issued by (simp add: find_ticket_def find_append)
  have "distinct (map tk_id (q_tickets s3))"
    using assms(3) issued by (auto simp: follows_def image_iff split: option.splits)
  note row = transition_core_row [OF core there this]
  have "j \<noteq> m" if "n = Some m" for m
    using issued that j by (auto simp: follows_def split: option.splits)
  then have "map (\<lambda>x. if x = j then t else x) (q_tickets s3) =
      map (\<lambda>x. if x = j then t else x) (q_tickets s) @ (case n of None \<Rightarrow> [] | Some m \<Rightarrow> [m])"
    using issued by (auto split: option.splits)
  with row issued show ?thesis by (simp add: change_status_fields)
qed

text \<open>
  C27. A journey is never cut off: when a called or served ticket is completed, it takes the new status
  and no other ticket changes, and if a later step is configured for its visit, one new ticket is issued
  for that step, in the same visit and branch and under the number of the visit. Without a later step
  none is issued. (The steps are looked up after the search has repaired links of steps to queues.)
\<close>

theorem completion_advances:
  assumes "finalizeTicketWithJourneyAdvance e org i terminal given s = (Inr (t, n), s')"
    and "find_ticket org i s = Some j" and "tk_status j \<noteq> terminal" and "distinct (map tk_id (q_tickets s))"
  shows "tk_status j \<in> {''called'', ''serving''} \<and> tk_id t = i \<and> tk_status t = terminal \<and>
    q_tickets s' = map (\<lambda>x. if x = j then t else x) (q_tickets s) @ (case n of None \<Rightarrow> [] | Some m \<Rightarrow> [m]) \<and>
    (\<exists>u. links_only s u \<and> (case next_configured org (journey_ctx_of j) (tk_flowTemplateId j) u of
       None \<Rightarrow> n = None | Some p \<Rightarrow> \<exists>m. n = Some m \<and> follows s j (snd p) m))"
  using assms(1)
proof (cases rule: finalize_cases)
  case (failed err)
  then show ?thesis by simp
next
  case (finished j0 u p v)
  have j: "tk_id j = i" "tk_orgId j = org"
    using assms(2) by (auto simp: find_ticket_def dest: find_SomeD)
  have links: "q_tickets u = q_tickets s" "find_ticket (tk_orgId j) (tk_id j) u = Some j"
    using links_only_fields [OF finished(2)] assms(2) j by simp_all
  have "j0 = j" and p: "p = (t, n)" using finished(1,4) assms(2) by simp_all
  then have "finalize_locked e (tk_orgId j) j j terminal (accepts_ref j s) given u = Inr ((t, n), v)"
    using finished(3) links j assms(3) by (simp add: finalize_tx_def tx_read_def)
  note row = finalize_locked_row [OF this links(2)]
  have same: "follows u j = follows s j" by (intro ext) (simp add: follows_def first_of_visit_def links)
  show ?thesis
    unfolding finished(5) finalize_effects_tickets
    using row [unfolded links j same] assms(4) finished(2) by (auto intro!: exI [of _ u])
qed

section \<open>A visit with two steps\<close>

definition first_visit :: queue_visit where
  "first_visit = \<lparr>vs_id = ''v1'', vs_orgId = ''o1'', vs_branchId = ''b1'', vs_source = ''kiosk'', vs_customerName = None,
     vs_customerPhone = None, vs_language = None, vs_status = ''active'', vs_externalRef = None, vs_completedAt = None\<rparr>"

definition step_ticket :: queue_ticket where
  "step_ticket = at_desk\<lparr>tk_visitId := Some ''v1'', tk_stepIndex := Some 0, tk_flowTemplateId := Some ''f1''\<rparr>"

definition later_queue :: "string \<Rightarrow> queue_row" where
  "later_queue st = (demo_queue ''q2'')\<lparr>qu_status := st\<rparr>"

definition clinic :: "string \<Rightarrow> qdb" where
  "clinic st = kiosk\<lparr>q_tickets := [step_ticket], q_visits := [first_visit], q_queues := [demo_queue ''q1'', later_queue st]\<rparr>"

definition next_data :: issue_data where
  "next_data = next_issue_data step_ticket (journey_next_of ''f1'' (flow_step 1 ''q2'') (later_queue ''open'')) (later_queue ''open'') None"

definition next_ticket :: queue_ticket where
  "next_ticket = issued_ticket noon ''o1'' next_data (later_queue ''open'') (Some ''v1'') ''A001'' (None, None, None) (Some 1) None"

lemma clinic_fields:
  "q_branches (clinic st) = [demo_branch ''UTC'']" "q_dateOverrides (clinic st) = []"
  "q_workingHours (clinic st) = [\<lparr>wh_branchId = ''b1'', wh_dayOfWeek = 3, wh_window = demo_window\<rparr>]"
  "q_services (clinic st) = [demo_service]" "q_queues (clinic st) = [demo_queue ''q1'', later_queue st]"
  "q_tickets (clinic st) = [step_ticket]" "q_flowSteps (clinic st) = [flow_step 0 ''q1'', flow_step 1 ''q2'']"
  "q_visits (clinic st) = [first_visit]"
  by (simp_all add: clinic_def kiosk_def lobby_def demo_qdb_def empty_qdb_def)

lemma step_ticket_fields:
  "tk_id step_ticket = ''t1''" "tk_orgId step_ticket = ''o1''" "tk_visitId step_ticket = Some ''v1''"
  "tk_stepIndex step_ticket = Some 0" "tk_branchId step_ticket = ''b1''" "tk_queueId step_ticket = ''q1''"
  "tk_flowTemplateId step_ticket = Some ''f1''" "tk_status step_ticket = ''serving''" "tk_displayNumber step_ticket = ''A001''"
  "tk_deskNumber step_ticket = Some ''1''"
  by (simp_all add: step_ticket_def at_desk_def demo_ticket_def)

lemma clinic_ticket: "find_ticket ''o1'' ''t1'' (clinic st) = Some step_ticket"
  by (simp add: find_ticket_def clinic_fields step_ticket_fields)

lemma clinic_queue: "find_queue ''o1'' ''q2'' (clinic st) = Some (later_queue st)" "find_queue ''o1'' ''q1'' (clinic st) = Some (demo_queue ''q1'')"
  by (simp_all add: find_queue_def clinic_fields later_queue_def demo_queue_def)

lemma clinic_next:
  "next_configured ''o1'' (journey_ctx_of step_ticket) (Some ''f1'') (clinic st) = Some (''f1'', flow_step 1 ''q2'')"
proof -
  have "first_step (\<lambda>f. fs_templateId f = ''f1'' \<and> fs_orgId f = ''o1'' \<and> 0 < fs_stepIndex f) (clinic st) = Some (flow_step 1 ''q2'')"
    by (simp add: first_step_def clinic_fields) (simp add: flow_step_def)
  then show ?thesis
    by (simp add: next_configured_def journey_ctx_of_def step_ticket_fields resolveFlowTemplateId_def getNextStep_def)
qed

lemma clinic_resolved:
  "resolveQueueForFlowStep ''o1'' ''b1'' ''f1'' 1 ''s1'' (Some ''q2'') (clinic st) = Inr (Some (later_queue st), clinic st)"
  by (simp add: resolveQueueForFlowStep_def tx_read_def tx_return_def clinic_queue)

lemma clinic_found:
  "resolveNextJourneyStepTx ''o1'' (journey_ctx_of step_ticket) (clinic st) =
     Inr ((Some (journey_next_of ''f1'' (flow_step 1 ''q2'') (later_queue st)), True), clinic st)"
  "resolveNextJourneyStep ''o1'' (journey_ctx_of step_ticket) (clinic st) =
     Inr (Some (journey_next_of ''f1'' (flow_step 1 ''q2'') (later_queue st)), clinic st)"
proof -
  have ctx: "jc_flowTemplateId (journey_ctx_of step_ticket) = Some ''f1''" "jc_branchId (journey_ctx_of step_ticket) = ''b1''"
    by (simp_all add: journey_ctx_of_def step_ticket_fields)
  have f: "fs_stepIndex (flow_step 1 ''q2'') = 1" "fs_serviceId (flow_step 1 ''q2'') = ''s1''" "fs_queueId (flow_step 1 ''q2'') = Some ''q2''"
    by (simp_all add: flow_step_def)
  show "resolveNextJourneyStepTx ''o1'' (journey_ctx_of step_ticket) (clinic st) =
     Inr ((Some (journey_next_of ''f1'' (flow_step 1 ''q2'') (later_queue st)), True), clinic st)"
    "resolveNextJourneyStep ''o1'' (journey_ctx_of step_ticket) (clinic st) =
     Inr (Some (journey_next_of ''f1'' (flow_step 1 ''q2'') (later_queue st)), clinic st)"
    by (simp_all add: resolveNextJourneyStepTx_def resolveNextJourneyStep_def tx_read_def tx_return_def ctx clinic_next
        tx_bind_def clinic_resolved f)
qed

lemma clinic_issue_queue: "issue_queue noon ''o1'' next_data (clinic ''open'') = Inr (later_queue ''open'')"
proof -
  have "assertBranchAcceptsCustomerIntake noon ''o1'' ''b1'' label 1709200800000 (clinic ''open'') = Inr ()" for label
    by (rule lobby_open) (simp_all add: clinic_fields)
  moreover have "qe_now noon = 1709200800000" by (simp add: noon_def)
  moreover have "ix_branchId next_data = ''b1''" "ix_serviceId next_data = ''s1''" "ix_queueId next_data = ''q2''"
    by (simp_all add: next_data_def next_issue_data_def step_ticket_fields later_queue_def demo_queue_def)
  ultimately show ?thesis
    by (simp add: issue_queue_def clinic_fields err_bind_def)
      (simp add: demo_branch_def demo_service_def demo_queue_def later_queue_def)
qed

lemma next_data_fields:
  "ix_visitId next_data = Some ''v1''" "ix_stepIndex next_data = Some 1" "ix_branchId next_data = ''b1''"
  "ix_queueId next_data = ''q2''" "ix_source next_data = ''system''" "ix_customerId next_data = None"
  "ix_customerName next_data = None" "ix_customerPhone next_data = None" "ix_externalRef next_data = None"
  "ix_initialStatus next_data = Some ''waiting''"
  by (simp_all add: next_data_def next_issue_data_def step_ticket_fields later_queue_def demo_queue_def journey_next_of_def
      flow_step_def step_ticket_def at_desk_def demo_ticket_def auto_call_def)

lemma clinic_core: "\<exists>u. issueTicketCore noon ''o1'' next_data (clinic ''open'') = Inr (next_ticket, u) \<and>
  q_tickets u = [step_ticket, next_ticket] \<and> q_queues u = q_queues (clinic ''open'')"
proof -
  have "first_of_visit ''o1'' ''v1'' (clinic ''open'') = Some step_ticket"
    by (simp add: first_of_visit_def clinic_fields step_ticket_fields)
  then have visit: "issue_visit noon ''o1'' next_data (clinic ''open'') = Inr ((Some ''v1'', Some ''A001''), clinic ''open'')"
    by (simp add: issue_visit_def tx_read_def tx_return_def next_data_fields clinic_fields step_ticket_fields first_visit_def Let_def)
  have number: "issue_number noon ''o1'' next_data (Some ''A001'') (clinic ''open'') = Inr (''A001'', clinic ''open'')"
    by (simp add: issue_number_def tx_read_def tx_return_def next_data_fields clinic_fields later_queue_def demo_queue_def)
  have who: "issue_customer noon ''o1'' next_data v = Inr ((None, None, None), v)" for v
    by (simp add: issue_customer_def tx_read_def tx_return_def next_data_fields)
  have consents: "issue_consents ''o1'' next_data None v = Inr ((), v)" for v
    by (simp add: issue_consents_def tx_return_def)
  have step: "issue_step ''o1'' next_data mode w v = Some 1" for mode w v
    by (simp add: issue_step_def next_data_fields)
  have ref1: "issue_ref ''o1'' next_data (Some ''v1'') k role v = Inr (None, v)" for k role v
    by (simp add: issue_ref_def tx_return_def next_data_fields trim_or_null_def)
  have "tk_id next_ticket \<noteq> tk_id step_ticket"
    by (simp add: next_ticket_def issued_ticket_def noon_def demo_qenv_def step_ticket_fields)
  then have "create_ticket next_ticket (clinic ''open'') = Inr (next_ticket, q_tickets_update (\<lambda>ts. ts @ [next_ticket]) (clinic ''open''))"
    by (simp add: create_ticket_def tx_defs clinic_fields)
  then have "issueTicketCore noon ''o1'' next_data (clinic ''open'') =
      Inr (next_ticket, q_tickets_update (\<lambda>ts. ts @ [next_ticket]) (clinic ''open''))"
    by (simp add: issueTicketCore_def tx_read_def tx_bind_def tx_lift_def tx_return_def clinic_issue_queue visit number who
        consents step ref1 Let_def next_ticket_def [symmetric])
  then show ?thesis
    by (intro exI [of _ "q_tickets_update (\<lambda>ts. ts @ [next_ticket]) (clinic ''open'')"] conjI) (simp_all add: clinic_fields)
qed

definition step_done :: queue_ticket where
  "step_done = change_status noon ''completed'' (empty_patch\<lparr>tp_completedAt := Some (qe_now noon), tp_externalRef := None\<rparr>) step_ticket"

lemma clinic_issues: "\<exists>u. issue_next_step noon ''o1'' step_ticket ''completed''
    (journey_next_of ''f1'' (flow_step 1 ''q2'') (later_queue ''open'')) None (clinic ''open'') = Inr (next_ticket, u) \<and>
  q_tickets u = [step_ticket, next_ticket] \<and> q_queues u = q_queues (clinic ''open'')"
proof -
  obtain u where u: "issueTicketCore noon ''o1'' next_data (clinic ''open'') = Inr (next_ticket, u)"
    "q_tickets u = [step_ticket, next_ticket]" "q_queues u = q_queues (clinic ''open'')"
    using clinic_core by (elim exE conjE)
  have n: "jn_templateId (journey_next_of ''f1'' (flow_step 1 ''q2'') (later_queue ''open'')) = ''f1''"
    "jn_stepIndex (journey_next_of ''f1'' (flow_step 1 ''q2'') (later_queue ''open'')) = 1"
    "jn_serviceId (journey_next_of ''f1'' (flow_step 1 ''q2'') (later_queue ''open'')) = ''s1''"
    "jn_queueId (journey_next_of ''f1'' (flow_step 1 ''q2'') (later_queue ''open'')) = ''q2''"
    by (simp_all add: journey_next_of_def flow_step_def later_queue_def demo_queue_def)
  have q: "qu_status (later_queue ''open'') = ''open''" "qu_branchId (later_queue ''open'') = ''b1''"
    by (simp_all add: later_queue_def demo_queue_def)
  have "issue_next_step noon ''o1'' step_ticket ''completed'' (journey_next_of ''f1'' (flow_step 1 ''q2'') (later_queue ''open''))
      None (clinic ''open'') = Inr (next_ticket, u)"
    by (simp add: issue_next_step_def n step_ticket_fields tx_bind_def clinic_resolved q next_data_def [symmetric] u(1))
  then show ?thesis using u(2,3) by (intro exI conjI)
qed

lemma clinic_finalize:
  "\<exists>x. finalize_tx noon ''o1'' step_ticket ''completed'' False None (clinic ''open'') = Inr ((step_done, Some next_ticket), x)"
proof -
  obtain u where u: "issue_next_step noon ''o1'' step_ticket ''completed''
      (journey_next_of ''f1'' (flow_step 1 ''q2'') (later_queue ''open'')) None (clinic ''open'') = Inr (next_ticket, u)"
    "q_tickets u = [step_ticket, next_ticket]" "q_queues u = q_queues (clinic ''open'')"
    using clinic_issues by (elim exE conjE)
  have t: "find_ticket ''o1'' ''t1'' u = Some step_ticket" "List.find (\<lambda>x. tk_id x = ''t1'') (q_tickets u) = Some step_ticket"
    by (simp_all add: find_ticket_def u(2) step_ticket_fields)
  have "find_queue ''o1'' ''q1'' u = Some (demo_queue ''q1'')"
    by (simp add: find_queue_def u(3) clinic_fields) (simp add: demo_queue_def)
  then have gate: "assertStaffQueueActionAllowed noon ''o1'' ''q1'' ''b1'' label QueueStatusOnly u = Inr ()" for label
    by (simp add: assertStaffQueueActionAllowed_def) (simp add: demo_queue_def)
  have core: "\<exists>x. transitionTicketCore noon ''o1'' ''t1'' [''called'', ''serving''] ''completed''
       (empty_patch\<lparr>tp_completedAt := Some (qe_now noon), tp_externalRef := None\<rparr>) u = Inr (step_done, x)"
    by (simp add: transitionTicketCore_def tx_read_def t step_ticket_fields branchHoursGateForTransition_def gate tx_lift_def
        tx_bind_def tx_return_def tx_update_one_def step_done_def [symmetric])
  have ctx: "\<lparr>jc_visitId = Some ''v1'', jc_stepIndex = Some 0, jc_branchId = ''b1'', jc_queueId = ''q1'',
      jc_flowTemplateId = Some ''f1''\<rparr> = journey_ctx_of step_ticket"
    by (simp add: journey_ctx_of_def step_ticket_fields)
  from core obtain x where "transitionTicketCore noon ''o1'' ''t1'' [''called'', ''serving''] ''completed''
       (empty_patch\<lparr>tp_completedAt := Some (qe_now noon), tp_externalRef := None\<rparr>) u = Inr (step_done, x)" by (elim exE)
  then show ?thesis
    by (simp add: finalize_tx_def tx_read_def clinic_ticket step_ticket_fields finalize_locked_def ctx tx_bind_def clinic_found
        finalize_ref_def tx_return_def next_ref_def u(1))
qed

lemma clinic_completes:
  "\<exists>s'. finalizeTicketWithJourneyAdvance noon ''o1'' ''t1'' ''completed'' None (clinic ''open'') =
    (Inr (step_done, Some next_ticket), s')"
proof -
  have refs: "accepts_ref step_ticket (clinic ''open'') = False"
    by (simp add: accepts_ref_def journeyStepAcceptsExternalRef_def clinic_fields step_ticket_fields) (simp add: demo_queue_def)
  have check: "finalize_precheck ''o1'' step_ticket (Some n) s = (Inr (), s)" for n s
    by (simp add: finalize_precheck_def svc_return_def)
  obtain x where x: "finalize_tx noon ''o1'' step_ticket ''completed'' False None (clinic ''open'') =
      Inr ((step_done, Some next_ticket), x)" using clinic_finalize by (elim exE)
  obtain s' where "finalize_effects noon ''o1'' ''t1'' ''completed'' (step_done, Some next_ticket) x = (Inr (), s')"
    using finalize_effects_Inr by (rule exE)
  then have "finalizeTicketWithJourneyAdvance noon ''o1'' ''t1'' ''completed'' None (clinic ''open'') =
      (Inr (step_done, Some next_ticket), s')"
    by (simp add: finalizeTicketWithJourneyAdvance_def svc_read_def clinic_ticket svc_bind_def with_tenant_def clinic_found
        check svc_catch_def refs x svc_return_def)
  then show ?thesis by (intro exI)
qed

theorem completion_advances_witness:
  "\<exists>s'. finalizeTicketWithJourneyAdvance noon ''o1'' ''t1'' ''completed'' None (clinic ''open'') =
      (Inr (step_done, Some next_ticket), s') \<and>
    q_tickets s' = [step_done, next_ticket] \<and> tk_status step_done = ''completed''"
proof -
  obtain s' where run: "finalizeTicketWithJourneyAdvance noon ''o1'' ''t1'' ''completed'' None (clinic ''open'') =
      (Inr (step_done, Some next_ticket), s')" using clinic_completes by (elim exE)
  have "tk_status step_ticket \<noteq> ''completed''" "distinct (map tk_id (q_tickets (clinic ''open'')))"
    by (simp_all add: step_ticket_fields clinic_fields)
  from completion_advances [OF run clinic_ticket this]
  have "q_tickets s' = [step_done, next_ticket]" "tk_status step_done = ''completed''" by (simp_all add: clinic_fields)
  with run show ?thesis by (intro exI conjI)
qed

text \<open>When the queue of the next step is closed, the step stays at the desk.\<close>

theorem failed_completion_changes_nothing_witness:
  "\<exists>m s'. finalizeTicketWithJourneyAdvance noon ''o1'' ''t1'' ''completed'' None (clinic ''closed'') = (Inl (BadRequest m), s') \<and>
    s' = (clinic ''closed'')\<lparr>q_flowSteps := q_flowSteps s'\<rparr>"
proof -
  have n: "jn_templateId (journey_next_of ''f1'' (flow_step 1 ''q2'') (later_queue st)) = ''f1''"
    "jn_stepIndex (journey_next_of ''f1'' (flow_step 1 ''q2'') (later_queue st)) = 1"
    "jn_serviceId (journey_next_of ''f1'' (flow_step 1 ''q2'') (later_queue st)) = ''s1''"
    "jn_queueId (journey_next_of ''f1'' (flow_step 1 ''q2'') (later_queue st)) = ''q2''" for st
    by (simp_all add: journey_next_of_def flow_step_def later_queue_def demo_queue_def)
  have refs: "accepts_ref step_ticket (clinic ''closed'') = False"
    by (simp add: accepts_ref_def journeyStepAcceptsExternalRef_def clinic_fields step_ticket_fields) (simp add: demo_queue_def)
  have closed: "qu_status (later_queue ''closed'') = ''closed''" by (simp add: later_queue_def)
  have ctx: "\<lparr>jc_visitId = Some ''v1'', jc_stepIndex = Some 0, jc_branchId = ''b1'', jc_queueId = ''q1'',
      jc_flowTemplateId = Some ''f1''\<rparr> = journey_ctx_of step_ticket"
    by (simp add: journey_ctx_of_def step_ticket_fields)
  have "\<exists>m. finalize_tx noon ''o1'' step_ticket ''completed'' False None (clinic ''closed'') = Inl (BadRequest m)"
    by (simp add: finalize_tx_def tx_read_def clinic_ticket step_ticket_fields finalize_locked_def ctx tx_bind_def clinic_found
        finalize_ref_def tx_return_def issue_next_step_def n clinic_resolved closed tx_throw_def)
  then obtain m where tx: "finalize_tx noon ''o1'' step_ticket ''completed'' False None (clinic ''closed'') = Inl (BadRequest m)"
    by (elim exE)
  have run: "finalizeTicketWithJourneyAdvance noon ''o1'' ''t1'' ''completed'' None (clinic ''closed'') =
      (Inl (BadRequest m), clinic ''closed'')"
    by (simp add: finalizeTicketWithJourneyAdvance_def svc_read_def clinic_ticket svc_bind_def with_tenant_def clinic_found
        finalize_precheck_def svc_return_def svc_catch_def refs tx svc_throw_def queue_gone_def)
  from run failed_completion_changes_nothing [OF run] show ?thesis by (intro exI conjI)
qed

end
