(* ===== verification/QueueAdmin.thy ===== *)
theory QueueAdmin
  imports Issuance
begin

text \<open>
  \<^verbatim>\<open>QueueService\<close>: queues are created, changed, opened, paused, stopped and deleted, and the kiosk asks
  which ones it may show; with the checks of \<^verbatim>\<open>queue-setup.validation.ts\<close>.
\<close>

section \<open>Checks of the set-up\<close>

definition assertQueuePrefixAvailable :: "uuid \<Rightarrow> uuid \<Rightarrow> string \<Rightarrow> uuid option \<Rightarrow> qdb \<Rightarrow> error + unit" where
  "assertQueuePrefixAvailable org branch prefix except s =
     (let p = to_upper (js_trim prefix) in
      if p = [] then Inl (BadRequest ''Ticket prefix is required'')
      else if list_ex (\<lambda>q. qu_orgId q = org \<and> qu_branchId q = branch \<and> qu_prefix q = p \<and>
          (truthy_str except \<longrightarrow> except \<noteq> Some (qu_id q))) (q_queues s)
      then Inl (Conflict (''Ticket prefix '' @ CHR 0x22 # p @ CHR 0x22 # '' is already used by another queue in this branch''))
      else Inr ())"

definition assertServiceAssignedToBranchForQueue :: "uuid \<Rightarrow> uuid \<Rightarrow> uuid \<Rightarrow> qdb \<Rightarrow> error + unit" where
  "assertServiceAssignedToBranchForQueue org branch sid s = assertServicesAssignedToBranch org branch [sid] s"

definition assertQueuesAvailableForFlowTemplate ::
  "uuid \<Rightarrow> uuid list \<Rightarrow> uuid option \<Rightarrow> qdb \<Rightarrow> error + unit" where
  "assertQueuesAvailableForFlowTemplate org ids allowed s =
     (case List.find (\<lambda>q. truthy_str (qu_flowTemplateId q) \<and> qu_flowTemplateId q \<noteq> allowed)
        (filter (\<lambda>q. qu_orgId q = org \<and> qu_id q \<in> set ids) (q_queues s)) of
        None \<Rightarrow> Inr ()
      | Some q \<Rightarrow> Inl (BadRequest (''Queue '' @ CHR 0x22 # qu_name q @ CHR 0x22 #
          '' is already linked to another multi-step template'')))"

section \<open>The policy of a queue\<close>

definition QUEUE_STEP_ROLES :: "string list" where
  "QUEUE_STEP_ROLES = [''service'', ''pickup'']"

definition QUEUE_CALLING_POLICIES :: "string list" where
  "QUEUE_CALLING_POLICIES = [''fifo'', ''manual_only'', ''ready_then_manual'', ''ready_then_fifo'']"

definition queueJourneyMode :: "string option \<Rightarrow> error + string option" where
  "queueJourneyMode m =
     (if \<not> truthy_str m then Inr None
      else if m = Some ''single_ticket'' \<or> m = Some ''visit_multi_step'' then Inr m
      else Inl (BadRequest ''Invalid journey mode. Supported values: single_ticket, visit_multi_step''))"

definition queueStepRole :: "string option \<Rightarrow> error + string option" where
  "queueStepRole r =
     (if \<not> truthy_str r then Inr None
      else if the r \<in> set QUEUE_STEP_ROLES then Inr r
      else Inl (BadRequest ''Invalid step role. Supported values: service, pickup''))"

definition queueCallingPolicy :: "string option \<Rightarrow> error + string" where
  "queueCallingPolicy p =
     (if \<not> truthy_str p then Inr ''fifo''
      else if the p \<in> set QUEUE_CALLING_POLICIES then Inr (the p)
      else Inl (BadRequest ''Invalid calling policy. Supported values: fifo, manual_only, ready_then_manual, ready_then_fifo''))"

definition enforceQueuePolicyInvariants ::
  "string option \<Rightarrow> string option \<Rightarrow> string option \<Rightarrow> error + string option \<times> string option \<times> string" where
  "enforceQueuePolicyInvariants mode0 role0 policy0 =
     err_bind (queueJourneyMode mode0) (\<lambda>mode.
     err_bind (queueStepRole role0) (\<lambda>role.
     err_bind (queueCallingPolicy policy0) (\<lambda>policy.
     if mode = Some ''visit_multi_step'' \<and> role = None
     then Inl (BadRequest ''Step role is required when queue journey mode is multi-step'')
     else if role = Some ''pickup'' \<and> policy = ''fifo''
     then Inl (BadRequest ''Pickup queues cannot use fifo calling policy'')
     else Inr (mode, role, resolveCallingPolicyForStep role (Some policy)))))"

definition validateFlowTemplateScope :: "uuid \<Rightarrow> uuid \<Rightarrow> uuid option \<Rightarrow> qdb \<Rightarrow> error + uuid option" where
  "validateFlowTemplateScope org branch tmpl s =
     (if \<not> truthy_str tmpl then Inr None
      else case List.find (\<lambda>f. fl_id f = the tmpl \<and> fl_orgId f = org) (q_flowTemplates s) of
        None \<Rightarrow> Inl (NotFound ''Flow template not found'')
      | Some f \<Rightarrow>
          if fl_branchId f \<noteq> branch
          then Inl (BadRequest ''Flow template must belong to the same branch as the queue'')
          else Inr (Some (fl_id f)))"

text \<open>What a user may do to a running queue.\<close>

definition stops_empty :: "role_assignment \<Rightarrow> bool" where
  "stops_empty a \<longleftrightarrow> ro_name (ra_role a) \<noteq> role_name Viewer \<and>
     list_ex (\<lambda>p. pm_resource p = ''queue'' \<and> (pm_action p = ''manage'' \<or> pm_action p = ''update''))
       (ro_permissions (ra_role a))"

definition getActorQueueContext :: "uuid \<Rightarrow> uuid \<Rightarrow> qdb \<Rightarrow> queue_stop_user" where
  "getActorQueueContext org u s = (let as = assignments_of org u s in
     \<lparr>qs_isOwner = list_ex (\<lambda>a. ro_isSystemRole (ra_role a) \<and> ro_name (ra_role a) = role_name Owner) as,
      qs_isAdmin = list_ex (\<lambda>a. ro_isSystemRole (ra_role a) \<and> ro_name (ra_role a) = role_name Admin) as,
      qs_canStopEmptyQueue = list_ex stops_empty as\<rparr>)"

section \<open>Creation\<close>

record queue_input =
  qi_branchId :: uuid
  qi_serviceId :: uuid
  qi_name :: string
  qi_prefix :: string
  qi_maxCapacity :: "int option"
  qi_journeyMode :: "string option"
  qi_stepRole :: "string option"
  qi_callingPolicy :: "string option"
  qi_flowTemplateId :: "uuid option"

definition branch_in_org :: "uuid \<Rightarrow> uuid \<Rightarrow> qdb \<Rightarrow> error + unit" where
  "branch_in_org org branch s =
     (if list_ex (\<lambda>b. br_id b = branch \<and> br_orgId b = org) (q_branches s) then Inr ()
      else Inl (NotFound ''Branch not found''))"

definition service_in_org :: "uuid \<Rightarrow> uuid \<Rightarrow> qdb \<Rightarrow> error + service_row" where
  "service_in_org org sid s =
     (case List.find (\<lambda>v. sv_id v = sid \<and> sv_orgId v = org) (q_services s) of
        None \<Rightarrow> Inl (NotFound ''Service not found'') | Some v \<Rightarrow> Inr v)"

definition queue_limit_reached :: "int \<Rightarrow> error" where
  "queue_limit_reached l = Forbidden (''Queue limit reached for this branch. Your plan allows '' @ show_int l @
     '' queues per branch. Please upgrade to add more.'')"

text \<open>\<open>@@unique([branchId, prefix])\<close>.\<close>

definition insert_queue :: "queue_row \<Rightarrow> queue_row qtx" where
  "insert_queue q = tx_read (\<lambda>s.
     if list_ex (\<lambda>x. qu_id x = qu_id q \<or> (qu_branchId x = qu_branchId q \<and> qu_prefix x = qu_prefix q)) (q_queues s)
     then tx_throw PrismaP2002
     else tx_bind (tx_modify (q_queues_update (\<lambda>qs. qs @ [q]))) (\<lambda>_. tx_return q))"

definition new_queue ::
  "qenv \<Rightarrow> uuid \<Rightarrow> queue_input \<Rightarrow> service_row \<Rightarrow> string option \<times> string option \<times> string \<Rightarrow> uuid option \<Rightarrow> queue_row" where
  "new_queue e org d v policy tmpl = (case policy of (mode, role, calling) \<Rightarrow>
     \<lparr>qu_id = qe_uuid e ''queues'', qu_orgId = org, qu_branchId = qi_branchId d, qu_serviceId = qi_serviceId d,
      qu_name = qi_name d, qu_prefix = to_upper (qi_prefix d), qu_status = ''closed'', qu_nextTicketSeq = 1,
      qu_sessionOpenedAt = None, qu_sessionClosesAt = None, qu_journeyModeOverride = mode,
      qu_flowTemplateId = tmpl, qu_stepRole = role, qu_callingPolicy = calling,
      qu_maxCapacity = qi_maxCapacity d, qu_maxServiceMinutes = sv_durationMinutes v\<rparr>)"

definition create_checks :: "uuid \<Rightarrow> queue_input \<Rightarrow> qdb \<Rightarrow> error + service_row" where
  "create_checks org d s =
     err_bind (branch_in_org org (qi_branchId d) s) (\<lambda>_.
     err_bind (service_in_org org (qi_serviceId d) s) (\<lambda>v.
     err_bind (assertServiceAssignedToBranchForQueue org (qi_branchId d) (qi_serviceId d) s) (\<lambda>_.
     err_bind (assertQueuePrefixAvailable org (qi_branchId d) (qi_prefix d) None s) (\<lambda>_. Inr v))))"

definition createQueue :: "qenv \<Rightarrow> uuid \<Rightarrow> queue_input \<Rightarrow> queue_row qsvc" where
  "createQueue e org d =
     svc_bind (svc_read (\<lambda>s. svc_lift (create_checks org d s))) (\<lambda>v.
     svc_bind (svc_read (\<lambda>s. svc_get (checkLimit e org ''maxQueuesPerBranch''
       (Some (int (count_rows (\<lambda>q. qu_branchId q = qi_branchId d \<and> qu_orgId q = org) (q_queues s))))))) (\<lambda>reached.
     case reached of Some l \<Rightarrow> svc_throw (queue_limit_reached l) | None \<Rightarrow>
     svc_bind (svc_lift (enforceQueuePolicyInvariants (qi_journeyMode d) (qi_stepRole d) (qi_callingPolicy d))) (\<lambda>policy.
     svc_bind (svc_read (\<lambda>s. svc_lift (validateFlowTemplateScope org (qi_branchId d) (qi_flowTemplateId d) s))) (\<lambda>tmpl.
     with_tenant (insert_queue (new_queue e org d v policy tmpl))))))"

section \<open>Changes\<close>

text \<open>A column that may be set to null has \<open>Some None\<close> for it; \<open>None\<close> is a key that is missing.\<close>

record queue_patch =
  qp_keys :: "string list"
  qp_name :: "string option"
  qp_prefix :: "string option"
  qp_maxCapacity :: "int option option"
  qp_branchId :: "uuid option"
  qp_serviceId :: "uuid option"
  qp_journeyMode :: "string option option"
  qp_stepRole :: "string option option"
  qp_callingPolicy :: "string option"
  qp_flowTemplateId :: "uuid option option"

definition QUEUE_UPDATE_FORBIDDEN_FIELDS :: "string list" where
  "QUEUE_UPDATE_FORBIDDEN_FIELDS = [''status'', ''nextTicketSeq'', ''sessionOpenedAt'', ''sessionClosesAt'']"

fun joined_by :: "string \<Rightarrow> string list \<Rightarrow> string" where
  "joined_by sep [] = []"
| "joined_by sep [x] = x"
| "joined_by sep (x # y # zs) = x @ sep @ joined_by sep (y # zs)"

definition getQueueById :: "uuid \<Rightarrow> uuid \<Rightarrow> qdb \<Rightarrow> error + queue_row" where
  "getQueueById org i s = (case find_queue org i s of None \<Rightarrow> Inl (NotFound ''Queue not found'') | Some q \<Rightarrow> Inr q)"

definition update_checks :: "uuid \<Rightarrow> queue_row \<Rightarrow> queue_patch \<Rightarrow> qdb \<Rightarrow>
   error + (string option \<times> string option \<times> string) \<times> uuid option" where
  "update_checks org q d s =
     (if truthy_str (qu_flowTemplateId q) \<and>
        (qp_journeyMode d \<noteq> None \<or> qp_stepRole d \<noteq> None \<or> qp_callingPolicy d \<noteq> None) \<and> qp_flowTemplateId d = None
      then Inl (BadRequest ''This queue is managed by an active flow template. Update queue type and calling rule from Flows, or unlink the template first.'')
      else err_bind (if truthy_str (qp_branchId d) then branch_in_org org (the (qp_branchId d)) s else Inr ()) (\<lambda>_.
        err_bind (if truthy_str (qp_serviceId d)
          then err_bind (service_in_org org (the (qp_serviceId d)) s) (\<lambda>_. Inr ()) else Inr ()) (\<lambda>_.
        err_bind (enforceQueuePolicyInvariants
            (case qp_journeyMode d of Some (Some m) \<Rightarrow> Some m | _ \<Rightarrow> qu_journeyModeOverride q)
            (patched (qp_stepRole d) (qu_stepRole q))
            (Some (patched (qp_callingPolicy d) (qu_callingPolicy q)))) (\<lambda>policy.
        err_bind (validateFlowTemplateScope org (patched (qp_branchId d) (qu_branchId q))
            (patched (qp_flowTemplateId d) (qu_flowTemplateId q)) s) (\<lambda>tmpl.
        Inr (policy, tmpl))))))"

definition patch_queue :: "queue_patch \<Rightarrow> (string option \<times> string option \<times> string) \<times> uuid option \<Rightarrow> queue_row \<Rightarrow> queue_row" where
  "patch_queue d new q = (case new of ((mode, role, calling), tmpl) \<Rightarrow>
     q\<lparr>qu_journeyModeOverride := mode, qu_stepRole := role, qu_callingPolicy := calling, qu_flowTemplateId := tmpl,
       qu_name := patched (qp_name d) (qu_name q),
       qu_prefix := (case qp_prefix d of None \<Rightarrow> qu_prefix q | Some p \<Rightarrow> to_upper p),
       qu_maxCapacity := patched (qp_maxCapacity d) (qu_maxCapacity q),
       qu_branchId := patched (qp_branchId d) (qu_branchId q),
       qu_serviceId := patched (qp_serviceId d) (qu_serviceId q)\<rparr>)"

definition write_queue :: "uuid \<Rightarrow> (queue_row \<Rightarrow> queue_row) \<Rightarrow> queue_row qtx" where
  "write_queue i f = tx_read (\<lambda>s. case List.find (\<lambda>q. qu_id q = i) (q_queues s) of
       None \<Rightarrow> tx_throw PrismaP2025
     | Some q \<Rightarrow>
         if list_ex (\<lambda>x. qu_id x \<noteq> i \<and> qu_branchId x = qu_branchId (f q) \<and> qu_prefix x = qu_prefix (f q)) (q_queues s)
         then tx_throw PrismaP2002
         else tx_update_one q_queues q_queues_update (\<lambda>x. qu_id x = i) f)"

definition publish_queue :: "string \<Rightarrow> string \<Rightarrow> uuid \<Rightarrow> unit qsvc" where
  "publish_queue channel ev i = q_log (Publish [channel] ev i)"

definition updateQueue :: "uuid \<Rightarrow> uuid \<Rightarrow> queue_patch \<Rightarrow> queue_row qsvc" where
  "updateQueue org i d =
     (let forbidden = filter (\<lambda>f. f \<in> set (qp_keys d)) QUEUE_UPDATE_FORBIDDEN_FIELDS in
      if forbidden \<noteq> []
      then svc_throw (BadRequest (''Queue lifecycle fields cannot be updated via PATCH: '' @ joined_by '', '' forbidden))
      else svc_bind (svc_read (\<lambda>s. svc_lift (getQueueById org i s))) (\<lambda>q.
        svc_bind (svc_read (\<lambda>s. svc_lift (update_checks org q d s))) (\<lambda>new.
        svc_bind (with_tenant (write_queue i (patch_queue d new))) (\<lambda>r.
        svc_bind (if truthy_str (qp_branchId d) \<and> qp_branchId d \<noteq> Some (qu_branchId q)
          then svc_bind (publish_queue (''display:'' @ qu_branchId q) ''queue.deleted'' i) (\<lambda>_.
            publish_queue (''display:'' @ the (qp_branchId d)) ''queue.updated'' i)
          else publish_queue (''display:'' @ qu_branchId q) ''queue.updated'' i) (\<lambda>_.
        svc_bind (publish_queue (''org:'' @ org) ''queue.updated'' i) (\<lambda>_. svc_return r))))))"

section \<open>The state of a queue\<close>

definition set_queue_status :: "uuid \<Rightarrow> uuid \<Rightarrow> (queue_row \<Rightarrow> queue_row) \<Rightarrow> queue_row qsvc" where
  "set_queue_status org i f =
     svc_bind (with_tenant (tx_update_one q_queues q_queues_update (\<lambda>x. qu_id x = i) f)) (\<lambda>r.
     svc_bind (publish_queue (''display:'' @ qu_branchId r) ''queue.updated'' i) (\<lambda>_.
     svc_bind (publish_queue (''org:'' @ org) ''queue.updated'' i) (\<lambda>_. svc_return r)))"

definition openQueue :: "qenv \<Rightarrow> uuid \<Rightarrow> uuid \<Rightarrow> queue_row qsvc" where
  "openQueue e org i =
     svc_bind (svc_read (\<lambda>s. svc_lift (getQueueById org i s))) (\<lambda>q.
     if qu_status q = ''open'' then svc_throw (BadRequest ''Queue is already open'')
     else svc_bind (svc_read (\<lambda>s. svc_lift (assertBranchAcceptsCustomerIntake e org (qu_branchId q) ''opening the queue'' (qe_now e) s)))
       (\<lambda>_. set_queue_status org i (\<lambda>x. x\<lparr>qu_status := ''open''\<rparr>)))"

definition pauseQueue :: "uuid \<Rightarrow> uuid \<Rightarrow> queue_row qsvc" where
  "pauseQueue org i =
     svc_bind (svc_read (\<lambda>s. svc_lift (getQueueById org i s))) (\<lambda>q.
     if qu_status q \<noteq> ''open'' then svc_throw (BadRequest ''Queue must be open to pause'')
     else set_queue_status org i (\<lambda>x. x\<lparr>qu_status := ''paused''\<rparr>))"

definition waiting_in :: "uuid \<Rightarrow> uuid \<Rightarrow> qdb \<Rightarrow> int" where
  "waiting_in org i s =
     int (count_rows (\<lambda>t. tk_orgId t = org \<and> tk_queueId t = i \<and> tk_status t = ''waiting'') (q_tickets s))"

definition stop_checks :: "uuid \<Rightarrow> uuid \<Rightarrow> uuid \<Rightarrow> bool \<Rightarrow> bool \<Rightarrow> qdb \<Rightarrow> error + unit" where
  "stop_checks org i u force ack s =
     err_bind (getQueueById org i s) (\<lambda>_.
     if \<not> canStopQueue (Inl (getActorQueueContext org u s)) (waiting_in org i s)
     then Inl (Forbidden (if 0 < waiting_in org i s
       then ''Only the organization owner or admin can stop a queue while customers are still waiting.''
       else ''You do not have permission to stop this queue.''))
     else if 0 < waiting_in org i s \<and> (\<not> force \<or> \<not> ack)
     then Inl (BadRequest ''Stopping this queue will end it for all waiting customers. Owner or admin must confirm forceCloseWaiting=true and acknowledgeConsequences=true. Consequences are yours.'')
     else Inr ())"

definition closeQueue :: "uuid \<Rightarrow> uuid \<Rightarrow> uuid \<Rightarrow> bool \<Rightarrow> bool \<Rightarrow> queue_row qsvc" where
  "closeQueue org i u force ack =
     svc_bind (svc_read (\<lambda>s. svc_lift (stop_checks org i u force ack s))) (\<lambda>_.
     set_queue_status org i (\<lambda>x. x\<lparr>qu_status := ''closed'', qu_nextTicketSeq := 1,
       qu_sessionOpenedAt := None, qu_sessionClosesAt := None\<rparr>))"

text \<open>The tickets of a queue and the steps that point to it go with it (\<open>onDelete: Cascade\<close>).\<close>

definition drop_queue :: "uuid \<Rightarrow> unit qtx" where
  "drop_queue i = tx_bind (tx_modify (q_tickets_update (filter (\<lambda>t. tk_queueId t \<noteq> i)))) (\<lambda>_.
     tx_bind (tx_modify (q_flowSteps_update (filter (\<lambda>f. fs_queueId f \<noteq> Some i)))) (\<lambda>_.
     tx_modify (q_queues_update (filter (\<lambda>q. qu_id q \<noteq> i)))))"

definition deleteQueue :: "uuid \<Rightarrow> uuid \<Rightarrow> unit qsvc" where
  "deleteQueue org i =
     svc_bind (svc_read (\<lambda>s. svc_lift (getQueueById org i s))) (\<lambda>_. with_tenant (drop_queue i))"

section \<open>What the kiosk shows\<close>

definition kiosk_candidates :: "uuid \<Rightarrow> flow_step_row list \<Rightarrow> qdb \<Rightarrow> queue_row list" where
  "kiosk_candidates branch steps s = filter (\<lambda>q. qu_branchId q = branch \<and> qu_status q = ''open'' \<and>
     qu_stepRole q \<noteq> Some ''pickup'' \<and> qu_id q \<notin> set (getNonEntryQueueIdsFromFlowSteps steps)) (q_queues s)"

definition getPublicQueues :: "uuid \<Rightarrow> qdb \<Rightarrow> error + queue_row list" where
  "getPublicQueues branch s = (case List.find (\<lambda>b. br_id b = branch) (q_branches s) of
       None \<Rightarrow> Inl (NotFound ''Branch not found'')
     | Some b \<Rightarrow> (let steps = loadActiveFlowStepsForBranch (br_orgId b) branch s in
         Inr (filterPublicKioskQueues (kiosk_candidates branch steps s) steps
           (getAllFlowBoundQueueIds (br_orgId b) branch s))))"

end
