(* ===== verification/Flows.thy ===== *)
theory Flows
  imports QueueAdmin
begin

text \<open>
  \<^verbatim>\<open>FlowTemplateService\<close> with \<^verbatim>\<open>flow-template-operations.ts\<close>: the flows of a branch, the steps of a visit
  with the queue of each, and the links from queues back to the flow they belong to.
\<close>

section \<open>Steps as they are asked for\<close>

record flow_input =
  fi_stepIndex :: int
  fi_deskNumber :: string
  fi_serviceId :: uuid
  fi_queueId :: uuid
  fi_stepRole :: string
  fi_callingPolicy :: string

definition normalizeFlowDeskNumber :: "string \<Rightarrow> error + string" where
  "normalizeFlowDeskNumber x = (let ds = filter is_digit x in
     if ds = [] then Inl (BadRequest ''Step desk is required'') else Inr (show_int (max 1 (digits_value ds))))"

definition normalizeFlowStepRole :: "string \<Rightarrow> error + string" where
  "normalizeFlowStepRole r =
     (if r \<in> set QUEUE_STEP_ROLES then Inr r else Inl (BadRequest ''Invalid step role''))"

definition normalizeFlowCallingPolicy :: "string \<Rightarrow> error + string" where
  "normalizeFlowCallingPolicy p =
     (if p \<in> set QUEUE_CALLING_POLICIES then Inr p else Inl (BadRequest ''Invalid calling policy''))"

definition validateFlowStepInvariants :: "flow_input \<Rightarrow> error + unit" where
  "validateFlowStepInvariants f =
     (if fi_stepRole f = ''pickup'' \<and> fi_callingPolicy f = ''fifo''
      then Inl (BadRequest ''Pickup steps cannot use fifo calling policy'') else Inr ())"

definition normalize_step :: "flow_input \<Rightarrow> error + flow_input" where
  "normalize_step f =
     err_bind (normalizeFlowDeskNumber (fi_deskNumber f)) (\<lambda>d.
     err_bind (normalizeFlowStepRole (fi_stepRole f)) (\<lambda>r.
     err_bind (normalizeFlowCallingPolicy (fi_callingPolicy f)) (\<lambda>p.
     let n = f\<lparr>fi_deskNumber := d, fi_stepRole := r, fi_callingPolicy := p\<rparr> in
     err_bind (validateFlowStepInvariants n) (\<lambda>_. Inr n))))"

text \<open>\<open>steps.map\<close>: the first step that is refused stops it.\<close>

fun normalizeFlowSteps :: "flow_input list \<Rightarrow> error + flow_input list" where
  "normalizeFlowSteps [] = Inr []"
| "normalizeFlowSteps (f # fs) =
     err_bind (normalize_step f) (\<lambda>n. err_bind (normalizeFlowSteps fs) (\<lambda>ns. Inr (n # ns)))"

definition assertFlowTemplateStepCount :: "flow_input list \<Rightarrow> error + unit" where
  "assertFlowTemplateStepCount fs = (if length fs < 2
     then Inl (BadRequest ''Multi-step templates require at least two steps'') else Inr ())"

definition assertFirstFlowStepIsService :: "flow_input list \<Rightarrow> error + unit" where
  "assertFirstFlowStepIsService fs = (case sort_key fi_stepIndex fs of
       [] \<Rightarrow> Inr ()
     | f # _ \<Rightarrow> if fi_stepRole f = ''pickup''
         then Inl (BadRequest (''Flow step 1 must use '' @ CHR 0x22 # ''service'' @ CHR 0x22 # '' queue type.''))
         else Inr ())"

section \<open>Whether the steps fit the branch\<close>

text \<open>Desks are unique by branch and number, so each number that is found is found once.\<close>

definition assertFlowStepDeskScope :: "uuid \<Rightarrow> uuid \<Rightarrow> flow_input list \<Rightarrow> qdb \<Rightarrow> error + unit" where
  "assertFlowStepDeskScope org branch fs s =
     (let missing = filter (\<lambda>n. \<not> list_ex (\<lambda>d. dk_orgId d = org \<and> dk_branchId d = branch \<and> dk_number d = n) (q_desks s))
            (rev (remdups (rev (map fi_deskNumber fs))))
      in if missing \<noteq> [] then Inl (BadRequest (''Step desk not configured in this branch: '' @
           joined_by '', '' (map (\<lambda>n. ''Desk '' @ n) missing)))
         else Inr ())"

definition step_queue_fits :: "uuid \<Rightarrow> uuid \<Rightarrow> qdb \<Rightarrow> flow_input \<Rightarrow> error + unit" where
  "step_queue_fits org branch s f = (case find_queue org (fi_queueId f) s of
       None \<Rightarrow> Inl (NotFound ''Queue not found'')
     | Some q \<Rightarrow>
         if qu_branchId q \<noteq> branch
         then Inl (BadRequest ''Each step queue must belong to the same branch as the template'')
         else if qu_serviceId q \<noteq> fi_serviceId f
         then Inl (BadRequest ''Step service must match the queue service'')
         else if \<not> isFlowEligibleQueue (qu_journeyModeOverride q)
         then Inl (BadRequest (''Queue '' @ CHR 0x22 # qu_name q @ CHR 0x22 #
           '' must use multi-step process flow to be included in a flow template''))
         else Inr ())"

fun all_fit :: "('a \<Rightarrow> error + unit) \<Rightarrow> 'a list \<Rightarrow> error + unit" where
  "all_fit f [] = Inr ()"
| "all_fit f (x # xs) = err_bind (f x) (\<lambda>_. all_fit f xs)"

definition assertFlowStepQueueScope ::
  "uuid \<Rightarrow> uuid \<Rightarrow> flow_input list \<Rightarrow> uuid option \<Rightarrow> qdb \<Rightarrow> error + unit" where
  "assertFlowStepQueueScope org branch fs allowed s =
     (let ids = map fi_queueId fs in
      if \<not> distinct ids then Inl (BadRequest ''Each step must use a different queue'')
      else if length (filter (\<lambda>q. qu_orgId q = org \<and> qu_id q \<in> set ids) (q_queues s)) \<noteq> length ids
      then Inl (NotFound ''One or more queues were not found'')
      else err_bind (assertServicesAssignedToBranch org branch (map fi_serviceId fs) s) (\<lambda>_.
        err_bind (assertQueuesAvailableForFlowTemplate org ids allowed s) (\<lambda>_.
        all_fit (step_queue_fits org branch s) fs)))"

section \<open>Writing a flow\<close>

definition sync_queue :: "flow_input \<Rightarrow> queue_row \<Rightarrow> queue_row" where
  "sync_queue f q = q\<lparr>qu_stepRole := Some (fi_stepRole f),
     qu_callingPolicy := resolveCallingPolicyForStep (Some (fi_stepRole f)) (Some (fi_callingPolicy f)),
     qu_journeyModeOverride := Some ''visit_multi_step''\<rparr>"

definition syncFlowQueuesFromSteps :: "uuid \<Rightarrow> flow_input list \<Rightarrow> unit qtx" where
  "syncFlowQueuesFromSteps org fs = tx_foreach fs (\<lambda>f.
     tx_bind (tx_update_one q_queues q_queues_update (\<lambda>q. qu_id q = fi_queueId f \<and> qu_orgId q = org) (sync_queue f))
       (\<lambda>_. tx_return ()))"

definition step_row :: "uuid \<Rightarrow> uuid \<Rightarrow> flow_input \<Rightarrow> flow_step_row" where
  "step_row org tmpl f = \<lparr>fs_orgId = org, fs_templateId = tmpl, fs_stepIndex = fi_stepIndex f,
     fs_deskNumber = fi_deskNumber f, fs_serviceId = fi_serviceId f, fs_queueId = Some (fi_queueId f),
     fs_stepRole = fi_stepRole f, fs_callingPolicy = fi_callingPolicy f\<rparr>"

text \<open>\<open>@@unique([templateId, stepIndex])\<close>.\<close>

definition insert_steps :: "uuid \<Rightarrow> uuid \<Rightarrow> flow_input list \<Rightarrow> unit qtx" where
  "insert_steps org tmpl fs = tx_read (\<lambda>s.
     if distinct (map fi_stepIndex fs) \<and>
        (\<forall>f\<in>set (q_flowSteps s). fs_templateId f = tmpl \<longrightarrow> fs_stepIndex f \<notin> fi_stepIndex ` set fs)
     then tx_modify (q_flowSteps_update (\<lambda>xs. xs @ map (step_row org tmpl) fs))
     else tx_throw PrismaP2002)"

definition link_queues :: "uuid \<Rightarrow> uuid \<Rightarrow> uuid list \<Rightarrow> unit qtx" where
  "link_queues org tmpl ids = tx_modify (q_queues_update (update_rows
     (\<lambda>q. qu_orgId q = org \<and> qu_id q \<in> set ids) (\<lambda>q. q\<lparr>qu_flowTemplateId := Some tmpl\<rparr>)))"

definition unlink_queues :: "(queue_row \<Rightarrow> bool) \<Rightarrow> unit qtx" where
  "unlink_queues P = tx_modify (q_queues_update (update_rows P (\<lambda>q. q\<lparr>qu_flowTemplateId := None\<rparr>)))"

text \<open>A queue of the flow, in the branch of the flow.\<close>

definition of_flow :: "uuid \<Rightarrow> uuid \<Rightarrow> uuid \<Rightarrow> queue_row \<Rightarrow> bool" where
  "of_flow org branch tmpl q \<longleftrightarrow> qu_orgId q = org \<and> qu_branchId q = branch \<and> qu_flowTemplateId q = Some tmpl"

definition write_template :: "uuid \<Rightarrow> (flow_template_row \<Rightarrow> flow_template_row) \<Rightarrow> flow_template_row qtx" where
  "write_template i f = tx_update_one q_flowTemplates q_flowTemplates_update (\<lambda>t. fl_id t = i) f"

definition insert_template :: "flow_template_row \<Rightarrow> unit qtx" where
  "insert_template t = tx_read (\<lambda>s. if fl_id t \<in> fl_id ` set (q_flowTemplates s) then tx_throw PrismaP2002
     else tx_modify (q_flowTemplates_update (\<lambda>ts. ts @ [t])))"

definition createLinkedFlowTemplate ::
  "qenv \<Rightarrow> uuid \<Rightarrow> uuid \<Rightarrow> string \<Rightarrow> flow_input list \<Rightarrow> bool \<Rightarrow> flow_template_row qtx" where
  "createLinkedFlowTemplate e org branch name fs activate = tx_read (\<lambda>s.
     let t = \<lparr>fl_id = qe_uuid e ''branch_flow_templates'', fl_orgId = org, fl_branchId = branch,
           fl_name = js_trim name, fl_isActive = False\<rparr> in
     tx_bind (tx_lift (assertFlowStepQueueScope org branch fs None s)) (\<lambda>_.
     tx_bind (tx_lift (assertFlowStepDeskScope org branch fs s)) (\<lambda>_.
     tx_bind (insert_template t) (\<lambda>_.
     tx_bind (insert_steps org (fl_id t) fs) (\<lambda>_.
     tx_bind (link_queues org (fl_id t) (map fi_queueId fs)) (\<lambda>_.
     tx_bind (syncFlowQueuesFromSteps org fs) (\<lambda>_.
     tx_bind (if activate
       then tx_bind (tx_modify (q_flowTemplates_update (update_rows
           (\<lambda>x. fl_orgId x = org \<and> fl_branchId x = branch) (\<lambda>x. x\<lparr>fl_isActive := False\<rparr>)))) (\<lambda>_.
         tx_bind (write_template (fl_id t) (\<lambda>x. x\<lparr>fl_isActive := True\<rparr>)) (\<lambda>_. tx_return ()))
       else tx_return ()) (\<lambda>_.
     tx_return t))))))))"

section \<open>The service\<close>

definition assertCanManageFlowTemplates :: "uuid \<Rightarrow> uuid \<Rightarrow> uuid \<Rightarrow> qdb \<Rightarrow> error + unit" where
  "assertCanManageFlowTemplates org u branch s =
     (case resolveUserHighestSystemRole org u s of
        Some Owner \<Rightarrow> Inr ()
      | Some Admin \<Rightarrow> Inr ()
      | Some Manager \<Rightarrow>
          if branch = [] then Inl (Forbidden ''Flow templates are restricted to owners, admins, and branch managers.'')
          else (case resolveAllowedBranchIds org u s of
              None \<Rightarrow> Inl (Forbidden ''Managers can only manage flow templates in branches assigned to them.'')
            | Some bs \<Rightarrow> if branch \<in> set bs then Inr ()
                else Inl (Forbidden ''Managers can only manage flow templates in branches assigned to them.''))
      | _ \<Rightarrow> Inl (Forbidden ''Flow templates are restricted to owners, admins, and branch managers.''))"

definition find_template :: "uuid \<Rightarrow> uuid \<Rightarrow> qdb \<Rightarrow> error + flow_template_row" where
  "find_template org i s = (case List.find (\<lambda>t. fl_id t = i \<and> fl_orgId t = org) (q_flowTemplates s) of
     None \<Rightarrow> Inl (NotFound ''Flow template not found'') | Some t \<Rightarrow> Inr t)"

definition managed_template :: "uuid \<Rightarrow> uuid \<Rightarrow> uuid \<Rightarrow> qdb \<Rightarrow> error + flow_template_row" where
  "managed_template org u i s = err_bind (find_template org i s) (\<lambda>t.
     err_bind (assertCanManageFlowTemplates org u (fl_branchId t) s) (\<lambda>_. Inr t))"

definition create_flow_checks :: "uuid \<Rightarrow> uuid \<Rightarrow> uuid \<Rightarrow> flow_input list \<Rightarrow> qdb \<Rightarrow> error + flow_input list" where
  "create_flow_checks org u branch fs s =
     err_bind (assertCanManageFlowTemplates org u branch s) (\<lambda>_.
     err_bind (assertFlowTemplateStepCount fs) (\<lambda>_.
     err_bind (normalizeFlowSteps fs) (\<lambda>ns.
     err_bind (assertFirstFlowStepIsService ns) (\<lambda>_. Inr ns))))"

definition createFlow :: "qenv \<Rightarrow> uuid \<Rightarrow> uuid \<Rightarrow> uuid \<Rightarrow> string \<Rightarrow> flow_input list \<Rightarrow> flow_template_row qsvc" where
  "createFlow e org u branch name fs =
     svc_bind (svc_read (\<lambda>s. svc_lift (create_flow_checks org u branch fs s))) (\<lambda>ns.
     svc_bind (with_tenant (tx_read (\<lambda>s. tx_bind (tx_lift (branch_in_org org branch s)) (\<lambda>_.
       createLinkedFlowTemplate e org branch name ns False)))) (\<lambda>t.
     svc_bind (q_log (RepairProfiles org (fl_id t))) (\<lambda>_. svc_return t)))"

definition update_flow_checks :: "uuid \<Rightarrow> uuid \<Rightarrow> uuid \<Rightarrow> flow_input list option \<Rightarrow> qdb \<Rightarrow>
   error + flow_template_row \<times> flow_input list option" where
  "update_flow_checks org u i fs s =
     err_bind (managed_template org u i s) (\<lambda>t. case fs of
       None \<Rightarrow> Inr (t, None)
     | Some fs \<Rightarrow>
         err_bind (normalizeFlowSteps fs) (\<lambda>ns.
         err_bind (assertFlowTemplateStepCount ns) (\<lambda>_.
         err_bind (assertFirstFlowStepIsService ns) (\<lambda>_. Inr (t, Some ns)))))"

definition rename_template :: "string option \<Rightarrow> flow_template_row \<Rightarrow> flow_template_row" where
  "rename_template name t = (case name of None \<Rightarrow> t | Some n \<Rightarrow> t\<lparr>fl_name := js_trim n\<rparr>)"

definition update_flow_tx ::
  "uuid \<Rightarrow> flow_template_row \<Rightarrow> string option \<Rightarrow> flow_input list option \<Rightarrow> flow_template_row qtx" where
  "update_flow_tx org t name fs = tx_read (\<lambda>s. case fs of
       None \<Rightarrow> write_template (fl_id t) (rename_template name)
     | Some ns \<Rightarrow>
         tx_bind (tx_lift (assertFlowStepQueueScope org (fl_branchId t) ns (Some (fl_id t)) s)) (\<lambda>_.
         tx_bind (tx_lift (assertFlowStepDeskScope org (fl_branchId t) ns s)) (\<lambda>_.
         tx_bind (tx_modify (q_flowSteps_update (filter (\<lambda>f. \<not> (fs_orgId f = org \<and> fs_templateId f = fl_id t))))) (\<lambda>_.
         tx_bind (write_template (fl_id t) (rename_template name)) (\<lambda>r.
         tx_bind (insert_steps org (fl_id t) ns) (\<lambda>_.
         tx_bind (unlink_queues (of_flow org (fl_branchId t) (fl_id t))) (\<lambda>_.
         tx_bind (link_queues org (fl_id t) (map fi_queueId ns)) (\<lambda>_.
         tx_bind (syncFlowQueuesFromSteps org ns) (\<lambda>_. tx_return r)))))))))"

definition updateFlow ::
  "uuid \<Rightarrow> uuid \<Rightarrow> uuid \<Rightarrow> string option \<Rightarrow> flow_input list option \<Rightarrow> flow_template_row qsvc" where
  "updateFlow org u i name fs =
     svc_bind (svc_read (\<lambda>s. svc_lift (update_flow_checks org u i fs s))) (\<lambda>(t, ns).
     svc_bind (with_tenant (update_flow_tx org t name ns)) (\<lambda>r.
     svc_bind (if ns = None then svc_return () else q_log (RepairProfiles org i)) (\<lambda>_. svc_return r)))"

section \<open>Activation\<close>

definition steps_of :: "uuid \<Rightarrow> uuid \<Rightarrow> qdb \<Rightarrow> flow_step_row list" where
  "steps_of org i s = sort_key fs_stepIndex (filter (\<lambda>f. fs_orgId f = org \<and> fs_templateId f = i) (q_flowSteps s))"

text \<open>The queues of the other active flows of the branch.\<close>

definition queues_in_use :: "uuid \<Rightarrow> uuid \<Rightarrow> uuid \<Rightarrow> qdb \<Rightarrow> uuid list" where
  "queues_in_use org branch i s = concat (map (\<lambda>t. List.map_filter fs_queueId
       (filter (\<lambda>f. fs_templateId f = fl_id t \<and> truthy_str (fs_queueId f)) (q_flowSteps s)))
     (filter (\<lambda>t. fl_orgId t = org \<and> fl_branchId t = branch \<and> fl_isActive t \<and> fl_id t \<noteq> i) (q_flowTemplates s)))"

definition stored_step :: "flow_step_row \<Rightarrow> flow_input" where
  "stored_step f = \<lparr>fi_stepIndex = fs_stepIndex f, fi_deskNumber = fs_deskNumber f, fi_serviceId = fs_serviceId f,
     fi_queueId = the (fs_queueId f), fi_stepRole = fs_stepRole f, fi_callingPolicy = fs_callingPolicy f\<rparr>"

definition normalize_stored :: "flow_input \<Rightarrow> error + flow_input" where
  "normalize_stored f =
     err_bind (normalizeFlowDeskNumber (fi_deskNumber f)) (\<lambda>d.
     err_bind (normalizeFlowStepRole (fi_stepRole f)) (\<lambda>r.
     err_bind (normalizeFlowCallingPolicy (fi_callingPolicy f)) (\<lambda>p.
     Inr (f\<lparr>fi_deskNumber := d, fi_stepRole := r, fi_callingPolicy := p\<rparr>))))"

fun normalize_all :: "flow_step_row list \<Rightarrow> error + flow_input list" where
  "normalize_all [] = Inr []"
| "normalize_all (f # fs) =
     err_bind (normalize_stored (stored_step f)) (\<lambda>n. err_bind (normalize_all fs) (\<lambda>ns. Inr (n # ns)))"

text \<open>The database client refuses a null among the queues; nothing has been written by then that stays.\<close>

definition relink_steps :: "uuid \<Rightarrow> flow_template_row \<Rightarrow> flow_step_row list \<Rightarrow> unit qtx" where
  "relink_steps org t fs =
     (if fs = [] then tx_return ()
      else tx_bind (tx_lift (normalize_all fs)) (\<lambda>ns.
        tx_bind (unlink_queues (of_flow org (fl_branchId t) (fl_id t))) (\<lambda>_.
        if list_ex (\<lambda>f. fs_queueId f = None) fs then tx_throw PrismaValidation
        else tx_bind (link_queues org (fl_id t) (map fi_queueId ns)) (\<lambda>_. syncFlowQueuesFromSteps org ns))))"

definition activate_tx :: "uuid \<Rightarrow> flow_template_row \<Rightarrow> flow_template_row qtx" where
  "activate_tx org t = tx_read (\<lambda>s.
     let fs = steps_of org (fl_id t) s in
     if list_ex (\<lambda>f. truthy_str (fs_queueId f) \<and> the (fs_queueId f) \<in> set (queues_in_use org (fl_branchId t) (fl_id t) s)) fs
     then tx_throw (BadRequest ''Cannot activate template: one or more queues are already used by another active template.'')
     else tx_bind (relink_steps org t fs) (\<lambda>_. write_template (fl_id t) (\<lambda>x. x\<lparr>fl_isActive := True\<rparr>)))"

definition activateFlow :: "uuid \<Rightarrow> uuid \<Rightarrow> uuid \<Rightarrow> uuid option \<Rightarrow> flow_template_row qsvc" where
  "activateFlow org u i forUser =
     svc_bind (svc_read (\<lambda>s. svc_lift (managed_template org u i s))) (\<lambda>t.
     svc_bind (with_tenant (activate_tx org t)) (\<lambda>r.
     svc_bind (if truthy_str forUser then q_log (ProvisionProfiles org (the forUser) (fl_branchId t)) else svc_return ()) (\<lambda>_.
     svc_bind (q_log (RepairProfiles org i)) (\<lambda>_. svc_return r))))"

definition deactivateFlow :: "uuid \<Rightarrow> uuid \<Rightarrow> uuid \<Rightarrow> flow_template_row qsvc" where
  "deactivateFlow org u i =
     svc_bind (svc_read (\<lambda>s. svc_lift (managed_template org u i s))) (\<lambda>t.
     svc_bind (with_tenant (tx_bind (unlink_queues (of_flow org (fl_branchId t) i)) (\<lambda>_.
       write_template i (\<lambda>x. x\<lparr>fl_isActive := False\<rparr>)))) (\<lambda>r.
     svc_bind (q_log (RepairProfiles org i)) (\<lambda>_. svc_return r)))"

text \<open>Steps go with their flow; queues and tickets that point to it are set to null.\<close>

definition removeFlow :: "uuid \<Rightarrow> uuid \<Rightarrow> uuid \<Rightarrow> unit qsvc" where
  "removeFlow org u i =
     svc_bind (svc_read (\<lambda>s. svc_lift (managed_template org u i s))) (\<lambda>t.
     with_tenant (tx_bind (unlink_queues (\<lambda>q. qu_flowTemplateId q = Some i)) (\<lambda>_.
       tx_bind (tx_modify (q_flowSteps_update (filter (\<lambda>f. fs_templateId f \<noteq> i)))) (\<lambda>_.
       tx_bind (tx_modify (q_tickets_update (update_rows (\<lambda>x. tk_flowTemplateId x = Some i)
         (\<lambda>x. x\<lparr>tk_flowTemplateId := None\<rparr>)))) (\<lambda>_.
       tx_modify (q_flowTemplates_update (filter (\<lambda>x. fl_id x \<noteq> i))))))))"

end
