(* ===== verification/FlowFacts.thy ===== *)
theory FlowFacts
  imports Flows CompletionFacts
begin

text \<open>
  Queues keep a lawful policy, a queue with waiting customers is stopped by owners and admins only, what
  the kiosk shows can be entered, and two active flows share no queue.
\<close>

section \<open>Values that were checked\<close>

lemma preserves_read_lift:
  assumes "\<And>s a. r s = Inr a \<Longrightarrow> preserves I (f a)"
  shows "preserves I (svc_bind (svc_read (\<lambda>s. svc_lift (r s))) f)"
proof (rule preservesI)
  fix s assume "I s"
  show "I (snd (svc_bind (svc_read (\<lambda>s. svc_lift (r s))) f s))"
  proof (cases "r s")
    case (Inl err)
    then show ?thesis using \<open>I s\<close> by (simp add: svc_bind_def svc_read_def svc_lift_def svc_throw_def)
  next
    case (Inr a)
    then show ?thesis using assms \<open>I s\<close>
      by (simp add: svc_bind_def svc_read_def svc_lift_def svc_return_def preservesD)
  qed
qed

lemma preserves_tx_lift_bind:
  assumes "\<And>a. r = Inr a \<Longrightarrow> preserves_tx I (f a)"
  shows "preserves_tx I (tx_bind (tx_lift r) f)"
  using assms by (cases r) (simp_all add: preserves_tx_def tx_bind_def tx_lift_def tx_throw_def tx_return_def)

lemma preserves_tx_read_lift:
  assumes "\<And>s a. r s = Inr a \<Longrightarrow> preserves_tx I (f s a)"
  shows "preserves_tx I (tx_read (\<lambda>s. tx_bind (tx_lift (r s)) (f s)))"
proof (rule preserves_txI)
  fix s a s' assume "I s" and run: "tx_read (\<lambda>s. tx_bind (tx_lift (r s)) (f s)) s = Inr (a, s')"
  from run obtain b where "r s = Inr b" "f s b s = Inr (a, s')"
    by (auto simp: tx_read_def tx_bind_Inr_iff tx_lift_Inr_iff)
  then show "I s'" using assms \<open>I s\<close> by (auto dest: preserves_txD)
qed

section \<open>The policy of a queue\<close>

definition lawful_policy :: "queue_row \<Rightarrow> bool" where
  "lawful_policy q \<longleftrightarrow> qu_stepRole q \<in> {None, Some ''service'', Some ''pickup''} \<and>
     qu_callingPolicy q \<in> set QUEUE_CALLING_POLICIES \<and>
     (qu_journeyModeOverride q = Some ''visit_multi_step'' \<longrightarrow> qu_stepRole q \<noteq> None) \<and>
     (qu_stepRole q = Some ''pickup'' \<longrightarrow> qu_callingPolicy q \<noteq> ''fifo'' \<and> qu_callingPolicy q \<noteq> ''manual_only'')"

definition policies_ok :: "qdb \<Rightarrow> bool" where
  "policies_ok s \<longleftrightarrow> list_all lawful_policy (q_queues s)"

lemma policies_blinds [pres_intros]:
  "blind q_tickets_update policies_ok" "blind q_flowSteps_update policies_ok" "blind q_flowTemplates_update policies_ok"
  "blind q_limitsCache_update policies_ok" "blind q_effects_update policies_ok"
  by (simp_all add: blind_def policies_ok_def)

lemmas flow_writes [pres_intros] = preserves_tx_blind [where upd = q_flowTemplates_update]

lemma resolved_policy:
  "resolveCallingPolicyForStep role p \<in> set QUEUE_CALLING_POLICIES"
  "resolveCallingPolicyForStep (Some ''pickup'') p \<noteq> ''fifo''" "resolveCallingPolicyForStep (Some ''pickup'') p \<noteq> ''manual_only''"
  by (auto simp: resolveCallingPolicyForStep_def normalizeCallingPolicyValue_def QUEUE_CALLING_POLICIES_def Let_def)

lemma enforced:
  assumes "enforceQueuePolicyInvariants mode0 role0 policy0 = Inr (mode, role, policy)"
  shows "role \<in> {None, Some ''service'', Some ''pickup''}" "\<exists>p. policy = resolveCallingPolicyForStep role p"
    "mode = Some ''visit_multi_step'' \<Longrightarrow> role \<noteq> None"
  using assms by (auto simp: enforceQueuePolicyInvariants_def err_bind_def queueStepRole_def QUEUE_STEP_ROLES_def
      split: sum.splits if_splits)

lemma lawful_written:
  assumes "role \<in> {None, Some ''service'', Some ''pickup''}" "mode = Some ''visit_multi_step'' \<Longrightarrow> role \<noteq> None"
    and "qu_journeyModeOverride q = mode" "qu_stepRole q = role" "qu_callingPolicy q = resolveCallingPolicyForStep role p"
  shows "lawful_policy q"
  using assms by (auto simp: lawful_policy_def resolveCallingPolicyForStep_def
      normalizeCallingPolicyValue_def QUEUE_CALLING_POLICIES_def Let_def split: if_splits)

lemma lawful_enforced:
  assumes "enforceQueuePolicyInvariants mode0 role0 policy0 = Inr (mode, role, policy)"
    and "qu_journeyModeOverride q = mode" "qu_stepRole q = role" "qu_callingPolicy q = policy"
  shows "lawful_policy q"
proof -
  obtain p where "policy = resolveCallingPolicyForStep role p" using enforced(2) [OF assms(1)] by (rule exE)
  then show ?thesis using enforced(1,3) [OF assms(1)] assms(2-4) by (intro lawful_written [of role mode q p]) simp_all
qed

lemma policies_mapped:
  assumes "policies_ok s" and "\<And>q. P q \<Longrightarrow> lawful_policy q \<Longrightarrow> lawful_policy (f q)"
  shows "policies_ok (q_queues_update (update_rows P f) s)"
  using assms by (auto simp: policies_ok_def list_all_iff update_rows_def)

lemma policies_update_one:
  assumes "\<And>q. P q \<Longrightarrow> lawful_policy q \<Longrightarrow> lawful_policy (f q)"
  shows "preserves_tx policies_ok (tx_update_one q_queues q_queues_update P f)"
  by (rule preserves_txI) (auto simp: tx_update_one_def split: option.splits dest: policies_mapped [OF _ assms])

lemma policies_modify:
  assumes "\<And>q. P q \<Longrightarrow> lawful_policy q \<Longrightarrow> lawful_policy (f q)"
  shows "preserves_tx policies_ok (tx_modify (q_queues_update (update_rows P f)))"
  by (rule preserves_tx_modify) (rule policies_mapped [OF _ assms])

text \<open>The operations on queues and flows, each with its own clock and random values.\<close>

inductive queue_admin_step :: "qdb \<Rightarrow> qdb \<Rightarrow> bool" where
  create: "queue_admin_step s (snd (createQueue e org d s))"
| update: "queue_admin_step s (snd (updateQueue org i p s))"
| opens: "queue_admin_step s (snd (openQueue e org i s))"
| pauses: "queue_admin_step s (snd (pauseQueue org i s))"
| closes: "queue_admin_step s (snd (closeQueue org i u force ack s))"
| delete: "queue_admin_step s (snd (deleteQueue org i s))"
| create_flow: "queue_admin_step s (snd (createFlow e org u branch name fs s))"
| update_flow: "queue_admin_step s (snd (updateFlow org u i n ns s))"
| activate: "queue_admin_step s (snd (activateFlow org u i for_user s))"
| deactivate: "queue_admin_step s (snd (deactivateFlow org u i s))"
| remove: "queue_admin_step s (snd (removeFlow org u i s))"

lemma policies_set_status:
  assumes "\<And>q. qu_journeyModeOverride (f q) = qu_journeyModeOverride q" "\<And>q. qu_stepRole (f q) = qu_stepRole q"
    "\<And>q. qu_callingPolicy (f q) = qu_callingPolicy q"
  shows "preserves policies_ok (set_queue_status org i f)"
  unfolding set_queue_status_def publish_queue_def
  by (intro pres_intros policies_update_one) (simp add: lawful_policy_def assms)

lemma policies_insert_queue:
  assumes "lawful_policy q" shows "preserves_tx policies_ok (insert_queue q)"
  unfolding insert_queue_def
  by (intro pres_intros preserves_tx_modify) (use assms in \<open>simp add: policies_ok_def\<close>)

lemma policies_write_queue:
  assumes "\<And>q. lawful_policy (f q)" shows "preserves_tx policies_ok (write_queue i f)"
  unfolding write_queue_def by (intro pres_intros policies_update_one assms)

lemma policies_check_limit: "preserves policies_ok (svc_get (checkLimit e org feature n))"
  by (auto intro!: preserves_svc_get simp: checkLimit_def getLimits_def policies_ok_def split: prod.splits option.splits)

lemma policies_create [pres_intros]: "preserves policies_ok (createQueue e org d)"
  unfolding createQueue_def
proof (intro preserves_bind [OF preserves_read [OF preserves_svc_lift]] preserves_bind [OF preserves_read [OF policies_check_limit]]
    preserves_case_option preserves_throw preserves_lift_bind preserves_with_tenant)
  fix v reached policy tmpl
  assume *: "enforceQueuePolicyInvariants (qi_journeyMode d) (qi_stepRole d) (qi_callingPolicy d) = Inr policy"
  obtain mode role calling where "policy = (mode, role, calling)" by (cases policy)
  with * show "preserves_tx policies_ok (insert_queue (new_queue e org d v policy tmpl))"
    by (intro policies_insert_queue lawful_enforced [of _ _ _ mode role calling]) (simp_all add: new_queue_def)
qed

lemma policies_update [pres_intros]: "preserves policies_ok (updateQueue org i d)"
  unfolding updateQueue_def Let_def
proof (rule preserves_if [OF preserves_throw], rule preserves_bind [OF preserves_read [OF preserves_svc_lift]],
    rule preserves_read_lift)
  fix q s new assume *: "update_checks org q d s = Inr new"
  obtain mode role calling tmpl where new: "new = ((mode, role, calling), tmpl)" by (metis prod.exhaust)
  from * new have "\<exists>m r p. enforceQueuePolicyInvariants m r p = Inr (mode, role, calling)"
    by (auto simp: update_checks_def err_bind_def split: sum.splits if_splits)
  then obtain m r p where "enforceQueuePolicyInvariants m r p = Inr (mode, role, calling)" by blast
  then have "lawful_policy (patch_queue d new x)" for x
    by (rule lawful_enforced) (simp_all add: patch_queue_def new)
  then show "preserves policies_ok (svc_bind (with_tenant (write_queue i (patch_queue d new))) (\<lambda>r.
      svc_bind (if truthy_str (qp_branchId d) \<and> qp_branchId d \<noteq> Some (qu_branchId q)
          then svc_bind (publish_queue (''display:'' @ qu_branchId q) ''queue.deleted'' i) (\<lambda>_.
            publish_queue (''display:'' @ the (qp_branchId d)) ''queue.updated'' i)
          else publish_queue (''display:'' @ qu_branchId q) ''queue.updated'' i) (\<lambda>_.
        svc_bind (publish_queue (''org:'' @ org) ''queue.updated'' i) (\<lambda>_. svc_return r))))"
    unfolding publish_queue_def by (intro pres_intros policies_write_queue)
qed

lemma policies_state [pres_intros]:
  "preserves policies_ok (openQueue e org i)" "preserves policies_ok (pauseQueue org i)"
  "preserves policies_ok (closeQueue org i u force ack)"
  unfolding openQueue_def pauseQueue_def closeQueue_def by (intro pres_intros policies_set_status; simp)+

lemma policies_delete [pres_intros]: "preserves policies_ok (deleteQueue org i)"
  unfolding deleteQueue_def drop_queue_def
  by (intro pres_intros preserves_tx_modify) (auto simp: policies_ok_def list_all_iff)

section \<open>Writing a flow keeps the policies lawful\<close>

definition normal_step :: "flow_input \<Rightarrow> bool" where
  "normal_step f \<longleftrightarrow> fi_stepRole f \<in> {''service'', ''pickup''}"

lemma policies_sync:
  assumes "list_all normal_step fs" shows "preserves_tx policies_ok (syncFlowQueuesFromSteps org fs)"
proof -
  have "preserves_tx policies_ok (tx_update_one q_queues q_queues_update P (sync_queue f))" if "normal_step f" for P f
    by (intro policies_update_one lawful_written [of "Some (fi_stepRole f)" "Some ''visit_multi_step''" _ "Some (fi_callingPolicy f)"])
      (use that in \<open>auto simp: sync_queue_def normal_step_def\<close>)
  with assms show ?thesis unfolding syncFlowQueuesFromSteps_def
    by (induction fs) (auto intro!: preserves_tx_bind preserves_tx_return)
qed

lemma policies_links [pres_intros]:
  "preserves_tx policies_ok (link_queues org t ids)" "preserves_tx policies_ok (unlink_queues P)"
  unfolding link_queues_def unlink_queues_def by (intro policies_modify; simp add: lawful_policy_def)+

lemma normalized_steps: "normalizeFlowSteps fs = Inr ns \<Longrightarrow> list_all normal_step ns"
  by (induction fs arbitrary: ns) (auto simp: err_bind_def normalize_step_def normalizeFlowStepRole_def QUEUE_STEP_ROLES_def
      normal_step_def Let_def split: sum.splits if_splits)

lemma normalized_stored: "normalize_all fs = Inr ns \<Longrightarrow> list_all normal_step ns"
  by (induction fs arbitrary: ns) (auto simp: err_bind_def normalize_stored_def normalizeFlowStepRole_def QUEUE_STEP_ROLES_def
      normal_step_def Let_def split: sum.splits if_splits)

lemma policies_tables [pres_intros]:
  "preserves_tx policies_ok (insert_template t)" "preserves_tx policies_ok (insert_steps org i fs)"
  "preserves_tx policies_ok (write_template i f)"
  unfolding insert_template_def insert_steps_def write_template_def by (intro pres_intros)+

lemma policies_linked:
  "list_all normal_step fs \<Longrightarrow> preserves_tx policies_ok (createLinkedFlowTemplate e org branch name fs act)"
  unfolding createLinkedFlowTemplate_def by (intro pres_intros policies_sync)

lemma policies_create_flow [pres_intros]: "preserves policies_ok (createFlow e org u branch name fs)"
  unfolding createFlow_def
proof (rule preserves_read_lift)
  fix s ns assume "create_flow_checks org u branch fs s = Inr ns"
  then have "list_all normal_step ns"
    by (auto simp: create_flow_checks_def err_bind_def split: sum.splits dest: normalized_steps)
  then show "preserves policies_ok (svc_bind (with_tenant (tx_read (\<lambda>s. tx_bind (tx_lift (branch_in_org org branch s)) (\<lambda>_.
       createLinkedFlowTemplate e org branch name ns False)))) (\<lambda>t.
     svc_bind (q_log (RepairProfiles org (fl_id t))) (\<lambda>_. svc_return t)))"
    by (intro pres_intros policies_linked)
qed

lemma checked_steps:
  assumes "update_flow_checks org u i fs s = Inr (t, Some ns)"
  shows "list_all normal_step ns"
  using assms by (auto simp: update_flow_checks_def err_bind_def split: sum.splits option.splits dest: normalized_steps)

lemma policies_update_tx:
  "(\<And>ns. fs = Some ns \<Longrightarrow> list_all normal_step ns) \<Longrightarrow> preserves_tx policies_ok (update_flow_tx org t n fs)"
  unfolding update_flow_tx_def by (cases fs) (auto intro!: policies_sync pres_intros)

lemma policies_update_flow [pres_intros]: "preserves policies_ok (updateFlow org u i n fs)"
  unfolding updateFlow_def
proof (rule preserves_read_lift, unfold split_def)
  fix s c assume "update_flow_checks org u i fs s = Inr c"
  then have "list_all normal_step ns" if "snd c = Some ns" for ns
    by (metis that checked_steps prod.collapse)
  then show "preserves policies_ok (svc_bind (with_tenant (update_flow_tx org (fst c) n (snd c))) (\<lambda>r.
     svc_bind (if snd c = None then svc_return () else q_log (RepairProfiles org i)) (\<lambda>_. svc_return r)))"
    by (intro pres_intros policies_update_tx)
qed

lemma policies_relink: "preserves_tx policies_ok (relink_steps org t fs)"
  unfolding relink_steps_def
  by (intro preserves_tx_if preserves_tx_return preserves_tx_lift_bind) (intro pres_intros policies_sync normalized_stored)

lemma policies_activate [pres_intros]: "preserves policies_ok (activateFlow org u i for_user)"
  unfolding activateFlow_def activate_tx_def by (intro pres_intros policies_relink)

lemma policies_deactivate [pres_intros]: "preserves policies_ok (deactivateFlow org u i)"
  unfolding deactivateFlow_def by (intro pres_intros)

lemma policies_remove [pres_intros]: "preserves policies_ok (removeFlow org u i)"
  unfolding removeFlow_def by (intro pres_intros)

lemma step_keeps_policies: "queue_admin_step s t \<Longrightarrow> policies_ok s \<Longrightarrow> policies_ok t"
  by (cases rule: queue_admin_step.cases) (auto intro!: preservesD [where I = policies_ok] pres_intros)

section \<open>Properties\<close>

text \<open>
  Over any sequence of operations on queues and flows every queue keeps a lawful policy: its role is
  none, service or pickup, its calling policy one of the four, a queue of a multi-step journey has a
  role, and a pickup queue never calls in plain order of arrival or by hand alone.
\<close>

theorem queue_policies_stay_lawful:
  assumes "queue_admin_step\<^sup>*\<^sup>* s t" and "policies_ok s"
  shows "policies_ok t"
  using assms by (induction rule: rtranclp_induct) (auto intro: step_keeps_policies)

lemma policies_ok_of_rows: "list_all lawful_policy (q_queues s) \<Longrightarrow> policies_ok s"
  by (simp add: policies_ok_def)

theorem queue_policies_stay_lawful_witness:
  "policies_ok (snd (pauseQueue ''o1'' ''q1'' (clinic ''open''))) \<and>
   map qu_status (q_queues (snd (pauseQueue ''o1'' ''q1'' (clinic ''open'')))) = [''paused'', ''open'']"
proof
  have "lawful_policy (demo_queue j)" "lawful_policy (later_queue st)" for j st
    by (simp_all add: lawful_policy_def demo_queue_def later_queue_def QUEUE_CALLING_POLICIES_def)
  then have "policies_ok (clinic ''open'')" by (simp add: policies_ok_def clinic_fields)
  then show "policies_ok (snd (pauseQueue ''o1'' ''q1'' (clinic ''open'')))"
    by (rule queue_policies_stay_lawful [OF r_into_rtranclp [where r = queue_admin_step, OF queue_admin_step.pauses]])
  have "find_queue ''o1'' ''q1'' (clinic ''open'') = Some (demo_queue ''q1'')"
    by (simp add: find_queue_def clinic_fields) (simp add: demo_queue_def)
  then show "map qu_status (q_queues (snd (pauseQueue ''o1'' ''q1'' (clinic ''open'')))) = [''paused'', ''open'']"
    by (simp add: pauseQueue_def svc_bind_def svc_read_def svc_lift_def svc_return_def getQueueById_def
        set_queue_status_def with_tenant_def tx_update_one_def publish_queue_def q_log_def svc_modify_def update_rows_def clinic_fields)
      (simp add: demo_queue_def later_queue_def)
qed

definition holds_role :: "uuid \<Rightarrow> uuid \<Rightarrow> system_role \<Rightarrow> qdb \<Rightarrow> bool" where
  "holds_role org u r s \<longleftrightarrow> (\<exists>a\<in>set (assignments_of org u s). ro_isSystemRole (ra_role a) \<and> ro_name (ra_role a) = role_name r)"

lemma stop_checks_pass:
  assumes "stop_checks org i u force ack s = Inr ()"
  shows "\<exists>q. find_queue org i s = Some q"
    and "0 < waiting_in org i s \<Longrightarrow> (holds_role org u Owner s \<or> holds_role org u Admin s) \<and> force \<and> ack"
    and "holds_role org u Owner s \<or> holds_role org u Admin s \<or> list_ex stops_empty (assignments_of org u s)"
  using assms by (auto simp: stop_checks_def err_bind_def getQueueById_def canStopQueue_def getActorQueueContext_def Let_def
      holds_role_def list_ex_iff split: option.splits if_splits)

lemma set_queue_status_run:
  assumes "set_queue_status org i f s = (Inr q, s')"
  shows "\<exists>q0. List.find (\<lambda>x. qu_id x = i) (q_queues s) = Some q0 \<and> q = f q0"
    "q_queues s' = update_rows (\<lambda>x. qu_id x = i) f (q_queues s)" "q_tickets s' = q_tickets s"
  using assms by (auto simp: set_queue_status_def svc_bind_def with_tenant_def tx_update_one_def publish_queue_def q_log_def
      svc_modify_def svc_return_def split: option.splits sum.splits)

text \<open>
  C29. A queue is stopped only by the owner or an admin of the organisation, or, while nobody waits in it, by
  someone whose role may manage queues; with customers waiting, both confirmations are needed. It is then
  closed with its numbers starting at one again, no other queue and no ticket changes.
\<close>

theorem stopping_a_queue:
  assumes "closeQueue org i u force ack s = (Inr q, s')"
  shows "(0 < waiting_in org i s \<longrightarrow> (holds_role org u Owner s \<or> holds_role org u Admin s) \<and> force \<and> ack) \<and>
    (holds_role org u Owner s \<or> holds_role org u Admin s \<or> list_ex stops_empty (assignments_of org u s)) \<and>
    qu_status q = ''closed'' \<and> qu_nextTicketSeq q = 1 \<and> q_tickets s' = q_tickets s \<and>
    filter (\<lambda>x. qu_id x \<noteq> i) (q_queues s') = filter (\<lambda>x. qu_id x \<noteq> i) (q_queues s)"
proof -
  define f :: "queue_row \<Rightarrow> queue_row" where "f = (\<lambda>x. x\<lparr>qu_status := ''closed'', qu_nextTicketSeq := 1, qu_sessionOpenedAt := None, qu_sessionClosesAt := None\<rparr>)"
  from assms have checks: "stop_checks org i u force ack s = Inr ()" and run: "set_queue_status org i f s = (Inr q, s')"
    by (auto simp: closeQueue_def svc_bind_def svc_read_def svc_lift_def svc_throw_def svc_return_def f_def split: sum.splits)
  obtain q0 where "q = f q0" using set_queue_status_run(1) [OF run] by (elim exE conjE)
  then have "qu_status q = ''closed''" "qu_nextTicketSeq q = 1" by (simp_all add: f_def)
  moreover have "filter (\<lambda>x. qu_id x \<noteq> i) (update_rows (\<lambda>x. qu_id x = i) f rows) = filter (\<lambda>x. qu_id x \<noteq> i) rows" for rows
    by (induction rows) (auto simp: update_rows_def f_def)
  ultimately show ?thesis using stop_checks_pass(2,3) [OF checks] set_queue_status_run(2,3) [OF run] by simp
qed

text \<open>A lobby with two customers waiting, and its owner.\<close>

definition owner_role :: role_row where
  "owner_role = \<lparr>ro_id = ''r1'', ro_orgId = ''o1'', ro_name = role_name Owner, ro_isSystemRole = True, ro_permissions = []\<rparr>"

definition owned_lobby :: qdb where
  "owned_lobby = (lobby two_waiting)\<lparr>q_roles := [owner_role],
     q_roleAssignments := [\<lparr>ra_userId = ''u1'', ra_branchId = None, ra_role = owner_role\<rparr>]\<rparr>"

lemma owned_lobby_fields:
  "q_queues owned_lobby = [demo_queue ''q1'']" "q_tickets owned_lobby = two_waiting"
  "waiting_in ''o1'' ''q1'' owned_lobby = 2"
  "getActorQueueContext ''o1'' ''u1'' owned_lobby = \<lparr>qs_isOwner = True, qs_isAdmin = False, qs_canStopEmptyQueue = False\<rparr>"
  by (simp_all add: owned_lobby_def owner_role_def lobby_def waiting_in_def count_rows_def two_waiting_def demo_ticket_def
      getActorQueueContext_def assignments_of_def stops_empty_def Let_def role_name_def)

theorem stopping_a_queue_witness:
  "\<exists>q s'. closeQueue ''o1'' ''q1'' ''u1'' True True owned_lobby = (Inr q, s') \<and>
     0 < waiting_in ''o1'' ''q1'' owned_lobby \<and> q_tickets s' = two_waiting"
proof -
  have q: "find_queue ''o1'' ''q1'' owned_lobby = Some (demo_queue ''q1'')"
    by (simp add: find_queue_def owned_lobby_fields) (simp add: demo_queue_def)
  have id: "qu_id (demo_queue ''q1'') = ''q1''" by (simp add: demo_queue_def)
  have "stop_checks ''o1'' ''q1'' ''u1'' True True owned_lobby = Inr ()"
    by (simp add: stop_checks_def err_bind_def getQueueById_def q owned_lobby_fields canStopQueue_def)
  then have "\<exists>q s'. closeQueue ''o1'' ''q1'' ''u1'' True True owned_lobby = (Inr q, s')"
    by (simp add: closeQueue_def svc_bind_def svc_read_def svc_lift_def svc_return_def set_queue_status_def with_tenant_def
        tx_update_one_def publish_queue_def q_log_def svc_modify_def owned_lobby_fields id)
  then obtain q s' where run: "closeQueue ''o1'' ''q1'' ''u1'' True True owned_lobby = (Inr q, s')" by (elim exE)
  from stopping_a_queue [OF run] have "q_tickets s' = two_waiting" by (simp add: owned_lobby_fields)
  with run show ?thesis by (intro exI conjI) (simp_all add: owned_lobby_fields)
qed

section \<open>What the kiosk shows\<close>

text \<open>
  Every queue the kiosk shows is an open queue of the branch that its customers may enter: it is no pickup
  queue and no queue of a later step of an active flow; and no queue is shown twice.
\<close>

theorem shown_queues_can_be_entered:
  assumes "getPublicQueues branch s = Inr qs" and "distinct (map qu_id (q_queues s))"
    and "List.find (\<lambda>b. br_id b = branch) (q_branches s) = Some b"
  shows "distinct (map qu_id qs) \<and>
    (\<forall>q\<in>set qs. q \<in> set (q_queues s) \<and> qu_branchId q = branch \<and> qu_status q = ''open'' \<and>
       (qu_orgId q = br_orgId b \<longrightarrow> assertPublicQueueEntryAllowed (br_orgId b) branch (qu_id q) s = Inr ()))"
proof -
  define steps where "steps = loadActiveFlowStepsForBranch (br_orgId b) branch s"
  from assms(1,3) have qs: "qs = filterPublicKioskQueues (kiosk_candidates branch steps s) steps (getAllFlowBoundQueueIds (br_orgId b) branch s)"
    by (simp add: getPublicQueues_def Let_def steps_def)
  have "distinct (map qu_id (kiosk_candidates branch steps s))"
    using assms(2) by (simp add: kiosk_candidates_def distinct_map_filter)
  then have "distinct (map qu_id qs)"
    unfolding qs filterPublicKioskQueues_def Let_def by (auto simp: distinct_map_filter)
  moreover have "q \<in> set (kiosk_candidates branch steps s)" if "q \<in> set qs" for q
    using that unfolding qs filterPublicKioskQueues_def by (auto simp: Let_def)
  moreover have "find_queue (br_orgId b) (qu_id q) s = Some q" if "q \<in> set (q_queues s)" "qu_orgId q = br_orgId b" for q
  proof -
    have "List.find (\<lambda>x. qu_id x = qu_id q \<and> qu_orgId x = br_orgId b) rows = Some q"
      if "distinct (map qu_id rows)" "q \<in> set rows" for rows
      using that \<open>qu_orgId q = br_orgId b\<close> by (induction rows) (auto simp: image_iff)
    then show ?thesis using assms(2) that by (simp add: find_queue_def conj_commute)
  qed
  ultimately show ?thesis
    by (auto simp: kiosk_candidates_def assertPublicQueueEntryAllowed_def getNonEntryQueueIdsForBranch_def steps_def)
qed

lemma kiosk_shows: "getPublicQueues ''b1'' kiosk = Inr [demo_queue ''q1'']"
  by (simp add: getPublicQueues_def kiosk_def lobby_def demo_qdb_def) code_simp

theorem shown_queues_can_be_entered_witness:
  "getPublicQueues ''b1'' kiosk = Inr [demo_queue ''q1''] \<and> map qu_id (q_queues kiosk) = [''q1'', ''q2''] \<and>
   assertPublicQueueEntryAllowed ''o1'' ''b1'' ''q1'' kiosk = Inr ()"
proof -
  have b: "List.find (\<lambda>b. br_id b = ''b1'') (q_branches kiosk) = Some (demo_branch ''UTC'')"
    by (simp add: kiosk_def lobby_def demo_qdb_def) (simp add: demo_branch_def)
  have ids: "map qu_id (q_queues kiosk) = [''q1'', ''q2'']" by (simp add: kiosk_def demo_queue_def)
  then have "distinct (map qu_id (q_queues kiosk))" by simp
  from shown_queues_can_be_entered [OF kiosk_shows this b] show ?thesis
    by (simp add: kiosk_shows ids) (simp add: demo_queue_def demo_branch_def)
qed

end
