(* ===== verification/FlowLinkFacts.thy ===== *)
theory FlowLinkFacts
  imports FlowFacts
begin

text \<open>
  The links between queues and flows: a queue of an active flow is linked to it, and so to no other. The
  invariant looks at the keys, the branch and the link of each queue only.
\<close>

section \<open>The view of a queue\<close>

type_synonym queue_view = "uuid \<times> uuid \<times> uuid \<times> uuid option"

definition view_of :: "queue_row \<Rightarrow> queue_view" where
  "view_of q = (qu_id q, qu_orgId q, qu_branchId q, qu_flowTemplateId q)"

definition views :: "qdb \<Rightarrow> queue_view list" where
  "views s = map view_of (q_queues s)"

text \<open>A step belongs to a flow, its queue to the branch of the flow; an active flow has the link of the queue.\<close>

definition linked_right :: "qdb \<Rightarrow> flow_step_row \<Rightarrow> bool" where
  "linked_right s f \<longleftrightarrow> (\<exists>t\<in>set (q_flowTemplates s). fl_id t = fs_templateId f \<and> fl_orgId t = fs_orgId f \<and>
     (\<forall>j. fs_queueId f = Some j \<longrightarrow> (\<exists>l. (j, fl_orgId t, fl_branchId t, l) \<in> set (views s) \<and>
       (fl_isActive t \<longrightarrow> l = Some (fl_id t)))))"

definition flow_keys :: "qdb \<Rightarrow> bool" where
  "flow_keys s \<longleftrightarrow> distinct (map fst (views s)) \<and> [] \<notin> fst ` set (views s) \<and>
     distinct (map fl_id (q_flowTemplates s)) \<and> [] \<notin> fl_id ` set (q_flowTemplates s)"

definition flows_ok :: "qdb \<Rightarrow> bool" where
  "flows_ok s \<longleftrightarrow> flow_keys s \<and> list_all (linked_right s) (q_flowSteps s)"

definition same_flows :: "qdb \<Rightarrow> qdb \<Rightarrow> bool" where
  "same_flows s t \<longleftrightarrow> views t = views s \<and> q_flowTemplates t = q_flowTemplates s \<and> q_flowSteps t = q_flowSteps s"

lemma same_flows_refl [simp]: "same_flows s s" by (simp add: same_flows_def)

lemma linked_right_same: "same_flows s t \<Longrightarrow> linked_right t = linked_right s"
  by (rule ext) (simp add: same_flows_def linked_right_def)

lemma flows_ok_same: "same_flows s t \<Longrightarrow> flows_ok t \<longleftrightarrow> flows_ok s"
  by (simp add: flows_ok_def linked_right_same) (simp add: flow_keys_def same_flows_def)

lemma flows_ok_blinds [pres_intros]:
  "blind q_tickets_update flows_ok" "blind q_limitsCache_update flows_ok" "blind q_effects_update flows_ok"
  unfolding blind_def by (intro allI impI; subst flows_ok_same; simp add: same_flows_def views_def)+

lemma same_flows_blinds [pres_intros]:
  "blind q_tickets_update (same_flows s)" "blind q_effects_update (same_flows s)"
  by (simp_all add: blind_def same_flows_def views_def)

text \<open>Writes that leave the view of every queue alone.\<close>

lemma views_rows:
  assumes "\<And>q. view_of (f q) = view_of q" shows "views (q_queues_update (update_rows P f) s) = views s"
  by (simp add: views_def update_rows_def assms)

lemma same_flows_update_one:
  assumes "\<And>q. view_of (f q) = view_of q"
  shows "preserves_tx (same_flows s) (tx_update_one q_queues q_queues_update P f)"
  by (rule preserves_txI) (auto simp: tx_update_one_def same_flows_def views_rows [of f, OF assms] split: option.splits)

lemma flows_ok_update_one:
  assumes "\<And>q. view_of (f q) = view_of q"
  shows "preserves_tx flows_ok (tx_update_one q_queues q_queues_update P f)"
proof (rule preserves_txI)
  fix s a t assume "flows_ok s" "tx_update_one q_queues q_queues_update P f s = Inr (a, t)"
  with same_flows_update_one [of f s P, OF assms] show "flows_ok t"
    by (auto dest!: preserves_txD simp: flows_ok_same)
qed

lemma flows_set_status:
  assumes "\<And>q. view_of (f q) = view_of q" shows "preserves flows_ok (set_queue_status org i f)"
  unfolding set_queue_status_def publish_queue_def by (intro pres_intros flows_ok_update_one assms)

lemma flows_state [pres_intros]:
  "preserves flows_ok (openQueue e org i)" "preserves flows_ok (pauseQueue org i)"
  "preserves flows_ok (closeQueue org i u force ack)"
  unfolding openQueue_def pauseQueue_def closeQueue_def by (intro pres_intros flows_set_status; simp add: view_of_def)+

lemma sync_same: "preserves_tx (same_flows s) (syncFlowQueuesFromSteps org fs)"
  unfolding syncFlowQueuesFromSteps_def
  by (intro preserves_tx_foreach preserves_tx_bind same_flows_update_one preserves_tx_return)
    (simp add: sync_queue_def view_of_def)

lemma synced: "syncFlowQueuesFromSteps org fs s = Inr (u, t) \<Longrightarrow> same_flows s t"
  by (rule preserves_txD [OF sync_same]) simp_all

section \<open>Links that are written\<close>

definition link_view :: "uuid \<Rightarrow> uuid \<Rightarrow> uuid list \<Rightarrow> queue_view \<Rightarrow> queue_view" where
  "link_view org i ids v = (case v of (j, o1, b, l) \<Rightarrow> (j, o1, b, if o1 = org \<and> j \<in> set ids then Some i else l))"

definition cut_view :: "uuid \<Rightarrow> uuid \<Rightarrow> uuid \<Rightarrow> queue_view \<Rightarrow> queue_view" where
  "cut_view org branch i v = (case v of (j, o1, b, l) \<Rightarrow> (j, o1, b, if o1 = org \<and> b = branch \<and> l = Some i then None else l))"

lemma views_linked:
  "views (q_queues_update (update_rows (\<lambda>q. qu_orgId q = org \<and> qu_id q \<in> set ids) (\<lambda>q. q\<lparr>qu_flowTemplateId := Some i\<rparr>)) s) =
   map (link_view org i ids) (views s)"
  by (auto simp: views_def update_rows_def view_of_def link_view_def)

lemma views_cut:
  "views (q_queues_update (update_rows (of_flow org branch i) (\<lambda>q. q\<lparr>qu_flowTemplateId := None\<rparr>)) s) =
   map (cut_view org branch i) (views s)"
  by (auto simp: views_def update_rows_def view_of_def cut_view_def of_flow_def)

lemma fst_views [simp]: "fst (link_view org i ids v) = fst v" "fst (cut_view org branch i v) = fst v"
  by (auto simp: link_view_def cut_view_def split: prod.splits)

lemma views_keys [simp]:
  "map fst (map (link_view org i ids) vs) = map fst vs" "map fst (map (cut_view org branch i) vs) = map fst vs"
  by simp_all

text \<open>What linking and unlinking do to the view.\<close>

definition flows_to :: "qdb \<Rightarrow> qdb \<Rightarrow> queue_view list \<Rightarrow> bool" where
  "flows_to s t vs \<longleftrightarrow> views t = vs \<and> q_flowTemplates t = q_flowTemplates s \<and> q_flowSteps t = q_flowSteps s"

lemma link_run: "link_queues org i ids s = Inr (u, t) \<Longrightarrow> flows_to s t (map (link_view org i ids) (views s))"
  unfolding link_queues_def tx_modify_def flows_to_def by (elim Inr_inject [THEN Pair_inject]) (auto simp only: views_linked, simp_all)

lemma cut_run: "unlink_queues (of_flow org b i) s = Inr (u, t) \<Longrightarrow> flows_to s t (map (cut_view org b i) (views s))"
  unfolding unlink_queues_def tx_modify_def flows_to_def by (elim Inr_inject [THEN Pair_inject]) (auto simp only: views_cut, simp_all)

text \<open>A step of another flow stays linked when the links of active flows stay.\<close>

lemma others_stay:
  assumes "linked_right s f" and "fs_templateId f \<noteq> i"
    and "\<And>t. t \<in> set (q_flowTemplates s) \<Longrightarrow> fl_id t \<noteq> i \<Longrightarrow> t \<in> set (q_flowTemplates s')"
    and "\<And>j o1 b l. (j, o1, b, l) \<in> set (views s) \<Longrightarrow> \<exists>l'. (j, o1, b, l') \<in> set (views s')"
    and "\<And>t j. t \<in> set (q_flowTemplates s) \<Longrightarrow> fl_isActive t \<Longrightarrow> fl_id t = fs_templateId f \<Longrightarrow> fs_queueId f = Some j \<Longrightarrow>
      (j, fl_orgId t, fl_branchId t, Some (fl_id t)) \<in> set (views s) \<Longrightarrow>
      (j, fl_orgId t, fl_branchId t, Some (fl_id t)) \<in> set (views s')"
  shows "linked_right s' f"
proof -
  from assms(1) obtain t where t: "t \<in> set (q_flowTemplates s)" "fl_id t = fs_templateId f" "fl_orgId t = fs_orgId f"
    and q: "\<And>j. fs_queueId f = Some j \<Longrightarrow> \<exists>l. (j, fl_orgId t, fl_branchId t, l) \<in> set (views s) \<and> (fl_isActive t \<longrightarrow> l = Some (fl_id t))"
    by (auto simp: linked_right_def)
  have "\<exists>l. (j, fl_orgId t, fl_branchId t, l) \<in> set (views s') \<and> (fl_isActive t \<longrightarrow> l = Some (fl_id t))" if "fs_queueId f = Some j" for j
    using q [OF that] assms(4) assms(5) [OF t(1) _ t(2) that] by (cases "fl_isActive t") blast+
  then show ?thesis using t assms(2,3) unfolding linked_right_def by auto
qed

section \<open>Steps that are written\<close>

lemma find_queue_view: "find_queue org j s = Some q \<Longrightarrow> (j, org, qu_branchId q, qu_flowTemplateId q) \<in> set (views s)"
  by (force simp: find_queue_def find_Some_iff views_def view_of_def set_conv_nth image_iff)

lemma all_fit_iff: "all_fit f xs = Inr () \<longleftrightarrow> (\<forall>x\<in>set xs. f x = Inr ())"
  by (induction xs) (auto simp: err_bind_def split: sum.splits)

lemma scope_queues:
  assumes "assertFlowStepQueueScope org branch ns allowed s = Inr ()" and "f \<in> set ns"
  shows "\<exists>l. (fi_queueId f, org, branch, l) \<in> set (views s)"
proof -
  from assms have "step_queue_fits org branch s f = Inr ()"
    by (auto simp: assertFlowStepQueueScope_def Let_def err_bind_def all_fit_iff split: if_splits sum.splits)
  then show ?thesis by (auto simp: step_queue_fits_def split: option.splits if_splits dest!: find_queue_view)
qed

lemma scope_free:
  assumes "assertFlowStepQueueScope org branch ns allowed s = Inr ()"
    and "(j, org, b, Some x) \<in> set (views s)" "j \<in> set (map fi_queueId ns)" "x \<noteq> []"
  shows "allowed = Some x"
proof -
  from assms(2) obtain q where q: "q \<in> set (q_queues s)" "qu_id q = j" "qu_orgId q = org" "qu_flowTemplateId q = Some x"
    by (auto simp: views_def view_of_def)
  from assms(1) have "assertQueuesAvailableForFlowTemplate org (map fi_queueId ns) allowed s = Inr ()"
    by (auto simp: assertFlowStepQueueScope_def Let_def err_bind_def split: if_splits sum.splits)
  then have "List.find (\<lambda>q. truthy_str (qu_flowTemplateId q) \<and> qu_flowTemplateId q \<noteq> allowed)
      (filter (\<lambda>q. qu_orgId q = org \<and> qu_id q \<in> set (map fi_queueId ns)) (q_queues s)) = None"
    by (auto simp: assertQueuesAvailableForFlowTemplate_def split: option.splits)
  then have "\<not> (truthy_str (qu_flowTemplateId q) \<and> qu_flowTemplateId q \<noteq> allowed)"
    using q(1-3) assms(3) unfolding find_None_iff by simp
  moreover have "truthy_str (qu_flowTemplateId q)" using q(4) assms(4) by (simp add: truthy_str_def)
  ultimately show ?thesis using q(4) by simp
qed

text \<open>Every queue is still there, with the new link, or its old one if it was not linked to this flow.\<close>

lemma linked_views:
  assumes new: "views s' = map (link_view org i ids) vs" "vs = views s \<or> vs = map (cut_view org branch i) (views s)"
    and v: "(j, o1, b, l) \<in> set (views s)"
  shows "\<exists>l'. (j, o1, b, l') \<in> set (views s') \<and> (if o1 = org \<and> j \<in> set ids then l' = Some i else l \<noteq> Some i \<longrightarrow> l' = l)"
proof -
  have "\<exists>l'. (j, o1, b, l') \<in> set vs \<and> (l \<noteq> Some i \<longrightarrow> l' = l)"
  proof (cases "vs = views s")
    case False
    then have "cut_view org branch i (j, o1, b, l) \<in> set vs" using new(2) v by auto
    then show ?thesis by (auto simp: cut_view_def split: if_splits)
  qed (use v in blast)
  then obtain l' where l: "(j, o1, b, l') \<in> set vs" "l \<noteq> Some i \<longrightarrow> l' = l" by (elim exE conjE)
  then have "link_view org i ids (j, o1, b, l') \<in> set (views s')" unfolding new(1) by simp
  then show ?thesis using l(2) by (auto simp: link_view_def split: if_splits)
qed

text \<open>The steps of a flow are replaced: its new queues are linked to it, the queues of other active flows keep theirs.\<close>

lemma relinked_steps:
  assumes keys: "flow_keys s" and old: "list_all (linked_right s) fs" "list_all (\<lambda>f. fs_templateId f \<noteq> i) fs"
    and scope: "assertFlowStepQueueScope org branch ns allowed s = Inr ()" "allowed = None \<or> allowed = Some i"
    and t: "t \<in> set (q_flowTemplates s')" "fl_id t = i" "fl_orgId t = org" "fl_branchId t = branch"
    and ts: "\<And>t. t \<in> set (q_flowTemplates s) \<Longrightarrow> fl_id t \<noteq> i \<Longrightarrow> t \<in> set (q_flowTemplates s')"
    and vs: "views s' = map (link_view org i (map fi_queueId ns)) vs" "vs = views s \<or> vs = map (cut_view org branch i) (views s)"
  shows "list_all (linked_right s') (fs @ map (step_row org i) ns)"
proof -
  note linked = linked_views [OF vs]
  have "linked_right s' f" if "f \<in> set fs" for f
  proof (rule others_stay [of s f i])
    show "linked_right s f" "fs_templateId f \<noteq> i" using old that by (auto simp: list_all_iff)
    fix x j assume x: "x \<in> set (q_flowTemplates s)" "fl_id x = fs_templateId f"
      and q: "(j, fl_orgId x, fl_branchId x, Some (fl_id x)) \<in> set (views s)"
    have "fl_id x \<noteq> i" "fl_id x \<noteq> []" using x keys \<open>fs_templateId f \<noteq> i\<close> by (force simp: flow_keys_def)+
    then have "\<not> (fl_orgId x = org \<and> j \<in> fi_queueId ` set ns)" using scope_free [OF scope(1), of j _ "fl_id x"] q scope(2) by auto
    with linked [OF q] \<open>fl_id x \<noteq> i\<close> show "(j, fl_orgId x, fl_branchId x, Some (fl_id x)) \<in> set (views s')" by auto
  qed (use ts linked in blast)+
  moreover have "linked_right s' (step_row org i f)" if f: "f \<in> set ns" for f
  proof -
    obtain l where "(fi_queueId f, org, branch, l) \<in> set (views s)" using scope_queues [OF scope(1) f] by (rule exE)
    from linked [OF this] f have "(fi_queueId f, org, branch, Some i) \<in> set (views s')" by auto
    then show ?thesis using t unfolding linked_right_def by (intro bexI [of _ t]) (auto simp: step_row_def)
  qed
  ultimately show ?thesis by (auto simp: list_all_iff)
qed

lemma steps_inserted: "insert_steps org i fs s = Inr (u, t) \<Longrightarrow> t = q_flowSteps_update (\<lambda>xs. xs @ map (step_row org i) fs) s"
  by (auto simp: insert_steps_def tx_read_def tx_modify_def tx_throw_def split: if_splits)

lemma template_inserted: "insert_template x s = Inr (u, t) \<Longrightarrow>
   fl_id x \<notin> fl_id ` set (q_flowTemplates s) \<and> t = q_flowTemplates_update (\<lambda>ts. ts @ [x]) s"
  by (auto simp: insert_template_def tx_read_def tx_modify_def tx_throw_def split: if_splits)

lemma step_templates:
  assumes "flows_ok s" and "f \<in> set (q_flowSteps s)"
  shows "\<exists>t\<in>set (q_flowTemplates s). fl_id t = fs_templateId f \<and> fl_orgId t = fs_orgId f"
  using assms by (auto simp: flows_ok_def list_all_iff linked_right_def)

lemma flows_linked:
  assumes "qe_uuid e ''branch_flow_templates'' \<noteq> []"
  shows "preserves_tx flows_ok (createLinkedFlowTemplate e org branch name ns False)"
proof (rule preserves_txI)
  fix s a s' assume ok: "flows_ok s" and run: "createLinkedFlowTemplate e org branch name ns False s = Inr (a, s')"
  define t where "t = \<lparr>fl_id = qe_uuid e ''branch_flow_templates'', fl_orgId = org, fl_branchId = branch,
    fl_name = js_trim name, fl_isActive = False\<rparr>"
  from run obtain s1 s2 s3 where scope: "assertFlowStepQueueScope org branch ns None s = Inr ()"
    and s1: "insert_template t s = Inr ((), s1)" and s2: "insert_steps org (fl_id t) ns s1 = Inr ((), s2)"
    and s3: "link_queues org (fl_id t) (map fi_queueId ns) s2 = Inr ((), s3)"
    and s4: "syncFlowQueuesFromSteps org ns s3 = Inr ((), s')"
    unfolding createLinkedFlowTemplate_def Let_def t_def [symmetric] tx_read_def
    by (auto simp: tx_bind_Inr_iff tx_lift_Inr_iff tx_return_def)
  note new = template_inserted [OF s1]
  have s3': "s3 = q_queues_update (update_rows (\<lambda>q. qu_orgId q = org \<and> qu_id q \<in> set (map fi_queueId ns))
      (\<lambda>q. q\<lparr>qu_flowTemplateId := Some (fl_id t)\<rparr>)) s2" using s3 by (simp add: link_queues_def tx_modify_def)
  have views: "views s3 = map (link_view org (fl_id t) (map fi_queueId ns)) (views s)"
    unfolding s3' views_linked using new steps_inserted [OF s2] by (simp add: views_def)
  have tables: "q_flowTemplates s3 = q_flowTemplates s @ [t]" "q_flowSteps s3 = q_flowSteps s @ map (step_row org (fl_id t)) ns"
    using new steps_inserted [OF s2] s3' by simp_all
  have fresh: "list_all (\<lambda>f. fs_templateId f \<noteq> fl_id t) (q_flowSteps s)"
    unfolding list_all_iff
  proof (intro ballI notI)
    fix f assume "f \<in> set (q_flowSteps s)" "fs_templateId f = fl_id t"
    with step_templates [OF ok] new show False by (metis imageI)
  qed
  have "list_all (linked_right s3) (q_flowSteps s3)" unfolding tables(2)
    by (rule relinked_steps [OF _ _ fresh scope, where t = t and vs = "views s"])
      (use ok in \<open>simp_all add: flows_ok_def tables(1) views t_def\<close>)
  moreover have "flow_keys s3" using ok new assms
    by (simp add: flows_ok_def flow_keys_def views tables(1) image_image) (simp add: t_def comp_def)
  ultimately show "flows_ok s'" using flows_ok_same [OF synced [OF s4]] by (simp add: flows_ok_def)
qed

lemma flows_create_flow:
  assumes "qe_uuid e ''branch_flow_templates'' \<noteq> []"
  shows "preserves flows_ok (createFlow e org u branch name fs)"
  unfolding createFlow_def by (intro pres_intros flows_linked assms)

section \<open>Changes of a flow\<close>

lemma read_lift_at:
  assumes "\<And>s a. I s \<Longrightarrow> r s = Inr a \<Longrightarrow> I (snd (f a s))"
  shows "preserves I (svc_bind (svc_read (\<lambda>s. svc_lift (r s))) f)"
proof (rule preservesI)
  fix s assume "I s"
  then show "I (snd (svc_bind (svc_read (\<lambda>s. svc_lift (r s))) f s))" using assms [of s]
    by (cases "r s") (simp_all add: svc_bind_def svc_read_def svc_lift_def svc_throw_def svc_return_def)
qed

lemma tenant_at:
  assumes "I s" and "\<And>a t. m s = Inr (a, t) \<Longrightarrow> I t" and "\<And>a. preserves I (f a)"
  shows "I (snd (svc_bind (with_tenant m) f s))"
  using assms by (auto simp: svc_bind_def with_tenant_def preservesD split: sum.splits)

lemma found_template: "find_template org i s = Inr t \<Longrightarrow> t \<in> set (q_flowTemplates s) \<and> fl_id t = i \<and> fl_orgId t = org"
  by (auto simp: find_template_def find_Some_iff split: option.splits)

lemma managed_found: "managed_template org u i s = Inr t \<Longrightarrow> t \<in> set (q_flowTemplates s) \<and> fl_id t = i \<and> fl_orgId t = org"
  by (auto simp: managed_template_def err_bind_def split: sum.splits dest: found_template)

text \<open>A flow is written without becoming active.\<close>

lemma template_written: "write_template i f s = Inr (a, t) \<Longrightarrow> t = q_flowTemplates_update (update_rows (\<lambda>x. fl_id x = i) f) s"
  by (auto simp: write_template_def tx_update_one_def split: option.splits)

lemma templates_kept:
  assumes "\<And>x. fl_id (f x) = fl_id x" "\<And>x. fl_orgId (f x) = fl_orgId x" "\<And>x. fl_branchId (f x) = fl_branchId x"
    "\<And>x. fl_isActive (f x) \<Longrightarrow> fl_isActive x" and "flows_ok s"
  shows "flows_ok (q_flowTemplates_update (update_rows P f) s)"
proof -
  have "linked_right (q_flowTemplates_update (update_rows P f) s) g" if "linked_right s g" for g
  proof -
    from that obtain t where t: "t \<in> set (q_flowTemplates s)" "fl_id t = fs_templateId g" "fl_orgId t = fs_orgId g"
      "\<And>j. fs_queueId g = Some j \<Longrightarrow> \<exists>l. (j, fl_orgId t, fl_branchId t, l) \<in> set (views s) \<and> (fl_isActive t \<longrightarrow> l = Some (fl_id t))"
      by (auto simp: linked_right_def)
    then show ?thesis unfolding linked_right_def
      by (intro bexI [of _ "if P t then f t else t"]) (fastforce simp: assms(1-3) views_def update_rows_def dest: assms(4))+
  qed
  moreover have "map fl_id (update_rows P f rows) = map fl_id rows" for rows by (simp add: update_rows_def assms(1))
  ultimately show ?thesis using assms(5)
    by (simp add: flows_ok_def flow_keys_def list_all_iff views_def flip: set_map)
qed

text \<open>The steps of a flow, told apart by its key.\<close>

lemma steps_removed:
  assumes "flows_ok s" and "t \<in> set (q_flowTemplates s)"
  shows "filter (\<lambda>f. \<not> (fs_orgId f = fl_orgId t \<and> fs_templateId f = fl_id t)) (q_flowSteps s) =
    filter (\<lambda>f. fs_templateId f \<noteq> fl_id t) (q_flowSteps s)"
proof (rule filter_cong [OF refl])
  fix f assume "f \<in> set (q_flowSteps s)"
  then obtain x where "x \<in> set (q_flowTemplates s)" "fl_id x = fs_templateId f" "fl_orgId x = fs_orgId f"
    using step_templates [OF assms(1)] by blast
  moreover have "inj_on fl_id (set (q_flowTemplates s))" using assms(1) by (simp add: flows_ok_def flow_keys_def distinct_map)
  ultimately show "(\<not> (fs_orgId f = fl_orgId t \<and> fs_templateId f = fl_id t)) = (fs_templateId f \<noteq> fl_id t)"
    using assms(2) by (metis inj_onD)
qed

lemma renamed [simp]:
  "fl_id (rename_template name x) = fl_id x" "fl_orgId (rename_template name x) = fl_orgId x"
  "fl_branchId (rename_template name x) = fl_branchId x" "fl_isActive (rename_template name x) = fl_isActive x"
  by (simp_all add: rename_template_def split: option.splits)

lemma flows_update_tx:
  assumes ok: "flows_ok s" and t: "t \<in> set (q_flowTemplates s)" and run: "update_flow_tx (fl_orgId t) t name fs s = Inr (a, s')"
  shows "flows_ok s'"
proof (cases fs)
  case None
  with run have "write_template (fl_id t) (rename_template name) s = Inr (a, s')" by (simp add: update_flow_tx_def tx_read_def)
  then have "s' = q_flowTemplates_update (update_rows (\<lambda>x. fl_id x = fl_id t) (rename_template name)) s" by (rule template_written)
  then show ?thesis by (elim ssubst, intro templates_kept ok) simp_all
next
  case (Some ns)
  define i where "i = fl_id t"
  define s1 where "s1 = q_flowSteps_update (filter (\<lambda>f. \<not> (fs_orgId f = fl_orgId t \<and> fs_templateId f = i))) s"
  from run Some obtain s2 s3 s4 s5 where scope: "assertFlowStepQueueScope (fl_orgId t) (fl_branchId t) ns (Some i) s = Inr ()"
    and s2: "write_template i (rename_template name) s1 = Inr (a, s2)" and s3: "insert_steps (fl_orgId t) i ns s2 = Inr ((), s3)"
    and s4: "unlink_queues (of_flow (fl_orgId t) (fl_branchId t) i) s3 = Inr ((), s4)"
    and s5: "link_queues (fl_orgId t) i (map fi_queueId ns) s4 = Inr ((), s5)"
    and s6: "syncFlowQueuesFromSteps (fl_orgId t) ns s5 = Inr ((), s')"
    unfolding update_flow_tx_def tx_read_def i_def s1_def
    by (auto simp: tx_bind_Inr_iff tx_lift_Inr_iff tx_return_def tx_modify_def)
  have views: "views s5 = map (link_view (fl_orgId t) i (map fi_queueId ns)) (map (cut_view (fl_orgId t) (fl_branchId t) i) (views s))"
    using link_run [OF s5] cut_run [OF s4] steps_inserted [OF s3] template_written [OF s2]
    by (simp add: flows_to_def s1_def del: map_map) (simp add: views_def)
  have steps: "q_flowSteps s5 = filter (\<lambda>f. fs_templateId f \<noteq> i) (q_flowSteps s) @ map (step_row (fl_orgId t) i) ns"
    using link_run [OF s5] cut_run [OF s4] steps_inserted [OF s3] template_written [OF s2] steps_removed [OF ok t]
    by (simp add: flows_to_def s1_def i_def)
  have ts: "q_flowTemplates s5 = update_rows (\<lambda>x. fl_id x = i) (rename_template name) (q_flowTemplates s)"
    using link_run [OF s5] cut_run [OF s4] steps_inserted [OF s3] template_written [OF s2] by (simp add: flows_to_def s1_def)
  have "list_all (linked_right s5) (q_flowSteps s5)" unfolding steps
  proof (rule relinked_steps [OF _ _ _ scope _ _ _ _ _ _ views])
    show "rename_template name t \<in> set (q_flowTemplates s5)" using t by (force simp: ts update_rows_def i_def)
    show "flow_keys s" "list_all (linked_right s) (filter (\<lambda>f. fs_templateId f \<noteq> i) (q_flowSteps s))"
      using ok by (auto simp: flows_ok_def list_all_iff)
  qed (auto simp: i_def ts update_rows_def list_all_iff)
  moreover have "map fl_id (update_rows P (rename_template name) rows) = map fl_id rows" for P rows
    by (simp add: update_rows_def)
  then have "flow_keys s5" using ok by (simp add: flows_ok_def flow_keys_def ts views comp_def flip: set_map)
  ultimately show ?thesis using flows_ok_same [OF synced [OF s6]] by (simp add: flows_ok_def)
qed

section \<open>Activation\<close>

lemma normalized_queues: "normalize_all fs = Inr ns \<Longrightarrow> map fi_queueId ns = map (\<lambda>f. the (fs_queueId f)) fs"
  by (induction fs arbitrary: ns) (auto simp: err_bind_def normalize_stored_def stored_step_def split: sum.splits)

lemma relink_run:
  assumes "relink_steps org t fs s = Inr (u, s')"
  shows "\<exists>vs. views s' = map (link_view org (fl_id t) (map (\<lambda>f. the (fs_queueId f)) fs)) vs \<and>
      (vs = views s \<or> vs = map (cut_view org (fl_branchId t) (fl_id t)) (views s))"
    and "q_flowTemplates s' = q_flowTemplates s" "q_flowSteps s' = q_flowSteps s"
    and "list_all (\<lambda>f. fs_queueId f \<noteq> None) fs"
proof -
  have "(\<exists>vs. views s' = map (link_view org (fl_id t) (map (\<lambda>f. the (fs_queueId f)) fs)) vs \<and>
      (vs = views s \<or> vs = map (cut_view org (fl_branchId t) (fl_id t)) (views s))) \<and>
    q_flowTemplates s' = q_flowTemplates s \<and> q_flowSteps s' = q_flowSteps s \<and> list_all (\<lambda>f. fs_queueId f \<noteq> None) fs"
  proof (cases "fs = []")
    case True
    have "map (link_view org (fl_id t) []) (views s) = views s" by (rule map_idI) (simp add: link_view_def split: prod.splits)
    with True assms show ?thesis by (auto simp: relink_steps_def tx_return_def intro!: exI [of _ "views s"])
  next
    case False
    with assms obtain ns s1 s2 where ns: "normalize_all fs = Inr ns" and all: "list_all (\<lambda>f. fs_queueId f \<noteq> None) fs"
      and s1: "unlink_queues (of_flow org (fl_branchId t) (fl_id t)) s = Inr ((), s1)"
      and s2: "link_queues org (fl_id t) (map fi_queueId ns) s1 = Inr ((), s2)"
      and s3: "syncFlowQueuesFromSteps org ns s2 = Inr (u, s')"
      by (auto simp: relink_steps_def tx_bind_Inr_iff tx_lift_Inr_iff tx_throw_def list_ex_iff list_all_iff split: if_splits)
    from link_run [OF s2] cut_run [OF s1] have "views s2 = map (link_view org (fl_id t) (map fi_queueId ns)) (map (cut_view org (fl_branchId t) (fl_id t)) (views s))"
      "q_flowTemplates s2 = q_flowTemplates s" "q_flowSteps s2 = q_flowSteps s"
      by (simp_all add: flows_to_def)
    with synced [OF s3] normalized_queues [OF ns] all show ?thesis unfolding same_flows_def
      by (intro conjI exI [of _ "map (cut_view org (fl_branchId t) (fl_id t)) (views s)"]) (simp_all del: map_map)
  qed
  then show "\<exists>vs. views s' = map (link_view org (fl_id t) (map (\<lambda>f. the (fs_queueId f)) fs)) vs \<and>
      (vs = views s \<or> vs = map (cut_view org (fl_branchId t) (fl_id t)) (views s))"
    "q_flowTemplates s' = q_flowTemplates s" "q_flowSteps s' = q_flowSteps s" "list_all (\<lambda>f. fs_queueId f \<noteq> None) fs" by blast+
qed

lemma activated_run:
  assumes "activate_tx org t s = Inr (a, s')"
  obtains s1 where "relink_steps org t (steps_of org (fl_id t) s) s = Inr ((), s1)"
    "s' = q_flowTemplates_update (update_rows (\<lambda>x. fl_id x = fl_id t) (\<lambda>x. x\<lparr>fl_isActive := True\<rparr>)) s1"
    "\<And>f j. f \<in> set (steps_of org (fl_id t) s) \<Longrightarrow> fs_queueId f = Some j \<Longrightarrow> j \<noteq> [] \<Longrightarrow>
       j \<notin> set (queues_in_use org (fl_branchId t) (fl_id t) s)"
  using assms unfolding activate_tx_def tx_read_def
  by (auto simp: Let_def tx_bind_Inr_iff tx_throw_def list_ex_iff split: if_splits dest!: template_written) force

lemma in_use:
  assumes "x \<in> set (q_flowTemplates s)" "fl_isActive x" "fl_id x \<noteq> i" "f \<in> set (q_flowSteps s)" "fs_templateId f = fl_id x"
    "fs_queueId f = Some j" "j \<noteq> []"
  shows "j \<in> set (queues_in_use (fl_orgId x) (fl_branchId x) i s)"
  using assms by (auto simp: queues_in_use_def map_filter_def intro!: bexI [of _ x] image_eqI [of _ _ f])

lemma step_of_flow:
  assumes "flows_ok s" and "f \<in> set (q_flowSteps s)" and "t \<in> set (q_flowTemplates s)" "fs_templateId f = fl_id t"
  shows "fs_orgId f = fl_orgId t"
    and "fs_queueId f = Some j \<Longrightarrow> \<exists>l. (j, fl_orgId t, fl_branchId t, l) \<in> set (views s)"
proof -
  obtain x where x: "x \<in> set (q_flowTemplates s)" "fl_id x = fs_templateId f" "fl_orgId x = fs_orgId f"
    and q: "\<forall>j. fs_queueId f = Some j \<longrightarrow> (\<exists>l. (j, fl_orgId x, fl_branchId x, l) \<in> set (views s) \<and>
      (fl_isActive x \<longrightarrow> l = Some (fl_id x)))"
    using assms(1,2) unfolding flows_ok_def list_all_iff linked_right_def by blast
  have "inj_on fl_id (set (q_flowTemplates s))" using assms(1) by (simp add: flows_ok_def flow_keys_def distinct_map)
  then have "x = t" using x(1,2) assms(3,4) by (auto dest: inj_onD)
  then show "fs_orgId f = fl_orgId t" "fs_queueId f = Some j \<Longrightarrow> \<exists>l. (j, fl_orgId t, fl_branchId t, l) \<in> set (views s)"
    using x(3) q by (metis, blast)
qed

lemma status_written:
  assumes ok: "flows_ok s" and t: "t \<in> set (q_flowTemplates s)"
    and ts: "q_flowTemplates s' = update_rows (\<lambda>x. fl_id x = fl_id t) (\<lambda>x. x\<lparr>fl_isActive := on\<rparr>) (q_flowTemplates s)"
    and steps: "q_flowSteps s' = q_flowSteps s" and fst_kept: "map fst (views s') = map fst (views s)"
    and seen: "\<And>j o1 b l. (j, o1, b, l) \<in> set (views s) \<Longrightarrow> \<exists>l'. (j, o1, b, l') \<in> set (views s')"
    and own: "\<And>f j. on \<Longrightarrow> f \<in> set (q_flowSteps s) \<Longrightarrow> fs_templateId f = fl_id t \<Longrightarrow> fs_queueId f = Some j \<Longrightarrow>
      (j, fl_orgId t, fl_branchId t, Some (fl_id t)) \<in> set (views s')"
    and other: "\<And>f x j. f \<in> set (q_flowSteps s) \<Longrightarrow> x \<in> set (q_flowTemplates s) \<Longrightarrow> fl_isActive x \<Longrightarrow> fl_id x \<noteq> fl_id t \<Longrightarrow>
      fl_id x = fs_templateId f \<Longrightarrow> fs_queueId f = Some j \<Longrightarrow> (j, fl_orgId x, fl_branchId x, Some (fl_id x)) \<in> set (views s) \<Longrightarrow>
      (j, fl_orgId x, fl_branchId x, Some (fl_id x)) \<in> set (views s')"
  shows "flows_ok s'"
proof -
  have "linked_right s' f" if f: "f \<in> set (q_flowSteps s)" for f
  proof (cases "fs_templateId f = fl_id t")
    case True
    let ?t = "t\<lparr>fl_isActive := on\<rparr>"
    have t': "?t \<in> set (q_flowTemplates s')" using t by (force simp: ts update_rows_def)
    have "\<exists>l. (j, fl_orgId t, fl_branchId t, l) \<in> set (views s') \<and> (on \<longrightarrow> l = Some (fl_id t))" if j: "fs_queueId f = Some j" for j
    proof (cases on)
      case False
      obtain l where "(j, fl_orgId t, fl_branchId t, l) \<in> set (views s)" using step_of_flow(2) [OF ok f t True j] by (rule exE)
      from seen [OF this] False show ?thesis by simp
    qed (use own [OF _ f True j] in simp)
    with t' True step_of_flow(1) [OF ok f t True] show ?thesis unfolding linked_right_def by (intro bexI [OF _ t']) simp
  next
    case False
    have "linked_right s f" using ok f by (simp add: flows_ok_def list_all_iff)
    then show ?thesis using False
    proof (rule others_stay)
      fix x assume "x \<in> set (q_flowTemplates s)" "fl_id x \<noteq> fl_id t"
      then show "x \<in> set (q_flowTemplates s')" by (force simp: ts update_rows_def)
    qed (use other [OF f] False seen in simp_all)
  qed
  then have "list_all (linked_right s') (q_flowSteps s')" by (simp add: steps list_all_iff)
  moreover have "map fl_id (q_flowTemplates s') = map fl_id (q_flowTemplates s)" by (simp add: ts update_rows_def)
  ultimately show ?thesis using ok fst_kept by (simp add: flows_ok_def flow_keys_def flip: set_map)
qed

text \<open>A queue of another active flow of the branch would have been in use.\<close>

lemma other_queue_free:
  assumes ok: "flows_ok s" and t: "t \<in> set (q_flowTemplates s)" and x: "x \<in> set (q_flowTemplates s)" "fl_isActive x" "fl_id x \<noteq> fl_id t"
    and f: "f \<in> set (q_flowSteps s)" "fl_id x = fs_templateId f" "fs_queueId f = Some j"
    and q: "(j, fl_orgId x, fl_branchId x, l) \<in> set (views s)"
    and g: "g \<in> set (q_flowSteps s)" "fs_templateId g = fl_id t" "fs_queueId g = Some j"
  shows "j \<noteq> []" "j \<in> set (queues_in_use (fl_orgId t) (fl_branchId t) (fl_id t) s)"
proof -
  have keys: "inj_on fst (set (views s))" "[] \<notin> fst ` set (views s)" using ok by (simp_all add: flows_ok_def flow_keys_def distinct_map)
  obtain l' where l': "(j, fl_orgId t, fl_branchId t, l') \<in> set (views s)" using step_of_flow(2) [OF ok g(1) t g(2,3)] by (rule exE)
  have "(j, fl_orgId t, fl_branchId t, l') = (j, fl_orgId x, fl_branchId x, l)" using inj_onD [OF keys(1) _ l' q] by simp
  moreover have "j \<noteq> []" using q keys(2) by (metis fst_conv image_eqI)
  ultimately have "fl_branchId x = fl_branchId t" "fl_orgId x = fl_orgId t" "j \<noteq> []" by simp_all
  then show "j \<noteq> []" "j \<in> set (queues_in_use (fl_orgId t) (fl_branchId t) (fl_id t) s)"
    using in_use [OF x f(1) f(2) [symmetric] f(3)] by (simp_all only: simp_thms)
qed

lemma flows_activate_tx:
  assumes ok: "flows_ok s" and t: "t \<in> set (q_flowTemplates s)" and run: "activate_tx (fl_orgId t) t s = Inr (a, s')"
  shows "flows_ok s'"
proof -
  define fs where "fs = steps_of (fl_orgId t) (fl_id t) s"
  define ids where "ids = map (\<lambda>f. the (fs_queueId f)) fs"
  obtain s1 where relink: "relink_steps (fl_orgId t) t fs s = Inr ((), s1)"
    and s': "s' = q_flowTemplates_update (update_rows (\<lambda>x. fl_id x = fl_id t) (\<lambda>x. x\<lparr>fl_isActive := True\<rparr>)) s1"
    and free: "\<And>f j. f \<in> set fs \<Longrightarrow> fs_queueId f = Some j \<Longrightarrow> j \<noteq> [] \<Longrightarrow>
      j \<notin> set (queues_in_use (fl_orgId t) (fl_branchId t) (fl_id t) s)"
    using activated_run [OF run] unfolding fs_def by blast
  obtain vs where vs: "views s1 = map (link_view (fl_orgId t) (fl_id t) ids) vs"
    "vs = views s \<or> vs = map (cut_view (fl_orgId t) (fl_branchId t) (fl_id t)) (views s)"
    using relink_run(1) [OF relink] unfolding ids_def by blast
  have vs': "views s' = map (link_view (fl_orgId t) (fl_id t) ids) vs" using vs(1) by (simp add: s' views_def)
  note linked = linked_views [OF vs' vs(2)]
  have fs: "f \<in> set fs \<longleftrightarrow> f \<in> set (q_flowSteps s) \<and> fs_templateId f = fl_id t" for f
    using step_of_flow(1) [OF ok _ t] by (auto simp: fs_def steps_of_def)
  have ids: "j \<in> set ids \<longleftrightarrow> (\<exists>f\<in>set fs. fs_queueId f = Some j)" for j
    using relink_run(4) [OF relink] by (force simp: ids_def list_all_iff)
  show ?thesis
  proof (rule status_written [OF ok t])
    fix f j assume f: "f \<in> set (q_flowSteps s)" "fs_templateId f = fl_id t" "fs_queueId f = Some j"
    then have "j \<in> set ids" using ids fs by blast
    moreover obtain l where "(j, fl_orgId t, fl_branchId t, l) \<in> set (views s)" using step_of_flow(2) [OF ok f(1) t f(2,3)] by (rule exE)
    ultimately show "(j, fl_orgId t, fl_branchId t, Some (fl_id t)) \<in> set (views s')" using linked by fastforce
  next
    fix f x j assume f: "f \<in> set (q_flowSteps s)" and x: "x \<in> set (q_flowTemplates s)" "fl_isActive x" "fl_id x \<noteq> fl_id t"
      and fx: "fl_id x = fs_templateId f" "fs_queueId f = Some j" and q: "(j, fl_orgId x, fl_branchId x, Some (fl_id x)) \<in> set (views s)"
    have "j \<notin> set ids" using other_queue_free [OF ok t x f fx q] free ids fs by blast
    with linked [OF q] x(3) show "(j, fl_orgId x, fl_branchId x, Some (fl_id x)) \<in> set (views s')" by auto
  next
    fix j o1 b l assume "(j, o1, b, l) \<in> set (views s)"
    from linked [OF this] show "\<exists>l'. (j, o1, b, l') \<in> set (views s')" by blast
  next
    show "map fst (views s') = map fst (views s)" using vs' vs(2) by (auto simp del: map_map)
  qed (use relink_run(2,3) [OF relink] in \<open>simp_all add: s'\<close>)
qed

lemma flows_deactivate_tx:
  assumes ok: "flows_ok s" and t: "t \<in> set (q_flowTemplates s)"
    and run: "tx_bind (unlink_queues (of_flow (fl_orgId t) (fl_branchId t) (fl_id t))) (\<lambda>_.
      write_template (fl_id t) (\<lambda>x. x\<lparr>fl_isActive := False\<rparr>)) s = Inr (a, s')"
  shows "flows_ok s'"
proof -
  from run obtain s1 where s1: "unlink_queues (of_flow (fl_orgId t) (fl_branchId t) (fl_id t)) s = Inr ((), s1)"
    and s': "s' = q_flowTemplates_update (update_rows (\<lambda>x. fl_id x = fl_id t) (\<lambda>x. x\<lparr>fl_isActive := False\<rparr>)) s1"
    by (auto simp: tx_bind_Inr_iff dest!: template_written)
  note cut = cut_run [OF s1, unfolded flows_to_def]
  have vs: "views s' = map (cut_view (fl_orgId t) (fl_branchId t) (fl_id t)) (views s)" using cut by (simp add: s' views_def)
  have seen: "\<exists>l'. (j, o1, b, l') \<in> set (views s') \<and> (l \<noteq> Some (fl_id t) \<longrightarrow> l' = l)" if "(j, o1, b, l) \<in> set (views s)" for j o1 b l
  proof -
    have "cut_view (fl_orgId t) (fl_branchId t) (fl_id t) (j, o1, b, l) \<in> set (views s')" using that unfolding vs by simp
    then show ?thesis by (auto simp: cut_view_def split: if_splits)
  qed
  show ?thesis
  proof (rule status_written [OF ok t])
    fix f x j assume "fl_id x \<noteq> fl_id t" "(j, fl_orgId x, fl_branchId x, Some (fl_id x)) \<in> set (views s)"
    with seen [of j _ _ "Some (fl_id x)"] show "(j, fl_orgId x, fl_branchId x, Some (fl_id x)) \<in> set (views s')" by fastforce
  next
    fix j o1 b l assume "(j, o1, b, l) \<in> set (views s)"
    from seen [OF this] show "\<exists>l'. (j, o1, b, l') \<in> set (views s')" by blast
  next
    show "map fst (views s') = map fst (views s)" unfolding vs by (simp del: map_map)
  qed (use cut in \<open>simp_all add: s'\<close>)
qed

section \<open>Rows that go and come\<close>

lemma flows_okI:
  assumes "flow_keys s" and "\<And>f. f \<in> set (q_flowSteps s) \<Longrightarrow> linked_right s f" shows "flows_ok s"
  using assms by (simp add: flows_ok_def list_all_iff)

lemma flows_remove_tx:
  "preserves_tx flows_ok (tx_bind (unlink_queues (\<lambda>q. qu_flowTemplateId q = Some i)) (\<lambda>_.
     tx_bind (tx_modify (q_flowSteps_update (filter (\<lambda>f. fs_templateId f \<noteq> i)))) (\<lambda>_.
     tx_bind (tx_modify (q_tickets_update (update_rows (\<lambda>x. tk_flowTemplateId x = Some i)
       (\<lambda>x. x\<lparr>tk_flowTemplateId := None\<rparr>)))) (\<lambda>_.
     tx_modify (q_flowTemplates_update (filter (\<lambda>x. fl_id x \<noteq> i)))))))"
proof (rule preserves_txI, clarsimp simp: tx_bind_def tx_modify_def unlink_queues_def)
  fix s assume ok: "flows_ok s"
  let ?cut = "update_rows (\<lambda>q. qu_flowTemplateId q = Some i) (\<lambda>q. q\<lparr>qu_flowTemplateId := None\<rparr>)"
  let ?s = "q_flowTemplates_update (filter (\<lambda>x. fl_id x \<noteq> i)) (q_tickets_update (update_rows (\<lambda>x. tk_flowTemplateId x = Some i)
       (\<lambda>x. x\<lparr>tk_flowTemplateId := None\<rparr>)) (q_flowSteps_update (filter (\<lambda>f. fs_templateId f \<noteq> i)) (q_queues_update ?cut s)))"
  have vs: "views ?s = map (\<lambda>(j, o1, b, l). (j, o1, b, if l = Some i then None else l)) (views s)"
    by (auto simp: views_def view_of_def update_rows_def)
  show "flows_ok ?s"
  proof (rule flows_okI)
    have "map fst (views ?s) = map fst (views s)" unfolding vs by (simp add: split_def)
    then show "flow_keys ?s" using ok by (simp add: flows_ok_def flow_keys_def distinct_map_filter flip: set_map) auto
    fix f assume "f \<in> set (q_flowSteps ?s)"
    then have f: "linked_right s f" "fs_templateId f \<noteq> i" using ok by (simp_all add: flows_ok_def list_all_iff)
    have seen: "\<exists>l'. (j, o1, b, l') \<in> set (views ?s) \<and> (l \<noteq> Some i \<longrightarrow> l' = l)" if "(j, o1, b, l) \<in> set (views s)" for j o1 b l
      unfolding vs using that by (force split: if_splits)
    show "linked_right ?s f"
    proof (rule others_stay [OF f])
      fix x j assume "fl_id x = fs_templateId f" "(j, fl_orgId x, fl_branchId x, Some (fl_id x)) \<in> set (views s)"
      with seen [of j _ _ "Some (fl_id x)"] f(2) show "(j, fl_orgId x, fl_branchId x, Some (fl_id x)) \<in> set (views ?s)" by fastforce
    next
      fix j o1 b l assume "(j, o1, b, l) \<in> set (views s)"
      from seen [OF this] show "\<exists>l'. (j, o1, b, l') \<in> set (views ?s)" by blast
    qed simp
  qed
qed

lemma flows_drop_queue: "preserves_tx flows_ok (drop_queue i)"
proof (rule preserves_txI, clarsimp simp: tx_bind_def tx_modify_def drop_queue_def)
  fix s assume ok: "flows_ok s"
  let ?s = "q_queues_update (filter (\<lambda>q. qu_id q \<noteq> i)) (q_flowSteps_update (filter (\<lambda>f. fs_queueId f \<noteq> Some i))
    (q_tickets_update (filter (\<lambda>t. tk_queueId t \<noteq> i)) s))"
  have vs: "views ?s = filter (\<lambda>v. fst v \<noteq> i) (views s)" by (simp add: views_def filter_map comp_def view_of_def)
  show "flows_ok ?s"
  proof (rule flows_okI)
    show "flow_keys ?s" using ok by (auto simp: flows_ok_def flow_keys_def vs distinct_map_filter)
    fix f assume "f \<in> set (q_flowSteps ?s)"
    then have "linked_right s f" "fs_queueId f \<noteq> Some i" using ok by (simp_all add: flows_ok_def list_all_iff)
    then show "linked_right ?s f" unfolding linked_right_def vs by fastforce
  qed
qed

lemma flows_insert_queue:
  assumes "qu_id q \<noteq> []" shows "preserves_tx flows_ok (insert_queue q)"
proof (rule preserves_txI)
  fix s a t assume ok: "flows_ok s" and "insert_queue q s = Inr (a, t)"
  then have t: "t = q_queues_update (\<lambda>qs. qs @ [q]) s" and new: "qu_id q \<notin> fst ` set (views s)"
    by (auto simp: insert_queue_def tx_read_def tx_bind_def tx_modify_def tx_return_def tx_throw_def list_ex_iff views_def view_of_def
        split: if_splits)
  have vs: "views t = views s @ [view_of q]" by (simp add: t views_def)
  show "flows_ok t"
  proof (rule flows_okI)
    show "flow_keys t" using ok new assms by (simp add: flows_ok_def flow_keys_def vs) (simp add: t view_of_def)
    fix f assume "f \<in> set (q_flowSteps t)"
    then have "linked_right s f" using ok by (simp add: t flows_ok_def list_all_iff)
    then show "linked_right t f" unfolding linked_right_def vs by (fastforce simp: t)
  qed
qed

section \<open>A patch that does not touch the link\<close>

lemma flows_write_queue:
  assumes ok: "flows_ok s" and q: "find_queue org i s = Some q" and run: "write_queue i f s = Inr (a, t)"
    and f: "view_of (f q) = (i, org, qu_branchId q, l)" "l = qu_flowTemplateId q \<or> qu_flowTemplateId q = Some []"
  shows "flows_ok t"
proof -
  let ?g = "\<lambda>v. if fst v = i then (i, org, qu_branchId q, l) else v"
  have t: "t = q_queues_update (update_rows (\<lambda>x. qu_id x = i) f) s"
    using run by (auto simp: write_queue_def tx_read_def tx_throw_def tx_update_one_def split: option.splits if_splits)
  have mem: "q \<in> set (q_queues s)" and ids: "qu_id q = i" "qu_orgId q = org" using q by (auto simp: find_queue_def find_Some_iff)
  have inj: "inj_on fst (set (views s))" and names: "[] \<notin> fl_id ` set (q_flowTemplates s)"
    and keys: "flow_keys s" using ok by (simp_all add: flows_ok_def flow_keys_def distinct_map)
  have same: "x = q" if "x \<in> set (q_queues s)" "qu_id x = i" for x
    using that mem ids keys by (auto simp: flow_keys_def views_def view_of_def distinct_map comp_def inj_on_def)
  have "view_of (if qu_id x = i then f x else x) = ?g (view_of x)" if "x \<in> set (q_queues s)" for x
  proof (cases "qu_id x = i")
    case True
    then have "x = q" using same that by blast
    moreover have "fst (view_of q) = i" by (simp add: view_of_def ids)
    ultimately show ?thesis using True f(1) by simp
  qed (simp add: view_of_def)
  then have vs: "views t = map ?g (views s)" by (simp add: t views_def update_rows_def)
  have fst_kept: "map fst (views t) = map fst (views s)" unfolding vs by auto
  show ?thesis
  proof (rule flows_okI)
    show "flow_keys t" using keys fst_kept by (simp add: flow_keys_def flip: set_map) (simp add: t)
    fix g assume "g \<in> set (q_flowSteps t)"
    then have g: "linked_right s g" using ok by (simp add: flows_ok_def list_all_iff t)
    have gone: "?g v = v \<or> v = (i, org, qu_branchId q, Some [])" if v: "v \<in> set (views s)" for v
    proof -
      obtain x where x: "x \<in> set (q_queues s)" "v = view_of x" using v by (auto simp: views_def)
      show ?thesis
      proof (cases "qu_id x = i")
        case True
        then have "x = q" by (rule same [OF x(1)])
        with x(2) f(2) ids show ?thesis by (auto simp: view_of_def)
      qed (simp add: x(2) view_of_def)
    qed
    have img: "?g v \<in> set (views t)" if "v \<in> set (views s)" for v unfolding vs using that by simp
    have stay: "(j, o1, b, k) \<in> set (views t)" if "(j, o1, b, k) \<in> set (views s)" "k \<noteq> Some []" for j o1 b k
      using img [OF that(1)] gone [OF that(1)] that(2) by (auto split: if_splits)
    have seen: "\<exists>l'. (j, o1, b, l') \<in> set (views t)" if "(j, o1, b, k) \<in> set (views s)" for j o1 b k
      using img [OF that] gone [OF that] by (auto split: if_splits)
    from g obtain x where x: "x \<in> set (q_flowTemplates s)" "fl_id x = fs_templateId g" "fl_orgId x = fs_orgId g"
      and v: "\<And>j. fs_queueId g = Some j \<Longrightarrow> \<exists>l. (j, fl_orgId x, fl_branchId x, l) \<in> set (views s) \<and> (fl_isActive x \<longrightarrow> l = Some (fl_id x))"
      by (auto simp: linked_right_def)
    have "fl_id x \<noteq> []" using names x(1) by (metis imageI)
    then have "\<exists>l. (j, fl_orgId x, fl_branchId x, l) \<in> set (views t) \<and> (fl_isActive x \<longrightarrow> l = Some (fl_id x))" if "fs_queueId g = Some j" for j
      using v [OF that] stay seen by (cases "fl_isActive x") blast+
    with x show "linked_right t g" unfolding linked_right_def t by (intro bexI [of _ x]) simp_all
  qed
qed

definition quiet_patch :: "queue_patch \<Rightarrow> bool" where
  "quiet_patch d \<longleftrightarrow> qp_branchId d = None \<and> qp_flowTemplateId d = None"

lemma flows_update_queue:
  assumes "quiet_patch d" shows "preserves flows_ok (updateQueue org i d)"
  unfolding updateQueue_def Let_def
proof (intro preserves_if preserves_throw read_lift_at)
  fix s q
  assume ok: "flows_ok s" and q: "getQueueById org i s = Inr q"
  have q': "find_queue org i s = Some q" using q by (simp add: getQueueById_def split: option.splits)
  then have id: "qu_id q = i" "qu_orgId q = org" by (auto simp: find_queue_def find_Some_iff)
  let ?rest = "\<lambda>new. svc_bind (with_tenant (write_queue i (patch_queue d new))) (\<lambda>r.
        svc_bind (if truthy_str (qp_branchId d) \<and> qp_branchId d \<noteq> Some (qu_branchId q)
          then svc_bind (publish_queue (''display:'' @ qu_branchId q) ''queue.deleted'' i) (\<lambda>_.
            publish_queue (''display:'' @ the (qp_branchId d)) ''queue.updated'' i)
          else publish_queue (''display:'' @ qu_branchId q) ''queue.updated'' i) (\<lambda>_.
        svc_bind (publish_queue (''org:'' @ org) ''queue.updated'' i) (\<lambda>_. svc_return r)))"
  have "flows_ok (snd (?rest new s))" if "update_checks org q d s = Inr new" for new
  proof (rule tenant_at [where I = flows_ok, OF ok])
    obtain pol l where new: "new = (pol, l)" by (cases new)
    have "validateFlowTemplateScope org (qu_branchId q) (qu_flowTemplateId q) s = Inr l"
      using that assms by (auto simp: update_checks_def err_bind_def quiet_patch_def patched_def new split: sum.splits if_splits)
    then have l: "l = qu_flowTemplateId q \<or> qu_flowTemplateId q = Some []"
      by (cases "qu_flowTemplateId q") (auto simp: validateFlowTemplateScope_def find_Some_iff split: if_splits option.splits)
    fix a t assume "write_queue i (patch_queue d new) s = Inr (a, t)"
    then show "flows_ok t"
      by (rule flows_write_queue [OF ok q' _ _ l])
        (use assms id in \<open>simp add: patch_queue_def view_of_def new quiet_patch_def patched_def split: prod.splits\<close>)
  qed (unfold publish_queue_def, intro pres_intros)
  then show "flows_ok (snd (svc_bind (svc_read (\<lambda>s. svc_lift (update_checks org q d s))) ?rest s))"
    by (cases "update_checks org q d s") (simp_all add: svc_bind_def svc_read_def svc_lift_def svc_throw_def svc_return_def ok)
qed

section \<open>The property\<close>

text \<open>The operations, with identifiers that are not empty, and patches of queues that leave branch and link alone.\<close>

inductive queue_flow_step :: "qdb \<Rightarrow> qdb \<Rightarrow> bool" where
  create: "qe_uuid e ''queues'' \<noteq> [] \<Longrightarrow> queue_flow_step s (snd (createQueue e org d s))"
| update: "quiet_patch p \<Longrightarrow> queue_flow_step s (snd (updateQueue org i p s))"
| opens: "queue_flow_step s (snd (openQueue e org i s))"
| pauses: "queue_flow_step s (snd (pauseQueue org i s))"
| closes: "queue_flow_step s (snd (closeQueue org i u force ack s))"
| delete: "queue_flow_step s (snd (deleteQueue org i s))"
| create_flow: "qe_uuid e ''branch_flow_templates'' \<noteq> [] \<Longrightarrow> queue_flow_step s (snd (createFlow e org u branch name fs s))"
| update_flow: "queue_flow_step s (snd (updateFlow org u i n ns s))"
| activate: "queue_flow_step s (snd (activateFlow org u i for_user s))"
| deactivate: "queue_flow_step s (snd (deactivateFlow org u i s))"
| remove: "queue_flow_step s (snd (removeFlow org u i s))"

lemma flows_managed:
  assumes "\<And>s t a u'. flows_ok s \<Longrightarrow> t \<in> set (q_flowTemplates s) \<Longrightarrow> fl_id t = i \<Longrightarrow> fl_orgId t = org \<Longrightarrow>
      m t s = Inr (a, u') \<Longrightarrow> flows_ok u'"
    and "\<And>t a. preserves flows_ok (f t a)"
  shows "preserves flows_ok (svc_bind (svc_read (\<lambda>s. svc_lift (managed_template org u i s))) (\<lambda>t. svc_bind (with_tenant (m t)) (f t)))"
proof (rule read_lift_at)
  fix s t assume ok: "flows_ok s" and t: "managed_template org u i s = Inr t"
  show "flows_ok (snd (svc_bind (with_tenant (m t)) (f t) s))"
    by (rule tenant_at [where I = flows_ok, OF ok]) (use assms ok managed_found [OF t] in blast)+
qed

lemma flows_activate: "preserves flows_ok (activateFlow org u i for_user)"
  unfolding activateFlow_def by (rule flows_managed) (blast intro: flows_activate_tx, intro pres_intros)

lemma flows_deactivate: "preserves flows_ok (deactivateFlow org u i)"
  unfolding deactivateFlow_def by (rule flows_managed) (blast intro: flows_deactivate_tx, intro pres_intros)

lemma flows_update_flow: "preserves flows_ok (updateFlow org u i n fs)"
  unfolding updateFlow_def
proof (rule read_lift_at, unfold split_def)
  fix s c assume ok: "flows_ok s" and c: "update_flow_checks org u i fs s = Inr c"
  have t: "fst c \<in> set (q_flowTemplates s)" "fl_orgId (fst c) = org"
    using c by (auto simp: update_flow_checks_def err_bind_def split: sum.splits option.splits dest: managed_found)
  show "flows_ok (snd (svc_bind (with_tenant (update_flow_tx org (fst c) n (snd c))) (\<lambda>r.
     svc_bind (if snd c = None then svc_return () else q_log (RepairProfiles org i)) (\<lambda>_. svc_return r)) s))"
    by (rule tenant_at [where I = flows_ok, OF ok]) (use flows_update_tx [OF ok t(1)] t(2) in blast, intro pres_intros)
qed

lemma flows_remove: "preserves flows_ok (removeFlow org u i)"
  unfolding removeFlow_def
  by (intro preserves_bind preserves_read preserves_svc_lift preserves_with_tenant flows_remove_tx)

lemma flows_delete: "preserves flows_ok (deleteQueue org i)"
  unfolding deleteQueue_def by (intro pres_intros flows_drop_queue)

lemma flows_check_limit: "preserves flows_ok (svc_get (checkLimit e org feature n))"
proof (rule preserves_svc_get)
  fix s assume "flows_ok s"
  moreover have "same_flows s (snd (checkLimit e org feature n s))"
    by (auto simp: checkLimit_def getLimits_def same_flows_def views_def split: prod.splits option.splits)
  ultimately show "flows_ok (snd (checkLimit e org feature n s))" by (simp add: flows_ok_same)
qed

lemma flows_create:
  assumes "qe_uuid e ''queues'' \<noteq> []" shows "preserves flows_ok (createQueue e org d)"
  unfolding createQueue_def
  by (intro preserves_bind preserves_read preserves_svc_lift flows_check_limit preserves_case_option preserves_throw
      preserves_with_tenant flows_insert_queue) (simp add: new_queue_def assms split: prod.splits)

lemma step_keeps_flows: "queue_flow_step s t \<Longrightarrow> flows_ok s \<Longrightarrow> flows_ok t"
  by (induction rule: queue_flow_step.induct)
    (auto intro!: preservesD [where I = flows_ok] pres_intros flows_create flows_update_queue flows_delete flows_create_flow
      flows_update_flow flows_activate flows_deactivate flows_remove)


definition linked_clinic :: qdb where
  "linked_clinic = kiosk\<lparr>q_queues := [(demo_queue ''q1'')\<lparr>qu_flowTemplateId := Some ''f1''\<rparr>,
     (demo_queue ''q2'')\<lparr>qu_flowTemplateId := Some ''f1''\<rparr>]\<rparr>"

lemma linked_clinic_ok: "flows_ok linked_clinic"
  by (simp add: flows_ok_def flow_keys_def linked_right_def views_def view_of_def linked_clinic_def kiosk_def demo_queue_def flow_step_def)


end
