(* ===== verification/Housekeeping.thy ===== *)
theory Housekeeping
  imports Journeys
begin

text \<open>
  \<^verbatim>\<open>TicketComplianceService\<close>: personal data of tickets and customers is wiped, history is deleted, tickets
  that were forgotten at a desk expire, and the waiting tickets of earlier days are closed.
\<close>

section \<open>Personal data\<close>

definition is_settled :: "string \<Rightarrow> bool" where
  "is_settled st \<longleftrightarrow> st \<in> {''completed'', ''no_show'', ''cancelled''}"

definition stale_pii :: "time \<Rightarrow> queue_ticket \<Rightarrow> bool" where
  "stale_pii cutoff t \<longleftrightarrow> \<not> tk_legalHold t \<and> is_settled (tk_status t) \<and> tk_bookedAt t < cutoff \<and>
     (tk_customerName t \<noteq> None \<or> tk_customerPhone t \<noteq> None \<or> tk_customerEmail t \<noteq> None \<or> tk_note t \<noteq> None)"

definition wipe_ticket :: "queue_ticket \<Rightarrow> queue_ticket" where
  "wipe_ticket t = t\<lparr>tk_customerName := Some ''Anonymized Client'', tk_customerPhone := None,
     tk_customerEmail := None, tk_note := None, tk_flags := []\<rparr>"

function batches :: "nat \<Rightarrow> 'a list \<Rightarrow> 'a list list" where
  "batches n xs = (if xs = [] \<or> n = 0 then [] else take n xs # batches n (drop n xs))"
  by pat_completeness auto
termination by (relation "measure (\<lambda>(n, xs). length xs)") auto

declare batches.simps [simp del]

definition wipe_batch :: "uuid list \<Rightarrow> unit qsvc" where
  "wipe_batch ids = with_tenant (tx_modify (q_tickets_update (update_rows (\<lambda>t. tk_id t \<in> set ids) wipe_ticket)))"

text \<open>The distinct values in the order of their first occurrence.\<close>

definition firsts :: "'a list \<Rightarrow> 'a list" where
  "firsts xs = rev (remdups (rev xs))"

text \<open>Tenant by tenant, a hundred tickets at a time.\<close>

definition anonymizeHistoricalPii :: "qenv \<Rightarrow> int \<Rightarrow> bool \<Rightarrow> (int \<times> bool \<times> time) qsvc" where
  "anonymizeHistoricalPii e days dry =
     (let cutoff = qe_now e - max 1 days * 24 * 60 * 60 * 1000 in
      svc_read (\<lambda>s. let stale = filter (stale_pii cutoff) (q_tickets s) in
        if dry then svc_return (int (length stale), True, cutoff)
        else svc_bind (svc_foreach (firsts (map tk_orgId stale)) (\<lambda>org.
            svc_foreach (batches 100 (map tk_id (filter (\<lambda>t. tk_orgId t = org) stale))) wipe_batch))
          (\<lambda>_. svc_return (int (length stale), False, cutoff))))"

record customer_identifier =
  id_customerId :: "uuid option"
  id_phone :: "string option"
  id_email :: "string option"

text \<open>A key that is missing or empty restricts nothing.\<close>

definition identified :: "uuid \<Rightarrow> customer_identifier \<Rightarrow> contact_row \<Rightarrow> bool" where
  "identified org d c \<longleftrightarrow> ct_orgId c = org \<and>
     (truthy_str (id_customerId d) \<longrightarrow> Some (ct_id c) = id_customerId d) \<and>
     (truthy_str (id_phone d) \<longrightarrow> ct_phone c = id_phone d) \<and>
     (truthy_str (id_email d) \<longrightarrow> ct_email c = id_email d)"

definition wipe_contact :: "contact_row \<Rightarrow> contact_row" where
  "wipe_contact c = c\<lparr>ct_name := ''Anonymized Client'', ct_phone := None, ct_email := None,
     ct_transactionalSmsAllowed := False\<rparr>"

definition erasable :: "uuid \<Rightarrow> uuid list \<Rightarrow> queue_ticket \<Rightarrow> bool" where
  "erasable org ids t \<longleftrightarrow> tk_orgId t = org \<and> tk_customerId t \<in> Some ` set ids \<and> \<not> tk_legalHold t"

definition anonymizeCustomerDataByIdentifier :: "uuid \<Rightarrow> customer_identifier \<Rightarrow> bool \<Rightarrow> (int \<times> int \<times> bool) qsvc" where
  "anonymizeCustomerDataByIdentifier org d dry = with_tenant (tx_read (\<lambda>s.
     let ids = map ct_id (filter (identified org d) (q_contacts s));
         n = int (length ids); k = int (count_rows (erasable org ids) (q_tickets s)) in
     if ids = [] then tx_throw (NotFound ''No matching customer records found'')
     else if dry then tx_return (n, k, True)
     else tx_bind (tx_modify (q_tickets_update (update_rows (erasable org ids)
         (\<lambda>t. (wipe_ticket t)\<lparr>tk_smsAllowed := False\<rparr>)))) (\<lambda>_.
       tx_bind (tx_modify (q_contacts_update (update_rows (\<lambda>c. ct_id c \<in> set ids \<and> ct_orgId c = org) wipe_contact)))
         (\<lambda>_. tx_return (n, k, False)))))"

section \<open>History\<close>

definition assertOrgOwnerForHistoryDelete :: "uuid \<Rightarrow> uuid \<Rightarrow> qdb \<Rightarrow> error + unit" where
  "assertOrgOwnerForHistoryDelete org u s =
     (if userIsOrganizationOwner org u s then Inr ()
      else Inl (Forbidden ''Only the organization owner may delete ticket history records.''))"

definition assertTicketDeletableFromHistory :: "queue_ticket \<Rightarrow> error + unit" where
  "assertTicketDeletableFromHistory t =
     (if tk_legalHold t then Inl (BadRequest ''This ticket is on legal hold and cannot be deleted.'')
      else if tk_status t \<in> set active_statuses
      then Inl (BadRequest ''Active queue tickets cannot be deleted from history. Cancel or complete the ticket first.'')
      else Inr ())"

definition refresh_quietly :: "qenv \<Rightarrow> uuid \<Rightarrow> uuid option \<Rightarrow> unit qsvc" where
  "refresh_quietly e org visit = svc_catch (refreshVisitStatus e org visit) (\<lambda>_. svc_return ())"

definition emitTicketDeletedSideEffects :: "qenv \<Rightarrow> uuid \<Rightarrow> queue_ticket \<Rightarrow> bool \<Rightarrow> unit qsvc" where
  "emitTicketDeletedSideEffects e org t skipStats =
     svc_bind (publish_ticket (tk_queueId t) (tk_branchId t) org ''deleted'' (tk_id t)) (\<lambda>_.
     svc_bind (if skipStats then svc_return () else q_log (InvalidateStats org (tk_branchId t) [tk_queueId t])) (\<lambda>_.
     svc_bind (q_log (DropCache (ticket_public_key (tk_id t)))) (\<lambda>_.
     svc_bind (refresh_quietly e org (tk_visitId t)) (\<lambda>_.
     q_log (Activity org ''ticket.history_deleted'' (tk_id t))))))"

definition delete_history_tx :: "uuid \<Rightarrow> uuid \<Rightarrow> queue_ticket qtx" where
  "delete_history_tx org i = tx_read (\<lambda>s. case find_ticket org i s of
       None \<Rightarrow> tx_throw (NotFound ''Ticket not found'')
     | Some t \<Rightarrow> tx_bind (tx_lift (assertTicketDeletableFromHistory t)) (\<lambda>_.
         tx_bind (tx_modify (q_tickets_update (filter (\<lambda>x. tk_id x \<noteq> i)))) (\<lambda>_. tx_return t)))"

definition deleteHistoryTicket :: "qenv \<Rightarrow> uuid \<Rightarrow> uuid \<Rightarrow> uuid \<Rightarrow> uuid qsvc" where
  "deleteHistoryTicket e org u i =
     svc_bind (svc_read (\<lambda>s. svc_lift (assertOrgOwnerForHistoryDelete org u s))) (\<lambda>_.
     svc_bind (with_tenant (delete_history_tx org i)) (\<lambda>t.
     svc_bind (emitTicketDeletedSideEffects e org t False) (\<lambda>_. svc_return i)))"

record bulk_result =
  bk_requested :: nat
  bk_deleted :: nat
  bk_blocked :: "(uuid \<times> string) list"
  bk_notFound :: "uuid list"

definition requested_ids :: "uuid list \<Rightarrow> uuid list" where
  "requested_ids ids = firsts (filter (\<lambda>i. i \<noteq> []) (map js_trim ids))"

definition deletable :: "queue_ticket \<Rightarrow> bool" where
  "deletable t \<longleftrightarrow> assertTicketDeletableFromHistory t = Inr ()"

definition delete_bulk_tx :: "uuid \<Rightarrow> uuid list \<Rightarrow> (queue_ticket list \<times> (uuid \<times> string) list \<times> uuid list) qtx" where
  "delete_bulk_tx org ids = tx_read (\<lambda>s.
     let found = filter (\<lambda>t. tk_orgId t = org \<and> tk_id t \<in> set ids) (q_tickets s);
         missing = filter (\<lambda>i. i \<notin> tk_id ` set found) ids;
         blocked = List.map_filter (\<lambda>t. case assertTicketDeletableFromHistory t of
           Inl err \<Rightarrow> Some (tk_id t, message_of err) | Inr _ \<Rightarrow> None) found;
         gone = filter deletable found
     in tx_bind (if gone = [] then tx_return ()
         else tx_modify (q_tickets_update (filter (\<lambda>t. \<not> (tk_orgId t = org \<and> tk_id t \<in> tk_id ` set gone))))) (\<lambda>_.
       tx_return (gone, blocked, missing)))"

definition deleteHistoryTicketsBulk :: "qenv \<Rightarrow> uuid \<Rightarrow> uuid \<Rightarrow> uuid list \<Rightarrow> bulk_result qsvc" where
  "deleteHistoryTicketsBulk e org u raw =
     (let ids = requested_ids raw in
      svc_bind (svc_read (\<lambda>s. svc_lift (assertOrgOwnerForHistoryDelete org u s))) (\<lambda>_.
      if ids = [] then svc_throw (BadRequest ''At least one ticket id is required.'')
      else if 200 < length ids then svc_throw (BadRequest ''Cannot delete more than 200 tickets at once.'')
      else svc_bind (with_tenant (delete_bulk_tx org ids)) (\<lambda>(gone, blocked, missing).
        svc_bind (svc_foreach (firsts (map tk_branchId gone)) (\<lambda>b. q_log (InvalidateStats org b
          (firsts (map tk_queueId (filter (\<lambda>t. tk_branchId t = b) gone)))))) (\<lambda>_.
        svc_bind (svc_foreach gone (\<lambda>t. emitTicketDeletedSideEffects e org t True)) (\<lambda>_.
        svc_bind (q_log (Activity org ''ticket.history_deleted_bulk'' [])) (\<lambda>_.
        svc_return \<lparr>bk_requested = length ids, bk_deleted = length gone, bk_blocked = blocked, bk_notFound = missing\<rparr>))))))"

section \<open>Forgotten tickets\<close>

definition forgotten :: "time \<Rightarrow> queue_ticket \<Rightarrow> bool" where
  "forgotten cutoff t \<longleftrightarrow> tk_status t \<in> {''called'', ''serving''} \<and>
     (case tk_calledAt t of None \<Rightarrow> False | Some c \<Rightarrow> c < cutoff)"

definition began :: "time \<Rightarrow> queue_ticket \<Rightarrow> time" where
  "began now t = patched (tk_servedAt t) (patched (tk_calledAt t) now)"

definition wait_ms :: "time \<Rightarrow> queue_ticket \<Rightarrow> int" where
  "wait_ms now t = max 0 (began now t - tk_bookedAt t)"

definition service_ms :: "time \<Rightarrow> queue_ticket \<Rightarrow> int" where
  "service_ms now t = max 0 (now - began now t)"

definition expired :: "time \<Rightarrow> queue_ticket \<Rightarrow> queue_ticket \<Rightarrow> queue_ticket" where
  "expired now t x = x\<lparr>tk_status := ''no_show'', tk_completedAt := Some now, tk_servedAt := Some (began now t),
     tk_waitMinutes := Some (wait_ms now t div 60000), tk_serviceMinutes := Some (service_ms now t div 60000)\<rparr>"

text \<open>The two columns are integers, and the quotients are not rounded: the database client refuses a fraction.\<close>

definition expire_one :: "time \<Rightarrow> queue_ticket \<Rightarrow> unit qsvc" where
  "expire_one now t = svc_catch (with_tenant (
     if 60000 dvd wait_ms now t \<and> 60000 dvd service_ms now t
     then tx_bind (tx_update_one q_tickets q_tickets_update (\<lambda>x. tk_id x = tk_id t) (expired now t)) (\<lambda>_. tx_return ())
     else tx_throw PrismaValidation)) (\<lambda>_. svc_return ())"

definition expireStaleTickets :: "qenv \<Rightarrow> int \<Rightarrow> int qsvc" where
  "expireStaleTickets e threshold = svc_read (\<lambda>s.
     let stale = filter (forgotten (qe_now e - threshold * 60 * 1000)) (q_tickets s) in
     svc_bind (svc_foreach stale (expire_one (qe_now e))) (\<lambda>_.
     svc_bind (svc_foreach (firsts (map (\<lambda>t. (tk_orgId t, tk_branchId t, tk_queueId t)) stale))
       (\<lambda>(org, b, q). q_log (InvalidateStats org b [q]))) (\<lambda>_.
     svc_return (int (length stale)))))"

section \<open>Earlier days\<close>

definition left_waiting :: "uuid \<Rightarrow> time \<Rightarrow> queue_ticket \<Rightarrow> bool" where
  "left_waiting branch floor1 t \<longleftrightarrow> tk_branchId t = branch \<and> tk_status t = ''waiting'' \<and> tk_bookedAt t < floor1"

definition close_left_tx :: "time \<Rightarrow> uuid \<Rightarrow> time \<Rightarrow> queue_ticket list qtx" where
  "close_left_tx now branch floor1 = tx_read (\<lambda>s.
     let rows = filter (left_waiting branch floor1) (q_tickets s) in
     if rows = [] then tx_return []
     else tx_bind (tx_modify (q_tickets_update (update_rows (\<lambda>t. tk_id t \<in> tk_id ` set rows)
         (\<lambda>t. t\<lparr>tk_status := ''no_show'', tk_completedAt := Some now\<rparr>)))) (\<lambda>_. tx_return rows))"

definition branch_floor :: "qenv \<Rightarrow> branch_row \<Rightarrow> qdb \<Rightarrow> time \<times> qdb" where
  "branch_floor e b s = (let (z, t) = resolveBranchIanaZone e (br_orgId b) (br_id b) s in
     (qe_startOfDay e (normalizeOrgIanaZone e (Some z)), t))"

definition close_branch :: "qenv \<Rightarrow> bool \<Rightarrow> branch_row \<Rightarrow> queue_ticket list qsvc" where
  "close_branch e dry b =
     svc_bind (svc_get (branch_floor e b)) (\<lambda>floor1.
     if dry then svc_read (\<lambda>s. svc_return (filter (left_waiting (br_id b) floor1) (q_tickets s)))
     else svc_bind (with_tenant (close_left_tx (qe_now e) (br_id b) floor1)) (\<lambda>rows.
       svc_bind (svc_foreach rows (\<lambda>t. q_log (Publish [''queue:'' @ tk_queueId t] ''ticket.no_show'' (tk_id t)))) (\<lambda>_.
       svc_bind (svc_foreach (firsts (filter truthy_str (map tk_visitId rows))) (refresh_quietly e (br_orgId b))) (\<lambda>_.
       svc_return rows))))"

fun close_branches :: "qenv \<Rightarrow> bool \<Rightarrow> branch_row list \<Rightarrow> (uuid \<times> queue_ticket) list qsvc" where
  "close_branches e dry [] = svc_return []"
| "close_branches e dry (b # bs) = svc_bind (close_branch e dry b) (\<lambda>rows.
     svc_bind (close_branches e dry bs) (\<lambda>rest. svc_return (map (\<lambda>t. (br_orgId b, t)) rows @ rest)))"

definition closePriorSessionWaitingTickets ::
  "qenv \<Rightarrow> bool \<Rightarrow> uuid option \<Rightarrow> uuid option \<Rightarrow> (int \<times> bool) qsvc" where
  "closePriorSessionWaitingTickets e dry org branch = svc_read (\<lambda>s.
     svc_bind (close_branches e dry (filter (\<lambda>b. (truthy_str org \<longrightarrow> Some (br_orgId b) = org) \<and>
       (truthy_str branch \<longrightarrow> Some (br_id b) = branch)) (q_branches s))) (\<lambda>closed.
     svc_bind (if dry then svc_return () else svc_foreach (firsts (map (\<lambda>(g, t). (g, tk_queueId t)) closed))
       (\<lambda>(g, q). q_log (InvalidateStats g
          (tk_branchId (the (List.find (\<lambda>t. tk_queueId t = q) (rev (map snd closed))))) [q]))) (\<lambda>_.
     svc_return (int (length closed), dry))))"

end
