(* ===== verification/HousekeepingFacts.thy ===== *)
theory HousekeepingFacts
  imports Housekeeping FlowFacts
begin

text \<open>
  What housekeeping does to the tickets: deletion spares tickets that are in use or on hold, a forgotten
  ticket expires only when its minutes are whole, and the tickets of earlier days are closed.
\<close>

section \<open>Services that leave the tickets alone\<close>

lemma tickets_blinds [pres_intros]:
  "blind q_effects_update (tickets_are ts)" "blind q_redis_update (tickets_are ts)"
  by (simp_all add: blind_def tickets_are_def)

lemma tickets_after_refresh [pres_intros]: "preserves (tickets_are ts) (refreshVisitStatus e org visit)"
  unfolding refreshVisitStatus_def complete_visit_def keep_visit_active_def resolveVisitExternalRef_def
    persistVisitExternalRef_def resolveNextJourneyStep_def Let_def
  by (intro pres_intros tickets_are_parts)

lemma tickets_after_quiet [pres_intros]: "preserves (tickets_are ts) (refresh_quietly e org visit)"
  unfolding refresh_quietly_def by (intro pres_intros)

lemma tickets_after_delete [pres_intros]: "preserves (tickets_are ts) (emitTicketDeletedSideEffects e org t skip)"
  unfolding emitTicketDeletedSideEffects_def publish_ticket_def by (intro pres_intros)

lemma same_tickets: "preserves (tickets_are (q_tickets s)) m \<Longrightarrow> m s = (r, t) \<Longrightarrow> q_tickets t = q_tickets s"
  by (drule preservesD [where s = s]) (simp_all add: tickets_are_def)

section \<open>Deletion of history\<close>

lemma firsts_set [simp]: "set (firsts xs) = set xs"
  by (simp add: firsts_def)

lemma deletable_iff: "deletable t \<longleftrightarrow> \<not> tk_legalHold t \<and> tk_status t \<notin> set active_statuses"
  by (simp add: deletable_def assertTicketDeletableFromHistory_def)

definition to_delete :: "uuid \<Rightarrow> uuid list \<Rightarrow> queue_ticket \<Rightarrow> bool" where
  "to_delete org raw t \<longleftrightarrow> tk_orgId t = org \<and> tk_id t \<in> js_trim ` set raw \<and> tk_id t \<noteq> [] \<and>
     \<not> tk_legalHold t \<and> tk_status t \<notin> set active_statuses"

lemma bulk_tx_run:
  assumes "delete_bulk_tx org (requested_ids raw) s = Inr ((gone, blocked, missing), t)" and "distinct (map tk_id (q_tickets s))"
  shows "gone = filter (to_delete org raw) (q_tickets s)" "q_tickets t = filter (\<lambda>x. \<not> to_delete org raw x) (q_tickets s)"
proof -
  have "set (requested_ids raw) = {i \<in> js_trim ` set raw. i \<noteq> []}" by (auto simp: requested_ids_def)
  then have found: "filter deletable (filter (\<lambda>x. tk_orgId x = org \<and> tk_id x \<in> set (requested_ids raw)) (q_tickets s)) =
      filter (to_delete org raw) (q_tickets s)"
    by (auto simp: to_delete_def deletable_iff intro!: filter_cong)
  from assms(1) have run: "gone = filter deletable (filter (\<lambda>x. tk_orgId x = org \<and> tk_id x \<in> set (requested_ids raw)) (q_tickets s))"
    "t = (if gone = [] then s else q_tickets_update (filter (\<lambda>x. \<not> (tk_orgId x = org \<and> tk_id x \<in> tk_id ` set gone))) s)"
    by (auto simp: delete_bulk_tx_def tx_read_def tx_bind_Inr_iff tx_return_def tx_modify_def Let_def split: if_splits)
  then show gone: "gone = filter (to_delete org raw) (q_tickets s)" by (simp only: found)
  have "inj_on tk_id (set (q_tickets s))" using assms(2) by (simp add: distinct_map)
  then have "(tk_orgId x = org \<and> tk_id x \<in> tk_id ` set gone) = to_delete org raw x" if "x \<in> set (q_tickets s)" for x
    using that unfolding gone by (auto dest: inj_onD simp: to_delete_def)
  then have "filter (\<lambda>x. \<not> (tk_orgId x = org \<and> tk_id x \<in> tk_id ` set gone)) (q_tickets s) =
      filter (\<lambda>x. \<not> to_delete org raw x) (q_tickets s)" by (intro filter_cong) simp_all
  moreover have "filter (\<lambda>x. \<not> to_delete org raw x) (q_tickets s) = q_tickets s" if "gone = []"
    using that unfolding gone by (simp add: filter_empty_conv)
  ultimately show "q_tickets t = filter (\<lambda>x. \<not> to_delete org raw x) (q_tickets s)"
    using run(2) by (cases "gone = []") simp_all
qed

text \<open>
  C31. Deletion from the history is for the owner of the organisation: it removes exactly the requested tickets
  of the organisation that are neither on legal hold nor waiting, called or being served, and says how many.
\<close>

theorem history_deletion_spares:
  assumes "deleteHistoryTicketsBulk e org u raw s = (Inr r, s')" and "distinct (map tk_id (q_tickets s))"
  shows "userIsOrganizationOwner org u s \<and> length (requested_ids raw) \<le> 200 \<and>
    q_tickets s' = filter (\<lambda>t. \<not> to_delete org raw t) (q_tickets s) \<and>
    bk_deleted r = length (filter (to_delete org raw) (q_tickets s))"
proof -
  let ?ids = "requested_ids raw"
  let ?after = "\<lambda>gone blocked missing. svc_bind (svc_foreach (firsts (map tk_branchId gone)) (\<lambda>b. q_log (InvalidateStats org b
          (firsts (map tk_queueId (filter (\<lambda>t. tk_branchId t = b) gone)))))) (\<lambda>_.
        svc_bind (svc_foreach gone (\<lambda>t. emitTicketDeletedSideEffects e org t True)) (\<lambda>_.
        svc_bind (q_log (Activity org ''ticket.history_deleted_bulk'' [])) (\<lambda>_.
        svc_return \<lparr>bk_requested = length ?ids, bk_deleted = length gone, bk_blocked = blocked, bk_notFound = missing\<rparr>)))"
  from assms(1) obtain gone blocked missing t where owner: "userIsOrganizationOwner org u s" and n: "length ?ids \<le> 200"
    and tx: "delete_bulk_tx org ?ids s = Inr ((gone, blocked, missing), t)" and after: "?after gone blocked missing t = (Inr r, s')"
    unfolding deleteHistoryTicketsBulk_def Let_def
    by (auto simp: svc_bind_def [of "svc_read _"] svc_bind_def [of "with_tenant _"] svc_read_def svc_lift_def svc_return_def svc_throw_def
        assertOrgOwnerForHistoryDelete_def with_tenant_def split: sum.splits if_splits prod.splits)
  have "q_tickets s' = q_tickets t" using after by (rule same_tickets [rotated]) (intro pres_intros)
  moreover have "bk_deleted r = length gone"
    using after by (auto simp: svc_bind_def svc_return_def split: prod.splits sum.splits)
  ultimately show ?thesis using bulk_tx_run [OF tx assms(2)] owner n by simp
qed

text \<open>Side effects that never fail.\<close>

definition never_fails :: "('s, 'a) svc \<Rightarrow> bool" where
  "never_fails m \<longleftrightarrow> (\<forall>s. \<exists>a t. m s = (Inr a, t))"

lemma never_fails_bind: "never_fails m \<Longrightarrow> (\<And>a. never_fails (f a)) \<Longrightarrow> never_fails (svc_bind m f)"
  unfolding never_fails_def svc_bind_def by (metis (no_types, lifting) prod.case sum.case(2))

lemma never_fails_unit: "never_fails m \<Longrightarrow> \<exists>t. m s = (Inr (), t)"
  by (simp add: never_fails_def)

lemma bind_step: "m s = (Inr a, t) \<Longrightarrow> svc_bind m f s = f a t"
  by (simp add: svc_bind_def)

lemma never_fails_basic: "never_fails (svc_return a)" "never_fails (q_log ev)" "never_fails (svc_catch m (\<lambda>_. svc_return b))"
  by (auto simp: never_fails_def svc_return_def q_log_def svc_modify_def svc_catch_def split: prod.split sum.split)

lemma never_fails_foreach: "(\<And>x. never_fails (f x)) \<Longrightarrow> never_fails (svc_foreach xs f)"
  by (induction xs) (simp_all add: never_fails_basic never_fails_bind)

lemma never_fails_if: "never_fails m \<Longrightarrow> never_fails n \<Longrightarrow> never_fails (if b then m else n)"
  by simp

lemmas never_fails_intros = never_fails_bind never_fails_foreach never_fails_if never_fails_basic

lemma never_fails_deleted: "never_fails (emitTicketDeletedSideEffects e org t skip)"
  unfolding emitTicketDeletedSideEffects_def publish_ticket_def refresh_quietly_def by (intro never_fails_intros)

lemma bulk_tx_never_fails: "\<exists>x t. delete_bulk_tx org ids s = Inr (x, t)"
  by (cases "filter deletable (filter (\<lambda>t. tk_orgId t = org \<and> tk_id t \<in> set ids) (q_tickets s)) = []")
    (simp_all only: delete_bulk_tx_def tx_read_def Let_def tx_bind_def tx_return_def tx_modify_def if_True if_False
      sum.case prod.case sum.inject prod.inject ex_simps simp_thms)

definition lobby_history :: qdb where
  "lobby_history = owned_lobby\<lparr>q_tickets := [(demo_ticket ''t1'' ''b1'')\<lparr>tk_status := ''completed''\<rparr>,
     (demo_ticket ''t2'' ''b1'')\<lparr>tk_status := ''cancelled'', tk_legalHold := True\<rparr>, demo_ticket ''t3'' ''b1'']\<rparr>"

lemma lobby_ids: "requested_ids [''t1 '', ''t2'', ''t3'', ''t1''] = [''t1'', ''t2'', ''t3'']"
  by code_simp

theorem history_deletion_spares_witness:
  "\<exists>r s'. deleteHistoryTicketsBulk noon ''o1'' ''u1'' [''t1 '', ''t2'', ''t3'', ''t1''] lobby_history = (Inr r, s') \<and>
     map tk_id (q_tickets s') = [''t2'', ''t3''] \<and> bk_deleted r = 1"
proof -
  have owner: "userIsOrganizationOwner ''o1'' ''u1'' lobby_history"
    by (simp add: userIsOrganizationOwner_def lobby_history_def owned_lobby_def owner_role_def role_name_def)
  obtain x t where x: "delete_bulk_tx ''o1'' [''t1'', ''t2'', ''t3''] lobby_history = Inr (x, t)"
    using bulk_tx_never_fails [of "''o1''" "[''t1'', ''t2'', ''t3'']" lobby_history] by (elim exE)
  obtain gone blocked missing where x': "x = (gone, blocked, missing)" by (cases x)
  define after where "after = svc_bind (svc_foreach (firsts (map tk_branchId gone)) (\<lambda>b. q_log (InvalidateStats ''o1'' b
          (firsts (map tk_queueId (filter (\<lambda>t. tk_branchId t = b) gone)))))) (\<lambda>_.
        svc_bind (svc_foreach gone (\<lambda>t. emitTicketDeletedSideEffects noon ''o1'' t True)) (\<lambda>_.
        svc_bind (q_log (Activity ''o1'' ''ticket.history_deleted_bulk'' [])) (\<lambda>_.
        svc_return \<lparr>bk_requested = length [''t1'', ''t2'', ''t3''], bk_deleted = length gone, bk_blocked = blocked, bk_notFound = missing\<rparr>)))"
  have "never_fails after" unfolding after_def by (intro never_fails_intros never_fails_deleted)
  then obtain r s' where after: "after t = (Inr r, s')" unfolding never_fails_def by blast
  have n: "\<not> 200 < length [''t1'', ''t2'', ''t3'']" by simp
  have check: "svc_read (\<lambda>s. svc_lift (assertOrgOwnerForHistoryDelete ''o1'' ''u1'' s)) lobby_history = (Inr (), lobby_history)"
    by (simp add: svc_read_def svc_lift_def svc_return_def assertOrgOwnerForHistoryDelete_def owner)
  have tx: "with_tenant (delete_bulk_tx ''o1'' [''t1'', ''t2'', ''t3'']) lobby_history = (Inr x, t)" by (simp add: with_tenant_def x)
  have run: "deleteHistoryTicketsBulk noon ''o1'' ''u1'' [''t1 '', ''t2'', ''t3'', ''t1''] lobby_history = (Inr r, s')"
    by (simp only: deleteHistoryTicketsBulk_def lobby_ids Let_def bind_step [of "svc_read _" lobby_history, OF check]
        bind_step [of "with_tenant _" lobby_history, OF tx] list.distinct if_False n x'
        prod.case after [unfolded after_def])
  have ids: "map tk_id (q_tickets lobby_history) = [''t1'', ''t2'', ''t3'']" by (simp add: lobby_history_def demo_ticket_def)
  then have "distinct (map tk_id (q_tickets lobby_history))" by simp
  note facts = history_deletion_spares [OF run this]
  have "js_trim ` set [''t1 '', ''t2'', ''t3'', ''t1''] = {''t1'', ''t2'', ''t3''}" by code_simp
  then have "map (to_delete ''o1'' [''t1 '', ''t2'', ''t3'', ''t1'']) (q_tickets lobby_history) = [True, False, False]"
    by (simp add: to_delete_def lobby_history_def demo_ticket_def active_statuses_def)
  then have "map tk_id (q_tickets s') = [''t2'', ''t3'']" "bk_deleted r = 1"
    using facts by (auto simp: lobby_history_def demo_ticket_def)
  with run show ?thesis by (intro exI conjI)
qed

section \<open>Forgotten tickets\<close>

text \<open>Only a ticket whose minutes are whole numbers can be written.\<close>

definition whole_minutes :: "time \<Rightarrow> queue_ticket \<Rightarrow> bool" where
  "whole_minutes now t \<longleftrightarrow> 60000 dvd wait_ms now t \<and> 60000 dvd service_ms now t"

definition expire_row :: "time \<Rightarrow> queue_ticket \<Rightarrow> queue_ticket \<Rightarrow> queue_ticket" where
  "expire_row now t x = (if whole_minutes now t \<and> tk_id x = tk_id t then expired now t x else x)"

lemma expire_row_id [simp]: "tk_id (expire_row now t x) = tk_id x"
  by (simp add: expire_row_def expired_def)

lemma expire_one_run: "\<exists>u. expire_one now t s = (Inr (), u) \<and> q_tickets u = map (expire_row now t) (q_tickets s)"
proof (cases "whole_minutes now t")
  case False
  then have "expire_row now t = (\<lambda>x. x)" by (intro ext) (simp add: expire_row_def)
  with False show ?thesis
    by (auto simp: expire_one_def whole_minutes_def [symmetric] svc_catch_def with_tenant_def tx_throw_def svc_return_def)
next
  case True
  show ?thesis
  proof (cases "List.find (\<lambda>x. tk_id x = tk_id t) (q_tickets s)")
    case None
    then have "map (expire_row now t) (q_tickets s) = q_tickets s" by (auto simp: find_None_iff expire_row_def intro: map_idI)
    with True None show ?thesis
      by (simp add: expire_one_def whole_minutes_def [symmetric] svc_catch_def with_tenant_def tx_bind_def tx_update_one_def svc_return_def)
  next
    case (Some x)
    have "map (expire_row now t) rows = update_rows (\<lambda>x. tk_id x = tk_id t) (expired now t) rows" for rows
      using True by (simp add: expire_row_def update_rows_def)
    with True Some show ?thesis
      by (simp add: expire_one_def whole_minutes_def [symmetric] svc_catch_def with_tenant_def tx_bind_def tx_update_one_def tx_return_def)
  qed
qed

lemma expire_all_run:
  "\<exists>u. svc_foreach ts (expire_one now) s = (Inr (), u) \<and> q_tickets u = map (fold (expire_row now) ts) (q_tickets s)"
proof (induction ts arbitrary: s)
  case (Cons t ts)
  obtain v where v: "expire_one now t s = (Inr (), v)" "q_tickets v = map (expire_row now t) (q_tickets s)"
    using expire_one_run by blast
  with Cons.IH [of v] show ?case by (auto simp: svc_bind_def)
qed (simp add: svc_return_def)

lemma fold_expire_other: "tk_id x \<notin> tk_id ` set ts \<Longrightarrow> fold (expire_row now) ts x = x"
  by (induction ts) (simp_all add: expire_row_def)

lemma fold_expire_own:
  assumes "distinct (map tk_id ts)" and "x \<in> set ts"
  shows "fold (expire_row now) ts x = expire_row now x x"
  using assms
proof (induction ts)
  case (Cons t ts)
  show ?case
  proof (cases "x = t")
    case True
    then have "tk_id (expire_row now x x) \<notin> tk_id ` set ts" using Cons.prems(1) by simp
    then show ?thesis using True by (simp add: fold_expire_other)
  next
    case False
    with Cons.prems have "x \<in> set ts" "tk_id t \<notin> tk_id ` set ts" by simp_all
    then have "tk_id x \<noteq> tk_id t" by (metis imageI)
    then have "expire_row now t x = x" by (simp add: expire_row_def)
    then show ?thesis using Cons False by simp
  qed
qed simp

text \<open>
  Expiry reports all tickets that were called before the threshold and are still called or being served; it
  turns into a no-show, with their times, just those of them whose minutes of waiting and of service are whole.
\<close>

theorem expiry_exact:
  assumes "distinct (map tk_id (q_tickets s))"
  shows "\<exists>s'. expireStaleTickets e threshold s =
      (Inr (int (length (filter (forgotten (qe_now e - threshold * 60 * 1000)) (q_tickets s)))), s') \<and>
    q_tickets s' = map (\<lambda>t. if forgotten (qe_now e - threshold * 60 * 1000) t \<and> whole_minutes (qe_now e) t
      then expired (qe_now e) t t else t) (q_tickets s)"
proof -
  let ?old = "forgotten (qe_now e - threshold * 60 * 1000)"
  let ?ts = "filter ?old (q_tickets s)"
  obtain u where u: "svc_foreach ?ts (expire_one (qe_now e)) s = (Inr (), u)"
    "q_tickets u = map (fold (expire_row (qe_now e)) ?ts) (q_tickets s)" using expire_all_run by blast
  let ?rest = "svc_bind (svc_foreach (firsts (map (\<lambda>t. (tk_orgId t, tk_branchId t, tk_queueId t)) ?ts))
       (\<lambda>(org, b, q). q_log (InvalidateStats org b [q]))) (\<lambda>_. svc_return (int (length ?ts)))"
  have fine: "never_fails (svc_foreach xs (\<lambda>(org, b, q). q_log (InvalidateStats org b [q])))" for xs
    by (intro never_fails_foreach) (auto simp: never_fails_basic split: prod.split)
  obtain v where v: "svc_foreach (firsts (map (\<lambda>t. (tk_orgId t, tk_branchId t, tk_queueId t)) ?ts))
       (\<lambda>(org, b, q). q_log (InvalidateStats org b [q])) u = (Inr (), v)" 
    using never_fails_unit [OF fine] by (rule exE)
  have run: "expireStaleTickets e threshold s = (Inr (int (length ?ts)), v)"
    unfolding expireStaleTickets_def svc_read_def Let_def
    by (simp only: bind_step [of "svc_foreach _ _" s, OF u(1)] bind_step [of "svc_foreach _ _" u, OF v] svc_return_def)
  have "q_tickets v = q_tickets u" using v by (rule same_tickets [rotated]) (intro pres_intros)
  moreover have "distinct (map tk_id ?ts)" using assms by (simp add: distinct_map_filter)
  then have "fold (expire_row (qe_now e)) ?ts x = (if ?old x \<and> whole_minutes (qe_now e) x then expired (qe_now e) x x else x)"
    if "x \<in> set (q_tickets s)" for x
  proof (cases "?old x")
    case True
    with \<open>distinct (map tk_id ?ts)\<close> that show ?thesis by (simp add: fold_expire_own expire_row_def)
  next
    case False
    have "inj_on tk_id (set (q_tickets s))" using assms by (simp add: distinct_map)
    with False that have "tk_id x \<notin> tk_id ` set ?ts" by (auto dest: inj_onD)
    with False show ?thesis by (simp add: fold_expire_other)
  qed
  ultimately show ?thesis using run u(2) by (intro exI [of _ v]) simp
qed

text \<open>Two tickets called at about the same time, one of them half a second later.\<close>

definition half_second :: qdb where
  "half_second = (lobby [])\<lparr>q_tickets := map (\<lambda>(i, c). (demo_ticket i ''b1'')\<lparr>tk_status := ''called'', tk_bookedAt := 1709190000000,
     tk_calledAt := Some c\<rparr>) [(''t1'', 1709193600000), (''t2'', 1709193600500)]\<rparr>"

theorem expiry_exact_witness:
  "\<exists>s'. expireStaleTickets noon 60 half_second = (Inr 2, s') \<and> map tk_status (q_tickets s') = [''no_show'', ''called'']"
proof -
  have "distinct (map tk_id (q_tickets half_second))" by (simp add: half_second_def demo_ticket_def)
  from expiry_exact [OF this, of noon 60] show ?thesis
    by (auto simp: half_second_def demo_ticket_def noon_def forgotten_def whole_minutes_def wait_ms_def service_ms_def began_def expired_def)
qed

section \<open>Earlier days\<close>

lemma floor_tickets: "q_tickets (snd (branch_floor e b s)) = q_tickets s"
  by (auto simp: branch_floor_def resolveBranchIanaZone_def resolveOrgIanaZone_def through_cache_def q_cache_set_def Let_def
      split: option.splits prod.splits if_splits)

definition closed_now :: "time \<Rightarrow> queue_ticket \<Rightarrow> queue_ticket" where
  "closed_now now t = t\<lparr>tk_status := ''no_show'', tk_completedAt := Some now\<rparr>"

lemma close_left_run:
  assumes "close_left_tx now branch fl s = Inr (rows, t)" and "distinct (map tk_id (q_tickets s))"
  shows "rows = filter (left_waiting branch fl) (q_tickets s)"
    "q_tickets t = map (\<lambda>x. if left_waiting branch fl x then closed_now now x else x) (q_tickets s)"
proof -
  let ?rows = "filter (left_waiting branch fl) (q_tickets s)"
  have "closed_now now = (\<lambda>t. t\<lparr>tk_status := ''no_show'', tk_completedAt := Some now\<rparr>)" by (intro ext) (simp add: closed_now_def)
  with assms(1) have run: "rows = ?rows" "t = (if ?rows = [] then s else q_tickets_update (update_rows (\<lambda>x. tk_id x \<in> tk_id ` set ?rows) (closed_now now)) s)"
    by (auto simp: close_left_tx_def tx_read_def tx_bind_Inr_iff tx_return_def tx_modify_def Let_def split: if_splits)
  then show "rows = ?rows" by simp
  have "inj_on tk_id (set (q_tickets s))" using assms(2) by (simp add: distinct_map)
  then have key: "tk_id x \<in> tk_id ` set ?rows \<longleftrightarrow> left_waiting branch fl x" if "x \<in> set (q_tickets s)" for x
    using that by (auto dest: inj_onD)
  show "q_tickets t = map (\<lambda>x. if left_waiting branch fl x then closed_now now x else x) (q_tickets s)"
  proof (cases "?rows = []")
    case True
    then have "map (\<lambda>x. if left_waiting branch fl x then closed_now now x else x) (q_tickets s) = q_tickets s"
      by (auto simp: filter_empty_conv intro: map_idI)
    with True show ?thesis using run by simp
  next
    case False
    with run key show ?thesis by (auto simp: update_rows_def)
  qed
qed

text \<open>
  Closing the earlier days of a branch turns its waiting tickets that were booked before the start of the
  branch's day into no-shows, changes no other ticket, leaves none of them waiting, and returns just what a dry
  run announces.
\<close>

theorem prior_days_closed:
  assumes "close_branch e False b s = (Inr rows, s')" and "distinct (map tk_id (q_tickets s))"
  shows "rows = filter (left_waiting (br_id b) (fst (branch_floor e b s))) (q_tickets s) \<and>
    q_tickets s' = map (\<lambda>t. if left_waiting (br_id b) (fst (branch_floor e b s)) t then closed_now (qe_now e) t else t) (q_tickets s) \<and>
    filter (left_waiting (br_id b) (fst (branch_floor e b s))) (q_tickets s') = [] \<and>
    fst (close_branch e True b s) = Inr rows"
proof -
  obtain fl s1 where fl: "branch_floor e b s = (fl, s1)" by (cases "branch_floor e b s")
  then have s1: "q_tickets s1 = q_tickets s" using floor_tickets [of e b s] by simp
  have get: "svc_get (branch_floor e b) s = (Inr fl, s1)" by (simp add: svc_get_def fl)
  let ?tx = "close_left_tx (qe_now e) (br_id b) fl"
  let ?rest = "\<lambda>rows. svc_bind (svc_foreach rows (\<lambda>t. q_log (Publish [''queue:'' @ tk_queueId t] ''ticket.no_show'' (tk_id t)))) (\<lambda>_.
       svc_bind (svc_foreach (firsts (filter truthy_str (map tk_visitId rows))) (refresh_quietly e (br_orgId b))) (\<lambda>_. svc_return rows))"
  from assms(1) have "svc_bind (with_tenant ?tx) ?rest s1 = (Inr rows, s')"
    unfolding close_branch_def by (simp only: bind_step [of "svc_get _" s, OF get] if_False)
  then obtain r t where tx: "?tx s1 = Inr (r, t)" and rest: "?rest r t = (Inr rows, s')"
    by (auto simp: svc_bind_def [of "with_tenant _"] with_tenant_def split: sum.splits)
  have "q_tickets s' = q_tickets t" using rest by (rule same_tickets [rotated]) (intro pres_intros)
  moreover have "rows = r" using rest by (auto simp: svc_bind_def svc_return_def split: prod.splits sum.splits)
  moreover have "fst (close_branch e True b s) = Inr (filter (left_waiting (br_id b) fl) (q_tickets s))"
    unfolding close_branch_def by (simp add: bind_step [of "svc_get _" s, OF get] svc_read_def svc_return_def s1)
  moreover have "\<not> left_waiting (br_id b) fl (closed_now (qe_now e) x)" for x by (simp add: left_waiting_def closed_now_def)
  ultimately show ?thesis using close_left_run [OF tx, unfolded s1, OF assms(2)] fl by (auto simp: filter_map comp_def filter_empty_conv)
qed

lemma never_fails_close: "never_fails (close_branch e dry b)"
proof -
  have "never_fails (svc_get g)" for g :: "qdb \<Rightarrow> time \<times> qdb" by (simp add: never_fails_def svc_get_def split_def)
  moreover have "never_fails (with_tenant (close_left_tx now branch fl))" for now branch fl
    by (auto simp: never_fails_def with_tenant_def close_left_tx_def tx_read_def tx_bind_def tx_return_def tx_modify_def Let_def)
  moreover have "never_fails (svc_read (\<lambda>s. svc_return (f s)))" for f :: "qdb \<Rightarrow> queue_ticket list"
    by (simp add: never_fails_def svc_read_def svc_return_def)
  ultimately show ?thesis unfolding close_branch_def refresh_quietly_def by (intro never_fails_intros)
qed

definition day_before :: qdb where
  "day_before = lobby [(demo_ticket ''t1'' ''b1'')\<lparr>tk_bookedAt := 1709100000000\<rparr>, demo_ticket ''t2'' ''b1'']"

theorem prior_days_closed_witness:
  "\<exists>rows s'. close_branch noon False (demo_branch ''UTC'') day_before = (Inr rows, s') \<and> map tk_id rows = [''t1''] \<and>
     map tk_status (q_tickets s') = [''no_show'', ''waiting'']"
proof -
  have "js_trim ''UTC'' = ''UTC''" by code_simp
  then have fl: "branch_floor noon (demo_branch ''UTC'') day_before = (1709164800000, day_before)"
    by (simp add: branch_floor_def resolveBranchIanaZone_def through_cache_def q_cache_get_def day_before_def lobby_def
        demo_branch_def normalizeOrgIanaZone_def noon_def demo_qenv_def Let_def)
  obtain rows s' where run: "close_branch noon False (demo_branch ''UTC'') day_before = (Inr rows, s')"
    using never_fails_close [of noon False "demo_branch ''UTC''"] unfolding never_fails_def by (elim allE [of _ day_before] exE)
  have ids: "distinct (map tk_id (q_tickets day_before))" by (simp add: day_before_def lobby_def demo_ticket_def)
  have id: "br_id (demo_branch ''UTC'') = ''b1''" by (simp add: demo_branch_def)
  have ts: "q_tickets day_before = [(demo_ticket ''t1'' ''b1'')\<lparr>tk_bookedAt := 1709100000000\<rparr>, demo_ticket ''t2'' ''b1'']"
    by (simp add: day_before_def lobby_def)
  from prior_days_closed [OF run ids, unfolded fl fst_conv id ts] run show ?thesis
    by (intro exI [of _ rows] exI [of _ s'] conjI) (simp_all add: left_waiting_def closed_now_def demo_ticket_def)
qed

end
