(* ===== verification/Identity.thy ===== *)
theory Identity
  imports Guard
begin

text \<open>
  The tables and the surroundings of authentication: global accounts, their memberships in
  organisations (\<open>users\<close>), login sessions, reset and verification records, the cache of users and the
  list of ended impersonations in Redis, and what is sent and recorded. The cryptographic libraries
  (\<^verbatim>\<open>bcrypt\<close>, \<^verbatim>\<open>jsonwebtoken\<close>, \<^verbatim>\<open>otplib\<close>, the hash and the random numbers of \<^verbatim>\<open>crypto\<close>) are
  functions of the environment.
\<close>

section \<open>Tables\<close>

text \<open>\<open>email\<close> is unique.\<close>

record identity_account =
  ia_id :: uuid
  ia_email :: string
  ia_passwordHash :: string
  ia_emailVerified :: bool

record membership =
  mu_id :: uuid
  mu_accountId :: "uuid option"
  mu_orgId :: uuid
  mu_email :: string
  mu_passwordHash :: string
  mu_firstName :: "string option"
  mu_lastName :: "string option"
  mu_emailVerified :: bool
  mu_status :: string
  mu_lastLoginAt :: "time option"
  mu_twoFactorSecret :: "string option"
  mu_twoFactorEnabled :: bool
  mu_twoFactorBackupHashes :: "string list option"
  mu_adminTwoFactorSecret :: "string option"
  mu_adminTwoFactorEnabled :: bool
  mu_adminTwoFactorBackupHashes :: "string list option"

text \<open>\<open>slug\<close> is unique.\<close>

record organization =
  oz_id :: uuid
  oz_name :: string
  oz_slug :: string
  oz_status :: string
  oz_productSku :: string
  oz_onboardingStep :: string
  oz_timezone :: string

record login_session =
  ls_id :: uuid
  ls_userId :: uuid
  ls_tokenHash :: string
  ls_ipAddress :: "string option"
  ls_userAgent :: "string option"
  ls_expiresAt :: time
  ls_revokedAt :: "time option"

record password_reset =
  pw_id :: uuid
  pw_userId :: uuid
  pw_tokenHash :: string
  pw_expiresAt :: time
  pw_usedAt :: "time option"

record email_verification =
  ew_id :: uuid
  ew_userId :: uuid
  ew_tokenHash :: string
  ew_expiresAt :: time
  ew_verifiedAt :: "time option"

text \<open>What the cache keeps of a user and of its organisation.\<close>

record cached_user =
  kc_id :: uuid
  kc_orgId :: uuid
  kc_email :: string
  kc_status :: string
  kc_orgStatus :: string
  kc_orgSlug :: string

section \<open>Effects\<close>

text \<open>
  \<open>ad_platform\<close> holds the tables of the queue platform in the same database: roles, assignments and
  branches are read there. The metadata of an audit row is left out.\<close>

datatype auth_effect =
    Audited string "string option" string "uuid option" "uuid option" string
  | Mailed uuid string string
  | ActivityLogged uuid uuid string
  | AuditLogged uuid uuid string
  | RolesSynced uuid
  | Impersonating uuid uuid bool

record auth_db =
  ad_accounts :: "identity_account list"
  ad_users :: "membership list"
  ad_orgs :: "organization list"
  ad_sessions :: "login_session list"
  ad_resets :: "password_reset list"
  ad_verifications :: "email_verification list"
  ad_cache :: "(uuid \<times> cached_user \<times> time) list"
  ad_blacklist :: "(string \<times> time option) list"
  ad_effects :: "auth_effect list"
  ad_platform :: qdb

type_synonym 'a auth = "(auth_db, 'a) svc"
type_synonym 'a auth_tx = "(auth_db, 'a) tx"

section \<open>Tokens and the environment\<close>

text \<open>The claims of a signed token. A pending second factor carries a subject and a type alone.\<close>

record jwt_claims =
  cl_sub :: uuid
  cl_typ :: "string option"
  cl_orgId :: "uuid option"
  cl_orgSlug :: "string option"
  cl_email :: "string option"
  cl_imp :: bool
  cl_actAsOrgId :: "uuid option"
  cl_actAsRole :: "string option"
  cl_actAsBranchId :: "uuid option"
  cl_jti :: "string option"

text \<open>
  \<open>ae_sign\<close> takes the claims, the secret, the time of signing in seconds and the lifetime in seconds;
  \<open>ae_verify\<close> the token, the secret and the time in seconds. A lifetime that is not configured is zero.
\<close>

record auth_env =
  ae_now :: time
  ae_appEnv :: string
  ae_nodeEnv :: string
  ae_jwtSecret :: string
  ae_refreshSecret :: string
  ae_accessTtl :: int
  ae_refreshTtl :: int
  ae_impersonationTtl :: "int option"
  ae_cacheTtl :: "string option"
  ae_operatorIds :: "string option"
  ae_operatorEmails :: "string option"
  ae_appUrl :: string
  ae_ip :: "string option"
  ae_userAgent :: "string option"
  ae_redisUp :: bool
  ae_mailerUp :: bool
  ae_newId :: uuid
  ae_newAccountId :: uuid
  ae_newToken :: string
  ae_newSecret :: string
  ae_newCodes :: "string list"
  ae_compare :: "string \<Rightarrow> string \<Rightarrow> bool"
  ae_bcrypt :: "string \<Rightarrow> string"
  ae_sha256 :: "string \<Rightarrow> string"
  ae_totp :: "string \<Rightarrow> string \<Rightarrow> time \<Rightarrow> bool"
  ae_sign :: "jwt_claims \<Rightarrow> string \<Rightarrow> int \<Rightarrow> int \<Rightarrow> string"
  ae_verify :: "string \<Rightarrow> string \<Rightarrow> int \<Rightarrow> jwt_claims option"

definition seconds :: "time \<Rightarrow> int" where
  "seconds t = t div 1000"

text \<open>\<open>configured || default\<close> on numbers.\<close>

definition or_default :: "int \<Rightarrow> int \<Rightarrow> int" where
  "or_default n d = (if n = 0 then d else n)"

section \<open>Operators of the platform\<close>

definition parseCsvEnv :: "string option \<Rightarrow> string list" where
  "parseCsvEnv v = filter (\<lambda>x. x \<noteq> []) (map js_trim (str_split (CHR '','') (patched v [])))"

definition isPlatformOperator :: "auth_env \<Rightarrow> uuid \<Rightarrow> string \<Rightarrow> string \<Rightarrow> bool" where
  "isPlatformOperator e user email slug \<longleftrightarrow> slug = ''queueplatform-internal'' \<or>
     user \<in> set (parseCsvEnv (ae_operatorIds e)) \<or>
     (let em = to_lower (js_trim email) in
        em \<noteq> [] \<and> em \<in> set (map to_lower (parseCsvEnv (ae_operatorEmails e))))"

section \<open>The audit trail\<close>

definition WARNING_OUTCOMES :: "string set" where
  "WARNING_OUTCOMES = {''invalid_credentials'', ''unknown_email'', ''account_user_email_mismatch'', ''not_owner'',
     ''user_suspended'', ''email_unverified'', ''email_already_verified'', ''invalid_2fa_session'', ''invalid_2fa_code'',
     ''2fa_not_required'', ''org_not_available'', ''invalid_reset_token'', ''invalid_verify_token'',
     ''invalid_password_format'', ''wrong_current_password'', ''same_as_current'', ''email_in_use'',
     ''platform_admin_only'', ''already_registered''}"

definition CRITICAL_OUTCOMES :: "string set" where
  "CRITICAL_OUTCOMES = {''org_suspended'', ''email_queue_failed''}"

definition defaultSeverity :: "string \<Rightarrow> string \<Rightarrow> string" where
  "defaultSeverity event outcome =
     (if outcome \<in> CRITICAL_OUTCOMES then ''critical''
      else if outcome \<in> WARNING_OUTCOMES \<or> str_contains ''failed'' event then ''warning'' else ''info'')"

definition auth_log :: "auth_effect \<Rightarrow> unit auth" where
  "auth_log ev = svc_modify (ad_effects_update (\<lambda>es. es @ [ev]))"

definition recordAuthAudit ::
  "string \<Rightarrow> string \<Rightarrow> string option \<Rightarrow> uuid option \<Rightarrow> uuid option \<Rightarrow> string \<Rightarrow> unit auth" where
  "recordAuthAudit event email severity actor org outcome =
     (let em = to_lower (js_trim email) in
      auth_log (Audited event (if em = [] then None else Some em)
        (patched severity (defaultSeverity event outcome)) actor org outcome))"

text \<open>An audit row, then the exception: how every refusal of these services reads.\<close>

definition refuse :: "unit auth \<Rightarrow> error \<Rightarrow> 'a auth" where
  "refuse audit err = svc_bind audit (\<lambda>_. svc_throw err)"

section \<open>Rows with their relations\<close>

definition org_by_id :: "uuid \<Rightarrow> auth_db \<Rightarrow> organization option" where
  "org_by_id i s = List.find (\<lambda>g. oz_id g = i) (ad_orgs s)"

definition user_by_id :: "uuid \<Rightarrow> auth_db \<Rightarrow> membership option" where
  "user_by_id i s = List.find (\<lambda>u. mu_id u = i) (ad_users s)"

definition account_by_email :: "string \<Rightarrow> auth_db \<Rightarrow> identity_account option" where
  "account_by_email email s = List.find (\<lambda>a. ia_email a = email) (ad_accounts s)"

text \<open>\<open>include: { organization: true, account: true }\<close>; the organisation is a required relation.\<close>

record member =
  mb_user :: membership
  mb_org :: organization
  mb_account :: "identity_account option"

definition account_of :: "membership \<Rightarrow> auth_db \<Rightarrow> identity_account option" where
  "account_of u s = (case mu_accountId u of None \<Rightarrow> None | Some i \<Rightarrow> List.find (\<lambda>a. ia_id a = i) (ad_accounts s))"

definition with_relations :: "auth_db \<Rightarrow> membership \<Rightarrow> error + member" where
  "with_relations s u = (case org_by_id (mu_orgId u) s of
       None \<Rightarrow> Inl InconsistentResult
     | Some g \<Rightarrow> Inr \<lparr>mb_user = u, mb_org = g, mb_account = account_of u s\<rparr>)"

fun all_with_relations :: "auth_db \<Rightarrow> membership list \<Rightarrow> error + member list" where
  "all_with_relations s [] = Inr []"
| "all_with_relations s (u # us) = (case with_relations s u of
       Inl err \<Rightarrow> Inl err
     | Inr m \<Rightarrow> (case all_with_relations s us of Inl err \<Rightarrow> Inl err | Inr ms \<Rightarrow> Inr (m # ms)))"

text \<open>The result of a query, or the error of the database client.\<close>

definition auth_lift :: "error + 'a \<Rightarrow> 'a auth" where
  "auth_lift r = (case r of Inl err \<Rightarrow> svc_throw err | Inr a \<Rightarrow> svc_return a)"

definition member_by_id :: "uuid \<Rightarrow> auth_db \<Rightarrow> error + member option" where
  "member_by_id i s = (case user_by_id i s of
       None \<Rightarrow> Inr None
     | Some u \<Rightarrow> (case with_relations s u of Inl err \<Rightarrow> Inl err | Inr m \<Rightarrow> Inr (Some m)))"

definition resolvedEmailVerified :: "member \<Rightarrow> bool" where
  "resolvedEmailVerified m \<longleftrightarrow>
     (case mb_account m of None \<Rightarrow> False | Some a \<Rightarrow> ia_emailVerified a) \<or> mu_emailVerified (mb_user m)"

text \<open>One row of \<open>users\<close> is changed; \<open>update\<close> throws when there is none.\<close>

definition update_user :: "uuid \<Rightarrow> (membership \<Rightarrow> membership) \<Rightarrow> unit auth" where
  "update_user i f = svc_bind (with_tenant (tx_update_one ad_users ad_users_update (\<lambda>u. mu_id u = i) f))
     (\<lambda>_. svc_return ())"

end
