(* ===== verification/Login.thy ===== *)
theory Login
  imports Identity
begin

text \<open>
  Signing in: \<^verbatim>\<open>AuthTokenService\<close>, \<^verbatim>\<open>AuthLoginService\<close>, the rules of the second factor they use
  (\<^verbatim>\<open>two-factor.util.ts\<close>, \<^verbatim>\<open>admin-two-factor-account.util.ts\<close>) and the check of a bearer token on
  every request (\<^verbatim>\<open>JwtStrategy\<close> with its cache).
\<close>

section \<open>Tokens\<close>

record token_pair =
  tp_accessToken :: string
  tp_refreshToken :: string
  tp_expiresIn :: int

definition user_claims :: "uuid \<Rightarrow> uuid \<Rightarrow> string \<Rightarrow> string \<Rightarrow> jwt_claims" where
  "user_claims user org slug email = \<lparr>cl_sub = user, cl_typ = None, cl_orgId = Some org, cl_orgSlug = Some slug,
     cl_email = Some email, cl_imp = False, cl_actAsOrgId = None, cl_actAsRole = None, cl_actAsBranchId = None,
     cl_jti = None\<rparr>"

definition signed :: "auth_env \<Rightarrow> jwt_claims \<Rightarrow> string \<Rightarrow> int \<Rightarrow> string" where
  "signed e c secret ttl = ae_sign e c secret (seconds (ae_now e)) ttl"

definition verified :: "auth_env \<Rightarrow> string \<Rightarrow> string \<Rightarrow> jwt_claims option" where
  "verified e token secret = ae_verify e token secret (seconds (ae_now e))"

definition refresh_token :: "auth_env \<Rightarrow> jwt_claims \<Rightarrow> string" where
  "refresh_token e c = signed e c (ae_refreshSecret e) (or_default (ae_refreshTtl e) 2592000)"

definition new_session :: "auth_env \<Rightarrow> uuid \<Rightarrow> string \<Rightarrow> login_session" where
  "new_session e user token = \<lparr>ls_id = ae_newId e, ls_userId = user, ls_tokenHash = ae_sha256 e token,
     ls_ipAddress = ae_ip e, ls_userAgent = ae_userAgent e,
     ls_expiresAt = ae_now e + or_default (ae_refreshTtl e) 604800 * 1000, ls_revokedAt = None\<rparr>"

definition generateTokenPair :: "auth_env \<Rightarrow> uuid \<Rightarrow> uuid \<Rightarrow> string \<Rightarrow> string \<Rightarrow> token_pair auth" where
  "generateTokenPair e user org slug email =
     (let payload = user_claims user org slug email; token = refresh_token e payload in
      svc_bind (svc_modify (ad_sessions_update (\<lambda>xs. xs @ [new_session e user token]))) (\<lambda>_.
      svc_return \<lparr>tp_accessToken = signed e payload (ae_jwtSecret e) (or_default (ae_accessTtl e) 900),
        tp_refreshToken = token, tp_expiresIn = or_default (ae_accessTtl e) 900\<rparr>))"

definition live_session :: "auth_env \<Rightarrow> uuid \<Rightarrow> login_session \<Rightarrow> bool" where
  "live_session e user x \<longleftrightarrow> ls_userId x = user \<and> ls_revokedAt x = None \<and> ae_now e < ls_expiresAt x"

definition findMatchingSession :: "auth_env \<Rightarrow> login_session list \<Rightarrow> string \<Rightarrow> login_session option" where
  "findMatchingSession e xs token = List.find (\<lambda>x. ls_tokenHash x = ae_sha256 e token) xs"

definition revoke :: "auth_env \<Rightarrow> login_session \<Rightarrow> login_session" where
  "revoke e x = x\<lparr>ls_revokedAt := Some (ae_now e)\<rparr>"

definition invalid_refresh :: error where
  "invalid_refresh = Unauthorized ''Invalid refresh token''"

definition refresh_user :: "auth_env \<Rightarrow> string \<Rightarrow> auth_db \<Rightarrow> error + membership" where
  "refresh_user e token s = (case verified e token (ae_refreshSecret e) of None \<Rightarrow> Inl invalid_refresh
     | Some c \<Rightarrow> (case user_by_id (cl_sub c) s of None \<Rightarrow> Inl invalid_refresh
         | Some u \<Rightarrow> if mu_status u = ''suspended'' then Inl invalid_refresh else Inr u))"

definition refreshTokens :: "auth_env \<Rightarrow> string \<Rightarrow> (token_pair \<times> bool) auth" where
  "refreshTokens e token = svc_read (\<lambda>s.
     svc_bind (auth_lift (refresh_user e token s)) (\<lambda>u.
     case findMatchingSession e (filter (live_session e (mu_id u)) (ad_sessions s)) token of
       None \<Rightarrow> svc_throw (Unauthorized ''Session expired or revoked - please log in again'')
     | Some x \<Rightarrow> svc_bind (svc_modify (ad_sessions_update (update_rows (\<lambda>y. ls_id y = ls_id x) (revoke e)))) (\<lambda>_.
         let slug = (case org_by_id (mu_orgId u) s of None \<Rightarrow> [] | Some g \<Rightarrow> oz_slug g) in
         svc_bind (generateTokenPair e (mu_id u) (mu_orgId u) slug (mu_email u)) (\<lambda>tokens.
         svc_return (tokens, isPlatformOperator e (mu_id u) (mu_email u) slug)))))"

section \<open>The second factor\<close>

definition no_spaces :: "string \<Rightarrow> string" where
  "no_spaces x = filter (\<lambda>c. \<not> is_js_space c) x"

definition verifyTotp :: "auth_env \<Rightarrow> string \<Rightarrow> string \<Rightarrow> bool" where
  "verifyTotp e secret token = (let t = no_spaces token in 6 \<le> length t \<and> ae_totp e secret t (ae_now e))"

definition hashBackupCode :: "auth_env \<Rightarrow> string \<Rightarrow> string" where
  "hashBackupCode e code = ae_sha256 e (js_trim (to_upper code))"

definition compareBackupCode :: "auth_env \<Rightarrow> string \<Rightarrow> string \<Rightarrow> bool" where
  "compareBackupCode e plain stored = (let normalized = js_trim (to_upper plain) in
     if starts_with ''$2'' stored then ae_compare e normalized stored
     else hashBackupCode e normalized = stored)"

record admin_factor =
  af_email :: string
  af_memberships :: "membership list"
  af_enabled :: bool
  af_enrollmentPending :: bool
  af_secret :: "string option"
  af_backupHashes :: "string list option"

definition pickAdminTwoFactorSource :: "membership list \<Rightarrow> membership option" where
  "pickAdminTwoFactorSource ms =
     (case List.find (\<lambda>m. mu_adminTwoFactorEnabled m \<and> truthy_str (mu_adminTwoFactorSecret m)) ms of
        Some m \<Rightarrow> Some m
      | None \<Rightarrow> (case List.find mu_adminTwoFactorEnabled ms of
          Some m \<Rightarrow> Some m
        | None \<Rightarrow> (case List.find (\<lambda>m. truthy_str (mu_adminTwoFactorSecret m) \<and> \<not> mu_adminTwoFactorEnabled m) ms of
            Some m \<Rightarrow> Some m
          | None \<Rightarrow> (case ms of [] \<Rightarrow> None | m # _ \<Rightarrow> Some m))))"

definition same_person :: "membership \<Rightarrow> membership \<Rightarrow> bool" where
  "same_person anchor m = (if truthy_str (mu_accountId anchor) then mu_accountId m = mu_accountId anchor
     else to_lower (mu_email m) = to_lower (mu_email anchor))"

definition loadAdminTwoFactorMemberships :: "uuid \<Rightarrow> auth_db \<Rightarrow> admin_factor option" where
  "loadAdminTwoFactorMemberships user s = (case user_by_id user s of
       None \<Rightarrow> None
     | Some anchor \<Rightarrow>
        (let ms = filter (same_person anchor) (ad_users s); on = (\<exists>m\<in>set ms. mu_adminTwoFactorEnabled m);
             source = pickAdminTwoFactorSource ms; secret = Option.bind source mu_adminTwoFactorSecret in
         Some \<lparr>af_email = mu_email anchor, af_memberships = ms, af_enabled = on,
           af_enrollmentPending = (truthy_str secret \<and> \<not> on), af_secret = secret,
           af_backupHashes = Option.bind source mu_adminTwoFactorBackupHashes\<rparr>))"

text \<open>Organisation by organisation, in one transaction.\<close>

definition syncAdminTwoFactorToMemberships :: "membership list \<Rightarrow> (membership \<Rightarrow> membership) \<Rightarrow> unit auth_tx" where
  "syncAdminTwoFactorToMemberships ms f = (if ms = [] then tx_return ()
     else tx_foreach (rev (remdups (rev (map mu_orgId ms)))) (\<lambda>org. tx_modify (ad_users_update
       (update_rows (\<lambda>u. mu_id u \<in> set (map mu_id ms) \<and> mu_orgId u = org) f))))"

text \<open>The place of the first stored hash that a backup code matches.\<close>

fun match_at :: "(string \<Rightarrow> bool) \<Rightarrow> string list \<Rightarrow> nat option" where
  "match_at P [] = None"
| "match_at P (h # hs) = (if P h then Some 0 else map_option Suc (match_at P hs))"

definition without :: "nat \<Rightarrow> 'a list \<Rightarrow> 'a list" where
  "without i xs = take i xs @ drop (Suc i) xs"

text \<open>\<open>remaining.length ? remaining : DbNull\<close>.\<close>

definition hashes_left :: "nat \<Rightarrow> string list \<Rightarrow> string list option" where
  "hashes_left i hs = (let rest = without i hs in if rest = [] then None else Some rest)"

section \<open>Signing in\<close>

text \<open>The view of the user and of the organisation that every sign-in answers with.\<close>

record user_view =
  uv_id :: uuid
  uv_email :: string
  uv_firstName :: "string option"
  uv_lastName :: "string option"
  uv_orgId :: uuid
  uv_emailVerified :: bool
  uv_role :: string
  uv_twoFactorEnabled :: bool
  uv_platformOperator :: bool

record org_view =
  ov_id :: uuid
  ov_name :: string
  ov_slug :: string
  ov_onboardingStep :: string
  ov_timezone :: string

datatype sign_in =
    ChooseOrganization "(uuid \<times> string \<times> string) list"
  | SecondFactor bool string user_view org_view
  | SignedIn user_view org_view token_pair

definition role_of_user :: "uuid \<Rightarrow> auth_db \<Rightarrow> string" where
  "role_of_user user s = (case List.find (\<lambda>r. ra_userId r = user) (q_roleAssignments (ad_platform s)) of
       None \<Rightarrow> ''viewer'' | Some r \<Rightarrow> ro_name (ra_role r))"

definition operates :: "auth_env \<Rightarrow> member \<Rightarrow> bool" where
  "operates e m \<longleftrightarrow> isPlatformOperator e (mu_id (mb_user m)) (mu_email (mb_user m)) (oz_slug (mb_org m))"

definition view_user :: "auth_env \<Rightarrow> string \<Rightarrow> member \<Rightarrow> user_view" where
  "view_user e role m = (let u = mb_user m in \<lparr>uv_id = mu_id u, uv_email = mu_email u, uv_firstName = mu_firstName u,
     uv_lastName = mu_lastName u, uv_orgId = mu_orgId u, uv_emailVerified = resolvedEmailVerified m, uv_role = role,
     uv_twoFactorEnabled = mu_twoFactorEnabled u, uv_platformOperator = operates e m\<rparr>)"

definition view_org :: "organization \<Rightarrow> org_view" where
  "view_org g = \<lparr>ov_id = oz_id g, ov_name = oz_name g, ov_slug = oz_slug g,
     ov_onboardingStep = oz_onboardingStep g, ov_timezone = oz_timezone g\<rparr>"

definition syncOrgRoles :: "uuid \<Rightarrow> unit auth" where
  "syncOrgRoles org = auth_log (RolesSynced org)"

text \<open>The account whose password this is.\<close>

definition authenticated_account :: "auth_env \<Rightarrow> string \<Rightarrow> identity_account option \<Rightarrow> uuid option" where
  "authenticated_account e password acc = (case acc of None \<Rightarrow> None
     | Some a \<Rightarrow> if ae_compare e password (ia_passwordHash a) then Some (ia_id a) else None)"

text \<open>The memberships whose own hash matches, where the account has not answered for them.\<close>

definition legacy_valid :: "auth_env \<Rightarrow> string \<Rightarrow> uuid option \<Rightarrow> member list \<Rightarrow> uuid list" where
  "legacy_valid e password auth ms = map (mu_id \<circ> mb_user) (filter (\<lambda>m.
     \<not> (truthy_str auth \<and> mu_accountId (mb_user m) = auth) \<and> ae_compare e password (mu_passwordHash (mb_user m))) ms)"

definition login_pool :: "auth_env \<Rightarrow> bool \<Rightarrow> uuid option \<Rightarrow> uuid list \<Rightarrow> member list \<Rightarrow> member list" where
  "login_pool e platform auth legacy ms = filter (\<lambda>m. platform \<longrightarrow> operates e m)
     (filter (\<lambda>m. truthy_str auth \<or> mu_id (mb_user m) \<in> set legacy) ms)"

definition login_failed :: "string \<Rightarrow> string \<Rightarrow> string \<Rightarrow> 'a auth" where
  "login_failed email outcome message = refuse
     (recordAuthAudit ''auth.login_failed'' email (Some ''warning'') None None outcome) (Unauthorized message)"

definition login_blocked :: "string \<Rightarrow> membership \<Rightarrow> string \<Rightarrow> string \<Rightarrow> string \<Rightarrow> 'a auth" where
  "login_blocked email u severity outcome message = refuse
     (recordAuthAudit ''auth.login_blocked'' email (Some severity) (Some (mu_id u)) (Some (mu_orgId u)) outcome)
     (Unauthorized message)"

definition wrong_credentials :: string where
  "wrong_credentials = ''Invalid email or password''"

text \<open>Which member signs in: \<open>Inl\<close> when the person has to choose first.\<close>

definition pick_member :: "auth_env \<Rightarrow> string \<Rightarrow> uuid option \<Rightarrow> member list \<Rightarrow> ((uuid \<times> string \<times> string) list + member) auth" where
  "pick_member e email org pool =
     (if truthy_str org then (case List.find (\<lambda>m. Some (mu_orgId (mb_user m)) = org) pool of
        None \<Rightarrow> login_failed email ''org_not_available'' ''The selected organization is not available for this account.''
      | Some m \<Rightarrow> svc_return (Inr m))
      else (case pool of [m] \<Rightarrow> svc_return (Inr m)
      | _ \<Rightarrow> svc_bind (recordAuthAudit ''auth.login_pending'' email None None None ''requires_org_selection'') (\<lambda>_.
          svc_return (Inl (map (\<lambda>m. (oz_id (mb_org m), oz_name (mb_org m), oz_slug (mb_org m))) pool)))))"

definition standing_suspended :: "string \<Rightarrow> member \<Rightarrow> unit auth" where
  "standing_suspended email m =
     (if mu_status (mb_user m) = ''suspended'' then login_blocked email (mb_user m) ''warning'' ''user_suspended''
        ''Your account has been suspended. Please contact your organization administrator.''
      else if oz_status (mb_org m) = ''suspended'' then login_blocked email (mb_user m) ''critical'' ''org_suspended''
        ''Your organization has been suspended. Please contact QPlatform support.''
      else svc_return ())"

definition check_standing :: "auth_env \<Rightarrow> string \<Rightarrow> member \<Rightarrow> unit auth" where
  "check_standing e email m =
     (if \<not> resolvedEmailVerified m \<and> ae_appEnv e = ''production'' then login_blocked email (mb_user m) ''warning''
        ''email_unverified'' ''Your email address has not been verified. Please check your inbox for a verification link.''
      else standing_suspended email m)"

definition ends_with :: "string \<Rightarrow> string \<Rightarrow> bool" where
  "ends_with suffix x \<longleftrightarrow> starts_with (rev suffix) (rev x)"

definition isE2E :: "membership \<Rightarrow> bool" where
  "isE2E u = ends_with ''@qms-e2e.test'' (mu_email u)"

definition requiresTwoFactor :: "bool \<Rightarrow> membership \<Rightarrow> auth_db \<Rightarrow> bool" where
  "requiresTwoFactor platform u s \<longleftrightarrow> \<not> isE2E u \<and>
     (if platform then (case loadAdminTwoFactorMemberships (mu_id u) s of None \<Rightarrow> False | Some f \<Rightarrow> af_enabled f)
      else mu_twoFactorEnabled u)"

definition pending_claims :: "bool \<Rightarrow> uuid \<Rightarrow> jwt_claims" where
  "pending_claims platform user = \<lparr>cl_sub = user, cl_typ = Some (if platform then ''2fa_pending_admin'' else ''2fa_pending''),
     cl_orgId = None, cl_orgSlug = None, cl_email = None, cl_imp = False, cl_actAsOrgId = None, cl_actAsRole = None,
     cl_actAsBranchId = None, cl_jti = None\<rparr>"

text \<open>The account takes the hash of the membership whose password was accepted in its place.\<close>

definition sync_password :: "identity_account option \<Rightarrow> uuid option \<Rightarrow> uuid list \<Rightarrow> membership \<Rightarrow> unit auth" where
  "sync_password acc auth legacy u = (case acc of
       Some a \<Rightarrow> if \<not> truthy_str auth \<and> mu_id u \<in> set legacy
         then svc_modify (ad_accounts_update (update_rows (\<lambda>x. ia_id x = ia_id a) (ia_passwordHash_update (\<lambda>_. mu_passwordHash u))))
         else svc_return ()
     | None \<Rightarrow> svc_return ())"

definition stamp_login :: "auth_env \<Rightarrow> uuid \<Rightarrow> unit auth" where
  "stamp_login e user = update_user user (mu_lastLoginAt_update (\<lambda>_. Some (ae_now e)))"

text \<open>The tokens of a member, after its roles have been brought up to date.\<close>

definition issue_tokens :: "auth_env \<Rightarrow> member \<Rightarrow> token_pair auth" where
  "issue_tokens e m = generateTokenPair e (mu_id (mb_user m)) (mu_orgId (mb_user m)) (oz_slug (mb_org m)) (mu_email (mb_user m))"

definition sign_member_in ::
  "auth_env \<Rightarrow> string \<Rightarrow> bool \<Rightarrow> identity_account option \<Rightarrow> uuid option \<Rightarrow> uuid list \<Rightarrow> member \<Rightarrow> sign_in auth" where
  "sign_member_in e email platform acc auth legacy m = svc_read (\<lambda>s.
     let u = mb_user m; role = role_of_user (mu_id u) s in
     if requiresTwoFactor platform u s then
       svc_bind (recordAuthAudit ''auth.login_2fa_required'' email None (Some (mu_id u)) (Some (mu_orgId u)) ''success'') (\<lambda>_.
       svc_return (SecondFactor platform (signed e (pending_claims platform (mu_id u)) (ae_jwtSecret e) 300)
         (view_user e role m) (view_org (mb_org m))))
     else
       svc_bind (sync_password acc auth legacy u) (\<lambda>_. svc_bind (stamp_login e (mu_id u)) (\<lambda>_.
       svc_bind (syncOrgRoles (mu_orgId u)) (\<lambda>_. svc_bind (issue_tokens e m) (\<lambda>tokens.
       svc_bind (recordAuthAudit ''auth.login_success'' email None (Some (mu_id u)) (Some (mu_orgId u)) ''success'') (\<lambda>_.
       svc_return (SignedIn (view_user e role m) (view_org (mb_org m)) tokens)))))))"

text \<open>The choice among the memberships of the address that the password opens.\<close>

definition choose_member ::
  "auth_env \<Rightarrow> string \<Rightarrow> uuid option \<Rightarrow> bool \<Rightarrow> identity_account option \<Rightarrow> uuid option \<Rightarrow> uuid list \<Rightarrow> member list \<Rightarrow>
   ((uuid \<times> string \<times> string) list + member) auth" where
  "choose_member e email org platform acc auth legacy ms = (let pool = login_pool e platform auth legacy ms in
     if ms = [] \<and> acc = None then login_failed email ''unknown_email'' wrong_credentials
     else if \<not> truthy_str auth \<and> legacy = [] then login_failed email ''invalid_credentials'' wrong_credentials
     else if pool = [] then (if platform
       then refuse (recordAuthAudit ''auth.login_blocked'' email (Some ''warning'') None None ''platform_admin_only'')
         (Unauthorized ''This sign-in is only for platform operators.'')
       else login_failed email ''invalid_credentials'' wrong_credentials)
     else pick_member e email org pool)"

definition enter ::
  "auth_env \<Rightarrow> string \<Rightarrow> bool \<Rightarrow> identity_account option \<Rightarrow> uuid option \<Rightarrow> uuid list \<Rightarrow>
   (uuid \<times> string \<times> string) list + member \<Rightarrow> sign_in auth" where
  "enter e email platform acc auth legacy choice = (case choice of
       Inl orgs \<Rightarrow> svc_return (ChooseOrganization orgs)
     | Inr m \<Rightarrow> svc_bind (check_standing e email m) (\<lambda>_. sign_member_in e email platform acc auth legacy m))"

definition login :: "auth_env \<Rightarrow> string \<Rightarrow> string \<Rightarrow> uuid option \<Rightarrow> bool \<Rightarrow> sign_in auth" where
  "login e email0 password org platform =
     (if email0 = [] \<or> password = [] then svc_throw (BadRequest ''Email and password are required'')
      else let email = to_lower email0 in svc_read (\<lambda>s.
        let acc = account_by_email email s; auth = authenticated_account e password acc in
        svc_bind (auth_lift (all_with_relations s (filter (\<lambda>u. to_lower (mu_email u) = email) (ad_users s)))) (\<lambda>ms.
        let legacy = legacy_valid e password auth ms in
        svc_bind (choose_member e email org platform acc auth legacy ms) (enter e email platform acc auth legacy))))"

section \<open>The second step of signing in\<close>

datatype code_check = Rejected | ByTotp | ByBackupCode "string list option"

text \<open>The code of the authenticator, or else a backup code, with the hashes that are left after it.\<close>

definition check_code :: "auth_env \<Rightarrow> string option \<Rightarrow> string list option \<Rightarrow> string \<Rightarrow> code_check" where
  "check_code e secret hashes code =
     (if truthy_str secret \<and> verifyTotp e (the secret) code then ByTotp
      else (case hashes of None \<Rightarrow> Rejected
        | Some hs \<Rightarrow> (case match_at (compareBackupCode e code) hs of
            None \<Rightarrow> Rejected | Some i \<Rightarrow> ByBackupCode (hashes_left i hs))))"

definition second_factor_failed :: "string \<Rightarrow> membership option \<Rightarrow> string \<Rightarrow> string \<Rightarrow> 'a auth" where
  "second_factor_failed email u outcome message = refuse
     (recordAuthAudit ''auth.login_2fa_failed'' email (Some ''warning'') (map_option mu_id u) (map_option mu_orgId u) outcome)
     (Unauthorized message)"

definition pending_session :: "auth_env \<Rightarrow> string \<Rightarrow> (uuid \<times> bool) auth" where
  "pending_session e token = (case verified e token (ae_jwtSecret e) of
       None \<Rightarrow> second_factor_failed ''unknown'' None ''invalid_2fa_session'' ''Invalid or expired two-factor session''
     | Some c \<Rightarrow> if cl_typ c = Some ''2fa_pending_admin'' then svc_return (cl_sub c, True)
         else if cl_typ c = Some ''2fa_pending'' then svc_return (cl_sub c, False)
         else second_factor_failed ''unknown'' None ''invalid_2fa_session'' ''Invalid two-factor session'')"

text \<open>Is there a second factor to be asked for? Its secret and the hashes of its backup codes.\<close>

definition factor_of :: "bool \<Rightarrow> membership \<Rightarrow> auth_db \<Rightarrow> (string option \<times> string list option) option" where
  "factor_of admin u s =
     (if admin then (case loadAdminTwoFactorMemberships (mu_id u) s of None \<Rightarrow> None
        | Some f \<Rightarrow> if af_enabled f then Some (af_secret f, af_backupHashes f) else None)
      else if mu_twoFactorEnabled u then Some (mu_twoFactorSecret u, mu_twoFactorBackupHashes u) else None)"

definition not_required :: "bool \<Rightarrow> string" where
  "not_required admin = (if admin then ''Admin Dashboard two-factor verification is not required for this account''
     else ''Two-factor verification is not required for this account'')"

text \<open>The hashes that are left are written for the user, or for every membership of the person.\<close>

definition spend_backup_code :: "bool \<Rightarrow> membership \<Rightarrow> string list option \<Rightarrow> unit auth" where
  "spend_backup_code admin u left =
     (if admin then svc_read (\<lambda>s. case loadAdminTwoFactorMemberships (mu_id u) s of
          None \<Rightarrow> svc_return ()
        | Some f \<Rightarrow> with_tenant (syncAdminTwoFactorToMemberships (af_memberships f)
            (mu_adminTwoFactorBackupHashes_update (\<lambda>_. left))))
      else update_user (mu_id u) (mu_twoFactorBackupHashes_update (\<lambda>_. left)))"

definition accept_code ::
  "auth_env \<Rightarrow> bool \<Rightarrow> membership \<Rightarrow> string option \<times> string list option \<Rightarrow> string \<Rightarrow> unit auth" where
  "accept_code e admin u factor code = (case check_code e (fst factor) (snd factor) (no_spaces code) of
       Rejected \<Rightarrow> second_factor_failed (mu_email u) (Some u) ''invalid_2fa_code'' ''Invalid authenticator code''
     | ByTotp \<Rightarrow> svc_return ()
     | ByBackupCode left \<Rightarrow> spend_backup_code admin u left)"

definition finish_second_step :: "auth_env \<Rightarrow> member \<Rightarrow> sign_in auth" where
  "finish_second_step e m = (let u = mb_user m in
     svc_bind (stamp_login e (mu_id u)) (\<lambda>_. svc_bind (syncOrgRoles (mu_orgId u)) (\<lambda>_.
     svc_read (\<lambda>s. let role = role_of_user (mu_id u) s in
     svc_bind (issue_tokens e m) (\<lambda>tokens.
     svc_bind (recordAuthAudit ''auth.login_2fa_success'' (mu_email u) None (Some (mu_id u)) (Some (mu_orgId u)) ''success'') (\<lambda>_.
     svc_return (SignedIn (view_user e role m) (view_org (mb_org m)) tokens)))))))"

definition completeTwoFactorLogin :: "auth_env \<Rightarrow> string \<Rightarrow> string \<Rightarrow> sign_in auth" where
  "completeTwoFactorLogin e token code = svc_bind (pending_session e token) (\<lambda>(user, admin). svc_read (\<lambda>s.
     svc_bind (auth_lift (member_by_id user s)) (\<lambda>found. case found of
       None \<Rightarrow> second_factor_failed ''unknown'' None ''invalid_2fa_session'' ''Invalid two-factor session''
     | Some m \<Rightarrow> (let u = mb_user m in
         svc_bind (standing_suspended (mu_email u) m) (\<lambda>_. case factor_of admin u s of
           None \<Rightarrow> second_factor_failed (mu_email u) (Some u) ''2fa_not_required'' (not_required admin)
         | Some factor \<Rightarrow> svc_bind (accept_code e admin u factor code) (\<lambda>_. finish_second_step e m))))))"

section \<open>The bearer token of a request\<close>

definition cache_ttl :: "auth_env \<Rightarrow> int" where
  "cache_ttl e = (case map_option js_trim (ae_cacheTtl e) of
       Some raw \<Rightarrow> if raw \<noteq> [] \<and> list_all is_digit raw then digits_value raw else 20 | None \<Rightarrow> 20)"

definition cache_enabled :: "auth_env \<Rightarrow> bool" where
  "cache_enabled e \<longleftrightarrow> 0 < cache_ttl e"

definition user_cache_get :: "auth_env \<Rightarrow> uuid \<Rightarrow> auth_db \<Rightarrow> cached_user option" where
  "user_cache_get e user s = (if cache_enabled e \<and> ae_redisUp e
     then map_option (fst \<circ> snd) (List.find (\<lambda>(k, c, until). k = user \<and> ae_now e < until) (ad_cache s)) else None)"

definition user_cache_set :: "auth_env \<Rightarrow> cached_user \<Rightarrow> unit auth" where
  "user_cache_set e c = (if cache_enabled e \<and> ae_redisUp e
     then svc_modify (ad_cache_update (\<lambda>cs. (kc_id c, c, ae_now e + cache_ttl e * 1000) # filter (\<lambda>x. fst x \<noteq> kc_id c) cs))
     else svc_return ())"

definition invalidate :: "auth_env \<Rightarrow> uuid \<Rightarrow> unit auth" where
  "invalidate e user = (if ae_redisUp e
     then svc_modify (ad_cache_update (filter (\<lambda>x. fst x \<noteq> user))) else svc_return ())"

definition cached :: "member \<Rightarrow> cached_user" where
  "cached m = \<lparr>kc_id = mu_id (mb_user m), kc_orgId = mu_orgId (mb_user m), kc_email = mu_email (mb_user m),
     kc_status = mu_status (mb_user m), kc_orgStatus = oz_status (mb_org m), kc_orgSlug = oz_slug (mb_org m)\<rparr>"

definition resolveUser :: "auth_env \<Rightarrow> uuid \<Rightarrow> cached_user option auth" where
  "resolveUser e user = svc_read (\<lambda>s. case user_cache_get e user s of
       Some c \<Rightarrow> svc_return (Some c)
     | None \<Rightarrow> svc_bind (auth_lift (member_by_id user s)) (\<lambda>found. case found of
           None \<Rightarrow> svc_return None
         | Some m \<Rightarrow> svc_bind (user_cache_set e (cached m)) (\<lambda>_. svc_return (Some (cached m)))))"

text \<open>The principal that the guards read, with what else \<open>validate\<close> answers.\<close>

record signed_user = principal +
  su_email :: string
  su_jti :: "string option"

definition blacklisted :: "auth_env \<Rightarrow> string \<Rightarrow> auth_db \<Rightarrow> bool" where
  "blacklisted e jti s \<longleftrightarrow> ae_redisUp e \<and>
     (\<exists>(k, until)\<in>set (ad_blacklist s). k = jti \<and> (case until of None \<Rightarrow> True | Some t \<Rightarrow> ae_now e < t))"

definition impersonated :: "auth_env \<Rightarrow> jwt_claims \<Rightarrow> uuid \<Rightarrow> cached_user \<Rightarrow> auth_db \<Rightarrow> error + signed_user" where
  "impersonated e c org u s =
     (if org_by_id org s = None then Inl (Unauthorized ''Impersonation target organization not found'')
      else if \<not> isPlatformOperator e (kc_id u) (kc_email u) (kc_orgSlug u)
        then Inl (Unauthorized ''Impersonation is only for platform operators'')
      else if truthy_str (cl_jti c) \<and> blacklisted e (the (cl_jti c)) s
        then Inl (Unauthorized ''Impersonation session has ended'')
      else Inr \<lparr>pr_userId = Some (kc_id u), pr_orgId = org, pr_impersonation = True, pr_orgSlug = Some (kc_orgSlug u),
        pr_actAsRole = cl_actAsRole c, pr_actAsBranchId = cl_actAsBranchId c, su_email = kc_email u, su_jti = cl_jti c\<rparr>)"

definition validate :: "auth_env \<Rightarrow> jwt_claims \<Rightarrow> signed_user auth" where
  "validate e c = svc_bind (resolveUser e (cl_sub c)) (\<lambda>found. svc_read (\<lambda>s. case found of
       None \<Rightarrow> svc_throw (Unauthorized ''Your account has been suspended.'')
     | Some u \<Rightarrow> if kc_status u = ''suspended'' then svc_throw (Unauthorized ''Your account has been suspended.'')
         else if kc_orgStatus u = ''suspended'' then svc_throw (Unauthorized ''Your organization has been suspended.'')
         else if cl_imp c \<and> truthy_str (cl_actAsOrgId c) then auth_lift (impersonated e c (the (cl_actAsOrgId c)) u s)
         else svc_return \<lparr>pr_userId = Some (kc_id u), pr_orgId = kc_orgId u, pr_impersonation = False,
           pr_orgSlug = Some (kc_orgSlug u), pr_actAsRole = None, pr_actAsBranchId = None, su_email = kc_email u,
           su_jti = None\<rparr>))"

text \<open>The strategy verifies the bearer token with the access secret, expiry included, before it validates the claims.\<close>

definition authenticate :: "auth_env \<Rightarrow> string \<Rightarrow> signed_user auth" where
  "authenticate e token = (case verified e token (ae_jwtSecret e) of
       None \<Rightarrow> svc_throw (Unauthorized ''Unauthorized'')
     | Some c \<Rightarrow> validate e c)"

end
