(* ===== verification/TwoFactor.thy ===== *)
theory TwoFactor
  imports Login
begin

text \<open>
  \<^verbatim>\<open>TwoFactorService\<close>: enrolling a second factor, confirming it, giving it up and replacing its
  backup codes, for the tenant application and, on every membership of the person at once, for the
  dashboard of the platform.
\<close>

datatype totp_channel = Organization | AdminDashboard

text \<open>What a channel reads of a user: its address, whether the factor is on, its secret and its backup hashes.\<close>

record factor_view =
  fv_email :: string
  fv_orgId :: "uuid option"
  fv_enabled :: bool
  fv_secret :: "string option"
  fv_hashes :: "string list option"

text \<open>\<open>resolved.memberships[0]?.orgId\<close> is what the audit of the dashboard names.\<close>

definition view_factor :: "totp_channel \<Rightarrow> uuid \<Rightarrow> auth_db \<Rightarrow> factor_view option" where
  "view_factor ch user s = (case ch of
       Organization \<Rightarrow> map_option (\<lambda>u. \<lparr>fv_email = mu_email u, fv_orgId = Some (mu_orgId u),
         fv_enabled = mu_twoFactorEnabled u, fv_secret = mu_twoFactorSecret u, fv_hashes = mu_twoFactorBackupHashes u\<rparr>)
         (user_by_id user s)
     | AdminDashboard \<Rightarrow> map_option (\<lambda>f. \<lparr>fv_email = af_email f,
         fv_orgId = (case af_memberships f of [] \<Rightarrow> None | m # _ \<Rightarrow> Some (mu_orgId m)),
         fv_enabled = af_enabled f, fv_secret = af_secret f, fv_hashes = af_backupHashes f\<rparr>)
         (loadAdminTwoFactorMemberships user s))"

text \<open>The columns of a channel: the same change, written to the user or to every membership of the person.\<close>

definition set_secret :: "totp_channel \<Rightarrow> string option \<Rightarrow> membership \<Rightarrow> membership" where
  "set_secret ch v = (case ch of Organization \<Rightarrow> mu_twoFactorSecret_update (\<lambda>_. v)
     | AdminDashboard \<Rightarrow> mu_adminTwoFactorSecret_update (\<lambda>_. v))"

definition set_enabled :: "totp_channel \<Rightarrow> bool \<Rightarrow> membership \<Rightarrow> membership" where
  "set_enabled ch v = (case ch of Organization \<Rightarrow> mu_twoFactorEnabled_update (\<lambda>_. v)
     | AdminDashboard \<Rightarrow> mu_adminTwoFactorEnabled_update (\<lambda>_. v))"

definition set_hashes :: "totp_channel \<Rightarrow> string list option \<Rightarrow> membership \<Rightarrow> membership" where
  "set_hashes ch v = (case ch of Organization \<Rightarrow> mu_twoFactorBackupHashes_update (\<lambda>_. v)
     | AdminDashboard \<Rightarrow> mu_adminTwoFactorBackupHashes_update (\<lambda>_. v))"

definition write_factor :: "totp_channel \<Rightarrow> uuid \<Rightarrow> (membership \<Rightarrow> membership) \<Rightarrow> unit auth" where
  "write_factor ch user f = (case ch of
       Organization \<Rightarrow> update_user user f
     | AdminDashboard \<Rightarrow> svc_read (\<lambda>s. case loadAdminTwoFactorMemberships user s of
           None \<Rightarrow> svc_return ()
         | Some a \<Rightarrow> with_tenant (syncAdminTwoFactorToMemberships (af_memberships a) f)))"

definition factor_or_fail :: "totp_channel \<Rightarrow> uuid \<Rightarrow> factor_view auth" where
  "factor_or_fail ch user = svc_read (\<lambda>s. case view_factor ch user s of
       None \<Rightarrow> svc_throw (BadRequest ''User not found'') | Some v \<Rightarrow> svc_return v)"

definition already_enabled :: error where
  "already_enabled = BadRequest ''Two-factor authentication is already enabled''"

definition not_enabled :: error where
  "not_enabled = BadRequest ''Two-factor authentication is not enabled''"

definition factor_audit :: "string \<Rightarrow> uuid \<Rightarrow> factor_view \<Rightarrow> string option \<Rightarrow> string \<Rightarrow> unit auth" where
  "factor_audit event user v severity outcome = recordAuthAudit event (fv_email v) severity (Some user) (fv_orgId v) outcome"

text \<open>Whether it is on, whether an enrolment is pending, and the secret of that enrolment.\<close>

definition getStatus :: "uuid \<Rightarrow> totp_channel \<Rightarrow> (bool \<times> bool \<times> string option) auth" where
  "getStatus user ch = svc_bind (factor_or_fail ch user) (\<lambda>v.
     let pending = truthy_str (fv_secret v) \<and> \<not> fv_enabled v in
     svc_return (fv_enabled v, pending, if pending then fv_secret v else None))"

definition beginSetup :: "auth_env \<Rightarrow> uuid \<Rightarrow> totp_channel \<Rightarrow> string auth" where
  "beginSetup e user ch = svc_bind (factor_or_fail ch user) (\<lambda>v.
     if fv_enabled v then svc_throw already_enabled
     else svc_bind (write_factor ch user (set_hashes ch None \<circ> set_enabled ch False \<circ> set_secret ch (Some (ae_newSecret e))))
       (\<lambda>_. svc_return (ae_newSecret e)))"

definition enable :: "auth_env \<Rightarrow> uuid \<Rightarrow> string \<Rightarrow> totp_channel \<Rightarrow> string list auth" where
  "enable e user code ch = svc_read (\<lambda>s. case view_factor ch user s of
       None \<Rightarrow> svc_throw (BadRequest ''Run setup first to generate a secret'')
     | Some v \<Rightarrow>
        if \<not> truthy_str (fv_secret v) then svc_throw (BadRequest ''Run setup first to generate a secret'')
        else if fv_enabled v then svc_throw already_enabled
        else if \<not> verifyTotp e (the (fv_secret v)) code
          then refuse (factor_audit ''auth.2fa_enabled'' user v (Some ''warning'') ''invalid_2fa_code'')
            (Unauthorized ''Invalid authenticator code'')
        else svc_bind (write_factor ch user (set_hashes ch (Some (map (ae_bcrypt e) (ae_newCodes e))) \<circ> set_enabled ch True)) (\<lambda>_.
          svc_bind (factor_audit ''auth.2fa_enabled'' user v None ''success'') (\<lambda>_. svc_return (ae_newCodes e))))"

text \<open>The password of this membership, and a code of the authenticator or a backup code as it was typed.\<close>

definition disable :: "auth_env \<Rightarrow> uuid \<Rightarrow> string \<Rightarrow> string \<Rightarrow> totp_channel \<Rightarrow> unit auth" where
  "disable e user password code ch = svc_read (\<lambda>s. case (user_by_id user s, view_factor ch user s) of
       (Some u, Some v) \<Rightarrow>
        if \<not> fv_enabled v then svc_throw not_enabled
        else if \<not> ae_compare e password (mu_passwordHash u)
          then refuse (factor_audit ''auth.2fa_disabled'' user v (Some ''warning'') ''wrong_current_password'')
            (BadRequest ''Invalid password'')
        else if \<not> (truthy_str (fv_secret v) \<and> verifyTotp e (the (fv_secret v)) (no_spaces code)) \<and>
                \<not> (\<exists>h\<in>set (patched (fv_hashes v) []). ae_compare e (no_spaces code) h)
          then refuse (factor_audit ''auth.2fa_disabled'' user v (Some ''warning'') ''invalid_2fa_code'')
            (BadRequest ''Invalid authenticator or backup code'')
        else svc_bind (write_factor ch user (set_hashes ch None \<circ> set_enabled ch False \<circ> set_secret ch None)) (\<lambda>_.
          factor_audit ''auth.2fa_disabled'' user v None ''success'')
     | _ \<Rightarrow> svc_throw not_enabled)"

definition cancelSetup :: "uuid \<Rightarrow> totp_channel \<Rightarrow> unit auth" where
  "cancelSetup user ch = svc_bind (factor_or_fail ch user) (\<lambda>v.
     if fv_enabled v then svc_throw already_enabled
     else if \<not> truthy_str (fv_secret v) then svc_return ()
     else write_factor ch user (set_hashes ch None \<circ> set_secret ch None))"

definition regenerateBackupCodes :: "auth_env \<Rightarrow> uuid \<Rightarrow> string \<Rightarrow> string \<Rightarrow> totp_channel \<Rightarrow> string list auth" where
  "regenerateBackupCodes e user password code ch = svc_read (\<lambda>s. case (user_by_id user s, view_factor ch user s) of
       (Some u, Some v) \<Rightarrow>
        if \<not> fv_enabled v \<or> \<not> truthy_str (fv_secret v) then svc_throw not_enabled
        else if \<not> ae_compare e password (mu_passwordHash u)
          then refuse (factor_audit ''auth.2fa_backup_regenerated'' user v (Some ''warning'') ''wrong_current_password'')
            (BadRequest ''Invalid password'')
        else if \<not> verifyTotp e (the (fv_secret v)) (no_spaces code)
          then refuse (factor_audit ''auth.2fa_backup_regenerated'' user v (Some ''warning'') ''invalid_2fa_code'')
            (Unauthorized ''Invalid authenticator code'')
        else svc_bind (write_factor ch user (set_hashes ch (Some (map (ae_bcrypt e) (ae_newCodes e))))) (\<lambda>_.
          svc_bind (factor_audit ''auth.2fa_backup_regenerated'' user v None ''success'') (\<lambda>_. svc_return (ae_newCodes e)))
     | _ \<Rightarrow> svc_throw (BadRequest ''User not found''))"

end
