(* ===== verification/Recovery.thy ===== *)
theory Recovery
  imports TwoFactor
begin

text \<open>
  Getting back in and getting out: \<^verbatim>\<open>AuthPasswordService\<close>, \<^verbatim>\<open>AuthVerificationService\<close>,
  \<^verbatim>\<open>AuthSessionService\<close> and \<^verbatim>\<open>AuthImpersonationService\<close>.
\<close>

section \<open>Asking for a reset link\<close>

definition reset_message :: string where
  "reset_message = ''If the email exists, a reset link has been sent''"

definition reset_requested :: "string \<Rightarrow> membership option \<Rightarrow> string \<Rightarrow> string \<Rightarrow> unit auth" where
  "reset_requested email u severity outcome = recordAuthAudit ''auth.password_reset_requested'' email (Some severity)
     (map_option mu_id u) (map_option mu_orgId u) outcome"

definition owns_organization :: "membership \<Rightarrow> auth_db \<Rightarrow> bool" where
  "owns_organization u s \<longleftrightarrow> (\<exists>r\<in>set (q_roleAssignments (ad_platform s)). ra_userId r = mu_id u \<and>
     ro_orgId (ra_role r) = mu_orgId u \<and> ro_name (ra_role r) = ''owner'')"

text \<open>Why no link is sent, with the severity of that in the audit.\<close>

definition reset_obstacle :: "member \<Rightarrow> auth_db \<Rightarrow> (string \<times> string) option" where
  "reset_obstacle m s = (let u = mb_user m in
     if mu_status u = ''suspended'' then Some (''warning'', ''user_suspended'')
     else if oz_status (mb_org m) = ''suspended'' then Some (''warning'', ''org_suspended'')
     else if \<not> mu_emailVerified u then Some (''warning'', ''email_unverified'')
     else if \<not> owns_organization u s then Some (''warning'', ''not_owner'') else None)"

definition reset_row :: "auth_env \<Rightarrow> uuid \<Rightarrow> password_reset" where
  "reset_row e user = \<lparr>pw_id = ae_newId e, pw_userId = user, pw_tokenHash = ae_sha256 e (ae_newToken e),
     pw_expiresAt = ae_now e + 60 * 60 * 1000, pw_usedAt = None\<rparr>"

definition use_up :: "auth_env \<Rightarrow> password_reset \<Rightarrow> password_reset" where
  "use_up e r = r\<lparr>pw_usedAt := Some (ae_now e)\<rparr>"

definition reset_link :: "auth_env \<Rightarrow> string" where
  "reset_link e = or_str (ae_appUrl e) ''http://localhost:3000'' @ ''/reset-password?token='' @ ae_newToken e"

definition send_reset_link :: "auth_env \<Rightarrow> string \<Rightarrow> membership \<Rightarrow> unit auth" where
  "send_reset_link e email u = (if ae_mailerUp e
     then svc_bind (auth_log (Mailed (mu_orgId u) (mu_email u) (reset_link e))) (\<lambda>_.
       reset_requested email (Some u) ''info'' ''email_queued'')
     else reset_requested email (Some u) ''critical'' ''email_queue_failed'')"

text \<open>The answer: the same message in every case, and the token itself outside of production.\<close>

definition forgotPassword :: "auth_env \<Rightarrow> string \<Rightarrow> (string \<times> string option) auth" where
  "forgotPassword e email0 = (let email = to_lower email0 in svc_read (\<lambda>s.
     case List.find (\<lambda>u. mu_email u = email) (ad_users s) of
       None \<Rightarrow> svc_bind (if account_by_email email s = None then reset_requested email None ''info'' ''unknown_email''
           else reset_requested email None ''warning'' ''account_user_email_mismatch'')
         (\<lambda>_. svc_return (reset_message, None))
     | Some u \<Rightarrow> svc_bind (auth_lift (with_relations s u)) (\<lambda>m. case reset_obstacle m s of
           Some (severity, outcome) \<Rightarrow> svc_bind (reset_requested email (Some u) severity outcome)
             (\<lambda>_. svc_return (reset_message, None))
         | None \<Rightarrow> svc_bind (svc_modify (ad_resets_update (update_rows (\<lambda>r. pw_userId r = mu_id u \<and> pw_usedAt r = None) (use_up e)))) (\<lambda>_.
             svc_bind (svc_modify (ad_resets_update (\<lambda>rs. rs @ [reset_row e (mu_id u)]))) (\<lambda>_.
             svc_bind (send_reset_link e email u) (\<lambda>_.
             svc_return (reset_message, if ae_nodeEnv e = ''production'' then None else Some (ae_newToken e))))))))"

section \<open>Setting a new password\<close>

definition is_lower :: "char \<Rightarrow> bool" where
  "is_lower c \<longleftrightarrow> 97 \<le> (of_char c :: nat) \<and> (of_char c :: nat) \<le> 122"

definition is_upper :: "char \<Rightarrow> bool" where
  "is_upper c \<longleftrightarrow> 65 \<le> (of_char c :: nat) \<and> (of_char c :: nat) \<le> 90"

text \<open>Look-aheads over \<open>.*\<close>: what they look for has to be found before the first line break.\<close>

definition is_line_break :: "char \<Rightarrow> bool" where
  "is_line_break c \<longleftrightarrow> (of_char c :: nat) = 10 \<or> (of_char c :: nat) = 13"

definition passwordSchema :: "string \<Rightarrow> bool" where
  "passwordSchema p \<longleftrightarrow> 8 \<le> length p \<and> length p \<le> 128 \<and>
     (let line = takeWhile (\<lambda>c. \<not> is_line_break c) p in
        list_ex is_lower line \<and> list_ex is_upper line \<and> list_ex is_digit line)"

text \<open>The text that the validator composes is left out.\<close>

definition weak_password :: error where
  "weak_password = BadRequest []"

definition invalid_reset :: error where
  "invalid_reset = BadRequest ''Invalid or expired reset token''"

definition usable_reset :: "auth_env \<Rightarrow> string \<Rightarrow> password_reset \<Rightarrow> bool" where
  "usable_reset e token r \<longleftrightarrow> pw_tokenHash r = ae_sha256 e token \<and> pw_usedAt r = None \<and> ae_now e < pw_expiresAt r"

text \<open>The new password makes the membership active and verified and takes both second factors away.\<close>

definition with_password :: "string \<Rightarrow> membership \<Rightarrow> membership" where
  "with_password hash u = u\<lparr>mu_passwordHash := hash, mu_status := ''active'', mu_emailVerified := True,
     mu_twoFactorEnabled := False, mu_twoFactorSecret := None, mu_twoFactorBackupHashes := None,
     mu_adminTwoFactorEnabled := False, mu_adminTwoFactorSecret := None, mu_adminTwoFactorBackupHashes := None\<rparr>"

definition revoke_sessions :: "auth_env \<Rightarrow> uuid list \<Rightarrow> unit auth_tx" where
  "revoke_sessions e users = tx_modify (ad_sessions_update
     (update_rows (\<lambda>x. ls_userId x \<in> set users \<and> ls_revokedAt x = None) (revoke e)))"

definition reset_account_tx :: "auth_env \<Rightarrow> string \<Rightarrow> uuid \<Rightarrow> unit auth_tx" where
  "reset_account_tx e hash acc =
     tx_bind (tx_update_one ad_accounts ad_accounts_update (\<lambda>a. ia_id a = acc)
       (\<lambda>a. a\<lparr>ia_passwordHash := hash, ia_emailVerified := True\<rparr>)) (\<lambda>_. tx_read (\<lambda>s.
     let siblings = filter (\<lambda>u. mu_accountId u = Some acc) (ad_users s) in
     tx_bind (tx_foreach (rev (remdups (rev (map mu_orgId siblings)))) (\<lambda>org. tx_modify (ad_users_update
       (update_rows (\<lambda>u. mu_accountId u = Some acc \<and> mu_orgId u = org) (with_password hash))))) (\<lambda>_.
     revoke_sessions e (map mu_id siblings))))"

definition reset_user_tx :: "auth_env \<Rightarrow> string \<Rightarrow> uuid \<Rightarrow> unit auth_tx" where
  "reset_user_tx e hash user =
     tx_bind (tx_update_one ad_users ad_users_update (\<lambda>u. mu_id u = user) (with_password hash)) (\<lambda>_.
     revoke_sessions e [user])"

definition reset_tx :: "auth_env \<Rightarrow> string \<Rightarrow> password_reset \<Rightarrow> membership \<Rightarrow> unit auth_tx" where
  "reset_tx e hash r u =
     tx_bind (tx_update_one ad_resets ad_resets_update (\<lambda>x. pw_id x = pw_id r) (use_up e)) (\<lambda>_.
     if truthy_str (mu_accountId u) then reset_account_tx e hash (the (mu_accountId u))
     else reset_user_tx e hash (pw_userId r))"

definition reset_failed :: "uuid option \<Rightarrow> string \<Rightarrow> error \<Rightarrow> 'a auth" where
  "reset_failed actor outcome err = refuse
     (recordAuthAudit ''auth.password_reset_failed'' ''unknown'' None actor None outcome) err"

definition reset_recorded :: "membership \<Rightarrow> unit auth" where
  "reset_recorded u =
     svc_bind (auth_log (ActivityLogged (mu_orgId u) (mu_id u) ''auth.password_reset'')) (\<lambda>_.
     svc_bind (auth_log (AuditLogged (mu_orgId u) (mu_id u) ''password_reset'')) (\<lambda>_.
     svc_bind (recordAuthAudit ''auth.password_reset_completed'' (mu_email u) None (Some (mu_id u)) (Some (mu_orgId u)) ''success'') (\<lambda>_.
     recordAuthAudit ''auth.sessions_revoked'' (mu_email u) None (Some (mu_id u)) (Some (mu_orgId u)) ''success'')))"

text \<open>Whether a second factor was cleared.\<close>

definition resetPassword :: "auth_env \<Rightarrow> string \<Rightarrow> string \<Rightarrow> bool auth" where
  "resetPassword e token password = svc_read (\<lambda>s. case List.find (usable_reset e token) (ad_resets s) of
       None \<Rightarrow> reset_failed None ''invalid_reset_token'' invalid_reset
     | Some r \<Rightarrow> if \<not> passwordSchema password
         then reset_failed (Some (pw_userId r)) ''invalid_password_format'' weak_password
         else (case user_by_id (pw_userId r) s of
           None \<Rightarrow> reset_failed (Some (pw_userId r)) ''invalid_reset_token'' invalid_reset
         | Some u \<Rightarrow> svc_bind (with_tenant (reset_tx e (ae_bcrypt e password) r u)) (\<lambda>_.
             svc_bind (reset_recorded u) (\<lambda>_.
             svc_return (mu_twoFactorEnabled u \<or> mu_adminTwoFactorEnabled u)))))"

section \<open>Verifying an address\<close>

definition usable_verification :: "auth_env \<Rightarrow> string \<Rightarrow> email_verification \<Rightarrow> bool" where
  "usable_verification e token v \<longleftrightarrow>
     ew_tokenHash v = ae_sha256 e token \<and> ew_verifiedAt v = None \<and> ae_now e < ew_expiresAt v"

definition verify_tx :: "auth_env \<Rightarrow> email_verification \<Rightarrow> membership \<Rightarrow> unit auth_tx" where
  "verify_tx e v u =
     tx_bind (tx_update_one ad_verifications ad_verifications_update (\<lambda>x. ew_id x = ew_id v)
       (ew_verifiedAt_update (\<lambda>_. Some (ae_now e)))) (\<lambda>_.
     tx_bind (tx_update_one ad_users ad_users_update (\<lambda>x. mu_id x = ew_userId v)
       (\<lambda>x. x\<lparr>mu_emailVerified := True, mu_status := ''active''\<rparr>)) (\<lambda>_.
     tx_bind (if truthy_str (mu_accountId u)
       then tx_bind (tx_update_one ad_accounts ad_accounts_update (\<lambda>a. Some (ia_id a) = mu_accountId u)
         (ia_emailVerified_update (\<lambda>_. True))) (\<lambda>_. tx_return ())
       else tx_return ()) (\<lambda>_.
     tx_bind (tx_update_one ad_orgs ad_orgs_update (\<lambda>g. oz_id g = mu_orgId u)
       (oz_onboardingStep_update (\<lambda>_. ''service_selection''))) (\<lambda>_. tx_return ()))))"

definition verifyEmail :: "auth_env \<Rightarrow> string \<Rightarrow> unit auth" where
  "verifyEmail e token = svc_read (\<lambda>s. case List.find (usable_verification e token) (ad_verifications s) of
       None \<Rightarrow> refuse (recordAuthAudit ''auth.email_verify_failed'' ''unknown'' None None None ''invalid_verify_token'')
         (BadRequest ''Invalid or expired verification token'')
     | Some v \<Rightarrow> svc_bind (auth_lift (case user_by_id (ew_userId v) s of
           None \<Rightarrow> Inl InconsistentResult | Some u \<Rightarrow> with_relations s u)) (\<lambda>m.
         svc_bind (with_tenant (verify_tx e v (mb_user m))) (\<lambda>_.
         recordAuthAudit ''auth.email_verified'' (mu_email (mb_user m)) None (Some (mu_id (mb_user m)))
           (Some (mu_orgId (mb_user m))) ''success'')))"

section \<open>Signing out\<close>

definition logout :: "auth_env \<Rightarrow> uuid \<Rightarrow> unit auth" where
  "logout e user = svc_read (\<lambda>s. let u = user_by_id user s;
       email = (case u of None \<Rightarrow> ''unknown'' | Some x \<Rightarrow> mu_email x) in
     svc_bind (with_tenant (revoke_sessions e [user])) (\<lambda>_.
     svc_bind (recordAuthAudit ''auth.logout'' email None (Some user) (map_option mu_orgId u) ''success'') (\<lambda>_.
     recordAuthAudit ''auth.sessions_revoked'' email None (Some user) (map_option mu_orgId u) ''success'')))"

definition getSessionProfile :: "auth_env \<Rightarrow> uuid \<Rightarrow> bool auth" where
  "getSessionProfile e user = svc_read (\<lambda>s. svc_bind (auth_lift (member_by_id user s)) (\<lambda>found. case found of
       None \<Rightarrow> svc_throw (Unauthorized ''User not found'')
     | Some m \<Rightarrow> svc_return (operates e m)))"

section \<open>Acting inside a tenant\<close>

text \<open>Without a branch in the request the first one that was created is taken.\<close>

definition simulated_branch :: "uuid \<Rightarrow> system_role option \<Rightarrow> uuid option \<Rightarrow> auth_db \<Rightarrow> error + branch_row option" where
  "simulated_branch org role branch s = (case role of None \<Rightarrow> Inr None
     | Some r \<Rightarrow> if \<not> branchScopedImpersonationRole r then Inr None
        else if truthy_str branch then
          (case List.find (\<lambda>b. Some (br_id b) = branch \<and> br_orgId b = org) (q_branches (ad_platform s)) of
             None \<Rightarrow> Inl (NotFound ''Branch not found in target organization'') | Some b \<Rightarrow> Inr (Some b))
        else (case List.find (\<lambda>b. br_orgId b = org) (q_branches (ad_platform s)) of
             None \<Rightarrow> Inl (NotFound ''Target organization has no branches - required for branch-scoped role simulation'')
           | Some b \<Rightarrow> Inr (Some b)))"

definition operator_claims :: "auth_env \<Rightarrow> member \<Rightarrow> uuid \<Rightarrow> system_role option \<Rightarrow> branch_row option \<Rightarrow> jwt_claims" where
  "operator_claims e m org role branch = \<lparr>cl_sub = mu_id (mb_user m), cl_typ = None, cl_orgId = Some (mu_orgId (mb_user m)),
     cl_orgSlug = Some (oz_slug (mb_org m)), cl_email = Some (mu_email (mb_user m)), cl_imp = True,
     cl_actAsOrgId = Some org, cl_actAsRole = map_option role_name role, cl_actAsBranchId = map_option br_id branch,
     cl_jti = Some (ae_newId e)\<rparr>"

record impersonation =
  im_accessToken :: string
  im_expiresIn :: int
  im_org :: organization
  im_role :: "system_role option"
  im_branch :: "branch_row option"

text \<open>The actor is who the request was authenticated as; its address is the one of the token.\<close>

definition startImpersonation :: "auth_env \<Rightarrow> uuid \<Rightarrow> string \<Rightarrow> uuid \<Rightarrow> string option \<Rightarrow> uuid option \<Rightarrow> impersonation auth" where
  "startImpersonation e actor email org role branch = svc_read (\<lambda>s.
     svc_bind (auth_lift (member_by_id actor s)) (\<lambda>found. case found of
       None \<Rightarrow> svc_throw (Forbidden ''Only platform operators can impersonate a tenant'')
     | Some m \<Rightarrow> if \<not> isPlatformOperator e actor email (oz_slug (mb_org m))
         then svc_throw (Forbidden ''Only platform operators can impersonate a tenant'')
         else (case org_by_id org s of None \<Rightarrow> svc_throw (NotFound ''Organization not found'')
         | Some g \<Rightarrow> (let simulated = (if truthy_str role then normalizeSystemRoleName role else None) in
             if truthy_str role \<and> simulated = None then svc_throw (Forbidden ''Invalid impersonation role'')
             else svc_bind (auth_lift (simulated_branch org simulated branch s)) (\<lambda>b.
               svc_bind (auth_log (Impersonating actor org True)) (\<lambda>_. case ae_impersonationTtl e of
                 None \<Rightarrow> svc_throw (PlainError ''JWT_IMPERSONATION_TTL config is missing'')
               | Some ttl \<Rightarrow> svc_return \<lparr>im_accessToken = signed e (operator_claims e m org simulated b) (ae_jwtSecret e) ttl,
                   im_expiresIn = ttl, im_org = g, im_role = simulated, im_branch = b\<rparr>))))))"

definition endImpersonationAudit :: "auth_env \<Rightarrow> uuid \<Rightarrow> uuid \<Rightarrow> string option \<Rightarrow> unit auth" where
  "endImpersonationAudit e actor org jti = svc_bind (auth_log (Impersonating actor org False)) (\<lambda>_.
     if \<not> truthy_str jti then svc_return ()
     else (case ae_impersonationTtl e of
       None \<Rightarrow> svc_throw (PlainError ''JWT_IMPERSONATION_TTL config is missing'')
     | Some ttl \<Rightarrow> if ae_redisUp e
         then svc_modify (ad_blacklist_update (\<lambda>bs. (the jti, if ttl = 0 then None else Some (ae_now e + ttl * 1000)) # bs))
         else svc_return ()))"

end
