(* ===== verification/Members.thy ===== *)
theory Members
  imports Recovery Issuance
begin

text \<open>
  \<^verbatim>\<open>UserService\<close>: an organisation invites members, clears their second factors, sets their passwords,
  takes them out of service and back, and deletes them. It works on the memberships of authentication
  and on the roles, seats and branches of the queue platform.
\<close>

section \<open>Checks\<close>

text \<open>A call on the tables of the queue platform.\<close>

definition on_platform :: "(qdb \<Rightarrow> 'a \<times> qdb) \<Rightarrow> 'a auth" where
  "on_platform f s = (case f (ad_platform s) of (x, q) \<Rightarrow> (Inr x, s\<lparr>ad_platform := q\<rparr>))"

definition check_platform :: "(qdb \<Rightarrow> error + 'a) \<Rightarrow> 'a auth" where
  "check_platform f = svc_read (\<lambda>s. auth_lift (f (ad_platform s)))"

definition getMember :: "uuid \<Rightarrow> uuid \<Rightarrow> membership auth" where
  "getMember org user = svc_read (\<lambda>s. case List.find (\<lambda>u. mu_id u = user \<and> mu_orgId u = org) (ad_users s) of
       None \<Rightarrow> svc_throw (NotFound ''User not found'') | Some u \<Rightarrow> svc_return u)"

definition validateBranchIds :: "uuid \<Rightarrow> string list \<Rightarrow> qdb \<Rightarrow> error + uuid list" where
  "validateBranchIds org ids q =
     (let unique = rev (remdups (rev (filter (\<lambda>x. x \<noteq> []) (map js_trim ids)))) in
      if unique = [] then Inr []
      else if count_rows (\<lambda>b. br_orgId b = org \<and> br_id b \<in> set unique) (q_branches q) \<noteq> length unique
        then Inl (BadRequest ''One or more selected branches are invalid'')
      else Inr unique)"

definition roleRequiresAssignedBranches :: "string \<Rightarrow> bool" where
  "roleRequiresAssignedBranches name \<longleftrightarrow> to_lower name \<in> {''manager'', ''staff'', ''viewer''}"

definition assertAssignedBranchesIfNeeded :: "uuid \<Rightarrow> string \<Rightarrow> uuid list \<Rightarrow> qdb \<Rightarrow> error + unit" where
  "assertAssignedBranchesIfNeeded org name ids q =
     (if count_rows (\<lambda>b. br_orgId b = org) (q_branches q) \<noteq> 0 \<and> roleRequiresAssignedBranches name \<and> ids = []
      then Inl (BadRequest ''Select at least one branch. This organization has branch locations, so assigned branches are required for this role.'')
      else Inr ())"

definition active_seats :: "uuid \<Rightarrow> auth_db \<Rightarrow> nat" where
  "active_seats org s = count_rows (\<lambda>u. mu_orgId u = org \<and> mu_status u = ''active'') (ad_users s)"

text \<open>\<open>what\<close> is how the message ends.\<close>

definition check_seats :: "qenv \<Rightarrow> uuid \<Rightarrow> string \<Rightarrow> unit auth" where
  "check_seats q org what = svc_read (\<lambda>s.
     svc_bind (on_platform (checkLimit q org ''maxUsers'' (Some (int (active_seats org s))))) (\<lambda>reached. case reached of
       Some l \<Rightarrow> svc_throw (Forbidden (''Staff seat limit reached. Your plan allows '' @ show_int l @ '' active users. '' @ what))
     | None \<Rightarrow> svc_return ()))"

section \<open>Invitations\<close>

record invitation =
  iv_email :: string
  iv_firstName :: string
  iv_lastName :: string
  iv_roleId :: uuid
  iv_password :: string
  iv_branchIds :: "string list"

definition new_member :: "auth_env \<Rightarrow> uuid \<Rightarrow> invitation \<Rightarrow> uuid \<Rightarrow> string \<Rightarrow> membership" where
  "new_member e org d acc hash = \<lparr>mu_id = ae_newId e, mu_accountId = Some acc, mu_orgId = org, mu_email = to_lower (iv_email d),
     mu_passwordHash = hash, mu_firstName = Some (iv_firstName d), mu_lastName = Some (iv_lastName d), mu_emailVerified = True,
     mu_status = ''active'', mu_lastLoginAt = None, mu_twoFactorSecret = None, mu_twoFactorEnabled = False,
     mu_twoFactorBackupHashes = None, mu_adminTwoFactorSecret = None, mu_adminTwoFactorEnabled = False,
     mu_adminTwoFactorBackupHashes = None\<rparr>"

text \<open>A new row of \<open>users\<close>; \<open>@@unique([orgId, email])\<close> and \<open>@@unique([accountId, orgId])\<close>.\<close>

definition insert_member :: "membership \<Rightarrow> unit auth_tx" where
  "insert_member u = tx_read (\<lambda>s.
     if list_ex (\<lambda>v. mu_orgId v = mu_orgId u \<and> (mu_email v = mu_email u \<or> mu_accountId v = mu_accountId u)) (ad_users s)
     then tx_throw PrismaP2002
     else tx_modify (ad_users_update (\<lambda>us. us @ [u]) \<circ>
       ad_platform_update (q_users_update (\<lambda>xs. xs @ [\<lparr>us_id = mu_id u, us_orgId = mu_orgId u\<rparr>]))))"

text \<open>Which account the member gets, with the hash that is stored for it.\<close>

definition account_for :: "auth_env \<Rightarrow> string \<Rightarrow> string \<Rightarrow> (uuid \<times> string) auth_tx" where
  "account_for e email hash = tx_read (\<lambda>s. case account_by_email email s of
       Some a \<Rightarrow> tx_return (ia_id a, ia_passwordHash a)
     | None \<Rightarrow> tx_bind (tx_modify (ad_accounts_update (\<lambda>as. as @ [\<lparr>ia_id = ae_newAccountId e, ia_email = email,
           ia_passwordHash = hash, ia_emailVerified = True\<rparr>]))) (\<lambda>_. tx_return (ae_newAccountId e, hash)))"

definition assigned_branches :: "role_row \<Rightarrow> uuid list \<Rightarrow> uuid option list" where
  "assigned_branches role ids =
     (if ro_name role \<in> {''owner'', ''admin''} \<or> ids = [] then [None] else map Some ids)"

definition assign_role :: "uuid \<Rightarrow> role_row \<Rightarrow> uuid list \<Rightarrow> unit auth_tx" where
  "assign_role user role ids = tx_modify (ad_platform_update (q_roleAssignments_update (\<lambda>as. as @
     map (\<lambda>b. \<lparr>ra_userId = user, ra_branchId = b, ra_role = role\<rparr>) (assigned_branches role ids))))"

definition invite_tx :: "auth_env \<Rightarrow> uuid \<Rightarrow> invitation \<Rightarrow> role_row \<Rightarrow> uuid list \<Rightarrow> membership auth_tx" where
  "invite_tx e org d role ids =
     tx_bind (account_for e (to_lower (iv_email d)) (ae_bcrypt e (iv_password d))) (\<lambda>(acc, hash).
     let u = new_member e org d acc hash in
     tx_bind (insert_member u) (\<lambda>_. tx_bind (assign_role (mu_id u) role ids) (\<lambda>_. tx_return u)))"

definition invited_role :: "uuid \<Rightarrow> uuid \<Rightarrow> qdb \<Rightarrow> error + role_row" where
  "invited_role org i q = (case List.find (\<lambda>r. ro_id r = i \<and> ro_orgId r = org) (q_roles q) of
       None \<Rightarrow> Inl (BadRequest ''Role not found in this organization'') | Some r \<Rightarrow> Inr r)"

definition already_member :: "uuid \<Rightarrow> string \<Rightarrow> auth_db \<Rightarrow> error + unit" where
  "already_member org email s = (if list_ex (\<lambda>u. mu_email u = email \<and> mu_orgId u = org) (ad_users s)
     then Inl (Conflict ''User with this email already exists in this organization'') else Inr ())"

definition invite :: "auth_env \<Rightarrow> qenv \<Rightarrow> uuid \<Rightarrow> uuid \<Rightarrow> invitation \<Rightarrow> membership auth" where
  "invite e q org actor d =
     svc_bind (check_platform (assertActorMayAssignRoleId org actor (iv_roleId d))) (\<lambda>_.
     svc_bind (svc_read (\<lambda>s. auth_lift (already_member org (iv_email d) s))) (\<lambda>_.
     svc_bind (check_seats q org ''Deactivate someone or upgrade to invite more.'') (\<lambda>_.
     svc_bind (if passwordSchema (iv_password d) then svc_return () else svc_throw weak_password) (\<lambda>_.
     svc_bind (check_platform (invited_role org (iv_roleId d))) (\<lambda>role.
     svc_bind (check_platform (validateBranchIds org (iv_branchIds d))) (\<lambda>ids.
     svc_bind (check_platform (assertAssignedBranchesIfNeeded org (ro_name role) ids)) (\<lambda>_.
     with_tenant (invite_tx e org d role ids))))))))"

section \<open>Members in trouble\<close>

definition without_factors :: "membership \<Rightarrow> membership" where
  "without_factors u = u\<lparr>mu_twoFactorEnabled := False, mu_twoFactorSecret := None, mu_twoFactorBackupHashes := None,
     mu_adminTwoFactorEnabled := False, mu_adminTwoFactorSecret := None, mu_adminTwoFactorBackupHashes := None\<rparr>"

text \<open>The row is changed and the open sessions of the member are ended, in one transaction.\<close>

definition change_member_tx :: "auth_env \<Rightarrow> uuid \<Rightarrow> (membership \<Rightarrow> membership) \<Rightarrow> unit auth_tx" where
  "change_member_tx e user f = tx_bind (tx_update_one ad_users ad_users_update (\<lambda>u. mu_id u = user) f) (\<lambda>_. revoke_sessions e [user])"

text \<open>Nobody but somebody else, who may manage the member.\<close>

definition manage_other :: "uuid \<Rightarrow> uuid \<Rightarrow> uuid \<Rightarrow> string \<Rightarrow> membership auth" where
  "manage_other org user actor own = (if actor = user then svc_throw (Forbidden own)
     else svc_bind (getMember org user) (\<lambda>u.
       svc_bind (check_platform (assertActorMayManageTargetUser org actor user)) (\<lambda>_. svc_return u)))"

definition own_factor :: string where
  "own_factor = ''You cannot reset two-factor authentication for your own account from here. Use your authenticator and backup codes in Settings, ask another administrator, or use the email password reset flow if you are the organization owner.''"

definition own_password :: string where
  "own_password = ''You cannot set your own password here. Use account settings or the email password reset flow where applicable.''"

definition resetTwoFactorForUser :: "auth_env \<Rightarrow> uuid \<Rightarrow> uuid \<Rightarrow> uuid \<Rightarrow> bool auth" where
  "resetTwoFactorForUser e org user actor = svc_bind (manage_other org user actor own_factor) (\<lambda>u.
     svc_bind (with_tenant (change_member_tx e user without_factors)) (\<lambda>_.
     svc_bind (auth_log (ActivityLogged org actor ''user.two_factor_reset'')) (\<lambda>_.
     svc_bind (auth_log (AuditLogged org actor ''two_factor_reset'')) (\<lambda>_.
     svc_return (mu_twoFactorEnabled u \<or> truthy_str (mu_twoFactorSecret u) \<or> mu_adminTwoFactorEnabled u \<or>
       truthy_str (mu_adminTwoFactorSecret u))))))"

definition setPasswordForUser :: "auth_env \<Rightarrow> uuid \<Rightarrow> uuid \<Rightarrow> uuid \<Rightarrow> string \<Rightarrow> bool auth" where
  "setPasswordForUser e org user actor password = svc_bind (manage_other org user actor own_password) (\<lambda>u.
     if \<not> passwordSchema password then svc_throw weak_password
     else svc_bind (with_tenant (change_member_tx e user (with_password (ae_bcrypt e password)))) (\<lambda>_.
     svc_bind (auth_log (ActivityLogged org actor ''user.password_set_by_admin'')) (\<lambda>_.
     svc_bind (auth_log (AuditLogged org actor ''password_set_by_admin'')) (\<lambda>_.
     svc_return (mu_twoFactorEnabled u \<or> mu_adminTwoFactorEnabled u)))))"

section \<open>In and out of service\<close>

definition set_status :: "auth_env \<Rightarrow> uuid \<Rightarrow> string \<Rightarrow> unit auth" where
  "set_status e user st = svc_bind (update_user user (mu_status_update (\<lambda>_. st))) (\<lambda>_. invalidate e user)"

definition deactivate :: "auth_env \<Rightarrow> uuid \<Rightarrow> uuid \<Rightarrow> uuid \<Rightarrow> unit auth" where
  "deactivate e org user actor = svc_bind (getMember org user) (\<lambda>_.
     svc_bind (check_platform (assertActorMayManageTargetUser org actor user)) (\<lambda>_. set_status e user ''inactive''))"

definition activate :: "auth_env \<Rightarrow> qenv \<Rightarrow> uuid \<Rightarrow> uuid \<Rightarrow> uuid \<Rightarrow> unit auth" where
  "activate e q org user actor = svc_bind (getMember org user) (\<lambda>u.
     svc_bind (check_platform (assertActorMayManageTargetUser org actor user)) (\<lambda>_.
     svc_bind (if mu_status u = ''active'' then svc_return ()
       else check_seats q org ''Deactivate someone or upgrade to reactivate this account.'') (\<lambda>_.
     set_status e user ''active'')))"

text \<open>
  Deleting a row of \<open>users\<close> deletes its assignments, sessions of agents, reset and verification records
  with it, takes the user off the desks, and leaves tickets and appointments without it.
\<close>

definition forget_user :: "uuid \<Rightarrow> qdb \<Rightarrow> qdb" where
  "forget_user user q = q\<lparr>q_users := filter (\<lambda>x. us_id x \<noteq> user) (q_users q),
     q_roleAssignments := filter (\<lambda>a. ra_userId a \<noteq> user) (q_roleAssignments q),
     q_sessions := filter (\<lambda>x. se_userId x \<noteq> user) (q_sessions q),
     q_desks := map (\<lambda>d. d\<lparr>dk_assignedUsers := filter (\<lambda>x. x \<noteq> user) (dk_assignedUsers d)\<rparr>) (q_desks q),
     q_tickets := update_rows (\<lambda>t. tk_servedByUserId t = Some user) (\<lambda>t. t\<lparr>tk_servedByUserId := None\<rparr>) (q_tickets q),
     q_appointments := update_rows (\<lambda>a. at_assignedUserId a = Some user) (\<lambda>a. a\<lparr>at_assignedUserId := None\<rparr>) (q_appointments q)\<rparr>"

definition delete_member_tx :: "uuid \<Rightarrow> unit auth_tx" where
  "delete_member_tx user = tx_read (\<lambda>s. if user_by_id user s = None then tx_throw PrismaP2025
     else tx_modify (\<lambda>s. s\<lparr>ad_users := filter (\<lambda>u. mu_id u \<noteq> user) (ad_users s),
       ad_sessions := filter (\<lambda>x. ls_userId x \<noteq> user) (ad_sessions s),
       ad_resets := filter (\<lambda>r. pw_userId r \<noteq> user) (ad_resets s),
       ad_verifications := filter (\<lambda>v. ew_userId v \<noteq> user) (ad_verifications s),
       ad_platform := forget_user user (ad_platform s)\<rparr>))"

definition deleteMember :: "auth_env \<Rightarrow> uuid \<Rightarrow> uuid \<Rightarrow> uuid \<Rightarrow> unit auth" where
  "deleteMember e org user actor = svc_bind (getMember org user) (\<lambda>_.
     svc_bind (check_platform (assertActorMayManageTargetUser org actor user)) (\<lambda>_.
     svc_bind (with_tenant (delete_member_tx user)) (\<lambda>_. invalidate e user)))"

end
