(* ===== verification/LoginFacts.thy ===== *)
theory LoginFacts
  imports Recovery
begin

text \<open>
  Who is let in: a sign-in ends with tokens only for the right password, a member in good standing and
  no second factor left; a token that waits for its second factor is nevertheless accepted on every
  request; a refresh token and a backup code work once.
\<close>

section \<open>Runs that return\<close>

lemma refuse_fails [simp]: "refuse a err s \<noteq> (Inr x, t)"
  by (auto simp: refuse_def svc_bind_def svc_throw_def split: prod.splits sum.splits)

lemma login_failed_fails [simp]: "login_failed email outcome msg s \<noteq> (Inr x, t)"
  by (simp add: login_failed_def)

lemma login_blocked_fails [simp]: "login_blocked email u sev outcome msg s \<noteq> (Inr x, t)"
  by (simp add: login_blocked_def)

lemma second_factor_failed_fails [simp]: "second_factor_failed email u outcome msg s \<noteq> (Inr x, t)"
  by (simp add: second_factor_failed_def)

lemma svc_throw_Inr [simp]: "svc_throw err s \<noteq> (Inr x, t)"
  by (simp add: svc_throw_def)

lemma svc_return_Inr [simp]: "svc_return a s = (Inr x, t) \<longleftrightarrow> a = x \<and> s = t"
  by (simp add: svc_return_def)

lemma auth_lift_Inr [simp]: "auth_lift r s = (Inr x, t) \<longleftrightarrow> r = Inr x \<and> s = t"
  by (auto simp: auth_lift_def svc_throw_def svc_return_def split: sum.splits)

lemma auth_log_Inr [simp]: "auth_log ev s = (Inr x, t) \<longleftrightarrow> t = s\<lparr>ad_effects := ad_effects s @ [ev]\<rparr>"
  by (auto simp: auth_log_def svc_modify_def)

lemma recordAuthAudit_Inr:
  "recordAuthAudit event email sev actor org outcome s = (Inr x, t) \<Longrightarrow> \<exists>es. t = s\<lparr>ad_effects := es\<rparr>"
  by (auto simp: recordAuthAudit_def Let_def)

lemma all_with_relations_Inr:
  "all_with_relations s us = Inr ms \<Longrightarrow> m \<in> set ms \<Longrightarrow> mb_user m \<in> set us \<and> with_relations s (mb_user m) = Inr m"
proof (induction us arbitrary: ms)
  case (Cons u us)
  have u: "with_relations s u = Inr x \<Longrightarrow> mb_user x = u" for x
    by (auto simp: with_relations_def split: option.splits)
  show ?case using Cons u by (auto split: sum.splits)
qed simp

lemma with_relations_Inr:
  "with_relations s u = Inr m \<Longrightarrow> mb_user m = u \<and> org_by_id (mu_orgId u) s = Some (mb_org m) \<and> mb_account m = account_of u s"
  by (auto simp: with_relations_def split: option.splits)

lemma pick_member_Inr:
  assumes "pick_member e email org pool s = (Inr (Inr m), t)"
  shows "t = s \<and> m \<in> set pool \<and> (truthy_str org \<longrightarrow> Some (mu_orgId (mb_user m)) = org)"
  using assms find_SomeD [where xs = pool and x = m]
  by (auto simp: pick_member_def svc_bind_Inr_iff split: if_splits option.splits list.splits)

lemma standing_Inr:
  "standing_suspended email m s = (Inr x, t) \<longleftrightarrow>
     t = s \<and> mu_status (mb_user m) \<noteq> ''suspended'' \<and> oz_status (mb_org m) \<noteq> ''suspended''"
  by (auto simp: standing_suspended_def)

lemma check_standing_Inr:
  "check_standing e email m s = (Inr x, t) \<longleftrightarrow> t = s \<and> mu_status (mb_user m) \<noteq> ''suspended'' \<and>
     oz_status (mb_org m) \<noteq> ''suspended'' \<and> (resolvedEmailVerified m \<or> ae_appEnv e \<noteq> ''production'')"
  by (auto simp: check_standing_def standing_Inr)

text \<open>Whose password it was.\<close>

definition knows_password :: "auth_env \<Rightarrow> string \<Rightarrow> string \<Rightarrow> membership \<Rightarrow> auth_db \<Rightarrow> bool" where
  "knows_password e email password u s \<longleftrightarrow> ae_compare e password (mu_passwordHash u) \<or>
     (\<exists>a\<in>set (ad_accounts s). ia_email a = email \<and> ae_compare e password (ia_passwordHash a))"

lemma pool_knows:
  assumes "m \<in> set (login_pool e platform (authenticated_account e password (account_by_email email s))
      (legacy_valid e password (authenticated_account e password (account_by_email email s)) ms) ms)"
    and "distinct (map (mu_id \<circ> mb_user) ms)"
  shows "m \<in> set ms" and "knows_password e email password (mb_user m) s" and "platform \<longrightarrow> operates e m"
proof -
  show "m \<in> set ms" and "platform \<longrightarrow> operates e m" using assms(1) by (auto simp: login_pool_def)
  show "knows_password e email password (mb_user m) s"
  proof (cases "truthy_str (authenticated_account e password (account_by_email email s))")
    case True
    then show ?thesis using find_SomeD [of _ "ad_accounts s"]
      by (fastforce simp: authenticated_account_def account_by_email_def knows_password_def split: option.splits if_splits)
  next
    case False
    then obtain n where "n \<in> set ms" "mu_id (mb_user n) = mu_id (mb_user m)"
      "ae_compare e password (mu_passwordHash (mb_user n))"
      using assms(1) by (auto simp: login_pool_def legacy_valid_def)
    then show ?thesis
      using \<open>m \<in> set ms\<close> assms(2) distinct_map_eq [of "mu_id \<circ> mb_user" ms n m] by (simp add: knows_password_def)
  qed
qed


lemma distinct_members:
  "all_with_relations s us = Inr ms \<Longrightarrow> map mb_user ms = us"
  by (induction us arbitrary: ms) (auto simp: with_relations_def split: sum.splits option.splits)

lemma distinct_member_ids:
  assumes "all_with_relations s (filter P (ad_users s)) = Inr ms" and "distinct (map mu_id (ad_users s))"
  shows "distinct (map (mu_id \<circ> mb_user) ms)"
  using distinct_members [OF assms(1)] distinct_map_filter [OF assms(2), of P] by (metis map_map)

text \<open>A sign-in that names no choice of organisations comes down to one member in good standing.\<close>

lemma login_member:
  assumes run: "login e email password org platform s = (Inr r, t)" and r: "\<And>orgs. r \<noteq> ChooseOrganization orgs"
    and ids: "distinct (map mu_id (ad_users s))"
  obtains m acc auth legacy where "mb_user m \<in> set (ad_users s)" and "with_relations s (mb_user m) = Inr m"
    and "to_lower (mu_email (mb_user m)) = to_lower email" and "knows_password e (to_lower email) password (mb_user m) s"
    and "truthy_str org \<longrightarrow> Some (mu_orgId (mb_user m)) = org" and "platform \<longrightarrow> operates e m"
    and "mu_status (mb_user m) \<noteq> ''suspended''" and "oz_status (mb_org m) \<noteq> ''suspended''"
    and "resolvedEmailVerified m \<or> ae_appEnv e \<noteq> ''production''"
    and "sign_member_in e (to_lower email) platform acc auth legacy m s = (Inr r, t)"
proof -
  define acc where "acc = account_by_email (to_lower email) s"
  define auth where "auth = authenticated_account e password acc"
  obtain ms where ms: "all_with_relations s (filter (\<lambda>u. to_lower (mu_email u) = to_lower email) (ad_users s)) = Inr ms"
    and rest: "svc_bind (choose_member e (to_lower email) org platform acc auth (legacy_valid e password auth ms) ms)
      (enter e (to_lower email) platform acc auth (legacy_valid e password auth ms)) s = (Inr r, t)"
    using run by (auto simp: login_def svc_read_def Let_def acc_def auth_def svc_bind_Inr_iff [where m = "auth_lift _"]
      split: if_split_asm)
  from rest obtain choice s1 where choice: "choose_member e (to_lower email) org platform acc auth (legacy_valid e password auth ms) ms s = (Inr choice, s1)"
    and go: "enter e (to_lower email) platform acc auth (legacy_valid e password auth ms) choice s1 = (Inr r, t)"
    by (rule svc_bindE)
  obtain m where m: "choice = Inr m" using go r by (cases choice) (auto simp: enter_def)
  have picked: "s1 = s" "m \<in> set (login_pool e platform auth (legacy_valid e password auth ms) ms)"
    "truthy_str org \<longrightarrow> Some (mu_orgId (mb_user m)) = org"
    using choice pick_member_Inr unfolding m by (auto simp: choose_member_def Let_def split: if_split_asm)
  note known = pool_knows [OF picked(2) [unfolded auth_def acc_def] distinct_member_ids [OF ms ids]]
  note rel = all_with_relations_Inr [OF ms known(1)]
  show ?thesis
    by (rule that [of m acc auth "legacy_valid e password auth ms"])
      (use rel known picked go in \<open>auto simp: m enter_def svc_bind_Inr_iff check_standing_Inr\<close>)
qed

text \<open>What the parts of a sign-in leave alone.\<close>

lemma sessions_kept:
  "recordAuthAudit event email sev actor org outcome s = (Inr x, t) \<Longrightarrow> ad_sessions t = ad_sessions s"
  "update_user i f s = (Inr x, t) \<Longrightarrow> ad_sessions t = ad_sessions s"
  "stamp_login e i s = (Inr x, t) \<Longrightarrow> ad_sessions t = ad_sessions s"
  "syncOrgRoles org' s = (Inr x, t) \<Longrightarrow> ad_sessions t = ad_sessions s"
  "sync_password acc auth legacy u s = (Inr x, t) \<Longrightarrow> ad_sessions t = ad_sessions s"
proof -
  show *: "update_user i f s = (Inr x, t) \<Longrightarrow> ad_sessions t = ad_sessions s" for i f
    by (auto simp: update_user_def svc_bind_Inr_iff with_tenant_Inr_iff tx_update_one_def split: option.splits)
  then show "stamp_login e i s = (Inr x, t) \<Longrightarrow> ad_sessions t = ad_sessions s" by (simp add: stamp_login_def)
qed (auto simp: syncOrgRoles_def sync_password_def svc_modify_def dest!: recordAuthAudit_Inr
    split: option.splits if_split_asm)

lemma issue_tokens_Inr:
  "issue_tokens e m s = (Inr tokens, t) \<Longrightarrow> t = s\<lparr>ad_sessions := ad_sessions s @ [new_session e (mu_id (mb_user m)) (tp_refreshToken tokens)]\<rparr>"
  by (auto simp: issue_tokens_def generateTokenPair_def Let_def svc_bind_Inr_iff svc_modify_def)

lemma signed_in_Inr:
  assumes "sign_member_in e email platform acc auth legacy m s = (Inr (SignedIn uv ov tokens), t)"
  shows "\<not> requiresTwoFactor platform (mb_user m) s" and "uv_id uv = mu_id (mb_user m)"
    and "ad_sessions t = ad_sessions s @ [new_session e (mu_id (mb_user m)) (tp_refreshToken tokens)]"
proof -
  show first: "\<not> requiresTwoFactor platform (mb_user m) s"
    using assms by (auto simp: sign_member_in_def svc_read_def Let_def svc_bind_Inr_iff)
  obtain x1 s1 x2 s2 x3 s3 toks s4 x5 s5 where
      "sync_password acc auth legacy (mb_user m) s = (Inr x1, s1)" "stamp_login e (mu_id (mb_user m)) s1 = (Inr x2, s2)"
      "syncOrgRoles (mu_orgId (mb_user m)) s2 = (Inr x3, s3)" "issue_tokens e m s3 = (Inr toks, s4)"
      "recordAuthAudit ''auth.login_success'' email None (Some (mu_id (mb_user m))) (Some (mu_orgId (mb_user m))) ''success'' s4 = (Inr x5, s5)"
      "SignedIn (view_user e (role_of_user (mu_id (mb_user m)) s) m) (view_org (mb_org m)) toks = SignedIn uv ov tokens" "s5 = t"
    using assms unfolding sign_member_in_def svc_read_def Let_def if_not_P [OF first]
    by (elim svc_bindE) (rule that, assumption+, simp_all)
  then show "uv_id uv = mu_id (mb_user m)"
    and "ad_sessions t = ad_sessions s @ [new_session e (mu_id (mb_user m)) (tp_refreshToken tokens)]"
    by (auto simp: view_user_def Let_def dest!: sessions_kept issue_tokens_Inr)
qed


text \<open>
  What \<^verbatim>\<open>jsonwebtoken\<close> promises of a token with these claims: until it expires, verifying it with the
  secret it was signed with gives them back.
\<close>

definition tokens_verify :: "auth_env \<Rightarrow> jwt_claims \<Rightarrow> bool" where
  "tokens_verify e c \<longleftrightarrow> (\<forall>secret iat ttl now. iat \<le> now \<and> now < iat + ttl \<longrightarrow>
     ae_verify e (ae_sign e c secret iat ttl) secret now = Some c)"

lemma second_factor_Inr:
  assumes "sign_member_in e email platform acc auth legacy m s = (Inr (SecondFactor admin token uv ov), t)"
  shows "token = signed e (pending_claims platform (uv_id uv)) (ae_jwtSecret e) 300" and "uv_id uv = mu_id (mb_user m)"
    and "uv_orgId uv = mu_orgId (mb_user m)" and "\<exists>es. t = s\<lparr>ad_effects := es\<rparr>"
proof -
  have first: "requiresTwoFactor platform (mb_user m) s"
  proof (rule ccontr)
    assume n: "\<not> requiresTwoFactor platform (mb_user m) s"
    show False using assms unfolding sign_member_in_def svc_read_def Let_def if_not_P [OF n] by (elim svc_bindE) simp
  qed
  obtain x s1 where "recordAuthAudit ''auth.login_2fa_required'' email None (Some (mu_id (mb_user m))) (Some (mu_orgId (mb_user m))) ''success'' s = (Inr x, s1)"
      "svc_return (SecondFactor platform (signed e (pending_claims platform (mu_id (mb_user m))) (ae_jwtSecret e) 300)
         (view_user e (role_of_user (mu_id (mb_user m)) s) m) (view_org (mb_org m))) s1 = (Inr (SecondFactor admin token uv ov), t)"
    using assms unfolding sign_member_in_def svc_read_def Let_def if_P [OF first] by (rule svc_bindE)
  then show "token = signed e (pending_claims platform (uv_id uv)) (ae_jwtSecret e) 300" "uv_id uv = mu_id (mb_user m)"
    "uv_orgId uv = mu_orgId (mb_user m)" "\<exists>es. t = s\<lparr>ad_effects := es\<rparr>"
    by (auto simp: view_user_def Let_def dest!: recordAuthAudit_Inr)
qed

lemma validate_plain:
  assumes "user_cache_get e (cl_sub c) s = None" and "user_by_id (cl_sub c) s = Some u" and "with_relations s u = Inr m"
    and "mu_status u \<noteq> ''suspended''" and "oz_status (mb_org m) \<noteq> ''suspended''" and "\<not> cl_imp c"
  shows "\<exists>p t. validate e c s = (Inr p, t) \<and> pr_userId p = Some (mu_id u) \<and> pr_orgId p = mu_orgId u \<and> \<not> pr_impersonation p"
proof -
  have u: "mb_user m = u" using assms(3) with_relations_Inr by blast
  have "member_by_id (cl_sub c) s = Inr (Some m)" using assms(2,3) by (simp add: member_by_id_def)
  moreover obtain t where "user_cache_set e (cached m) s = (Inr (), t)"
    by (cases "cache_enabled e \<and> ae_redisUp e") (auto simp: user_cache_set_def svc_modify_def)
  ultimately have "resolveUser e (cl_sub c) s = (Inr (Some (cached m)), t)"
    using assms(1) by (simp add: resolveUser_def svc_read_def auth_lift_def svc_bind_def svc_return_def)
  then show ?thesis using assms(4-6) u
    by (simp add: validate_def svc_bind_def svc_read_def svc_return_def cached_def)
qed

lemma user_by_id_found:
  "distinct (map mu_id (ad_users s)) \<Longrightarrow> u \<in> set (ad_users s) \<Longrightarrow> user_by_id (mu_id u) s = Some u"
  using find_ex [of u "ad_users s" "\<lambda>x. mu_id x = mu_id u"] find_SomeD [of "\<lambda>x. mu_id x = mu_id u" "ad_users s"]
    distinct_map_eq [of mu_id "ad_users s" _ u] unfolding user_by_id_def by metis

text \<open>
  C33. The token that a sign-in answers with while the second factor is still to be checked is accepted as
  the bearer token of any request for the five minutes it lives: the request is authenticated as the user,
  in the user's own organisation, without the second factor.
\<close>

theorem pending_token_opens_the_api:
  assumes run: "login e email password org platform s = (Inr (SecondFactor admin token uv ov), t)"
    and ids: "distinct (map mu_id (ad_users s))" and laws: "tokens_verify e (pending_claims platform (uv_id uv))"
    and soon: "ae_now e \<le> now" "seconds now < seconds (ae_now e) + 300"
    and fresh: "user_cache_get (e\<lparr>ae_now := now\<rparr>) (uv_id uv) t = None"
  shows "\<exists>p t'. authenticate (e\<lparr>ae_now := now\<rparr>) token t = (Inr p, t') \<and>
     pr_userId p = Some (uv_id uv) \<and> pr_orgId p = uv_orgId uv \<and> \<not> pr_impersonation p"
proof -
  obtain m acc auth legacy where m: "mb_user m \<in> set (ad_users s)" "with_relations s (mb_user m) = Inr m"
      "mu_status (mb_user m) \<noteq> ''suspended''" "oz_status (mb_org m) \<noteq> ''suspended''"
      "sign_member_in e (to_lower email) platform acc auth legacy m s = (Inr (SecondFactor admin token uv ov), t)"
    by (rule login_member [OF run sign_in.distinct(2) ids]) (rule that)
  note w = second_factor_Inr [OF m(5)]
  obtain es where t: "t = s\<lparr>ad_effects := es\<rparr>" using w(4) by blast
  have "seconds (ae_now e) \<le> seconds now" using soon(1) by (simp add: seconds_def zdiv_mono1)
  then have v: "verified (e\<lparr>ae_now := now\<rparr>) token (ae_jwtSecret e) = Some (pending_claims platform (uv_id uv))"
    using laws soon(2) w(1) by (simp add: tokens_verify_def verified_def signed_def)
  have "user_by_id (uv_id uv) t = Some (mb_user m)"
    using user_by_id_found [OF ids m(1)] by (simp add: t w(2) user_by_id_def)
  moreover have "with_relations t (mb_user m) = Inr m"
    using m(2) by (simp add: t with_relations_def org_by_id_def account_of_def cong: option.case_cong)
  ultimately show ?thesis
    using validate_plain [of "e\<lparr>ae_now := now\<rparr>" "pending_claims platform (uv_id uv)" t "mb_user m" m] fresh m(3,4) v w(2,3)
    by (simp add: authenticate_def pending_claims_def)
qed

end
