(* ===== verification/SessionFacts.thy ===== *)
theory SessionFacts
  imports LoginFacts
begin

text \<open>
  What works once: a refresh token, a reset token and a backup code; and what a new password ends.
\<close>

section \<open>Refresh tokens\<close>

lemma refresh_Inr:
  assumes "refreshTokens e token s = (Inr (pair, op), t)"
  obtains u x where "refresh_user e token s = Inr u" and "x \<in> set (ad_sessions s)" and "live_session e (mu_id u) x"
    and "ls_tokenHash x = ae_sha256 e token"
    and "ad_sessions t = update_rows (\<lambda>y. ls_id y = ls_id x) (revoke e) (ad_sessions s) @ [new_session e (mu_id u) (tp_refreshToken pair)]"
proof -
  obtain u x where u: "refresh_user e token s = Inr u"
      and x: "findMatchingSession e (filter (live_session e (mu_id u)) (ad_sessions s)) token = Some x"
      and rest: "ad_sessions t = update_rows (\<lambda>y. ls_id y = ls_id x) (revoke e) (ad_sessions s) @ [new_session e (mu_id u) (tp_refreshToken pair)]"
    using assms by (auto simp: refreshTokens_def svc_read_def svc_bind_Inr_iff svc_modify_def Let_def generateTokenPair_def
      split: option.split_asm)
  show ?thesis
    by (rule that [OF u _ _ _ rest]) (use find_SomeD [OF x [unfolded findMatchingSession_def]] in simp_all)
qed

lemma revoke_simps [simp]:
  "ls_id (revoke e x) = ls_id x" "ls_userId (revoke e x) = ls_userId x" "ls_tokenHash (revoke e x) = ls_tokenHash x"
  "ls_revokedAt (revoke e x) = Some (ae_now e)"
  by (simp_all add: revoke_def)

lemma refresh_rejected:
  assumes "\<And>x. x \<in> set (ad_sessions s) \<Longrightarrow> ls_tokenHash x = ae_sha256 e token \<Longrightarrow> ls_revokedAt x \<noteq> None"
  shows "\<exists>m. fst (refreshTokens e token s) = Inl (Unauthorized m)"
proof (cases "refresh_user e token s")
  case (Inl err)
  then have "err = invalid_refresh" by (auto simp: refresh_user_def split: option.split_asm if_split_asm)
  then show ?thesis using Inl by (simp add: refreshTokens_def svc_read_def auth_lift_def svc_bind_def svc_throw_def invalid_refresh_def)
next
  case (Inr u)
  have "findMatchingSession e (filter (live_session e (mu_id u)) (ad_sessions s)) token = None"
    using assms by (auto simp: findMatchingSession_def find_None_iff live_session_def)
  then show ?thesis using Inr by (simp add: refreshTokens_def svc_read_def auth_lift_def svc_bind_def svc_throw_def svc_return_def)
qed


section \<open>A new password\<close>

text \<open>Writing organisation by organisation changes the rows of all of them.\<close>

lemma foreach_org_rows:
  assumes "\<And>u. mu_orgId (f u) = mu_orgId u" and "\<And>u. P (f u) = P u" and "\<And>u. f (f u) = f u"
  shows "tx_foreach orgs (\<lambda>org. tx_modify (ad_users_update (update_rows (\<lambda>u. P u \<and> mu_orgId u = org) f))) s =
    Inr ((), s\<lparr>ad_users := update_rows (\<lambda>u. P u \<and> mu_orgId u \<in> set orgs) f (ad_users s)\<rparr>)"
proof (induction orgs arbitrary: s)
  case Nil
  show ?case by (simp add: tx_return_def update_rows_def)
next
  case (Cons org orgs)
  have "update_rows (\<lambda>u. P u \<and> mu_orgId u \<in> set orgs) f (update_rows (\<lambda>u. P u \<and> mu_orgId u = org) f us) =
      update_rows (\<lambda>u. P u \<and> mu_orgId u \<in> set (org # orgs)) f us" for us
    using assms by (auto simp: update_rows_def)
  then show ?case using Cons by (simp add: tx_bind_def tx_modify_def)
qed

definition shares_password :: "membership \<Rightarrow> membership \<Rightarrow> bool" where
  "shares_password u v \<longleftrightarrow> (if truthy_str (mu_accountId u) then mu_accountId v = mu_accountId u else mu_id v = mu_id u)"

lemma with_password_simps [simp]:
  "mu_id (with_password h u) = mu_id u" "mu_orgId (with_password h u) = mu_orgId u"
  "mu_accountId (with_password h u) = mu_accountId u" "with_password h (with_password h u) = with_password h u"
  by (simp_all add: with_password_def)

lemma reset_account_Inr:
  assumes "reset_account_tx e h acc s = Inr (x, t)"
  shows "ad_users t = update_rows (\<lambda>v. mu_accountId v = Some acc) (with_password h) (ad_users s)"
    and "ad_sessions t = update_rows (\<lambda>x. (\<exists>v\<in>set (ad_users s). mu_accountId v = Some acc \<and> ls_userId x = mu_id v) \<and>
      ls_revokedAt x = None) (revoke e) (ad_sessions s)"
    and "ad_resets t = ad_resets s"
proof -
  define siblings where "siblings = filter (\<lambda>u. mu_accountId u = Some acc) (ad_users s)"
  define orgs where "orgs = rev (remdups (rev (map mu_orgId siblings)))"
  obtain as where t: "t = ad_sessions_update (update_rows (\<lambda>x. ls_userId x \<in> set (map mu_id siblings) \<and> ls_revokedAt x = None) (revoke e))
      ((ad_accounts_update as s)\<lparr>ad_users := update_rows (\<lambda>u. mu_accountId u = Some acc \<and> mu_orgId u \<in> set orgs) (with_password h) (ad_users s)\<rparr>)"
    using assms unfolding orgs_def siblings_def
    by (auto simp: reset_account_tx_def tx_bind_Inr_iff tx_update_one_def tx_read_def Let_def revoke_sessions_def
      tx_modify_def foreach_org_rows split: option.split_asm)
  have "update_rows (\<lambda>u. mu_accountId u = Some acc \<and> mu_orgId u \<in> set orgs) (with_password h) (ad_users s) =
      update_rows (\<lambda>v. mu_accountId v = Some acc) (with_password h) (ad_users s)"
    by (auto simp: update_rows_def orgs_def siblings_def)
  then show "ad_users t = update_rows (\<lambda>v. mu_accountId v = Some acc) (with_password h) (ad_users s)"
    "ad_resets t = ad_resets s" by (simp_all add: t)
  show "ad_sessions t = update_rows (\<lambda>x. (\<exists>v\<in>set (ad_users s). mu_accountId v = Some acc \<and> ls_userId x = mu_id v) \<and>
      ls_revokedAt x = None) (revoke e) (ad_sessions s)"
    by (auto simp: t siblings_def update_rows_def)
qed

lemma reset_user_Inr:
  assumes "reset_user_tx e h i s = Inr (x, t)"
  shows "ad_users t = update_rows (\<lambda>v. mu_id v = i) (with_password h) (ad_users s)"
    and "ad_sessions t = update_rows (\<lambda>x. ls_userId x = i \<and> ls_revokedAt x = None) (revoke e) (ad_sessions s)"
    and "ad_resets t = ad_resets s"
  using assms by (auto simp: reset_user_tx_def tx_bind_Inr_iff tx_update_one_def revoke_sessions_def tx_modify_def
    split: option.split_asm)

lemma reset_tx_Inr:
  assumes "reset_tx e h r u s = Inr (x, t)" and "u \<in> set (ad_users s)" and "pw_userId r = mu_id u"
  shows "ad_users t = update_rows (shares_password u) (with_password h) (ad_users s)"
    and "ad_sessions t = update_rows (\<lambda>x. (\<exists>v\<in>set (ad_users s). shares_password u v \<and> ls_userId x = mu_id v) \<and>
      ls_revokedAt x = None) (revoke e) (ad_sessions s)"
    and "ad_resets t = update_rows (\<lambda>x. pw_id x = pw_id r) (use_up e) (ad_resets s)"
proof -
  obtain s1 where s1: "s1 = ad_resets_update (update_rows (\<lambda>x. pw_id x = pw_id r) (use_up e)) s"
    and run: "(if truthy_str (mu_accountId u) then reset_account_tx e h (the (mu_accountId u)) else reset_user_tx e h (pw_userId r)) s1 = Inr (x, t)"
    using assms(1) by (auto simp: reset_tx_def tx_bind_Inr_iff tx_update_one_def split: option.split_asm)
  have "ad_users t = update_rows (shares_password u) (with_password h) (ad_users s1) \<and>
    ad_sessions t = update_rows (\<lambda>x. (\<exists>v\<in>set (ad_users s1). shares_password u v \<and> ls_userId x = mu_id v) \<and>
      ls_revokedAt x = None) (revoke e) (ad_sessions s1) \<and> ad_resets t = ad_resets s1"
  proof (cases "truthy_str (mu_accountId u)")
    case True
    then obtain acc where acc: "mu_accountId u = Some acc" by (cases "mu_accountId u") simp_all
    have "shares_password u = (\<lambda>v. mu_accountId v = Some acc)" using True by (simp add: shares_password_def acc fun_eq_iff)
    then show ?thesis using reset_account_Inr [of e h acc s1] run True by (simp add: acc)
  next
    case False
    have "shares_password u = (\<lambda>v. mu_id v = mu_id u)" using False by (simp add: shares_password_def fun_eq_iff)
    moreover have "(\<exists>v\<in>set (ad_users s1). mu_id v = mu_id u \<and> w = mu_id v) \<longleftrightarrow> w = mu_id u" for w
      using assms(2) by (auto simp: s1)
    ultimately show ?thesis using reset_user_Inr [of e h "mu_id u" s1] run False assms(3) by simp
  qed
  then show "ad_users t = update_rows (shares_password u) (with_password h) (ad_users s)"
    "ad_sessions t = update_rows (\<lambda>x. (\<exists>v\<in>set (ad_users s). shares_password u v \<and> ls_userId x = mu_id v) \<and>
      ls_revokedAt x = None) (revoke e) (ad_sessions s)"
    "ad_resets t = update_rows (\<lambda>x. pw_id x = pw_id r) (use_up e) (ad_resets s)"
    by (simp_all add: s1)
qed

lemma use_up_simps [simp]:
  "pw_id (use_up e r) = pw_id r" "pw_tokenHash (use_up e r) = pw_tokenHash r" "pw_usedAt (use_up e r) = Some (ae_now e)"
  by (simp_all add: use_up_def)

lemma reset_recorded_Inr: "reset_recorded u s = (Inr x, t) \<Longrightarrow> \<exists>es. t = s\<lparr>ad_effects := es\<rparr>"
  by (auto simp: reset_recorded_def svc_bind_Inr_iff dest!: recordAuthAudit_Inr)


section \<open>Backup codes\<close>

lemma match_at_None: "match_at P xs = None \<longleftrightarrow> filter P xs = []"
  by (induction xs) auto

lemma match_at_Some:
  "match_at P xs = Some i \<Longrightarrow> i < length xs \<and> P (xs ! i) \<and> Suc (length (filter P (without i xs))) = length (filter P xs)"
proof (induction xs arbitrary: i)
  case (Cons x xs)
  show ?case
  proof (cases "P x")
    case True
    then show ?thesis using Cons.prems by (auto simp: without_def)
  next
    case False
    then obtain j where "match_at P xs = Some j" "i = Suc j" using Cons.prems by auto
    then show ?thesis using Cons.IH [of j] False by (simp add: without_def)
  qed
qed simp

lemma check_code_spent:
  assumes "check_code e secret (Some hs) code = ByBackupCode left" and "length (filter (compareBackupCode e code) hs) = 1"
    and "\<not> (truthy_str secret \<and> verifyTotp (e\<lparr>ae_now := now\<rparr>) (the secret) code)"
  shows "check_code (e\<lparr>ae_now := now\<rparr>) secret left code = Rejected"
proof -
  obtain i where i: "match_at (compareBackupCode e code) hs = Some i" "left = hashes_left i hs"
    using assms(1) by (auto simp: check_code_def split: if_split_asm option.split_asm)
  have same: "compareBackupCode (e\<lparr>ae_now := now\<rparr>) = compareBackupCode e"
    by (simp add: fun_eq_iff compareBackupCode_def hashBackupCode_def Let_def)
  have "filter (compareBackupCode e code) (without i hs) = []" using match_at_Some [OF i(1)] assms(2) by simp
  then have "match_at (compareBackupCode e code) (without i hs) = None" unfolding match_at_None .
  then show ?thesis using assms(3)
    by (cases "without i hs = []") (simp_all add: check_code_def i(2) hashes_left_def Let_def same)
qed

lemma update_user_Inr:
  assumes "update_user i f s = (Inr x, t)"
  shows "t = s\<lparr>ad_users := update_rows (\<lambda>u. mu_id u = i) f (ad_users s)\<rparr>"
  using assms by (auto simp: update_user_def svc_bind_Inr_iff with_tenant_Inr_iff tx_update_one_def split: option.splits)

lemma finish_Inr:
  assumes "finish_second_step e m s = (Inr r, t)"
  shows "ad_users t = update_rows (\<lambda>u. mu_id u = mu_id (mb_user m)) (mu_lastLoginAt_update (\<lambda>_. Some (ae_now e))) (ad_users s)"
    and "ad_orgs t = ad_orgs s"
  using assms by (auto simp: finish_second_step_def Let_def svc_bind_Inr_iff svc_read_def syncOrgRoles_def stamp_login_def
    dest!: update_user_Inr issue_tokens_Inr recordAuthAudit_Inr)

lemma second_step_Inr:
  assumes run: "completeTwoFactorLogin e token code s = (Inr r, t)"
    and pending: "verified e token (ae_jwtSecret e) = Some c" "cl_typ c = Some ''2fa_pending''"
    and u: "user_by_id (cl_sub c) s = Some u"
  obtains m s1 where "with_relations s u = Inr m" and "mu_status u \<noteq> ''suspended''" and "oz_status (mb_org m) \<noteq> ''suspended''"
    and "mu_twoFactorEnabled u"
    and "accept_code e False u (mu_twoFactorSecret u, mu_twoFactorBackupHashes u) code s = (Inr (), s1)"
    and "finish_second_step e m s1 = (Inr r, t)"
proof -
  have p: "pending_session e token s = (Inr (cl_sub c, False), s)"
    using pending by (simp add: pending_session_def svc_return_def)
  note step = svc_bind_Inr [where m = "pending_session e token", OF p]
  obtain m where m: "with_relations s u = Inr m" and mb: "member_by_id (cl_sub c) s = Inr (Some m)"
    using run u by (auto simp: completeTwoFactorLogin_def step svc_read_def svc_bind_Inr_iff member_by_id_def
      split: sum.split_asm)
  have mu: "mb_user m = u" using with_relations_Inr [OF m] by simp
  have "auth_lift (member_by_id (cl_sub c) s) s = (Inr (Some m), s)" by (simp add: mb)
  note found = svc_bind_Inr [where m = "auth_lift (member_by_id (cl_sub c) s)", OF this]
  have body: "svc_bind (standing_suspended (mu_email u) m) (\<lambda>_. case factor_of False u s of
           None \<Rightarrow> second_factor_failed (mu_email u) (Some u) ''2fa_not_required'' (not_required False)
         | Some factor \<Rightarrow> svc_bind (accept_code e False u factor code) (\<lambda>_. finish_second_step e m)) s = (Inr r, t)"
    using run by (simp add: completeTwoFactorLogin_def step svc_read_def found mu Let_def cong del: option.case_cong_weak)
  then have on: "mu_twoFactorEnabled u" by (auto simp: svc_bind_Inr_iff standing_Inr factor_of_def split: if_split_asm)
  then show ?thesis using that [OF m] body
    by (auto simp: svc_bind_Inr_iff standing_Inr factor_of_def mu)
qed

lemma second_step_rejected:
  assumes pending: "verified e token (ae_jwtSecret e) = Some c" "cl_typ c = Some ''2fa_pending''"
    and u: "user_by_id (cl_sub c) s = Some u" "with_relations s u = Inr m"
    and "mu_status u \<noteq> ''suspended''" and "oz_status (mb_org m) \<noteq> ''suspended''"
    and "check_code e (mu_twoFactorSecret u) (mu_twoFactorBackupHashes u) (no_spaces code) = Rejected"
  shows "\<exists>msg. fst (completeTwoFactorLogin e token code s) = Inl (Unauthorized msg)"
proof -
  have mu: "mb_user m = u" using with_relations_Inr [OF u(2)] by simp
  have p: "pending_session e token s = (Inr (cl_sub c, False), s)"
    using pending by (simp add: pending_session_def svc_return_def)
  note step = svc_bind_Inr [where m = "pending_session e token", OF p]
  have "auth_lift (member_by_id (cl_sub c) s) s = (Inr (Some m), s)" by (simp add: member_by_id_def u)
  note found = svc_bind_Inr [where m = "auth_lift (member_by_id (cl_sub c) s)", OF this]
  have "standing_suspended (mu_email u) m s = (Inr (), s)" using assms(5,6) by (simp add: standing_Inr mu)
  note stands = svc_bind_Inr [where m = "standing_suspended (mu_email u) m", OF this]
  have "completeTwoFactorLogin e token code s = svc_bind (second_factor_failed (mu_email u) (Some u) ''invalid_2fa_code''
      ''Invalid authenticator code'' :: unit auth) (\<lambda>_. finish_second_step e m) s \<or> completeTwoFactorLogin e token code s =
      second_factor_failed (mu_email u) (Some u) ''2fa_not_required'' (not_required False) s"
    using assms(7) by (cases "mu_twoFactorEnabled u") (simp_all add: completeTwoFactorLogin_def step svc_read_def found stands mu Let_def
      factor_of_def accept_code_def)
  then show ?thesis
    by (auto simp: second_factor_failed_def refuse_def recordAuthAudit_def Let_def auth_log_def svc_bind_def svc_modify_def svc_throw_def)
qed


end
