(* ===== verification/AuthSteps.thy ===== *)
theory AuthSteps
  imports SessionFacts
begin

text \<open>
  Every call of the authentication services as one step, what an invariant has to survive to be
  carried through all of them, and the two invariants that matter: a second factor that is on has a
  secret, and a refresh token that was ended stays ended.
\<close>

section \<open>The steps\<close>

text \<open>\<open>A\<close> says in which environments calls are made.\<close>

inductive auth_step :: "(auth_env \<Rightarrow> bool) \<Rightarrow> auth_db \<Rightarrow> auth_db \<Rightarrow> bool" for A where
  as_login: "A e \<Longrightarrow> auth_step A s (snd (login e email password org platform s))"
| as_second: "A e \<Longrightarrow> auth_step A s (snd (completeTwoFactorLogin e token code s))"
| as_refresh: "A e \<Longrightarrow> auth_step A s (snd (refreshTokens e token s))"
| as_request: "A e \<Longrightarrow> auth_step A s (snd (authenticate e token s))"
| as_invalidate: "A e \<Longrightarrow> auth_step A s (snd (invalidate e user s))"
| as_setup: "A e \<Longrightarrow> auth_step A s (snd (beginSetup e user ch s))"
| as_enable: "A e \<Longrightarrow> auth_step A s (snd (enable e user code ch s))"
| as_disable: "A e \<Longrightarrow> auth_step A s (snd (disable e user password code ch s))"
| as_cancel: "auth_step A s (snd (cancelSetup user ch s))"
| as_regenerate: "A e \<Longrightarrow> auth_step A s (snd (regenerateBackupCodes e user password code ch s))"
| as_forgot: "A e \<Longrightarrow> auth_step A s (snd (forgotPassword e email s))"
| as_reset: "A e \<Longrightarrow> auth_step A s (snd (resetPassword e token password s))"
| as_verify: "A e \<Longrightarrow> auth_step A s (snd (verifyEmail e token s))"
| as_logout: "A e \<Longrightarrow> auth_step A s (snd (logout e user s))"
| as_impersonate: "A e \<Longrightarrow> auth_step A s (snd (startImpersonation e user email target role branch s))"
| as_leave: "A e \<Longrightarrow> auth_step A s (snd (endImpersonationAudit e user target jti s))"

lemma preserves_tx_update_rows:
  "preserves_tx I (tx_modify (upd (update_rows P f))) \<Longrightarrow> preserves_tx I (tx_update_one tab upd P f)"
  by (auto simp: preserves_tx_def tx_update_one_def tx_modify_def split: option.splits)

lemma preserves_modify_tx: "preserves_tx I (tx_modify f) \<Longrightarrow> preserves I (svc_modify f)"
  by (simp add: preserves_def preserves_tx_def svc_modify_def tx_modify_def)

lemma preserves_sum: "(\<And>x. preserves I (f x)) \<Longrightarrow> (\<And>x. preserves I (g x)) \<Longrightarrow> preserves I (case_sum f g r)"
  by (cases r) simp_all

section \<open>What carries an invariant\<close>

text \<open>
  A change of a membership that leaves its identity alone, turns no second factor on and takes no secret
  from one that is on; a change of an account that leaves its identity alone.
\<close>

definition plain_change :: "(membership \<Rightarrow> membership) \<Rightarrow> bool" where
  "plain_change f \<longleftrightarrow> (\<forall>u. mu_id (f u) = mu_id u \<and> mu_orgId (f u) = mu_orgId u \<and> mu_email (f u) = mu_email u \<and>
     (mu_twoFactorEnabled (f u) \<longrightarrow> mu_twoFactorEnabled u \<and> mu_twoFactorSecret (f u) = mu_twoFactorSecret u))"

definition same_account :: "(identity_account \<Rightarrow> identity_account) \<Rightarrow> bool" where
  "same_account g \<longleftrightarrow> (\<forall>a. ia_id (g a) = ia_id a \<and> ia_email (g a) = ia_email a)"

locale auth_invariant =
  fixes I :: "auth_db \<Rightarrow> bool" and A :: "auth_env \<Rightarrow> bool"
  assumes blinds: "blind ad_effects_update I" "blind ad_cache_update I" "blind ad_blacklist_update I"
      "blind ad_orgs_update I" "blind ad_verifications_update I" "blind ad_resets_update I"
    and sessions_new: "A e \<Longrightarrow> I s \<Longrightarrow> I (ad_sessions_update (\<lambda>xs. xs @ [new_session e i (refresh_token e c)]) s)"
    and sessions_end: "I s \<Longrightarrow> I (ad_sessions_update (update_rows P (revoke e)) s)"
    and accounts_change: "same_account g \<Longrightarrow> I s \<Longrightarrow> I (ad_accounts_update (update_rows R g) s)"
    and users_change: "plain_change f \<Longrightarrow> I s \<Longrightarrow> I (ad_users_update (update_rows Q f) s)"
    and switched_on: "I s \<Longrightarrow> user_by_id i s = Some u \<Longrightarrow> truthy_str (mu_twoFactorSecret u) \<Longrightarrow>
      I (ad_users_update (update_rows (\<lambda>v. mu_id v = i) (set_hashes Organization v \<circ> set_enabled Organization True)) s)"
    and given_up: "I s \<Longrightarrow> user_by_id i s = Some u \<Longrightarrow> \<not> mu_twoFactorEnabled u \<Longrightarrow>
      I (ad_users_update (update_rows (\<lambda>v. mu_id v = i) (set_hashes Organization None \<circ> set_secret Organization None)) s)"
begin

lemma tables: "preserves_tx I (tx_modify (ad_orgs_update h))"
    "preserves_tx I (tx_modify (ad_verifications_update k))" "preserves_tx I (tx_modify (ad_resets_update l))"
    "preserves_tx I (tx_modify (ad_sessions_update (update_rows P (revoke e))))"
    "preserves I (svc_modify (ad_cache_update p))" "preserves I (svc_modify (ad_blacklist_update q))"
    "preserves I (svc_modify (ad_effects_update r))"
  using blinds by (auto intro: preserves_tx_blind preserves_tx_modify preserves_modify sessions_end dest: blindD)

lemma accounts: "same_account g \<Longrightarrow> preserves_tx I (tx_modify (ad_accounts_update (update_rows R g)))"
  by (intro preserves_tx_modify accounts_change)

lemma kept_accounts: "same_account (ia_passwordHash_update f)" "same_account (ia_emailVerified_update h)"
    "same_account (\<lambda>a. a\<lparr>ia_passwordHash := p, ia_emailVerified := v\<rparr>)"
  by (simp_all add: same_account_def)

lemma users: "plain_change f \<Longrightarrow> preserves_tx I (tx_modify (ad_users_update (update_rows Q f)))"
  by (intro preserves_tx_modify users_change)

lemma lifts: "preserves I (auth_lift r)"
  by (cases r) (simp_all add: auth_lift_def pres_intros)

lemma audits: "preserves I (auth_log ev)" "preserves I (recordAuthAudit event email sev actor org outcome)"
    "preserves I (syncOrgRoles og)"
  by (simp_all add: auth_log_def recordAuthAudit_def syncOrgRoles_def Let_def tables)

lemma refusals: "preserves I a \<Longrightarrow> preserves I (refuse a err)"
  by (simp add: refuse_def pres_intros)

lemmas basics = tables lifts audits refusals preserves_sum pres_intros

lemma updates: "plain_change f \<Longrightarrow> preserves I (update_user i f)"
  unfolding update_user_def by (intro basics preserves_tx_update_rows users)

lemma syncs: "plain_change f \<Longrightarrow> preserves_tx I (syncAdminTwoFactorToMemberships ms f)"
  unfolding syncAdminTwoFactorToMemberships_def by (intro basics users)

lemma tokens_issued: "A e \<Longrightarrow> preserves I (generateTokenPair e user org slug email)"
  unfolding generateTokenPair_def Let_def by (intro basics preserves_modify sessions_new)

lemma refreshed: "A e \<Longrightarrow> preserves I (refreshTokens e token)"
  unfolding refreshTokens_def Let_def by (intro basics tokens_issued preserves_modify_tx)

lemma stamped: "preserves I (stamp_login e user)"
  unfolding stamp_login_def by (intro updates) (simp add: plain_change_def)

lemma failures: "preserves I (login_failed email outcome msg)" "preserves I (login_blocked email u sev outcome msg)"
    "preserves I (second_factor_failed email v outcome msg)"
  unfolding login_failed_def login_blocked_def second_factor_failed_def by (intro basics)+

lemma standing: "preserves I (standing_suspended email m)" "preserves I (check_standing e email m)"
  unfolding check_standing_def standing_suspended_def by (intro basics failures)+

lemma password_synced: "preserves I (sync_password acc auth legacy u)"
  unfolding sync_password_def by (intro basics preserves_modify_tx accounts kept_accounts)

lemma picked: "preserves I (pick_member e email org pool)"
  unfolding pick_member_def by (cases pool rule: list.exhaust) (auto intro!: basics failures split: list.split)

lemma chosen: "preserves I (choose_member e email org platform acc auth legacy ms)"
  unfolding choose_member_def Let_def by (intro basics failures picked)

lemma signed_in: "A e \<Longrightarrow> preserves I (sign_member_in e email platform acc auth legacy m)"
  unfolding sign_member_in_def Let_def issue_tokens_def by (intro basics password_synced stamped tokens_issued)

lemma logged_in: "A e \<Longrightarrow> preserves I (login e email password org platform)"
  unfolding login_def Let_def enter_def by (intro basics chosen standing signed_in)

lemma spent: "preserves I (spend_backup_code admin u left)"
  unfolding spend_backup_code_def by (intro basics syncs updates; simp add: plain_change_def)

lemma accepted: "preserves I (accept_code e admin u factor code)"
  unfolding accept_code_def
  by (cases "check_code e (fst factor) (snd factor) (no_spaces code)") (simp_all add: failures spent pres_intros)

lemma pending: "preserves I (pending_session e token)"
  unfolding pending_session_def by (intro basics failures)

lemma completed: "A e \<Longrightarrow> preserves I (completeTwoFactorLogin e token code)"
  unfolding completeTwoFactorLogin_def finish_second_step_def issue_tokens_def Let_def
  by (intro basics pending failures standing accepted stamped tokens_issued)

lemma requested: "preserves I (authenticate e token)"
  unfolding authenticate_def validate_def resolveUser_def user_cache_set_def by (intro basics)

lemma invalidated: "preserves I (invalidate e user)"
  unfolding invalidate_def by (intro basics)

text \<open>Writing a factor: any plain change, and every change on the channel of the dashboard.\<close>

lemma factor_written: "plain_change f \<Longrightarrow> preserves I (write_factor ch user f)"
  unfolding write_factor_def by (cases ch) (auto intro!: basics updates syncs)

lemma plain_factor:
  "plain_change (set_hashes ch v)" "plain_change (set_hashes ch v \<circ> set_enabled ch False \<circ> set_secret ch w)"
  "plain_change (set_hashes AdminDashboard v \<circ> set_enabled AdminDashboard b)"
  "plain_change (set_hashes AdminDashboard v \<circ> set_secret AdminDashboard w)"
  by (cases ch; simp add: plain_change_def set_hashes_def set_enabled_def set_secret_def)+

lemma factor_found: "preserves I (factor_or_fail ch user)"
  unfolding factor_or_fail_def by (intro basics)

lemma factor_audited: "preserves I (factor_audit event user v sev outcome)"
  unfolding factor_audit_def by (intro basics)

lemma set_up: "preserves I (beginSetup e user ch)"
  unfolding beginSetup_def by (intro basics factor_found factor_written plain_factor)

lemma enabled_dashboard: "preserves I (enable e user code AdminDashboard)"
  unfolding enable_def by (intro basics factor_audited factor_written plain_factor)

lemma updated_now:
  assumes "I s" and "I (ad_users_update (update_rows (\<lambda>v. mu_id v = i) f) s)"
  shows "I (snd (update_user i f s))"
  using assms by (auto simp: update_user_def svc_bind_def with_tenant_def tx_update_one_def svc_return_def split: option.split)

lemma then_audited:
  assumes "I (snd (m s))" and "\<And>a. preserves I (f a)"
  shows "I (snd (svc_bind m f s))"
  using assms preservesD [OF assms(2)] by (auto simp: svc_bind_def split: prod.split sum.split)

lemma enabled_organization: "preserves I (enable e user code Organization)"
proof (rule preservesI)
  fix s assume I: "I s"
  show "I (snd (enable e user code Organization s))"
  proof (cases "user_by_id user s")
    case None
    then show ?thesis using I by (simp add: enable_def svc_read_def view_factor_def svc_throw_def)
  next
    case (Some u)
    have fails: "I (snd (refuse (factor_audit ev user v sev out) err s))" for ev v sev out err
      using I by (intro preservesD [OF refusals [OF factor_audited]])
    show ?thesis
    proof (cases "truthy_str (mu_twoFactorSecret u) \<and> \<not> mu_twoFactorEnabled u \<and> verifyTotp e (the (mu_twoFactorSecret u)) code")
      case True
      have "I (snd (write_factor Organization user (set_hashes Organization v \<circ> set_enabled Organization True) s))" for v
        using updated_now [OF I switched_on [OF I Some]] True by (simp add: write_factor_def)
      then have "I (snd (svc_bind (write_factor Organization user (set_hashes Organization v \<circ> set_enabled Organization True)) f s))"
        if "\<And>a. preserves I (f a)" for v and f :: "unit \<Rightarrow> string list auth"
        using that by (rule then_audited)
      then show ?thesis using True Some
        by (simp add: enable_def svc_read_def view_factor_def factor_audited pres_intros)
    next
      case False
      then show ?thesis using I Some fails by (auto simp: enable_def svc_read_def view_factor_def svc_throw_def)
    qed
  qed
qed

lemma enabled: "preserves I (enable e user code ch)"
  by (cases ch) (simp_all add: enabled_organization enabled_dashboard)

lemma cancelled_dashboard: "preserves I (cancelSetup user AdminDashboard)"
  unfolding cancelSetup_def by (intro basics factor_found factor_written plain_factor)

lemma cancelled_organization: "preserves I (cancelSetup user Organization)"
proof (rule preservesI)
  fix s assume I: "I s"
  show "I (snd (cancelSetup user Organization s))"
  proof (cases "user_by_id user s")
    case None
    then show ?thesis using I
      by (simp add: cancelSetup_def factor_or_fail_def svc_read_def view_factor_def svc_throw_def svc_bind_def)
  next
    case (Some u)
    have "\<not> mu_twoFactorEnabled u \<Longrightarrow> I (snd (write_factor Organization user (set_hashes Organization None \<circ> set_secret Organization None) s))"
      using updated_now [OF I given_up [OF I Some]] by (simp add: write_factor_def)
    then show ?thesis using I Some
      by (simp add: cancelSetup_def factor_or_fail_def svc_read_def view_factor_def svc_throw_def svc_return_def svc_bind_def)
  qed
qed

lemma cancelled: "preserves I (cancelSetup user ch)"
  by (cases ch) (simp_all add: cancelled_organization cancelled_dashboard)

lemma disabled: "preserves I (disable e user password code ch)"
  unfolding disable_def by (intro basics factor_audited factor_written plain_factor)

lemma regenerated: "preserves I (regenerateBackupCodes e user password code ch)"
  unfolding regenerateBackupCodes_def by (intro basics factor_audited factor_written plain_factor)

lemma forgotten: "preserves I (forgotPassword e email)"
  unfolding forgotPassword_def Let_def reset_requested_def send_reset_link_def
  by (intro basics preserves_modify_tx)

lemma password_set: "plain_change (with_password h)"
  by (simp add: plain_change_def with_password_def)

lemma sessions_revoked: "preserves_tx I (revoke_sessions e us)"
  unfolding revoke_sessions_def by (intro basics)

lemma password_was_reset: "preserves I (resetPassword e token password)"
  unfolding resetPassword_def reset_tx_def reset_account_tx_def reset_user_tx_def reset_failed_def reset_recorded_def Let_def
  by (intro basics preserves_tx_update_rows accounts kept_accounts users password_set sessions_revoked)

lemma address_verified: "preserves I (verifyEmail e token)"
proof -
  have "plain_change (\<lambda>x. x\<lparr>mu_emailVerified := True, mu_status := ''active''\<rparr>)" by (simp add: plain_change_def)
  then show ?thesis unfolding verifyEmail_def verify_tx_def
    by (intro basics preserves_tx_update_rows accounts kept_accounts users)
qed

lemma logged_out: "preserves I (logout e user)"
  unfolding logout_def Let_def by (intro basics sessions_revoked)

lemma acting_inside: "preserves I (startImpersonation e user email target role branch)"
  unfolding startImpersonation_def Let_def by (intro basics)

lemma left: "preserves I (endImpersonationAudit e user target jti)"
  unfolding endImpersonationAudit_def by (intro basics)

theorem step_keeps: "auth_step A s t \<Longrightarrow> I s \<Longrightarrow> I t"
  by (induction rule: auth_step.induct)
    (blast intro: preservesD logged_in completed refreshed requested invalidated set_up enabled disabled cancelled
      regenerated forgotten password_was_reset address_verified logged_out acting_inside left)+

theorem steps_keep: "(auth_step A)\<^sup>*\<^sup>* s t \<Longrightarrow> I s \<Longrightarrow> I t"
  by (induction rule: rtranclp_induct) (auto intro: step_keeps)

end

section \<open>Two invariants\<close>

text \<open>A second factor that is on has a secret to be checked against.\<close>

definition factors_ok :: "auth_db \<Rightarrow> bool" where
  "factors_ok s \<longleftrightarrow> distinct (map mu_id (ad_users s)) \<and>
     (\<forall>u\<in>set (ad_users s). mu_twoFactorEnabled u \<longrightarrow> truthy_str (mu_twoFactorSecret u))"

lemma factors_ok_change:
  assumes "factors_ok s" and "\<And>u. mu_id (f u) = mu_id u"
    and "\<And>u. u \<in> set (ad_users s) \<Longrightarrow> Q u \<Longrightarrow> mu_twoFactorEnabled (f u) \<Longrightarrow> truthy_str (mu_twoFactorSecret (f u))"
  shows "factors_ok (ad_users_update (update_rows Q f) s)"
  using assms by (auto simp: factors_ok_def map_update_rows_same set_update_rows)

lemma factors_ok_row: "factors_ok s \<Longrightarrow> user_by_id i s = Some u \<Longrightarrow> v \<in> set (ad_users s) \<Longrightarrow> mu_id v = i \<Longrightarrow> v = u"
  using user_by_id_found [of s v] by (simp add: factors_ok_def)

lemma factors_plain: "plain_change f \<Longrightarrow> factors_ok s \<Longrightarrow> factors_ok (ad_users_update (update_rows Q f) s)"
  by (rule factors_ok_change) (auto simp: plain_change_def factors_ok_def)

lemma factors_on:
  "factors_ok s \<Longrightarrow> user_by_id i s = Some u \<Longrightarrow> truthy_str (mu_twoFactorSecret u) \<Longrightarrow>
   factors_ok (ad_users_update (update_rows (\<lambda>v. mu_id v = i) (set_hashes Organization h \<circ> set_enabled Organization True)) s)"
  by (rule factors_ok_change) (auto simp: set_hashes_def set_enabled_def dest: factors_ok_row)

lemma factors_given_up:
  "factors_ok s \<Longrightarrow> user_by_id i s = Some u \<Longrightarrow> \<not> mu_twoFactorEnabled u \<Longrightarrow>
   factors_ok (ad_users_update (update_rows (\<lambda>v. mu_id v = i) (set_hashes Organization None \<circ> set_secret Organization None)) s)"
  by (rule factors_ok_change) (auto simp: set_hashes_def set_secret_def dest: factors_ok_row)

interpretation factors: auth_invariant factors_ok "\<lambda>_. True"
  by unfold_locales (assumption | rule factors_plain factors_on factors_given_up | simp add: blind_def factors_ok_def)+

text \<open>Every session with this hash was ended.\<close>

definition ended_token :: "string \<Rightarrow> auth_db \<Rightarrow> bool" where
  "ended_token h s \<longleftrightarrow> (\<forall>x\<in>set (ad_sessions s). ls_tokenHash x = h \<longrightarrow> ls_revokedAt x \<noteq> None)"

definition issues_other :: "string \<Rightarrow> auth_env \<Rightarrow> bool" where
  "issues_other h e \<longleftrightarrow> (\<forall>c. ae_sha256 e (refresh_token e c) \<noteq> h)"

interpretation ended: auth_invariant "ended_token h" "issues_other h" for h
  by unfold_locales
    (auto simp: blind_def ended_token_def issues_other_def new_session_def set_update_rows)

end
