(* ===== verification/AuthFacts.thy ===== *)
theory AuthFacts
  imports AuthSteps
begin

text \<open>
  What holds over any sequence of calls of the authentication services, and the people and tokens
  of the examples.
\<close>

text \<open>
  Over any sequence of calls a second factor that is on has a secret that codes can be checked against.
\<close>

theorem second_factor_keeps_its_secret:
  assumes "(auth_step (\<lambda>_. True))\<^sup>*\<^sup>* s t" and "factors_ok s"
  shows "factors_ok t"
  using assms by (rule factors.steps_keep)

text \<open>
  C37. Signing out is final: whatever calls of the authentication services follow, a refresh token of the
  user from before is refused, as long as no new token has the same hash.
\<close>

theorem signing_out_is_final:
  assumes out: "logout e user s = (Inr (), s1)"
    and own: "\<forall>x\<in>set (ad_sessions s). ls_tokenHash x = h \<longrightarrow> ls_userId x = user"
    and steps: "(auth_step (issues_other h))\<^sup>*\<^sup>* s1 t" and token: "ae_sha256 e' token = h"
  shows "\<exists>m. fst (refreshTokens e' token t) = Inl (Unauthorized m)"
proof -
  have "ad_sessions s1 = update_rows (\<lambda>x. ls_userId x \<in> set [user] \<and> ls_revokedAt x = None) (revoke e) (ad_sessions s)"
    using out by (auto simp: logout_def svc_read_def Let_def svc_bind_Inr_iff with_tenant_Inr_iff revoke_sessions_def
      tx_modify_def dest!: recordAuthAudit_Inr)
  then have "ended_token h s1" using own
    by (auto simp: ended_token_def set_update_rows split: if_split_asm) (metis revoke_simps(4))
  then have "ended_token h t" using ended.steps_keep [OF steps] by simp
  then show ?thesis using refresh_rejected [of t e' token] token by (auto simp: ended_token_def)
qed

section \<open>Examples\<close>

definition ann_claims :: jwt_claims where
  "ann_claims = pending_claims False ''u1''"

text \<open>A token is its secret followed by one mark for every second until it expires.\<close>

definition mark_sign :: "jwt_claims \<Rightarrow> string \<Rightarrow> int \<Rightarrow> int \<Rightarrow> string" where
  "mark_sign c secret iat ttl = secret @ replicate (nat (iat + ttl)) (CHR ''x'')"

definition mark_verify :: "string \<Rightarrow> string \<Rightarrow> int \<Rightarrow> jwt_claims option" where
  "mark_verify token secret now = (if take (length secret) token = secret \<and>
     now < int (length token) - int (length secret) then Some ann_claims else None)"

definition auth_demo :: "time \<Rightarrow> auth_env" where
  "auth_demo now = \<lparr>ae_now = now, ae_appEnv = ''production'', ae_nodeEnv = ''production'', ae_jwtSecret = ''jwt'',
     ae_refreshSecret = ''ref'', ae_accessTtl = 2, ae_refreshTtl = 9, ae_impersonationTtl = None, ae_cacheTtl = Some ''0'',
     ae_operatorIds = None, ae_operatorEmails = None, ae_appUrl = [], ae_ip = None, ae_userAgent = None, ae_redisUp = True,
     ae_mailerUp = True, ae_newId = ''n1'', ae_newAccountId = ''a2'', ae_newToken = ''tok'', ae_newSecret = ''sec'', ae_newCodes = [''ABC''],
     ae_compare = (\<lambda>plain stored. stored = ''$2'' @ plain), ae_bcrypt = (\<lambda>plain. ''$2'' @ plain),
     ae_sha256 = (\<lambda>x. CHR ''#'' # x), ae_totp = (\<lambda>secret code now. code = ''123456''),
     ae_sign = mark_sign, ae_verify = mark_verify\<rparr>"

definition ann :: "bool \<Rightarrow> membership" where
  "ann factor = \<lparr>mu_id = ''u1'', mu_accountId = Some ''a1'', mu_orgId = ''o1'', mu_email = ''ann@x.io'',
     mu_passwordHash = ''$2old'', mu_firstName = None, mu_lastName = None, mu_emailVerified = True, mu_status = ''active'',
     mu_lastLoginAt = None, mu_twoFactorSecret = Some ''sec'', mu_twoFactorEnabled = factor,
     mu_twoFactorBackupHashes = Some [''$2AAA'', ''$2BBB''], mu_adminTwoFactorSecret = None, mu_adminTwoFactorEnabled = False,
     mu_adminTwoFactorBackupHashes = None\<rparr>"

definition ann_session :: login_session where
  "ann_session = \<lparr>ls_id = ''s1'', ls_userId = ''u1'', ls_tokenHash = ''#refxxxxx'', ls_ipAddress = None, ls_userAgent = None,
     ls_expiresAt = 9000, ls_revokedAt = None\<rparr>"

definition ann_reset :: password_reset where
  "ann_reset = \<lparr>pw_id = ''r1'', pw_userId = ''u1'', pw_tokenHash = ''#tok'', pw_expiresAt = 9000, pw_usedAt = None\<rparr>"

definition anns_world :: "bool \<Rightarrow> auth_db" where
  "anns_world factor = \<lparr>ad_accounts = [\<lparr>ia_id = ''a1'', ia_email = ''ann@x.io'', ia_passwordHash = ''$2Passw0rd'', ia_emailVerified = True\<rparr>],
     ad_users = [ann factor], ad_orgs = [\<lparr>oz_id = ''o1'', oz_name = ''X'', oz_slug = ''x'', oz_status = ''active'', oz_productSku = ''qms'',
       oz_onboardingStep = ''completed'', oz_timezone = ''UTC''\<rparr>],
     ad_sessions = [ann_session], ad_resets = [ann_reset], ad_verifications = [], ad_cache = [],
     ad_blacklist = [], ad_effects = [], ad_platform = empty_qdb\<rparr>"

lemma anns_ids: "distinct (map mu_id (ad_users (anns_world b)))" "distinct (map ls_tokenHash (ad_sessions (anns_world b)))"
    "distinct (map pw_tokenHash (ad_resets (anns_world b)))"
  by (simp_all add: anns_world_def)

definition anns_login :: "bool \<Rightarrow> (error + sign_in) \<times> auth_db" where
  "anns_login factor = login (auth_demo 1000) ''Ann@x.io'' ''Passw0rd'' None False (anns_world factor)"

lemma ann_signs_in: "\<exists>uv ov tokens. fst (anns_login False) = Inr (SignedIn uv ov tokens)"
proof -
  have "(case fst (anns_login False) of Inr (SignedIn uv ov tokens) \<Rightarrow> True | _ \<Rightarrow> False)" by code_simp
  then show ?thesis by (auto split: sum.split_asm sign_in.split_asm)
qed


lemma ann_is_asked: "\<exists>token uv ov. fst (anns_login True) = Inr (SecondFactor False token uv ov) \<and> uv_id uv = ''u1''"
proof -
  have "(case fst (anns_login True) of Inr (SecondFactor a token uv ov) \<Rightarrow> \<not> a \<and> uv_id uv = ''u1'' | _ \<Rightarrow> False)" by code_simp
  then show ?thesis by (auto split: sum.split_asm sign_in.split_asm)
qed

lemma demo_tokens_verify: "tokens_verify (auth_demo now) ann_claims"
  by (auto simp: tokens_verify_def auth_demo_def mark_sign_def mark_verify_def)

theorem pending_token_opens_the_api_witness:
  "\<exists>token uv ov p t. fst (anns_login True) = Inr (SecondFactor False token uv ov) \<and>
     authenticate (auth_demo 4000) token (snd (anns_login True)) = (Inr p, t) \<and> pr_userId p = Some ''u1'' \<and> \<not> pr_impersonation p"
proof -
  obtain token uv ov where r: "fst (anns_login True) = Inr (SecondFactor False token uv ov)" and uv: "uv_id uv = ''u1''"
    using ann_is_asked by (elim exE conjE)
  then have run: "login (auth_demo 1000) ''Ann@x.io'' ''Passw0rd'' None False (anns_world True) =
      (Inr (SecondFactor False token uv ov), snd (anns_login True))" by (simp add: anns_login_def prod_eq_iff)
  have later: "(auth_demo 1000)\<lparr>ae_now := 4000\<rparr> = auth_demo 4000" by (simp add: auth_demo_def)
  have laws: "tokens_verify (auth_demo 1000) (pending_claims False (uv_id uv))"
    using demo_tokens_verify unfolding uv ann_claims_def .
  have soon: "ae_now (auth_demo 1000) \<le> 4000" "seconds 4000 < seconds (ae_now (auth_demo 1000)) + 300"
    by (simp_all add: auth_demo_def seconds_def)
  have "user_cache_get ((auth_demo 1000)\<lparr>ae_now := 4000\<rparr>) (uv_id uv) (snd (anns_login True)) = None"
    unfolding uv by code_simp
  from pending_token_opens_the_api [OF run anns_ids(1) laws soon this] show ?thesis
    unfolding later uv using r by (elim exE conjE) (intro exI conjI)
qed

definition anns_refresh :: "(error + token_pair \<times> bool) \<times> auth_db" where
  "anns_refresh = refreshTokens (auth_demo 1000) ''refxxxxx'' (anns_world False)"


definition anns_reset :: "(error + bool) \<times> auth_db" where
  "anns_reset = resetPassword (auth_demo 1000) ''tok'' ''Passw0rd2'' (anns_world True)"


definition anns_second :: "(error + sign_in) \<times> auth_db" where
  "anns_second = completeTwoFactorLogin (auth_demo 1000) ''jwtxxxxx'' ''aaa'' (anns_world True)"


theorem second_factor_keeps_its_secret_witness:
  "factors_ok (anns_world True) \<and> factors_ok (snd (cancelSetup ''u1'' Organization (anns_world True)))"
proof -
  have "factors_ok (anns_world True)" by code_simp
  then show ?thesis using second_factor_keeps_its_secret [OF r_into_rtranclp [where r = "auth_step _", OF as_cancel]] by simp
qed

theorem signing_out_is_final_witness:
  "\<exists>m. fst (refreshTokens (auth_demo 2000) ''refxxxxx'' (snd (login (auth_demo 1000) ''Ann@x.io'' ''Passw0rd'' None False
     (snd (logout (auth_demo 1000) ''u1'' (anns_world False)))))) = Inl (Unauthorized m)"
proof -
  have "fst (logout (auth_demo 1000) ''u1'' (anns_world False)) = Inr ()" by code_simp
  then have out: "logout (auth_demo 1000) ''u1'' (anns_world False) = (Inr (), snd (logout (auth_demo 1000) ''u1'' (anns_world False)))"
    by (simp add: prod_eq_iff)
  have own: "\<forall>x\<in>set (ad_sessions (anns_world False)). ls_tokenHash x = ''#refxxxxx'' \<longrightarrow> ls_userId x = ''u1''" by code_simp
  have "refresh_token (auth_demo 1000) c = ''refxxxxxxxxxx''" for c
    by (simp add: refresh_token_def signed_def auth_demo_def mark_sign_def seconds_def or_default_def numeral_eq_Suc)
  then have "issues_other ''#refxxxxx'' (auth_demo 1000)" by (simp add: issues_other_def auth_demo_def)
  then show ?thesis
    by (intro signing_out_is_final [OF out own r_into_rtranclp [where r = "auth_step _", OF as_login]]) (assumption | simp add: auth_demo_def)+
qed

end
