(* ===== verification/MemberFacts.thy ===== *)
theory MemberFacts
  imports Members AuthFacts AccessFacts AppointmentFacts
begin

text \<open>
  Memberships over all calls of authentication and of the administration of members: one for each
  address in an organisation, one account for each address. Who is invited by whom, and what taking a
  member out of service does not do.
\<close>

section \<open>The steps\<close>

inductive member_step :: "auth_db \<Rightarrow> auth_db \<Rightarrow> bool" where
  ms_auth: "auth_step (\<lambda>_. True) s t \<Longrightarrow> member_step s t"
| ms_invite: "member_step s (snd (invite e q org actor d s))"
| ms_factor: "member_step s (snd (resetTwoFactorForUser e org user actor s))"
| ms_password: "member_step s (snd (setPasswordForUser e org user actor password s))"
| ms_deactivate: "member_step s (snd (deactivate e org user actor s))"
| ms_activate: "member_step s (snd (activate e q org user actor s))"
| ms_delete: "member_step s (snd (deleteMember e org user actor s))"

text \<open>What an invariant of authentication has to survive besides, to be carried through these.\<close>

locale member_invariant = auth_invariant I "\<lambda>_. True" for I +
  assumes platform: "blind ad_platform_update I"
    and account_new: "account_by_email (ia_email a) s = None \<Longrightarrow> I s \<Longrightarrow> I (ad_accounts_update (\<lambda>as. as @ [a]) s)"
    and member_new: "\<not> list_ex (\<lambda>v. mu_orgId v = mu_orgId u \<and> (mu_email v = mu_email u \<or> mu_accountId v = mu_accountId u)) (ad_users s) \<Longrightarrow>
      I s \<Longrightarrow> I (ad_users_update (\<lambda>us. us @ [u]) s)"
    and members_gone: "I s \<Longrightarrow> I (s\<lparr>ad_users := filter P (ad_users s), ad_sessions := filter Q (ad_sessions s),
      ad_resets := rs, ad_verifications := vs, ad_platform := p\<rparr>)"
begin

lemma on_platforms: "preserves I (on_platform f)"
  using blindD [OF platform] by (auto intro!: preservesI simp: on_platform_def split: prod.split)

lemma checks: "preserves I (check_platform f)" "preserves I (getMember org user)" "preserves I (check_seats q org what)"
  unfolding check_platform_def getMember_def check_seats_def by (intro basics on_platforms)+

lemma managed: "preserves I (manage_other org user actor own)"
  unfolding manage_other_def by (intro basics checks)

lemma accounted: "preserves_tx I (account_for e email hash)"
  unfolding preserves_tx_def account_for_def tx_read_def
  using account_new by (auto simp: tx_return_def tx_bind_def tx_modify_def split: option.splits)

lemma inserted: "preserves_tx I (insert_member u)"
proof (rule preserves_txI)
  fix s x t assume I: "I s" and run: "insert_member u s = Inr (x, t)"
  then have "I (ad_users_update (\<lambda>us. us @ [u]) s)"
    by (intro member_new) (auto simp: insert_member_def tx_read_def tx_throw_def split: if_split_asm)
  then have all: "I (ad_platform_update g (ad_users_update (\<lambda>us. us @ [u]) s))" for g by (rule blindD [OF platform])
  obtain g where t: "t = ad_users_update (\<lambda>us. us @ [u]) (ad_platform_update g s)"
    using run by (auto simp: insert_member_def tx_read_def tx_throw_def tx_modify_def split: if_split_asm)
  have "t = ad_platform_update g (ad_users_update (\<lambda>us. us @ [u]) s)" by (cases s) (simp add: t)
  then show "I t" using all by (rule ssubst)
qed

lemma role_assigned: "preserves_tx I (assign_role user role ids)"
  unfolding assign_role_def by (intro preserves_tx_modify) (rule blindD [OF platform])

lemma invited: "preserves I (invite e q org actor d)"
  unfolding invite_def invite_tx_def Let_def by (intro basics checks accounted inserted role_assigned)

lemma member_changed: "plain_change f \<Longrightarrow> preserves_tx I (change_member_tx e user f)"
  unfolding change_member_tx_def by (intro basics preserves_tx_update_rows users sessions_revoked)

lemma factor_reset: "preserves I (resetTwoFactorForUser e org user actor)"
proof -
  have "plain_change without_factors" by (simp add: plain_change_def without_factors_def)
  then show ?thesis unfolding resetTwoFactorForUser_def by (intro basics managed member_changed)
qed

lemma password_given: "preserves I (setPasswordForUser e org user actor password)"
  unfolding setPasswordForUser_def by (intro basics managed member_changed password_set)

lemma status_set: "preserves I (set_status e user st)"
proof -
  have "plain_change (mu_status_update (\<lambda>_. st))" by (simp add: plain_change_def)
  then show ?thesis unfolding set_status_def by (intro basics updates invalidated)
qed

lemma out_of_service: "preserves I (deactivate e org user actor)"
  unfolding deactivate_def by (intro basics checks status_set)

lemma into_service: "preserves I (activate e q org user actor)"
  unfolding activate_def by (intro basics checks status_set)

lemma deleted: "preserves I (deleteMember e org user actor)"
proof -
  have "preserves_tx I (delete_member_tx user)"
    unfolding delete_member_tx_def by (intro basics preserves_tx_modify members_gone)
  then show ?thesis unfolding deleteMember_def by (intro basics checks invalidated)
qed

theorem member_step_keeps: "member_step s t \<Longrightarrow> I s \<Longrightarrow> I t"
  by (induction rule: member_step.induct)
    (blast intro: step_keeps preservesD invited factor_reset password_given out_of_service into_service deleted)+

theorem member_steps_keep: "member_step\<^sup>*\<^sup>* s t \<Longrightarrow> I s \<Longrightarrow> I t"
  by (induction rule: rtranclp_induct) (auto intro: member_step_keeps)

end

section \<open>One membership for each address\<close>

definition memberships_unique :: "auth_db \<Rightarrow> bool" where
  "memberships_unique s \<longleftrightarrow> distinct (map (\<lambda>u. (mu_orgId u, mu_email u)) (ad_users s)) \<and>
     distinct (map ia_email (ad_accounts s))"

lemma unique_rows:
  "(\<And>u. mu_orgId (f u) = mu_orgId u \<and> mu_email (f u) = mu_email u) \<Longrightarrow> memberships_unique s \<Longrightarrow>
   memberships_unique (ad_users_update (update_rows Q f) s)"
  by (simp add: memberships_unique_def map_update_rows_same)

lemma unique_users_change:
  "plain_change f \<Longrightarrow> memberships_unique s \<Longrightarrow> memberships_unique (ad_users_update (update_rows Q f) s)"
  by (rule unique_rows) (simp_all add: plain_change_def)

lemma unique_factors:
  "memberships_unique s \<Longrightarrow> memberships_unique (ad_users_update (update_rows Q (set_hashes Organization h \<circ> set_enabled Organization b)) s)"
  "memberships_unique s \<Longrightarrow> memberships_unique (ad_users_update (update_rows Q (set_hashes Organization h \<circ> set_secret Organization v)) s)"
  by (rule unique_rows; simp add: set_hashes_def set_enabled_def set_secret_def)+

lemma unique_accounts_change:
  "same_account g \<Longrightarrow> memberships_unique s \<Longrightarrow> memberships_unique (ad_accounts_update (update_rows R g) s)"
  by (simp add: memberships_unique_def same_account_def map_update_rows_same)

lemma unique_account_new:
  "account_by_email (ia_email a) s = None \<Longrightarrow> memberships_unique s \<Longrightarrow> memberships_unique (ad_accounts_update (\<lambda>as. as @ [a]) s)"
  by (auto simp: memberships_unique_def account_by_email_def find_None_iff)

lemma unique_member_new:
  "\<not> list_ex (\<lambda>v. mu_orgId v = mu_orgId u \<and> (mu_email v = mu_email u \<or> mu_accountId v = mu_accountId u)) (ad_users s) \<Longrightarrow>
   memberships_unique s \<Longrightarrow> memberships_unique (ad_users_update (\<lambda>us. us @ [u]) s)"
  by (auto simp: memberships_unique_def list_ex_iff)

lemma unique_members_gone:
  "memberships_unique s \<Longrightarrow> memberships_unique (s\<lparr>ad_users := filter P (ad_users s), ad_sessions := filter Q (ad_sessions s),
      ad_resets := rs, ad_verifications := vs, ad_platform := p\<rparr>)"
  by (simp add: memberships_unique_def distinct_map_filter)

interpretation unique: member_invariant memberships_unique
  by unfold_locales
    (assumption | rule unique_factors unique_users_change unique_accounts_change unique_account_new unique_member_new unique_members_gone |
      simp add: blind_def memberships_unique_def)+


section \<open>Invitations\<close>

lemma check_platform_Inr: "check_platform f s = (Inr a, t) \<longleftrightarrow> f (ad_platform s) = Inr a \<and> t = s"
  by (auto simp: check_platform_def svc_read_def)

lemma check_seats_Inr:
  assumes "check_seats q org what s = (Inr x, t)"
  shows "fst (checkLimit q org ''maxUsers'' (Some (int (active_seats org s))) (ad_platform s)) = None"
    and "\<exists>p. t = s\<lparr>ad_platform := p\<rparr> \<and> q_roles p = q_roles (ad_platform s) \<and> q_branches p = q_branches (ad_platform s) \<and>
      q_roleAssignments p = q_roleAssignments (ad_platform s)"
proof -
  obtain p where "checkLimit q org ''maxUsers'' (Some (int (active_seats org s))) (ad_platform s) = (None, p)" "t = s\<lparr>ad_platform := p\<rparr>"
    using assms by (auto simp: check_seats_def svc_read_def svc_bind_Inr_iff on_platform_def split: prod.split_asm option.split_asm)
  then show "fst (checkLimit q org ''maxUsers'' (Some (int (active_seats org s))) (ad_platform s)) = None"
    "\<exists>p. t = s\<lparr>ad_platform := p\<rparr> \<and> q_roles p = q_roles (ad_platform s) \<and> q_branches p = q_branches (ad_platform s) \<and>
      q_roleAssignments p = q_roleAssignments (ad_platform s)"
    by (auto simp: checkLimit_def getLimits_def split: prod.split_asm option.split_asm)
qed

lemma account_for_Inr:
  "account_for e email hash s = Inr (x, t) \<Longrightarrow> ad_users t = ad_users s \<and> ad_sessions t = ad_sessions s \<and> ad_platform t = ad_platform s"
  by (auto simp: account_for_def tx_read_def tx_bind_def tx_return_def tx_modify_def split: option.split_asm)

lemma insert_member_Inr:
  "insert_member u s = Inr (x, t) \<Longrightarrow> ad_users t = ad_users s @ [u] \<and> ad_sessions t = ad_sessions s \<and>
     q_roleAssignments (ad_platform t) = q_roleAssignments (ad_platform s)"
  by (auto simp: insert_member_def tx_read_def tx_throw_def tx_modify_def split: if_split_asm)

lemma assign_role_Inr:
  "assign_role user role ids s = Inr (x, t) \<Longrightarrow> ad_users t = ad_users s \<and> ad_sessions t = ad_sessions s \<and>
     q_roleAssignments (ad_platform t) = q_roleAssignments (ad_platform s) @
       map (\<lambda>b. \<lparr>ra_userId = user, ra_branchId = b, ra_role = role\<rparr>) (assigned_branches role ids)"
  by (auto simp: assign_role_def tx_modify_def)

lemma invite_tx_Inr:
  assumes "invite_tx e org d role ids s = Inr (u, t)"
  shows "mu_orgId u = org \<and> mu_email u = to_lower (iv_email d) \<and> ad_users t = ad_users s @ [u] \<and> ad_sessions t = ad_sessions s \<and>
    q_roleAssignments (ad_platform t) = q_roleAssignments (ad_platform s) @
      map (\<lambda>b. \<lparr>ra_userId = mu_id u, ra_branchId = b, ra_role = role\<rparr>) (assigned_branches role ids)"
proof -
  obtain acc hash s1 x s2 y where run: "account_for e (to_lower (iv_email d)) (ae_bcrypt e (iv_password d)) s = Inr ((acc, hash), s1)"
      "insert_member u s1 = Inr (x, s2)" "assign_role (mu_id u) role ids s2 = Inr (y, t)" "u = new_member e org d acc hash"
    using assms by (auto simp: invite_tx_def tx_bind_Inr_iff Let_def tx_return_def split: prod.split_asm)
  show ?thesis using account_for_Inr [OF run(1)] insert_member_Inr [OF run(2)] assign_role_Inr [OF run(3)] run(4)
    by (simp add: new_member_def)
qed

text \<open>As many rows as distinct names: all of them were found.\<close>

lemma counted_branches:
  assumes "distinct (map br_id bs)" and "distinct ids"
    and "count_rows (\<lambda>b. br_orgId b = org \<and> br_id b \<in> set ids) bs = length ids"
  shows "set ids \<subseteq> br_id ` {b \<in> set bs. br_orgId b = org}"
proof -
  define rows where "rows = filter (\<lambda>b. br_orgId b = org \<and> br_id b \<in> set ids) bs"
  have "card (br_id ` set rows) = length rows"
    using distinct_card [of "map br_id rows"] distinct_map_filter [OF assms(1)] by (simp add: rows_def)
  then have "card (br_id ` set rows) = card (set ids)"
    using assms(3) distinct_card [OF assms(2)] by (simp add: rows_def count_rows_def)
  moreover have "br_id ` set rows \<subseteq> set ids" by (auto simp: rows_def)
  ultimately have "br_id ` set rows = set ids" by (simp add: card_subset_eq)
  then show ?thesis by (auto simp: rows_def)
qed

lemma validated_branches:
  assumes run: "validateBranchIds org names q = Inr ids" and rows: "distinct (map br_id (q_branches q))"
  shows "set ids \<subseteq> br_id ` {b \<in> set (q_branches q). br_orgId b = org}"
proof -
  define unique where "unique = rev (remdups (rev (filter (\<lambda>x. x \<noteq> []) (map js_trim names))))"
  have "ids = [] \<or> ids = unique \<and> count_rows (\<lambda>b. br_orgId b = org \<and> br_id b \<in> set unique) (q_branches q) = length unique"
    using run unfolding validateBranchIds_def unique_def [symmetric] Let_def by (auto split: if_split_asm)
  moreover have "distinct unique" by (simp add: unique_def)
  ultimately show ?thesis using counted_branches [OF rows, of unique org] by auto
qed

text \<open>
  C39. An invitation is made by somebody who may assign the role it gives, while the plan has a seat left
  for an active member. It adds one membership, under the address in lower case, and assignments of that
  role alone, to branches of the organisation or to the organisation as a whole, and starts no session.
\<close>

theorem invitation_is_authorised:
  assumes run: "invite e q org actor d s = (Inr u, t)" and ids: "distinct (map br_id (q_branches (ad_platform s)))"
  shows "\<exists>role. role \<in> set (q_roles (ad_platform s)) \<and> ro_orgId role = org \<and>
     canActorAssignRole (map_option role_name (resolveUserHighestSystemRole org actor (ad_platform s))) (Some (ro_name role)) \<and>
     fst (checkLimit q org ''maxUsers'' (Some (int (active_seats org s))) (ad_platform s)) = None \<and>
     mu_orgId u = org \<and> mu_email u = to_lower (iv_email d) \<and> ad_users t = ad_users s @ [u] \<and> ad_sessions t = ad_sessions s \<and>
     (\<exists>bs. q_roleAssignments (ad_platform t) = q_roleAssignments (ad_platform s) @
        map (\<lambda>b. \<lparr>ra_userId = mu_id u, ra_branchId = b, ra_role = role\<rparr>) bs \<and>
        set bs \<subseteq> insert None (Some ` br_id ` {b \<in> set (q_branches (ad_platform s)). br_orgId b = org}))"
proof -
  obtain x s1 role ids where may: "assertActorMayAssignRoleId org actor (iv_roleId d) (ad_platform s) = Inr ()"
      and seats: "check_seats q org ''Deactivate someone or upgrade to invite more.'' s = (Inr x, s1)"
      and role: "invited_role org (iv_roleId d) (ad_platform s1) = Inr role"
      and chosen: "validateBranchIds org (iv_branchIds d) (ad_platform s1) = Inr ids"
      and tx: "invite_tx e org d role ids s1 = Inr (u, t)"
    using run by (auto simp: invite_def svc_bind_Inr_iff check_platform_Inr svc_read_def with_tenant_Inr_iff
      split: if_split_asm)
  obtain p where s1: "s1 = s\<lparr>ad_platform := p\<rparr>" "q_roles p = q_roles (ad_platform s)" "q_branches p = q_branches (ad_platform s)"
      "q_roleAssignments p = q_roleAssignments (ad_platform s)"
    using check_seats_Inr(2) [OF seats] by (elim exE conjE)
  have found: "List.find (\<lambda>r. ro_id r = iv_roleId d \<and> ro_orgId r = org) (q_roles (ad_platform s)) = Some role"
    using role by (auto simp: invited_role_def s1 split: option.split_asm)
  then have can: "canActorAssignRole (map_option role_name (resolveUserHighestSystemRole org actor (ad_platform s))) (Some (ro_name role))"
    using may by (simp add: assertActorMayAssignRoleId_def assertActorMayAssignRoleName_def Let_def split: if_split_asm)
  have "set ids \<subseteq> br_id ` {b \<in> set (q_branches (ad_platform s)). br_orgId b = org}"
    using validated_branches [OF chosen] ids by (simp add: s1)
  then have "set (assigned_branches role ids) \<subseteq> insert None (Some ` br_id ` {b \<in> set (q_branches (ad_platform s)). br_orgId b = org})"
    by (auto simp: assigned_branches_def)
  then show ?thesis
    using invite_tx_Inr [OF tx] found [THEN find_SomeD] can check_seats_Inr(1) [OF seats]
    by (intro exI [of _ role] conjI exI [of _ "assigned_branches role ids"]) (simp_all add: s1)
qed

section \<open>Out of service\<close>

definition tokens_of :: "auth_env \<Rightarrow> membership \<Rightarrow> string \<Rightarrow> token_pair \<times> bool" where
  "tokens_of e u slug = (let c = user_claims (mu_id u) (mu_orgId u) slug (mu_email u) in
     (\<lparr>tp_accessToken = signed e c (ae_jwtSecret e) (or_default (ae_accessTtl e) 900),
       tp_refreshToken = refresh_token e c, tp_expiresIn = or_default (ae_accessTtl e) 900\<rparr>,
      isPlatformOperator e (mu_id u) (mu_email u) slug))"

lemma refresh_result:
  "fst (refreshTokens e token s) = (case refresh_user e token s of Inl err \<Rightarrow> Inl err
     | Inr u \<Rightarrow> (case findMatchingSession e (filter (live_session e (mu_id u)) (ad_sessions s)) token of
         None \<Rightarrow> Inl (Unauthorized ''Session expired or revoked - please log in again'')
       | Some x \<Rightarrow> Inr (tokens_of e u (case org_by_id (mu_orgId u) s of None \<Rightarrow> [] | Some g \<Rightarrow> oz_slug g))))"
  by (simp add: refreshTokens_def svc_read_def auth_lift_def svc_bind_def svc_throw_def svc_return_def svc_modify_def
    generateTokenPair_def tokens_of_def Let_def split: sum.split option.split)

lemma deactivate_Inr:
  assumes "deactivate e org user actor s = (Inr (), t)"
  shows "ad_users t = update_rows (\<lambda>u. mu_id u = user) (mu_status_update (\<lambda>_. ''inactive'')) (ad_users s)"
    and "ad_sessions t = ad_sessions s" and "ad_orgs t = ad_orgs s"
    and "canActorManageUserWithRole (map_option role_name (resolveUserHighestSystemRole org actor (ad_platform s)))
      (map_option role_name (resolveUserHighestSystemRole org user (ad_platform s)))"
  using assms by (auto simp: deactivate_def getMember_def svc_read_def svc_bind_Inr_iff check_platform_Inr set_status_def
    invalidate_def svc_modify_def assertActorMayManageTargetUser_def Let_def dest!: update_user_Inr
    split: option.split_asm if_split_asm)


text \<open>An administrator's new password for a member leaves the account, and with it the old password, as it was.\<close>

lemma old_password_still_known:
  assumes "setPasswordForUser e org user actor password s = (Inr r, t)" and "a \<in> set (ad_accounts s)"
    and "ia_email a = email" and "ae_compare e old (ia_passwordHash a)"
  shows "knows_password e email old u t"
proof -
  have "ad_accounts t = ad_accounts s"
    using assms(1) by (auto simp: setPasswordForUser_def svc_bind_Inr_iff manage_other_def getMember_def svc_read_def
      check_platform_Inr with_tenant_Inr_iff change_member_tx_def tx_bind_Inr_iff tx_update_one_def revoke_sessions_def
      tx_modify_def split: if_split_asm option.split_asm)
  then show ?thesis using assms(2-4) by (auto simp: knows_password_def)
qed

section \<open>Examples\<close>

definition office :: auth_db where
  "office = (anns_world False)\<lparr>ad_users := [ann False, (ann False)\<lparr>mu_id := ''u2'', mu_accountId := Some ''a3'', mu_email := ''bob@x.io''\<rparr>],
     ad_platform := (staffed [(''u1'', Staff, Some ''b1''), (''u2'', Owner, None)])\<lparr>q_branches := [demo_branch ''UTC'']\<rparr>\<rparr>"

definition cleo :: invitation where
  "cleo = \<lparr>iv_email = ''Cleo@x.io'', iv_firstName = ''Cleo'', iv_lastName = ''X'', iv_roleId = ''manager'', iv_password = ''Passw0rd'',
     iv_branchIds = [''b1'', '' b1'']\<rparr>"


definition cleos_invitation :: "(error + membership) \<times> auth_db" where
  "cleos_invitation = invite (auth_demo 1000) demo_qenv ''o1'' ''u2'' cleo office"

theorem invitation_is_authorised_witness:
  "\<exists>u. fst cleos_invitation = Inr u \<and> mu_email u = to_lower ''Cleo@x.io'' \<and>
     ad_users (snd cleos_invitation) = ad_users office @ [u]"
proof -
  have "(case fst cleos_invitation of Inr u \<Rightarrow> True | Inl err \<Rightarrow> False)" by code_simp
  then obtain u where r: "fst cleos_invitation = Inr u" by (auto split: sum.split_asm)
  then have run: "invite (auth_demo 1000) demo_qenv ''o1'' ''u2'' cleo office = (Inr u, snd cleos_invitation)"
    by (simp add: cleos_invitation_def prod_eq_iff)
  have "distinct (map br_id (q_branches (ad_platform office)))" by code_simp
  moreover have "iv_email cleo = ''Cleo@x.io''" by (simp add: cleo_def)
  ultimately show ?thesis using r invitation_is_authorised [OF run] by auto
qed

definition ann_leaves :: "(error + unit) \<times> auth_db" where
  "ann_leaves = deactivate (auth_demo 1000) ''o1'' ''u1'' ''u2'' office"


end
